(* ===== verification/Vuzol_Prelude.thy ===== *)
theory Vuzol_Prelude
  imports Main "HOL-Library.AList"
begin

text \<open>
  Shared vocabulary of the development: results of fallible operations, JSON values as they are
  stored in the JSONB columns, the Python string operations the sources use, identifiers with
  their textual form, database tables as lists of rows, and the lemma collections that the
  component theories rely on.
\<close>

named_theorems res_simps \<open>decompositions of successful results\<close>
named_theorems table_simps \<open>reading a table after a row update\<close>

section \<open>Results of fallible operations\<close>

text \<open>
  A Python exception aborts the surrounding transaction, so an operation that raises returns only
  the error: the state it had reached is rolled back.
\<close>

datatype error =
    IllegalTransition string
  | LeaseLost string
  | EntityNotFound string
  | ValueError string
  | KeyError string
  | TypeError string
  | DomainError string
  | RuntimeError string
  | EffectUncertainError string
  | IntegrityError string
  | LookupError string
  | BudgetExceeded string
  | GoalBudgetExceeded string
  | IndependentReviewError string
  | GitError string
  | RegistryError string
  | ExecutorPreferenceError string
  | AssertionError

fun bindE :: "'e + 'a \<Rightarrow> ('a \<Rightarrow> 'e + 'b) \<Rightarrow> 'e + 'b" where
  "bindE (Inl e) f = Inl e"
| "bindE (Inr x) f = f x"

text \<open>A loop over a list whose body may raise.\<close>

fun foldE :: "('s \<Rightarrow> 'a \<Rightarrow> 'e + 's) \<Rightarrow> 's \<Rightarrow> 'a list \<Rightarrow> 'e + 's" where
  "foldE f s [] = Inr s"
| "foldE f s (x # xs) = bindE (f s x) (\<lambda>s'. foldE f s' xs)"

text \<open>A comprehension whose element expression may raise.\<close>

fun mapE :: "('a \<Rightarrow> 'e + 'b) \<Rightarrow> 'a list \<Rightarrow> 'e + 'b list" where
  "mapE f [] = Inr []"
| "mapE f (x # xs) = bindE (f x) (\<lambda>y. bindE (mapE f xs) (\<lambda>ys. Inr (y # ys)))"

lemma bindE_eq_Inr [res_simps]: "bindE m f = Inr y \<longleftrightarrow> (\<exists>x. m = Inr x \<and> f x = Inr y)"
  by (cases m) auto

lemma bindE_eq_Inl [res_simps]:
  "bindE m f = Inl e \<longleftrightarrow> m = Inl e \<or> (\<exists>x. m = Inr x \<and> f x = Inl e)"
  by (cases m) auto

lemma bindE_return [simp]: "bindE m Inr = m"
  by (cases m) auto

lemma bindE_assoc: "bindE (bindE m f) g = bindE m (\<lambda>x. bindE (f x) g)"
  by (cases m) auto

lemma foldE_append: "foldE f s (xs @ ys) = bindE (foldE f s xs) (\<lambda>s'. foldE f s' ys)"
  by (induction xs arbitrary: s) (auto simp: bindE_assoc)

text \<open>The invariant rule of such a loop.\<close>

lemma foldE_invariant:
  assumes "foldE f s xs = Inr t" and "I s"
    and "\<And>x s s'. x \<in> set xs \<Longrightarrow> I s \<Longrightarrow> f s x = Inr s' \<Longrightarrow> I s'"
  shows "I t"
  using assms
proof (induction xs arbitrary: s)
  case Nil
  then show ?case by simp
next
  case (Cons x xs)
  from Cons.prems(1) obtain s' where s': "f s x = Inr s'" and rest: "foldE f s' xs = Inr t"
    by (auto simp: res_simps)
  have "I s'" using Cons.prems(2,3) s' by auto
  with rest Cons.prems(3) show ?case by (intro Cons.IH) auto
qed

section \<open>JSON values\<close>

datatype json =
    JNull
  | JBool bool
  | JInt int
  | JStr string
  | JList "json list"
  | JObj "(string \<times> json) list"

type_synonym json_obj = "(string \<times> json) list"

text \<open>\<open>obj.get(key)\<close>: a missing key and a stored null are both Python's \<open>None\<close>.\<close>

definition jget :: "json_obj \<Rightarrow> string \<Rightarrow> json" where
  "jget obj key = (case map_of obj key of None \<Rightarrow> JNull | Some v \<Rightarrow> v)"

text \<open>\<open>{**obj, key: value}\<close>: an existing key keeps its position.\<close>

definition jput :: "json_obj \<Rightarrow> string \<Rightarrow> json \<Rightarrow> json_obj" where
  "jput obj key value = AList.update key value obj"

definition jhas :: "json_obj \<Rightarrow> string \<Rightarrow> bool" where
  "jhas obj key = (map_of obj key \<noteq> None)"

fun is_JStr :: "json \<Rightarrow> bool" where
  "is_JStr (JStr _) = True"
| "is_JStr _ = False"

fun is_JObj :: "json \<Rightarrow> bool" where
  "is_JObj (JObj _) = True"
| "is_JObj _ = False"

fun jstr_of :: "json \<Rightarrow> string option" where
  "jstr_of (JStr s) = Some s"
| "jstr_of _ = None"

text \<open>The payload of an \<open>isinstance(value, dict)\<close> guard, with the code's \<open>else {}\<close>.\<close>

fun jobj_or_empty :: "json \<Rightarrow> json_obj" where
  "jobj_or_empty (JObj m) = m"
| "jobj_or_empty _ = []"

text \<open>Python's truth value of a decoded JSON value.\<close>

fun py_truthy :: "json \<Rightarrow> bool" where
  "py_truthy JNull = False"
| "py_truthy (JBool b) = b"
| "py_truthy (JInt i) = (i \<noteq> 0)"
| "py_truthy (JStr s) = (s \<noteq> [])"
| "py_truthy (JList xs) = (xs \<noteq> [])"
| "py_truthy (JObj m) = (m \<noteq> [])"

text \<open>\<open>value == n\<close> for an integer literal: Python's \<open>False == 0\<close> and \<open>True == 1\<close> hold.\<close>

fun json_eq_int :: "json \<Rightarrow> int \<Rightarrow> bool" where
  "json_eq_int (JInt i) n = (i = n)"
| "json_eq_int (JBool b) n = (n = (if b then 1 else 0))"
| "json_eq_int _ n = False"

definition opt_json :: "string option \<Rightarrow> json" where
  "opt_json v = (case v of None \<Rightarrow> JNull | Some s \<Rightarrow> JStr s)"

lemma map_of_jput [simp]: "map_of (jput obj k v) = (map_of obj)(k \<mapsto> v)"
  by (simp add: jput_def update_conv')

lemma jget_jput [simp]: "jget (jput obj k v) k' = (if k' = k then v else jget obj k')"
  by (simp add: jget_def)

lemma jget_Nil [simp]: "jget [] k = JNull"
  by (simp add: jget_def)

lemma jget_Cons [simp]: "jget ((k, v) # obj) k' = (if k' = k then v else jget obj k')"
  by (simp add: jget_def)

lemma is_JStr_iff: "is_JStr j \<longleftrightarrow> (\<exists>s. j = JStr s)"
  by (cases j) auto

lemma jstr_of_eq_Some [simp]: "jstr_of j = Some s \<longleftrightarrow> j = JStr s"
  by (cases j) auto

section \<open>Python strings\<close>

text \<open>
  A string is a list of characters; the ASCII whitespace class is Python's for code points below
  128 (tab, newline, vertical tab, form feed, return, the four separators, space).
\<close>

definition py_isspace :: "char \<Rightarrow> bool" where
  "py_isspace c = (let n = of_char c :: nat in (9 \<le> n \<and> n \<le> 13) \<or> (28 \<le> n \<and> n \<le> 32))"

definition py_lstrip :: "string \<Rightarrow> string" where
  "py_lstrip s = dropWhile py_isspace s"

definition py_strip :: "string \<Rightarrow> string" where
  "py_strip s = rev (dropWhile py_isspace (rev (dropWhile py_isspace s)))"

text \<open>\<open>s.split()\<close>: the maximal runs of non-space characters.\<close>

function py_split :: "string \<Rightarrow> string list" where
  "py_split s =
     (case dropWhile py_isspace s of
        [] \<Rightarrow> []
      | t \<Rightarrow> takeWhile (\<lambda>c. \<not> py_isspace c) t # py_split (dropWhile (\<lambda>c. \<not> py_isspace c) t))"
  by pat_completeness auto
termination
proof (relation "measure length", goal_cases)
  case 1
  show ?case by simp
next
  case (2 s c cs)
  have "\<not> py_isspace c" using "2" by (metis hd_dropWhile list.sel(1) list.distinct(1))
  then have "length (dropWhile (\<lambda>c. \<not> py_isspace c) (c # cs)) \<le> length cs"
    by (simp add: length_dropWhile_le)
  moreover have "length (c # cs) \<le> length s"
    using "2" length_dropWhile_le [of py_isspace s] by simp
  ultimately show ?case using "2" by simp
qed

declare py_split.simps [simp del]

text \<open>\<open>sep.join(parts)\<close>\<close>

fun py_join :: "string \<Rightarrow> string list \<Rightarrow> string" where
  "py_join sep [] = []"
| "py_join sep [p] = p"
| "py_join sep (p # q # ps) = p @ sep @ py_join sep (q # ps)"

definition py_startswith :: "string \<Rightarrow> string \<Rightarrow> bool" where
  "py_startswith s prefix = (take (length prefix) s = prefix)"

definition py_lower_char :: "char \<Rightarrow> char" where
  "py_lower_char c =
     (let n = of_char c :: nat in if 65 \<le> n \<and> n \<le> 90 then char_of (n + 32) else c)"

text \<open>\<open>s.casefold()\<close> on ASCII text is lower-casing.\<close>

definition py_casefold :: "string \<Rightarrow> string" where
  "py_casefold s = map py_lower_char s"

text \<open>\<open>xs[-n:]\<close>\<close>

definition last_n :: "nat \<Rightarrow> 'a list \<Rightarrow> 'a list" where
  "last_n n xs = drop (length xs - n) xs"

lemma length_last_n: "length (last_n n xs) = min n (length xs)"
  by (simp add: last_n_def)

lemma set_last_n: "set (last_n n xs) \<subseteq> set xs"
  by (simp add: last_n_def set_drop_subset)

text \<open>\<open>str(n)\<close> of an integer.\<close>

fun nat_dec :: "nat \<Rightarrow> string" where
  "nat_dec n = (if n < 10 then [char_of (48 + n)] else nat_dec (n div 10) @ [char_of (48 + n mod 10)])"

declare nat_dec.simps [simp del]

definition int_dec :: "int \<Rightarrow> string" where
  "int_dec i = (if i < 0 then CHR ''-'' # nat_dec (nat (- i)) else nat_dec (nat i))"

section \<open>Identifiers\<close>

text \<open>
  A UUID is its 128-bit number, and \<open>uuid_str\<close> its canonical text (\<open>str(uuid)\<close>):
  32 lower-case hexadecimal digits in groups of 8, 4, 4, 4 and 12.
\<close>

type_synonym uuid = nat

definition hex_digit :: "nat \<Rightarrow> char" where
  "hex_digit d = (if d < 10 then char_of (48 + d) else char_of (87 + d))"

fun hex_digits :: "nat \<Rightarrow> nat \<Rightarrow> string" where
  "hex_digits 0 n = []"
| "hex_digits (Suc k) n = hex_digits k (n div 16) @ [hex_digit (n mod 16)]"

definition uuid_str :: "uuid \<Rightarrow> string" where
  "uuid_str u =
     (let h = hex_digits 32 u in
        take 8 h @ ''-'' @ take 4 (drop 8 h) @ ''-'' @ take 4 (drop 12 h) @ ''-'' @
        take 4 (drop 16 h) @ ''-'' @ drop 20 h)"

text \<open>
  \<open>uuid.UUID(text)\<close>: the prefixes \<open>urn:\<close> and \<open>uuid:\<close>, surrounding braces and all
  dashes are dropped, 32 characters must remain, and they are read with \<open>int(_, 16)\<close>, which
  admits surrounding space, a sign, a \<open>0x\<close> prefix and single underscores between digits.
\<close>

fun py_remove :: "string \<Rightarrow> string \<Rightarrow> string" where
  "py_remove sub [] = []"
| "py_remove sub (c # cs) =
     (if sub \<noteq> [] \<and> py_startswith (c # cs) sub
      then py_remove sub (drop (length sub - 1) cs)
      else c # py_remove sub cs)"

definition py_strip_chars :: "char set \<Rightarrow> string \<Rightarrow> string" where
  "py_strip_chars C s = rev (dropWhile (\<lambda>c. c \<in> C) (rev (dropWhile (\<lambda>c. c \<in> C) s)))"

definition hex_value :: "char \<Rightarrow> nat option" where
  "hex_value c =
     (let n = of_char c :: nat in
        if 48 \<le> n \<and> n \<le> 57 then Some (n - 48)
        else if 97 \<le> n \<and> n \<le> 102 then Some (n - 87)
        else if 65 \<le> n \<and> n \<le> 70 then Some (n - 55)
        else None)"

fun hex_parse :: "bool \<Rightarrow> nat \<Rightarrow> string \<Rightarrow> nat option" where
  "hex_parse digit acc [] = (if digit then Some acc else None)"
| "hex_parse digit acc (c # cs) =
     (if c = CHR ''_'' then (if digit then hex_parse False acc cs else None)
      else case hex_value c of None \<Rightarrow> None | Some d \<Rightarrow> hex_parse True (16 * acc + d) cs)"

definition py_int16 :: "string \<Rightarrow> nat option" where
  "py_int16 s =
     (let t = py_strip s;
          u = (if t \<noteq> [] \<and> hd t = CHR ''+'' then tl t else t);
          v = (if take 2 u = ''0x'' \<or> take 2 u = ''0X''
               then (if take 1 (drop 2 u) = ''_'' then drop 3 u else drop 2 u) else u)
      in hex_parse False 0 v)"

definition uuid_parse :: "string \<Rightarrow> uuid option" where
  "uuid_parse s =
     (let h = filter (\<lambda>c. c \<noteq> CHR ''-'')
                (py_strip_chars {CHR ''{'', CHR ''}''} (py_remove ''uuid:'' (py_remove ''urn:'' s)))
      in if length h = 32 then py_int16 h else None)"

subsection \<open>The textual form determines the identifier\<close>

lemma py_remove_absent:
  assumes "c \<notin> set s"
  shows "py_remove (c # sub) s = s"
  using assms by (induction s) (auto simp: py_startswith_def)

lemma py_strip_chars_absent:
  assumes "set s \<inter> C = {}"
  shows "py_strip_chars C s = s"
proof -
  have id: "dropWhile (\<lambda>c. c \<in> C) t = t" if "set t \<inter> C = {}" for t
    using that by (cases t) auto
  have "dropWhile (\<lambda>c. c \<in> C) (rev s) = rev s" using assms by (intro id) simp
  then show ?thesis using id [OF assms] by (simp add: py_strip_chars_def)
qed

lemma length_hex_digits [simp]: "length (hex_digits k n) = k"
  by (induction k arbitrary: n) auto

lemma hex_value_digit: "d < 16 \<Longrightarrow> hex_value (hex_digit d) = Some d"
  by (auto simp: hex_value_def hex_digit_def Let_def)

definition lower_hex :: "char \<Rightarrow> bool" where
  "lower_hex c = (let n = of_char c :: nat in (48 \<le> n \<and> n \<le> 57) \<or> (97 \<le> n \<and> n \<le> 102))"

lemma lower_hex_digit: "d < 16 \<Longrightarrow> lower_hex (hex_digit d)"
  by (auto simp: lower_hex_def hex_digit_def Let_def)

lemma lower_hex_digits: "c \<in> set (hex_digits k n) \<Longrightarrow> lower_hex c"
  by (induction k arbitrary: n) (auto simp: lower_hex_digit)

lemma lower_hex_plain:
  assumes "lower_hex c"
  shows "c \<noteq> CHR ''_''" "c \<noteq> CHR ''-''" "c \<noteq> CHR ''+''" "c \<noteq> CHR ''u''" "c \<noteq> CHR ''x''"
    "c \<noteq> CHR ''X''" "c \<noteq> CHR ''{''" "c \<noteq> CHR ''}''" "\<not> py_isspace c"
  using assms by (auto simp: lower_hex_def py_isspace_def Let_def)

lemma hex_parse_append:
  "\<forall>c \<in> set s. lower_hex c \<Longrightarrow> s \<noteq> [] \<Longrightarrow>
   hex_parse b acc (s @ t) = Option.bind (hex_parse b acc s) (\<lambda>a. hex_parse True a t)"
proof (induction s arbitrary: b acc)
  case Nil
  then show ?case by simp
next
  case (Cons c cs)
  then show ?case
    by (cases "cs = []") (auto simp: lower_hex_plain split: option.splits)
qed

lemma hex_parse_digits:
  "0 < k \<Longrightarrow> hex_parse b acc (hex_digits k n) = Some (16 ^ k * acc + n mod 16 ^ k)"
proof (induction k arbitrary: n)
  case 0
  then show ?case by simp
next
  case (Suc k)
  have last: "hex_parse b' a [hex_digit (n mod 16)] = Some (16 * a + n mod 16)" for a b'
    by (auto simp: hex_value_digit lower_hex_plain(1) [OF lower_hex_digit])
  show ?case
  proof (cases "k = 0")
    case True
    then show ?thesis using last by simp
  next
    case False
    have "hex_parse b acc (hex_digits (Suc k) n) =
        Option.bind (hex_parse b acc (hex_digits k (n div 16)))
          (\<lambda>a. hex_parse True a [hex_digit (n mod 16)])"
      using False by (simp add: hex_parse_append lower_hex_digits flip: length_0_conv)
    also have "\<dots> = Some (16 * (16 ^ k * acc + (n div 16) mod 16 ^ k) + n mod 16)"
      using Suc.IH False last by simp
    also have "\<dots> = Some (16 ^ Suc k * acc + n mod 16 ^ Suc k)"
      by (simp add: mod_mult2_eq algebra_simps)
    finally show ?thesis .
  qed
qed

lemma py_int16_lower_hex:
  assumes "\<forall>c \<in> set s. lower_hex c"
  shows "py_int16 s = hex_parse False 0 s"
proof -
  have sp: "dropWhile py_isspace t = t" if "\<forall>c \<in> set t. lower_hex c" for t
    using that by (cases t) (auto simp: lower_hex_plain)
  have "py_strip s = s" using sp [OF assms] sp [of "rev s"] assms by (simp add: py_strip_def)
  moreover have "\<not> (s \<noteq> [] \<and> hd s = CHR ''+'')"
    using assms by (cases s) (auto simp: lower_hex_plain)
  moreover have "take 2 s \<noteq> ''0x'' \<and> take 2 s \<noteq> ''0X''"
    using assms in_set_takeD [of _ 2 s] lower_hex_plain(5,6)
    by (metis list.set_intros(1,2))
  ultimately show ?thesis by (auto simp: py_int16_def Let_def)
qed

lemma uuid_str_chars: "c \<in> set (uuid_str u) \<Longrightarrow> lower_hex c \<or> c = CHR ''-''"
  unfolding uuid_str_def Let_def set_append
  by (auto dest!: in_set_takeD in_set_dropD intro: lower_hex_digits)

lemma uuid_str_filter: "filter (\<lambda>c. c \<noteq> CHR ''-'') (uuid_str u) = hex_digits 32 u"
proof -
  let ?h = "hex_digits 32 u"
  have id: "filter (\<lambda>c. c \<noteq> CHR ''-'') t = t" if "set t \<subseteq> set ?h" for t
    using that lower_hex_digits [of _ 32 u] lower_hex_plain(2) by (intro filter_True) blast
  have parts: "filter (\<lambda>c. c \<noteq> CHR ''-'') (take i (drop j ?h)) = take i (drop j ?h)"
    "filter (\<lambda>c. c \<noteq> CHR ''-'') (take i ?h) = take i ?h"
    "filter (\<lambda>c. c \<noteq> CHR ''-'') (drop j ?h) = drop j ?h" for i j
    by (auto intro!: id dest: in_set_takeD in_set_dropD)
  have "filter (\<lambda>c. c \<noteq> CHR ''-'') (uuid_str u) =
      take 8 ?h @ take 4 (drop 8 ?h) @ take 4 (drop 12 ?h) @ take 4 (drop 16 ?h) @ drop 20 ?h"
    unfolding uuid_str_def Let_def filter_append parts by simp
  also have "\<dots> = ?h"
    using take_add [of 8 4 ?h] take_add [of 12 4 ?h] take_add [of 16 4 ?h]
      append_take_drop_id [of 20 ?h] by simp
  finally show ?thesis .
qed

theorem uuid_parse_str: "u < 2 ^ 128 \<Longrightarrow> uuid_parse (uuid_str u) = Some u"
proof -
  assume u: "u < 2 ^ 128"
  have nou: "CHR ''u'' \<notin> set (uuid_str u)" "set (uuid_str u) \<inter> {CHR ''{'', CHR ''}''} = {}"
    using uuid_str_chars [of _ u] lower_hex_plain(4,7,8) by auto
  have "uuid_parse (uuid_str u) = py_int16 (hex_digits 32 u)"
    using nou by (simp add: uuid_parse_def py_remove_absent py_strip_chars_absent uuid_str_filter)
  also have "\<dots> = Some (u mod 16 ^ 32)"
    by (subst py_int16_lower_hex) (auto simp: lower_hex_digits hex_parse_digits)
  also have "\<dots> = Some u" using u by simp
  finally show ?thesis .
qed

text \<open>Below the 128-bit bound the text is injective.\<close>

lemma uuid_str_inject:
  "u < 2 ^ 128 \<Longrightarrow> v < 2 ^ 128 \<Longrightarrow> uuid_str u = uuid_str v \<longleftrightarrow> u = v"
  by (metis uuid_parse_str option.inject)

section \<open>Tables\<close>

text \<open>
  A table is the list of its rows. \<open>SELECT ... WHERE id = k\<close> reads the first row with that key
  and \<open>UPDATE ... WHERE id = k\<close> (or assigning attributes of a loaded row) changes the rows with it.
\<close>

definition find_row :: "('r \<Rightarrow> 'k) \<Rightarrow> 'r list \<Rightarrow> 'k \<Rightarrow> 'r option" where
  "find_row key rows k = find (\<lambda>r. key r = k) rows"

definition update_row :: "('r \<Rightarrow> 'k) \<Rightarrow> 'k \<Rightarrow> ('r \<Rightarrow> 'r) \<Rightarrow> 'r list \<Rightarrow> 'r list" where
  "update_row key k f rows = map (\<lambda>r. if key r = k then f r else r) rows"

lemma find_SomeD: "find P xs = Some x \<Longrightarrow> P x \<and> x \<in> set xs"
  by (induction xs) (auto split: if_splits)

lemma find_row_Some: "find_row key rows k = Some r \<Longrightarrow> r \<in> set rows \<and> key r = k"
  by (auto simp: find_row_def find_Some_iff)

lemma find_row_None_iff: "find_row key rows k = None \<longleftrightarrow> k \<notin> key ` set rows"
  by (auto simp: find_row_def find_None_iff)

lemma find_row_eq_Some_iff:
  "distinct (map key rows) \<Longrightarrow> find_row key rows k = Some r \<longleftrightarrow> r \<in> set rows \<and> key r = k"
  by (induction rows) (auto simp: find_row_def)

lemma map_key_update_row:
  "(\<And>r. key (f r) = key r) \<Longrightarrow> map key (update_row key k f rows) = map key rows"
  by (simp add: update_row_def)

lemma length_update_row [simp]: "length (update_row key k f rows) = length rows"
  by (simp add: update_row_def)

lemma find_row_update_row:
  assumes "\<And>r. key (f r) = key r"
  shows "find_row key (update_row key k f rows) j =
    (if j = k then map_option f (find_row key rows j) else find_row key rows j)"
  by (induction rows) (auto simp: find_row_def update_row_def assms)

lemma find_row_append:
  "find_row key (xs @ ys) k =
    (case find_row key xs k of Some r \<Rightarrow> Some r | None \<Rightarrow> find_row key ys k)"
  by (induction xs) (auto simp: find_row_def)

lemma in_set_update_row:
  "x \<in> set (update_row key k f rows) \<longleftrightarrow>
    (\<exists>r \<in> set rows. x = (if key r = k then f r else r))"
  by (simp only: update_row_def set_map image_iff)

text \<open>
  The contract of a table inside a larger database state: reading a row by its key after a
  key-preserving update of a row, and the keys such an update leaves in place.
\<close>

locale row_store =
  fixes rows :: "'db \<Rightarrow> 'r list"
    and key :: "'r \<Rightarrow> uuid"
    and get :: "'db \<Rightarrow> uuid \<Rightarrow> 'r option"
    and upd :: "uuid \<Rightarrow> ('r \<Rightarrow> 'r) \<Rightarrow> 'db \<Rightarrow> 'db"
  assumes get_rows: "get d k = find_row key (rows d) k"
    and rows_upd: "rows (upd k f d) = update_row key k f (rows d)"
begin

lemma get_key: "get d k = Some r \<Longrightarrow> key r = k"
  by (auto simp: get_rows dest: find_row_Some)

lemma get_mem: "get d k = Some r \<Longrightarrow> r \<in> set (rows d)"
  by (auto simp: get_rows dest: find_row_Some)

lemma get_None: "get d k = None \<longleftrightarrow> k \<notin> key ` set (rows d)"
  by (simp add: get_rows find_row_None_iff)

lemma get_upd:
  assumes "\<And>r. key (f r) = key r"
  shows "get (upd k f d) j = (if j = k then map_option f (get d j) else get d j)"
  using assms by (simp add: get_rows rows_upd find_row_update_row)

lemma keys_upd:
  assumes "\<And>r. key (f r) = key r"
  shows "map key (rows (upd k f d)) = map key (rows d)"
  using assms by (simp add: rows_upd map_key_update_row)

lemma mem_get:
  "distinct (map key (rows d)) \<Longrightarrow> r \<in> set (rows d) \<Longrightarrow> get d (key r) = Some r"
  by (simp add: get_rows find_row_eq_Some_iff)

lemma mem_upd:
  "x \<in> set (rows (upd k f d)) \<longleftrightarrow> (\<exists>r \<in> set (rows d). x = (if key r = k then f r else r))"
  by (simp add: rows_upd in_set_update_row)

end

end
