(* ===== verification/Storage_Types.thy ===== *)
theory Storage_Types
  imports Vuzol_Prelude
begin

text \<open>
  The closed vocabularies of \<^verbatim>\<open>storage/types.py\<close>: each \<open>StrEnum\<close> is a datatype and
  \<open>\<dots>_value\<close> its stored text (\<open>member.value\<close>). The three lifecycle statuses are instances
  of \<open>enum\<close>, so a property of all statuses evaluates by exhaustion.
\<close>

datatype task_status =
    T_RECEIVED
  | T_INTERPRETED
  | T_CONTEXT_PREPARED
  | T_PLANNED
  | T_WAITING_APPROVAL
  | T_EXECUTING
  | T_VALIDATING
  | T_REVIEWING
  | T_AWAITING_USER
  | T_PAUSED
  | T_RETRYING
  | T_QUOTA_EXHAUSTED
  | T_BLOCKED
  | T_FAILED
  | T_CANCELLED
  | T_ROLLED_BACK
  | T_COMPLETED

fun task_status_value :: "task_status \<Rightarrow> string" where
  "task_status_value T_RECEIVED = ''received''"
| "task_status_value T_INTERPRETED = ''interpreted''"
| "task_status_value T_CONTEXT_PREPARED = ''context_prepared''"
| "task_status_value T_PLANNED = ''planned''"
| "task_status_value T_WAITING_APPROVAL = ''waiting_approval''"
| "task_status_value T_EXECUTING = ''executing''"
| "task_status_value T_VALIDATING = ''validating''"
| "task_status_value T_REVIEWING = ''reviewing''"
| "task_status_value T_AWAITING_USER = ''awaiting_user''"
| "task_status_value T_PAUSED = ''paused''"
| "task_status_value T_RETRYING = ''retrying''"
| "task_status_value T_QUOTA_EXHAUSTED = ''quota_exhausted''"
| "task_status_value T_BLOCKED = ''blocked''"
| "task_status_value T_FAILED = ''failed''"
| "task_status_value T_CANCELLED = ''cancelled''"
| "task_status_value T_ROLLED_BACK = ''rolled_back''"
| "task_status_value T_COMPLETED = ''completed''"

datatype run_status =
    R_CREATED
  | R_RUNNING
  | R_AWAITING_USER
  | R_PAUSED
  | R_BLOCKED
  | R_FAILED
  | R_CANCELLED
  | R_COMPLETED

fun run_status_value :: "run_status \<Rightarrow> string" where
  "run_status_value R_CREATED = ''created''"
| "run_status_value R_RUNNING = ''running''"
| "run_status_value R_AWAITING_USER = ''awaiting_user''"
| "run_status_value R_PAUSED = ''paused''"
| "run_status_value R_BLOCKED = ''blocked''"
| "run_status_value R_FAILED = ''failed''"
| "run_status_value R_CANCELLED = ''cancelled''"
| "run_status_value R_COMPLETED = ''completed''"

datatype step_status =
    S_PENDING
  | S_QUEUED
  | S_LEASED
  | S_RUNNING
  | S_WAITING_APPROVAL
  | S_AWAITING_USER
  | S_BLOCKED
  | S_FAILED
  | S_CANCELLED
  | S_COMPLETED

fun step_status_value :: "step_status \<Rightarrow> string" where
  "step_status_value S_PENDING = ''pending''"
| "step_status_value S_QUEUED = ''queued''"
| "step_status_value S_LEASED = ''leased''"
| "step_status_value S_RUNNING = ''running''"
| "step_status_value S_WAITING_APPROVAL = ''waiting_approval''"
| "step_status_value S_AWAITING_USER = ''awaiting_user''"
| "step_status_value S_BLOCKED = ''blocked''"
| "step_status_value S_FAILED = ''failed''"
| "step_status_value S_CANCELLED = ''cancelled''"
| "step_status_value S_COMPLETED = ''completed''"

datatype retry_class =
    RETRY_NEVER
  | RETRY_TRANSIENT
  | RETRY_POLICY

fun retry_class_value :: "retry_class \<Rightarrow> string" where
  "retry_class_value RETRY_NEVER = ''never''"
| "retry_class_value RETRY_TRANSIENT = ''transient''"
| "retry_class_value RETRY_POLICY = ''policy''"

datatype idempotency_class =
    IDEM_READ_ONLY
  | IDEM_IDEMPOTENT
  | IDEM_ISOLATED_RETRYABLE
  | IDEM_NON_IDEMPOTENT
  | IDEM_UNKNOWN_EFFECTS_POSSIBLE

fun idempotency_class_value :: "idempotency_class \<Rightarrow> string" where
  "idempotency_class_value IDEM_READ_ONLY = ''read_only''"
| "idempotency_class_value IDEM_IDEMPOTENT = ''idempotent''"
| "idempotency_class_value IDEM_ISOLATED_RETRYABLE = ''isolated_retryable''"
| "idempotency_class_value IDEM_NON_IDEMPOTENT = ''non_idempotent''"
| "idempotency_class_value IDEM_UNKNOWN_EFFECTS_POSSIBLE = ''unknown_effects_possible''"

datatype queue_class =
    Q_CONTROL
  | Q_LIGHT
  | Q_HEAVY
  | Q_PRIVILEGED

fun queue_class_value :: "queue_class \<Rightarrow> string" where
  "queue_class_value Q_CONTROL = ''control''"
| "queue_class_value Q_LIGHT = ''light''"
| "queue_class_value Q_HEAVY = ''heavy''"
| "queue_class_value Q_PRIVILEGED = ''privileged''"

datatype delivery_status =
    D_PENDING
  | D_LEASED
  | D_DELIVERED
  | D_AMBIGUOUS
  | D_DEAD_LETTER

fun delivery_status_value :: "delivery_status \<Rightarrow> string" where
  "delivery_status_value D_PENDING = ''pending''"
| "delivery_status_value D_LEASED = ''leased''"
| "delivery_status_value D_DELIVERED = ''delivered''"
| "delivery_status_value D_AMBIGUOUS = ''ambiguous''"
| "delivery_status_value D_DEAD_LETTER = ''dead_letter''"

datatype approval_status =
    A_PENDING
  | A_APPROVED
  | A_REJECTED
  | A_EXPIRED
  | A_CONSUMED

fun approval_status_value :: "approval_status \<Rightarrow> string" where
  "approval_status_value A_PENDING = ''pending''"
| "approval_status_value A_APPROVED = ''approved''"
| "approval_status_value A_REJECTED = ''rejected''"
| "approval_status_value A_EXPIRED = ''expired''"
| "approval_status_value A_CONSUMED = ''consumed''"

datatype budget_reservation_status =
    B_RESERVED
  | B_RECONCILED
  | B_CONSERVATIVE
  | B_RELEASED

fun budget_reservation_status_value :: "budget_reservation_status \<Rightarrow> string" where
  "budget_reservation_status_value B_RESERVED = ''reserved''"
| "budget_reservation_status_value B_RECONCILED = ''reconciled''"
| "budget_reservation_status_value B_CONSERVATIVE = ''conservative''"
| "budget_reservation_status_value B_RELEASED = ''released''"

datatype worktree_delivery_state =
    W_ACTIVE
  | W_WORKTREE_RETAINED
  | W_PATCH_DELIVERED
  | W_APPLIED
  | W_MERGED
  | W_PUSHED
  | W_CLEANED

datatype process_status =
    P_STARTING
  | P_RUNNING
  | P_TERMINATING
  | P_EXITED
  | P_UNKNOWN

datatype control_action_status =
    C_QUEUED
  | C_PROCESSED
  | C_REJECTED

datatype attempt_kind =
    K_INITIAL
  | K_REPAIR
  | K_RETRY
  | K_TAKEOVER

fun attempt_kind_value :: "attempt_kind \<Rightarrow> string" where
  "attempt_kind_value K_INITIAL = ''initial''"
| "attempt_kind_value K_REPAIR = ''repair''"
| "attempt_kind_value K_RETRY = ''retry''"
| "attempt_kind_value K_TAKEOVER = ''takeover''"

datatype risk_level =
    RISK_LOW
  | RISK_MEDIUM
  | RISK_HIGH
  | RISK_PRIVILEGED

fun risk_level_value :: "risk_level \<Rightarrow> string" where
  "risk_level_value RISK_LOW = ''low''"
| "risk_level_value RISK_MEDIUM = ''medium''"
| "risk_level_value RISK_HIGH = ''high''"
| "risk_level_value RISK_PRIVILEGED = ''privileged''"

text \<open>The statuses that end a task for its user; \<open>BLOCKED\<close> is one of them.\<close>

definition USER_TERMINAL_TASK_STATUSES :: "task_status set" where
  "USER_TERMINAL_TASK_STATUSES =
     {T_BLOCKED, T_FAILED, T_CANCELLED, T_ROLLED_BACK, T_COMPLETED}"

instantiation task_status :: enum
begin

definition enum_task_status :: "task_status list" where
  "enum_task_status =
     [T_RECEIVED, T_INTERPRETED, T_CONTEXT_PREPARED, T_PLANNED, T_WAITING_APPROVAL,
      T_EXECUTING, T_VALIDATING, T_REVIEWING, T_AWAITING_USER, T_PAUSED, T_RETRYING,
      T_QUOTA_EXHAUSTED, T_BLOCKED, T_FAILED, T_CANCELLED, T_ROLLED_BACK, T_COMPLETED]"

definition enum_all_task_status :: "(task_status \<Rightarrow> bool) \<Rightarrow> bool" where
  "enum_all_task_status P = list_all P enum_class.enum"

definition enum_ex_task_status :: "(task_status \<Rightarrow> bool) \<Rightarrow> bool" where
  "enum_ex_task_status P = list_ex P enum_class.enum"

lemma UNIV_task_status: "(UNIV :: task_status set) = set enum_class.enum"
proof -
  have "s \<in> set enum_class.enum" for s :: task_status
    by (cases s) (simp_all add: enum_task_status_def)
  then show ?thesis by blast
qed

instance
proof
  show "(UNIV :: task_status set) = set enum_class.enum" by (rule UNIV_task_status)
  show "distinct (enum_class.enum :: task_status list)" by (simp add: enum_task_status_def)
  show "enum_class.enum_all P = Ball UNIV P" for P :: "task_status \<Rightarrow> bool"
    by (simp add: enum_all_task_status_def UNIV_task_status list_all_iff)
  show "enum_class.enum_ex P = Bex UNIV P" for P :: "task_status \<Rightarrow> bool"
    by (simp add: enum_ex_task_status_def UNIV_task_status list_ex_iff)
qed

end

instantiation run_status :: enum
begin

definition enum_run_status :: "run_status list" where
  "enum_run_status =
     [R_CREATED, R_RUNNING, R_AWAITING_USER, R_PAUSED, R_BLOCKED, R_FAILED, R_CANCELLED,
      R_COMPLETED]"

definition enum_all_run_status :: "(run_status \<Rightarrow> bool) \<Rightarrow> bool" where
  "enum_all_run_status P = list_all P enum_class.enum"

definition enum_ex_run_status :: "(run_status \<Rightarrow> bool) \<Rightarrow> bool" where
  "enum_ex_run_status P = list_ex P enum_class.enum"

lemma UNIV_run_status: "(UNIV :: run_status set) = set enum_class.enum"
proof -
  have "s \<in> set enum_class.enum" for s :: run_status
    by (cases s) (simp_all add: enum_run_status_def)
  then show ?thesis by blast
qed

instance
proof
  show "(UNIV :: run_status set) = set enum_class.enum" by (rule UNIV_run_status)
  show "distinct (enum_class.enum :: run_status list)" by (simp add: enum_run_status_def)
  show "enum_class.enum_all P = Ball UNIV P" for P :: "run_status \<Rightarrow> bool"
    by (simp add: enum_all_run_status_def UNIV_run_status list_all_iff)
  show "enum_class.enum_ex P = Bex UNIV P" for P :: "run_status \<Rightarrow> bool"
    by (simp add: enum_ex_run_status_def UNIV_run_status list_ex_iff)
qed

end

instantiation step_status :: enum
begin

definition enum_step_status :: "step_status list" where
  "enum_step_status =
     [S_PENDING, S_QUEUED, S_LEASED, S_RUNNING, S_WAITING_APPROVAL, S_AWAITING_USER,
      S_BLOCKED, S_FAILED, S_CANCELLED, S_COMPLETED]"

definition enum_all_step_status :: "(step_status \<Rightarrow> bool) \<Rightarrow> bool" where
  "enum_all_step_status P = list_all P enum_class.enum"

definition enum_ex_step_status :: "(step_status \<Rightarrow> bool) \<Rightarrow> bool" where
  "enum_ex_step_status P = list_ex P enum_class.enum"

lemma UNIV_step_status: "(UNIV :: step_status set) = set enum_class.enum"
proof -
  have "s \<in> set enum_class.enum" for s :: step_status
    by (cases s) (simp_all add: enum_step_status_def)
  then show ?thesis by blast
qed

instance
proof
  show "(UNIV :: step_status set) = set enum_class.enum" by (rule UNIV_step_status)
  show "distinct (enum_class.enum :: step_status list)" by (simp add: enum_step_status_def)
  show "enum_class.enum_all P = Ball UNIV P" for P :: "step_status \<Rightarrow> bool"
    by (simp add: enum_all_step_status_def UNIV_step_status list_all_iff)
  show "enum_class.enum_ex P = Bex UNIV P" for P :: "step_status \<Rightarrow> bool"
    by (simp add: enum_ex_step_status_def UNIV_step_status list_ex_iff)
qed

end

lemma run_status_value_inject: "run_status_value a = run_status_value b \<longleftrightarrow> a = b"
  by (cases a; cases b) simp_all

lemma step_status_value_inject: "step_status_value a = step_status_value b \<longleftrightarrow> a = b"
  by (cases a; cases b) simp_all

lemma task_status_value_inject: "task_status_value a = task_status_value b \<longleftrightarrow> a = b"
proof -
  have "distinct (map task_status_value enum_class.enum)"
    by (simp add: enum_task_status_def)
  then have "inj_on task_status_value (set enum_class.enum)"
    by (simp add: distinct_map)
  then show ?thesis by (auto simp: inj_on_def simp flip: UNIV_task_status)
qed

end
