(* ===== verification/Storage_Models.thy ===== *)
theory Storage_Models
  imports Storage_Types Complex_Main
begin

text \<open>
  The rows of \<^verbatim>\<open>storage/models.py\<close> and \<^verbatim>\<open>leadership/persistence.py\<close> that the
  modelled operations read or write, with the columns they use, and the database state made of
  those tables. Times are microseconds; \<open>db_now\<close> is \<open>func.now()\<close> (the transaction time) and
  \<open>wall_now\<close> is \<open>datetime.now(UTC)\<close>. \<open>next_uuid\<close> supplies the identifiers that
  \<open>uuid.uuid4()\<close> draws: an identifier no row has yet.
\<close>

type_synonym time = int

definition seconds :: "int \<Rightarrow> time" where
  "seconds n = n * 1000000"

record task =
  task_id :: uuid
  task_user_id :: int
  task_project_id :: "string option"
  task_status :: task_status
  task_type :: string
  task_parent_task_id :: "uuid option"
  task_source_chat_id :: "int option"
  task_source_thread_id :: "int option"
  task_completed_at :: "time option"
  task_budget_epoch :: int
  task_spec_revision :: "string option"
  task_version :: int

record run =
  run_id :: uuid
  run_task_id :: uuid
  run_source_interpretation_id :: "uuid option"
  run_workflow_type :: string
  run_workflow_version :: string
  run_status :: run_status
  run_selected_route :: json_obj
  run_budget_mode :: string
  run_configuration_revision :: string
  run_policy_revision :: string
  run_prompt_revision :: "string option"
  run_execution_contract_version :: "string option"
  run_started_at :: "time option"
  run_ended_at :: "time option"
  run_failure_category :: "string option"
  run_failure_summary :: "string option"
  run_version :: int
  run_created_at :: time

record step =
  step_id :: uuid
  step_run_id :: uuid
  step_ordinal :: int
  step_dependency_metadata :: json_obj
  step_type :: string
  step_queue_class :: queue_class
  step_status :: step_status
  step_executor_profile_id :: "string option"
  step_required_capabilities :: "string list"
  step_payload :: json_obj
  step_result :: "json_obj option"
  step_retry_class :: retry_class
  step_idempotency_class :: idempotency_class
  step_external_idempotency_key :: "string option"
  step_attempt_count :: int
  step_max_attempts :: int
  step_priority :: int
  step_available_at :: time
  step_timeout_seconds :: int
  step_lease_owner :: "string option"
  step_lease_expires_at :: "time option"
  step_heartbeat_at :: "time option"
  step_lease_generation :: int
  step_failure_category :: "string option"
  step_failure_summary :: "string option"
  step_unknown_effects :: bool
  step_version :: int
  step_created_at :: time

record event =
  ev_entity_type :: string
  ev_entity_id :: uuid
  ev_event_type :: string
  ev_actor_type :: string
  ev_actor_id :: "string option"
  ev_previous_state :: "string option"
  ev_new_state :: "string option"
  ev_payload :: json_obj

record outbox_item =
  ob_id :: uuid
  ob_destination :: string
  ob_operation_type :: string
  ob_linked_entity_type :: string
  ob_linked_entity_id :: uuid
  ob_idempotency_key :: string
  ob_payload :: json_obj
  ob_status :: delivery_status
  ob_attempt_count :: int
  ob_available_at :: time
  ob_last_error_category :: "string option"
  ob_last_error_ambiguous :: bool
  ob_lease_owner :: "string option"
  ob_lease_expires_at :: "time option"
  ob_lease_generation :: int
  ob_delivered_at :: "time option"
  ob_created_at :: time

record materialization_link =
  link_work_package_id :: uuid
  link_plan_revision_id :: uuid
  link_plan_revision_item_id :: uuid
  link_task_id :: uuid
  link_ordinal :: int

record work_package =
  wp_id :: uuid
  wp_integration_branch :: "string option"
  wp_integration_target_branch :: "string option"
  wp_integration_base_commit :: "string option"
  wp_integration_head_commit :: "string option"
  wp_managed_goal_id :: "uuid option"

record goal_delegation =
  deleg_id :: uuid
  deleg_project_id :: string
  deleg_policy_revision :: string
  deleg_allowed_actions :: "string list"
  deleg_integration_branch :: string
  deleg_expires_at :: "time option"
  deleg_revoked_at :: "time option"

record managed_goal =
  goal_id :: uuid
  goal_delegation_id :: uuid
  goal_project_id :: string
  goal_constraints :: json_obj
  goal_scope_revision :: int
  goal_lifecycle :: string
  goal_integration_branch :: string
  goal_lease_epoch :: int
  goal_lease_until :: "time option"

record effect =
  eff_id :: uuid
  eff_operation_key :: string
  eff_step_id :: uuid
  eff_task_id :: "uuid option"
  eff_run_id :: "uuid option"
  eff_horizon_id :: "uuid option"
  eff_attempt_id :: "uuid option"
  eff_effect_class :: string
  eff_target_kind :: string
  eff_target_reference :: string
  eff_idempotency :: string
  eff_permission_envelope_hash :: "string option"
  eff_approval_id :: "uuid option"
  eff_approval_envelope_hash :: "string option"
  eff_payload_hash :: string
  eff_lease_generation :: int
  eff_status :: string
  eff_launch_started_at :: "time option"
  eff_launch_generation :: "int option"
  eff_receipt_status :: "string option"
  eff_receipt_observed_at :: "time option"
  eff_receipt_external_ref :: "string option"
  eff_receipt_output_hash :: "string option"
  eff_reconcile_status :: string
  eff_reconcile_reconciled_at :: "time option"
  eff_reconcile_method :: "string option"
  eff_context :: json_obj
  eff_created_at :: time

record worktree =
  wt_id :: uuid
  wt_task_id :: uuid
  wt_run_id :: uuid
  wt_project_id :: string
  wt_repository_identity_hash :: string
  wt_base_commit :: string
  wt_default_branch :: string
  wt_expected_target_head :: string
  wt_path :: string
  wt_delivery_state :: worktree_delivery_state
  wt_result_commit :: "string option"
  wt_diff_hash :: "string option"
  wt_delivery_operation_hash :: "string option"
  wt_delivered_ref :: "string option"
  wt_created_at :: time

record approval =
  appr_id :: uuid
  appr_step_id :: uuid
  appr_action_envelope_hash :: string
  appr_requested_action :: string
  appr_normalized_target :: string
  appr_human_summary :: string
  appr_token_hash :: string
  appr_status :: approval_status
  appr_decided_at :: "time option"
  appr_deciding_user_id :: "int option"
  appr_expires_at :: time
  appr_consumed_at :: "time option"

record environment_revision =
  env_id :: uuid
  env_project_id :: string
  env_revision_number :: int
  env_contract :: json_obj
  env_content_hash :: string

record review_outcome =
  ro_task_id :: uuid
  ro_run_id :: uuid
  ro_step_id :: uuid
  ro_acceptance_key :: string
  ro_verdict :: string
  ro_review_kind :: json
  ro_risk :: json
  ro_base_commit :: json
  ro_result_commit :: json
  ro_diff_hash :: json
  ro_findings :: "json list"
  ro_summary :: json
  ro_policy_revision :: json
  ro_partition_count :: json
  ro_unknown_usage :: bool

record executor_preference =
  pref_project_id :: string
  pref_mode :: string
  pref_worker_key :: "string option"
  pref_profile_id :: "string option"
  pref_reasoning_effort :: "string option"
  pref_model_assignments :: json_obj
  pref_revision :: int
  pref_updated_by_user_id :: "int option"

text \<open>Amounts are the values of Python decimals.\<close>

type_synonym money = rat

record plan_revision_item =
  pri_id :: uuid
  pri_plan_revision_id :: uuid
  pri_item_id :: "uuid option"

record plan_revision =
  prev_work_package_id :: uuid
  prev_revision_number :: int
  prev_approved_by_user_id :: "int option"

record budget_reservation =
  br_id :: uuid
  br_task_id :: "uuid option"
  br_run_id :: "uuid option"
  br_step_id :: "uuid option"
  br_invocation_id :: "uuid option"
  br_profile_id :: string
  br_budget_epoch :: int
  br_provider_attempt :: int
  br_purpose :: "string option"
  br_attempt_kind :: "string option"
  br_horizon_id :: "uuid option"
  br_pricing_revision :: "string option"
  br_currency :: "string option"
  br_reserved_input_tokens :: int
  br_reserved_output_tokens :: int
  br_reserved_cost_units :: money
  br_reserved_quota_units :: money
  br_allowance_input_tokens :: int
  br_allowance_output_tokens :: int
  br_allowance_cost_units :: money
  br_reconciled_input_tokens :: "int option"
  br_reconciled_output_tokens :: "int option"
  br_reconciled_cost_units :: "money option"
  br_reconciled_quota_units :: "money option"
  br_status :: budget_reservation_status
  br_provider_request_id :: "string option"
  br_created_at :: time
  br_reconciled_at :: "time option"

record usage_record =
  us_id :: uuid
  us_provider :: string
  us_profile_id :: string
  us_model :: string
  us_task_id :: "uuid option"
  us_run_id :: "uuid option"
  us_step_id :: "uuid option"
  us_input_tokens :: "int option"
  us_output_tokens :: "int option"
  us_cached_tokens :: "int option"
  us_cost_units :: "money option"
  us_quota_units :: "money option"
  us_duration_ms :: int
  us_provider_request_id :: "string option"
  us_reservation_id :: "uuid option"
  us_invocation_id :: "uuid option"
  us_outcome :: string
  us_purpose :: "string option"
  us_attempt_kind :: "string option"
  us_horizon_id :: "uuid option"
  us_pricing_revision :: "string option"
  us_currency :: "string option"
  us_cost_known :: bool
  us_late_receipt :: bool
  us_created_at :: time

record work_attempt =
  wa_id :: uuid
  wa_task_id :: uuid
  wa_run_id :: uuid
  wa_step_id :: uuid
  wa_stable_item_id :: "uuid option"
  wa_attempt_no :: int
  wa_parent_attempt_id :: "uuid option"
  wa_attempt_kind :: string
  wa_purpose :: string
  wa_outcome :: string
  wa_prior_candidate_hash :: "string option"
  wa_prior_review_summary :: "string option"
  wa_intent_revision :: "string option"

record supervised_process =
  sp_run_id :: "uuid option"
  sp_step_id :: "uuid option"
  sp_lease_generation :: int
  sp_provider_attempt :: int
  sp_status :: process_status

record control_action =
  ca_id :: uuid
  ca_action_kind :: string
  ca_requested_by_user_id :: int
  ca_task_id :: "uuid option"
  ca_step_id :: "uuid option"
  ca_approval_id :: "uuid option"
  ca_payload :: json_obj
  ca_status :: control_action_status
  ca_processed_at :: "time option"

record leadership_inference =
  li_id :: uuid
  li_turn_id :: uuid

record leadership_turn =
  lt_id :: uuid
  lt_goal_id :: uuid
  lt_lease_epoch :: int
  lt_status :: string

record routing_decision =
  rd_id :: uuid
  rd_run_id :: uuid
  rd_step_id :: "uuid option"
  rd_provider_attempt :: int
  rd_decision_kind :: string
  rd_role :: string
  rd_selected_profile_id :: "string option"
  rd_alternatives :: "json list"
  rd_inputs :: json_obj
  rd_policy_revision :: string
  rd_created_at :: time

text \<open>
  Calls into subsystems outside the model (Telegram card rendering, the attention feed,
  capability installations) are kept as the requests that were made.
\<close>

datatype call =
    SyncAttention uuid "string option" string int
  | StatusProjection uuid int "uuid option" "string option"
  | TerminalProjections uuid int uuid
  | AbandonCapabilityInstallation uuid string
  | WakeCapabilityWaiters uuid
  | ControlSnapshot uuid int int int string
  | HeadEvidence uuid string string string
  | ProjectStatusDashboard int

record db =
  db_tasks :: "task list"
  db_runs :: "run list"
  db_steps :: "step list"
  db_events :: "event list"
  db_outbox :: "outbox_item list"
  db_links :: "materialization_link list"
  db_packages :: "work_package list"
  db_plan_items :: "plan_revision_item list"
  db_plan_revisions :: "plan_revision list"
  db_delegations :: "goal_delegation list"
  db_goals :: "managed_goal list"
  db_effects :: "effect list"
  db_worktrees :: "worktree list"
  db_approvals :: "approval list"
  db_environments :: "environment_revision list"
  db_review_outcomes :: "review_outcome list"
  db_preferences :: "executor_preference list"
  db_reservations :: "budget_reservation list"
  db_usage :: "usage_record list"
  db_attempts :: "work_attempt list"
  db_processes :: "supervised_process list"
  db_actions :: "control_action list"
  db_inferences :: "leadership_inference list"
  db_turns :: "leadership_turn list"
  db_decisions :: "routing_decision list"
  db_calls :: "call list"
  next_uuid :: uuid
  db_now :: time
  wall_now :: time

section \<open>Reading and writing rows\<close>

definition get_task :: "db \<Rightarrow> uuid \<Rightarrow> task option" where
  "get_task d = find_row task_id (db_tasks d)"

definition get_run :: "db \<Rightarrow> uuid \<Rightarrow> run option" where
  "get_run d = find_row run_id (db_runs d)"

definition get_step :: "db \<Rightarrow> uuid \<Rightarrow> step option" where
  "get_step d = find_row step_id (db_steps d)"

definition get_outbox :: "db \<Rightarrow> uuid \<Rightarrow> outbox_item option" where
  "get_outbox d = find_row ob_id (db_outbox d)"

definition upd_task :: "uuid \<Rightarrow> (task \<Rightarrow> task) \<Rightarrow> db \<Rightarrow> db" where
  "upd_task k f d = d\<lparr>db_tasks := update_row task_id k f (db_tasks d)\<rparr>"

definition upd_run :: "uuid \<Rightarrow> (run \<Rightarrow> run) \<Rightarrow> db \<Rightarrow> db" where
  "upd_run k f d = d\<lparr>db_runs := update_row run_id k f (db_runs d)\<rparr>"

definition upd_step :: "uuid \<Rightarrow> (step \<Rightarrow> step) \<Rightarrow> db \<Rightarrow> db" where
  "upd_step k f d = d\<lparr>db_steps := update_row step_id k f (db_steps d)\<rparr>"

definition upd_outbox :: "uuid \<Rightarrow> (outbox_item \<Rightarrow> outbox_item) \<Rightarrow> db \<Rightarrow> db" where
  "upd_outbox k f d = d\<lparr>db_outbox := update_row ob_id k f (db_outbox d)\<rparr>"

definition add_event :: "event \<Rightarrow> db \<Rightarrow> db" where
  "add_event e d = d\<lparr>db_events := db_events d @ [e]\<rparr>"

definition add_call :: "call \<Rightarrow> db \<Rightarrow> db" where
  "add_call c d = d\<lparr>db_calls := db_calls d @ [c]\<rparr>"

definition add_step :: "step \<Rightarrow> db \<Rightarrow> db" where
  "add_step s d = d\<lparr>db_steps := db_steps d @ [s], next_uuid := Suc (next_uuid d)\<rparr>"

interpretation task_store: row_store db_tasks task_id get_task upd_task
  by unfold_locales (simp_all add: get_task_def upd_task_def)

interpretation run_store: row_store db_runs run_id get_run upd_run
  by unfold_locales (simp_all add: get_run_def upd_run_def)

interpretation step_store: row_store db_steps step_id get_step upd_step
  by unfold_locales (simp_all add: get_step_def upd_step_def)

interpretation outbox_store: row_store db_outbox ob_id get_outbox upd_outbox
  by unfold_locales (simp_all add: get_outbox_def upd_outbox_def)

text \<open>Reads of one table are independent of writes to the others.\<close>

lemma get_task_frame [simp]:
  "get_task (upd_run k f d) = get_task d" "get_task (upd_step k g d) = get_task d"
  "get_task (upd_outbox k h d) = get_task d" "get_task (add_event e d) = get_task d"
  "get_task (add_call c d) = get_task d" "get_task (add_step s d) = get_task d"
  by (simp_all add: get_task_def upd_run_def upd_step_def upd_outbox_def add_event_def
      add_call_def add_step_def)

lemma get_run_frame [simp]:
  "get_run (upd_task k f d) = get_run d" "get_run (upd_step k g d) = get_run d"
  "get_run (upd_outbox k h d) = get_run d" "get_run (add_event e d) = get_run d"
  "get_run (add_call c d) = get_run d" "get_run (add_step s d) = get_run d"
  by (simp_all add: get_run_def upd_task_def upd_step_def upd_outbox_def add_event_def
      add_call_def add_step_def)

lemma get_step_frame [simp]:
  "get_step (upd_task k f d) = get_step d" "get_step (upd_run k g d) = get_step d"
  "get_step (upd_outbox k h d) = get_step d" "get_step (add_event e d) = get_step d"
  "get_step (add_call c d) = get_step d"
  by (simp_all add: get_step_def upd_task_def upd_run_def upd_outbox_def add_event_def
      add_call_def)

lemma db_tasks_frame [simp]:
  "db_tasks (upd_run k f d) = db_tasks d" "db_tasks (upd_step k g d) = db_tasks d"
  "db_tasks (upd_outbox k h d) = db_tasks d" "db_tasks (add_event e d) = db_tasks d"
  "db_tasks (add_call c d) = db_tasks d" "db_tasks (add_step s d) = db_tasks d"
  by (simp_all add: upd_run_def upd_step_def upd_outbox_def add_event_def add_call_def
      add_step_def)

lemma db_runs_frame [simp]:
  "db_runs (upd_task k f d) = db_runs d" "db_runs (upd_step k g d) = db_runs d"
  "db_runs (upd_outbox k h d) = db_runs d" "db_runs (add_event e d) = db_runs d"
  "db_runs (add_call c d) = db_runs d" "db_runs (add_step s d) = db_runs d"
  by (simp_all add: upd_task_def upd_step_def upd_outbox_def add_event_def add_call_def
      add_step_def)

lemma db_steps_frame [simp]:
  "db_steps (upd_task k f d) = db_steps d" "db_steps (upd_run k g d) = db_steps d"
  "db_steps (upd_outbox k h d) = db_steps d" "db_steps (add_event e d) = db_steps d"
  "db_steps (add_call c d) = db_steps d"
  by (simp_all add: upd_task_def upd_run_def upd_outbox_def add_event_def add_call_def)

lemma db_events_frame [simp]:
  "db_events (upd_task k f d) = db_events d" "db_events (upd_run k g d) = db_events d"
  "db_events (upd_step k h d) = db_events d" "db_events (upd_outbox k i d) = db_events d"
  "db_events (add_call c d) = db_events d" "db_events (add_step s d) = db_events d"
  "db_events (add_event e d) = db_events d @ [e]"
  by (simp_all add: upd_task_def upd_run_def upd_step_def upd_outbox_def add_event_def
      add_call_def add_step_def)

lemma clock_frame [simp]:
  "db_now (upd_task k f d) = db_now d" "db_now (upd_run k g d) = db_now d"
  "db_now (upd_step k h d) = db_now d" "db_now (upd_outbox k i d) = db_now d"
  "db_now (add_event e d) = db_now d" "db_now (add_call c d) = db_now d"
  "db_now (add_step s d) = db_now d"
  by (simp_all add: upd_task_def upd_run_def upd_step_def upd_outbox_def add_event_def
      add_call_def add_step_def)

lemma next_uuid_frame [simp]:
  "next_uuid (upd_task k f d) = next_uuid d" "next_uuid (upd_run k g d) = next_uuid d"
  "next_uuid (upd_step k h d) = next_uuid d" "next_uuid (upd_outbox k i d) = next_uuid d"
  "next_uuid (add_event e d) = next_uuid d" "next_uuid (add_call c d) = next_uuid d"
  by (simp_all add: upd_task_def upd_run_def upd_step_def upd_outbox_def add_event_def
      add_call_def)

end
