(* ===== verification/Sample_Rows.thy ===== *)
theory Sample_Rows
  imports Storage_Models
begin

text \<open>
  Concrete rows: one task with one running run, a queued code step and a pending outbox item. The
  statements of the component theories are evaluated on them.
\<close>

definition sample_task :: task where
  "sample_task =
     \<lparr>task_id = 1, task_user_id = 7, task_project_id = Some ''demo'', task_status = T_EXECUTING,
      task_type = ''coding'', task_parent_task_id = None, task_source_chat_id = None,
      task_source_thread_id = None, task_completed_at = None, task_budget_epoch = 0,
      task_spec_revision = None, task_version = 3\<rparr>"

definition sample_run :: run where
  "sample_run =
     \<lparr>run_id = 2, run_task_id = 1, run_source_interpretation_id = Some 9,
      run_workflow_type = ''fixed_executor'', run_workflow_version = ''1'', run_status = R_RUNNING,
      run_selected_route = [], run_budget_mode = ''balanced'', run_configuration_revision = ''c1'',
      run_policy_revision = ''p1'', run_prompt_revision = None,
      run_execution_contract_version = Some ''execution-contract.v1'', run_started_at = Some 0,
      run_ended_at = None, run_failure_category = None, run_failure_summary = None,
      run_version = 1, run_created_at = 0\<rparr>"

definition sample_step :: step where
  "sample_step =
     \<lparr>step_id = 3, step_run_id = 2, step_ordinal = 1, step_dependency_metadata = [],
      step_type = ''execute_code'', step_queue_class = Q_HEAVY, step_status = S_QUEUED,
      step_executor_profile_id = None, step_required_capabilities = [''code_edit''],
      step_payload = [], step_result = None, step_retry_class = RETRY_POLICY,
      step_idempotency_class = IDEM_UNKNOWN_EFFECTS_POSSIBLE, step_external_idempotency_key = None,
      step_attempt_count = 0, step_max_attempts = 2, step_priority = 100, step_available_at = 0,
      step_timeout_seconds = 3600, step_lease_owner = None, step_lease_expires_at = None,
      step_heartbeat_at = None, step_lease_generation = 0, step_failure_category = None,
      step_failure_summary = None, step_unknown_effects = False, step_version = 1,
      step_created_at = 0\<rparr>"

definition sample_item :: outbox_item where
  "sample_item =
     \<lparr>ob_id = 4, ob_destination = ''telegram'', ob_operation_type = ''send'',
      ob_linked_entity_type = ''task'', ob_linked_entity_id = 1, ob_idempotency_key = ''k'',
      ob_payload = [], ob_status = D_PENDING, ob_attempt_count = 0, ob_available_at = 0,
      ob_last_error_category = None, ob_last_error_ambiguous = False, ob_lease_owner = None,
      ob_lease_expires_at = None, ob_lease_generation = 0, ob_delivered_at = None,
      ob_created_at = 0\<rparr>"

definition empty_db :: db where
  "empty_db =
     \<lparr>db_tasks = [], db_runs = [], db_steps = [], db_events = [], db_outbox = [], db_links = [],
      db_packages = [], db_plan_items = [], db_plan_revisions = [], db_delegations = [], db_goals = [], db_effects = [],
      db_worktrees = [], db_approvals = [], db_environments = [], db_review_outcomes = [],
      db_preferences = [], db_reservations = [], db_usage = [], db_attempts = [], db_processes = [],
      db_actions = [], db_inferences = [], db_turns = [], db_decisions = [],
      db_calls = [], next_uuid = 100, db_now = 10, wall_now = 10\<rparr>"

definition sample_db :: db where
  "sample_db = empty_db\<lparr>db_tasks := [sample_task], db_runs := [sample_run],
     db_steps := [sample_step], db_outbox := [sample_item]\<rparr>"

lemmas sample_defs = sample_db_def empty_db_def sample_task_def sample_run_def sample_step_def
  sample_item_def

end
