(* ===== verification/Retry_Policy.thy ===== *)
theory Retry_Policy
  imports Sample_Rows
begin

text \<open>
  \<^verbatim>\<open>workflows/retry_policy.py\<close>: which blocked step a user's retry may address, and which
  steps may be repeated without a second external write.
\<close>

definition EXPLICITLY_RETRYABLE_FAILURES :: "string set" where
  "EXPLICITLY_RETRYABLE_FAILURES =
     {''authentication'', ''budget_exhausted'', ''capability_setup_required'',
      ''capability_provisioning_failed'', ''cancelled'', ''dependency_provisioning_failed'',
      ''independent_review_required'', ''admission_only_consent_required'', ''money_cap_reached'',
      ''money_cap_uncertified'', ''quota_exhausted'', ''rate_limited'', ''timeout'',
      ''provider_unavailable'', ''provider_attempts_exhausted'', ''reviewer_output_invalid''}"

definition MUTATING_CAPABILITIES :: "string set" where
  "MUTATING_CAPABILITIES =
     {''filesystem_write'', ''code_edit'', ''git'', ''host_admin'', ''project_shell'',
      ''telegram_send'', ''secrets'', ''network''}"

definition LEASE_EXPIRED_ATTEMPTS_EXHAUSTED :: string where
  "LEASE_EXPIRED_ATTEMPTS_EXHAUSTED = ''lease_expired_attempts_exhausted''"

definition LEASE_EXPIRED_UNKNOWN_EFFECTS :: string where
  "LEASE_EXPIRED_UNKNOWN_EFFECTS = ''lease_expired_unknown_effects''"

definition repeatable_without_new_mutation :: "step \<Rightarrow> bool" where
  "repeatable_without_new_mutation s =
     (if step_idempotency_class s = IDEM_READ_ONLY
      then set (step_required_capabilities s) \<inter> MUTATING_CAPABILITIES = {}
      else step_idempotency_class s = IDEM_IDEMPOTENT \<and>
        (case step_external_idempotency_key s of None \<Rightarrow> False | Some key \<Rightarrow> py_strip key \<noteq> []))"

section \<open>The retry target\<close>

text \<open>The three mutually bound pairs in which a blocked parent waits for a blocked child.\<close>

definition environment_pair :: "step \<Rightarrow> step \<Rightarrow> bool" where
  "environment_pair parent child =
     (step_type parent = ''validate'' \<and> step_type child = ''ensure_dependencies'' \<and>
      step_run_id child = step_run_id parent \<and>
      jget (step_payload parent) ''environment_recovery_step_id'' = JStr (uuid_str (step_id child)) \<and>
      jget (step_payload child) ''validation_environment_for_step_id'' =
        JStr (uuid_str (step_id parent)) \<and>
      jget (step_dependency_metadata child) ''template_key'' = JStr ''validation_environment_recovery'')"

definition capability_pair :: "step \<Rightarrow> step \<Rightarrow> bool" where
  "capability_pair parent child =
     (step_type parent = ''ensure_dependencies'' \<and>
      step_failure_category parent = Some ''capability_preflight_required'' \<and>
      step_type child = ''ensure_capabilities'' \<and> step_run_id child = step_run_id parent \<and>
      jget (step_payload child) ''capability_for_step_id'' = JStr (uuid_str (step_id parent)) \<and>
      jget (step_payload parent) ''capability_preflight_step_id'' = JStr (uuid_str (step_id child)) \<and>
      jget (step_dependency_metadata child) ''template_key'' = JStr ''ensure_capabilities_after_code'')"

definition repair_pair :: "step \<Rightarrow> step \<Rightarrow> bool" where
  "repair_pair parent child =
     (step_type parent \<in> {''validate'', ''review''} \<and>
      step_type child \<in> {''execute_code'', ''execute_agent''} \<and>
      step_run_id child = step_run_id parent \<and>
      jget (step_payload child) ''repair_for_step_id'' = JStr (uuid_str (step_id parent)) \<and>
      jget (step_payload parent) ''repair_scheduled_step_id'' = JStr (uuid_str (step_id child)) \<and>
      jget (step_dependency_metadata child) ''template_key'' = JStr ''repair_code'' \<and>
      json_eq_int (jget (step_dependency_metadata child) ''repair_for_ordinal'') (step_ordinal parent))"

definition suspended_by :: "step \<Rightarrow> step \<Rightarrow> bool" where
  "suspended_by parent child =
     (environment_pair parent child \<or> capability_pair parent child \<or> repair_pair parent child)"

definition current_retry_target :: "step list \<Rightarrow> step option" where
  "current_retry_target steps =
     (let blocked = filter (\<lambda>s. step_status s = S_BLOCKED) steps;
          suspended = map step_id (filter (\<lambda>parent. \<not> step_unknown_effects parent \<and>
             (\<exists>child \<in> set blocked. suspended_by parent child)) blocked);
          leaves = filter (\<lambda>s. step_id s \<notin> set suspended) blocked
      in case leaves of [s] \<Rightarrow> Some s | _ \<Rightarrow> None)"

definition blocked_step_is_retryable :: "step \<Rightarrow> bool" where
  "blocked_step_is_retryable s =
     (if step_unknown_effects s then False
      else
        let category = (case step_failure_category s of None \<Rightarrow> [] | Some c \<Rightarrow> c)
        in step_attempt_count s < step_max_attempts s \<or>
           category \<in> EXPLICITLY_RETRYABLE_FAILURES \<or> py_startswith category ''validation_'')"

definition failed_item_is_rematerializable :: "step \<Rightarrow> bool" where
  "failed_item_is_rematerializable s =
     (step_status s = S_FAILED \<and> \<not> step_unknown_effects s \<and>
      step_type s \<in> {''prepare_context'', ''prepare_worktree'', ''validate'', ''review'',
        ''build_static'', ''publish_preview''})"

section \<open>A retry has one unambiguous and safe target\<close>

lemma filter_singletonD: "filter P xs = [x] \<Longrightarrow> x \<in> set xs \<and> P x \<and> (\<forall>y \<in> set xs. P y \<longrightarrow> y = x)"
proof -
  assume "filter P xs = [x]"
  then have "set (filter P xs) = {x}" by simp
  then show ?thesis by auto
qed

lemma in_map_filterD: "k \<in> set (map f (filter P xs)) \<Longrightarrow> \<exists>y \<in> set xs. P y \<and> f y = k"
  by auto

lemma current_retry_target_Some:
  assumes "current_retry_target steps = Some s"
  shows "s \<in> set steps \<and> step_status s = S_BLOCKED \<and>
     (\<forall>x \<in> set steps. step_status x = S_BLOCKED \<and> x \<noteq> s \<longrightarrow>
        (\<exists>parent \<in> set steps. step_id parent = step_id x \<and> step_status parent = S_BLOCKED \<and>
           \<not> step_unknown_effects parent \<and>
           (\<exists>child \<in> set steps. step_status child = S_BLOCKED \<and> suspended_by parent child)))"
proof -
  let ?blocked = "filter (\<lambda>s. step_status s = S_BLOCKED) steps"
  let ?sus = "map step_id (filter (\<lambda>parent. \<not> step_unknown_effects parent \<and>
             (\<exists>child \<in> set ?blocked. suspended_by parent child)) ?blocked)"
  have "filter (\<lambda>s. step_id s \<notin> set ?sus) ?blocked = [s]"
    using assms by (auto simp: current_retry_target_def Let_def split: list.splits)
  note leaf = filter_singletonD [OF this]
  have "\<exists>parent \<in> set steps. step_id parent = step_id x \<and> step_status parent = S_BLOCKED \<and>
      \<not> step_unknown_effects parent \<and>
      (\<exists>child \<in> set steps. step_status child = S_BLOCKED \<and> suspended_by parent child)"
    if x: "x \<in> set steps" "step_status x = S_BLOCKED" "x \<noteq> s" for x
  proof -
    have "x \<in> set ?blocked" using x by simp
    then have "step_id x \<in> set ?sus" using leaf x(3) by blast
    from in_map_filterD [OF this] obtain parent where parent: "step_id parent = step_id x"
      "parent \<in> set ?blocked" "\<not> step_unknown_effects parent"
      "\<exists>child \<in> set ?blocked. suspended_by parent child" by blast
    then obtain child where "child \<in> set ?blocked" "suspended_by parent child" by blast
    with parent show ?thesis by (intro bexI [of _ parent] conjI bexI [of _ child]) simp_all
  qed
  moreover have "s \<in> set steps" "step_status s = S_BLOCKED" using leaf by simp_all
  ultimately show ?thesis by blast
qed

text \<open>An explicit retry is unambiguous and fails closed: when the policy offers a retry, the
  target is the one blocked step not waiting for another, no blocked step of the run has unknown
  effects, and every other blocked step is bound to a blocked child it waits for.\<close>

theorem retry_target_unambiguous_and_safe:
  assumes "distinct (map step_id steps)"
    and "current_retry_target steps = Some s" and "blocked_step_is_retryable s"
  shows "s \<in> set steps \<and> step_status s = S_BLOCKED \<and>
     (\<forall>x \<in> set steps. step_status x = S_BLOCKED \<longrightarrow> \<not> step_unknown_effects x) \<and>
     (\<forall>x \<in> set steps. step_status x = S_BLOCKED \<and> x \<noteq> s \<longrightarrow>
        (\<exists>child \<in> set steps. step_status child = S_BLOCKED \<and> suspended_by x child))"
proof -
  note t = current_retry_target_Some [OF assms(2)]
  have same: "x = y" if "x \<in> set steps" "y \<in> set steps" "step_id x = step_id y" for x y
    using that assms(1) by (metis inj_on_def distinct_map)
  have "\<not> step_unknown_effects s"
    using assms(3) by (auto simp: blocked_step_is_retryable_def split: if_splits)
  with t same show ?thesis by metis
qed

definition sample_blocked :: step where
  "sample_blocked = sample_step\<lparr>step_status := S_BLOCKED, step_type := ''validate'',
     step_failure_category := Some ''validation_failed''\<rparr>"

end
