(* ===== verification/Py_Json.thy ===== *)
theory Py_Json
  imports Vuzol_Prelude "HOL-Library.Multiset" "HOL-Library.List_Lexorder" "HOL-Library.Char_ord"
begin

text \<open>
  The Python standard-library conversions of decoded JSON values that the sources use:
  \<open>json.dumps(value, sort_keys=True, separators=(",", ":"))\<close> with either value of
  \<open>ensure_ascii\<close>, \<open>==\<close>, \<open>str\<close> and \<open>int\<close>. A character is a code point below 256;
  numbers are integers. SHA-256 is a parameter of the definitions that hash such a text.
\<close>

section \<open>Serialisation\<close>

definition json_escape :: "bool \<Rightarrow> char \<Rightarrow> string" where
  "json_escape ensure_ascii c =
     (let n = of_char c :: nat in
        if n = 34 then [CHR 0x5C, CHR 0x22]
        else if n = 92 then [CHR 0x5C, CHR 0x5C]
        else if n = 10 then [CHR 0x5C, CHR ''n'']
        else if n = 13 then [CHR 0x5C, CHR ''r'']
        else if n = 9 then [CHR 0x5C, CHR ''t'']
        else if n = 12 then [CHR 0x5C, CHR ''f'']
        else if n = 8 then [CHR 0x5C, CHR ''b'']
        else if n < 32 \<or> (ensure_ascii \<and> 126 < n) then CHR 0x5C # CHR ''u'' # hex_digits 4 n
        else [c])"

definition json_quote :: "bool \<Rightarrow> string \<Rightarrow> string" where
  "json_quote ensure_ascii s = CHR 0x22 # concat (map (json_escape ensure_ascii) s) @ [CHR 0x22]"

primrec json_dumps :: "bool \<Rightarrow> json \<Rightarrow> string" where
  "json_dumps a JNull = ''null''"
| "json_dumps a (JBool b) = (if b then ''true'' else ''false'')"
| "json_dumps a (JInt i) = int_dec i"
| "json_dumps a (JStr s) = json_quote a s"
| "json_dumps a (JList xs) = ''['' @ py_join '','' (map (json_dumps a) xs) @ '']''"
| "json_dumps a (JObj m) =
     ''{'' @ py_join '','' (map (\<lambda>(k, v). json_quote a k @ '':'' @ v)
       (sort_key fst (map (map_prod id (json_dumps a)) m))) @ ''}''"

text \<open>\<open>value == other\<close>: objects compare as sets of items, and \<open>True\<close> equals \<open>1\<close>.\<close>

primrec json_canon :: "json \<Rightarrow> json" where
  "json_canon JNull = JNull"
| "json_canon (JBool b) = JInt (if b then 1 else 0)"
| "json_canon (JInt i) = JInt i"
| "json_canon (JStr s) = JStr s"
| "json_canon (JList xs) = JList (map json_canon xs)"
| "json_canon (JObj m) = JObj (sort_key fst (map (map_prod id json_canon) m))"

definition json_eq :: "json \<Rightarrow> json \<Rightarrow> bool" where
  "json_eq x y = (json_canon x = json_canon y)"

section \<open>Conversions\<close>

definition py_printable :: "char \<Rightarrow> bool" where
  "py_printable c =
     (let n = of_char c :: nat in (32 \<le> n \<and> n \<le> 126) \<or> (161 \<le> n \<and> n \<noteq> 173))"

definition py_repr_char :: "char \<Rightarrow> char \<Rightarrow> string" where
  "py_repr_char q c =
     (let n = of_char c :: nat in
        if c = q \<or> n = 92 then [CHR 0x5C, c]
        else if n = 9 then [CHR 0x5C, CHR ''t'']
        else if n = 10 then [CHR 0x5C, CHR ''n'']
        else if n = 13 then [CHR 0x5C, CHR ''r'']
        else if py_printable c then [c]
        else CHR 0x5C # CHR ''x'' # hex_digits 2 n)"

definition py_repr_string :: "string \<Rightarrow> string" where
  "py_repr_string s =
     (let q = (if CHR 0x27 \<in> set s \<and> CHR 0x22 \<notin> set s then CHR 0x22 else CHR 0x27)
      in q # concat (map (py_repr_char q) s) @ [q])"

primrec py_repr :: "json \<Rightarrow> string" where
  "py_repr JNull = ''None''"
| "py_repr (JBool b) = (if b then ''True'' else ''False'')"
| "py_repr (JInt i) = int_dec i"
| "py_repr (JStr s) = py_repr_string s"
| "py_repr (JList xs) = ''['' @ py_join '', '' (map py_repr xs) @ '']''"
| "py_repr (JObj m) =
     ''{'' @ py_join '', '' (map (\<lambda>(k, v). py_repr_string k @ '': '' @ v)
       (map (map_prod id py_repr) m)) @ ''}''"

fun py_str :: "json \<Rightarrow> string" where
  "py_str (JStr s) = s"
| "py_str j = py_repr j"

text \<open>\<open>int(text)\<close>: surrounding space, a sign, and digits with single underscores between.\<close>

fun dec_parse :: "bool \<Rightarrow> nat \<Rightarrow> string \<Rightarrow> nat option" where
  "dec_parse digit acc [] = (if digit then Some acc else None)"
| "dec_parse digit acc (c # cs) =
     (if c = CHR ''_'' then (if digit then dec_parse False acc cs else None)
      else let n = of_char c :: nat in
        if 48 \<le> n \<and> n \<le> 57 then dec_parse True (10 * acc + (n - 48)) cs else None)"

definition py_int10 :: "string \<Rightarrow> int option" where
  "py_int10 s =
     (let t = py_strip s in
        case t of
          [] \<Rightarrow> None
        | c # cs \<Rightarrow>
            if c = CHR ''-'' then map_option (\<lambda>n. - int n) (dec_parse False 0 cs)
            else if c = CHR ''+'' then map_option int (dec_parse False 0 cs)
            else map_option int (dec_parse False 0 t))"

fun json_int :: "json \<Rightarrow> error + int" where
  "json_int (JInt i) = Inr i"
| "json_int (JBool b) = Inr (if b then 1 else 0)"
| "json_int (JStr s) =
     (case py_int10 s of
        None \<Rightarrow> Inl (ValueError ''invalid literal for int() with base 10'')
      | Some i \<Rightarrow> Inr i)"
| "json_int _ = Inl (TypeError ''int() argument must be a string or a number'')"

text \<open>\<open>obj.get(key, default)\<close>\<close>

definition jget_default :: "json_obj \<Rightarrow> string \<Rightarrow> json \<Rightarrow> json" where
  "jget_default obj key dflt = (case map_of obj key of None \<Rightarrow> dflt | Some v \<Rightarrow> v)"

text \<open>Iterating over a decoded value: characters of a text, keys of an object.\<close>

fun py_iter :: "json \<Rightarrow> error + json list" where
  "py_iter (JList xs) = Inr xs"
| "py_iter (JStr s) = Inr (map (\<lambda>c. JStr [c]) s)"
| "py_iter (JObj m) = Inr (map (\<lambda>(k, _). JStr k) m)"
| "py_iter _ = Inl (TypeError ''object is not iterable'')"

text \<open>\<open>value in {...}\<close> for a set of texts: an unhashable value raises.\<close>

fun py_in_strings :: "json \<Rightarrow> string set \<Rightarrow> error + bool" where
  "py_in_strings (JStr s) S = Inr (s \<in> S)"
| "py_in_strings (JList _) S = Inl (TypeError ''unhashable type: list'')"
| "py_in_strings (JObj _) S = Inl (TypeError ''unhashable type: dict'')"
| "py_in_strings _ S = Inr False"

text \<open>\<open>" ".join(text.split())\<close>\<close>

definition py_squeeze :: "string \<Rightarrow> string" where
  "py_squeeze s = py_join '' '' (py_split s)"

section \<open>The platform\<close>

text \<open>
  What the code takes from outside the repository's own logic: SHA-256 as hexadecimal text,
  \<open>datetime.fromisoformat\<close> (the instant in microseconds and whether it has an offset;
  \<open>None\<close> is its \<open>ValueError\<close>), the whitespace stripping of strings and \<open>isoformat\<close> of an
  instant of UTC.
\<close>

record platform =
  pf_sha256 :: "string \<Rightarrow> string"
  pf_fromisoformat :: "string \<Rightarrow> (int \<times> bool) option"
  pf_strip :: "string \<Rightarrow> string"
  pf_isoformat :: "int \<Rightarrow> string"

definition envelope_hash :: "platform \<Rightarrow> json_obj \<Rightarrow> string" where
  "envelope_hash pf envelope = pf_sha256 pf (json_dumps True (JObj envelope))"

section \<open>The text of an object does not depend on the order of its keys\<close>

lemma sort_key_distinct_keys:
  assumes "mset xs = mset ys" and "distinct (map fst xs)"
  shows "sort_key fst xs = sort_key (fst :: 'a::linorder \<times> 'b \<Rightarrow> 'a) ys"
  using assms by (intro sort_key_inj_key_eq) (auto simp: distinct_map)

lemma distinct_keys_mset:
  assumes "distinct (map fst m)" "distinct (map fst m')" "map_of m = map_of m'"
  shows "mset m = mset m'"
proof -
  have "set m = set m'"
    using assms by (metis map_of_eqI map_of_inject_set set_map)
  then show ?thesis
    using assms(1,2) by (metis distinct_map set_eq_iff_mset_eq_distinct)
qed

lemma json_dumps_key_order:
  assumes "distinct (map fst m)" "distinct (map fst m')" "map_of m = map_of m'"
  shows "json_dumps a (JObj m) = json_dumps a (JObj m')"
proof -
  have "mset (map (map_prod id (json_dumps a)) m) = mset (map (map_prod id (json_dumps a)) m')"
    using distinct_keys_mset [OF assms] by simp
  moreover have "distinct (map fst (map (map_prod id (json_dumps a)) m))"
    using assms(1) by (simp add: comp_def)
  ultimately show ?thesis using sort_key_distinct_keys by (metis json_dumps.simps(6))
qed

lemma jget_default_int [simp]:
  "map_of obj key = None \<Longrightarrow> jget_default obj key d = d"
  by (simp add: jget_default_def)

end
