(* ===== verification/Evidence.thy ===== *)
theory Evidence
  imports Sample_Rows Py_Json
begin

text \<open>
  The evidence behind a result approval (\<^verbatim>\<open>workflows/result_approval.py\<close>,
  \<open>_validation_evidence\<close> and its helpers, with \<open>TaskReport\<close> of
  \<^verbatim>\<open>research/report.py\<close>): which completed steps vouch for the retained result, and
  what the approval envelope copies from them. Russian card texts are transliterated letter by
  letter, so that their lengths are those of the source.
\<close>

section \<open>Bounded copies\<close>

text \<open>\<open>_agent_checks\<close>: provider claims, bounded and filtered.\<close>

definition agent_check :: "json \<Rightarrow> error + json list" where
  "agent_check item =
     (case item of
        JObj m \<Rightarrow>
          (case jget m ''name'' of
             JStr name \<Rightarrow>
               if py_strip name = [] \<or> 100 < length name then Inr []
               else
                 bindE (py_in_strings (jget m ''status'')
                          {''passed'', ''failed'', ''not_run'', ''unavailable''})
                 (\<lambda>allowed.
                    if \<not> allowed then Inr []
                    else
                      case jget m ''detail'' of
                        JNull \<Rightarrow>
                          Inr [JObj [(''name'', JStr (py_squeeze name)),
                                     (''status'', JStr (py_str (jget m ''status''))),
                                     (''detail'', JNull)]]
                      | JStr detail \<Rightarrow>
                          if 500 < length detail then Inr []
                          else Inr [JObj [(''name'', JStr (py_squeeze name)),
                                     (''status'', JStr (py_str (jget m ''status''))),
                                     (''detail'', if py_strip detail \<noteq> [] then JStr (py_squeeze detail)
                                                  else JNull)]]
                      | _ \<Rightarrow> Inr [])
           | _ \<Rightarrow> Inr [])
      | _ \<Rightarrow> Inr [])"

definition agent_checks :: "json_obj \<Rightarrow> error + json list" where
  "agent_checks execute_result =
     (case jget execute_result ''structured_output'' of
        JObj structured \<Rightarrow>
          (case jget structured ''agent_checks'' of
             JList raw \<Rightarrow>
               foldE (\<lambda>checks item. bindE (agent_check item) (\<lambda>c. Inr (checks @ c))) [] (take 12 raw)
           | _ \<Rightarrow> Inr [])
      | _ \<Rightarrow> Inr [])"

text \<open>\<open>_review_warnings\<close>: approval-visible warnings of the review.\<close>

fun is_JNull_or_JStr :: "json \<Rightarrow> bool" where
  "is_JNull_or_JStr JNull = True"
| "is_JNull_or_JStr (JStr _) = True"
| "is_JNull_or_JStr _ = False"

fun is_JNull_or_JInt :: "json \<Rightarrow> bool" where
  "is_JNull_or_JInt JNull = True"
| "is_JNull_or_JInt (JInt _) = True"
| "is_JNull_or_JInt _ = False"

definition review_warning :: "json \<Rightarrow> json option" where
  "review_warning item =
     (case item of
        JObj m \<Rightarrow>
          if jget m ''severity'' \<noteq> JStr ''warning'' then None
          else
            (case (jget m ''classification'', jget m ''summary'') of
               (JStr classification, JStr summary) \<Rightarrow>
                 if py_strip classification = [] \<or> py_strip summary = [] \<or>
                    \<not> is_JNull_or_JStr (jget m ''path'') \<or> \<not> is_JNull_or_JInt (jget m ''line'')
                 then None
                 else Some (JObj
                   [(''classification'', JStr (take 100 (py_squeeze classification))),
                    (''summary'', JStr (take 500 (py_squeeze summary))),
                    (''path'', case jget m ''path'' of
                                 JStr path \<Rightarrow> JStr (take 500 (py_squeeze path)) | _ \<Rightarrow> JNull),
                    (''line'', jget m ''line'')])
             | _ \<Rightarrow> None)
      | _ \<Rightarrow> None)"

definition review_warnings :: "json list \<Rightarrow> json list" where
  "review_warnings findings = List.map_filter review_warning (take 12 findings)"

text \<open>\<open>_trusted_artifact_records\<close>\<close>

definition trusted_artifact_record :: "json \<Rightarrow> bool" where
  "trusted_artifact_record artifact =
     (case artifact of
        JObj m \<Rightarrow>
          (case (jget m ''artifact_id'', jget m ''artifact_type'', jget m ''content_hash'',
                 jget m ''size_bytes'') of
             (JStr artifact_id, JStr artifact_type, JStr content_hash, JInt size_bytes) \<Rightarrow>
               uuid_parse artifact_id \<noteq> None \<and> artifact_type \<noteq> [] \<and> length artifact_type \<le> 100 \<and>
               length content_hash = 64 \<and> (\<forall>c \<in> set content_hash. lower_hex c) \<and> 0 \<le> size_bytes
           | _ \<Rightarrow> False)
      | _ \<Rightarrow> False)"

definition trusted_artifact_records :: "json list \<Rightarrow> bool" where
  "trusted_artifact_records artifacts =
     (length artifacts \<le> 40 \<and> (\<forall>a \<in> set artifacts. trusted_artifact_record a))"

section \<open>The report document\<close>

text \<open>\<open>TaskReport.model_validate(...).model_dump(mode="json")\<close>\<close>

definition report_text :: "platform \<Rightarrow> nat \<Rightarrow> json \<Rightarrow> string option" where
  "report_text pf max_length j =
     (case j of
        JStr s \<Rightarrow> let t = pf_strip pf s in
          if 1 \<le> length t \<and> length t \<le> max_length then Some t else None
      | _ \<Rightarrow> None)"

definition report_texts :: "platform \<Rightarrow> nat \<Rightarrow> nat \<Rightarrow> json \<Rightarrow> string list option" where
  "report_texts pf min_length max_length j =
     (case j of
        JList xs \<Rightarrow>
          let ts = map (report_text pf 4000) xs in
            if None \<notin> set ts \<and> min_length \<le> length xs \<and> length xs \<le> max_length
            then Some (map the ts) else None
      | _ \<Rightarrow> None)"

definition task_report :: "platform \<Rightarrow> json \<Rightarrow> error + json_obj" where
  "task_report pf j =
     (case j of
        JObj m \<Rightarrow>
          if set (map fst m) = {''summary'', ''findings'', ''sources'', ''limitations''}
          then
            (case (report_text pf 4000 (jget m ''summary''), report_texts pf 1 40 (jget m ''findings''),
                   report_texts pf 1 40 (jget m ''sources''),
                   report_texts pf 0 20 (jget m ''limitations'')) of
               (Some summary, Some findings, Some sources, Some limitations) \<Rightarrow>
                 Inr [(''summary'', JStr summary), (''findings'', JList (map JStr findings)),
                      (''sources'', JList (map JStr sources)),
                      (''limitations'', JList (map JStr limitations))]
             | _ \<Rightarrow> Inl (ValueError ''validation error for TaskReport''))
          else Inl (ValueError ''validation error for TaskReport'')
      | _ \<Rightarrow> Inl (ValueError ''validation error for TaskReport''))"

section \<open>Selecting the evidence\<close>

definition result_of :: "step \<Rightarrow> json_obj" where
  "result_of s = (case step_result s of None \<Rightarrow> [] | Some r \<Rightarrow> r)"

fun nonempty_list :: "json \<Rightarrow> bool" where
  "nonempty_list (JList xs) = (xs \<noteq> [])"
| "nonempty_list _ = False"

definition vouches_for :: "worktree \<Rightarrow> step \<Rightarrow> bool" where
  "vouches_for wt s =
     (case jget (result_of s) ''structured_output'' of
        JObj structured \<Rightarrow>
          jget structured ''result_commit'' = opt_json (wt_result_commit wt) \<and>
          jget structured ''base_commit'' = JStr (wt_base_commit wt) \<and>
          nonempty_list (jget structured ''gates'')
      | _ \<Rightarrow> False)"

definition validation_source :: "step list \<Rightarrow> worktree \<Rightarrow> step option" where
  "validation_source ordered wt =
     (case find (\<lambda>s. step_type s = ''validate'' \<and> step_status s = S_COMPLETED \<and> vouches_for wt s)
             (rev ordered) of
        Some s \<Rightarrow> Some s
      | None \<Rightarrow> find (\<lambda>s. step_status s = S_COMPLETED \<and> vouches_for wt s) (rev ordered))"

definition gate_passed :: "json \<Rightarrow> bool" where
  "gate_passed gate = (case gate of JObj m \<Rightarrow> json_eq_int (jget m ''exit_code'') 0 | _ \<Rightarrow> False)"

definition passing_gates :: "json_obj \<Rightarrow> error + json list" where
  "passing_gates manifest =
     (case jget manifest ''gates'' of
        JList gates \<Rightarrow>
          if gates = [] \<or> \<not> (\<forall>g \<in> set gates. gate_passed g)
          then Inl (ValueError ''result approval requires passing trusted gates'') else Inr gates
      | _ \<Rightarrow> Inl (ValueError ''result approval requires passing trusted gates''))"

fun blocking_findings :: "json list \<Rightarrow> error + bool" where
  "blocking_findings [] = Inr False"
| "blocking_findings (finding # rest) =
     (case finding of
        JObj m \<Rightarrow>
          bindE (py_in_strings (jget m ''severity'') {''error'', ''blocker''})
            (\<lambda>b. if b then Inr True else blocking_findings rest)
      | _ \<Rightarrow> Inr True)"

text \<open>The review part: the evidence copied into the envelope and its hash.\<close>

definition review_evidence ::
  "platform \<Rightarrow> step list \<Rightarrow> worktree \<Rightarrow> error + (json \<times> json)" where
  "review_evidence pf ordered wt =
     (case find (\<lambda>s. step_type s = ''review'' \<and> step_status s = S_COMPLETED) ordered of
        None \<Rightarrow>
          if \<exists>s \<in> set ordered. step_type s = ''review''
          then Inl (ValueError ''result approval requires the configured review step to complete'')
          else Inr (JNull, JNull)
      | Some review \<Rightarrow>
          (case jget (result_of review) ''structured_output'' of
             JObj manifest \<Rightarrow>
               if jget manifest ''base_commit'' \<noteq> JStr (wt_base_commit wt) \<or>
                  jget manifest ''result_commit'' \<noteq> opt_json (wt_result_commit wt) \<or>
                  jget manifest ''diff_hash'' \<noteq> opt_json (wt_diff_hash wt)
               then Inl (ValueError ''review evidence does not match the retained result'')
               else
                 bindE (py_in_strings (jget manifest ''verdict'') {''pass'', ''pass_with_warnings''})
                 (\<lambda>passing.
                    if \<not> passing
                    then Inl (ValueError ''result approval requires a passing review verdict'')
                    else
                      case jget_default manifest ''findings'' (JList []) of
                        JList findings \<Rightarrow>
                          bindE (blocking_findings findings)
                          (\<lambda>blocking.
                             if blocking
                             then Inl (ValueError ''passing review evidence contains blocking findings'')
                             else
                               let hash = JStr (envelope_hash pf manifest)
                               in Inr (JObj
                                 [(''schema_version'', jget manifest ''schema_version''),
                                  (''verdict'', jget manifest ''verdict''),
                                  (''review_kind'', jget manifest ''review_kind''),
                                  (''risk'', jget manifest ''risk''),
                                  (''base_commit'', jget manifest ''base_commit''),
                                  (''result_commit'', jget manifest ''result_commit''),
                                  (''diff_hash'', jget manifest ''diff_hash''),
                                  (''warnings'', JList (review_warnings findings)),
                                  (''evidence_hash'', hash)], hash))
                      | _ \<Rightarrow> Inl (ValueError ''passing review evidence contains blocking findings''))
           | _ \<Rightarrow> Inl (ValueError ''result approval requires structured review output'')))"

definition executed_step :: "step list \<Rightarrow> step option" where
  "executed_step ordered =
     find (\<lambda>s. step_type s \<in> {''execute_code'', ''execute_agent''} \<and> step_status s = S_COMPLETED)
       (rev ordered)"

definition check_report :: "platform \<Rightarrow> step list \<Rightarrow> json_obj \<Rightarrow> error + unit" where
  "check_report pf ordered manifest =
     (if jget manifest ''result_kind'' \<noteq> JStr ''report'' then Inr ()
      else
        bindE (task_report pf
          (case executed_step ordered of
             None \<Rightarrow> JNull
           | Some e \<Rightarrow> if result_of e = [] then JNull else jget (result_of e) ''structured_output''))
        (\<lambda>document.
           let report_hash = jget manifest ''report_hash'';
               review = find (\<lambda>s. step_type s = ''review'' \<and> step_status s = S_COMPLETED) ordered
           in if JStr (envelope_hash pf document) \<noteq> report_hash \<or>
                 \<not> json_eq (jget manifest ''report'') (JObj document) \<or>
                 (case review of
                    None \<Rightarrow> True
                  | Some r \<Rightarrow>
                      \<not> json_eq (jget (jobj_or_empty (jget (result_of r) ''structured_output''))
                                ''report_hash'') report_hash)
              then Inl (ValueError ''report evidence changed after validation/review'')
              else Inr ()))"

definition static_build_evidence :: "step list \<Rightarrow> worktree \<Rightarrow> error + json" where
  "static_build_evidence ordered wt =
     (if \<not> (\<exists>s \<in> set ordered. step_type s = ''build_static'') then Inr JNull
      else
        case Option.bind (find (\<lambda>s. step_type s = ''build_static'' \<and> step_status s = S_COMPLETED)
               ordered) step_result of
          None \<Rightarrow>
            Inl (ValueError ''result approval requires the configured static build to complete'')
        | Some build \<Rightarrow>
            if jget build ''status'' = JStr ''built'' then
              (if jget build ''source_commit'' \<noteq> opt_json (wt_result_commit wt) \<or>
                  \<not> is_JStr (jget build ''artifact_hash'')
               then Inl (ValueError ''static build evidence does not match the retained result'')
               else Inr (JObj (map (\<lambda>key. (key, jget build key))
                 (filter (jhas build) [''source_commit'', ''source_directory'', ''entrypoint'',
                    ''artifact_hash'', ''files'', ''bytes'', ''gate'']))))
            else if jget build ''status'' \<noteq> JStr ''skipped''
            then Inl (ValueError ''static build did not produce a publishable result'')
            else Inr JNull)"

definition artifact_evidence :: "platform \<Rightarrow> step list \<Rightarrow> worktree \<Rightarrow> error + json" where
  "artifact_evidence pf ordered wt =
     (if \<not> (\<exists>s \<in> set ordered. step_type s = ''produce_artifacts'') then Inr JNull
      else
        case Option.bind (find (\<lambda>s. step_type s = ''produce_artifacts'' \<and> step_status s = S_COMPLETED)
               ordered) step_result of
          None \<Rightarrow> Inl (ValueError ''result approval requires artifact production to complete'')
        | Some result \<Rightarrow>
            if jget result ''status'' = JStr ''produced'' then
              (case jget result ''artifacts'' of
                 JList artifacts \<Rightarrow>
                   if jget result ''source_commit'' \<noteq> opt_json (wt_result_commit wt) \<or>
                      artifacts = [] \<or> \<not> trusted_artifact_records artifacts
                   then Inl (ValueError ''artifact evidence does not match the retained result'')
                   else Inr (JObj
                     [(''source_commit'', opt_json (wt_result_commit wt)),
                      (''artifacts'', JList artifacts),
                      (''evidence_hash'', JStr (envelope_hash pf result))])
               | _ \<Rightarrow> Inl (ValueError ''artifact evidence does not match the retained result''))
            else if jget result ''status'' \<noteq> JStr ''skipped''
            then Inl (ValueError ''artifact production did not produce trusted evidence'')
            else Inr JNull)"

section \<open>The evidence record\<close>

record evidence =
  vd_agent_checks :: "json list"
  vd_gates :: "json list"
  vd_report_hash :: json
  vd_summary :: string
  vd_no_change :: bool
  vd_no_change_reason :: string
  vd_changed_files :: "string list"
  vd_validation_evidence_hash :: string
  vd_review_evidence :: json
  vd_review_evidence_hash :: json
  vd_static_build_evidence :: json
  vd_artifact_evidence :: json

definition no_change_reason :: "json_obj \<Rightarrow> string" where
  "no_change_reason manifest =
     (case jget manifest ''no_change_reason'' of JStr reason \<Rightarrow> take 2000 reason | _ \<Rightarrow> [])"

definition result_summary :: "json_obj \<Rightarrow> json_obj \<Rightarrow> string" where
  "result_summary manifest execute_result =
     (let claimed =
            (case jget execute_result ''implementation_summary'' of
               JStr candidate \<Rightarrow> if py_strip candidate \<noteq> [] then Some (py_strip (py_squeeze candidate)) else None
             | _ \<Rightarrow> None);
          reason = no_change_reason manifest
      in if jget manifest ''no_change'' = JBool True
         then ''Izmeneniy ne potrebovalos_.'' @
              (if reason \<noteq> [] then '' Ob_asnenie ispolnitela: '' @ reason else [])
         else case claimed of
                Some summary \<Rightarrow> summary
              | None \<Rightarrow>
                  ''Izmeneno faylov: '' @
                  nat_dec (case jget manifest ''changed_files'' of JList xs \<Rightarrow> length xs | _ \<Rightarrow> 0) @
                  ''. Rezul_tat prowel vse nastroennye proverki.'')"

definition validation_evidence ::
  "platform \<Rightarrow> step list \<Rightarrow> worktree \<Rightarrow> error + evidence" where
  "validation_evidence pf steps wt =
     (let ordered = sort_key step_ordinal steps in
      case validation_source ordered wt of
        None \<Rightarrow> Inl (ValueError ''result approval requires a completed validate step'')
      | Some source \<Rightarrow>
          let manifest = jobj_or_empty (jget (result_of source) ''structured_output'');
              execute_result =
                (case executed_step ordered of None \<Rightarrow> [] | Some e \<Rightarrow> result_of e)
          in
          bindE (passing_gates manifest) (\<lambda>gates.
          bindE (review_evidence pf ordered wt) (\<lambda>(review, review_hash).
          bindE (check_report pf ordered manifest) (\<lambda>_.
          bindE (static_build_evidence ordered wt) (\<lambda>build.
          bindE (artifact_evidence pf ordered wt) (\<lambda>artifacts.
          bindE (agent_checks execute_result) (\<lambda>checks.
          bindE (py_iter (jget_default manifest ''changed_files'' (JList []))) (\<lambda>changed.
          Inr \<lparr>vd_agent_checks = checks, vd_gates = gates,
               vd_report_hash = jget manifest ''report_hash'',
               vd_summary = take 2000 (result_summary manifest execute_result),
               vd_no_change = (jget manifest ''no_change'' = JBool True),
               vd_no_change_reason = no_change_reason manifest,
               vd_changed_files = List.map_filter jstr_of changed,
               vd_validation_evidence_hash = envelope_hash pf manifest,
               vd_review_evidence = review, vd_review_evidence_hash = review_hash,
               vd_static_build_evidence = build, vd_artifact_evidence = artifacts\<rparr>))))))))"

section \<open>What the evidence proves\<close>

lemma find_rev_last:
  assumes "find P (rev xs) = Some x"
  obtains i where "i < length xs" "xs ! i = x" "P x" "\<And>j. i < j \<Longrightarrow> j < length xs \<Longrightarrow> \<not> P (xs ! j)"
proof -
  from assms obtain k where k: "k < length xs" "P (rev xs ! k)" "x = rev xs ! k"
    and before: "\<forall>j<k. \<not> P (rev xs ! j)" by (auto simp: find_Some_iff)
  show thesis
  proof (rule that [of "length xs - Suc k"])
    show "length xs - Suc k < length xs" "xs ! (length xs - Suc k) = x" "P x"
      using k by (simp_all add: rev_nth)
    fix j
    assume j: "length xs - Suc k < j" "j < length xs"
    then have "length xs - Suc j < k" by simp
    with before have "\<not> P (rev xs ! (length xs - Suc j))" by blast
    with j show "\<not> P (xs ! j)" by (simp add: rev_nth)
  qed
qed

lemma find_eq_None: "find P xs = None \<longleftrightarrow> (\<forall>x \<in> set xs. \<not> P x)"
  by (auto simp: find_None_iff)

lemma validation_source_Some:
  assumes "validation_source ordered wt = Some s"
  shows "s \<in> set ordered \<and> step_status s = S_COMPLETED \<and> vouches_for wt s"
  using assms by (auto simp: validation_source_def split: option.splits dest!: find_SomeD)

text \<open>The newest completed validation is preferred.\<close>

lemma validation_source_newest:
  assumes src: "validation_source ordered wt = Some s" and sorted: "sorted (map step_ordinal ordered)"
    and x: "x \<in> set ordered" "step_type x = ''validate''" "step_status x = S_COMPLETED"
      "vouches_for wt x"
  shows "step_type s = ''validate'' \<and> step_ordinal x \<le> step_ordinal s"
proof -
  let ?P = "\<lambda>s. step_type s = ''validate'' \<and> step_status s = S_COMPLETED \<and> vouches_for wt s"
  have "find ?P (rev ordered) \<noteq> None" using x by (auto simp: find_eq_None)
  then have f: "find ?P (rev ordered) = Some s"
    using src by (auto simp: validation_source_def split: option.splits)
  then obtain i where i: "i < length ordered" "ordered ! i = s"
    and after: "\<And>j. i < j \<Longrightarrow> j < length ordered \<Longrightarrow> \<not> ?P (ordered ! j)" by (rule find_rev_last) blast
  from x(1) obtain j where j: "j < length ordered" "ordered ! j = x" by (auto simp: in_set_conv_nth)
  have "j \<le> i" using after [of j] j x by force
  then have "step_ordinal x \<le> step_ordinal s"
    using sorted i j by (auto simp: sorted_iff_nth_mono)
  moreover have "step_type s = ''validate''" using find_SomeD [OF f] by simp
  ultimately show ?thesis by simp
qed

lemma passing_gates_Inr:
  "passing_gates manifest = Inr gates \<Longrightarrow> gates \<noteq> [] \<and> (\<forall>g \<in> set gates. gate_passed g)"
  by (auto simp: passing_gates_def split: json.splits if_splits)

lemma py_in_strings_True: "py_in_strings j S = Inr True \<longleftrightarrow> (\<exists>s \<in> S. j = JStr s)"
  by (cases j) auto

lemma py_in_strings_False: "py_in_strings j S = Inr False \<Longrightarrow> s \<in> S \<Longrightarrow> j \<noteq> JStr s"
  by (cases j) auto

definition finding_blocks :: "json \<Rightarrow> bool" where
  "finding_blocks f =
     (case f of JObj m \<Rightarrow> jget m ''severity'' \<in> {JStr ''error'', JStr ''blocker''} | _ \<Rightarrow> True)"

lemma blocking_findings_False:
  "blocking_findings fs = Inr False \<Longrightarrow> f \<in> set fs \<Longrightarrow> \<not> finding_blocks f"
proof (induction fs)
  case Nil
  then show ?case by simp
next
  case (Cons x xs)
  from Cons.prems(1) obtain m where m: "x = JObj m"
    "py_in_strings (jget m ''severity'') {''error'', ''blocker''} = Inr False"
    "blocking_findings xs = Inr False"
    by (auto simp: res_simps split: json.splits if_splits)
  have "\<not> finding_blocks x"
    using m(1) py_in_strings_False [OF m(2)] by (auto simp: finding_blocks_def)
  with Cons m show ?case by auto
qed

text \<open>A review that approves exactly the retained result.\<close>

definition review_approves :: "worktree \<Rightarrow> step \<Rightarrow> bool" where
  "review_approves wt r =
     (let m = jobj_or_empty (jget (result_of r) ''structured_output'') in
      jget m ''base_commit'' = JStr (wt_base_commit wt) \<and>
      jget m ''result_commit'' = opt_json (wt_result_commit wt) \<and>
      jget m ''diff_hash'' = opt_json (wt_diff_hash wt) \<and>
      jget m ''verdict'' \<in> {JStr ''pass'', JStr ''pass_with_warnings''} \<and>
      (\<exists>fs. jget_default m ''findings'' (JList []) = JList fs \<and> (\<forall>f \<in> set fs. \<not> finding_blocks f)))"

lemma review_evidence_Inr:
  assumes "review_evidence pf ordered wt = Inr rh"
  shows "(\<forall>s \<in> set ordered. step_type s \<noteq> ''review'') \<or>
     (\<exists>r \<in> set ordered. step_type r = ''review'' \<and> step_status r = S_COMPLETED \<and> review_approves wt r)"
proof (cases "find (\<lambda>s. step_type s = ''review'' \<and> step_status s = S_COMPLETED) ordered")
  case None
  then show ?thesis using assms by (auto simp: review_evidence_def split: if_splits)
next
  case (Some r)
  from assms Some obtain m where m: "jget (result_of r) ''structured_output'' = JObj m"
    by (auto simp: review_evidence_def split: json.splits)
  with assms Some obtain fs where
    commits: "jget m ''base_commit'' = JStr (wt_base_commit wt)"
      "jget m ''result_commit'' = opt_json (wt_result_commit wt)"
      "jget m ''diff_hash'' = opt_json (wt_diff_hash wt)"
    and verdict: "py_in_strings (jget m ''verdict'') {''pass'', ''pass_with_warnings''} = Inr True"
    and fs: "jget_default m ''findings'' (JList []) = JList fs" "blocking_findings fs = Inr False"
    by (auto simp: review_evidence_def res_simps split: if_splits json.splits)
  have "review_approves wt r"
    using m commits verdict fs blocking_findings_False [OF fs(2)]
    by (auto simp: review_approves_def py_in_strings_True)
  then show ?thesis using find_SomeD [OF Some] by blast
qed

lemma validation_evidence_Inr:
  assumes "validation_evidence pf steps wt = Inr e"
  obtains source where "validation_source (sort_key step_ordinal steps) wt = Some source"
    "passing_gates (jobj_or_empty (jget (result_of source) ''structured_output'')) = Inr (vd_gates e)"
    "review_evidence pf (sort_key step_ordinal steps) wt =
       Inr (vd_review_evidence e, vd_review_evidence_hash e)"
    "vd_validation_evidence_hash e =
       envelope_hash pf (jobj_or_empty (jget (result_of source) ''structured_output''))"
  using assms
  by (auto simp: validation_evidence_def Let_def res_simps split: option.splits)


definition sample_platform :: platform where
  "sample_platform = \<lparr>pf_sha256 = id, pf_fromisoformat = (\<lambda>_. None), pf_strip = py_strip,
     pf_isoformat = (\<lambda>_. [])\<rparr>"

definition sample_worktree :: worktree where
  "sample_worktree =
     \<lparr>wt_id = 5, wt_task_id = 1, wt_run_id = 2, wt_project_id = ''demo'', wt_repository_identity_hash = ''id'',
      wt_base_commit = ''base'', wt_default_branch = ''main'', wt_expected_target_head = ''base'',
      wt_path = ''/work/demo'',
      wt_delivery_state = W_WORKTREE_RETAINED,
      wt_result_commit = Some ''head'', wt_diff_hash = Some ''diff'',
      wt_delivery_operation_hash = None, wt_delivered_ref = None, wt_created_at = 0\<rparr>"

definition sample_validated :: step where
  "sample_validated = sample_step\<lparr>step_type := ''validate'', step_status := S_COMPLETED,
     step_result := Some [(''structured_output'', JObj
       [(''result_commit'', JStr ''head''), (''base_commit'', JStr ''base''),
        (''gates'', JList [JObj [(''exit_code'', JInt 0)]])])]\<rparr>"

lemma sample_vouches: "vouches_for sample_worktree sample_validated"
  by (simp add: vouches_for_def sample_validated_def sample_worktree_def result_of_def opt_json_def)

lemma sample_source:
  "validation_source [sample_validated] sample_worktree = Some sample_validated"
  using sample_vouches by (simp add: validation_source_def) (simp add: sample_validated_def)

lemma sample_evidence: "\<exists>e. validation_evidence sample_platform [sample_validated] sample_worktree = Inr e"
  by (simp add: validation_evidence_def sample_source)
    (simp add: sample_validated_def sample_step_def result_of_def passing_gates_def gate_passed_def
      review_evidence_def check_report_def static_build_evidence_def artifact_evidence_def
      agent_checks_def executed_step_def jget_default_def Let_def)


text \<open>After repairs the approval binds to the newest validation: when completed validate steps
  vouch for the retained result, the bound manifest is that of one with the greatest ordinal.\<close>

theorem approval_binds_newest_validation:
  assumes "validation_evidence pf steps wt = Inr e"
    and "x \<in> set steps" "step_type x = ''validate''" "step_status x = S_COMPLETED" "vouches_for wt x"
  shows "\<exists>s \<in> set steps. step_type s = ''validate'' \<and> step_status s = S_COMPLETED \<and>
     vouches_for wt s \<and> step_ordinal x \<le> step_ordinal s \<and>
     vd_validation_evidence_hash e =
       envelope_hash pf (jobj_or_empty (jget (result_of s) ''structured_output''))"
proof -
  from assms(1) obtain s where s: "validation_source (sort_key step_ordinal steps) wt = Some s"
    "vd_validation_evidence_hash e =
       envelope_hash pf (jobj_or_empty (jget (result_of s) ''structured_output''))"
    by (rule validation_evidence_Inr)
  have "step_type s = ''validate'' \<and> step_ordinal x \<le> step_ordinal s"
    by (rule validation_source_newest [OF s(1)]) (use assms in \<open>simp_all add: set_sort\<close>)
  then show ?thesis using validation_source_Some [OF s(1)] s(2) by (auto simp: set_sort)
qed

end
