(* ===== verification/Lead_Events.thy ===== *)
theory Lead_Events
  imports Sample_Rows
begin

text \<open>
  \<^verbatim>\<open>workflows/lead_events.py\<close>: the notifications a task or review change leaves in the
  transactional outbox for the package sequencer and the project lead, committed together with the
  change. The attention feed itself (\<open>sync_attention\<close>) is a recorded call.
\<close>

section \<open>Outbox rows\<close>

definition new_outbox_row ::
  "db \<Rightarrow> string \<Rightarrow> string \<Rightarrow> string \<Rightarrow> uuid \<Rightarrow> string \<Rightarrow> json_obj \<Rightarrow> outbox_item" where
  "new_outbox_row d destination operation linked_type linked_id key payload =
     \<lparr>ob_id = next_uuid d, ob_destination = destination, ob_operation_type = operation,
      ob_linked_entity_type = linked_type, ob_linked_entity_id = linked_id,
      ob_idempotency_key = key, ob_payload = payload, ob_status = D_PENDING,
      ob_attempt_count = 0, ob_available_at = db_now d, ob_last_error_category = None,
      ob_last_error_ambiguous = False, ob_lease_owner = None, ob_lease_expires_at = None,
      ob_lease_generation = 0, ob_delivered_at = None, ob_created_at = db_now d\<rparr>"

definition lead_enqueue :: "outbox_item \<Rightarrow> db \<Rightarrow> db" where
  "lead_enqueue row d =
     (if \<exists>r \<in> set (db_outbox d). ob_destination r = ob_destination row \<and>
           ob_idempotency_key r = ob_idempotency_key row
      then d
      else d\<lparr>db_outbox := db_outbox d @ [row], next_uuid := Suc (next_uuid d)\<rparr>)"

section \<open>The owner's mandate\<close>

definition OBSERVED_TASK_STATUSES :: "task_status set" where
  "OBSERVED_TASK_STATUSES =
     {T_COMPLETED, T_CANCELLED, T_FAILED, T_BLOCKED, T_QUOTA_EXHAUSTED, T_WAITING_APPROVAL}"

definition ATTENTION_REASONS :: "string list" where
  "ATTENTION_REASONS =
     [''owner'', ''plan_approval'', ''waiting_approval'', ''awaiting_user'', ''waiting'',
      ''failed'', ''blocked'', ''rolled_back'', ''unknown_effects_open'',
      ''lead_inference_reconciliation'', ''quota_exhausted'', ''work_package_limit_reached'',
      ''work_item_limit_reached'', ''lead_budget_exceeded'', ''lead_context_limit'',
      ''goal_review_context_limit'', ''lead_model_unconfigured'', ''lead_profile_unselected'',
      ''lead_model_unavailable'', ''lead_response_invalid'', ''goal_review_invalid'',
      ''goal_review_unavailable'', ''planner_unavailable'', ''planner_model_unavailable'',
      ''planner_provider_unavailable'', ''planner_timeout'', ''planner_authentication'',
      ''planner_unknown'', ''planner_invalid_output'', ''planner_invalid_structured_output'',
      ''planner_output_truncated'', ''planner_context_too_large'',
      ''planner_unsupported_capability'', ''planner_permanent_request'',
      ''planner_profile_unselected'', ''planner_budget_exceeded'',
      ''planner_quota_exhausted'', ''planner_rate_limited'', ''planner_context_limit'',
      ''delegation_expired'', ''delegation_revoked'', ''completed'']"

definition delegation_is_expired :: "time option \<Rightarrow> time \<Rightarrow> bool" where
  "delegation_is_expired expires_at now =
     (case expires_at of None \<Rightarrow> False | Some t \<Rightarrow> t \<le> now)"

definition has_owner_mandate :: "managed_goal \<Rightarrow> bool" where
  "has_owner_mandate goal =
     (\<not> py_truthy (jget (goal_constraints goal) ''mandate_required'') \<or>
      json_eq_int
        (jget (jobj_or_empty (jget (goal_constraints goal) ''owner_mandate'')) ''scope_revision'')
        (goal_scope_revision goal))"

definition lead_accepts_results :: "db \<Rightarrow> managed_goal \<Rightarrow> bool" where
  "lead_accepts_results d goal =
     (if goal_lifecycle goal \<in> {''cancelled'', ''completed'', ''paused''} \<or>
         \<not> has_owner_mandate goal
      then False
      else case find_row deleg_id (db_delegations d) (goal_delegation_id goal) of
             None \<Rightarrow> False
           | Some delegation \<Rightarrow>
               deleg_revoked_at delegation = None \<and>
               \<not> delegation_is_expired (deleg_expires_at delegation) (wall_now d) \<and>
               {''accept_result'', ''apply_integration''} \<inter>
                 set (deleg_allowed_actions delegation) \<noteq> {})"

section \<open>Publishing\<close>

definition task_link :: "db \<Rightarrow> uuid \<Rightarrow> materialization_link option" where
  "task_link d tid = find_row link_task_id (db_links d) tid"

definition get_package :: "db \<Rightarrow> uuid \<Rightarrow> work_package option" where
  "get_package d = find_row wp_id (db_packages d)"

definition get_goal :: "db \<Rightarrow> uuid \<Rightarrow> managed_goal option" where
  "get_goal d = find_row goal_id (db_goals d)"

definition task_has_unknown_effects :: "db \<Rightarrow> uuid \<Rightarrow> bool" where
  "task_has_unknown_effects d tid =
     (\<exists>s \<in> set (db_steps d). step_unknown_effects s \<and>
        (\<exists>r \<in> set (db_runs d). run_id r = step_run_id s \<and> run_task_id r = tid))"

definition attention_reason :: "db \<Rightarrow> task \<Rightarrow> managed_goal \<Rightarrow> string option" where
  "attention_reason d t goal =
     (let value = task_status_value (task_status t);
          r1 = (if value \<in> set ATTENTION_REASONS then Some value else None);
          r2 = (if task_status t = T_COMPLETED \<or>
                   goal_lifecycle goal \<in> {''completed'', ''cancelled''} then None else r1);
          r3 = (if r2 = Some ''waiting_approval'' \<and> lead_accepts_results d goal then None else r2)
      in if r3 = Some ''blocked'' \<and> task_has_unknown_effects d (task_id t)
         then Some ''unknown_effects_open'' else r3)"

definition wakeup_kind :: "task_status \<Rightarrow> string" where
  "wakeup_kind s =
     (if s = T_QUOTA_EXHAUSTED then ''limit_hit''
      else if s = T_WAITING_APPROVAL then ''review_result'' else ''task_finished'')"

definition observe_terminal_row :: "db \<Rightarrow> task \<Rightarrow> materialization_link \<Rightarrow> outbox_item" where
  "observe_terminal_row d t link =
     new_outbox_row d ''work_package_sequence'' ''observe_task_terminal'' ''task'' (task_id t)
       (''work-package:terminal:'' @ uuid_str (task_id t) @ '':'' @ int_dec (task_version t))
       [(''work_package_id'', JStr (uuid_str (link_work_package_id link))),
        (''ordinal'', JInt (link_ordinal link)),
        (''task_status'', JStr (task_status_value (task_status t)))]"

definition task_wakeup_row :: "db \<Rightarrow> task \<Rightarrow> work_package \<Rightarrow> uuid \<Rightarrow> outbox_item" where
  "task_wakeup_row d t package gid =
     (let kind = wakeup_kind (task_status t) in
      new_outbox_row d ''project_lead'' ''lead_wakeup'' ''managed_goal'' gid
        (''lead:task:'' @ uuid_str (task_id t) @ '':'' @ int_dec (task_version t) @ '':'' @ kind)
        [(''goal_id'', JStr (uuid_str gid)), (''package_id'', JStr (uuid_str (wp_id package))),
         (''task_id'', JStr (uuid_str (task_id t))), (''generation'', JInt (task_version t)),
         (''wakeup_kind'', JStr kind)])"

text \<open>The call into the attention feed, made only for packages of an existing managed goal.\<close>

definition note_attention :: "task \<Rightarrow> work_package option \<Rightarrow> db \<Rightarrow> db" where
  "note_attention t package d =
     (case package of
        None \<Rightarrow> d
      | Some p \<Rightarrow>
          (case wp_managed_goal_id p of
             None \<Rightarrow> d
           | Some gid \<Rightarrow>
               (case get_goal d gid of
                  None \<Rightarrow> d
                | Some goal \<Rightarrow>
                    add_call (SyncAttention gid (attention_reason d t goal)
                      (''task:'' @ uuid_str (task_id t)) (task_version t)) d)))"

definition publish_task_event :: "task \<Rightarrow> db \<Rightarrow> db" where
  "publish_task_event t d =
     (case task_link d (task_id t) of
        None \<Rightarrow> d
      | Some link \<Rightarrow>
          (let package = get_package d (link_work_package_id link);
               d1 = note_attention t package d
           in if task_status t \<notin> OBSERVED_TASK_STATUSES then d1
              else
                let d2 = (if task_status t \<noteq> T_WAITING_APPROVAL
                          then lead_enqueue (observe_terminal_row d1 t link) d1 else d1)
                in case package of
                     None \<Rightarrow> d2
                   | Some p \<Rightarrow>
                       (case wp_managed_goal_id p of
                          None \<Rightarrow> d2
                        | Some gid \<Rightarrow> lead_enqueue (task_wakeup_row d2 t p gid) d2)))"

definition review_wakeup_row :: "db \<Rightarrow> task \<Rightarrow> step \<Rightarrow> work_package \<Rightarrow> uuid \<Rightarrow> outbox_item" where
  "review_wakeup_row d t s package gid =
     new_outbox_row d ''project_lead'' ''lead_wakeup'' ''managed_goal'' gid
       (''lead:review:'' @ uuid_str (step_id s) @ '':'' @ int_dec (step_lease_generation s) @
        '':'' @ int_dec (step_version s))
       [(''goal_id'', JStr (uuid_str gid)), (''package_id'', JStr (uuid_str (wp_id package))),
        (''task_id'', JStr (uuid_str (task_id t))), (''step_id'', JStr (uuid_str (step_id s))),
        (''generation'', JInt (step_lease_generation s)), (''step_version'', JInt (step_version s)),
        (''wakeup_kind'', JStr ''review_result'')]"

definition publish_review_event :: "task \<Rightarrow> step \<Rightarrow> db \<Rightarrow> db" where
  "publish_review_event t s d =
     (case Option.bind (task_link d (task_id t)) (\<lambda>link. get_package d (link_work_package_id link)) of
        None \<Rightarrow> d
      | Some p \<Rightarrow>
          (case wp_managed_goal_id p of
             None \<Rightarrow> d
           | Some gid \<Rightarrow> lead_enqueue (review_wakeup_row d t s p gid) d))"

definition LIVE_GOAL_LIFECYCLES :: "string list" where
  "LIVE_GOAL_LIFECYCLES = [''draft'', ''active'', ''waiting'', ''paused'']"

definition planning_requested :: "task \<Rightarrow> uuid \<Rightarrow> event \<Rightarrow> bool" where
  "planning_requested t iid e =
     (ev_entity_type e = ''task'' \<and> ev_entity_id e = task_id t \<and>
      ev_event_type e = ''task.planning_requested'' \<and>
      jget (ev_payload e) ''interpretation_id'' = JStr (uuid_str iid))"

definition publish_planning_request :: "task \<Rightarrow> uuid \<Rightarrow> db \<Rightarrow> db" where
  "publish_planning_request t iid d =
     (if \<exists>e \<in> set (db_events d). planning_requested t iid e then d
      else
        let payload = [(''source_task_id'', JStr (uuid_str (task_id t))),
                       (''interpretation_id'', JStr (uuid_str iid)),
                       (''wakeup_kind'', JStr ''planning_requested'')];
            d1 = add_event
              \<lparr>ev_entity_type = ''task'', ev_entity_id = task_id t,
               ev_event_type = ''task.planning_requested'', ev_actor_type = ''workflow_manager'',
               ev_actor_id = None, ev_previous_state = None, ev_new_state = None,
               ev_payload = payload\<rparr> d
        in case Option.bind (task_project_id t) (\<lambda>p.
                  if p = [] then None
                  else find (\<lambda>g. goal_project_id g = p \<and>
                             goal_lifecycle g \<in> set LIVE_GOAL_LIFECYCLES) (db_goals d1)) of
             None \<Rightarrow> d1
           | Some goal \<Rightarrow>
               lead_enqueue
                 (new_outbox_row d1 ''project_lead'' ''lead_wakeup'' ''managed_goal'' (goal_id goal)
                    (''lead:planning-request:'' @ uuid_str iid)
                    (jput payload ''goal_id'' (JStr (uuid_str (goal_id goal))))) d1)"

section \<open>Outbox uniqueness\<close>

text \<open>The unique constraint on \<open>(destination, idempotency_key)\<close>.\<close>

definition outbox_key :: "outbox_item \<Rightarrow> string \<times> string" where
  "outbox_key r = (ob_destination r, ob_idempotency_key r)"

definition outbox_unique :: "db \<Rightarrow> bool" where
  "outbox_unique d = distinct (map outbox_key (db_outbox d))"

lemma lead_enqueue_unique [simp]: "outbox_unique d \<Longrightarrow> outbox_unique (lead_enqueue row d)"
  by (auto simp: lead_enqueue_def outbox_unique_def outbox_key_def)

lemma lead_enqueue_present:
  "\<exists>r \<in> set (db_outbox (lead_enqueue row d)). outbox_key r = outbox_key row"
  by (auto simp: lead_enqueue_def outbox_key_def)

lemma lead_enqueue_keeps: "set (db_outbox d) \<subseteq> set (db_outbox (lead_enqueue row d))"
  by (auto simp: lead_enqueue_def)

lemma lead_enqueue_noop:
  "outbox_key row \<in> outbox_key ` set (db_outbox d) \<Longrightarrow> lead_enqueue row d = d"
  by (force simp: lead_enqueue_def outbox_key_def)

text \<open>What publishing leaves alone.\<close>

lemma lead_enqueue_frame [simp]:
  "db_tasks (lead_enqueue row d) = db_tasks d" "db_runs (lead_enqueue row d) = db_runs d"
  "db_steps (lead_enqueue row d) = db_steps d" "db_events (lead_enqueue row d) = db_events d"
  "db_links (lead_enqueue row d) = db_links d" "db_packages (lead_enqueue row d) = db_packages d"
  "db_goals (lead_enqueue row d) = db_goals d" "db_effects (lead_enqueue row d) = db_effects d"
  "db_approvals (lead_enqueue row d) = db_approvals d"
  "db_now (lead_enqueue row d) = db_now d" "wall_now (lead_enqueue row d) = wall_now d"
  by (simp_all add: lead_enqueue_def)

lemma note_attention_frame [simp]:
  "db_tasks (note_attention t p d) = db_tasks d" "db_runs (note_attention t p d) = db_runs d"
  "db_steps (note_attention t p d) = db_steps d" "db_events (note_attention t p d) = db_events d"
  "db_outbox (note_attention t p d) = db_outbox d" "db_links (note_attention t p d) = db_links d"
  "db_packages (note_attention t p d) = db_packages d" "db_goals (note_attention t p d) = db_goals d"
  "db_effects (note_attention t p d) = db_effects d"
  "db_approvals (note_attention t p d) = db_approvals d"
  "db_now (note_attention t p d) = db_now d" "wall_now (note_attention t p d) = wall_now d"
  "next_uuid (note_attention t p d) = next_uuid d"
  by (simp_all add: note_attention_def add_call_def split: option.splits)

lemma publish_task_event_frame [simp]:
  "db_tasks (publish_task_event t d) = db_tasks d" "db_runs (publish_task_event t d) = db_runs d"
  "db_steps (publish_task_event t d) = db_steps d"
  "db_events (publish_task_event t d) = db_events d"
  "db_links (publish_task_event t d) = db_links d"
  "db_packages (publish_task_event t d) = db_packages d"
  "db_goals (publish_task_event t d) = db_goals d"
  "db_effects (publish_task_event t d) = db_effects d"
  "db_approvals (publish_task_event t d) = db_approvals d"
  "db_now (publish_task_event t d) = db_now d" "wall_now (publish_task_event t d) = wall_now d"
  by (simp_all add: publish_task_event_def Let_def split: option.splits)

lemma publish_review_event_frame [simp]:
  "db_tasks (publish_review_event t s d) = db_tasks d"
  "db_runs (publish_review_event t s d) = db_runs d"
  "db_steps (publish_review_event t s d) = db_steps d"
  "db_events (publish_review_event t s d) = db_events d"
  "db_effects (publish_review_event t s d) = db_effects d"
  "db_approvals (publish_review_event t s d) = db_approvals d"
  "db_now (publish_review_event t s d) = db_now d"
  by (simp_all add: publish_review_event_def split: option.splits)

lemma publish_reads [simp]:
  "get_task (publish_task_event t d) = get_task d" "get_run (publish_task_event t d) = get_run d"
  "get_step (publish_task_event t d) = get_step d"
  "get_task (publish_review_event t s d) = get_task d"
  "get_run (publish_review_event t s d) = get_run d"
  "get_step (publish_review_event t s d) = get_step d"
  by (simp_all add: get_task_def get_run_def get_step_def)

lemma note_attention_unique [simp]: "outbox_unique (note_attention t p d) = outbox_unique d"
  by (simp add: outbox_unique_def)

lemma publish_task_event_unique:
  "outbox_unique d \<Longrightarrow> outbox_unique (publish_task_event t d)"
  by (simp add: publish_task_event_def Let_def split: option.splits)

lemma lead_enqueue_mem [intro]: "r \<in> set (db_outbox d) \<Longrightarrow> r \<in> set (db_outbox (lead_enqueue row d))"
  using lead_enqueue_keeps by blast

lemma publish_task_event_keeps: "set (db_outbox d) \<subseteq> set (db_outbox (publish_task_event t d))"
  by (auto simp: publish_task_event_def Let_def intro!: lead_enqueue_mem split: option.splits)

text \<open>The rows a publication asks for depend on the task and the links only.\<close>

lemma row_keys:
  "outbox_key (observe_terminal_row d t link) = outbox_key (observe_terminal_row d' t link)"
  "outbox_key (task_wakeup_row d t p gid) = outbox_key (task_wakeup_row d' t p gid)"
  by (simp_all add: observe_terminal_row_def task_wakeup_row_def new_outbox_row_def outbox_key_def
      Let_def)

end
