(* ===== verification/Transitions.thy ===== *)
theory Transitions
  imports Lead_Events
begin

text \<open>
  \<^verbatim>\<open>workflows/transitions.py\<close>: the legal status changes of tasks, runs and steps, and the
  audited operations that perform them. Every change increments the row's version and appends one
  \<open>status_changed\<close> event; a task change is also published.
\<close>

section \<open>Tables\<close>

fun TASK_TRANSITIONS :: "task_status \<Rightarrow> task_status set" where
  "TASK_TRANSITIONS T_RECEIVED =
     {T_INTERPRETED, T_AWAITING_USER, T_FAILED, T_CANCELLED}"
| "TASK_TRANSITIONS T_INTERPRETED =
     {T_CONTEXT_PREPARED, T_PLANNED, T_EXECUTING, T_AWAITING_USER, T_PAUSED,
      T_QUOTA_EXHAUSTED, T_BLOCKED, T_FAILED, T_CANCELLED, T_COMPLETED}"
| "TASK_TRANSITIONS T_CONTEXT_PREPARED =
     {T_PLANNED, T_WAITING_APPROVAL, T_EXECUTING, T_AWAITING_USER, T_PAUSED, T_BLOCKED,
      T_FAILED, T_CANCELLED}"
| "TASK_TRANSITIONS T_PLANNED =
     {T_CONTEXT_PREPARED, T_WAITING_APPROVAL, T_EXECUTING, T_AWAITING_USER, T_PAUSED,
      T_QUOTA_EXHAUSTED, T_BLOCKED, T_FAILED, T_CANCELLED}"
| "TASK_TRANSITIONS T_WAITING_APPROVAL =
     {T_EXECUTING, T_AWAITING_USER, T_PAUSED, T_BLOCKED, T_FAILED, T_CANCELLED}"
| "TASK_TRANSITIONS T_EXECUTING =
     {T_CONTEXT_PREPARED, T_VALIDATING, T_REVIEWING, T_WAITING_APPROVAL, T_AWAITING_USER,
      T_RETRYING, T_QUOTA_EXHAUSTED, T_PAUSED, T_BLOCKED, T_FAILED, T_CANCELLED,
      T_COMPLETED}"
| "TASK_TRANSITIONS T_VALIDATING =
     {T_REVIEWING, T_EXECUTING, T_AWAITING_USER, T_RETRYING, T_QUOTA_EXHAUSTED, T_PAUSED,
      T_BLOCKED, T_FAILED, T_CANCELLED, T_COMPLETED}"
| "TASK_TRANSITIONS T_REVIEWING =
     {T_EXECUTING, T_VALIDATING, T_RETRYING, T_WAITING_APPROVAL, T_AWAITING_USER,
      T_QUOTA_EXHAUSTED, T_PAUSED, T_BLOCKED, T_FAILED, T_CANCELLED, T_COMPLETED}"
| "TASK_TRANSITIONS T_AWAITING_USER =
     {T_INTERPRETED, T_EXECUTING, T_VALIDATING, T_REVIEWING, T_PAUSED, T_BLOCKED,
      T_FAILED, T_CANCELLED}"
| "TASK_TRANSITIONS T_PAUSED =
     {T_INTERPRETED, T_CONTEXT_PREPARED, T_PLANNED, T_WAITING_APPROVAL, T_EXECUTING,
      T_VALIDATING, T_REVIEWING, T_BLOCKED, T_FAILED, T_CANCELLED}"
| "TASK_TRANSITIONS T_RETRYING =
     {T_CONTEXT_PREPARED, T_PLANNED, T_WAITING_APPROVAL, T_EXECUTING, T_VALIDATING,
      T_REVIEWING, T_AWAITING_USER, T_QUOTA_EXHAUSTED, T_PAUSED, T_BLOCKED, T_FAILED,
      T_CANCELLED}"
| "TASK_TRANSITIONS T_QUOTA_EXHAUSTED =
     {T_RETRYING, T_AWAITING_USER, T_BLOCKED, T_CANCELLED}"
| "TASK_TRANSITIONS T_BLOCKED =
     {T_RETRYING, T_AWAITING_USER, T_PAUSED, T_FAILED, T_CANCELLED}"
| "TASK_TRANSITIONS T_COMPLETED =
     {T_ROLLED_BACK}"
| "TASK_TRANSITIONS T_FAILED =
     {}"
| "TASK_TRANSITIONS T_CANCELLED =
     {}"
| "TASK_TRANSITIONS T_ROLLED_BACK =
     {}"

fun RUN_TRANSITIONS :: "run_status \<Rightarrow> run_status set" where
  "RUN_TRANSITIONS R_CREATED =
     {R_RUNNING, R_AWAITING_USER, R_PAUSED, R_BLOCKED, R_FAILED, R_CANCELLED}"
| "RUN_TRANSITIONS R_RUNNING =
     {R_AWAITING_USER, R_PAUSED, R_BLOCKED, R_FAILED, R_CANCELLED, R_COMPLETED}"
| "RUN_TRANSITIONS R_AWAITING_USER =
     {R_RUNNING, R_PAUSED, R_BLOCKED, R_FAILED, R_CANCELLED}"
| "RUN_TRANSITIONS R_PAUSED =
     {R_RUNNING, R_BLOCKED, R_FAILED, R_CANCELLED}"
| "RUN_TRANSITIONS R_BLOCKED =
     {R_RUNNING, R_AWAITING_USER, R_PAUSED, R_FAILED, R_CANCELLED}"
| "RUN_TRANSITIONS R_FAILED =
     {}"
| "RUN_TRANSITIONS R_CANCELLED =
     {}"
| "RUN_TRANSITIONS R_COMPLETED =
     {}"

fun STEP_TRANSITIONS :: "step_status \<Rightarrow> step_status set" where
  "STEP_TRANSITIONS S_PENDING =
     {S_QUEUED, S_WAITING_APPROVAL, S_AWAITING_USER, S_BLOCKED, S_FAILED, S_CANCELLED}"
| "STEP_TRANSITIONS S_QUEUED =
     {S_LEASED, S_AWAITING_USER, S_BLOCKED, S_FAILED, S_CANCELLED}"
| "STEP_TRANSITIONS S_LEASED =
     {S_RUNNING, S_QUEUED, S_BLOCKED, S_FAILED, S_CANCELLED}"
| "STEP_TRANSITIONS S_RUNNING =
     {S_COMPLETED, S_QUEUED, S_WAITING_APPROVAL, S_AWAITING_USER, S_BLOCKED, S_FAILED,
      S_CANCELLED}"
| "STEP_TRANSITIONS S_WAITING_APPROVAL =
     {S_QUEUED, S_BLOCKED, S_FAILED, S_CANCELLED}"
| "STEP_TRANSITIONS S_AWAITING_USER =
     {S_QUEUED, S_BLOCKED, S_FAILED, S_CANCELLED}"
| "STEP_TRANSITIONS S_BLOCKED =
     {S_QUEUED, S_FAILED, S_CANCELLED}"
| "STEP_TRANSITIONS S_FAILED =
     {}"
| "STEP_TRANSITIONS S_CANCELLED =
     {}"
| "STEP_TRANSITIONS S_COMPLETED =
     {}"

definition check_transition :: "('s \<Rightarrow> 's set) \<Rightarrow> ('s \<Rightarrow> string) \<Rightarrow> 's \<Rightarrow> 's \<Rightarrow> error + unit" where
  "check_transition table value previous target =
     (if target \<notin> table previous
      then Inl (IllegalTransition (''illegal transition: '' @ value previous @ '' -> '' @ value target))
      else Inr ())"

section \<open>Operations\<close>

definition status_event ::
  "string \<Rightarrow> uuid \<Rightarrow> string \<Rightarrow> string \<Rightarrow> string \<Rightarrow> string option \<Rightarrow> json_obj \<Rightarrow> event" where
  "status_event entity_type eid previous target actor_type actor_id payload =
     \<lparr>ev_entity_type = entity_type, ev_entity_id = eid,
      ev_event_type = entity_type @ ''.status_changed'', ev_actor_type = actor_type,
      ev_actor_id = actor_id, ev_previous_state = Some previous, ev_new_state = Some target,
      ev_payload = payload\<rparr>"

text \<open>
  The callers hold the row they pass; a missing row is the case that does not arise, and is an
  assertion failure here.
\<close>

definition moved_task :: "time \<Rightarrow> task_status \<Rightarrow> task \<Rightarrow> task" where
  "moved_task now target t =
     t\<lparr>task_status := target, task_version := task_version t + 1,
       task_completed_at :=
         (if target \<in> USER_TERMINAL_TASK_STATUSES then Some now else None)\<rparr>"

definition transition_task ::
  "db \<Rightarrow> uuid \<Rightarrow> task_status \<Rightarrow> string \<Rightarrow> string option \<Rightarrow> json_obj \<Rightarrow> error + db" where
  "transition_task d tid target actor_type actor_id payload =
     (case get_task d tid of
        None \<Rightarrow> Inl AssertionError
      | Some t \<Rightarrow>
          bindE (check_transition TASK_TRANSITIONS task_status_value (task_status t) target) (\<lambda>_.
          Inr (publish_task_event (moved_task (db_now d) target t)
                 (add_event (status_event ''task'' tid (task_status_value (task_status t))
                    (task_status_value target) actor_type actor_id payload)
                  (upd_task tid (moved_task (db_now d) target) d)))))"

definition transition_run ::
  "db \<Rightarrow> uuid \<Rightarrow> run_status \<Rightarrow> string \<Rightarrow> string option \<Rightarrow> json_obj \<Rightarrow> error + db" where
  "transition_run d rid target actor_type actor_id payload =
     (case get_run d rid of
        None \<Rightarrow> Inl AssertionError
      | Some r \<Rightarrow>
          bindE (check_transition RUN_TRANSITIONS run_status_value (run_status r) target) (\<lambda>_.
          Inr (add_event (status_event ''run'' rid (run_status_value (run_status r))
                 (run_status_value target) actor_type actor_id payload)
               (upd_run rid (\<lambda>x. x\<lparr>run_status := target, run_version := run_version x + 1\<rparr>) d))))"

definition transition_step ::
  "db \<Rightarrow> uuid \<Rightarrow> step_status \<Rightarrow> string \<Rightarrow> string option \<Rightarrow> json_obj \<Rightarrow> error + db" where
  "transition_step d sid target actor_type actor_id payload =
     (case get_step d sid of
        None \<Rightarrow> Inl AssertionError
      | Some s \<Rightarrow>
          bindE (check_transition STEP_TRANSITIONS step_status_value (step_status s) target) (\<lambda>_.
          Inr (add_event (status_event ''step'' sid (step_status_value (step_status s))
                 (step_status_value target) actor_type actor_id payload)
               (upd_step sid (\<lambda>x. x\<lparr>step_status := target, step_version := step_version x + 1\<rparr>)
                  d))))"

section \<open>Lifecycles\<close>

text \<open>A sequence of statuses in which each is a legal change from the one before.\<close>

fun legal_path :: "('s \<Rightarrow> 's set) \<Rightarrow> 's \<Rightarrow> 's list \<Rightarrow> bool" where
  "legal_path table s [] = True"
| "legal_path table s (t # ts) = (t \<in> table s \<and> legal_path table t ts)"

text \<open>
  The contract of a lifecycle: settled statuses are never left for unsettled ones, everything
  unsettled can be cancelled, and no change is a change to the same status.
\<close>

locale lifecycle =
  fixes table :: "'s \<Rightarrow> 's set" and settled :: "'s set" and cancelled :: 's
  assumes settled_closed: "s \<in> settled \<Longrightarrow> table s \<subseteq> settled"
    and cancellable: "s \<notin> settled \<Longrightarrow> cancelled \<in> table s"
    and cancelled_settled: "cancelled \<in> settled"
    and irreflexive: "s \<notin> table s"
begin

lemma settled_path: "legal_path table s ts \<Longrightarrow> s \<in> settled \<Longrightarrow> set ts \<subseteq> settled"
  using settled_closed by (induction table s ts rule: legal_path.induct) auto

lemma settled_cannot_reopen:
  "legal_path table s (xs @ [u]) \<Longrightarrow> u \<notin> settled \<Longrightarrow> s \<notin> settled \<and> set xs \<inter> settled = {}"
proof (induction xs arbitrary: s)
  case Nil
  then show ?case using settled_closed by auto
next
  case (Cons x xs)
  have rest: "legal_path table x (xs @ [u])" and step: "x \<in> table s"
    using Cons.prems(1) by auto
  have "x \<notin> settled \<and> set xs \<inter> settled = {}" using Cons.IH [OF rest Cons.prems(2)] .
  moreover have "s \<notin> settled" using step calculation settled_closed by blast
  ultimately show ?case by simp
qed

lemma always_settleable: "\<exists>ts. legal_path table s ts \<and> last (s # ts) \<in> settled"
proof (cases "s \<in> settled")
  case True
  then show ?thesis by (intro exI [of _ "[]"]) simp
next
  case False
  then show ?thesis
    using cancellable cancelled_settled by (intro exI [of _ "[cancelled]"]) simp
qed

end

definition TASK_SETTLED :: "task_status set" where
  "TASK_SETTLED = {T_COMPLETED, T_FAILED, T_CANCELLED, T_ROLLED_BACK}"

definition RUN_TERMINAL :: "run_status set" where
  "RUN_TERMINAL = {R_FAILED, R_CANCELLED, R_COMPLETED}"

definition STEP_TERMINAL :: "step_status set" where
  "STEP_TERMINAL = {S_FAILED, S_CANCELLED, S_COMPLETED}"

interpretation task_life: lifecycle TASK_TRANSITIONS TASK_SETTLED T_CANCELLED
proof unfold_locales
  fix s :: task_status
  show "s \<in> TASK_SETTLED \<Longrightarrow> TASK_TRANSITIONS s \<subseteq> TASK_SETTLED"
    by (cases s) (simp_all add: TASK_SETTLED_def)
  show "s \<notin> TASK_SETTLED \<Longrightarrow> T_CANCELLED \<in> TASK_TRANSITIONS s"
    by (cases s) (simp_all add: TASK_SETTLED_def)
  show "T_CANCELLED \<in> TASK_SETTLED" by (simp add: TASK_SETTLED_def)
  show "s \<notin> TASK_TRANSITIONS s" by (cases s) simp_all
qed

interpretation run_life: lifecycle RUN_TRANSITIONS RUN_TERMINAL R_CANCELLED
proof unfold_locales
  fix s :: run_status
  show "s \<in> RUN_TERMINAL \<Longrightarrow> RUN_TRANSITIONS s \<subseteq> RUN_TERMINAL"
    by (cases s) (simp_all add: RUN_TERMINAL_def)
  show "s \<notin> RUN_TERMINAL \<Longrightarrow> R_CANCELLED \<in> RUN_TRANSITIONS s"
    by (cases s) (simp_all add: RUN_TERMINAL_def)
  show "R_CANCELLED \<in> RUN_TERMINAL" by (simp add: RUN_TERMINAL_def)
  show "s \<notin> RUN_TRANSITIONS s" by (cases s) simp_all
qed

interpretation step_life: lifecycle STEP_TRANSITIONS STEP_TERMINAL S_CANCELLED
proof unfold_locales
  fix s :: step_status
  show "s \<in> STEP_TERMINAL \<Longrightarrow> STEP_TRANSITIONS s \<subseteq> STEP_TERMINAL"
    by (cases s) (simp_all add: STEP_TERMINAL_def)
  show "s \<notin> STEP_TERMINAL \<Longrightarrow> S_CANCELLED \<in> STEP_TRANSITIONS s"
    by (cases s) (simp_all add: STEP_TERMINAL_def)
  show "S_CANCELLED \<in> STEP_TERMINAL" by (simp add: STEP_TERMINAL_def)
  show "s \<notin> STEP_TRANSITIONS s" by (cases s) simp_all
qed

lemma step_terminal_no_moves: "s \<in> STEP_TERMINAL \<Longrightarrow> STEP_TRANSITIONS s = {}"
  by (cases s) (simp_all add: STEP_TERMINAL_def)

lemma run_terminal_no_moves: "s \<in> RUN_TERMINAL \<Longrightarrow> RUN_TRANSITIONS s = {}"
  by (cases s) (simp_all add: RUN_TERMINAL_def)

section \<open>Functional behaviour\<close>

lemma check_transition_Inr [simp]:
  "check_transition table value s t = Inr u \<longleftrightarrow> t \<in> table s"
  by (simp add: check_transition_def)

lemma transition_stepE:
  assumes "transition_step d sid target actor aid payload = Inr d'"
  obtains s where "get_step d sid = Some s" "target \<in> STEP_TRANSITIONS (step_status s)"
    "d' = add_event (status_event ''step'' sid (step_status_value (step_status s))
            (step_status_value target) actor aid payload)
          (upd_step sid (\<lambda>x. x\<lparr>step_status := target, step_version := step_version x + 1\<rparr>) d)"
  using assms by (auto simp: transition_step_def res_simps split: option.splits)

lemma transition_runE:
  assumes "transition_run d rid target actor aid payload = Inr d'"
  obtains r where "get_run d rid = Some r" "target \<in> RUN_TRANSITIONS (run_status r)"
    "d' = add_event (status_event ''run'' rid (run_status_value (run_status r))
            (run_status_value target) actor aid payload)
          (upd_run rid (\<lambda>x. x\<lparr>run_status := target, run_version := run_version x + 1\<rparr>) d)"
  using assms by (auto simp: transition_run_def res_simps split: option.splits)

lemma transition_taskE:
  assumes "transition_task d tid target actor aid payload = Inr d'"
  obtains t where "get_task d tid = Some t" "target \<in> TASK_TRANSITIONS (task_status t)"
    "d' = publish_task_event (moved_task (db_now d) target t)
           (add_event (status_event ''task'' tid (task_status_value (task_status t))
              (task_status_value target) actor aid payload)
            (upd_task tid (moved_task (db_now d) target) d))"
  using assms by (auto simp: transition_task_def res_simps split: option.splits)

lemma moved_task_simps [simp]:
  "task_id (moved_task now target t) = task_id t"
  "task_status (moved_task now target t) = target"
  "task_version (moved_task now target t) = task_version t + 1"
  by (simp_all add: moved_task_def)

text \<open>What a transition changes and what it leaves alone.\<close>

lemma transition_step_get_step:
  "transition_step d sid target actor aid payload = Inr d' \<Longrightarrow>
   get_step d' k = (if k = sid
     then map_option (\<lambda>x. x\<lparr>step_status := target, step_version := step_version x + 1\<rparr>)
       (get_step d sid)
     else get_step d k)"
  by (elim transition_stepE) (simp add: step_store.get_upd)

lemma transition_step_frame:
  "transition_step d sid target actor aid payload = Inr d' \<Longrightarrow>
   db_tasks d' = db_tasks d \<and> db_runs d' = db_runs d \<and> db_outbox d' = db_outbox d \<and>
   db_effects d' = db_effects d \<and> db_approvals d' = db_approvals d \<and> db_now d' = db_now d \<and>
   map step_id (db_steps d') = map step_id (db_steps d) \<and> next_uuid d' = next_uuid d"
  by (elim transition_stepE)
    (simp add: step_store.keys_upd upd_step_def add_event_def map_key_update_row)

lemma transition_run_frame:
  "transition_run d rid target actor aid payload = Inr d' \<Longrightarrow>
   db_tasks d' = db_tasks d \<and> db_steps d' = db_steps d \<and> db_outbox d' = db_outbox d \<and>
   db_effects d' = db_effects d \<and> db_approvals d' = db_approvals d \<and> db_now d' = db_now d \<and>
   map run_id (db_runs d') = map run_id (db_runs d) \<and> next_uuid d' = next_uuid d"
  by (elim transition_runE)
    (simp add: run_store.keys_upd upd_run_def add_event_def map_key_update_row)

lemma transition_task_get_task:
  "transition_task d tid target actor aid payload = Inr d' \<Longrightarrow>
   get_task d' k = (if k = tid then map_option (moved_task (db_now d) target) (get_task d tid)
                    else get_task d k)"
  by (elim transition_taskE) (simp add: task_store.get_upd)

lemma transition_task_frame:
  "transition_task d tid target actor aid payload = Inr d' \<Longrightarrow>
   db_runs d' = db_runs d \<and> db_steps d' = db_steps d \<and>
   db_effects d' = db_effects d \<and> db_approvals d' = db_approvals d \<and> db_now d' = db_now d \<and>
   map task_id (db_tasks d') = map task_id (db_tasks d)"
  by (elim transition_taskE)
    (simp add: task_store.keys_upd upd_task_def add_event_def map_key_update_row)

lemma transition_run_get_run:
  "transition_run d rid target actor aid payload = Inr d' \<Longrightarrow>
   get_run d' k = (if k = rid
     then map_option (\<lambda>x. x\<lparr>run_status := target, run_version := run_version x + 1\<rparr>)
       (get_run d rid)
     else get_run d k)"
  by (elim transition_runE) (simp add: run_store.get_upd)

section \<open>The audit trail\<close>

text \<open>The recorded status changes of one entity, oldest first.\<close>

definition status_history :: "string \<Rightarrow> uuid \<Rightarrow> event list \<Rightarrow> (string option \<times> string option) list" where
  "status_history entity_type eid events =
     map (\<lambda>e. (ev_previous_state e, ev_new_state e))
       (filter (\<lambda>e. ev_entity_type e = entity_type \<and> ev_entity_id e = eid \<and>
                    ev_event_type e = entity_type @ ''.status_changed'') events)"

text \<open>
  A history that leads from a first status to a last one through legal changes: each record starts
  where the one before ended.
\<close>

fun audited :: "('s \<Rightarrow> 's set) \<Rightarrow> ('s \<Rightarrow> string) \<Rightarrow> 's \<Rightarrow> (string option \<times> string option) list \<Rightarrow> 's \<Rightarrow> bool"
where
  "audited table value s [] t = (s = t)"
| "audited table value s ((p, n) # rest) t =
     (p = Some (value s) \<and>
      (\<exists>m. n = Some (value m) \<and> m \<in> table s \<and> audited table value m rest t))"

lemma audited_snoc:
  assumes "audited table value s h t" and "u \<in> table t"
  shows "audited table value s (h @ [(Some (value t), Some (value u))]) u"
  using assms
proof (induction h arbitrary: s)
  case Nil
  then show ?case by auto
next
  case (Cons x h)
  obtain p n where x: "x = (p, n)" by (cases x)
  with Cons.prems obtain m where "p = Some (value s)" "n = Some (value m)" "m \<in> table s"
    "audited table value m h t" by auto
  with Cons.IH [of m] Cons.prems(2) x show ?case by auto
qed

lemma audited_legal_path:
  "audited table value s h t \<Longrightarrow>
   \<exists>ts. legal_path table s ts \<and> last (s # ts) = t \<and> length ts = length h"
proof (induction h arbitrary: s)
  case Nil
  then show ?case by (intro exI [of _ "[]"]) simp
next
  case (Cons x h)
  obtain p n where x: "x = (p, n)" by (cases x)
  with Cons.prems obtain m where m: "m \<in> table s" "audited table value m h t" by auto
  from Cons.IH [OF m(2)] obtain ts where
    "legal_path table m ts" "last (m # ts) = t" "length ts = length h" by blast
  with m(1) show ?case by (intro exI [of _ "m # ts"]) simp
qed

lemma status_history_snoc:
  "status_history et i (evs @ [status_event et j p n a aid pl]) =
     status_history et i evs @ (if i = j then [(Some p, Some n)] else [])"
  by (simp add: status_history_def status_event_def)

lemma status_history_other:
  "et \<noteq> et' \<Longrightarrow>
   status_history et i (evs @ [status_event et' j p n a aid pl]) = status_history et i evs"
  by (simp add: status_history_def status_event_def)

text \<open>The audit invariant of a task: its history leads from \<open>RECEIVED\<close> to its status.\<close>

definition task_audit_ok :: "db \<Rightarrow> uuid \<Rightarrow> bool" where
  "task_audit_ok d tid =
     (case get_task d tid of
        None \<Rightarrow> True
      | Some t \<Rightarrow> audited TASK_TRANSITIONS task_status_value T_RECEIVED
                   (status_history ''task'' tid (db_events d)) (task_status t))"

definition run_audit_ok :: "db \<Rightarrow> uuid \<Rightarrow> bool" where
  "run_audit_ok d rid =
     (case get_run d rid of
        None \<Rightarrow> True
      | Some r \<Rightarrow> audited RUN_TRANSITIONS run_status_value R_CREATED
                   (status_history ''run'' rid (db_events d)) (run_status r))"

lemma task_audit_step:
  assumes ok: "task_audit_ok d tid"
    and tr: "transition_task d j target actor aid payload = Inr d'"
  shows "task_audit_ok d' tid"
  using tr
proof (elim transition_taskE)
  fix t
  assume t: "get_task d j = Some t" "target \<in> TASK_TRANSITIONS (task_status t)"
    and d': "d' = publish_task_event (moved_task (db_now d) target t)
           (add_event (status_event ''task'' j (task_status_value (task_status t))
              (task_status_value target) actor aid payload)
            (upd_task j (moved_task (db_now d) target) d))"
  show ?thesis
    using ok t unfolding task_audit_ok_def d'
    by (auto simp: task_store.get_upd status_history_snoc split: option.splits intro: audited_snoc)
qed

lemma run_audit_step:
  assumes ok: "run_audit_ok d rid"
    and tr: "transition_run d j target actor aid payload = Inr d'"
  shows "run_audit_ok d' rid"
  using tr
proof (elim transition_runE)
  fix r
  assume r: "get_run d j = Some r" "target \<in> RUN_TRANSITIONS (run_status r)"
    and d': "d' = add_event (status_event ''run'' j (run_status_value (run_status r))
            (run_status_value target) actor aid payload)
          (upd_run j (\<lambda>x. x\<lparr>run_status := target, run_version := run_version x + 1\<rparr>) d)"
  show ?thesis
    using ok r unfolding run_audit_ok_def d'
    by (auto simp: run_store.get_upd status_history_snoc split: option.splits intro: audited_snoc)
qed

section \<open>Any sequence of transitions\<close>

inductive lifecycle_op :: "db \<Rightarrow> db \<Rightarrow> bool" where
  task_moved: "transition_task d j target actor aid payload = Inr d' \<Longrightarrow> lifecycle_op d d'"
| run_moved: "transition_run d j target' actor aid payload = Inr d' \<Longrightarrow> lifecycle_op d d'"
| step_moved: "transition_step d j target'' actor aid payload = Inr d' \<Longrightarrow> lifecycle_op d d'"

lemma lifecycle_op_task:
  assumes "lifecycle_op d d'" "get_task d tid = Some t"
  shows "\<exists>t'. get_task d' tid = Some t' \<and>
     (task_status t' = task_status t \<or> task_status t' \<in> TASK_TRANSITIONS (task_status t))"
  using assms(1)
proof cases
  case (task_moved j target actor aid payload)
  then show ?thesis using assms(2)
    by (auto simp: transition_task_get_task elim!: transition_taskE)
next
  case (run_moved j target' actor aid payload)
  then show ?thesis using assms(2) transition_run_frame [of d] by (simp add: get_task_def)
next
  case (step_moved j target'' actor aid payload)
  then show ?thesis using assms(2) transition_step_frame [of d] by (simp add: get_task_def)
qed

lemma lifecycle_op_run:
  assumes "lifecycle_op d d'" "get_run d rid = Some r"
  shows "\<exists>r'. get_run d' rid = Some r' \<and>
     (r' = r \<or> run_status r' \<in> RUN_TRANSITIONS (run_status r))"
  using assms(1)
proof cases
  case (task_moved j target actor aid payload)
  then show ?thesis using assms(2) transition_task_frame [of d] by (simp add: get_run_def)
next
  case (run_moved j target' actor aid payload)
  then show ?thesis using assms(2)
    by (auto simp: transition_run_get_run elim!: transition_runE)
next
  case (step_moved j target'' actor aid payload)
  then show ?thesis using assms(2) transition_step_frame [of d] by (simp add: get_run_def)
qed

lemma lifecycle_op_step:
  assumes "lifecycle_op d d'" "get_step d sid = Some s"
  shows "\<exists>s'. get_step d' sid = Some s' \<and>
     (s' = s \<or> step_status s' \<in> STEP_TRANSITIONS (step_status s))"
  using assms(1)
proof cases
  case (task_moved j target actor aid payload)
  then show ?thesis using assms(2) transition_task_frame [of d] by (simp add: get_step_def)
next
  case (run_moved j target' actor aid payload)
  then show ?thesis using assms(2) transition_run_frame [of d] by (simp add: get_step_def)
next
  case (step_moved j target'' actor aid payload)
  then show ?thesis using assms(2)
    by (auto simp: transition_step_get_step elim!: transition_stepE)
qed

lemma lifecycle_op_audit:
  assumes "lifecycle_op d d'" "task_audit_ok d tid \<and> run_audit_ok d rid"
  shows "task_audit_ok d' tid \<and> run_audit_ok d' rid"
  using assms(1)
proof cases
  case (task_moved j target actor aid payload)
  then have "task_audit_ok d' tid" using assms(2) task_audit_step by blast
  moreover have "run_audit_ok d' rid"
    using task_moved assms(2)
    by (auto simp: run_audit_ok_def status_history_other elim!: transition_taskE split: option.splits)
  ultimately show ?thesis by simp
next
  case (run_moved j target' actor aid payload)
  then have "run_audit_ok d' rid" using assms(2) run_audit_step by blast
  moreover have "task_audit_ok d' tid"
    using run_moved assms(2)
    by (auto simp: task_audit_ok_def status_history_other elim!: transition_runE split: option.splits)
  ultimately show ?thesis by simp
next
  case (step_moved j target'' actor aid payload)
  then show ?thesis using assms(2)
    by (auto simp: task_audit_ok_def run_audit_ok_def status_history_other elim!: transition_stepE
        split: option.splits)
qed

lemma task_stays_settled:
  "lifecycle_op\<^sup>*\<^sup>* d d' \<Longrightarrow> get_task d k = Some t \<Longrightarrow> task_status t \<in> TASK_SETTLED \<Longrightarrow>
   \<exists>t'. get_task d' k = Some t' \<and> task_status t' \<in> TASK_SETTLED"
proof (induction rule: rtranclp_induct)
  case base
  then show ?case by simp
next
  case (step y z)
  then obtain t' where t': "get_task y k = Some t'" "task_status t' \<in> TASK_SETTLED" by blast
  from lifecycle_op_task [OF step.hyps(2) t'(1)] t'(2) task_life.settled_closed [OF t'(2)]
  show ?case by auto
qed

lemma run_stays_terminal:
  "lifecycle_op\<^sup>*\<^sup>* d d' \<Longrightarrow> get_run d k = Some r \<Longrightarrow> run_status r \<in> RUN_TERMINAL \<Longrightarrow>
   get_run d' k = Some r"
  by (induction rule: rtranclp_induct) (auto dest!: lifecycle_op_run simp: run_terminal_no_moves)

lemma step_stays_terminal:
  "lifecycle_op\<^sup>*\<^sup>* d d' \<Longrightarrow> get_step d k = Some s \<Longrightarrow> step_status s \<in> STEP_TERMINAL \<Longrightarrow>
   get_step d' k = Some s"
  by (induction rule: rtranclp_induct) (auto dest!: lifecycle_op_step simp: step_terminal_no_moves)

text \<open>C21. A task that is completed, failed, cancelled or rolled back stays in one of these
  statuses through any sequence of transitions of tasks, runs and steps; a terminal run or step is
  not touched again at all.\<close>

theorem settled_stays_settled:
  assumes "lifecycle_op\<^sup>*\<^sup>* d d'"
  shows "(\<forall>t. get_task d k = Some t \<and> task_status t \<in> TASK_SETTLED \<longrightarrow>
            (\<exists>t'. get_task d' k = Some t' \<and> task_status t' \<in> TASK_SETTLED)) \<and>
         (\<forall>r. get_run d k = Some r \<and> run_status r \<in> RUN_TERMINAL \<longrightarrow> get_run d' k = Some r) \<and>
         (\<forall>s. get_step d k = Some s \<and> step_status s \<in> STEP_TERMINAL \<longrightarrow> get_step d' k = Some s)"
  using task_stays_settled [OF assms] run_stays_terminal [OF assms] step_stays_terminal [OF assms]
  by simp

theorem settled_stays_settled_witness:
  "\<exists>d1 d2 t. transition_task sample_db 1 T_CANCELLED ''user'' None [] = Inr d1 \<and>
     transition_run d1 2 R_CANCELLED ''user'' None [] = Inr d2 \<and>
     get_task d2 1 = Some t \<and> task_status t \<in> TASK_SETTLED"
proof -
  have "T_CANCELLED \<in> TASK_TRANSITIONS (task_status sample_task)" by (simp add: sample_defs)
  then obtain d1 where d1: "transition_task sample_db 1 T_CANCELLED ''user'' None [] = Inr d1"
    by (simp add: transition_task_def check_transition_def get_task_def sample_defs find_row_def)
  have r: "get_run d1 2 = Some sample_run"
    using transition_task_frame [OF d1] by (simp add: get_run_def sample_defs find_row_def)
  then obtain d2 where d2: "transition_run d1 2 R_CANCELLED ''user'' None [] = Inr d2"
    by (simp add: transition_run_def check_transition_def sample_run_def)
  obtain t where "get_task d1 1 = Some t" "task_status t \<in> TASK_SETTLED"
    using transition_task_get_task [OF d1, of 1]
    by (auto simp: get_task_def sample_defs find_row_def TASK_SETTLED_def)
  then show ?thesis
    using settled_stays_settled [OF r_into_rtranclp [of lifecycle_op, OF lifecycle_op.run_moved [OF d2]], of 1]
      d1 d2 by blast
qed



text \<open>Cancellation is always possible: every task, run and step that is not yet settled has a
  transition to CANCELLED that the table accepts, and the row is cancelled after it.\<close>

theorem cancel_always_possible:
  "(\<forall>t. get_task d k = Some t \<and> task_status t \<notin> TASK_SETTLED \<longrightarrow>
      (\<exists>d' t'. transition_task d k T_CANCELLED actor aid payload = Inr d' \<and>
         get_task d' k = Some t' \<and> task_status t' = T_CANCELLED)) \<and>
   (\<forall>r. get_run d k = Some r \<and> run_status r \<notin> RUN_TERMINAL \<longrightarrow>
      (\<exists>d' r'. transition_run d k R_CANCELLED actor aid payload = Inr d' \<and>
         get_run d' k = Some r' \<and> run_status r' = R_CANCELLED)) \<and>
   (\<forall>s. get_step d k = Some s \<and> step_status s \<notin> STEP_TERMINAL \<longrightarrow>
      (\<exists>d' s'. transition_step d k S_CANCELLED actor aid payload = Inr d' \<and>
         get_step d' k = Some s' \<and> step_status s' = S_CANCELLED))"
proof (intro conjI allI impI; elim conjE)
  fix t
  assume t: "get_task d k = Some t" "task_status t \<notin> TASK_SETTLED"
  then obtain d' where d': "transition_task d k T_CANCELLED actor aid payload = Inr d'"
    using task_life.cancellable by (simp add: transition_task_def check_transition_def)
  then show "\<exists>d' t'. transition_task d k T_CANCELLED actor aid payload = Inr d' \<and>
      get_task d' k = Some t' \<and> task_status t' = T_CANCELLED"
    using transition_task_get_task [OF d', of k] t(1) by simp
next
  fix r
  assume r: "get_run d k = Some r" "run_status r \<notin> RUN_TERMINAL"
  then obtain d' where d': "transition_run d k R_CANCELLED actor aid payload = Inr d'"
    using run_life.cancellable by (simp add: transition_run_def check_transition_def)
  then show "\<exists>d' r'. transition_run d k R_CANCELLED actor aid payload = Inr d' \<and>
      get_run d' k = Some r' \<and> run_status r' = R_CANCELLED"
    using transition_run_get_run [OF d', of k] r(1) by simp
next
  fix s
  assume s: "get_step d k = Some s" "step_status s \<notin> STEP_TERMINAL"
  then obtain d' where d': "transition_step d k S_CANCELLED actor aid payload = Inr d'"
    using step_life.cancellable by (simp add: transition_step_def check_transition_def)
  then show "\<exists>d' s'. transition_step d k S_CANCELLED actor aid payload = Inr d' \<and>
      get_step d' k = Some s' \<and> step_status s' = S_CANCELLED"
    using transition_step_get_step [OF d', of k] s(1) by simp
qed

end
