(* ===== verification/Compiler.thy ===== *)
theory Compiler
  imports Storage_Models
begin

text \<open>
  \<^verbatim>\<open>workflows/domain.py\<close> and \<^verbatim>\<open>workflows/compiler.py\<close>: the workflow contracts and the
  factory that turns an interpreted draft into the fixed executor chain. The enumerations of
  \<^verbatim>\<open>config/models.py\<close> (capabilities) and \<^verbatim>\<open>interpretation/domain.py\<close> (task
  types and operations) are here too, with the draft fields the compiler reads.
\<close>

section \<open>Contracts\<close>

datatype capability =
    CAP_REPOSITORY_READ | CAP_FILESYSTEM_WRITE | CAP_CODE_EDIT | CAP_GIT | CAP_PROJECT_SHELL
  | CAP_NETWORK | CAP_WEB_RESEARCH | CAP_TRANSCRIPTION | CAP_SECRETS | CAP_HOST_ADMIN
  | CAP_TELEGRAM_SEND

fun capability_value :: "capability \<Rightarrow> string" where
  "capability_value CAP_REPOSITORY_READ = ''repository_read''"
| "capability_value CAP_FILESYSTEM_WRITE = ''filesystem_write''"
| "capability_value CAP_CODE_EDIT = ''code_edit''"
| "capability_value CAP_GIT = ''git''"
| "capability_value CAP_PROJECT_SHELL = ''project_shell''"
| "capability_value CAP_NETWORK = ''network''"
| "capability_value CAP_WEB_RESEARCH = ''web_research''"
| "capability_value CAP_TRANSCRIPTION = ''transcription''"
| "capability_value CAP_SECRETS = ''secrets''"
| "capability_value CAP_HOST_ADMIN = ''host_admin''"
| "capability_value CAP_TELEGRAM_SEND = ''telegram_send''"

datatype draft_task_type =
    TT_CODING | TT_ARCHITECTURE | TT_RESEARCH | TT_INFRASTRUCTURE | TT_FILE_PROCESSING | TT_GENERAL

datatype task_operation =
    OP_INSPECT | OP_EXPLAIN | OP_CREATE | OP_MODIFY | OP_FIX | OP_DEPLOY | OP_MONITOR

record task_draft =
  td_task_type :: draft_task_type
  td_operation :: task_operation
  td_required_capabilities :: "capability set"

datatype outcome_kind =
    SUCCEEDED | TRANSIENT_FAILURE | PERMANENT_FAILURE | NEEDS_USER_INPUT | NEEDS_APPROVAL
  | BLOCKED | CANCELLED

fun outcome_kind_value :: "outcome_kind \<Rightarrow> string" where
  "outcome_kind_value SUCCEEDED = ''succeeded''"
| "outcome_kind_value TRANSIENT_FAILURE = ''transient_failure''"
| "outcome_kind_value PERMANENT_FAILURE = ''permanent_failure''"
| "outcome_kind_value NEEDS_USER_INPUT = ''needs_user_input''"
| "outcome_kind_value NEEDS_APPROVAL = ''needs_approval''"
| "outcome_kind_value BLOCKED = ''blocked''"
| "outcome_kind_value CANCELLED = ''cancelled''"

record step_definition =
  sd_key :: string
  sd_step_type :: string
  sd_queue_class :: queue_class
  sd_capabilities :: "capability set"
  sd_retry_class :: retry_class
  sd_idempotency_class :: idempotency_class
  sd_timeout_seconds :: int
  sd_max_attempts :: int
  sd_priority :: int

record materialized_step =
  ms_ordinal :: int
  ms_key :: string
  ms_step_type :: string
  ms_predecessor_ordinals :: "int list"
  ms_queue_class :: queue_class
  ms_capabilities :: "capability set"
  ms_retry_class :: retry_class
  ms_idempotency_class :: idempotency_class
  ms_timeout_seconds :: int
  ms_max_attempts :: int
  ms_priority :: int
  ms_status :: step_status
  ms_payload :: json_obj

record materialized_workflow =
  mw_workflow_type :: string
  mw_version :: string
  mw_interpretation_id :: uuid
  mw_steps :: "materialized_step list"

record step_outcome =
  so_kind :: outcome_kind
  so_result :: json_obj
  so_category :: "string option"
  so_summary :: "string option"
  so_unknown_effects :: bool

definition outcome_succeeded :: "json_obj \<Rightarrow> step_outcome" where
  "outcome_succeeded result =
     \<lparr>so_kind = SUCCEEDED, so_result = result, so_category = None, so_summary = None,
      so_unknown_effects = False\<rparr>"

section \<open>The compiler\<close>

definition EXECUTION_CONTRACT_VERSION :: string where
  "EXECUTION_CONTRACT_VERSION = ''execution-contract.v2''"

text \<open>The defaults of \<open>_step\<close>; a definition overrides the fields its call names.\<close>

definition default_step :: "string \<Rightarrow> step_definition" where
  "default_step key =
     \<lparr>sd_key = key, sd_step_type = key, sd_queue_class = Q_LIGHT, sd_capabilities = {},
      sd_retry_class = RETRY_NEVER, sd_idempotency_class = IDEM_READ_ONLY,
      sd_timeout_seconds = 600, sd_max_attempts = 1, sd_priority = 100\<rparr>"

definition is_report :: "task_draft \<Rightarrow> bool" where
  "is_report draft =
     (td_task_type draft \<in> {TT_ARCHITECTURE, TT_RESEARCH, TT_GENERAL} \<or>
      td_operation draft \<in> {OP_INSPECT, OP_EXPLAIN, OP_MONITOR})"

definition executor_capabilities :: "task_draft \<Rightarrow> capability set" where
  "executor_capabilities draft =
     (if is_report draft
      then (if CAP_WEB_RESEARCH \<in> td_required_capabilities draft \<or>
               (td_task_type draft = TT_RESEARCH \<and> td_required_capabilities draft = {})
            then {CAP_REPOSITORY_READ, CAP_WEB_RESEARCH}
            else {CAP_REPOSITORY_READ})
      else {CAP_CODE_EDIT, CAP_PROJECT_SHELL})"

definition step_definitions :: "task_draft \<Rightarrow> step_definition list" where
  "step_definitions draft =
     (let report = is_report draft in
      [default_step ''interpret'',
       (default_step ''ensure_capabilities'')
         \<lparr>sd_queue_class := Q_PRIVILEGED, sd_capabilities := {CAP_HOST_ADMIN},
          sd_idempotency_class := IDEM_UNKNOWN_EFFECTS_POSSIBLE, sd_timeout_seconds := 1800\<rparr>,
       (default_step ''prepare_context'')\<lparr>sd_capabilities := {CAP_REPOSITORY_READ}\<rparr>,
       (default_step ''prepare_worktree'')
         \<lparr>sd_queue_class := Q_HEAVY, sd_capabilities := {CAP_GIT, CAP_FILESYSTEM_WRITE},
          sd_idempotency_class := IDEM_ISOLATED_RETRYABLE\<rparr>,
       (default_step (if report then ''execute_agent'' else ''execute_code''))
         \<lparr>sd_queue_class := Q_HEAVY, sd_capabilities := executor_capabilities draft,
          sd_retry_class := RETRY_POLICY,
          sd_idempotency_class :=
            (if report then IDEM_READ_ONLY else IDEM_UNKNOWN_EFFECTS_POSSIBLE),
          sd_timeout_seconds := 3600\<rparr>,
       (default_step ''ensure_dependencies'')
         \<lparr>sd_queue_class := Q_HEAVY, sd_capabilities := {CAP_PROJECT_SHELL, CAP_FILESYSTEM_WRITE},
          sd_idempotency_class := IDEM_UNKNOWN_EFFECTS_POSSIBLE, sd_timeout_seconds := 1800\<rparr>,
       (default_step ''validate'')
         \<lparr>sd_queue_class := Q_HEAVY,
          sd_capabilities := (if report then {CAP_REPOSITORY_READ} else {CAP_PROJECT_SHELL})\<rparr>,
       (default_step ''review'')\<lparr>sd_retry_class := RETRY_TRANSIENT, sd_max_attempts := 3\<rparr>] @
      (if \<not> report
       then [(default_step ''produce_artifacts'')
               \<lparr>sd_queue_class := Q_HEAVY, sd_capabilities := {CAP_PROJECT_SHELL},
                sd_idempotency_class := IDEM_UNKNOWN_EFFECTS_POSSIBLE\<rparr>,
             (default_step ''build_static'')
               \<lparr>sd_queue_class := Q_HEAVY, sd_capabilities := {CAP_PROJECT_SHELL},
                sd_retry_class := RETRY_TRANSIENT, sd_idempotency_class := IDEM_ISOLATED_RETRYABLE,
                sd_max_attempts := 2\<rparr>]
       else []) @
      [(default_step ''approve_result'')
         \<lparr>sd_step_type := ''approval'', sd_queue_class := Q_PRIVILEGED,
          sd_capabilities := {CAP_GIT}, sd_idempotency_class := IDEM_IDEMPOTENT,
          sd_timeout_seconds := 120, sd_max_attempts := 2\<rparr>] @
      (if \<not> report
       then [(default_step ''publish_static'')
               \<lparr>sd_capabilities := {CAP_FILESYSTEM_WRITE}, sd_retry_class := RETRY_TRANSIENT,
                sd_idempotency_class := IDEM_IDEMPOTENT, sd_timeout_seconds := 120,
                sd_max_attempts := 3\<rparr>]
       else []) @
      [(default_step ''finalize'')\<lparr>sd_queue_class := Q_CONTROL\<rparr>])"

definition materialize_step :: "bool \<Rightarrow> uuid \<Rightarrow> nat \<times> step_definition \<Rightarrow> materialized_step" where
  "materialize_step report interpretation_id = (\<lambda>(index, sd).
     \<lparr>ms_ordinal = int index, ms_key = sd_key sd, ms_step_type = sd_step_type sd,
      ms_predecessor_ordinals = (if index \<noteq> 0 then [int index - 1] else []),
      ms_queue_class = sd_queue_class sd, ms_capabilities = sd_capabilities sd,
      ms_retry_class = sd_retry_class sd, ms_idempotency_class = sd_idempotency_class sd,
      ms_timeout_seconds = sd_timeout_seconds sd, ms_max_attempts = sd_max_attempts sd,
      ms_priority = sd_priority sd,
      ms_status = (if index = 0 then S_COMPLETED else S_PENDING),
      ms_payload =
        [(''result_kind'', JStr (if report then ''report'' else ''change''))] @
        (if index = 0 then [(''interpretation_id'', JStr (uuid_str interpretation_id))] else []) @
        (if sd_step_type sd = ''approval''
         then [(''requested_action'', JStr ''apply_result'')] else [])\<rparr>)"

definition compile_workflow :: "task_draft \<Rightarrow> uuid \<Rightarrow> materialized_workflow" where
  "compile_workflow draft interpretation_id =
     \<lparr>mw_workflow_type = ''fixed_executor'', mw_version = ''1'',
      mw_interpretation_id = interpretation_id,
      mw_steps = map (materialize_step (is_report draft) interpretation_id)
        (enumerate 0 (step_definitions draft))\<rparr>"

section \<open>The compiled chain\<close>

lemma length_compiled [simp]:
  "length (mw_steps (compile_workflow draft i)) = length (step_definitions draft)"
  by (simp add: compile_workflow_def)

lemma compiled_nth:
  "k < length (step_definitions draft) \<Longrightarrow>
   mw_steps (compile_workflow draft i) ! k =
     materialize_step (is_report draft) i (k, step_definitions draft ! k)"
  by (simp add: compile_workflow_def nth_enumerate_eq)

lemma compiled_types:
  "map ms_step_type (mw_steps (compile_workflow draft i)) = map sd_step_type (step_definitions draft)"
  by (rule nth_equalityI) (simp_all add: compiled_nth materialize_step_def)

lemma step_types:
  "map sd_step_type (step_definitions draft) =
     (if is_report draft
      then [''interpret'', ''ensure_capabilities'', ''prepare_context'', ''prepare_worktree'',
            ''execute_agent'', ''ensure_dependencies'', ''validate'', ''review'', ''approval'',
            ''finalize'']
      else [''interpret'', ''ensure_capabilities'', ''prepare_context'', ''prepare_worktree'',
            ''execute_code'', ''ensure_dependencies'', ''validate'', ''review'',
            ''produce_artifacts'', ''build_static'', ''approval'', ''publish_static'',
            ''finalize''])"
  by (simp add: step_definitions_def Let_def default_step_def)

lemma interpret_first:
  assumes "k < length (step_definitions draft)"
  shows "sd_step_type (step_definitions draft ! k) = ''interpret'' \<longleftrightarrow> k = 0"
proof -
  let ?ts = "map sd_step_type (step_definitions draft)"
  have "distinct ?ts" "0 < length ?ts" "?ts ! 0 = ''interpret''" by (simp_all add: step_types)
  then have "?ts ! k = ''interpret'' \<longleftrightarrow> k = 0"
    using assms nth_eq_iff_index_eq [of ?ts k 0] by simp
  then show ?thesis using assms by simp
qed

text \<open>Every compiled workflow is one linear chain: ordinals count from zero, each step waits
  for exactly the step before it, and only the interpretation is already completed.\<close>

theorem compiled_workflow_is_linear:
  assumes "k < length (mw_steps (compile_workflow draft i))"
  shows "ms_ordinal (mw_steps (compile_workflow draft i) ! k) = int k \<and>
     ms_predecessor_ordinals (mw_steps (compile_workflow draft i) ! k) =
       (if k = 0 then [] else [int (k - 1)]) \<and>
     ms_status (mw_steps (compile_workflow draft i) ! k) =
       (if k = 0 then S_COMPLETED else S_PENDING) \<and>
     (ms_step_type (mw_steps (compile_workflow draft i) ! k) = ''interpret'' \<longleftrightarrow> k = 0)"
  using assms interpret_first [of k draft]
  by (simp add: compiled_nth materialize_step_def of_nat_diff)

definition sample_draft :: task_draft where
  "sample_draft = \<lparr>td_task_type = TT_CODING, td_operation = OP_FIX, td_required_capabilities = {}\<rparr>"

fun positions :: "nat \<Rightarrow> 'a \<Rightarrow> 'a list \<Rightarrow> nat list" where
  "positions n x [] = []"
| "positions n x (y # ys) = (if y = x then n # positions (Suc n) x ys else positions (Suc n) x ys)"

lemma positions_iff:
  "k \<in> set (positions n x ys) \<longleftrightarrow> n \<le> k \<and> k < n + length ys \<and> ys ! (k - n) = x"
proof (induction ys arbitrary: n)
  case Nil
  then show ?case by simp
next
  case (Cons y ys)
  show ?case
  proof (cases "k \<le> n")
    case True
    then show ?thesis by (auto simp: Cons.IH)
  next
    case False
    then have "k - n = Suc (k - Suc n)" by simp
    with False show ?thesis by (auto simp: Cons.IH)
  qed
qed

definition index_of_type :: "materialized_step list \<Rightarrow> string \<Rightarrow> nat list" where
  "index_of_type steps ty = positions 0 ty (map ms_step_type steps)"

lemma approval_requests_apply:
  assumes "k \<in> set (index_of_type (mw_steps (compile_workflow draft i)) ''approval'')"
  shows "jget (ms_payload (mw_steps (compile_workflow draft i) ! k)) ''requested_action'' =
     JStr ''apply_result''"
proof -
  from assms have k: "k < length (step_definitions draft)"
    and "ms_step_type (mw_steps (compile_workflow draft i) ! k) = ''approval''"
    by (auto simp: index_of_type_def positions_iff)
  then show ?thesis by (simp add: compiled_nth materialize_step_def)
qed

lemma compiled_indices:
  "index_of_type (mw_steps (compile_workflow draft i)) ''approval'' =
     [if is_report draft then 8 else 10]"
  "index_of_type (mw_steps (compile_workflow draft i)) ''validate'' = [6]"
  "index_of_type (mw_steps (compile_workflow draft i)) ''review'' = [7]"
  "index_of_type (mw_steps (compile_workflow draft i)) ''publish_static'' =
     (if is_report draft then [] else [11])"
  "index_of_type (mw_steps (compile_workflow draft i)) ''finalize'' =
     [if is_report draft then 9 else 12]"
  unfolding index_of_type_def compiled_types step_types by simp_all

lemma report_absent_types:
  assumes "is_report draft"
    and "ty \<in> {''execute_code'', ''produce_artifacts'', ''build_static'', ''publish_static''}"
  shows "index_of_type (mw_steps (compile_workflow draft i)) ty = []"
  using assms(2)
  by (elim insertE emptyE; hypsubst)
    (simp_all add: index_of_type_def compiled_types step_types assms(1) del: map_map)

lemma compiled_length:
  "length (mw_steps (compile_workflow draft i)) = (if is_report draft then 10 else 13)"
proof -
  have "length (map sd_step_type (step_definitions draft)) = (if is_report draft then 10 else 13)"
    unfolding step_types by simp
  then show ?thesis by simp
qed


text \<open>A reporting task cannot edit code: its executor step is the read-only agent step, with
  no capability beyond reading the repository and web research, and without the artifact, build
  and publication steps.\<close>

theorem report_workflow_is_read_only:
  assumes "is_report draft"
  shows "ms_step_type (mw_steps (compile_workflow draft i) ! 4) = ''execute_agent'' \<and>
     ms_idempotency_class (mw_steps (compile_workflow draft i) ! 4) = IDEM_READ_ONLY \<and>
     ms_capabilities (mw_steps (compile_workflow draft i) ! 4) \<subseteq>
       {CAP_REPOSITORY_READ, CAP_WEB_RESEARCH} \<and>
     (\<forall>ty \<in> {''execute_code'', ''produce_artifacts'', ''build_static'', ''publish_static''}.
        index_of_type (mw_steps (compile_workflow draft i)) ty = [])"
proof -
  have four: "4 < length (step_definitions draft)"
    using compiled_length [of draft i] by (simp split: if_splits)
  show ?thesis using assms report_absent_types [OF assms]
    by (simp add: compiled_nth [OF four] materialize_step_def step_definitions_def Let_def
        default_step_def executor_capabilities_def)
qed

end
