(* ===== verification/Result_Approval.thy ===== *)
theory Result_Approval
  imports Evidence Transitions Compiler
begin

text \<open>
  \<^verbatim>\<open>workflows/result_approval.py\<close>: the immutable approval envelope of a retained result,
  its creation when the approval step becomes ready, and its verification before it is used.
\<close>

definition RESULT_APPROVAL_SCHEMA :: string where
  "RESULT_APPROVAL_SCHEMA = ''result-approval.v1''"

definition RESULT_APPROVAL_TTL :: time where
  "RESULT_APPROVAL_TTL = seconds (7 * 24 * 60 * 60)"

text \<open>The number of items of a plan revision.\<close>

definition plan_item_count :: "db \<Rightarrow> uuid \<Rightarrow> int" where
  "plan_item_count d revision = int (length (filter (\<lambda>i. pri_plan_revision_id i = revision) (db_plan_items d)))"

text \<open>The branch and the head the result is to be applied to.\<close>

definition approval_target :: "db \<Rightarrow> run \<Rightarrow> worktree \<Rightarrow> error + (string \<times> string)" where
  "approval_target d r wt =
     (case task_link d (run_task_id r) of
        None \<Rightarrow> Inr (wt_default_branch wt, wt_expected_target_head wt)
      | Some link \<Rightarrow>
          (case get_package d (link_work_package_id link) of
             None \<Rightarrow> Inl (ValueError ''package integration state is missing'')
           | Some package \<Rightarrow>
               (case wp_integration_base_commit package of
                  None \<Rightarrow> Inl (ValueError ''package integration state is missing'')
                | Some base \<Rightarrow>
                    if link_ordinal link = plan_item_count d (link_plan_revision_id link) \<and>
                       wp_managed_goal_id package = None
                    then (case wp_integration_target_branch package of
                            None \<Rightarrow> Inl (ValueError ''package target branch is missing'')
                          | Some branch \<Rightarrow> Inr (branch, base))
                    else Inr (wt_default_branch wt, wt_expected_target_head wt))))"

definition approval_envelope ::
  "run \<Rightarrow> step \<Rightarrow> worktree \<Rightarrow> evidence \<Rightarrow> string \<Rightarrow> string \<Rightarrow> json_obj" where
  "approval_envelope r s wt e target_branch expected_target_head =
     [(''schema_version'', JStr RESULT_APPROVAL_SCHEMA)] @
     (if jget (step_payload s) ''result_kind'' = JStr ''report''
      then [(''result_kind'', JStr ''report''), (''report_hash'', vd_report_hash e)] else []) @
     [(''requested_action'', JStr ''apply_result''),
      (''task_id'', JStr (uuid_str (run_task_id r))),
      (''run_id'', JStr (uuid_str (run_id r))),
      (''step_id'', JStr (uuid_str (step_id s))),
      (''project_id'', JStr (wt_project_id wt)),
      (''repository_identity_hash'', JStr (wt_repository_identity_hash wt)),
      (''target_branch'', JStr target_branch),
      (''expected_target_head'', JStr expected_target_head),
      (''base_commit'', JStr (wt_base_commit wt)),
      (''result_commit'', opt_json (wt_result_commit wt)),
      (''diff_hash'', opt_json (wt_diff_hash wt)),
      (''agent_checks'', JList (vd_agent_checks e)),
      (''gates'', JList (vd_gates e)),
      (''changed_files'', JList (map JStr (vd_changed_files e)))] @
     (if vd_no_change e
      then [(''no_change'', JBool True), (''no_change_reason'', JStr (vd_no_change_reason e))]
      else []) @
     [(''validation_evidence_hash'', JStr (vd_validation_evidence_hash e)),
      (''review_evidence'', vd_review_evidence e),
      (''review_evidence_hash'', vd_review_evidence_hash e),
      (''static_build_evidence'', vd_static_build_evidence e),
      (''artifact_evidence'', vd_artifact_evidence e),
      (''configuration_revision'', JStr (run_configuration_revision r)),
      (''policy_revision'', JStr (run_policy_revision r))]"

definition plan_approval_covers_intermediate_result :: "db \<Rightarrow> uuid \<Rightarrow> bool" where
  "plan_approval_covers_intermediate_result d tid =
     (case task_link d tid of
        None \<Rightarrow> False
      | Some link \<Rightarrow>
          (case get_package d (link_work_package_id link) of
             Some package \<Rightarrow>
               wp_managed_goal_id package = None \<and>
               link_ordinal link < plan_item_count d (link_plan_revision_id link)
           | None \<Rightarrow> link_ordinal link < plan_item_count d (link_plan_revision_id link)))"

definition add_approval :: "approval \<Rightarrow> db \<Rightarrow> db" where
  "add_approval a d = d\<lparr>db_approvals := db_approvals d @ [a], next_uuid := Suc (next_uuid d)\<rparr>"

definition upd_approval :: "uuid \<Rightarrow> (approval \<Rightarrow> approval) \<Rightarrow> db \<Rightarrow> db" where
  "upd_approval k f d = d\<lparr>db_approvals := update_row appr_id k f (db_approvals d)\<rparr>"

definition get_approval :: "db \<Rightarrow> uuid \<Rightarrow> approval option" where
  "get_approval d = find_row appr_id (db_approvals d)"

interpretation approval_store: row_store db_approvals appr_id get_approval upd_approval
  by unfold_locales (simp_all add: get_approval_def upd_approval_def)

text \<open>The new approval row and the approval step bound to its envelope.\<close>

definition new_approval ::
  "platform \<Rightarrow> db \<Rightarrow> uuid \<Rightarrow> worktree \<Rightarrow> string \<Rightarrow> evidence \<Rightarrow> json_obj \<Rightarrow> approval" where
  "new_approval pf d sid wt target_branch e envelope =
     (let digest = envelope_hash pf envelope in
      \<lparr>appr_id = next_uuid d, appr_step_id = sid, appr_action_envelope_hash = digest,
       appr_requested_action = ''apply_result'',
       appr_normalized_target = wt_project_id wt @ '':'' @ target_branch,
       appr_human_summary = vd_summary e,
       appr_token_hash = pf_sha256 pf (uuid_str (next_uuid d) @ '':'' @ digest),
       appr_status = A_PENDING, appr_decided_at = None, appr_deciding_user_id = None,
       appr_expires_at = wall_now d + RESULT_APPROVAL_TTL, appr_consumed_at = None\<rparr>)"

definition bind_envelope :: "approval \<Rightarrow> json_obj \<Rightarrow> step \<Rightarrow> step" where
  "bind_envelope a envelope s =
     s\<lparr>step_payload := jput (jput (step_payload s) ''approval_id'' (JStr (uuid_str (appr_id a))))
         ''action_envelope'' (JObj envelope),
       step_external_idempotency_key := Some (''apply-result:'' @ appr_action_envelope_hash a)\<rparr>"

text \<open>
  \<open>ensure_result_approval\<close>: \<open>steps\<close> are the values of \<open>steps_by_ordinal\<close>. The returned
  approval row is not used by the caller.
\<close>

definition ensure_result_approval ::
  "platform \<Rightarrow> db \<Rightarrow> run \<Rightarrow> step \<Rightarrow> step list \<Rightarrow> error + db" where
  "ensure_result_approval pf d r s steps =
     (if jget (step_payload s) ''requested_action'' \<noteq> JStr ''apply_result'' then Inr d
      else if \<exists>a \<in> set (db_approvals d). appr_step_id a = step_id s then Inr d
      else
        case find (\<lambda>wt. wt_run_id wt = run_id r) (db_worktrees d) of
          None \<Rightarrow> Inl (ValueError ''result approval requires a retained measured worktree'')
        | Some wt \<Rightarrow>
            if wt_result_commit wt = None \<or> wt_diff_hash wt = None
            then Inl (ValueError ''result approval requires a retained measured worktree'')
            else
              bindE (validation_evidence pf steps wt) (\<lambda>e.
              bindE (approval_target d r wt) (\<lambda>(target_branch, expected_target_head).
              let envelope = approval_envelope r s wt e target_branch expected_target_head;
                  a = new_approval pf d (step_id s) wt target_branch e envelope;
                  d1 = upd_step (step_id s) (bind_envelope a envelope) (add_approval a d)
              in if run_execution_contract_version r \<noteq> Some EXECUTION_CONTRACT_VERSION \<and>
                    plan_approval_covers_intermediate_result d1 (run_task_id r)
                 then
                   bindE (transition_step
                     (upd_approval (appr_id a) (\<lambda>x. x\<lparr>appr_status := A_APPROVED,
                        appr_decided_at := Some (db_now d)\<rparr>) d1)
                     (step_id s) S_QUEUED ''workflow_manager'' (Some ''approved_plan'') [])
                   (\<lambda>d2. Inr (add_event
                     \<lparr>ev_entity_type = ''task'', ev_entity_id = run_task_id r,
                      ev_event_type = ''result.auto_approved_by_plan'',
                      ev_actor_type = ''workflow_manager'', ev_actor_id = Some ''approved_plan'',
                      ev_previous_state = None, ev_new_state = None,
                      ev_payload = [(''approval_id'', JStr (uuid_str (appr_id a)))]\<rparr> d2))
                 else Inr d1)))"

definition verified_envelope :: "platform \<Rightarrow> step \<Rightarrow> approval \<Rightarrow> error + json_obj" where
  "verified_envelope pf s a =
     (case jget (step_payload s) ''action_envelope'' of
        JObj raw \<Rightarrow>
          if envelope_hash pf raw \<noteq> appr_action_envelope_hash a
          then Inl (ValueError ''approval action envelope is missing or has changed'')
          else if jget raw ''step_id'' \<noteq> JStr (uuid_str (step_id s))
          then Inl (ValueError ''approval action envelope targets another step'')
          else Inr raw
      | _ \<Rightarrow> Inl (ValueError ''approval action envelope is missing or has changed''))"

section \<open>Creation\<close>

lemma bind_envelope_simps [simp]:
  "step_id (bind_envelope a env s) = step_id s" "step_status (bind_envelope a env s) = step_status s"
  "step_run_id (bind_envelope a env s) = step_run_id s"
  "step_type (bind_envelope a env s) = step_type s"
  "step_ordinal (bind_envelope a env s) = step_ordinal s"
  "step_lease_generation (bind_envelope a env s) = step_lease_generation s"
  "step_attempt_count (bind_envelope a env s) = step_attempt_count s"
  "step_max_attempts (bind_envelope a env s) = step_max_attempts s"
  "step_dependency_metadata (bind_envelope a env s) = step_dependency_metadata s"
  "step_result (bind_envelope a env s) = step_result s"
  by (simp_all add: bind_envelope_def)

lemma approval_frame [simp]:
  "db_steps (add_approval a d) = db_steps d" "db_steps (upd_approval k f d) = db_steps d"
  "db_runs (add_approval a d) = db_runs d" "db_runs (upd_approval k f d) = db_runs d"
  "db_tasks (add_approval a d) = db_tasks d" "db_tasks (upd_approval k f d) = db_tasks d"
  "db_events (add_approval a d) = db_events d" "db_events (upd_approval k f d) = db_events d"
  "db_outbox (add_approval a d) = db_outbox d" "db_outbox (upd_approval k f d) = db_outbox d"
  "db_effects (add_approval a d) = db_effects d" "db_effects (upd_approval k f d) = db_effects d"
  "db_now (add_approval a d) = db_now d" "db_now (upd_approval k f d) = db_now d"
  "db_approvals (upd_step k g d) = db_approvals d" "db_approvals (add_event ev d) = db_approvals d"
  "get_step (add_approval a d) = get_step d" "get_step (upd_approval k f d) = get_step d"
  "get_run (add_approval a d) = get_run d" "get_run (upd_approval k f d) = get_run d"
  "get_task (add_approval a d) = get_task d" "get_task (upd_approval k f d) = get_task d"
  by (simp_all add: add_approval_def upd_approval_def upd_step_def add_event_def get_step_def
      get_run_def get_task_def)

text \<open>How an approval comes about: nothing happens, or one row is added and its step is bound.\<close>

lemma ensure_result_approvalE:
  assumes "ensure_result_approval pf d r s steps = Inr d'"
  obtains "d' = d"
      "jget (step_payload s) ''requested_action'' \<noteq> JStr ''apply_result'' \<or>
       (\<exists>a \<in> set (db_approvals d). appr_step_id a = step_id s)"
  | wt e branch head envelope a where
      "wt \<in> set (db_worktrees d)" "wt_run_id wt = run_id r"
      "wt_result_commit wt \<noteq> None" "wt_diff_hash wt \<noteq> None"
      "validation_evidence pf steps wt = Inr e" "approval_target d r wt = Inr (branch, head)"
      "envelope = approval_envelope r s wt e branch head"
      "a = new_approval pf d (step_id s) wt branch e envelope"
      "d' = upd_step (step_id s) (bind_envelope a envelope) (add_approval a d)"
      "run_execution_contract_version r = Some EXECUTION_CONTRACT_VERSION \<or>
       \<not> plan_approval_covers_intermediate_result
          (upd_step (step_id s) (bind_envelope a envelope) (add_approval a d)) (run_task_id r)"
  | wt e branch head envelope a d2 ev where
      "wt \<in> set (db_worktrees d)" "wt_run_id wt = run_id r"
      "wt_result_commit wt \<noteq> None" "wt_diff_hash wt \<noteq> None"
      "validation_evidence pf steps wt = Inr e" "approval_target d r wt = Inr (branch, head)"
      "envelope = approval_envelope r s wt e branch head"
      "a = new_approval pf d (step_id s) wt branch e envelope"
      "run_execution_contract_version r \<noteq> Some EXECUTION_CONTRACT_VERSION"
      "transition_step (upd_approval (appr_id a) (\<lambda>x. x\<lparr>appr_status := A_APPROVED,
          appr_decided_at := Some (db_now d)\<rparr>)
          (upd_step (step_id s) (bind_envelope a envelope) (add_approval a d)))
        (step_id s) S_QUEUED ''workflow_manager'' (Some ''approved_plan'') [] = Inr d2"
      "d' = add_event ev d2" "ev_event_type ev = ''result.auto_approved_by_plan''"
      "ev_entity_type ev = ''task''"
proof (cases "jget (step_payload s) ''requested_action'' \<noteq> JStr ''apply_result'' \<or>
    (\<exists>a \<in> set (db_approvals d). appr_step_id a = step_id s)")
  case True
  then have "ensure_result_approval pf d r s steps = Inr d"
    unfolding ensure_result_approval_def by presburger
  then show thesis using assms True by (intro that(1)) simp_all
next
  case False
  with assms obtain wt e branch head where
    wt: "find (\<lambda>wt. wt_run_id wt = run_id r) (db_worktrees d) = Some wt"
      "wt_result_commit wt \<noteq> None" "wt_diff_hash wt \<noteq> None"
      "validation_evidence pf steps wt = Inr e" "approval_target d r wt = Inr (branch, head)"
    by (auto simp: ensure_result_approval_def res_simps split: option.splits if_splits prod.splits)
  have mem: "wt \<in> set (db_worktrees d)" "wt_run_id wt = run_id r"
    using find_SomeD [OF wt(1)] by simp_all
  let ?env = "approval_envelope r s wt e branch head"
  let ?a = "new_approval pf d (step_id s) wt branch e ?env"
  show thesis
  proof (cases "run_execution_contract_version r \<noteq> Some EXECUTION_CONTRACT_VERSION \<and>
      plan_approval_covers_intermediate_result
        (upd_step (step_id s) (bind_envelope ?a ?env) (add_approval ?a d)) (run_task_id r)")
    case True
    with assms False wt obtain d2 where d2: "transition_step (upd_approval (appr_id ?a)
          (\<lambda>x. x\<lparr>appr_status := A_APPROVED, appr_decided_at := Some (db_now d)\<rparr>)
          (upd_step (step_id s) (bind_envelope ?a ?env) (add_approval ?a d)))
        (step_id s) S_QUEUED ''workflow_manager'' (Some ''approved_plan'') [] = Inr d2"
      and d': "d' = add_event
        \<lparr>ev_entity_type = ''task'', ev_entity_id = run_task_id r,
         ev_event_type = ''result.auto_approved_by_plan'',
         ev_actor_type = ''workflow_manager'', ev_actor_id = Some ''approved_plan'',
         ev_previous_state = None, ev_new_state = None,
         ev_payload = [(''approval_id'', JStr (uuid_str (appr_id ?a)))]\<rparr> d2"
      by (auto simp: ensure_result_approval_def res_simps Let_def)
    show thesis using True by (intro that(3) [OF mem wt(2-5) refl refl _ d2 d']) simp_all
  next
    case no: False
    with assms False wt show thesis
      by (intro that(2) [OF mem wt(2-5) refl refl])
        (auto simp: ensure_result_approval_def res_simps Let_def)
  qed
qed

lemma envelope_step: "jget (approval_envelope r s wt e b h) ''step_id'' = JStr (uuid_str (step_id s))"
  by (simp add: approval_envelope_def)

lemma envelope_commits:
  "jget (approval_envelope r s wt e b h) ''result_commit'' = opt_json (wt_result_commit wt)"
  "jget (approval_envelope r s wt e b h) ''gates'' = JList (vd_gates e)"
  "jget (approval_envelope r s wt e b h) ''validation_evidence_hash'' =
     JStr (vd_validation_evidence_hash e)"
  by (simp_all add: approval_envelope_def)

lemma verified_bound:
  assumes "appr_action_envelope_hash a = envelope_hash pf env"
    and "jget env ''step_id'' = JStr (uuid_str (step_id s))"
  shows "verified_envelope pf (bind_envelope a env s) a = Inr env"
  using assms by (simp add: verified_envelope_def bind_envelope_def)

lemma new_approval_simps [simp]:
  "appr_id (new_approval pf d sid wt b e env) = next_uuid d"
  "appr_step_id (new_approval pf d sid wt b e env) = sid"
  "appr_action_envelope_hash (new_approval pf d sid wt b e env) = envelope_hash pf env"
  "appr_status (new_approval pf d sid wt b e env) = A_PENDING"
  by (simp_all add: new_approval_def Let_def)

lemma bound_step_after:
  assumes "get_step d (step_id s) = Some s"
  shows "get_step (upd_step (step_id s) (bind_envelope a env) (add_approval a d)) (step_id s) =
     Some (bind_envelope a env s)"
  using assms by (simp add: step_store.get_upd)

text \<open>C28. Creating an approval and verifying it agree: when an approval was created for a step,
  the step it is stored on passes verification against that approval, and the verified envelope
  names the step, the retained result commit and only gates that passed.\<close>

theorem approval_envelope_roundtrip:
  assumes "ensure_result_approval pf d r s steps = Inr d'" and "get_step d (step_id s) = Some s"
    and "jget (step_payload s) ''requested_action'' = JStr ''apply_result''"
    and "\<forall>a \<in> set (db_approvals d). appr_step_id a \<noteq> step_id s"
  shows "\<exists>a s' envelope wt gates. a \<in> set (db_approvals d') \<and> appr_step_id a = step_id s \<and>
     get_step d' (step_id s) = Some s' \<and> verified_envelope pf s' a = Inr envelope \<and>
     wt \<in> set (db_worktrees d) \<and> wt_run_id wt = run_id r \<and> wt_result_commit wt \<noteq> None \<and>
     jget envelope ''result_commit'' = opt_json (wt_result_commit wt) \<and>
     jget envelope ''gates'' = JList gates \<and> gates \<noteq> [] \<and> (\<forall>g \<in> set gates. gate_passed g)"
  using assms(1)
proof (cases rule: ensure_result_approvalE)
  case 1
  then show ?thesis using assms(3,4) by blast
next
  case (2 wt e branch head envelope a)
  from "2"(5) obtain src where "passing_gates (jobj_or_empty
      (jget (result_of src) ''structured_output'')) = Inr (vd_gates e)"
    by (rule validation_evidence_Inr)
  note gates = passing_gates_Inr [OF this]
  have "verified_envelope pf (bind_envelope a envelope s) a = Inr envelope"
    using "2"(7,8) by (intro verified_bound) (simp_all add: envelope_step)
  then show ?thesis
    using "2" bound_step_after [OF assms(2), of a envelope] gates
    by (intro exI [of _ a] exI [of _ "bind_envelope a envelope s"] exI [of _ envelope]
        exI [of _ wt] exI [of _ "vd_gates e"]) (simp add: add_approval_def envelope_commits)
next
  case (3 wt e branch head envelope a d2 ev)
  from "3"(5) obtain src where "passing_gates (jobj_or_empty
      (jget (result_of src) ''structured_output'')) = Inr (vd_gates e)"
    by (rule validation_evidence_Inr)
  note gates = passing_gates_Inr [OF this]
  let ?f = "\<lambda>x. x\<lparr>appr_status := A_APPROVED, appr_decided_at := Some (db_now d)\<rparr>"
  let ?s' = "(bind_envelope a envelope s)\<lparr>step_status := S_QUEUED,
      step_version := step_version (bind_envelope a envelope s) + 1\<rparr>"
  have get: "get_step d' (step_id s) = Some ?s'"
    using transition_step_get_step [OF "3"(10), of "step_id s"] bound_step_after [OF assms(2), of a envelope]
      "3"(11) by simp
  have "db_approvals d2 = update_row appr_id (appr_id a) ?f (db_approvals d @ [a])"
    using transition_step_frame [OF "3"(10)] by (simp add: upd_approval_def add_approval_def)
  then have mem: "?f a \<in> set (db_approvals d')"
    using "3"(11) by (auto simp: in_set_update_row)
  have "verified_envelope pf ?s' (?f a) = verified_envelope pf (bind_envelope a envelope s) a"
    by (simp add: verified_envelope_def split: json.split)
  also have "\<dots> = Inr envelope"
    using "3"(7,8) by (intro verified_bound) (simp_all add: envelope_step)
  finally show ?thesis
    using "3" get mem gates
    by (intro exI [of _ "?f a"] exI [of _ ?s'] exI [of _ envelope] exI [of _ wt]
        exI [of _ "vd_gates e"]) (simp add: envelope_commits)
qed

definition sample_approval_step :: step where
  "sample_approval_step = sample_step\<lparr>step_id := 5, step_ordinal := 2, step_type := ''approval'',
     step_status := S_WAITING_APPROVAL,
     step_payload := [(''requested_action'', JStr ''apply_result'')]\<rparr>"

definition sample_approval_db :: db where
  "sample_approval_db = sample_db\<lparr>db_steps := [sample_validated, sample_approval_step],
     db_worktrees := [sample_worktree]\<rparr>"

lemma sample_approval_created:
  "\<exists>d'. ensure_result_approval sample_platform sample_approval_db sample_run sample_approval_step
     [sample_validated] = Inr d'"
proof -
  obtain e where e: "validation_evidence sample_platform [sample_validated] sample_worktree = Inr e"
    using sample_evidence by blast
  have "approval_target sample_approval_db sample_run sample_worktree = Inr (''main'', ''base'')"
    by (simp add: approval_target_def task_link_def find_row_def sample_approval_db_def sample_defs
        sample_worktree_def)
  moreover have "plan_approval_covers_intermediate_result (upd_step k f (add_approval a sample_approval_db)) 1 = False"
    for k f a
    by (simp add: plan_approval_covers_intermediate_result_def task_link_def find_row_def
        sample_approval_db_def sample_defs upd_step_def add_approval_def)
  moreover have "db_approvals sample_approval_db = []"
    "find (\<lambda>wt. wt_run_id wt = run_id sample_run) (db_worktrees sample_approval_db) = Some sample_worktree"
    by (simp_all add: sample_approval_db_def sample_defs sample_worktree_def)
  moreover have "run_task_id sample_run = 1" "wt_result_commit sample_worktree \<noteq> None"
    "wt_diff_hash sample_worktree \<noteq> None"
    "jget (step_payload sample_approval_step) ''requested_action'' = JStr ''apply_result''"
    by (simp_all add: sample_run_def sample_worktree_def sample_approval_step_def)
  ultimately show ?thesis
    using e by (simp add: ensure_result_approval_def Let_def)
qed

theorem approval_envelope_roundtrip_witness:
  "\<exists>d' a s' envelope. ensure_result_approval sample_platform sample_approval_db sample_run
       sample_approval_step [sample_validated] = Inr d' \<and>
     get_step d' 5 = Some s' \<and> a \<in> set (db_approvals d') \<and>
     verified_envelope sample_platform s' a = Inr envelope"
proof -
  obtain d' where d': "ensure_result_approval sample_platform sample_approval_db sample_run
      sample_approval_step [sample_validated] = Inr d'" using sample_approval_created by blast
  have "get_step sample_approval_db (step_id sample_approval_step) = Some sample_approval_step"
    by (simp add: get_step_def find_row_def sample_approval_db_def sample_validated_def
        sample_approval_step_def sample_step_def)
  moreover have "\<forall>a \<in> set (db_approvals sample_approval_db). appr_step_id a \<noteq> step_id sample_approval_step"
    by (simp add: sample_approval_db_def sample_defs)
  ultimately show ?thesis
    using approval_envelope_roundtrip [OF d'] d' by (fastforce simp: sample_approval_step_def)
qed

lemma verified_hash:
  "verified_envelope pf s a = Inr env \<Longrightarrow> envelope_hash pf env = appr_action_envelope_hash a"
  by (auto simp: verified_envelope_def split: json.splits if_splits)

text \<open>A tampered envelope is detected: when the hash has no collisions, an approval verifies
  at most one canonical text, so any envelope that passes verification serialises exactly like the
  envelope the approval was created for.\<close>

theorem verified_envelope_unique:
  assumes "\<And>x y. pf_sha256 pf x = pf_sha256 pf y \<Longrightarrow> x = y"
    and "verified_envelope pf s a = Inr env" and "verified_envelope pf s' a = Inr env'"
  shows "json_dumps True (JObj env) = json_dumps True (JObj env')"
proof -
  have "envelope_hash pf env = envelope_hash pf env'"
    using verified_hash [OF assms(2)] verified_hash [OF assms(3)] by simp
  then show ?thesis unfolding envelope_hash_def by (rule assms(1))
qed

text \<open>Under the current execution contract a result is never approved automatically: creating
  the approval leaves it pending and leaves the status of every step unchanged.\<close>

theorem no_automatic_approval:
  assumes "ensure_result_approval pf d r s steps = Inr d'"
    and "run_execution_contract_version r = Some EXECUTION_CONTRACT_VERSION"
  shows "(\<forall>a \<in> set (db_approvals d') - set (db_approvals d). appr_status a = A_PENDING) \<and>
     map step_status (db_steps d') = map step_status (db_steps d)"
  using assms(1)
proof (cases rule: ensure_result_approvalE)
  case 1
  then show ?thesis by simp
next
  case (2 wt e branch head envelope a)
  then show ?thesis by (auto simp: upd_step_def add_approval_def update_row_def)
next
  case (3 wt e branch head envelope a d2 ev)
  then show ?thesis using assms(2) by simp
qed

end
