(* ===== verification/Effects.thy ===== *)
theory Effects
  imports Sample_Rows Py_Json "HOL-Library.Product_Lexorder"
begin

text \<open>
  \<^verbatim>\<open>execution/effect.py\<close>: the durable intent and receipt of an external side effect. An
  intent is recorded under a stable operation key before the effect is launched; a row whose
  outcome is unproven must not be launched again.
\<close>

definition APPLY_OPERATION_PREFIX :: string where "APPLY_OPERATION_PREFIX = ''apply''"
definition TARGET_KIND_GIT_REF :: string where "TARGET_KIND_GIT_REF = ''git_ref''"
definition STATUS_INTENT_RECORDED :: string where "STATUS_INTENT_RECORDED = ''intent_recorded''"
definition STATUS_DISPATCHED :: string where "STATUS_DISPATCHED = ''dispatched''"
definition STATUS_SETTLED :: string where "STATUS_SETTLED = ''settled''"
definition STATUS_UNCERTAIN :: string where "STATUS_UNCERTAIN = ''uncertain''"
definition STATUS_FAILED :: string where "STATUS_FAILED = ''failed''"
definition RECONCILE_NOT_STARTED :: string where "RECONCILE_NOT_STARTED = ''not_started''"
definition RECONCILE_CONFIRMED :: string where "RECONCILE_CONFIRMED = ''confirmed''"
definition RECONCILE_DENIED :: string where "RECONCILE_DENIED = ''denied''"
definition RECONCILE_UNCERTAIN :: string where "RECONCILE_UNCERTAIN = ''uncertain''"
definition RECEIPT_APPLIED :: string where "RECEIPT_APPLIED = ''applied''"
definition RECEIPT_FAILED :: string where "RECEIPT_FAILED = ''failed''"
definition METHOD_READ_GIT_REF :: string where "METHOD_READ_GIT_REF = ''read_git_ref''"

lemmas effect_status_defs = STATUS_INTENT_RECORDED_def STATUS_DISPATCHED_def STATUS_SETTLED_def
  STATUS_UNCERTAIN_def STATUS_FAILED_def RECONCILE_NOT_STARTED_def RECONCILE_CONFIRMED_def
  RECONCILE_DENIED_def RECONCILE_UNCERTAIN_def

definition ACTIVE_STATUSES :: "string list" where
  "ACTIVE_STATUSES = [STATUS_INTENT_RECORDED, STATUS_DISPATCHED, STATUS_UNCERTAIN]"

definition apply_operation_key :: "uuid \<Rightarrow> string \<Rightarrow> string \<Rightarrow> string" where
  "apply_operation_key approval_id result_commit target_branch =
     APPLY_OPERATION_PREFIX @ '':'' @ uuid_str approval_id @ '':'' @ result_commit @ '':'' @
     target_branch"

record effect_intent =
  ei_operation_key :: string
  ei_step_id :: uuid
  ei_effect_class :: string
  ei_target_kind :: string
  ei_target_reference :: string
  ei_idempotency :: string
  ei_payload_hash :: string
  ei_lease_generation :: int
  ei_task_id :: "uuid option"
  ei_run_id :: "uuid option"
  ei_horizon_id :: "uuid option"
  ei_attempt_id :: "uuid option"
  ei_permission_envelope_hash :: "string option"
  ei_approval_id :: "uuid option"
  ei_approval_envelope_hash :: "string option"
  ei_context :: json_obj

definition get_effect :: "db \<Rightarrow> uuid \<Rightarrow> effect option" where
  "get_effect d = find_row eff_id (db_effects d)"

definition upd_effect :: "uuid \<Rightarrow> (effect \<Rightarrow> effect) \<Rightarrow> db \<Rightarrow> db" where
  "upd_effect k f d = d\<lparr>db_effects := update_row eff_id k f (db_effects d)\<rparr>"

interpretation effect_store: row_store db_effects eff_id get_effect upd_effect
  by unfold_locales (simp_all add: get_effect_def upd_effect_def)

text \<open>The fields a retry of a denied effect must repeat.\<close>

definition same_intent :: "effect \<Rightarrow> effect_intent \<Rightarrow> bool" where
  "same_intent e i =
     (eff_step_id e = ei_step_id i \<and> eff_task_id e = ei_task_id i \<and> eff_run_id e = ei_run_id i \<and>
      eff_target_kind e = ei_target_kind i \<and> eff_effect_class e = ei_effect_class i \<and>
      eff_idempotency e = ei_idempotency i \<and> eff_target_reference e = ei_target_reference i \<and>
      eff_payload_hash e = ei_payload_hash i \<and> eff_approval_id e = ei_approval_id i \<and>
      eff_approval_envelope_hash e = ei_approval_envelope_hash i \<and>
      eff_permission_envelope_hash e = ei_permission_envelope_hash i \<and>
      json_eq (JObj (eff_context e)) (JObj (ei_context i)))"

definition retry_dispatched_event :: "effect \<Rightarrow> effect_intent \<Rightarrow> event" where
  "retry_dispatched_event e i =
     \<lparr>ev_entity_type = ''effect'', ev_entity_id = eff_id e, ev_event_type = ''effect.retry_dispatched'',
      ev_actor_type = ''applier'', ev_actor_id = None, ev_previous_state = None, ev_new_state = None,
      ev_payload =
        [(''previous_lease_generation'', JInt (eff_lease_generation e)),
         (''lease_generation'', JInt (ei_lease_generation i)),
         (''previous_reconcile_status'', JStr (eff_reconcile_status e)),
         (''previous_receipt_status'', opt_json (eff_receipt_status e))]\<rparr>"

definition redispatched :: "time \<Rightarrow> effect_intent \<Rightarrow> effect \<Rightarrow> effect" where
  "redispatched now i e =
     e\<lparr>eff_lease_generation := ei_lease_generation i,
       eff_launch_generation := Some (ei_lease_generation i),
       eff_launch_started_at := Some now,
       eff_receipt_status := None, eff_receipt_observed_at := None,
       eff_receipt_external_ref := None, eff_receipt_output_hash := None,
       eff_reconcile_status := RECONCILE_NOT_STARTED, eff_reconcile_reconciled_at := None,
       eff_reconcile_method := None, eff_status := STATUS_DISPATCHED\<rparr>"

definition resumed :: "time \<Rightarrow> effect \<Rightarrow> effect" where
  "resumed now e =
     e\<lparr>eff_status := STATUS_DISPATCHED,
       eff_launch_started_at :=
         (case eff_launch_started_at e of None \<Rightarrow> Some now | Some t \<Rightarrow> Some t),
       eff_launch_generation := Some (eff_lease_generation e)\<rparr>"

definition new_effect :: "db \<Rightarrow> effect_intent \<Rightarrow> effect" where
  "new_effect d i =
     \<lparr>eff_id = next_uuid d, eff_operation_key = ei_operation_key i, eff_step_id = ei_step_id i,
      eff_task_id = ei_task_id i, eff_run_id = ei_run_id i, eff_horizon_id = ei_horizon_id i,
      eff_attempt_id = ei_attempt_id i, eff_effect_class = ei_effect_class i,
      eff_target_kind = ei_target_kind i, eff_target_reference = ei_target_reference i,
      eff_idempotency = ei_idempotency i,
      eff_permission_envelope_hash = ei_permission_envelope_hash i,
      eff_approval_id = ei_approval_id i,
      eff_approval_envelope_hash = ei_approval_envelope_hash i,
      eff_payload_hash = ei_payload_hash i, eff_lease_generation = ei_lease_generation i,
      eff_status = STATUS_DISPATCHED, eff_launch_started_at = Some (wall_now d),
      eff_launch_generation = Some (ei_lease_generation i), eff_receipt_status = None,
      eff_receipt_observed_at = None, eff_receipt_external_ref = None,
      eff_receipt_output_hash = None, eff_reconcile_status = RECONCILE_NOT_STARTED,
      eff_reconcile_reconciled_at = None, eff_reconcile_method = None,
      eff_context = ei_context i, eff_created_at = db_now d\<rparr>"

definition effect_by_key :: "db \<Rightarrow> string \<Rightarrow> effect option" where
  "effect_by_key d key = find (\<lambda>e. eff_operation_key e = key) (db_effects d)"

text \<open>Get or create the intent; the result is the identifier of its row.\<close>

definition record_intent :: "db \<Rightarrow> effect_intent \<Rightarrow> error + (uuid \<times> db)" where
  "record_intent d i =
     (case effect_by_key d (ei_operation_key i) of
        Some e \<Rightarrow>
          if eff_status e = STATUS_UNCERTAIN \<or> eff_reconcile_status e = RECONCILE_UNCERTAIN
          then Inl (EffectUncertainError (''effect '' @ ei_operation_key i @
                 '' is uncertain; manual reconciliation required''))
          else if eff_status e = STATUS_FAILED \<and> eff_reconcile_status e = RECONCILE_DENIED then
            (if ei_target_kind i \<noteq> TARGET_KIND_GIT_REF \<or> \<not> same_intent e i
             then Inl (ValueError ''denied effect retry does not match the approved intent'')
             else if ei_lease_generation i \<le> eff_lease_generation e
             then Inl (ValueError ''denied effect retry requires a newer lease'')
             else Inr (eff_id e, upd_effect (eff_id e) (redispatched (wall_now d) i)
                    (add_event (retry_dispatched_event e i) d)))
          else if eff_status e = STATUS_SETTLED \<or> eff_status e = STATUS_FAILED then Inr (eff_id e, d)
          else Inr (eff_id e, upd_effect (eff_id e) (resumed (wall_now d)) d)
      | None \<Rightarrow>
          Inr (next_uuid d, d\<lparr>db_effects := db_effects d @ [new_effect d i],
                              next_uuid := Suc (next_uuid d)\<rparr>))"

definition settle_applied :: "time \<Rightarrow> string \<Rightarrow> string option \<Rightarrow> string \<Rightarrow> effect \<Rightarrow> effect" where
  "settle_applied now external_ref output_hash method e =
     e\<lparr>eff_status := STATUS_SETTLED, eff_receipt_status := Some RECEIPT_APPLIED,
       eff_receipt_observed_at := Some now,
       eff_receipt_external_ref := Some (take 500 external_ref),
       eff_receipt_output_hash := output_hash, eff_reconcile_status := RECONCILE_CONFIRMED,
       eff_reconcile_reconciled_at := Some now, eff_reconcile_method := Some method\<rparr>"

definition mark_denied :: "time \<Rightarrow> effect \<Rightarrow> effect" where
  "mark_denied now e =
     e\<lparr>eff_status := STATUS_FAILED, eff_receipt_status := Some RECEIPT_FAILED,
       eff_receipt_observed_at := Some now, eff_reconcile_status := RECONCILE_DENIED,
       eff_reconcile_reconciled_at := Some now, eff_reconcile_method := Some METHOD_READ_GIT_REF\<rparr>"

definition mark_uncertain :: "time \<Rightarrow> effect \<Rightarrow> effect" where
  "mark_uncertain now e =
     e\<lparr>eff_status := STATUS_UNCERTAIN, eff_reconcile_status := RECONCILE_UNCERTAIN,
       eff_reconcile_reconciled_at := Some now, eff_reconcile_method := Some METHOD_READ_GIT_REF\<rparr>"

definition active_effects :: "db \<Rightarrow> nat \<Rightarrow> effect list" where
  "active_effects d limit =
     take limit (sort_key (\<lambda>e. (eff_created_at e, eff_id e))
       (filter (\<lambda>e. eff_status e \<in> set ACTIVE_STATUSES) (db_effects d)))"

section \<open>Launch guards\<close>

definition effects_ok :: "db \<Rightarrow> bool" where
  "effects_ok d = (distinct (map eff_operation_key (db_effects d)) \<and>
     distinct (map eff_id (db_effects d)) \<and> (\<forall>e \<in> set (db_effects d). eff_id e < next_uuid d))"

lemma effect_by_key_Some:
  "effect_by_key d key = Some e \<Longrightarrow> e \<in> set (db_effects d) \<and> eff_operation_key e = key"
  by (auto simp: effect_by_key_def find_Some_iff in_set_conv_nth)

lemma effect_by_key_None:
  "effect_by_key d key = None \<longleftrightarrow> key \<notin> eff_operation_key ` set (db_effects d)"
  by (auto simp: effect_by_key_def find_None_iff)

lemma launch_simps [simp]:
  "eff_id (redispatched now i e) = eff_id e" "eff_id (resumed now e) = eff_id e"
  "eff_operation_key (redispatched now i e) = eff_operation_key e"
  "eff_operation_key (resumed now e) = eff_operation_key e"
  "eff_status (redispatched now i e) = STATUS_DISPATCHED"
  "eff_status (resumed now e) = STATUS_DISPATCHED"
  "eff_lease_generation (resumed now e) = eff_lease_generation e"
  "eff_lease_generation (redispatched now i e) = ei_lease_generation i"
  "eff_id (new_effect d i) = next_uuid d"
  "eff_operation_key (new_effect d i) = ei_operation_key i"
  "eff_status (new_effect d i) = STATUS_DISPATCHED"
  by (simp_all add: redispatched_def resumed_def new_effect_def)

lemma add_event_effects [simp]: "db_effects (add_event ev d) = db_effects d"
  "next_uuid (add_event ev d) = next_uuid d"
  by (simp_all add: add_event_def)

lemma record_intent_cases:
  assumes "record_intent d i = Inr (k, d')"
  obtains (fresh) "effect_by_key d (ei_operation_key i) = None" "k = next_uuid d"
      "db_effects d' = db_effects d @ [new_effect d i]" "next_uuid d' = Suc (next_uuid d)"
  | (final) e where "effect_by_key d (ei_operation_key i) = Some e" "k = eff_id e" "d' = d"
      "eff_status e \<in> {STATUS_SETTLED, STATUS_FAILED}"
      "eff_status e = STATUS_SETTLED \<or> eff_reconcile_status e \<noteq> RECONCILE_DENIED"
  | (resume) e where "effect_by_key d (ei_operation_key i) = Some e" "k = eff_id e"
      "db_effects d' = update_row eff_id (eff_id e) (resumed (wall_now d)) (db_effects d)"
      "next_uuid d' = next_uuid d" "eff_status e \<notin> {STATUS_SETTLED, STATUS_FAILED, STATUS_UNCERTAIN}"
      "eff_reconcile_status e \<noteq> RECONCILE_UNCERTAIN"
  | (relaunch) e where "effect_by_key d (ei_operation_key i) = Some e" "k = eff_id e"
      "db_effects d' = update_row eff_id (eff_id e) (redispatched (wall_now d) i) (db_effects d)"
      "next_uuid d' = next_uuid d" "eff_status e = STATUS_FAILED"
      "eff_reconcile_status e = RECONCILE_DENIED" "same_intent e i"
      "eff_lease_generation e < ei_lease_generation i"
proof (cases "effect_by_key d (ei_operation_key i)")
  case None
  then show thesis using assms fresh by (auto simp: record_intent_def)
next
  case (Some e)
  consider "eff_status e = STATUS_FAILED \<and> eff_reconcile_status e = RECONCILE_DENIED"
    | "\<not> (eff_status e = STATUS_FAILED \<and> eff_reconcile_status e = RECONCILE_DENIED)"
      "eff_status e \<in> {STATUS_SETTLED, STATUS_FAILED}"
    | "eff_status e \<notin> {STATUS_SETTLED, STATUS_FAILED}" by blast
  then show thesis
  proof cases
    case 1
    with Some assms show thesis
      by (intro relaunch [OF Some])
        (auto simp: record_intent_def upd_effect_def effect_status_defs split: if_splits)
  next
    case 2
    with Some assms show thesis
      by (intro final [OF Some]) (auto simp: record_intent_def split: if_splits)
  next
    case 3
    with Some assms show thesis
      by (intro resume [OF Some]) (auto simp: record_intent_def upd_effect_def split: if_splits)
  qed
qed

lemma map_key_update:
  assumes "\<And>r. key' (f r) = key' r"
  shows "map key' (update_row key k f rows) = map key' rows"
  using assms by (simp add: update_row_def)

lemma find_append_Some: "find P xs = Some x \<Longrightarrow> find P (xs @ ys) = Some x"
  by (induction xs) (auto split: if_splits)

lemma find_append_None: "find P xs = None \<Longrightarrow> find P (xs @ ys) = find P ys"
  by (induction xs) (auto split: if_splits)

lemma effects_ok_keys:
  "effects_ok d \<longleftrightarrow> distinct (map eff_operation_key (db_effects d)) \<and>
     distinct (map eff_id (db_effects d)) \<and> (\<forall>k \<in> set (map eff_id (db_effects d)). k < next_uuid d)"
  by (simp add: effects_ok_def)

lemma effects_ok_update:
  assumes "effects_ok d" and "db_effects d' = update_row eff_id k f (db_effects d)"
    and "next_uuid d' = next_uuid d"
    and "\<And>e. eff_id (f e) = eff_id e" "\<And>e. eff_operation_key (f e) = eff_operation_key e"
  shows "effects_ok d'"
  using assms(1) unfolding effects_ok_keys assms(2,3)
  by (simp add: map_key_update assms(4,5) del: set_map list.set_map)

lemma record_intent_ok:
  assumes "record_intent d i = Inr (k, d')" "effects_ok d"
  shows "effects_ok d'"
  using assms(1)
proof (cases rule: record_intent_cases)
  case fresh
  then show ?thesis using assms(2) by (auto simp: effects_ok_def effect_by_key_None less_Suc_eq)
next
  case (final e)
  then show ?thesis using assms(2) by simp
next
  case (resume e)
  then show ?thesis by (intro effects_ok_update [OF assms(2) resume(3,4)]) simp_all
next
  case (relaunch e)
  then show ?thesis by (intro effects_ok_update [OF assms(2) relaunch(3,4)]) simp_all
qed


definition sample_intent :: effect_intent where
  "sample_intent = \<lparr>ei_operation_key = ''apply:k'', ei_step_id = 3, ei_effect_class = ''isolated_mutation'',
     ei_target_kind = ''git_ref'', ei_target_reference = ''main'', ei_idempotency = ''reconcilable'',
     ei_payload_hash = ''h'', ei_lease_generation = 2, ei_task_id = Some 1, ei_run_id = Some 2,
     ei_horizon_id = None, ei_attempt_id = None, ei_permission_envelope_hash = None,
     ei_approval_id = None, ei_approval_envelope_hash = None, ei_context = []\<rparr>"

definition sample_effect :: effect where
  "sample_effect = (mark_denied 5 (new_effect sample_db sample_intent))\<lparr>eff_lease_generation := 1\<rparr>"

definition sample_effect_db :: db where
  "sample_effect_db = sample_db\<lparr>db_effects := [sample_effect], next_uuid := 101\<rparr>"

lemma sample_relaunch:
  "record_intent sample_effect_db sample_intent =
     Inr (100, upd_effect 100 (redispatched 10 sample_intent)
       (add_event (retry_dispatched_event sample_effect sample_intent) sample_effect_db))"
  by (simp add: record_intent_def effect_by_key_def sample_effect_db_def sample_effect_def
      mark_denied_def new_effect_def sample_intent_def sample_defs effect_status_defs same_intent_def
      TARGET_KIND_GIT_REF_def json_eq_def)


inductive effect_op :: "db \<Rightarrow> db \<Rightarrow> bool" where
  intent: "record_intent d i = Inr (k, d') \<Longrightarrow> effect_op d d'"
| applied: "effect_op d (upd_effect k (settle_applied now ref out meth) d)"
| denied: "effect_op d (upd_effect k (mark_denied now) d)"
| uncertain: "effect_op d (upd_effect k (mark_uncertain now) d)"

lemma upd_effect_ok:
  assumes "effects_ok d" "\<And>e. eff_id (f e) = eff_id e" "\<And>e. eff_operation_key (f e) = eff_operation_key e"
  shows "effects_ok (upd_effect k f d)"
  using assms by (intro effects_ok_update [OF assms(1), of _ k f]) (simp_all add: upd_effect_def)

lemma effect_op_ok: "effect_op d d' \<Longrightarrow> effects_ok d \<Longrightarrow> effects_ok d'"
  by (induction rule: effect_op.induct)
    (auto intro!: upd_effect_ok intro: record_intent_ok
      simp: settle_applied_def mark_denied_def mark_uncertain_def)

text \<open>There is one row per operation: through any sequence of recorded intents and
  reconciliation marks the operation keys stay unique, so a retried operation finds its own earlier
  outcome.\<close>

theorem effect_keys_stay_unique:
  assumes "effect_op\<^sup>*\<^sup>* d d'" and "effects_ok d"
  shows "effects_ok d'"
  using assms by (induction rule: rtranclp_induct) (auto intro: effect_op_ok)

end
