(* ===== verification/Recovery_Policy.thy ===== *)
theory Recovery_Policy
  imports Py_Json
begin

text \<open>
  \<^verbatim>\<open>workflows/recovery_policy.py\<close>: the pure decision table for failed step outcomes, the
  failure fingerprints it compares, and the policy bounds. SHA-256 is the parameter
  \<open>sha256\<close>.
\<close>

section \<open>Constants and policy\<close>

definition DISK_PRESSURE_CATEGORY :: string where
  "DISK_PRESSURE_CATEGORY = ''disk_pressure''"

definition FINGERPRINT_SCHEMA :: string where
  "FINGERPRINT_SCHEMA = ''failure-fingerprint.v1''"

definition FINGERPRINT_HISTORY_LIMIT :: nat where
  "FINGERPRINT_HISTORY_LIMIT = 8"

definition BACKPRESSURE_CATEGORIES :: "string set" where
  "BACKPRESSURE_CATEGORIES =
     {DISK_PRESSURE_CATEGORY, ''rate_limited'', ''quota_exhausted'', ''provider_unavailable'',
      ''shutdown_cancelled''}"

definition REPAIRABLE_CATEGORY_PREFIXES :: "string list" where
  "REPAIRABLE_CATEGORY_PREFIXES = [''validation_'', ''review_'']"

definition REPAIRABLE_STEP_TYPES :: "string set" where
  "REPAIRABLE_STEP_TYPES = {''validate'', ''review''}"

datatype recovery_action = RETRY | REPAIR | TAKEOVER | WAIT | ATTENTION

fun recovery_action_value :: "recovery_action \<Rightarrow> string" where
  "recovery_action_value RETRY = ''retry''"
| "recovery_action_value REPAIR = ''repair''"
| "recovery_action_value TAKEOVER = ''takeover''"
| "recovery_action_value WAIT = ''wait''"
| "recovery_action_value ATTENTION = ''attention''"

record recovery_policy =
  rp_step_repair_cap :: int
  rp_task_repair_cap :: int
  rp_backpressure_wait_cap :: int
  rp_recovery_deadline_seconds :: int

text \<open>Construction with the checks of \<open>__post_init__\<close>, in field order.\<close>

definition positive_field :: "string \<times> int \<Rightarrow> error + unit" where
  "positive_field nv =
     (if snd nv < 1 then Inl (ValueError (fst nv @ '' must be positive'')) else Inr ())"

definition mk_recovery_policy :: "int \<Rightarrow> int \<Rightarrow> int \<Rightarrow> int \<Rightarrow> error + recovery_policy" where
  "mk_recovery_policy step_cap task_cap wait_cap deadline =
     bindE (foldE (\<lambda>_. positive_field) ()
        [(''step_repair_cap'', step_cap), (''task_repair_cap'', task_cap),
         (''backpressure_wait_cap'', wait_cap), (''recovery_deadline_seconds'', deadline)])
     (\<lambda>_. Inr \<lparr>rp_step_repair_cap = step_cap, rp_task_repair_cap = task_cap,
              rp_backpressure_wait_cap = wait_cap, rp_recovery_deadline_seconds = deadline\<rparr>)"

definition DEFAULT_RECOVERY_POLICY :: recovery_policy where
  "DEFAULT_RECOVERY_POLICY =
     \<lparr>rp_step_repair_cap = 3, rp_task_repair_cap = 6, rp_backpressure_wait_cap = 5,
      rp_recovery_deadline_seconds = 3600\<rparr>"

text \<open>\<open>getattr(settings, name, default)\<close> over the attributes the settings object has.\<close>

definition recovery_policy_from_settings :: "(string \<rightharpoonup> int) \<Rightarrow> error + recovery_policy" where
  "recovery_policy_from_settings settings =
     (let attr = (\<lambda>name dflt. case settings name of None \<Rightarrow> dflt | Some v \<Rightarrow> v)
      in mk_recovery_policy (attr ''max_step_repairs'' 3) (attr ''max_task_repairs'' 6)
           (attr ''max_backpressure_waits'' 5) (attr ''recovery_deadline_seconds'' 3600))"

section \<open>Fingerprints\<close>

definition is_backpressure :: "string option \<Rightarrow> bool" where
  "is_backpressure category =
     (case category of None \<Rightarrow> False | Some c \<Rightarrow> c \<in> BACKPRESSURE_CATEGORIES)"

definition normalize_failure_category :: "string option \<Rightarrow> string" where
  "normalize_failure_category category =
     (case category of
        None \<Rightarrow> ''unknown''
      | Some c \<Rightarrow> if c = [] then ''unknown'' else py_join '' '' (py_split (py_casefold (py_strip c))))"

definition stable_hash :: "(string \<Rightarrow> string) \<Rightarrow> json_obj \<Rightarrow> string" where
  "stable_hash sha256 v = sha256 (json_dumps True (JObj v))"

definition or_empty :: "string option \<Rightarrow> string" where
  "or_empty v = (case v of None \<Rightarrow> [] | Some s \<Rightarrow> s)"

definition fingerprint_components ::
  "string \<Rightarrow> string option \<Rightarrow> string option \<Rightarrow> string option \<Rightarrow> string option \<Rightarrow> string option \<Rightarrow>
   json_obj" where
  "fingerprint_components step_type category evidence_hash environment_hash result_hash strategy_hash =
     [(''schema'', JStr FINGERPRINT_SCHEMA),
      (''step_type'', JStr step_type),
      (''category'', JStr (normalize_failure_category category)),
      (''evidence_hash'', JStr (or_empty evidence_hash)),
      (''environment_hash'', JStr (or_empty environment_hash)),
      (''result_hash'', JStr (or_empty result_hash)),
      (''strategy_hash'', JStr (or_empty strategy_hash))]"

definition failure_fingerprint :: "(string \<Rightarrow> string) \<Rightarrow> json_obj \<Rightarrow> string" where
  "failure_fingerprint sha256 components = stable_hash sha256 components"

section \<open>The decision table\<close>

record recovery_state =
  rs_outcome_kind :: string
  rs_category :: "string option"
  rs_step_type :: string
  rs_unknown_effects :: bool
  rs_retryable :: bool
  rs_fingerprint :: "string option"
  rs_seen_fingerprints :: "string set"
  rs_repair_count :: int
  rs_task_repair_count :: int
  rs_backpressure_count :: int
  rs_deadline_exceeded :: bool

definition repairable :: "recovery_state \<Rightarrow> bool" where
  "repairable st =
     (if rs_category st = Some ''validation_environment_missing_tool'' then False
      else rs_step_type st \<in> REPAIRABLE_STEP_TYPES \<and>
        (\<exists>p \<in> set REPAIRABLE_CATEGORY_PREFIXES. py_startswith (or_empty (rs_category st)) p))"

definition decide_recovery :: "recovery_state \<Rightarrow> recovery_policy \<Rightarrow> recovery_action" where
  "decide_recovery st policy =
     (if rs_unknown_effects st then ATTENTION
      else if rs_deadline_exceeded st then ATTENTION
      else if is_backpressure (rs_category st) then
        (if rs_backpressure_count st \<ge> rp_backpressure_wait_cap policy then ATTENTION else WAIT)
      else if repairable st then
        (if (case rs_fingerprint st of None \<Rightarrow> False | Some f \<Rightarrow> f \<in> rs_seen_fingerprints st)
         then ATTENTION
         else if rs_repair_count st \<ge> rp_step_repair_cap policy then ATTENTION
         else if rs_task_repair_count st \<ge> rp_task_repair_cap policy then ATTENTION
         else REPAIR)
      else if rs_outcome_kind st = ''transient_failure'' \<and> rs_retryable st then RETRY
      else ATTENTION)"

definition recovery_attempt_summary :: "recovery_state \<Rightarrow> recovery_action \<Rightarrow> json_obj" where
  "recovery_attempt_summary st action =
     [(''decision'', JStr (recovery_action_value action)),
      (''fingerprint'', opt_json (rs_fingerprint st)),
      (''fingerprint_schema'', JStr FINGERPRINT_SCHEMA),
      (''seen_fingerprints'', JInt (int (card (rs_seen_fingerprints st)))),
      (''repair_count'', JInt (rs_repair_count st)),
      (''task_repair_count'', JInt (rs_task_repair_count st)),
      (''backpressure_count'', JInt (rs_backpressure_count st)),
      (''category'', JStr (normalize_failure_category (rs_category st))),
      (''step_type'', JStr (rs_step_type st))]"

fun json_strings :: "json \<Rightarrow> string list" where
  "json_strings (JList xs) = map py_str xs"
| "json_strings _ = []"

definition append_fingerprint_history :: "json \<Rightarrow> string \<Rightarrow> string list" where
  "append_fingerprint_history existing fingerprint =
     last_n FINGERPRINT_HISTORY_LIMIT (json_strings existing @ [fingerprint])"

section \<open>Bounds\<close>

lemma decide_REPAIR:
  "decide_recovery st policy = REPAIR \<longleftrightarrow>
   \<not> rs_unknown_effects st \<and> \<not> rs_deadline_exceeded st \<and> \<not> is_backpressure (rs_category st) \<and>
   repairable st \<and> (\<forall>f. rs_fingerprint st = Some f \<longrightarrow> f \<notin> rs_seen_fingerprints st) \<and>
   rs_repair_count st < rp_step_repair_cap policy \<and>
   rs_task_repair_count st < rp_task_repair_cap policy"
  by (auto simp: decide_recovery_def split: option.splits)

lemma decide_WAIT:
  "decide_recovery st policy = WAIT \<longleftrightarrow>
   \<not> rs_unknown_effects st \<and> \<not> rs_deadline_exceeded st \<and> is_backpressure (rs_category st) \<and>
   rs_backpressure_count st < rp_backpressure_wait_cap policy"
  by (auto simp: decide_recovery_def split: option.splits)

lemma decide_RETRY:
  "decide_recovery st policy = RETRY \<longleftrightarrow>
   \<not> rs_unknown_effects st \<and> \<not> rs_deadline_exceeded st \<and> \<not> is_backpressure (rs_category st) \<and>
   \<not> repairable st \<and> rs_outcome_kind st = ''transient_failure'' \<and> rs_retryable st"
  by (auto simp: decide_recovery_def split: option.splits)

lemma mk_recovery_policy_positive:
  "mk_recovery_policy a b c e = Inr p \<Longrightarrow>
   1 \<le> rp_step_repair_cap p \<and> 1 \<le> rp_task_repair_cap p \<and> 1 \<le> rp_backpressure_wait_cap p \<and>
   1 \<le> rp_recovery_deadline_seconds p"
  by (auto simp: mk_recovery_policy_def positive_field_def res_simps split: if_splits)

text \<open>
  One step's failures in sequence: each failure brings a fingerprint, and the table is asked with
  the counters and the history the earlier repairs left behind.
\<close>

fun repair_rounds ::
  "recovery_policy \<Rightarrow> recovery_state \<Rightarrow> json \<Rightarrow> string list \<Rightarrow> recovery_action list" where
  "repair_rounds policy st history [] = []"
| "repair_rounds policy st history (f # fs) =
     (let st' = st\<lparr>rs_fingerprint := Some f, rs_seen_fingerprints := set (json_strings history)\<rparr>;
          action = decide_recovery st' policy
      in action #
         repair_rounds policy
           (if action = REPAIR
            then st\<lparr>rs_repair_count := rs_repair_count st + 1,
                    rs_task_repair_count := rs_task_repair_count st + 1\<rparr> else st)
           (if action = REPAIR
            then JList (map JStr (append_fingerprint_history history f)) else history) fs)"

lemma repair_rounds_bounded:
  "int (length (filter (\<lambda>a. a = REPAIR) (repair_rounds policy st history fs))) \<le>
     max 0 (min (rp_step_repair_cap policy - rs_repair_count st)
                (rp_task_repair_cap policy - rs_task_repair_count st))"
proof (induction fs arbitrary: st history)
  case Nil
  then show ?case by simp
next
  case (Cons f fs)
  let ?st' = "st\<lparr>rs_fingerprint := Some f, rs_seen_fingerprints := set (json_strings history)\<rparr>"
  show ?case
  proof (cases "decide_recovery ?st' policy = REPAIR")
    case True
    then have less: "rs_repair_count st < rp_step_repair_cap policy"
      "rs_task_repair_count st < rp_task_repair_cap policy" by (simp_all add: decide_REPAIR)
    let ?st = "st\<lparr>rs_repair_count := rs_repair_count st + 1,
        rs_task_repair_count := rs_task_repair_count st + 1\<rparr>"
    show ?thesis using True less
      Cons.IH [of ?st "JList (map JStr (append_fingerprint_history history f))"]
      by (simp add: Let_def)
  next
    case False
    then show ?thesis using Cons.IH [of st history] by (simp add: Let_def)
  qed
qed

lemma json_strings_list [simp]: "json_strings (JList (map JStr xs)) = xs"
  by (induction xs) simp_all

text \<open>Automatic repairs are bounded: however many times a step fails, and whatever the
  failures look like, the decision table schedules at most as many repairs as the step cap and the
  task cap leave, and never one after unknown effects.\<close>

theorem repairs_are_bounded:
  "int (length (filter (\<lambda>a. a = REPAIR) (repair_rounds policy st history fs))) \<le>
     (if rs_unknown_effects st \<or> rs_deadline_exceeded st then 0
      else max 0 (min (rp_step_repair_cap policy - rs_repair_count st)
                      (rp_task_repair_cap policy - rs_task_repair_count st)))"
proof (cases "rs_unknown_effects st \<or> rs_deadline_exceeded st")
  case True
  have "filter (\<lambda>a. a = REPAIR) (repair_rounds policy st history fs) = []"
    using True
    by (induction fs arbitrary: st history) (auto simp: Let_def decide_REPAIR)
  then show ?thesis using True by simp
next
  case False
  then show ?thesis using repair_rounds_bounded [of policy st history fs] by auto
qed

text \<open>No identical repair is scheduled twice in a row or in an A-B-A oscillation: a failure
  whose fingerprint is among the eight most recent repairs of the step goes to attention.\<close>

theorem repeated_fingerprint_goes_to_attention:
  assumes "rs_fingerprint st = Some f"
    and "rs_seen_fingerprints st = set (append_fingerprint_history existing g)"
    and "f \<in> insert g (set (last_n 7 (json_strings existing)))"
  shows "decide_recovery st policy \<noteq> REPAIR"
proof -
  have "set (append_fingerprint_history existing g) = insert g (set (last_n 7 (json_strings existing)))"
  proof -
    let ?xs = "json_strings existing"
    have "last_n 8 (?xs @ [g]) = last_n 7 ?xs @ [g]"
      by (cases "7 \<le> length ?xs") (auto simp: last_n_def)
    then show ?thesis by (simp add: append_fingerprint_history_def FINGERPRINT_HISTORY_LIMIT_def)
  qed
  then show ?thesis using assms by (auto simp: decide_REPAIR)
qed

definition sample_recovery :: recovery_state where
  "sample_recovery = \<lparr>rs_outcome_kind = ''blocked'', rs_category = Some ''validation_failed'',
     rs_step_type = ''validate'', rs_unknown_effects = False, rs_retryable = False,
     rs_fingerprint = Some ''a'', rs_seen_fingerprints = {''a'', ''b''}, rs_repair_count = 0,
     rs_task_repair_count = 0, rs_backpressure_count = 0, rs_deadline_exceeded = False\<rparr>"

end
