(* ===== verification/Workflow_Steps.thy ===== *)
theory Workflow_Steps
  imports Result_Approval Effects Recovery_Policy
begin

text \<open>
  \<^verbatim>\<open>workflows/service.py\<close>, first part, with \<^verbatim>\<open>workflows/locking.py\<close>,
  \<^verbatim>\<open>workflows/corrective.py\<close> and \<open>record_review_outcome\<close> of
  \<^verbatim>\<open>storage/attempts.py\<close>: the steps of a run, their activation and resumption, the
  completion of the run and the status of its task. The ORM objects a transaction holds are always
  the current rows, so an operation names a row by its identifier and reads it from the database
  when the code reads an attribute.
\<close>

section \<open>Rows and events\<close>

definition plain_event ::
  "string \<Rightarrow> uuid \<Rightarrow> string \<Rightarrow> string \<Rightarrow> string option \<Rightarrow> json_obj \<Rightarrow> event" where
  "plain_event entity_type entity_id event_type actor_type actor_id payload =
     \<lparr>ev_entity_type = entity_type, ev_entity_id = entity_id, ev_event_type = event_type,
      ev_actor_type = actor_type, ev_actor_id = actor_id, ev_previous_state = None,
      ev_new_state = None, ev_payload = payload\<rparr>"

text \<open>A row that the transaction holds: it cannot be missing.\<close>

definition held_step :: "db \<Rightarrow> uuid \<Rightarrow> error + step" where
  "held_step d sid = (case get_step d sid of None \<Rightarrow> Inl AssertionError | Some s \<Rightarrow> Inr s)"

definition held_run :: "db \<Rightarrow> uuid \<Rightarrow> error + run" where
  "held_run d rid = (case get_run d rid of None \<Rightarrow> Inl AssertionError | Some r \<Rightarrow> Inr r)"

definition held_task :: "db \<Rightarrow> uuid \<Rightarrow> error + task" where
  "held_task d tid = (case get_task d tid of None \<Rightarrow> Inl AssertionError | Some t \<Rightarrow> Inr t)"

definition lock_task_run_step :: "db \<Rightarrow> uuid \<Rightarrow> (task \<times> run \<times> step) option" where
  "lock_task_run_step d sid =
     (case get_step d sid of
        None \<Rightarrow> None
      | Some s \<Rightarrow>
          (case get_run d (step_run_id s) of
             None \<Rightarrow> None
           | Some r \<Rightarrow>
               (case get_task d (run_task_id r) of None \<Rightarrow> None | Some t \<Rightarrow> Some (t, r, s))))"

definition steps_for_run :: "db \<Rightarrow> uuid \<Rightarrow> step list" where
  "steps_for_run d rid = sort_key step_ordinal (filter (\<lambda>s. step_run_id s = rid) (db_steps d))"

text \<open>\<open>coalesce(max(ordinal), 0) + 1\<close> of the run's steps.\<close>

definition next_ordinal :: "db \<Rightarrow> uuid \<Rightarrow> int" where
  "next_ordinal d rid =
     (let ordinals = map step_ordinal (filter (\<lambda>s. step_run_id s = rid) (db_steps d))
      in (if ordinals = [] then 0 else Max (set ordinals)) + 1)"

text \<open>A new step row with the column defaults of the model.\<close>

definition blank_step :: "db \<Rightarrow> uuid \<Rightarrow> step" where
  "blank_step d rid =
     \<lparr>step_id = next_uuid d, step_run_id = rid, step_ordinal = 0, step_dependency_metadata = [],
      step_type = [], step_queue_class = Q_LIGHT, step_status = S_PENDING,
      step_executor_profile_id = None, step_required_capabilities = [], step_payload = [],
      step_result = None, step_retry_class = RETRY_NEVER, step_idempotency_class = IDEM_READ_ONLY,
      step_external_idempotency_key = None, step_attempt_count = 0, step_max_attempts = 1,
      step_priority = 100, step_available_at = db_now d, step_timeout_seconds = 0,
      step_lease_owner = None, step_lease_expires_at = None, step_heartbeat_at = None,
      step_lease_generation = 0, step_failure_category = None, step_failure_summary = None,
      step_unknown_effects = False, step_version = 1, step_created_at = db_now d\<rparr>"

section \<open>Activation\<close>

fun predecessors :: "json_obj \<Rightarrow> error + int list" where
  "predecessors metadata =
     (case jget_default metadata ''predecessor_ordinals'' (JList []) of
        JList raw \<Rightarrow> mapE json_int raw
      | _ \<Rightarrow> Inr [])"

text \<open>\<open>all(by_ordinal[value].status is COMPLETED for value in predecessors)\<close>\<close>

fun preds_completed :: "db \<Rightarrow> (int \<rightharpoonup> uuid) \<Rightarrow> int list \<Rightarrow> error + bool" where
  "preds_completed d by_ordinal [] = Inr True"
| "preds_completed d by_ordinal (v # vs) =
     (case by_ordinal v of
        None \<Rightarrow> Inl (KeyError (int_dec v))
      | Some sid \<Rightarrow>
          bindE (held_step d sid)
            (\<lambda>s. if step_status s = S_COMPLETED then preds_completed d by_ordinal vs else Inr False))"

definition activate_one ::
  "platform \<Rightarrow> uuid \<Rightarrow> (int \<times> uuid) list \<Rightarrow> uuid list \<times> db \<Rightarrow> uuid \<Rightarrow> error + uuid list \<times> db" where
  "activate_one pf rid ordinals = (\<lambda>(activated, d) sid.
     bindE (held_step d sid) (\<lambda>s.
       if step_status s \<noteq> S_PENDING then Inr (activated, d)
       else
         bindE (predecessors (step_dependency_metadata s)) (\<lambda>preds.
         bindE (preds_completed d (map_of (rev ordinals)) preds) (\<lambda>ready.
         if \<not> ready then Inr (activated, d)
         else if step_type s = ''approval'' then
           bindE (transition_step d sid S_WAITING_APPROVAL ''workflow_manager'' None []) (\<lambda>d1.
           bindE (held_run d1 rid) (\<lambda>r.
           bindE (held_step d1 sid) (\<lambda>s1.
           bindE (mapE (held_step d1) (map snd ordinals)) (\<lambda>steps.
           bindE (ensure_result_approval pf d1 r s1 steps) (\<lambda>d2.
           Inr (activated @ [sid], d2))))))
         else
           bindE (transition_step d sid S_QUEUED ''workflow_manager'' None []) (\<lambda>d1.
           Inr (activated @ [sid], d1))))))"

definition activate_ready_steps :: "platform \<Rightarrow> db \<Rightarrow> uuid \<Rightarrow> error + uuid list \<times> db" where
  "activate_ready_steps pf d rid =
     bindE (held_run d rid) (\<lambda>r.
       if run_status r \<noteq> R_RUNNING then Inr ([], d)
       else
         let steps = steps_for_run d rid;
             ordinals = map (\<lambda>s. (step_ordinal s, step_id s)) steps
         in foldE (activate_one pf rid ordinals) ([], d) (map step_id steps))"

section \<open>Completion and task status\<close>

definition effect_unsettled :: "db \<Rightarrow> uuid set \<Rightarrow> bool" where
  "effect_unsettled d step_ids =
     (\<exists>e \<in> set (db_effects d). eff_step_id e \<in> step_ids \<and> eff_status e \<in> set ACTIVE_STATUSES)"

definition finalize_if_complete :: "db \<Rightarrow> uuid \<Rightarrow> error + bool \<times> db" where
  "finalize_if_complete d rid =
     bindE (held_run d rid) (\<lambda>r.
       let steps = steps_for_run d rid in
       if steps = [] \<or> (\<exists>s \<in> set steps. step_status s \<noteq> S_COMPLETED) then Inr (False, d)
       else if run_status r \<noteq> R_RUNNING then Inr (False, d)
       else if effect_unsettled d (step_id ` set steps) then Inr (False, d)
       else
         bindE (transition_run d rid R_COMPLETED ''workflow_manager'' None []) (\<lambda>d1.
           Inr (True, upd_run rid (\<lambda>x. x\<lparr>run_ended_at := Some (db_now d)\<rparr>) d1)))"

definition settled_or_blocked :: "step \<Rightarrow> bool" where
  "settled_or_blocked s = (step_status s \<in> {S_COMPLETED, S_CANCELLED, S_FAILED, S_BLOCKED})"

definition targets_of :: "string \<Rightarrow> step list \<Rightarrow> string list" where
  "targets_of key steps = List.map_filter (\<lambda>s. jstr_of (jget (step_payload s) key)) steps"

definition active_repair_targets :: "step list \<Rightarrow> string set" where
  "active_repair_targets steps =
     (let live = filter (\<lambda>s. \<not> settled_or_blocked s) steps;
          direct = set (targets_of ''repair_for_step_id'' live) \<union>
                   set (targets_of ''resume_after_validation_step_id'' live) \<union>
                   set (targets_of ''capability_for_step_id'' live)
      in direct \<union> set (targets_of ''validation_environment_for_step_id''
           (filter (\<lambda>s. \<not> settled_or_blocked s \<or> uuid_str (step_id s) \<in> direct) steps)))"

definition active_step :: "step list \<Rightarrow> step option" where
  "active_step steps =
     find (\<lambda>s. step_status s \<notin> {S_PENDING, S_COMPLETED, S_CANCELLED} \<and>
               \<not> (step_status s = S_BLOCKED \<and> uuid_str (step_id s) \<in> active_repair_targets steps)) steps"

fun direct_task_status :: "run_status \<Rightarrow> task_status option" where
  "direct_task_status R_CREATED = Some T_INTERPRETED"
| "direct_task_status R_PAUSED = Some T_PAUSED"
| "direct_task_status R_AWAITING_USER = Some T_AWAITING_USER"
| "direct_task_status R_BLOCKED = Some T_BLOCKED"
| "direct_task_status R_FAILED = Some T_FAILED"
| "direct_task_status R_CANCELLED = Some T_CANCELLED"
| "direct_task_status R_COMPLETED = Some T_COMPLETED"
| "direct_task_status _ = None"

definition step_type_status :: "string \<Rightarrow> task_status" where
  "step_type_status ty =
     (if ty = ''ensure_capabilities'' then T_CONTEXT_PREPARED
      else if ty = ''prepare_context'' then T_CONTEXT_PREPARED
      else if ty = ''validate'' then T_VALIDATING
      else if ty = ''review'' then T_REVIEWING
      else T_EXECUTING)"

definition derive_task_status :: "step list \<Rightarrow> run_status \<Rightarrow> task_status" where
  "derive_task_status steps rs =
     (case direct_task_status rs of
        Some t \<Rightarrow> t
      | None \<Rightarrow>
          (case active_step steps of
             None \<Rightarrow> T_EXECUTING
           | Some a \<Rightarrow>
               if step_status a = S_WAITING_APPROVAL then T_WAITING_APPROVAL
               else if step_status a = S_AWAITING_USER then T_AWAITING_USER
               else if step_status a = S_BLOCKED then T_BLOCKED
               else if step_status a = S_FAILED then T_FAILED
               else if is_JStr (jget (step_payload a) ''capability_for_step_id'') then T_EXECUTING
               else if is_JStr (jget (step_payload a) ''repair_for_step_id'') \<or>
                       is_JStr (jget (step_payload a) ''resume_after_validation_step_id'')
               then T_RETRYING
               else step_type_status (step_type a)))"

section \<open>Traces\<close>

text \<open>\<open>record_corrective_signal\<close>; the notification is that of a package needing attention.\<close>

definition record_corrective_signal ::
  "string \<Rightarrow> string \<Rightarrow> uuid option \<Rightarrow> uuid option \<Rightarrow> uuid option \<Rightarrow> uuid option \<Rightarrow> db \<Rightarrow> error + db" where
  "record_corrective_signal scope reason pkg tid rid sid d =
     (let text = (\<lambda>v. opt_json (map_option uuid_str v));
          payload =
            [(''scope'', JStr scope), (''reason'', JStr reason), (''notify'', JBool True),
             (''notify_event'', JStr ''package_attention''), (''package_id'', text pkg),
             (''task_id'', text tid), (''run_id'', text rid), (''step_id'', text sid)];
          entity = (case (pkg, tid, rid, sid) of
                      (Some p, _, _, _) \<Rightarrow> p | (None, Some t, _, _) \<Rightarrow> t
                    | (None, None, Some r, _) \<Rightarrow> r | (None, None, None, Some s) \<Rightarrow> s
                    | _ \<Rightarrow> next_uuid d);
          d1 = add_event
            (plain_event (if pkg \<noteq> None then ''work_package'' else ''task'') entity
              (if pkg \<noteq> None then ''work_package.correction_required''
               else ''task.correction_required'') ''system'' None payload) d
      in case pkg of
           None \<Rightarrow> Inr d1
         | Some p \<Rightarrow>
             let row = new_outbox_row d1 ''work_package_projection'' ''render_status'' ''work_package'' p
                   (''wp:corrective:'' @ uuid_str p @ '':'' @
                    (case sid of
                       Some s \<Rightarrow> uuid_str s
                     | None \<Rightarrow> (case tid of Some t \<Rightarrow> uuid_str t | None \<Rightarrow> ''None'')))
                   [(''package_id'', JStr (uuid_str p))]
             in if outbox_key row \<in> outbox_key ` set (db_outbox d1)
                then Inl (IntegrityError ''uq_outbox_destination_key'')
                else Inr (lead_enqueue row d1))"

definition REVIEW_OUTCOME_KEY_SCHEMA :: string where
  "REVIEW_OUTCOME_KEY_SCHEMA = ''review-outcome-v1''"

definition review_acceptance_key :: "platform \<Rightarrow> json_obj \<Rightarrow> string" where
  "review_acceptance_key pf verdict =
     pf_sha256 pf (REVIEW_OUTCOME_KEY_SCHEMA @ '':'' @ json_dumps False (JObj verdict))"

definition record_review_outcome ::
  "platform \<Rightarrow> uuid \<Rightarrow> uuid \<Rightarrow> uuid \<Rightarrow> json_obj \<Rightarrow> db \<Rightarrow> db" where
  "record_review_outcome pf tid rid sid verdict d =
     (let key = review_acceptance_key pf verdict in
      if \<exists>o' \<in> set (db_review_outcomes d). ro_run_id o' = rid \<and> ro_step_id o' = sid \<and>
            ro_acceptance_key o' = key
      then d
      else d\<lparr>db_review_outcomes := db_review_outcomes d @
             [\<lparr>ro_task_id = tid, ro_run_id = rid, ro_step_id = sid,
               ro_acceptance_key = key,
               ro_verdict = py_str (jget_default verdict ''verdict'' (JStr ''blocked'')),
               ro_review_kind = jget verdict ''review_kind'', ro_risk = jget verdict ''risk'',
               ro_base_commit = jget verdict ''base_commit'',
               ro_result_commit = jget verdict ''result_commit'',
               ro_diff_hash = jget verdict ''diff_hash'',
               ro_findings = (case jget verdict ''findings'' of JList fs \<Rightarrow> fs | _ \<Rightarrow> []),
               ro_summary = jget verdict ''summary'',
               ro_policy_revision = jget verdict ''policy_revision'',
               ro_partition_count = jget verdict ''partition_count'',
               ro_unknown_usage = py_truthy (jget_default verdict ''unknown_usage'' (JBool False))\<rparr>]\<rparr>)"

definition block_for_attention :: "db \<Rightarrow> uuid \<Rightarrow> uuid \<Rightarrow> error + db" where
  "block_for_attention d rid sid =
     bindE (transition_step d sid S_BLOCKED ''worker'' None []) (\<lambda>d1.
     bindE (transition_run d1 rid R_BLOCKED ''worker'' None []) (\<lambda>d2.
     bindE (held_run d2 rid) (\<lambda>r.
     record_corrective_signal ''blocked_attention'' ''blocked_attention'' None
       (Some (run_task_id r)) (Some rid) (Some sid) d2)))"

section \<open>Resumption after a completed step\<close>

text \<open>One more attempt when the budget is used up.\<close>

definition grant_attempt :: "step \<Rightarrow> step" where
  "grant_attempt s =
     (if step_attempt_count s \<ge> step_max_attempts s
      then s\<lparr>step_max_attempts := step_max_attempts s + 1\<rparr> else s)"

definition refund_attempt :: "step \<Rightarrow> step" where
  "refund_attempt s =
     (if step_attempt_count s > 0 then s\<lparr>step_attempt_count := step_attempt_count s - 1\<rparr> else s)"

definition clear_failure :: "step \<Rightarrow> step" where
  "clear_failure s = s\<lparr>step_failure_category := None, step_failure_summary := None\<rparr>"

text \<open>The blocked step of a run with an identifier and a type.\<close>

definition blocked_target :: "db \<Rightarrow> uuid \<Rightarrow> uuid \<Rightarrow> string \<Rightarrow> step option" where
  "blocked_target d rid sid ty =
     (case get_step d sid of
        None \<Rightarrow> None
      | Some s \<Rightarrow> if step_run_id s = rid \<and> step_type s = ty \<and> step_status s = S_BLOCKED
                 then Some s else None)"

definition resume_after_capability_preflight :: "db \<Rightarrow> uuid \<Rightarrow> step \<Rightarrow> error + db" where
  "resume_after_capability_preflight d rid preflight =
     (case jget (step_payload preflight) ''capability_for_step_id'' of
        JStr raw_target \<Rightarrow>
          if step_type preflight \<noteq> ''ensure_capabilities'' then Inr d
          else
            (case uuid_parse raw_target of
               None \<Rightarrow> Inl (ValueError ''badly formed hexadecimal UUID string'')
             | Some target_id \<Rightarrow>
                 (case blocked_target d rid target_id ''ensure_dependencies'' of
                    None \<Rightarrow>
                      Inl (ValueError ''completed capability preflight has no bound dependency waiter'')
                  | Some target \<Rightarrow>
                      if step_failure_category target \<noteq> Some ''capability_preflight_required'' \<or>
                         jget (step_payload target) ''capability_preflight_step_id'' \<noteq>
                           JStr (uuid_str (step_id preflight))
                      then Inl (ValueError ''completed capability preflight has no bound dependency waiter'')
                      else
                        bindE (transition_step d target_id S_QUEUED ''capability_inventory'' None [])
                        (\<lambda>d1. Inr (upd_step target_id (clear_failure \<circ> refund_attempt) d1))))
      | _ \<Rightarrow> Inr d)"

definition resume_after_validation_environment :: "db \<Rightarrow> uuid \<Rightarrow> step \<Rightarrow> error + db" where
  "resume_after_validation_environment d rid preparation =
     (case jget (step_payload preparation) ''validation_environment_for_step_id'' of
        JStr raw_target \<Rightarrow>
          if step_type preparation \<noteq> ''ensure_dependencies'' then Inr d
          else
            (case uuid_parse raw_target of
               None \<Rightarrow> Inl (ValueError ''badly formed hexadecimal UUID string'')
             | Some target_id \<Rightarrow>
                 (case blocked_target d rid target_id ''validate'' of
                    None \<Rightarrow>
                      Inl (ValueError ''environment preparation has no mutually bound validation waiter'')
                  | Some target \<Rightarrow>
                      if jget (step_payload target) ''environment_recovery_step_id'' \<noteq>
                           JStr (uuid_str (step_id preparation))
                      then Inl (ValueError ''environment preparation has no mutually bound validation waiter'')
                      else
                        bindE (transition_step d target_id S_QUEUED ''workflow_manager'' None [])
                        (\<lambda>d1. Inr (upd_step target_id (clear_failure \<circ> grant_attempt) d1))))
      | _ \<Rightarrow> Inr d)"

definition completed_of_type :: "db \<Rightarrow> uuid \<Rightarrow> string set \<Rightarrow> step option" where
  "completed_of_type d rid types =
     find (\<lambda>s. step_type s \<in> types \<and> step_status s = S_COMPLETED) (rev (steps_for_run d rid))"

definition result_kind_entry :: "step \<Rightarrow> json_obj" where
  "result_kind_entry s =
     (if jhas (step_payload s) ''result_kind''
      then [(''result_kind'', jget (step_payload s) ''result_kind'')] else [])"

text \<open>The revalidation that a repaired review waits for.\<close>

definition revalidation_step :: "db \<Rightarrow> uuid \<Rightarrow> step \<Rightarrow> step \<Rightarrow> step \<Rightarrow> step" where
  "revalidation_step d rid target validation repair =
     (blank_step d rid)
       \<lparr>step_ordinal := next_ordinal d rid,
        step_dependency_metadata :=
          [(''template_key'', JStr ''repair_validate''), (''predecessor_ordinals'', JList []),
           (''repair_for_ordinal'', JInt (step_ordinal target))],
        step_type := ''validate'', step_queue_class := step_queue_class validation,
        step_status := S_QUEUED,
        step_required_capabilities := step_required_capabilities validation,
        step_payload := result_kind_entry validation @
          [(''amend_repaired_result'', JBool True),
           (''resume_after_validation_step_id'', JStr (uuid_str (step_id target))),
           (''repair_step_id'', JStr (uuid_str (step_id repair)))],
        step_retry_class := step_retry_class validation,
        step_idempotency_class := step_idempotency_class validation, step_max_attempts := 1,
        step_priority := step_priority validation,
        step_timeout_seconds := step_timeout_seconds validation\<rparr>"

definition resume_repaired_step :: "db \<Rightarrow> uuid \<Rightarrow> step \<Rightarrow> error + bool \<times> db" where
  "resume_repaired_step d rid repair =
     (case Option.bind (jstr_of (jget (step_payload repair) ''repair_for_step_id'')) uuid_parse of
        None \<Rightarrow> Inr (False, d)
      | Some target_id \<Rightarrow>
          (case get_step d target_id of
             None \<Rightarrow> Inr (False, d)
           | Some target \<Rightarrow>
               if step_run_id target \<noteq> rid \<or> step_status target \<noteq> S_BLOCKED then Inr (False, d)
               else if step_type target = ''review'' then
                 (case completed_of_type d rid {''validate''} of
                    None \<Rightarrow> Inr (False, d)
                  | Some validation \<Rightarrow>
                      Inr (True, add_step (revalidation_step d rid target validation repair) d))
               else
                 bindE (transition_step d target_id S_QUEUED ''workflow_manager'' None [])
                 (\<lambda>d1. Inr (True,
                    add_event (plain_event ''run'' rid ''workflow.repair_completed'' ''workflow_manager'' None
                        [(''repair_step_id'', JStr (uuid_str (step_id repair))),
                         (''resumed_step_id'', JStr (uuid_str target_id))])
                      (upd_step target_id (\<lambda>s. (clear_failure (grant_attempt s))
                         \<lparr>step_unknown_effects := False,
                          step_payload := jput (step_payload s) ''repair_completed_step_id''
                            (JStr (uuid_str (step_id repair)))\<rparr>) d1)))))"

definition resume_review_after_validation :: "db \<Rightarrow> uuid \<Rightarrow> step \<Rightarrow> error + bool \<times> db" where
  "resume_review_after_validation d rid validation =
     (case Option.bind (jstr_of (jget (step_payload validation) ''resume_after_validation_step_id''))
             uuid_parse of
        None \<Rightarrow> Inr (False, d)
      | Some target_id \<Rightarrow>
          (case blocked_target d rid target_id ''review'' of
             None \<Rightarrow> Inr (False, d)
           | Some target \<Rightarrow>
               bindE (transition_step d target_id S_QUEUED ''workflow_manager'' None [])
               (\<lambda>d1. Inr (True,
                  upd_step target_id (\<lambda>s. (clear_failure (grant_attempt s))
                    \<lparr>step_payload := jput (step_payload s) ''repair_validation_step_id''
                       (JStr (uuid_str (step_id validation)))\<rparr>) d1))))"

end
