(* ===== verification/Disk_Pressure.thy ===== *)
theory Disk_Pressure
  imports Vuzol_Prelude
begin

text \<open>
  \<^verbatim>\<open>ops/disk_pressure.py\<close>: the free-space gate in front of new heavy work. The probe
  (\<open>os.statvfs\<close> in production) is a parameter; \<open>None\<close> is its \<open>OSError\<close>.
\<close>

record disk_settings =
  ds_min_free_bytes :: int
  ds_paths :: "string list"
  ds_worktree_root :: string
  ds_artifact_root :: string

type_synonym free_space_probe = "string \<Rightarrow> int option"

record disk_pressure_assessment =
  da_allowed :: bool
  da_reason :: string
  da_required_bytes :: int
  da_free_bytes :: "int option"

definition da_blocked :: "disk_pressure_assessment \<Rightarrow> bool" where
  "da_blocked a = (\<not> da_allowed a)"

definition measurement_paths :: "disk_settings \<Rightarrow> string list" where
  "measurement_paths settings =
     (if ds_paths settings \<noteq> [] then ds_paths settings
      else [ds_worktree_root settings, ds_artifact_root settings])"

text \<open>The measuring loop, with the lowest free space seen so far.\<close>

fun assess_paths ::
  "free_space_probe \<Rightarrow> int \<Rightarrow> int option \<Rightarrow> string list \<Rightarrow> disk_pressure_assessment" where
  "assess_paths probe required lowest [] =
     \<lparr>da_allowed = True, da_reason = ''ok'', da_required_bytes = required, da_free_bytes = lowest\<rparr>"
| "assess_paths probe required lowest (path # paths) =
     (case probe path of
        None \<Rightarrow> \<lparr>da_allowed = False, da_reason = ''probe_error'', da_required_bytes = required,
                 da_free_bytes = None\<rparr>
      | Some free \<Rightarrow>
          let lowest' = (case lowest of None \<Rightarrow> free | Some l \<Rightarrow> min l free)
          in if free < required
             then \<lparr>da_allowed = False, da_reason = ''low'', da_required_bytes = required,
                   da_free_bytes = Some free\<rparr>
             else assess_paths probe required (Some lowest') paths)"

definition assess_disk_pressure ::
  "disk_settings \<Rightarrow> free_space_probe \<Rightarrow> disk_pressure_assessment" where
  "assess_disk_pressure settings probe =
     (let required = ds_min_free_bytes settings
      in if required \<le> 0
         then \<lparr>da_allowed = True, da_reason = ''disabled'', da_required_bytes = 0,
               da_free_bytes = None\<rparr>
         else assess_paths probe required None (measurement_paths settings))"

definition heavy_work_allowed :: "disk_settings \<Rightarrow> free_space_probe \<Rightarrow> bool" where
  "heavy_work_allowed settings probe = da_allowed (assess_disk_pressure settings probe)"

definition assess_heavy_claim_gate ::
  "disk_settings option \<Rightarrow> free_space_probe \<Rightarrow> disk_pressure_assessment" where
  "assess_heavy_claim_gate settings probe =
     (case settings of
        None \<Rightarrow> \<lparr>da_allowed = False, da_reason = ''missing_settings'', da_required_bytes = 0,
                 da_free_bytes = None\<rparr>
      | Some s \<Rightarrow> assess_disk_pressure s probe)"

text \<open>
  The rate-limited log line of a deferred claim: the process-local time of the last line (0 before
  the first) goes in and comes out, with whether a line was written. Times are microseconds.
\<close>

definition report_claim_disk_pressure_deferred ::
  "disk_pressure_assessment \<Rightarrow> bool \<Rightarrow> int \<Rightarrow> int \<Rightarrow> int \<Rightarrow> bool \<times> int" where
  "report_claim_disk_pressure_deferred assessment force log_interval now last_log =
     (if da_allowed assessment then (False, last_log)
      else if \<not> force \<and> last_log > 0 \<and> now - last_log < log_interval then (False, last_log)
      else (True, now))"

section \<open>The gate is exactly the threshold on every measured path\<close>

lemma assess_paths_allowed:
  "da_allowed (assess_paths probe required lowest paths) \<longleftrightarrow>
   (\<forall>p \<in> set paths. \<exists>free. probe p = Some free \<and> required \<le> free)"
  by (induction paths arbitrary: lowest) (auto simp: Let_def split: option.splits)

lemma assess_paths_lowest:
  "da_allowed (assess_paths probe required lowest paths) \<Longrightarrow>
   da_free_bytes (assess_paths probe required lowest paths) =
     (if paths = [] then lowest
      else Some (Min (set (map (\<lambda>p. the (probe p)) paths) \<union> set_option lowest)))"
proof (induction paths arbitrary: lowest)
  case Nil
  then show ?case by simp
next
  case (Cons p ps)
  from Cons.prems obtain free where free: "probe p = Some free" "required \<le> free"
    and rest: "da_allowed (assess_paths probe required
       (Some (case lowest of None \<Rightarrow> free | Some l \<Rightarrow> min l free)) ps)"
    by (auto simp: Let_def split: option.splits if_splits)
  from Cons.IH [OF rest] free show ?case
    by (cases lowest; cases "ps = []") (auto simp: Let_def min.assoc min.left_commute insert_commute)
qed

lemma heavy_gate_allowed_iff:
  "da_allowed (assess_heavy_claim_gate settings probe) \<longleftrightarrow>
   (\<exists>s. settings = Some s \<and>
     (ds_min_free_bytes s \<le> 0 \<or>
      (\<forall>p \<in> set (measurement_paths s). \<exists>free. probe p = Some free \<and> ds_min_free_bytes s \<le> free)))"
  by (auto simp: assess_heavy_claim_gate_def assess_disk_pressure_def Let_def assess_paths_allowed
      split: option.splits)

end
