(* ===== verification/Leasing.thy ===== *)
theory Leasing
  imports Transitions Disk_Pressure "HOL-Library.Product_Lexorder"
begin

text \<open>
  \<^verbatim>\<open>storage/leasing.py\<close>: claims of queued steps and of outbox items, with fencing
  generations. A claim increments the row's generation and hands out a token; every later write
  names the token's owner and generation, and updates exactly the row that still carries them.
  Rows locked by concurrent transactions (\<open>FOR UPDATE SKIP LOCKED\<close>) are the parameter
  \<open>locked\<close>. A claim that defers heavy work also writes a log line, which is not part of the
  database.
\<close>

section \<open>Tokens\<close>

record step_record =
  sr_id :: uuid
  sr_run_id :: uuid
  sr_status :: step_status
  sr_lease_generation :: int
  sr_lease_owner :: "string option"
  sr_lease_expires_at :: "time option"

record lease_token =
  tok_step :: step_record
  tok_owner :: string
  tok_generation :: int

record outbox_lease_token =
  otok_item_id :: uuid
  otok_status :: delivery_status
  otok_owner :: string
  otok_generation :: int
  otok_lease_expires_at :: time

definition step_record_of :: "step \<Rightarrow> step_record" where
  "step_record_of s =
     \<lparr>sr_id = step_id s, sr_run_id = step_run_id s, sr_status = step_status s,
      sr_lease_generation = step_lease_generation s, sr_lease_owner = step_lease_owner s,
      sr_lease_expires_at = step_lease_expires_at s\<rparr>"

section \<open>Claiming a step\<close>

definition run_is_running :: "db \<Rightarrow> uuid \<Rightarrow> bool" where
  "run_is_running d rid = (\<exists>r \<in> set (db_runs d). run_id r = rid \<and> run_status r = R_RUNNING)"

definition run_not_terminal :: "db \<Rightarrow> uuid \<Rightarrow> bool" where
  "run_not_terminal d rid =
     (\<exists>r \<in> set (db_runs d). run_id r = rid \<and>
        run_status r \<notin> {R_CANCELLED, R_FAILED, R_COMPLETED})"

definition claim_candidate ::
  "db \<Rightarrow> string set \<Rightarrow> queue_class set \<Rightarrow> string set option \<Rightarrow> step \<Rightarrow> bool" where
  "claim_candidate d capabilities queue_classes step_types s =
     (step_status s = S_QUEUED \<and> step_available_at s \<le> db_now d \<and>
      step_attempt_count s < step_max_attempts s \<and> step_queue_class s \<in> queue_classes \<and>
      set (step_required_capabilities s) \<subseteq> capabilities \<and> run_is_running d (step_run_id s) \<and>
      (case step_types of None \<Rightarrow> True | Some types \<Rightarrow> step_type s \<in> types))"

definition claim_order :: "step \<Rightarrow> int \<times> time \<times> time" where
  "claim_order s = (step_priority s, step_available_at s, step_created_at s)"

definition claim_candidates ::
  "db \<Rightarrow> uuid set \<Rightarrow> string set \<Rightarrow> queue_class set \<Rightarrow> string set option \<Rightarrow> nat \<Rightarrow> step list" where
  "claim_candidates d locked capabilities queue_classes step_types candidate_limit =
     take candidate_limit
       (filter (\<lambda>s. step_id s \<notin> locked)
         (sort_key claim_order
           (filter (claim_candidate d capabilities queue_classes step_types) (db_steps d))))"

definition lease_active :: "time \<Rightarrow> step \<Rightarrow> bool" where
  "lease_active now s =
     (step_status s \<in> {S_LEASED, S_RUNNING} \<and>
      (case step_lease_expires_at s of None \<Rightarrow> False | Some t \<Rightarrow> now \<le> t))"

definition active_count :: "db \<Rightarrow> (step \<Rightarrow> bool) \<Rightarrow> nat" where
  "active_count d P = length (filter (\<lambda>s. P s \<and> lease_active (db_now d) s) (db_steps d))"

definition within_class_limit :: "db \<Rightarrow> (queue_class \<rightharpoonup> int) option \<Rightarrow> step \<Rightarrow> bool" where
  "within_class_limit d class_limits s =
     (case class_limits of
        None \<Rightarrow> True
      | Some limits \<Rightarrow>
          (case limits (step_queue_class s) of
             None \<Rightarrow> True
           | Some class_limit \<Rightarrow>
               int (active_count d (\<lambda>x. step_queue_class x = step_queue_class s)) < class_limit))"

definition within_profile_limit :: "db \<Rightarrow> (string \<rightharpoonup> int) option \<Rightarrow> step \<Rightarrow> bool" where
  "within_profile_limit d profile_limits s =
     (case (step_executor_profile_id s, profile_limits) of
        (Some profile, Some limits) \<Rightarrow>
          (case limits profile of
             None \<Rightarrow> False
           | Some profile_limit \<Rightarrow>
               int (active_count d (\<lambda>x. step_executor_profile_id x = Some profile)) < profile_limit)
      | _ \<Rightarrow> True)"

definition claimable ::
  "db \<Rightarrow> disk_settings option \<Rightarrow> free_space_probe \<Rightarrow> (queue_class \<rightharpoonup> int) option \<Rightarrow>
   (string \<rightharpoonup> int) option \<Rightarrow> step \<Rightarrow> bool" where
  "claimable d settings probe class_limits profile_limits s =
     (\<not> (step_queue_class s = Q_HEAVY \<and> da_blocked (assess_heavy_claim_gate settings probe)) \<and>
      within_class_limit d class_limits s \<and> within_profile_limit d profile_limits s)"

definition leased_row :: "time \<Rightarrow> string \<Rightarrow> int \<Rightarrow> step \<Rightarrow> step" where
  "leased_row now owner lease_seconds s =
     s\<lparr>step_status := S_LEASED, step_lease_owner := Some owner,
       step_lease_generation := step_lease_generation s + 1,
       step_heartbeat_at := Some now,
       step_lease_expires_at := Some (now + seconds lease_seconds),
       step_attempt_count := step_attempt_count s + 1\<rparr>"

record claim_request =
  cr_owner :: string
  cr_lease_seconds :: int
  cr_capabilities :: "string set"
  cr_queue_classes :: "queue_class set"
  cr_class_limits :: "(queue_class \<rightharpoonup> int) option"
  cr_profile_limits :: "(string \<rightharpoonup> int) option"
  cr_step_types :: "string set option"
  cr_candidate_limit :: int
  cr_settings :: "disk_settings option"

definition claim_step ::
  "free_space_probe \<Rightarrow> uuid set \<Rightarrow> claim_request \<Rightarrow> db \<Rightarrow> lease_token option \<times> db" where
  "claim_step probe locked q d =
     (if cr_queue_classes q = {} \<or> cr_candidate_limit q < 1 then (None, d)
      else if cr_step_types q = Some {} then (None, d)
      else
        let candidates = claim_candidates d locked (cr_capabilities q) (cr_queue_classes q)
                           (cr_step_types q) (nat (cr_candidate_limit q))
        in case find (claimable d (cr_settings q) probe (cr_class_limits q) (cr_profile_limits q))
                  candidates of
             None \<Rightarrow> (None, d)
           | Some s \<Rightarrow>
               let s' = leased_row (db_now d) (cr_owner q) (cr_lease_seconds q) s
               in (Some \<lparr>tok_step = step_record_of s', tok_owner = cr_owner q,
                         tok_generation = step_lease_generation s'\<rparr>,
                   upd_step (step_id s)
                     (leased_row (db_now d) (cr_owner q) (cr_lease_seconds q)) d))"

section \<open>Fenced writes\<close>

text \<open>\<open>UPDATE ... WHERE fence\<close> with the \<open>rowcount != 1\<close> check.\<close>

definition fenced_update :: "string \<Rightarrow> ('r \<Rightarrow> bool) \<Rightarrow> ('r \<Rightarrow> 'r) \<Rightarrow> 'r list \<Rightarrow> error + 'r list" where
  "fenced_update message fence f rows =
     (if length (filter fence rows) \<noteq> 1 then Inl (LeaseLost message)
      else Inr (map (\<lambda>r. if fence r then f r else r) rows))"

definition step_fence :: "lease_token \<Rightarrow> step \<Rightarrow> bool" where
  "step_fence token s =
     (step_id s = sr_id (tok_step token) \<and> step_lease_owner s = Some (tok_owner token) \<and>
      step_lease_generation s = tok_generation token)"

definition start_step :: "db \<Rightarrow> lease_token \<Rightarrow> error + db" where
  "start_step d token =
     bindE (fenced_update (''step lease lost before start: '' @ uuid_str (sr_id (tok_step token)))
        (\<lambda>s. step_fence token s \<and> step_status s = S_LEASED \<and> run_is_running d (step_run_id s))
        (\<lambda>s. s\<lparr>step_status := S_RUNNING\<rparr>) (db_steps d))
     (\<lambda>rows. Inr (d\<lparr>db_steps := rows\<rparr>))"

definition heartbeat_step :: "db \<Rightarrow> lease_token \<Rightarrow> int \<Rightarrow> error + db" where
  "heartbeat_step d token lease_seconds =
     bindE (fenced_update (''step lease lost: '' @ uuid_str (sr_id (tok_step token)))
        (\<lambda>s. step_fence token s \<and> step_status s \<in> {S_LEASED, S_RUNNING} \<and>
             run_not_terminal d (step_run_id s))
        (\<lambda>s. s\<lparr>step_heartbeat_at := Some (db_now d),
               step_lease_expires_at := Some (db_now d + seconds lease_seconds)\<rparr>) (db_steps d))
     (\<lambda>rows. Inr (d\<lparr>db_steps := rows\<rparr>))"

definition complete_step :: "db \<Rightarrow> lease_token \<Rightarrow> json_obj \<Rightarrow> error + db" where
  "complete_step d token result_payload =
     bindE (fenced_update (''step lease lost: '' @ uuid_str (sr_id (tok_step token)))
        (\<lambda>s. step_fence token s \<and> step_status s \<in> {S_LEASED, S_RUNNING} \<and>
             run_not_terminal d (step_run_id s))
        (\<lambda>s. s\<lparr>step_status := S_COMPLETED, step_result := Some result_payload,
               step_lease_owner := None, step_lease_expires_at := None\<rparr>) (db_steps d))
     (\<lambda>rows. Inr (d\<lparr>db_steps := rows\<rparr>))"

definition lease_expired :: "time \<Rightarrow> step \<Rightarrow> bool" where
  "lease_expired now s =
     (step_status s \<in> {S_LEASED, S_RUNNING} \<and>
      (case step_lease_expires_at s of None \<Rightarrow> False | Some t \<Rightarrow> t < now))"

definition find_expired_leases :: "db \<Rightarrow> step_record list" where
  "find_expired_leases d =
     map step_record_of
       (sort_key (\<lambda>s. (the (step_lease_expires_at s), step_id s))
         (filter (lease_expired (db_now d)) (db_steps d)))"

section \<open>Outbox claims\<close>

definition outbox_claimable :: "db \<Rightarrow> string set \<Rightarrow> outbox_item \<Rightarrow> bool" where
  "outbox_claimable d allowed_destinations i =
     (ob_destination i \<in> allowed_destinations \<and>
      (ob_status i = D_PENDING \<or>
       (ob_status i = D_LEASED \<and>
        (case ob_lease_expires_at i of None \<Rightarrow> False | Some t \<Rightarrow> t < db_now d))) \<and>
      ob_available_at i \<le> db_now d)"

definition outbox_order :: "outbox_item \<Rightarrow> time \<times> time" where
  "outbox_order i = (ob_available_at i, ob_created_at i)"

definition outbox_leased :: "time \<Rightarrow> string \<Rightarrow> int \<Rightarrow> outbox_item \<Rightarrow> outbox_item" where
  "outbox_leased now owner lease_seconds i =
     i\<lparr>ob_status := D_LEASED, ob_lease_owner := Some owner,
       ob_lease_generation := ob_lease_generation i + 1,
       ob_lease_expires_at := Some (now + seconds lease_seconds),
       ob_attempt_count := ob_attempt_count i + 1\<rparr>"

definition claim_outbox_item ::
  "uuid set \<Rightarrow> string \<Rightarrow> int \<Rightarrow> string set \<Rightarrow> db \<Rightarrow> outbox_lease_token option \<times> db" where
  "claim_outbox_item locked owner lease_seconds allowed_destinations d =
     (if allowed_destinations = {} then (None, d)
      else
        case filter (\<lambda>i. ob_id i \<notin> locked)
               (sort_key outbox_order (filter (outbox_claimable d allowed_destinations) (db_outbox d))) of
          [] \<Rightarrow> (None, d)
        | i # _ \<Rightarrow>
            let i' = outbox_leased (db_now d) owner lease_seconds i
            in (Some \<lparr>otok_item_id = ob_id i', otok_status = ob_status i', otok_owner = owner,
                      otok_generation = ob_lease_generation i',
                      otok_lease_expires_at = db_now d + seconds lease_seconds\<rparr>,
                upd_outbox (ob_id i) (outbox_leased (db_now d) owner lease_seconds) d))"

definition outbox_fence :: "outbox_lease_token \<Rightarrow> outbox_item \<Rightarrow> bool" where
  "outbox_fence token i =
     (ob_id i = otok_item_id token \<and> ob_lease_owner i = Some (otok_owner token) \<and>
      ob_lease_generation i = otok_generation token \<and> ob_status i = D_LEASED)"

definition outbox_write :: "db \<Rightarrow> outbox_lease_token \<Rightarrow> (outbox_item \<Rightarrow> outbox_item) \<Rightarrow> error + db" where
  "outbox_write d token f =
     bindE (fenced_update (''outbox lease lost: '' @ uuid_str (otok_item_id token))
        (outbox_fence token) f (db_outbox d))
     (\<lambda>rows. Inr (d\<lparr>db_outbox := rows\<rparr>))"

definition complete_outbox_item :: "db \<Rightarrow> outbox_lease_token \<Rightarrow> error + db" where
  "complete_outbox_item d token =
     outbox_write d token (\<lambda>i. i\<lparr>ob_status := D_DELIVERED, ob_delivered_at := Some (db_now d),
       ob_lease_owner := None, ob_lease_expires_at := None\<rparr>)"

definition mark_outbox_ambiguous :: "db \<Rightarrow> outbox_lease_token \<Rightarrow> error + db" where
  "mark_outbox_ambiguous d token =
     outbox_write d token (\<lambda>i. i\<lparr>ob_status := D_AMBIGUOUS,
       ob_last_error_category := Some ''ambiguous_external_outcome'',
       ob_last_error_ambiguous := True, ob_lease_owner := None, ob_lease_expires_at := None\<rparr>)"

definition retry_outbox_item :: "db \<Rightarrow> outbox_lease_token \<Rightarrow> time \<Rightarrow> string \<Rightarrow> error + db" where
  "retry_outbox_item d token delay error_category =
     outbox_write d token (\<lambda>i. i\<lparr>ob_status := D_PENDING, ob_available_at := db_now d + delay,
       ob_last_error_category := Some error_category, ob_last_error_ambiguous := False,
       ob_lease_owner := None, ob_lease_expires_at := None\<rparr>)"

definition defer_outbox_item :: "db \<Rightarrow> outbox_lease_token \<Rightarrow> time \<Rightarrow> string \<Rightarrow> error + db" where
  "defer_outbox_item d token delay reason =
     outbox_write d token (\<lambda>i. i\<lparr>ob_status := D_PENDING,
       ob_attempt_count := max (ob_attempt_count i - 1) 0, ob_available_at := db_now d + delay,
       ob_last_error_category := Some reason, ob_last_error_ambiguous := False,
       ob_lease_owner := None, ob_lease_expires_at := None\<rparr>)"

definition dead_letter_outbox_item :: "db \<Rightarrow> outbox_lease_token \<Rightarrow> string \<Rightarrow> error + db" where
  "dead_letter_outbox_item d token error_category =
     outbox_write d token (\<lambda>i. i\<lparr>ob_status := D_DEAD_LETTER,
       ob_last_error_category := Some error_category, ob_last_error_ambiguous := False,
       ob_lease_owner := None, ob_lease_expires_at := None\<rparr>)"

section \<open>Claims\<close>

lemma claim_step_Some:
  assumes "claim_step probe locked q d = (Some tok, d')"
  obtains s where
    "s \<in> set (claim_candidates d locked (cr_capabilities q) (cr_queue_classes q) (cr_step_types q)
       (nat (cr_candidate_limit q)))"
    "find (claimable d (cr_settings q) probe (cr_class_limits q) (cr_profile_limits q))
       (claim_candidates d locked (cr_capabilities q) (cr_queue_classes q) (cr_step_types q)
         (nat (cr_candidate_limit q))) = Some s"
    "claimable d (cr_settings q) probe (cr_class_limits q) (cr_profile_limits q) s"
    "tok = \<lparr>tok_step = step_record_of (leased_row (db_now d) (cr_owner q) (cr_lease_seconds q) s),
            tok_owner = cr_owner q, tok_generation = step_lease_generation s + 1\<rparr>"
    "d' = upd_step (step_id s) (leased_row (db_now d) (cr_owner q) (cr_lease_seconds q)) d"
proof -
  from assms obtain s where f:
    "find (claimable d (cr_settings q) probe (cr_class_limits q) (cr_profile_limits q))
       (claim_candidates d locked (cr_capabilities q) (cr_queue_classes q) (cr_step_types q)
         (nat (cr_candidate_limit q))) = Some s"
    and rest: "tok = \<lparr>tok_step = step_record_of (leased_row (db_now d) (cr_owner q) (cr_lease_seconds q) s),
            tok_owner = cr_owner q, tok_generation = step_lease_generation s + 1\<rparr>"
    "d' = upd_step (step_id s) (leased_row (db_now d) (cr_owner q) (cr_lease_seconds q)) d"
    by (auto simp: claim_step_def Let_def leased_row_def split: if_splits option.splits)
  from f have "s \<in> set (claim_candidates d locked (cr_capabilities q) (cr_queue_classes q)
      (cr_step_types q) (nat (cr_candidate_limit q)))"
    "claimable d (cr_settings q) probe (cr_class_limits q) (cr_profile_limits q) s"
    by (auto simp: find_Some_iff in_set_conv_nth)
  with f rest show thesis by (intro that)
qed

lemma claim_step_None: "claim_step probe locked q d = (None, d') \<Longrightarrow> d' = d"
  by (auto simp: claim_step_def Let_def split: if_splits option.splits)

lemma claim_candidatesD:
  "s \<in> set (claim_candidates d locked caps qs types n) \<Longrightarrow>
   s \<in> set (db_steps d) \<and> claim_candidate d caps qs types s \<and> step_id s \<notin> locked"
  by (auto simp: claim_candidates_def dest!: in_set_takeD)

lemma leased_row_simps [simp]:
  "step_id (leased_row now o' n s) = step_id s"
  "step_status (leased_row now o' n s) = S_LEASED"
  "step_lease_owner (leased_row now o' n s) = Some o'"
  "step_lease_generation (leased_row now o' n s) = step_lease_generation s + 1"
  "step_attempt_count (leased_row now o' n s) = step_attempt_count s + 1"
  "step_max_attempts (leased_row now o' n s) = step_max_attempts s"
  "step_queue_class (leased_row now o' n s) = step_queue_class s"
  "step_executor_profile_id (leased_row now o' n s) = step_executor_profile_id s"
  "step_run_id (leased_row now o' n s) = step_run_id s"
  "step_lease_expires_at (leased_row now o' n s) = Some (now + seconds n)"
  by (simp_all add: leased_row_def)

text \<open>Among the rows that may be claimed, the first in the queue order is taken.\<close>

lemma find_sorted_least:
  assumes f: "find P (take n xs) = Some x" and sorted: "sorted (map k xs)"
    and y: "y \<in> set xs" "P y"
  shows "k x \<le> k y"
proof -
  from f obtain i where i: "i < length (take n xs)" "x = take n xs ! i"
    and before: "\<forall>j < i. \<not> P (take n xs ! j)" by (auto simp: find_Some_iff)
  from y(1) obtain j where j: "j < length xs" "y = xs ! j" by (auto simp: in_set_conv_nth)
  have "i \<le> j"
  proof (rule ccontr)
    assume "\<not> i \<le> j"
    then have "\<not> P (take n xs ! j)" using before by simp
    then show False using \<open>\<not> i \<le> j\<close> i(1) j y(2) by simp
  qed
  then show ?thesis using sorted i j by (simp add: sorted_iff_nth_mono)
qed

lemma sorted_filter_key: "sorted (map k xs) \<Longrightarrow> sorted (map k (filter P xs))"
  by (induction xs) auto

lemma claim_is_first:
  assumes "find (claimable d settings probe cl pl) (claim_candidates d locked caps qs types n) = Some s"
    and "x \<in> set (db_steps d)" "claim_candidate d caps qs types x" "step_id x \<notin> locked"
    "claimable d settings probe cl pl x"
  shows "claim_order s \<le> claim_order x"
  using assms
  by (intro find_sorted_least [where P = "claimable d settings probe cl pl" and n = n
        and xs = "filter (\<lambda>s. step_id s \<notin> locked)
         (sort_key claim_order (filter (claim_candidate d caps qs types) (db_steps d)))"])
    (auto simp: claim_candidates_def intro!: sorted_filter_key)

text \<open>Counting active leases after one row changed.\<close>

lemma update_row_absent: "k \<notin> key ` set rows \<Longrightarrow> update_row key k f rows = rows"
  by (induction rows) (auto simp: update_row_def)

lemma update_row_Cons:
  "update_row key k f (r # rows) = (if key r = k then f r else r) # update_row key k f rows"
  by (simp add: update_row_def)

lemma count_update_row_le:
  "distinct (map key rows) \<Longrightarrow>
   length (filter Q (update_row key k f rows)) \<le> Suc (length (filter Q rows))"
proof (induction rows)
  case Nil
  then show ?case by (simp add: update_row_def)
next
  case (Cons r rows)
  then show ?case
    by (cases "key r = k") (auto simp: update_row_Cons update_row_absent)
qed

lemma count_update_row_same:
  "distinct (map key rows) \<Longrightarrow> find_row key rows k = Some r \<Longrightarrow> Q (f r) = Q r \<Longrightarrow>
   length (filter Q (update_row key k f rows)) = length (filter Q rows)"
proof (induction rows)
  case Nil
  then show ?case by (simp add: find_row_def)
next
  case (Cons x rows)
  then show ?case
    by (cases "key x = k") (auto simp: update_row_Cons update_row_absent find_row_def)
qed

definition distinct_steps :: "db \<Rightarrow> bool" where
  "distinct_steps d = distinct (map step_id (db_steps d))"

lemma claim_active_count_le:
  assumes "claim_step probe locked q d = (Some tok, d')" and "distinct_steps d"
  shows "active_count d' P \<le> Suc (active_count d P)"
  using assms
  by (elim claim_step_Some)
    (simp add: active_count_def upd_step_def distinct_steps_def count_update_row_le)

section \<open>Fencing\<close>

text \<open>
  The contract of a leased row: generations never decrease, a claim installs a strictly newer one,
  and a write that names an owner and a generation succeeds only while the row carries both.
\<close>

locale fenced_lease =
  fixes inv :: "'db \<Rightarrow> bool"
    and get :: "'db \<Rightarrow> uuid \<Rightarrow> 'r option"
    and generation :: "'r \<Rightarrow> int"
    and holder :: "'r \<Rightarrow> string option"
    and move :: "'db \<Rightarrow> 'db \<Rightarrow> bool"
    and claim :: "'db \<Rightarrow> uuid \<Rightarrow> string \<Rightarrow> int \<Rightarrow> 'db \<Rightarrow> bool"
    and commit :: "'db \<Rightarrow> uuid \<Rightarrow> string \<Rightarrow> int \<Rightarrow> 'db \<Rightarrow> bool"
  assumes inv_move: "inv d \<Longrightarrow> move d d' \<Longrightarrow> inv d'"
    and claim_move: "claim d k w g d' \<Longrightarrow> move d d'"
    and gen_move: "inv d \<Longrightarrow> move d d' \<Longrightarrow> get d k = Some r \<Longrightarrow>
      \<exists>r'. get d' k = Some r' \<and> generation r \<le> generation r'"
    and claim_gen: "inv d \<Longrightarrow> claim d k w g d' \<Longrightarrow>
      \<exists>r r'. get d k = Some r \<and> get d' k = Some r' \<and> generation r < g \<and> generation r' = g"
    and commit_gen: "inv d \<Longrightarrow> commit d k w g d' \<Longrightarrow>
      \<exists>r. get d k = Some r \<and> generation r = g \<and> holder r = Some w"
begin

lemma inv_moves: "move\<^sup>*\<^sup>* d d' \<Longrightarrow> inv d \<Longrightarrow> inv d'"
  by (induction rule: rtranclp_induct) (auto intro: inv_move)

lemma gen_moves:
  "move\<^sup>*\<^sup>* d d' \<Longrightarrow> inv d \<Longrightarrow> get d k = Some r \<Longrightarrow>
   \<exists>r'. get d' k = Some r' \<and> generation r \<le> generation r'"
proof (induction rule: rtranclp_induct)
  case base
  then show ?case by blast
next
  case (step y z)
  then obtain r' where r': "get y k = Some r'" "generation r \<le> generation r'" by blast
  have "inv y" using step inv_moves by blast
  from gen_move [OF this step.hyps(2) r'(1)] r'(2) show ?case by force
qed

lemma claims_increase:
  assumes "inv d" "claim d k w g d1" "move\<^sup>*\<^sup>* d1 d2" "claim d2 k w' g' d3"
  shows "g < g'"
proof -
  obtain r1 where r1: "get d1 k = Some r1" "generation r1 = g"
    using claim_gen [OF assms(1,2)] by blast
  have i1: "inv d1" using assms inv_move claim_move by blast
  obtain r2 where r2: "get d2 k = Some r2" "g \<le> generation r2"
    using gen_moves [OF assms(3) i1 r1(1)] r1(2) by auto
  have "inv d2" using inv_moves [OF assms(3) i1] .
  then show ?thesis using claim_gen [OF _ assms(4)] r2 by auto
qed

lemma stale_token_rejected:
  assumes "inv d" "claim d k w g d1" "move\<^sup>*\<^sup>* d1 d2" "claim d2 k w' g' d3" "move\<^sup>*\<^sup>* d3 d4"
  shows "\<not> commit d4 k w g d5"
proof
  assume c: "commit d4 k w g d5"
  have less: "g < g'" by (rule claims_increase [OF assms(1-4)])
  have i2: "inv d2" using assms inv_moves inv_move claim_move by blast
  obtain r3 where r3: "get d3 k = Some r3" "generation r3 = g'"
    using claim_gen [OF i2 assms(4)] by blast
  have i3: "inv d3" using i2 assms(4) inv_move claim_move by blast
  obtain r4 where r4: "get d4 k = Some r4" "g' \<le> generation r4"
    using gen_moves [OF assms(5) i3 r3(1)] r3(2) by auto
  have "inv d4" using inv_moves [OF assms(5) i3] .
  from commit_gen [OF this c] r4 less show False by auto
qed

lemma one_committer:
  assumes "inv d" "commit d k w g d1" "commit d k w' g' d2"
  shows "w = w' \<and> g = g'"
  using commit_gen [OF assms(1,2)] commit_gen [OF assms(1,3)] by auto

end

subsection \<open>Fenced updates of a table\<close>

lemma fenced_update_Inr [res_simps]:
  "fenced_update m P f rows = Inr rows' \<longleftrightarrow>
   length (filter P rows) = 1 \<and> rows' = map (\<lambda>r. if P r then f r else r) rows"
  by (auto simp: fenced_update_def)

lemma filter_one_mem: "length (filter P rows) = 1 \<Longrightarrow> \<exists>r \<in> set rows. P r"
  by (metis One_nat_def filter_empty_conv length_0_conv nat.simps(3))

lemma find_row_map:
  "(\<And>r. key (g r) = key r) \<Longrightarrow> find_row key (map g rows) k = map_option g (find_row key rows k)"
  by (induction rows) (auto simp: find_row_def)

lemma fenced_update_find:
  assumes "fenced_update m P f rows = Inr rows'" and "\<And>r. key (f r) = key r"
  shows "find_row key rows' k = map_option (\<lambda>r. if P r then f r else r) (find_row key rows k)"
  using assms by (auto simp: res_simps intro!: find_row_map)

lemma fenced_update_keys:
  assumes "fenced_update m P f rows = Inr rows'" and "\<And>r. key (f r) = key r"
  shows "map key rows' = map key rows"
  using assms by (auto simp: res_simps)

subsection \<open>Steps\<close>

lemma start_stepE:
  assumes "start_step d token = Inr d'"
  obtains rows s where
    "fenced_update (''step lease lost before start: '' @ uuid_str (sr_id (tok_step token)))
       (\<lambda>s. step_fence token s \<and> step_status s = S_LEASED \<and> run_is_running d (step_run_id s))
       (\<lambda>s. s\<lparr>step_status := S_RUNNING\<rparr>) (db_steps d) = Inr rows"
    "d' = d\<lparr>db_steps := rows\<rparr>" "s \<in> set (db_steps d)" "step_fence token s"
    "step_status s = S_LEASED" "run_is_running d (step_run_id s)"
  using assms filter_one_mem by (fastforce simp: start_step_def res_simps)

lemma heartbeat_stepE:
  assumes "heartbeat_step d token n = Inr d'"
  obtains rows s where
    "fenced_update (''step lease lost: '' @ uuid_str (sr_id (tok_step token)))
       (\<lambda>s. step_fence token s \<and> step_status s \<in> {S_LEASED, S_RUNNING} \<and>
            run_not_terminal d (step_run_id s))
       (\<lambda>s. s\<lparr>step_heartbeat_at := Some (db_now d),
              step_lease_expires_at := Some (db_now d + seconds n)\<rparr>) (db_steps d) = Inr rows"
    "d' = d\<lparr>db_steps := rows\<rparr>" "s \<in> set (db_steps d)" "step_fence token s"
    "step_status s \<in> {S_LEASED, S_RUNNING}" "run_not_terminal d (step_run_id s)"
  using assms filter_one_mem by (fastforce simp: heartbeat_step_def res_simps)

lemma complete_stepE:
  assumes "complete_step d token p = Inr d'"
  obtains rows s where
    "fenced_update (''step lease lost: '' @ uuid_str (sr_id (tok_step token)))
       (\<lambda>s. step_fence token s \<and> step_status s \<in> {S_LEASED, S_RUNNING} \<and>
            run_not_terminal d (step_run_id s))
       (\<lambda>s. s\<lparr>step_status := S_COMPLETED, step_result := Some p,
              step_lease_owner := None, step_lease_expires_at := None\<rparr>) (db_steps d) = Inr rows"
    "d' = d\<lparr>db_steps := rows\<rparr>" "s \<in> set (db_steps d)" "step_fence token s"
    "step_status s \<in> {S_LEASED, S_RUNNING}" "run_not_terminal d (step_run_id s)"
  using assms filter_one_mem by (fastforce simp: complete_step_def res_simps)

text \<open>The lease operations as steps of one machine; time only advances.\<close>

inductive lease_op :: "db \<Rightarrow> db \<Rightarrow> bool" where
  claim: "claim_step probe locked q d = (r, d') \<Longrightarrow> lease_op d d'"
| start: "start_step d token = Inr d' \<Longrightarrow> lease_op d d'"
| heartbeat: "heartbeat_step d token n = Inr d' \<Longrightarrow> lease_op d d'"
| complete: "complete_step d token p = Inr d' \<Longrightarrow> lease_op d d'"
| tick: "db_now d \<le> now \<Longrightarrow> lease_op d (d\<lparr>db_now := now\<rparr>)"

definition step_claim :: "db \<Rightarrow> uuid \<Rightarrow> string \<Rightarrow> int \<Rightarrow> db \<Rightarrow> bool" where
  "step_claim d k w g d' =
     (\<exists>probe locked q tok. claim_step probe locked q d = (Some tok, d') \<and>
        sr_id (tok_step tok) = k \<and> tok_owner tok = w \<and> tok_generation tok = g)"

definition step_commit :: "db \<Rightarrow> uuid \<Rightarrow> string \<Rightarrow> int \<Rightarrow> db \<Rightarrow> bool" where
  "step_commit d k w g d' =
     (\<exists>tok. sr_id (tok_step tok) = k \<and> tok_owner tok = w \<and> tok_generation tok = g \<and>
        (start_step d tok = Inr d' \<or> (\<exists>n. heartbeat_step d tok n = Inr d') \<or>
         (\<exists>p. complete_step d tok p = Inr d')))"

lemma claim_step_cases:
  assumes "claim_step probe locked q d = (r, d')"
  obtains "d' = d"
  | s where "s \<in> set (db_steps d)" "step_status s = S_QUEUED"
      "step_attempt_count s < step_max_attempts s"
      "d' = upd_step (step_id s) (leased_row (db_now d) (cr_owner q) (cr_lease_seconds q)) d"
proof (cases r)
  case None
  then show thesis using assms that(1) claim_step_None by blast
next
  case (Some tok)
  with assms obtain s where s: "s \<in> set (claim_candidates d locked (cr_capabilities q)
      (cr_queue_classes q) (cr_step_types q) (nat (cr_candidate_limit q)))"
    "d' = upd_step (step_id s) (leased_row (db_now d) (cr_owner q) (cr_lease_seconds q)) d"
    by (auto elim: claim_step_Some)
  from claim_candidatesD [OF s(1)] s(2) show thesis
    by (intro that(2)) (auto simp: claim_candidate_def)
qed

text \<open>How one lease operation changes the row with a given key.\<close>

lemma lease_op_row:
  assumes "lease_op d d'"
  shows "\<exists>f. (\<forall>k. get_step d' k = map_option f (get_step d k)) \<and>
     (\<forall>s. step_id (f s) = step_id s \<and> step_lease_generation s \<le> step_lease_generation (f s))"
  using assms
proof cases
  case (claim probe locked q r)
  from claim show ?thesis
  proof (elim claim_step_cases)
    assume "d' = d"
    then show ?thesis by (intro exI [of _ id]) (simp add: option.map_id)
  next
    fix s
    assume d': "d' = upd_step (step_id s) (leased_row (db_now d) (cr_owner q) (cr_lease_seconds q)) d"
    let ?f = "\<lambda>x. if step_id x = step_id s
        then leased_row (db_now d) (cr_owner q) (cr_lease_seconds q) x else x"
    have "get_step d' k = map_option ?f (get_step d k)" for k
      unfolding d' using step_store.get_key [of d k]
      by (cases "get_step d k") (auto simp: step_store.get_upd)
    then show ?thesis by (intro exI [of _ ?f]) simp
  qed
next
  case (start token)
  then show ?thesis
  proof (elim start_stepE)
    fix rows
    assume u: "fenced_update (''step lease lost before start: '' @ uuid_str (sr_id (tok_step token)))
       (\<lambda>s. step_fence token s \<and> step_status s = S_LEASED \<and> run_is_running d (step_run_id s))
       (\<lambda>s. s\<lparr>step_status := S_RUNNING\<rparr>) (db_steps d) = Inr rows" and d': "d' = d\<lparr>db_steps := rows\<rparr>"
    show ?thesis unfolding d' get_step_def
      by (simp, subst fenced_update_find [OF u]) (auto intro!: exI)
  qed
next
  case (heartbeat token n)
  then show ?thesis
  proof (elim heartbeat_stepE)
    fix rows
    assume u: "fenced_update (''step lease lost: '' @ uuid_str (sr_id (tok_step token)))
       (\<lambda>s. step_fence token s \<and> step_status s \<in> {S_LEASED, S_RUNNING} \<and>
            run_not_terminal d (step_run_id s))
       (\<lambda>s. s\<lparr>step_heartbeat_at := Some (db_now d),
              step_lease_expires_at := Some (db_now d + seconds n)\<rparr>) (db_steps d) = Inr rows"
      and d': "d' = d\<lparr>db_steps := rows\<rparr>"
    show ?thesis unfolding d' get_step_def
      by (simp, subst fenced_update_find [OF u]) (auto intro!: exI)
  qed
next
  case (complete token p)
  then show ?thesis
  proof (elim complete_stepE)
    fix rows
    assume u: "fenced_update (''step lease lost: '' @ uuid_str (sr_id (tok_step token)))
       (\<lambda>s. step_fence token s \<and> step_status s \<in> {S_LEASED, S_RUNNING} \<and>
            run_not_terminal d (step_run_id s))
       (\<lambda>s. s\<lparr>step_status := S_COMPLETED, step_result := Some p,
              step_lease_owner := None, step_lease_expires_at := None\<rparr>) (db_steps d) = Inr rows"
      and d': "d' = d\<lparr>db_steps := rows\<rparr>"
    show ?thesis unfolding d' get_step_def
      by (simp, subst fenced_update_find [OF u]) (auto intro!: exI)
  qed
next
  case (tick now)
  then show ?thesis by (intro exI [of _ id]) (simp add: get_step_def option.map_id)
qed

lemma lease_op_rowE:
  assumes "lease_op d d'"
  obtains f where "\<And>k. get_step d' k = map_option f (get_step d k)"
    "\<And>s. step_id (f s) = step_id s" "\<And>s. step_lease_generation s \<le> step_lease_generation (f s)"
  using lease_op_row [OF assms] by blast

lemma lease_op_keys: "lease_op d d' \<Longrightarrow> map step_id (db_steps d') = map step_id (db_steps d)"
proof (induction rule: lease_op.induct)
  case (claim probe locked q d r d')
  then show ?case by (elim claim_step_cases) (simp_all add: step_store.keys_upd)
next
  case (start d token d')
  then show ?case by (elim start_stepE) (simp, erule fenced_update_keys, simp)
next
  case (heartbeat d token n d')
  then show ?case by (elim heartbeat_stepE) (simp, erule fenced_update_keys, simp)
next
  case (complete d token p d')
  then show ?case by (elim complete_stepE) (simp, erule fenced_update_keys, simp)
qed simp

lemma step_commit_row:
  assumes "distinct_steps d" "step_commit d k w g d'"
  shows "\<exists>s. get_step d k = Some s \<and> step_lease_generation s = g \<and> step_lease_owner s = Some w \<and>
     step_status s \<in> {S_LEASED, S_RUNNING}"
proof -
  from assms(2) obtain tok s where tok: "sr_id (tok_step tok) = k" "tok_owner tok = w"
      "tok_generation tok = g"
    and s: "s \<in> set (db_steps d)" "step_fence tok s" "step_status s \<in> {S_LEASED, S_RUNNING}"
    unfolding step_commit_def
    by (auto elim!: start_stepE heartbeat_stepE complete_stepE)
  have "get_step d (step_id s) = Some s"
    using step_store.mem_get assms(1) s(1) by (simp add: distinct_steps_def)
  with tok s show ?thesis by (auto simp: step_fence_def)
qed

lemma step_claim_row:
  assumes "distinct_steps d" "step_claim d k w g d'"
  shows "\<exists>s s'. get_step d k = Some s \<and> get_step d' k = Some s' \<and> step_lease_generation s < g \<and>
     step_lease_generation s' = g"
proof -
  from assms(2) obtain probe locked q tok where c: "claim_step probe locked q d = (Some tok, d')"
    and tok: "sr_id (tok_step tok) = k" "tok_generation tok = g"
    by (auto simp: step_claim_def)
  from c obtain s where s: "s \<in> set (claim_candidates d locked (cr_capabilities q)
      (cr_queue_classes q) (cr_step_types q) (nat (cr_candidate_limit q)))"
    "tok = \<lparr>tok_step = step_record_of (leased_row (db_now d) (cr_owner q) (cr_lease_seconds q) s),
            tok_owner = cr_owner q, tok_generation = step_lease_generation s + 1\<rparr>"
    "d' = upd_step (step_id s) (leased_row (db_now d) (cr_owner q) (cr_lease_seconds q)) d"
    by (rule claim_step_Some)
  have "get_step d (step_id s) = Some s"
    using step_store.mem_get assms(1) claim_candidatesD [OF s(1)] by (simp add: distinct_steps_def)
  then show ?thesis using s tok by (auto simp: step_record_of_def step_store.get_upd)
qed

interpretation step_lease:
  fenced_lease distinct_steps get_step step_lease_generation step_lease_owner
    lease_op step_claim step_commit
proof unfold_locales
  fix d d' k w g r
  show "distinct_steps d \<Longrightarrow> lease_op d d' \<Longrightarrow> distinct_steps d'"
    by (simp add: distinct_steps_def lease_op_keys)
  show "step_claim d k w g d' \<Longrightarrow> lease_op d d'"
    by (auto simp: step_claim_def intro: lease_op.claim)
  show "distinct_steps d \<Longrightarrow> lease_op d d' \<Longrightarrow> get_step d k = Some r \<Longrightarrow>
      \<exists>r'. get_step d' k = Some r' \<and> step_lease_generation r \<le> step_lease_generation r'"
    by (auto elim!: lease_op_rowE)
  show "distinct_steps d \<Longrightarrow> step_claim d k w g d' \<Longrightarrow>
      \<exists>r r'. get_step d k = Some r \<and> get_step d' k = Some r' \<and> step_lease_generation r < g \<and>
        step_lease_generation r' = g"
    by (rule step_claim_row)
  show "distinct_steps d \<Longrightarrow> step_commit d k w g d' \<Longrightarrow>
      \<exists>r. get_step d k = Some r \<and> step_lease_generation r = g \<and> step_lease_owner r = Some w"
    using step_commit_row by blast
qed

text \<open>The attempt budget of every step, kept by the lease operations.\<close>

definition attempts_bounded :: "db \<Rightarrow> bool" where
  "attempts_bounded d = (\<forall>s \<in> set (db_steps d). step_attempt_count s \<le> step_max_attempts s)"

lemma fenced_update_mem:
  "fenced_update m P f rows = Inr rows' \<Longrightarrow> r' \<in> set rows' \<Longrightarrow>
   \<exists>r \<in> set rows. r' = (if P r then f r else r)"
  by (auto simp: res_simps)

lemma attempts_bounded_lease_op:
  assumes "lease_op d d'" "distinct_steps d" "attempts_bounded d"
  shows "attempts_bounded d'"
  using assms
proof (induction rule: lease_op.induct)
  case (claim probe locked q d r d')
  from claim.hyps show ?case
  proof (elim claim_step_cases)
    assume "d' = d"
    then show ?thesis using claim.prems by simp
  next
    fix s
    assume s: "s \<in> set (db_steps d)" "step_attempt_count s < step_max_attempts s"
      and d': "d' = upd_step (step_id s) (leased_row (db_now d) (cr_owner q) (cr_lease_seconds q)) d"
    have "x = s" if "x \<in> set (db_steps d)" "step_id x = step_id s" for x
      using that s(1) claim.prems(1) step_store.mem_get [of d]
      by (metis distinct_steps_def option.inject)
    then show ?thesis using s(2) claim.prems(2)
      by (fastforce simp: attempts_bounded_def d' step_store.mem_upd)
  qed
next
  case (start d token d')
  then show ?case
    by (elim start_stepE) (auto simp: attempts_bounded_def dest!: fenced_update_mem)
next
  case (heartbeat d token n d')
  then show ?case
    by (elim heartbeat_stepE) (auto simp: attempts_bounded_def dest!: fenced_update_mem)
next
  case (complete d token p d')
  then show ?case
    by (elim complete_stepE) (auto simp: attempts_bounded_def dest!: fenced_update_mem)
next
  case (tick d now)
  then show ?case by (simp add: attempts_bounded_def)
qed

subsection \<open>Outbox items\<close>

definition distinct_outbox :: "db \<Rightarrow> bool" where
  "distinct_outbox d = distinct (map ob_id (db_outbox d))"

text \<open>The delivery workers' operations on the outbox.\<close>

inductive outbox_op :: "db \<Rightarrow> db \<Rightarrow> bool" where
  claim: "claim_outbox_item locked w n dests d = (r, d') \<Longrightarrow> outbox_op d d'"
| complete: "complete_outbox_item d token = Inr d' \<Longrightarrow> outbox_op d d'"
| ambiguous: "mark_outbox_ambiguous d token = Inr d' \<Longrightarrow> outbox_op d d'"
| retrial: "retry_outbox_item d token delay category = Inr d' \<Longrightarrow> outbox_op d d'"
| deferral: "defer_outbox_item d token delay reason = Inr d' \<Longrightarrow> outbox_op d d'"
| dead_letter: "dead_letter_outbox_item d token category = Inr d' \<Longrightarrow> outbox_op d d'"
| tick: "db_now d \<le> now \<Longrightarrow> outbox_op d (d\<lparr>db_now := now\<rparr>)"

definition outbox_claim :: "db \<Rightarrow> uuid \<Rightarrow> string \<Rightarrow> int \<Rightarrow> db \<Rightarrow> bool" where
  "outbox_claim d k w g d' =
     (\<exists>locked n dests tok. claim_outbox_item locked w n dests d = (Some tok, d') \<and>
        otok_item_id tok = k \<and> otok_generation tok = g)"

definition outbox_commit :: "db \<Rightarrow> uuid \<Rightarrow> string \<Rightarrow> int \<Rightarrow> db \<Rightarrow> bool" where
  "outbox_commit d k w g d' =
     (\<exists>tok. otok_item_id tok = k \<and> otok_owner tok = w \<and> otok_generation tok = g \<and>
        (complete_outbox_item d tok = Inr d' \<or> mark_outbox_ambiguous d tok = Inr d' \<or>
         (\<exists>delay c. retry_outbox_item d tok delay c = Inr d') \<or>
         (\<exists>delay c. defer_outbox_item d tok delay c = Inr d') \<or>
         (\<exists>c. dead_letter_outbox_item d tok c = Inr d')))"

lemma outbox_leased_simps [simp]:
  "ob_id (outbox_leased now w n i) = ob_id i" "ob_status (outbox_leased now w n i) = D_LEASED"
  "ob_lease_generation (outbox_leased now w n i) = ob_lease_generation i + 1"
  "ob_lease_owner (outbox_leased now w n i) = Some w"
  "outbox_key (outbox_leased now w n i) = outbox_key i"
  by (simp_all add: outbox_leased_def outbox_key_def)

lemma filter_Cons_mem: "filter P xs = x # ys \<Longrightarrow> x \<in> set xs \<and> P x"
  by (metis Cons_eq_filterD in_set_conv_decomp)

lemma claim_outbox_cases:
  assumes "claim_outbox_item locked w n dests d = (r, d')"
  obtains "r = None" "d' = d"
  | i where "i \<in> set (db_outbox d)" "outbox_claimable d dests i" "ob_id i \<notin> locked"
      "d' = upd_outbox (ob_id i) (outbox_leased (db_now d) w n) d"
      "r = Some \<lparr>otok_item_id = ob_id i, otok_status = D_LEASED, otok_owner = w,
                 otok_generation = ob_lease_generation i + 1,
                 otok_lease_expires_at = db_now d + seconds n\<rparr>"
proof (cases "filter (\<lambda>i. ob_id i \<notin> locked)
    (sort_key outbox_order (filter (outbox_claimable d dests) (db_outbox d)))")
  case Nil
  then show thesis using assms that(1) by (auto simp: claim_outbox_item_def split: if_splits)
next
  case (Cons i rest)
  note i = filter_Cons_mem [OF Cons]
  show thesis
  proof (cases "dests = {}")
    case True
    then show thesis using assms that(1) by (simp add: claim_outbox_item_def)
  next
    case False
    then show thesis using assms i Cons
      by (intro that(2) [of i]) (auto simp: claim_outbox_item_def Let_def)
  qed
qed

lemma outbox_writeE:
  assumes "outbox_write d tok f = Inr d'"
  obtains rows i where
    "fenced_update (''outbox lease lost: '' @ uuid_str (otok_item_id tok)) (outbox_fence tok) f
       (db_outbox d) = Inr rows"
    "d' = d\<lparr>db_outbox := rows\<rparr>" "i \<in> set (db_outbox d)" "outbox_fence tok i"
  using assms filter_one_mem by (fastforce simp: outbox_write_def res_simps)

text \<open>Every settling operation is a fenced write that keeps the key and the generation.\<close>

definition outbox_settler :: "(outbox_item \<Rightarrow> outbox_item) \<Rightarrow> bool" where
  "outbox_settler f = (\<forall>i. ob_id (f i) = ob_id i \<and> outbox_key (f i) = outbox_key i \<and>
     ob_lease_generation (f i) = ob_lease_generation i \<and> ob_lease_owner (f i) = None)"

lemma outbox_settles:
  "complete_outbox_item d tok = Inr d' \<Longrightarrow> \<exists>f. outbox_settler f \<and> outbox_write d tok f = Inr d'"
  "mark_outbox_ambiguous d tok = Inr d' \<Longrightarrow> \<exists>f. outbox_settler f \<and> outbox_write d tok f = Inr d'"
  "retry_outbox_item d tok delay c = Inr d' \<Longrightarrow>
     \<exists>f. outbox_settler f \<and> outbox_write d tok f = Inr d'"
  "defer_outbox_item d tok delay c = Inr d' \<Longrightarrow>
     \<exists>f. outbox_settler f \<and> outbox_write d tok f = Inr d'"
  "dead_letter_outbox_item d tok c = Inr d' \<Longrightarrow>
     \<exists>f. outbox_settler f \<and> outbox_write d tok f = Inr d'"
  unfolding complete_outbox_item_def mark_outbox_ambiguous_def retry_outbox_item_def
    defer_outbox_item_def dead_letter_outbox_item_def
  by (rule exI, erule conjI [rotated], simp add: outbox_settler_def outbox_key_def)+

lemma outbox_op_cases:
  assumes "outbox_op d d'"
  obtains "db_outbox d' = db_outbox d"
  | i w n where "i \<in> set (db_outbox d)" "outbox_claimable d {ob_destination i} i"
      "d' = upd_outbox (ob_id i) (outbox_leased (db_now d) w n) d"
  | tok f where "outbox_settler f" "outbox_write d tok f = Inr d'"
  using assms
proof cases
  case (claim locked w n dests r)
  then show thesis
    by (elim claim_outbox_cases) (auto intro: that(1,2) simp: outbox_claimable_def)
next
  case (tick now)
  then show thesis using that(1) by simp
qed (blast dest: outbox_settles intro: that(3))+

text \<open>How one delivery operation changes the row with a given identifier.\<close>

lemma outbox_op_row:
  assumes "outbox_op d d'" "distinct_outbox d" "get_outbox d k = Some i"
  shows "\<exists>i'. get_outbox d' k = Some i' \<and> ob_lease_generation i \<le> ob_lease_generation i' \<and>
     outbox_key i' = outbox_key i \<and>
     (i' \<noteq> i \<longrightarrow> ob_status i \<in> {D_PENDING, D_LEASED})"
  using assms(1)
proof (cases rule: outbox_op_cases)
  case 1
  then show ?thesis using assms(3) by (simp add: get_outbox_def)
next
  case (2 j w n)
  have j: "get_outbox d (ob_id j) = Some j"
    using outbox_store.mem_get "2"(1) assms(2) by (simp add: distinct_outbox_def)
  show ?thesis
  proof (cases "k = ob_id j")
    case True
    then have "i = j" using j assms(3) by simp
    then show ?thesis using "2" True j by (auto simp: outbox_store.get_upd outbox_claimable_def)
  next
    case False
    then show ?thesis using "2" assms(3) by (simp add: outbox_store.get_upd)
  qed
next
  case (3 tok f)
  then obtain rows where u: "fenced_update (''outbox lease lost: '' @ uuid_str (otok_item_id tok))
      (outbox_fence tok) f (db_outbox d) = Inr rows" "d' = d\<lparr>db_outbox := rows\<rparr>"
    by (auto elim: outbox_writeE)
  have "get_outbox d' k = Some (if outbox_fence tok i then f i else i)"
    using fenced_update_find [OF u(1), of ob_id k] "3"(1) assms(3) u(2)
    by (simp add: outbox_settler_def get_outbox_def)
  then show ?thesis using "3"(1) by (auto simp: outbox_settler_def outbox_fence_def)
qed

lemma outbox_op_keys: "outbox_op d d' \<Longrightarrow> map ob_id (db_outbox d') = map ob_id (db_outbox d)"
  by (erule outbox_op_cases)
    (auto simp: outbox_store.keys_upd outbox_settler_def elim!: outbox_writeE
      intro: fenced_update_keys)

lemma outbox_commit_row:
  assumes "distinct_outbox d" "outbox_commit d k w g d'"
  shows "\<exists>i. get_outbox d k = Some i \<and> ob_lease_generation i = g \<and> ob_lease_owner i = Some w"
proof -
  from assms(2) obtain tok f where tok: "otok_item_id tok = k" "otok_owner tok = w"
      "otok_generation tok = g" and "outbox_write d tok f = Inr d'"
    unfolding outbox_commit_def by (blast dest: outbox_settles)
  then obtain i where "i \<in> set (db_outbox d)" "outbox_fence tok i" by (auto elim: outbox_writeE)
  then show ?thesis using tok outbox_store.mem_get [of d i] assms(1)
    by (auto simp: outbox_fence_def distinct_outbox_def)
qed

interpretation outbox_lease:
  fenced_lease distinct_outbox get_outbox ob_lease_generation ob_lease_owner
    outbox_op outbox_claim outbox_commit
proof unfold_locales
  fix d d' k w g r
  show "distinct_outbox d \<Longrightarrow> outbox_op d d' \<Longrightarrow> distinct_outbox d'"
    by (simp add: distinct_outbox_def outbox_op_keys)
  show "outbox_claim d k w g d' \<Longrightarrow> outbox_op d d'"
    by (auto simp: outbox_claim_def intro: outbox_op.claim)
  show "distinct_outbox d \<Longrightarrow> outbox_op d d' \<Longrightarrow> get_outbox d k = Some r \<Longrightarrow>
      \<exists>r'. get_outbox d' k = Some r' \<and> ob_lease_generation r \<le> ob_lease_generation r'"
    using outbox_op_row by blast
  show "distinct_outbox d \<Longrightarrow> outbox_claim d k w g d' \<Longrightarrow>
      \<exists>r r'. get_outbox d k = Some r \<and> get_outbox d' k = Some r' \<and> ob_lease_generation r < g \<and>
        ob_lease_generation r' = g"
    using outbox_store.mem_get [of d]
    by (auto simp: outbox_claim_def outbox_store.get_upd distinct_outbox_def
        elim!: claim_outbox_cases)
  show "distinct_outbox d \<Longrightarrow> outbox_commit d k w g d' \<Longrightarrow>
      \<exists>r. get_outbox d k = Some r \<and> ob_lease_generation r = g \<and> ob_lease_owner r = Some w"
    by (rule outbox_commit_row)
qed

text \<open>A row outside \<open>PENDING\<close> and \<open>LEASED\<close> is final.\<close>

lemma outbox_final:
  "outbox_op\<^sup>*\<^sup>* d d' \<Longrightarrow> distinct_outbox d \<Longrightarrow> get_outbox d k = Some i \<Longrightarrow>
   ob_status i \<notin> {D_PENDING, D_LEASED} \<Longrightarrow> get_outbox d' k = Some i"
proof (induction rule: rtranclp_induct)
  case base
  then show ?case by simp
next
  case (step y z)
  have "distinct_outbox y" using outbox_lease.inv_moves step by blast
  with step outbox_op_row [of y z k i] show ?case by auto
qed

section \<open>Properties\<close>

lemma outbox_write_Inl:
  "outbox_write d tok f = Inl e \<Longrightarrow>
   e = LeaseLost (''outbox lease lost: '' @ uuid_str (otok_item_id tok))"
  by (auto simp: outbox_write_def res_simps fenced_update_def split: if_splits)

lemma outbox_write_lost:
  "(\<And>d'. outbox_write d tok f \<noteq> Inr d') \<Longrightarrow>
   outbox_write d tok f = Inl (LeaseLost (''outbox lease lost: '' @ uuid_str (otok_item_id tok)))"
  using outbox_write_Inl by (cases "outbox_write d tok f") auto

text \<open>C22. A delivery worker whose outbox lease was taken over by a later claim cannot settle the
  item any more: whatever the workers did in between, completing, marking ambiguous, retrying,
  deferring and dead-lettering with the old token all report a lost lease.\<close>

theorem outbox_stale_token_rejected:
  assumes "distinct_outbox d"
    and "claim_outbox_item locked w n dests d = (Some tok, d1)" and "outbox_op\<^sup>*\<^sup>* d1 d2"
    and "claim_outbox_item locked' w' n' dests' d2 = (Some tok', d3)"
    and "otok_item_id tok' = otok_item_id tok" and "outbox_op\<^sup>*\<^sup>* d3 d4"
  shows "complete_outbox_item d4 tok =
           Inl (LeaseLost (''outbox lease lost: '' @ uuid_str (otok_item_id tok))) \<and>
         mark_outbox_ambiguous d4 tok =
           Inl (LeaseLost (''outbox lease lost: '' @ uuid_str (otok_item_id tok))) \<and>
         retry_outbox_item d4 tok delay category =
           Inl (LeaseLost (''outbox lease lost: '' @ uuid_str (otok_item_id tok))) \<and>
         defer_outbox_item d4 tok delay category =
           Inl (LeaseLost (''outbox lease lost: '' @ uuid_str (otok_item_id tok))) \<and>
         dead_letter_outbox_item d4 tok category =
           Inl (LeaseLost (''outbox lease lost: '' @ uuid_str (otok_item_id tok)))"
proof -
  let ?k = "otok_item_id tok" and ?g = "otok_generation tok"
  have w: "otok_owner tok = w" using assms(2) by (auto elim: claim_outbox_cases)
  have "outbox_claim d ?k w ?g d1" using assms(2) by (auto simp: outbox_claim_def)
  moreover have "outbox_claim d2 ?k w' (otok_generation tok') d3"
    unfolding outbox_claim_def using assms(4,5) by blast
  ultimately have "\<not> outbox_commit d4 ?k w ?g d5" for d5
    using outbox_lease.stale_token_rejected assms(1,3,6) by blast
  then have no: "complete_outbox_item d4 tok \<noteq> Inr d5" "mark_outbox_ambiguous d4 tok \<noteq> Inr d5"
    "retry_outbox_item d4 tok delay category \<noteq> Inr d5"
    "defer_outbox_item d4 tok delay category \<noteq> Inr d5"
    "dead_letter_outbox_item d4 tok category \<noteq> Inr d5" for d5
    using w by (auto simp: outbox_commit_def)
  show ?thesis
    using no unfolding complete_outbox_item_def mark_outbox_ambiguous_def retry_outbox_item_def
      defer_outbox_item_def dead_letter_outbox_item_def
    by (intro conjI outbox_write_lost) simp_all
qed

definition sample_outbox_lease :: outbox_lease_token where
  "sample_outbox_lease = \<lparr>otok_item_id = 4, otok_status = D_LEASED, otok_owner = ''a'',
     otok_generation = 1, otok_lease_expires_at = 10 + seconds 5\<rparr>"

theorem outbox_stale_token_rejected_witness:
  "\<exists>d1 tok' d3. claim_outbox_item {} ''a'' 5 {''telegram''} sample_db = (Some sample_outbox_lease, d1) \<and>
     claim_outbox_item {} ''b'' 5 {''telegram''} (d1\<lparr>db_now := seconds 100\<rparr>) = (Some tok', d3) \<and>
     complete_outbox_item d3 sample_outbox_lease =
       Inl (LeaseLost (''outbox lease lost: '' @ uuid_str 4))"
proof -
  obtain d1 where c1: "claim_outbox_item {} ''a'' 5 {''telegram''} sample_db = (Some sample_outbox_lease, d1)"
    and d1: "d1 = upd_outbox 4 (outbox_leased 10 ''a'' 5) sample_db"
    by (simp add: claim_outbox_item_def outbox_claimable_def sample_defs sample_outbox_lease_def Let_def
        outbox_leased_def)
  obtain tok' d3 where c2: "claim_outbox_item {} ''b'' 5 {''telegram''} (d1\<lparr>db_now := seconds 100\<rparr>) = (Some tok', d3)"
    and tok': "otok_item_id tok' = 4"
    by (simp add: d1 claim_outbox_item_def outbox_claimable_def sample_defs Let_def outbox_leased_def
        upd_outbox_def update_row_def seconds_def)
  have "outbox_op d1 (d1\<lparr>db_now := seconds 100\<rparr>)"
    by (rule outbox_op.tick) (simp add: d1 sample_defs upd_outbox_def seconds_def)
  then have "outbox_op\<^sup>*\<^sup>* d1 (d1\<lparr>db_now := seconds 100\<rparr>)" by (rule r_into_rtranclp)
  moreover have "distinct_outbox sample_db" by (simp add: distinct_outbox_def sample_defs)
  ultimately have "complete_outbox_item d3 sample_outbox_lease =
      Inl (LeaseLost (''outbox lease lost: '' @ uuid_str (otok_item_id sample_outbox_lease)))"
    using outbox_stale_token_rejected [OF _ c1 _ c2 _ rtranclp.rtrancl_refl] tok'
    by (simp add: sample_outbox_lease_def)
  then show ?thesis using c1 c2 by (simp add: sample_outbox_lease_def)
qed

text \<open>A delivered, ambiguous or dead-lettered outbox item is final: no sequence of worker
  operations claims, re-sends or changes it again.\<close>

theorem outbox_settled_is_final:
  assumes "outbox_op\<^sup>*\<^sup>* d d'" "distinct_outbox d" "get_outbox d k = Some i"
    and "ob_status i \<in> {D_DELIVERED, D_AMBIGUOUS, D_DEAD_LETTER}"
  shows "get_outbox d' k = Some i"
  using assms outbox_final [of d d' k i] by auto

text \<open>A claim takes the first row of the queue: the claimed step may be claimed by this
  worker, and no other unlocked step that may be claimed comes before it in the order of priority,
  availability and age.\<close>

theorem claim_takes_first_claimable:
  assumes "claim_step probe locked q d = (Some tok, d')"
  shows "\<exists>s \<in> set (db_steps d). step_id s = sr_id (tok_step tok) \<and>
     claim_candidate d (cr_capabilities q) (cr_queue_classes q) (cr_step_types q) s \<and>
     claimable d (cr_settings q) probe (cr_class_limits q) (cr_profile_limits q) s \<and>
     step_id s \<notin> locked \<and>
     (\<forall>x \<in> set (db_steps d).
        claim_candidate d (cr_capabilities q) (cr_queue_classes q) (cr_step_types q) x \<and>
        step_id x \<notin> locked \<and>
        claimable d (cr_settings q) probe (cr_class_limits q) (cr_profile_limits q) x \<longrightarrow>
        claim_order s \<le> claim_order x)"
proof -
  from assms obtain s where s: "s \<in> set (claim_candidates d locked (cr_capabilities q)
      (cr_queue_classes q) (cr_step_types q) (nat (cr_candidate_limit q)))"
    and f: "find (claimable d (cr_settings q) probe (cr_class_limits q) (cr_profile_limits q))
       (claim_candidates d locked (cr_capabilities q) (cr_queue_classes q) (cr_step_types q)
         (nat (cr_candidate_limit q))) = Some s"
    "claimable d (cr_settings q) probe (cr_class_limits q) (cr_profile_limits q) s"
    and tok: "tok = \<lparr>tok_step = step_record_of (leased_row (db_now d) (cr_owner q) (cr_lease_seconds q) s),
            tok_owner = cr_owner q, tok_generation = step_lease_generation s + 1\<rparr>"
    by (rule claim_step_Some)
  show ?thesis
    using claim_candidatesD [OF s] f tok claim_is_first [OF f(1)]
    by (intro bexI [of _ s]) (auto simp: step_record_of_def)
qed

definition sample_claim :: claim_request where
  "sample_claim = \<lparr>cr_owner = ''w'', cr_lease_seconds = 60, cr_capabilities = {''code_edit''},
     cr_queue_classes = {Q_HEAVY}, cr_class_limits = Some [Q_HEAVY \<mapsto> 1],
     cr_profile_limits = None, cr_step_types = None, cr_candidate_limit = 20,
     cr_settings = Some \<lparr>ds_min_free_bytes = 100, ds_paths = [''/var''],
       ds_worktree_root = ''/w'', ds_artifact_root = ''/a''\<rparr>\<rparr>"

definition sample_token :: lease_token where
  "sample_token = \<lparr>tok_step = step_record_of (leased_row 10 ''w'' 60 sample_step),
     tok_owner = ''w'', tok_generation = 1\<rparr>"

lemma sample_claim_step:
  "claim_step (\<lambda>_. Some 500) {} sample_claim sample_db =
     (Some sample_token, upd_step 3 (leased_row 10 ''w'' 60) sample_db)"
proof -
  have "claim_candidates sample_db {} {''code_edit''} {Q_HEAVY} None 20 = [sample_step]"
    by (simp add: claim_candidates_def claim_candidate_def sample_defs run_is_running_def)
  moreover have "claimable sample_db (cr_settings sample_claim) (\<lambda>_. Some 500)
      (Some [Q_HEAVY \<mapsto> 1]) None sample_step"
    by (simp add: claimable_def da_blocked_def assess_heavy_claim_gate_def assess_disk_pressure_def
        sample_claim_def measurement_paths_def within_class_limit_def within_profile_limit_def
        active_count_def lease_active_def sample_defs)
  ultimately show ?thesis
    by (simp add: claim_step_def sample_claim_def sample_token_def leased_row_def Let_def)
      (simp add: sample_defs)
qed

text \<open>C23. Claims respect the concurrency limit of the queue class: right after a claim, the active
  leases of the claimed step's class, the new one included, do not exceed its limit.\<close>

theorem claim_respects_class_limit:
  assumes "claim_step probe locked q d = (Some tok, d')" and "distinct_steps d"
    and "cr_class_limits q = Some limits"
    and "get_step d' (sr_id (tok_step tok)) = Some s" and "limits (step_queue_class s) = Some n"
  shows "int (active_count d' (\<lambda>x. step_queue_class x = step_queue_class s)) \<le> n"
proof -
  from assms(1) obtain r where r: "r \<in> set (claim_candidates d locked (cr_capabilities q)
      (cr_queue_classes q) (cr_step_types q) (nat (cr_candidate_limit q)))"
    and c: "claimable d (cr_settings q) probe (cr_class_limits q) (cr_profile_limits q) r"
    and tok: "tok = \<lparr>tok_step = step_record_of (leased_row (db_now d) (cr_owner q) (cr_lease_seconds q) r),
            tok_owner = cr_owner q, tok_generation = step_lease_generation r + 1\<rparr>"
    and d': "d' = upd_step (step_id r) (leased_row (db_now d) (cr_owner q) (cr_lease_seconds q)) d"
    by (rule claim_step_Some)
  have "get_step d (step_id r) = Some r"
    using claim_candidatesD [OF r] assms(2) step_store.mem_get by (simp add: distinct_steps_def)
  then have "step_queue_class s = step_queue_class r"
    using assms(4) tok d' by (auto simp: step_record_of_def step_store.get_upd)
  then have "int (active_count d (\<lambda>x. step_queue_class x = step_queue_class s)) < n"
    using c assms(3,5) by (simp add: claimable_def within_class_limit_def)
  then show ?thesis
    using claim_active_count_le [OF assms(1,2), of "\<lambda>x. step_queue_class x = step_queue_class s"]
    by simp
qed

lemma sample_claimed_step:
  "get_step (upd_step 3 (leased_row 10 ''w'' 60) sample_db) 3 =
     Some (leased_row 10 ''w'' 60 sample_step)"
  by (simp add: step_store.get_upd) (simp add: get_step_def find_row_def sample_defs)

theorem claim_respects_class_limit_witness:
  "int (active_count (upd_step 3 (leased_row 10 ''w'' 60) sample_db)
          (\<lambda>x. step_queue_class x = Q_HEAVY)) \<le> 1"
proof -
  have "step_queue_class (leased_row 10 ''w'' 60 sample_step) = Q_HEAVY" by (simp add: sample_step_def)
  moreover have "sr_id (tok_step sample_token) = 3"
    by (simp add: sample_token_def step_record_of_def sample_step_def)
  ultimately show ?thesis
    using claim_respects_class_limit [OF sample_claim_step, of "[Q_HEAVY \<mapsto> 1]"
        "leased_row 10 ''w'' 60 sample_step" 1] sample_claimed_step
    by (simp add: distinct_steps_def sample_defs sample_claim_def)
qed

text \<open>Heavy work fails closed on disk pressure: a heavy step is claimed only when the settings
  are present and either the gate is disabled or every measured path was probed successfully and
  has the required free space.\<close>

theorem heavy_claim_needs_space:
  assumes "claim_step probe locked q d = (Some tok, d')"
    and "\<And>s. s \<in> set (db_steps d) \<Longrightarrow> step_id s = sr_id (tok_step tok) \<Longrightarrow> step_queue_class s = Q_HEAVY"
  shows "\<exists>settings. cr_settings q = Some settings \<and>
     (ds_min_free_bytes settings \<le> 0 \<or>
      (\<forall>p \<in> set (measurement_paths settings).
         \<exists>free. probe p = Some free \<and> ds_min_free_bytes settings \<le> free))"
proof -
  from assms(1) obtain r where r: "r \<in> set (claim_candidates d locked (cr_capabilities q)
      (cr_queue_classes q) (cr_step_types q) (nat (cr_candidate_limit q)))"
    and c: "claimable d (cr_settings q) probe (cr_class_limits q) (cr_profile_limits q) r"
    and tok: "tok = \<lparr>tok_step = step_record_of (leased_row (db_now d) (cr_owner q) (cr_lease_seconds q) r),
            tok_owner = cr_owner q, tok_generation = step_lease_generation r + 1\<rparr>"
    by (rule claim_step_Some)
  have "step_queue_class r = Q_HEAVY"
    using assms(2) claim_candidatesD [OF r] tok by (simp add: step_record_of_def)
  then have "da_allowed (assess_heavy_claim_gate (cr_settings q) probe)"
    using c by (simp add: claimable_def da_blocked_def)
  then show ?thesis by (simp add: heavy_gate_allowed_iff)
qed

text \<open>Claims never exceed a step's attempt budget: through any sequence of claims, starts,
  heartbeats and completions, the attempt count of every step stays within its maximum.\<close>

theorem attempts_never_exceed_maximum:
  assumes "lease_op\<^sup>*\<^sup>* d d'" and "distinct_steps d" and "attempts_bounded d"
  shows "attempts_bounded d'"
  using assms
proof (induction rule: rtranclp_induct)
  case base
  then show ?case by simp
next
  case (step y z)
  then show ?case using attempts_bounded_lease_op step_lease.inv_moves by blast
qed

end
