(* ===== verification/Workflow_Service.thy ===== *)
theory Workflow_Service
  imports Workflow_Steps Leasing
begin

text \<open>
  \<^verbatim>\<open>workflows/service.py\<close>, second part: the recovery facts of a failed step, bounded
  repairs, the capability preflight, and the fenced commit of a step outcome. Requests for Telegram
  cards and for abandoning a capability installation are recorded as calls.
\<close>

section \<open>Recovery facts\<close>

definition can_retry :: "step \<Rightarrow> bool" where
  "can_retry s =
     (step_retry_class s = RETRY_TRANSIENT \<and> step_attempt_count s < step_max_attempts s \<and>
      step_idempotency_class s \<in> {IDEM_READ_ONLY, IDEM_IDEMPOTENT})"

definition recovery_deadline_exceeded :: "platform \<Rightarrow> db \<Rightarrow> run \<Rightarrow> step \<Rightarrow> recovery_policy \<Rightarrow> bool" where
  "recovery_deadline_exceeded pf d r s policy =
     (let started = (case run_started_at r of Some t \<Rightarrow> t | None \<Rightarrow> step_created_at s);
          late = (\<lambda>t. wall_now d - t > seconds (rp_recovery_deadline_seconds policy))
      in case jget (run_selected_route r) ''recovery_epoch_started_at'' of
           JNull \<Rightarrow> late started
         | JStr text \<Rightarrow>
             (case pf_fromisoformat pf text of
                None \<Rightarrow> True
              | Some (candidate, aware) \<Rightarrow>
                  if \<not> aware \<or> candidate > wall_now d then True else late candidate)
         | _ \<Rightarrow> True)"

text \<open>The first row in a descending order, as \<open>ORDER BY key DESC LIMIT 1\<close>.\<close>

definition newest :: "('r \<Rightarrow> int) \<Rightarrow> 'r list \<Rightarrow> 'r option" where
  "newest key rows = (case rev (sort_key key rows) of [] \<Rightarrow> None | r # _ \<Rightarrow> Some r)"

definition current_environment :: "db \<Rightarrow> string \<Rightarrow> environment_revision option" where
  "current_environment d project_id =
     newest env_revision_number (filter (\<lambda>e. env_project_id e = project_id) (db_environments d))"

definition environment_hash :: "platform \<Rightarrow> json_obj \<Rightarrow> string" where
  "environment_hash pf contract = pf_sha256 pf (json_dumps False (JObj contract))"

definition task_environment :: "db \<Rightarrow> uuid \<Rightarrow> environment_revision option" where
  "task_environment d tid =
     (case get_task d tid of
        None \<Rightarrow> None
      | Some t \<Rightarrow> Option.bind (task_project_id t) (current_environment d))"

definition worktree_result_hash :: "db \<Rightarrow> uuid \<Rightarrow> string option" where
  "worktree_result_hash d rid =
     (case newest wt_created_at (filter (\<lambda>w. wt_run_id w = rid) (db_worktrees d)) of
        None \<Rightarrow> None
      | Some w \<Rightarrow>
          (case wt_diff_hash w of
             Some h \<Rightarrow> if h \<noteq> [] then Some h else wt_result_commit w
           | None \<Rightarrow> wt_result_commit w))"

definition strategy_hash :: "platform \<Rightarrow> db \<Rightarrow> run \<Rightarrow> string" where
  "strategy_hash pf d r =
     envelope_hash pf
       [(''profile'',
           case completed_of_type d (run_id r) {''execute_code'', ''execute_agent''} of
             None \<Rightarrow> JNull | Some worker \<Rightarrow> opt_json (step_executor_profile_id worker)),
        (''policy_revision'', JStr (run_policy_revision r)),
        (''prompt_revision'', opt_json (run_prompt_revision r))]"

definition is_repair_step :: "step \<Rightarrow> bool" where
  "is_repair_step s = (jget (step_dependency_metadata s) ''template_key'' = JStr ''repair_code'')"

definition in_repair_scope :: "db \<Rightarrow> run \<Rightarrow> step \<Rightarrow> bool" where
  "in_repair_scope d r s =
     (\<exists>x \<in> set (db_runs d). run_id x = step_run_id s \<and>
        (if run_execution_contract_version r = Some ''execution-contract.v2''
         then run_task_id x = run_task_id r else step_run_id s = run_id r))"

definition task_repair_count :: "db \<Rightarrow> run \<Rightarrow> int" where
  "task_repair_count d r =
     int (length (filter (\<lambda>s. is_repair_step s \<and> in_repair_scope d r s) (db_steps d)))"

definition build_recovery_state ::
  "platform \<Rightarrow> db \<Rightarrow> run \<Rightarrow> step \<Rightarrow> step_outcome \<Rightarrow> recovery_policy \<Rightarrow>
   error + recovery_state \<times> json_obj" where
  "build_recovery_state pf d r s outcome policy =
     (let components = fingerprint_components (step_type s) (so_category outcome)
            (if so_result outcome \<noteq> [] then Some (envelope_hash pf (so_result outcome)) else None)
            (map_option (\<lambda>e. environment_hash pf (env_contract e))
               (task_environment d (run_task_id r)))
            (worktree_result_hash d (run_id r))
            (Some (strategy_hash pf d r))
      in
      bindE (json_int (jget_default (step_payload s) ''repair_count'' (JInt 0))) (\<lambda>repair_count.
      bindE (json_int (jget_default (step_payload s) ''backpressure_count'' (JInt 0))) (\<lambda>waits.
      Inr (\<lparr>rs_outcome_kind = outcome_kind_value (so_kind outcome),
            rs_category = so_category outcome, rs_step_type = step_type s,
            rs_unknown_effects = so_unknown_effects outcome, rs_retryable = can_retry s,
            rs_fingerprint = Some (failure_fingerprint (pf_sha256 pf) components),
            rs_seen_fingerprints =
              set (json_strings (jget (step_payload s) ''failure_fingerprint_history'')),
            rs_repair_count = repair_count, rs_task_repair_count = task_repair_count d r,
            rs_backpressure_count = waits,
            rs_deadline_exceeded = recovery_deadline_exceeded pf d r s policy\<rparr>, components))))"

definition emit_recovery_event :: "uuid \<Rightarrow> uuid \<Rightarrow> recovery_state \<Rightarrow> recovery_action \<Rightarrow> db \<Rightarrow> db" where
  "emit_recovery_event rid sid st action =
     add_event (plain_event ''run'' rid ''workflow.recovery_decision'' ''workflow_manager'' None
       ((''failed_step_id'', JStr (uuid_str sid)) # recovery_attempt_summary st action))"

section \<open>Bounded repair\<close>

definition repair_step ::
  "db \<Rightarrow> uuid \<Rightarrow> step \<Rightarrow> step \<Rightarrow> step_outcome \<Rightarrow> recovery_state \<Rightarrow> int \<Rightarrow> step" where
  "repair_step d rid failed worker outcome st epoch =
     (blank_step d rid)
       \<lparr>step_ordinal := next_ordinal d rid,
        step_dependency_metadata :=
          [(''template_key'', JStr ''repair_code''), (''predecessor_ordinals'', JList []),
           (''repair_for_ordinal'', JInt (step_ordinal failed))],
        step_type := step_type worker, step_queue_class := step_queue_class worker,
        step_status := S_QUEUED,
        step_required_capabilities := step_required_capabilities worker,
        step_payload := result_kind_entry worker @
          [(''repair_for_step_id'', JStr (uuid_str (step_id failed))),
           (''repair_attempt'', JInt (rs_repair_count st + 1)),
           (''repair_epoch'', JInt epoch),
           (''repair_context'', JObj
             [(''source'', JStr (step_type failed)), (''category'', opt_json (so_category outcome)),
              (''summary'', JStr (take 2000 (or_empty (so_summary outcome)))),
              (''validation_result'', JObj (so_result outcome)),
              (''failure_fingerprint'', opt_json (rs_fingerprint st))])],
        step_retry_class := step_retry_class worker,
        step_idempotency_class := step_idempotency_class worker, step_max_attempts := 1,
        step_priority := step_priority worker,
        step_timeout_seconds := step_timeout_seconds worker\<rparr>"

text \<open>\<open>{**payload, ...}\<close> with the repair entries.\<close>

definition repair_entries ::
  "json_obj \<Rightarrow> recovery_state \<Rightarrow> json_obj \<Rightarrow> int \<Rightarrow> uuid \<Rightarrow> json_obj" where
  "repair_entries payload st components epoch repair_id =
     fold (\<lambda>(k, v) m. jput m k v)
       [(''repair_count'', JInt (rs_repair_count st + 1)), (''repair_epoch'', JInt epoch),
        (''repair_scheduled_step_id'', JStr (uuid_str repair_id)),
        (''failure_fingerprint'', opt_json (rs_fingerprint st)),
        (''failure_fingerprint_schema'', JStr FINGERPRINT_SCHEMA),
        (''failure_fingerprint_components'', JObj components),
        (''failure_fingerprint_history'',
           JList (map JStr (append_fingerprint_history (jget payload ''failure_fingerprint_history'')
             (or_empty (rs_fingerprint st))))),
        (''last_recovery_summary'', JObj (recovery_attempt_summary st REPAIR))]
       payload"

definition schedule_bounded_repair ::
  "platform \<Rightarrow> db \<Rightarrow> run \<Rightarrow> step \<Rightarrow> step_outcome \<Rightarrow> recovery_policy \<Rightarrow> error + bool \<times> db" where
  "schedule_bounded_repair pf d r failed outcome policy =
     (if step_type failed = ''review'' \<and> py_truthy (jget (step_payload failed) ''review_only_recovery'')
      then Inr (False, d)
      else
        case get_task d (run_task_id r) of
          None \<Rightarrow> Inr (False, d)
        | Some t \<Rightarrow>
            bindE (build_recovery_state pf d r failed outcome policy) (\<lambda>(st, components).
            let action = decide_recovery st policy;
                d1 = emit_recovery_event (run_id r) (step_id failed) st action d
            in if action \<noteq> REPAIR then Inr (False, d1)
               else
                 case completed_of_type d1 (run_id r) {''execute_code'', ''execute_agent''} of
                   None \<Rightarrow> Inr (False, d1)
                 | Some worker \<Rightarrow>
                     let repair = repair_step d1 (run_id r) failed worker outcome st (task_budget_epoch t)
                     in
                     bindE (transition_step (add_step repair d1) (step_id failed) S_BLOCKED
                              ''workflow_manager'' None []) (\<lambda>d2.
                     Inr (True, add_event
                       (plain_event ''run'' (run_id r) ''workflow.repair_scheduled'' ''workflow_manager'' None
                         [(''failed_step_id'', JStr (uuid_str (step_id failed))),
                          (''repair_step_id'', JStr (uuid_str (step_id repair))),
                          (''category'', opt_json (so_category outcome)),
                          (''repair_count'', JInt (rs_repair_count st + 1)),
                          (''repair_epoch'', JInt (task_budget_epoch t)),
                          (''task_repair_count'', JInt (rs_task_repair_count st + 1)),
                          (''fingerprint'', opt_json (rs_fingerprint st))])
                       (upd_step (step_id failed) (\<lambda>s. s
                         \<lparr>step_failure_category := so_category outcome,
                          step_failure_summary := so_summary outcome,
                          step_result := Some (so_result outcome),
                          step_unknown_effects := False,
                          step_payload := repair_entries (step_payload s) st components
                            (task_budget_epoch t) (step_id repair)\<rparr>) d2)))))"

section \<open>Capability preflight\<close>

definition preflight_step :: "db \<Rightarrow> uuid \<Rightarrow> step \<Rightarrow> environment_revision \<Rightarrow> step" where
  "preflight_step d rid target environment =
     (blank_step d rid)
       \<lparr>step_ordinal := next_ordinal d rid, step_type := ''ensure_capabilities'',
        step_queue_class := Q_PRIVILEGED, step_status := S_PENDING,
        step_required_capabilities := [''host_admin''],
        step_dependency_metadata :=
          [(''template_key'', JStr ''ensure_capabilities_after_code''),
           (''predecessor_ordinals'', JList [])],
        step_payload :=
          [(''capability_for_step_id'', JStr (uuid_str (step_id target))),
           (''environment_revision_id'', JStr (uuid_str (env_id environment)))],
        step_retry_class := RETRY_NEVER,
        step_idempotency_class := IDEM_UNKNOWN_EFFECTS_POSSIBLE, step_max_attempts := 1,
        step_timeout_seconds := 1800\<rparr>"

definition schedule_capability_preflight ::
  "db \<Rightarrow> run \<Rightarrow> step \<Rightarrow> step_outcome \<Rightarrow> bool \<times> db" where
  "schedule_capability_preflight d r target outcome =
     (case task_environment d (run_task_id r) of
        None \<Rightarrow> (False, d)
      | Some environment \<Rightarrow>
          if jget (so_result outcome) ''environment_revision_id'' \<noteq> JStr (uuid_str (env_id environment)) \<or>
             jget (so_result outcome) ''environment_hash'' \<noteq> JStr (env_content_hash environment)
          then (False, d)
          else if \<exists>s \<in> set (db_steps d). step_run_id s = run_id r \<and> step_type s = ''ensure_capabilities'' \<and>
                    jget (step_payload s) ''capability_for_step_id'' = JStr (uuid_str (step_id target))
          then (False, d)
          else
            let preflight = preflight_step d (run_id r) target environment
            in (True, add_event
                 (plain_event ''run'' (run_id r) ''workflow.capability_preflight_scheduled''
                    ''capability_inventory'' None
                    [(''step_id'', JStr (uuid_str (step_id target))),
                     (''preflight_step_id'', JStr (uuid_str (step_id preflight))),
                     (''capabilities'', jget_default (so_result outcome) ''capabilities'' (JList []))])
                 (upd_step (step_id target)
                    (\<lambda>s. s\<lparr>step_payload := jput (step_payload s) ''capability_preflight_step_id''
                             (JStr (uuid_str (step_id preflight)))\<rparr>)
                    (add_step preflight d))))"

section \<open>Progress\<close>

definition record_task_progress :: "uuid \<Rightarrow> uuid \<Rightarrow> uuid \<Rightarrow> string \<Rightarrow> db \<Rightarrow> error + db" where
  "record_task_progress tid rid sid phase d =
     bindE (held_task d tid) (\<lambda>t.
       if task_type t = ''discussion_agent_internal'' then Inr d
       else Inr (add_call (StatusProjection tid (task_version t + 1) (Some rid) None)
         (add_event (plain_event ''task'' tid ''task.progress_updated'' ''workflow_manager'' None
            [(''run_id'', JStr (uuid_str rid)), (''step_id'', JStr (uuid_str sid)),
             (''phase'', JStr phase)])
           (upd_task tid (\<lambda>x. x\<lparr>task_version := task_version x + 1\<rparr>) d))))"

definition publish_step_started :: "db \<Rightarrow> lease_token \<Rightarrow> error + db" where
  "publish_step_started d token =
     (case get_step d (sr_id (tok_step token)) of
        None \<Rightarrow> Inl (LeaseLost ''started step is missing'')
      | Some s \<Rightarrow>
          (case get_run d (step_run_id s) of
             None \<Rightarrow> Inl (LeaseLost ''started run is missing'')
           | Some r \<Rightarrow>
               (case get_task d (run_task_id r) of
                  None \<Rightarrow> Inl (LeaseLost ''started task is missing'')
                | Some t \<Rightarrow> record_task_progress (task_id t) (run_id r) (step_id s) ''started'' d)))"

section \<open>Committing an outcome\<close>

text \<open>\<open>RecoveryPolicy(**mapping)\<close> of the pinned policy: unknown keywords raise, and the fields are
  checked in order, a value that cannot be compared with an integer by a type error.\<close>

definition policy_field :: "json_obj \<Rightarrow> string \<Rightarrow> int \<Rightarrow> error + int" where
  "policy_field m name dflt =
     bindE (case map_of m name of
              None \<Rightarrow> Inr dflt
            | Some (JInt i) \<Rightarrow> Inr i
            | Some (JBool b) \<Rightarrow> Inr (if b then 1 else 0)
            | Some _ \<Rightarrow> Inl (TypeError ''values of this type cannot be ordered''))
     (\<lambda>i. bindE (positive_field (name, i)) (\<lambda>_. Inr i))"

definition pinned_recovery_policy :: "run \<Rightarrow> error + recovery_policy" where
  "pinned_recovery_policy r =
     (case map_of (run_selected_route r) ''recovery_policy'' of
        None \<Rightarrow> Inl (KeyError ''recovery_policy'')
      | Some (JObj m) \<Rightarrow>
          if \<not> set (map fst m) \<subseteq> {''step_repair_cap'', ''task_repair_cap'', ''backpressure_wait_cap'',
                 ''recovery_deadline_seconds''}
          then Inl (TypeError ''unexpected keyword argument'')
          else
            bindE (policy_field m ''step_repair_cap'' 3) (\<lambda>a.
            bindE (policy_field m ''task_repair_cap'' 6) (\<lambda>b.
            bindE (policy_field m ''backpressure_wait_cap'' 5) (\<lambda>c.
            bindE (policy_field m ''recovery_deadline_seconds'' 3600) (\<lambda>e.
            mk_recovery_policy a b c e))))
      | Some _ \<Rightarrow> Inl (TypeError ''argument after ** must be a mapping''))"

definition commit_success :: "platform \<Rightarrow> db \<Rightarrow> run \<Rightarrow> step \<Rightarrow> step_outcome \<Rightarrow> error + db" where
  "commit_success pf d r s outcome =
     bindE (transition_step d (step_id s) S_COMPLETED ''worker'' None []) (\<lambda>d1.
     let d2 = upd_step (step_id s) (\<lambda>x. x\<lparr>step_result := Some (so_result outcome)\<rparr>) d1
     in Inr (if step_type s = ''review'' \<and> py_truthy (jget (so_result outcome) ''verdict'')
             then record_review_outcome pf (run_task_id r) (run_id r) (step_id s) (so_result outcome) d2
             else d2))"

definition commit_transient ::
  "platform \<Rightarrow> db \<Rightarrow> run \<Rightarrow> step \<Rightarrow> step_outcome \<Rightarrow> time \<Rightarrow> recovery_policy \<Rightarrow> error + db" where
  "commit_transient pf d r s outcome delay policy =
     bindE (build_recovery_state pf d r s outcome policy) (\<lambda>(st, _).
     let action = decide_recovery st policy;
         d1 = emit_recovery_event (run_id r) (step_id s) st action d
     in if action = WAIT then
          bindE (transition_step d1 (step_id s) S_QUEUED ''worker'' None []) (\<lambda>d2.
          Inr (upd_step (step_id s) (\<lambda>x. (refund_attempt x)
            \<lparr>step_available_at := db_now d + delay,
             step_payload := jput (step_payload x) ''backpressure_count''
               (JInt (rs_backpressure_count st + 1))\<rparr>) d2))
        else if action = RETRY then
          bindE (transition_step d1 (step_id s) S_QUEUED ''worker'' None []) (\<lambda>d2.
          Inr (upd_step (step_id s) (\<lambda>x. x\<lparr>step_available_at := db_now d + delay\<rparr>) d2))
        else block_for_attention d1 (run_id r) (step_id s))"

definition commit_needs_input :: "db \<Rightarrow> run \<Rightarrow> step \<Rightarrow> error + db" where
  "commit_needs_input d r s =
     bindE (transition_step d (step_id s) S_AWAITING_USER ''worker'' None []) (\<lambda>d1.
     transition_run d1 (run_id r) R_AWAITING_USER ''worker'' None [])"

definition shared_approval_settled :: "db \<Rightarrow> step \<Rightarrow> error + bool" where
  "shared_approval_settled d s =
     (case jget (step_payload s) ''capability_wait_approval_id'' of
        JStr shared_id \<Rightarrow>
          (case uuid_parse shared_id of
             None \<Rightarrow> Inl (ValueError ''badly formed hexadecimal UUID string'')
           | Some aid \<Rightarrow>
               Inr (case get_approval d aid of
                      None \<Rightarrow> False
                    | Some a \<Rightarrow> appr_status a \<notin> {A_PENDING, A_APPROVED}))
      | _ \<Rightarrow> Inr False)"

definition commit_needs_approval :: "db \<Rightarrow> step \<Rightarrow> error + db" where
  "commit_needs_approval d s =
     bindE (shared_approval_settled d s) (\<lambda>settled.
       if settled then
         bindE (transition_step d (step_id s) S_QUEUED ''worker'' None []) (\<lambda>d1.
         Inr (upd_step (step_id s) refund_attempt d1))
       else transition_step d (step_id s) S_WAITING_APPROVAL ''worker'' None [])"

definition commit_preflight :: "platform \<Rightarrow> db \<Rightarrow> run \<Rightarrow> step \<Rightarrow> step_outcome \<Rightarrow> error + db" where
  "commit_preflight pf d r s outcome =
     (let (scheduled, d1) = schedule_capability_preflight d r s outcome in
      if scheduled then
        bindE (transition_step d1 (step_id s) S_BLOCKED ''capability_inventory'' None []) (\<lambda>d2.
        bindE (activate_ready_steps pf d2 (run_id r)) (\<lambda>(_, d3). Inr d3))
      else block_for_attention d1 (run_id r) (step_id s))"

definition commit_blocked ::
  "platform \<Rightarrow> db \<Rightarrow> run \<Rightarrow> step \<Rightarrow> step_outcome \<Rightarrow> recovery_policy \<Rightarrow> error + db" where
  "commit_blocked pf d r s outcome policy =
     (let d1 = (if py_truthy (jget (so_result outcome) ''verdict'')
                then record_review_outcome pf (run_task_id r) (run_id r) (step_id s) (so_result outcome) d
                else d)
      in bindE (schedule_bounded_repair pf d1 r s outcome policy) (\<lambda>(scheduled, d2).
         if scheduled then Inr d2
         else
           bindE (block_for_attention d2 (run_id r) (step_id s)) (\<lambda>d3.
           Inr (upd_step (step_id s)
             (\<lambda>x. x\<lparr>step_unknown_effects := so_unknown_effects outcome\<rparr>) d3))))"

definition commit_failed :: "db \<Rightarrow> run \<Rightarrow> step \<Rightarrow> error + db" where
  "commit_failed d r s =
     bindE (transition_step d (step_id s) S_FAILED ''worker'' None []) (\<lambda>d1.
     transition_run d1 (run_id r) R_FAILED ''worker'' None [])"

text \<open>The branch of the outcome kind.\<close>

definition commit_kind ::
  "platform \<Rightarrow> db \<Rightarrow> run \<Rightarrow> step \<Rightarrow> step_outcome \<Rightarrow> time \<Rightarrow> recovery_policy \<Rightarrow> error + db" where
  "commit_kind pf d r s outcome delay policy =
     (if so_kind outcome = SUCCEEDED then commit_success pf d r s outcome
      else if so_kind outcome = TRANSIENT_FAILURE then commit_transient pf d r s outcome delay policy
      else if so_kind outcome = NEEDS_USER_INPUT then commit_needs_input d r s
      else if so_kind outcome = NEEDS_APPROVAL then commit_needs_approval d s
      else if so_kind outcome = BLOCKED \<and> so_category outcome = Some ''capability_preflight_required'' \<and>
              step_type s = ''ensure_dependencies'' \<and> \<not> so_unknown_effects outcome
      then commit_preflight pf d r s outcome
      else if so_kind outcome = BLOCKED \<or> so_unknown_effects outcome
      then commit_blocked pf d r s outcome policy
      else if so_kind outcome = CANCELLED
      then transition_step d (step_id s) S_CANCELLED ''worker'' None []
      else commit_failed d r s)"

text \<open>Failure texts on the step and, when the run stopped, on the run.\<close>

definition note_failure :: "uuid \<Rightarrow> uuid \<Rightarrow> step_outcome \<Rightarrow> db \<Rightarrow> error + db" where
  "note_failure rid sid outcome d =
     (if so_kind outcome = SUCCEEDED then Inr d
      else
        let d1 = upd_step sid (\<lambda>x. x\<lparr>step_failure_category := so_category outcome,
                                     step_failure_summary := so_summary outcome\<rparr>) d
        in bindE (held_run d1 rid) (\<lambda>r.
           bindE (held_step d1 sid) (\<lambda>s.
           if run_status r \<in> {R_BLOCKED, R_FAILED, R_CANCELLED} then
             let d2 = upd_run rid (\<lambda>x. x\<lparr>run_failure_category := so_category outcome,
                                          run_failure_summary := so_summary outcome\<rparr>) d1
             in Inr (if step_type s = ''ensure_capabilities''
                     then add_call (AbandonCapabilityInstallation sid ''leader_unavailable'') d2 else d2)
           else Inr d1)))"

definition release_lease :: "uuid \<Rightarrow> db \<Rightarrow> db" where
  "release_lease sid = upd_step sid (\<lambda>x. x\<lparr>step_lease_owner := None, step_lease_expires_at := None\<rparr>)"

definition after_completion :: "platform \<Rightarrow> uuid \<Rightarrow> uuid \<Rightarrow> db \<Rightarrow> error + db" where
  "after_completion pf rid sid d =
     bindE (held_step d sid) (\<lambda>s.
       if step_status s \<noteq> S_COMPLETED then Inr d
       else
         bindE (resume_after_validation_environment d rid s) (\<lambda>d1.
         bindE (resume_after_capability_preflight d1 rid s) (\<lambda>d2.
         bindE (resume_repaired_step d2 rid s) (\<lambda>(_, d3).
         bindE (resume_review_after_validation d3 rid s) (\<lambda>(_, d4).
         bindE (activate_ready_steps pf d4 rid) (\<lambda>(_, d5).
         bindE (finalize_if_complete d5 rid) (\<lambda>(_, d6).
         Inr d6)))))))"

definition project_status :: "task \<Rightarrow> task_status \<Rightarrow> uuid \<Rightarrow> db \<Rightarrow> db" where
  "project_status t target rid d =
     (if task_type t = ''discussion_agent_internal'' then
        (if target \<in> {T_FAILED, T_BLOCKED, T_QUOTA_EXHAUSTED}
         then add_call (TerminalProjections (task_id t) (task_version t) rid) d else d)
      else if target = T_WAITING_APPROVAL
      then add_call (StatusProjection (task_id t) (task_version t) (Some rid) (Some ''intake_ack'')) d
      else if target \<in> {T_COMPLETED, T_FAILED, T_BLOCKED}
      then add_call (TerminalProjections (task_id t) (task_version t) rid) d
      else add_call (StatusProjection (task_id t) (task_version t) (Some rid) None) d)"

definition settle_task :: "uuid \<Rightarrow> uuid \<Rightarrow> uuid \<Rightarrow> outcome_kind \<Rightarrow> db \<Rightarrow> error + db" where
  "settle_task tid rid sid kind d =
     bindE (held_task d tid) (\<lambda>t.
     bindE (held_step d sid) (\<lambda>s.
     let d1 = (if step_type s = ''review'' then publish_review_event t s d else d) in
     bindE (held_run d1 rid) (\<lambda>r.
     let target = derive_task_status (steps_for_run d1 rid) (run_status r) in
     if target \<noteq> task_status t then
       bindE (transition_task d1 tid target ''workflow_manager'' None []) (\<lambda>d2.
       bindE (held_task d2 tid) (\<lambda>t'. Inr (project_status t' target rid d2)))
     else if kind = SUCCEEDED then record_task_progress tid rid sid ''completed'' d1
     else Inr d1)))"

definition commit_step_outcome ::
  "platform \<Rightarrow> db \<Rightarrow> lease_token \<Rightarrow> step_outcome \<Rightarrow> time \<Rightarrow> recovery_policy option \<Rightarrow> error + db" where
  "commit_step_outcome pf d token outcome delay recovery_policy =
     (let lost = Inl (LeaseLost (''step lease lost: '' @ uuid_str (sr_id (tok_step token)))) in
      case lock_task_run_step d (sr_id (tok_step token)) of
        None \<Rightarrow> lost
      | Some (_, r, s) \<Rightarrow>
          bindE (if run_execution_contract_version r = Some ''execution-contract.v2''
                 then pinned_recovery_policy r
                 else Inr (case recovery_policy of None \<Rightarrow> DEFAULT_RECOVERY_POLICY | Some p \<Rightarrow> p))
          (\<lambda>policy.
             if step_lease_owner s \<noteq> Some (tok_owner token) \<or>
                step_lease_generation s \<noteq> tok_generation token \<or>
                step_status s \<notin> {S_LEASED, S_RUNNING}
             then lost
             else if run_status r \<in> {R_CANCELLED, R_FAILED, R_COMPLETED}
             then Inl (LeaseLost (''parent run is terminal: '' @ uuid_str (run_id r)))
             else if run_status r = R_PAUSED
             then Inl (LeaseLost (''parent run is paused: '' @ uuid_str (run_id r)))
             else
               bindE (commit_kind pf d r s outcome delay policy) (\<lambda>d1.
               bindE (note_failure (run_id r) (step_id s) outcome d1) (\<lambda>d2.
               bindE (after_completion pf (run_id r) (step_id s) (release_lease (step_id s) d2)) (\<lambda>d3.
               settle_task (run_task_id r) (run_id r) (step_id s) (so_kind outcome) d3)))))"

end
