(* ===== verification/Workflow_Frame.thy ===== *)
theory Workflow_Frame
  imports Workflow_Service
begin

text \<open>
  What every operation of the workflow service leaves alone. A step keeps its identity columns and
  its lease generation, is never leased by the service, and stays in a terminal status; runs and
  tasks are never deleted and a terminal run stays terminal; new rows get fresh identifiers. The
  relation is reflexive and transitive, so that it composes along the operations.
\<close>

named_theorems evolves \<open>operations that respect the evolution of the database\<close>

definition held_status :: "step \<Rightarrow> step_status option" where
  "held_status s = (if step_status s \<in> {S_LEASED, S_RUNNING} then Some (step_status s) else None)"

definition final_status :: "step \<Rightarrow> step_status option" where
  "final_status s = (if step_status s \<in> STEP_TERMINAL then Some (step_status s) else None)"

definition final_run_status :: "run \<Rightarrow> run_status option" where
  "final_run_status r = (if run_status r \<in> RUN_TERMINAL then Some (run_status r) else None)"

definition step_evolves :: "step \<Rightarrow> step \<Rightarrow> bool" where
  "step_evolves s s' =
     (step_id s' = step_id s \<and> step_run_id s' = step_run_id s \<and> step_ordinal s' = step_ordinal s \<and>
      step_type s' = step_type s \<and> step_dependency_metadata s' = step_dependency_metadata s \<and>
      step_queue_class s' = step_queue_class s \<and>
      step_lease_generation s' = step_lease_generation s \<and>
      (step_lease_owner s' = step_lease_owner s \<or> step_lease_owner s' = None) \<and>
      (held_status s' = held_status s \<or> held_status s' = None) \<and>
      (final_status s = None \<or> final_status s' = final_status s))"

definition run_evolves :: "run \<Rightarrow> run \<Rightarrow> bool" where
  "run_evolves r r' =
     (run_id r' = run_id r \<and> run_task_id r' = run_task_id r \<and>
      run_execution_contract_version r' = run_execution_contract_version r \<and>
      run_selected_route r' = run_selected_route r \<and>
      (final_run_status r = None \<or> final_run_status r' = final_run_status r))"

definition ids_ok :: "db \<Rightarrow> bool" where
  "ids_ok d = (distinct_steps d \<and> (\<forall>k \<in> set (map step_id (db_steps d)). k < next_uuid d))"

definition db_evolves :: "db \<Rightarrow> db \<Rightarrow> bool" where
  "db_evolves d d' =
     ((\<forall>k s. get_step d k = Some s \<longrightarrow> (\<exists>s'. get_step d' k = Some s' \<and> step_evolves s s')) \<and>
      (\<forall>k s'. get_step d k = None \<and> get_step d' k = Some s' \<longrightarrow>
         held_status s' = None \<and> step_lease_generation s' = 0) \<and>
      (\<forall>k r. get_run d k = Some r \<longrightarrow> (\<exists>r'. get_run d' k = Some r' \<and> run_evolves r r')) \<and>
      (\<forall>k t. get_task d k = Some t \<longrightarrow> (\<exists>t'. get_task d' k = Some t')) \<and>
      (ids_ok d \<longrightarrow> ids_ok d') \<and> next_uuid d \<le> next_uuid d' \<and> db_now d' = db_now d)"

section \<open>A preorder\<close>

lemma step_evolves_refl [simp]: "step_evolves s s"
  by (simp add: step_evolves_def)

lemma step_evolves_trans: "step_evolves a b \<Longrightarrow> step_evolves b c \<Longrightarrow> step_evolves a c"
  by (auto simp: step_evolves_def)

lemma run_evolves_refl [simp]: "run_evolves r r"
  by (simp add: run_evolves_def)

lemma run_evolves_trans: "run_evolves a b \<Longrightarrow> run_evolves b c \<Longrightarrow> run_evolves a c"
  by (auto simp: run_evolves_def)

lemma db_evolves_refl [evolves]: "db_evolves d d"
  by (auto simp: db_evolves_def)

lemma db_evolves_step: "db_evolves d d' \<Longrightarrow> get_step d k = Some s \<Longrightarrow>
   \<exists>s'. get_step d' k = Some s' \<and> step_evolves s s'"
  by (simp add: db_evolves_def)

lemma db_evolves_new: "db_evolves d d' \<Longrightarrow> get_step d k = None \<Longrightarrow> get_step d' k = Some s' \<Longrightarrow>
   held_status s' = None \<and> step_lease_generation s' = 0"
  by (simp add: db_evolves_def)

lemma db_evolves_run: "db_evolves d d' \<Longrightarrow> get_run d k = Some r \<Longrightarrow>
   \<exists>r'. get_run d' k = Some r' \<and> run_evolves r r'"
  by (simp add: db_evolves_def)

lemma db_evolves_task: "db_evolves d d' \<Longrightarrow> get_task d k = Some t \<Longrightarrow> \<exists>t'. get_task d' k = Some t'"
  by (simp add: db_evolves_def)

lemma db_evolves_ids: "db_evolves d d' \<Longrightarrow> ids_ok d \<Longrightarrow> ids_ok d'"
  by (simp add: db_evolves_def)

lemma db_evolves_now: "db_evolves d d' \<Longrightarrow> db_now d' = db_now d"
  by (simp add: db_evolves_def)

lemma db_evolvesI:
  assumes "\<And>k s. get_step d k = Some s \<Longrightarrow> \<exists>s'. get_step d' k = Some s' \<and> step_evolves s s'"
    and "\<And>k s'. get_step d k = None \<Longrightarrow> get_step d' k = Some s' \<Longrightarrow>
      held_status s' = None \<and> step_lease_generation s' = 0"
    and "\<And>k r. get_run d k = Some r \<Longrightarrow> \<exists>r'. get_run d' k = Some r' \<and> run_evolves r r'"
    and "\<And>k t. get_task d k = Some t \<Longrightarrow> \<exists>t'. get_task d' k = Some t'"
    and "ids_ok d \<Longrightarrow> ids_ok d'" and "next_uuid d \<le> next_uuid d'" and "db_now d' = db_now d"
  shows "db_evolves d d'"
  unfolding db_evolves_def
  by (intro conjI allI impI) (auto dest: assms(1-5) intro: assms(6,7))

lemma db_evolves_trans:
  assumes ab: "db_evolves a b" and bc: "db_evolves b c"
  shows "db_evolves a c"
proof (rule db_evolvesI)
  fix k s
  assume "get_step a k = Some s"
  with db_evolves_step [OF ab] obtain s1 where s1: "get_step b k = Some s1" "step_evolves s s1" by blast
  with db_evolves_step [OF bc] show "\<exists>s'. get_step c k = Some s' \<and> step_evolves s s'"
    using step_evolves_trans by blast
next
  fix k s'
  assume none: "get_step a k = None" and s': "get_step c k = Some s'"
  show "held_status s' = None \<and> step_lease_generation s' = 0"
  proof (cases "get_step b k")
    case None
    then show ?thesis using db_evolves_new [OF bc] s' by blast
  next
    case (Some s1)
    with db_evolves_new [OF ab none] have "held_status s1 = None" "step_lease_generation s1 = 0" by auto
    moreover have "step_evolves s1 s'" using db_evolves_step [OF bc Some] s' by auto
    ultimately show ?thesis by (auto simp: step_evolves_def)
  qed
next
  fix k r
  assume "get_run a k = Some r"
  with db_evolves_run [OF ab] obtain r1 where "get_run b k = Some r1" "run_evolves r r1" by blast
  with db_evolves_run [OF bc] show "\<exists>r'. get_run c k = Some r' \<and> run_evolves r r'"
    using run_evolves_trans by blast
next
  fix k t
  assume "get_task a k = Some t"
  then show "\<exists>t'. get_task c k = Some t'" using db_evolves_task [OF ab] db_evolves_task [OF bc] by blast
next
  assume "ids_ok a"
  then show "ids_ok c" using db_evolves_ids ab bc by blast
next
  show "next_uuid a \<le> next_uuid c" "db_now c = db_now a"
    using ab bc by (simp_all add: db_evolves_def)
qed

section \<open>Elementary changes\<close>

text \<open>Everything outside the steps, runs and tasks.\<close>

lemma db_evolves_other:
  assumes "db_steps d' = db_steps d" "db_runs d' = db_runs d" "db_tasks d' = db_tasks d"
    "next_uuid d \<le> next_uuid d'" "db_now d' = db_now d"
  shows "db_evolves d d'"
  using assms
  by (intro db_evolvesI) (force simp: get_step_def get_run_def get_task_def ids_ok_def distinct_steps_def)+

lemma add_event_evolves [evolves]: "db_evolves d (add_event e d)"
  by (rule db_evolves_other) (simp_all add: add_event_def)

lemma add_call_evolves [evolves]: "db_evolves d (add_call c d)"
  by (rule db_evolves_other) (simp_all add: add_call_def)

lemma lead_enqueue_evolves [evolves]: "db_evolves d (lead_enqueue row d)"
  by (rule db_evolves_other) (simp_all add: lead_enqueue_def)

lemma add_approval_evolves [evolves]: "db_evolves d (add_approval a d)"
  by (rule db_evolves_other) (simp_all add: add_approval_def)

lemma upd_approval_evolves [evolves]: "db_evolves d (upd_approval k f d)"
  by (rule db_evolves_other) (simp_all add: upd_approval_def)

lemma note_attention_evolves [evolves]: "db_evolves d (note_attention t p d)"
  by (rule db_evolves_other) simp_all

lemma record_review_outcome_evolves [evolves]:
  "db_evolves d (record_review_outcome pf tid rid sid v d)"
  by (rule db_evolves_other) (simp_all add: record_review_outcome_def Let_def)

lemma publish_task_event_evolves [evolves]: "db_evolves d (publish_task_event t d)"
  by (auto simp: publish_task_event_def Let_def split: option.splits
      intro: evolves db_evolves_trans [OF _ lead_enqueue_evolves])

lemma publish_review_event_evolves [evolves]: "db_evolves d (publish_review_event t s d)"
  by (auto simp: publish_review_event_def split: option.splits intro: evolves)

lemma upd_task_evolves [evolves]:
  assumes "\<And>t. task_id (f t) = task_id t"
  shows "db_evolves d (upd_task k f d)"
  using assms
  by (intro db_evolvesI)
    (auto simp: task_store.get_upd ids_ok_def distinct_steps_def)

lemma upd_run_evolves:
  assumes "\<And>r. run_id (f r) = run_id r" and "\<And>r. get_run d k = Some r \<Longrightarrow> run_evolves r (f r)"
  shows "db_evolves d (upd_run k f d)"
  using assms
  by (intro db_evolvesI)
    (auto simp: run_store.get_upd ids_ok_def distinct_steps_def)

lemma ids_ok_keys:
  "map step_id (db_steps d') = map step_id (db_steps d) \<Longrightarrow> next_uuid d' = next_uuid d \<Longrightarrow>
   ids_ok d \<Longrightarrow> ids_ok d'"
  by (simp add: ids_ok_def distinct_steps_def del: set_map)

lemma upd_step_evolves:
  assumes "\<And>s. step_id (f s) = step_id s" and "\<And>s. get_step d k = Some s \<Longrightarrow> step_evolves s (f s)"
  shows "db_evolves d (upd_step k f d)"
proof (rule db_evolvesI)
  assume "ids_ok d"
  then show "ids_ok (upd_step k f d)"
    using assms(1) by (elim ids_ok_keys [rotated -1]) (simp_all add: step_store.keys_upd)
qed (use assms in \<open>auto simp: step_store.get_upd split: if_splits\<close>)

lemma add_step_evolves:
  assumes "step_id s = next_uuid d" "held_status s = None" "step_lease_generation s = 0"
  shows "db_evolves d (add_step s d)"
proof (rule db_evolvesI)
  fix k x
  assume "get_step d k = Some x"
  then show "\<exists>s'. get_step (add_step s d) k = Some s' \<and> step_evolves x s'"
    by (simp add: get_step_def find_row_def add_step_def find_append_Some)
next
  fix k x
  assume "get_step d k = None" "get_step (add_step s d) k = Some x"
  then have "x = s"
    by (auto simp: get_step_def find_row_def add_step_def find_append_None split: if_splits)
  then show "held_status x = None \<and> step_lease_generation x = 0" using assms by simp
next
  assume "ids_ok d"
  then show "ids_ok (add_step s d)"
    using assms(1) by (auto simp: ids_ok_def distinct_steps_def add_step_def)
qed (simp_all add: add_step_def get_run_def get_task_def)

section \<open>Transitions\<close>

lemma transition_step_evolves:
  assumes "transition_step d sid target actor aid payload = Inr d'"
    and "target \<notin> {S_LEASED, S_RUNNING}"
  shows "db_evolves d d'"
  using assms(1)
proof (elim transition_stepE)
  fix s
  assume s: "get_step d sid = Some s" "target \<in> STEP_TRANSITIONS (step_status s)"
    and d': "d' = add_event (status_event ''step'' sid (step_status_value (step_status s))
            (step_status_value target) actor aid payload)
          (upd_step sid (\<lambda>x. x\<lparr>step_status := target, step_version := step_version x + 1\<rparr>) d)"
  have "step_status s \<notin> STEP_TERMINAL" using s(2) step_terminal_no_moves by blast
  then have "step_evolves s (s\<lparr>step_status := target, step_version := step_version s + 1\<rparr>)"
    using assms(2) by (auto simp: step_evolves_def held_status_def final_status_def)
  then show ?thesis
    unfolding d' using s(1)
    by (intro db_evolves_trans [OF _ add_event_evolves] upd_step_evolves) auto
qed

lemma transition_run_evolves:
  assumes "transition_run d rid target actor aid payload = Inr d'"
  shows "db_evolves d d'"
  using assms
proof (elim transition_runE)
  fix r
  assume r: "get_run d rid = Some r" "target \<in> RUN_TRANSITIONS (run_status r)"
    and d': "d' = add_event (status_event ''run'' rid (run_status_value (run_status r))
            (run_status_value target) actor aid payload)
          (upd_run rid (\<lambda>x. x\<lparr>run_status := target, run_version := run_version x + 1\<rparr>) d)"
  have "run_status r \<notin> RUN_TERMINAL" using r(2) run_terminal_no_moves by blast
  then have "run_evolves r (r\<lparr>run_status := target, run_version := run_version r + 1\<rparr>)"
    by (simp add: run_evolves_def final_run_status_def)
  then show ?thesis
    unfolding d' using r(1)
    by (intro db_evolves_trans [OF _ add_event_evolves] upd_run_evolves) auto
qed

lemma transition_task_evolves:
  "transition_task d tid target actor aid payload = Inr d' \<Longrightarrow> db_evolves d d'"
  by (elim transition_taskE)
    (auto intro!: db_evolves_trans [OF _ publish_task_event_evolves]
      db_evolves_trans [OF _ add_event_evolves] upd_task_evolves)

section \<open>Frames of the service\<close>

text \<open>A change of other columns.\<close>

definition columns_kept :: "step \<Rightarrow> step \<Rightarrow> bool" where
  "columns_kept s s' =
     (step_id s' = step_id s \<and> step_run_id s' = step_run_id s \<and> step_ordinal s' = step_ordinal s \<and>
      step_type s' = step_type s \<and> step_dependency_metadata s' = step_dependency_metadata s \<and>
      step_queue_class s' = step_queue_class s \<and>
      step_lease_generation s' = step_lease_generation s \<and>
      (step_lease_owner s' = step_lease_owner s \<or> step_lease_owner s' = None) \<and>
      step_status s' = step_status s)"

lemma columns_kept_evolves: "columns_kept s s' \<Longrightarrow> step_evolves s s'"
  by (simp add: columns_kept_def step_evolves_def held_status_def final_status_def)

lemma columns_kept_trans: "columns_kept a b \<Longrightarrow> columns_kept b c \<Longrightarrow> columns_kept a c"
  by (auto simp: columns_kept_def)

lemma attempt_kept [simp]:
  "columns_kept s (grant_attempt s)" "columns_kept s (refund_attempt s)"
  "columns_kept s (clear_failure s)"
  by (simp_all add: columns_kept_def grant_attempt_def refund_attempt_def clear_failure_def)

lemma clear_attempt_kept [simp]:
  "columns_kept s (clear_failure (grant_attempt s))"
  "columns_kept s (clear_failure (refund_attempt s))"
  by (rule columns_kept_trans [OF attempt_kept(1) attempt_kept(3)],
      rule columns_kept_trans [OF attempt_kept(2) attempt_kept(3)])

lemma resumed_kept [simp]:
  "columns_kept s ((clear_failure (grant_attempt s))\<lparr>step_unknown_effects := u, step_payload := p\<rparr>)"
  "columns_kept s ((clear_failure (grant_attempt s))\<lparr>step_payload := p\<rparr>)"
  by (simp_all add: columns_kept_def clear_failure_def grant_attempt_def)

lemma bind_envelope_kept [simp]: "columns_kept s (bind_envelope a envelope s)"
  by (simp add: columns_kept_def bind_envelope_def)

lemma blank_step_simps [simp]:
  "step_id (blank_step d rid) = next_uuid d" "step_lease_generation (blank_step d rid) = 0"
  "step_run_id (blank_step d rid) = rid" "step_attempt_count (blank_step d rid) = 0"
  by (simp_all add: blank_step_def)

text \<open>The committed step leaves the leased statuses.\<close>

definition released :: "db \<Rightarrow> uuid \<Rightarrow> bool" where
  "released d sid = (\<exists>s. get_step d sid = Some s \<and> held_status s = None)"

lemma released_evolves:
  assumes "db_evolves d d'" "released d sid"
  shows "released d' sid"
proof -
  from assms(2) obtain s where s: "get_step d sid = Some s" "held_status s = None"
    by (auto simp: released_def)
  from db_evolves_step [OF assms(1) s(1)] obtain s' where
    "get_step d' sid = Some s'" "step_evolves s s'" by blast
  then show ?thesis using s(2) by (auto simp: released_def step_evolves_def)
qed

lemma transition_released:
  assumes "transition_step d sid target actor aid payload = Inr d'" "target \<notin> {S_LEASED, S_RUNNING}"
  shows "released d' sid"
  using assms by (elim transition_stepE) (auto simp: released_def step_store.get_upd held_status_def)

text \<open>
  A frame of the service: a preorder on databases that the elementary writes respect. Every
  operation composed of them respects it too. A repair step and the completion of a run are left to
  the extension below.
\<close>

locale workflow_frame =
  fixes R :: "db \<Rightarrow> db \<Rightarrow> bool"
  assumes R_refl: "R d d"
    and R_trans: "R d1 d2 \<Longrightarrow> R d2 d3 \<Longrightarrow> R d1 d3"
    and R_released: "R d d' \<Longrightarrow> released d sid \<Longrightarrow> released d' sid"
    and R_other: "db_steps d' = db_steps d \<Longrightarrow> db_runs d' = db_runs d \<Longrightarrow> db_tasks d' = db_tasks d \<Longrightarrow>
      next_uuid d \<le> next_uuid d' \<Longrightarrow> db_now d' = db_now d \<Longrightarrow> R d d'"
    and R_upd_step: "(\<And>s. columns_kept s (f s)) \<Longrightarrow> R d (upd_step k f d)"
    and R_upd_run: "(\<And>r. run_evolves r (g r) \<and> run_status (g r) = run_status r) \<Longrightarrow> R d (upd_run k g d)"
    and R_upd_task: "(\<And>t. task_id (h t) = task_id t) \<Longrightarrow> R d (upd_task k h d)"
    and R_transition_step: "transition_step d sid st actor aid payload = Inr d' \<Longrightarrow>
      st \<notin> {S_LEASED, S_RUNNING} \<Longrightarrow> R d d'"
    and R_transition_run: "transition_run d rid rt actor aid payload = Inr d' \<Longrightarrow>
      rt \<noteq> R_COMPLETED \<Longrightarrow> R d d'"
    and R_transition_task: "transition_task d tid tt actor aid payload = Inr d' \<Longrightarrow> R d d'"
    and R_add_step: "step_id s = next_uuid d \<Longrightarrow> held_status s = None \<Longrightarrow>
      step_lease_generation s = 0 \<Longrightarrow> \<not> is_repair_step s \<Longrightarrow> R d (add_step s d)"
begin

lemma R_add_event: "R d (add_event e d)"
  by (rule R_other) (simp_all add: add_event_def)

lemma R_add_call: "R d (add_call c d)"
  by (rule R_other) (simp_all add: add_call_def)

lemma R_lead_enqueue: "R d (lead_enqueue row d)"
  by (rule R_other) (simp_all add: lead_enqueue_def)

lemma R_add_approval: "R d (add_approval a d)"
  by (rule R_other) (simp_all add: add_approval_def)

lemma R_upd_approval: "R d (upd_approval k f d)"
  by (rule R_other) (simp_all add: upd_approval_def)

lemma R_record_review_outcome: "R d (record_review_outcome pf tid rid sid v d)"
  by (rule R_other) (simp_all add: record_review_outcome_def Let_def)

lemma R_publish_review_event: "R d (publish_review_event t s d)"
  by (auto simp: publish_review_event_def split: option.splits
      intro: R_refl R_lead_enqueue R_other)

lemma R_emit_recovery_event: "R d (emit_recovery_event rid sid st a d)"
  by (simp add: emit_recovery_event_def R_add_event)

lemma R_project_status: "R d (project_status t target rid d)"
  by (simp add: project_status_def R_add_call R_refl)

lemma moved_then_updated:
  assumes "transition_step d sid target actor aid payload = Inr d1"
    and "target \<notin> {S_LEASED, S_RUNNING}" and "\<And>s. columns_kept s (f s)"
  shows "R d (upd_step sid f d1)"
  by (rule R_trans [OF R_transition_step [OF assms(1,2)] R_upd_step [OF assms(3)]])

lemma R_ensure_result_approval:
  assumes "ensure_result_approval pf d r s steps = Inr d'"
  shows "R d d'"
  using assms
proof (cases rule: ensure_result_approvalE)
  case 1
  then show ?thesis by (simp add: R_refl)
next
  case (2 wt e branch head envelope a)
  show ?thesis
    unfolding "2"(9) by (rule R_trans [OF R_add_approval R_upd_step]) simp
next
  case (3 wt e branch head envelope a d2 ev)
  let ?d1 = "upd_step (step_id s) (bind_envelope a envelope) (add_approval a d)"
  have "R d ?d1" by (rule R_trans [OF R_add_approval R_upd_step]) simp
  moreover have "R ?d1 d2"
    by (rule R_trans [OF R_upd_approval R_transition_step [OF "3"(10)]]) simp
  ultimately have "R d d2" by (rule R_trans)
  then show ?thesis unfolding "3"(11) by (rule R_trans [OF _ R_add_event])
qed

lemma R_activate_one:
  assumes "activate_one pf rid ordinals (acts, d) sid = Inr (acts', d')"
  shows "R d d'"
proof -
  from assms consider "d' = d"
    | "transition_step d sid S_QUEUED ''workflow_manager'' None [] = Inr d'"
    | d1 r s1 steps where "transition_step d sid S_WAITING_APPROVAL ''workflow_manager'' None [] = Inr d1"
        "ensure_result_approval pf d1 r s1 steps = Inr d'"
    by (auto simp: activate_one_def res_simps split: if_splits)
  then show ?thesis
  proof cases
    case 1
    then show ?thesis by (simp add: R_refl)
  next
    case 2
    then show ?thesis by (rule R_transition_step) simp
  next
    case 3
    show ?thesis
      by (rule R_trans [OF R_transition_step [OF "3"(1)] R_ensure_result_approval [OF "3"(2)]]) simp
  qed
qed

lemma R_activate_ready_steps:
  assumes "activate_ready_steps pf d rid = Inr (acts, d')"
  shows "R d d'"
proof -
  from assms consider "d' = d"
    | ordinals sids where "foldE (activate_one pf rid ordinals) ([], d) sids = Inr (acts, d')"
    by (auto simp: activate_ready_steps_def res_simps Let_def split: if_splits)
  then show ?thesis
  proof cases
    case 1
    then show ?thesis by (simp add: R_refl)
  next
    case 2
    have "(\<lambda>(_, x). R d x) (acts, d')"
      using "2"
    proof (rule foldE_invariant)
      show "case ([], d) of (_, x) \<Rightarrow> R d x" by (simp add: R_refl)
    next
      fix sid st st'
      assume "case st of (_, x) \<Rightarrow> R d x" "activate_one pf rid ordinals st sid = Inr st'"
      then show "case st' of (_, x) \<Rightarrow> R d x"
        by (cases st; cases st') (auto intro: R_trans R_activate_one)
    qed
    then show ?thesis by simp
  qed
qed

lemma R_record_corrective_signal:
  "record_corrective_signal scope reason p t r s d = Inr d' \<Longrightarrow> R d d'"
  by (auto simp: record_corrective_signal_def Let_def split: option.splits if_splits
      intro: R_add_event R_trans [OF R_add_event R_lead_enqueue])

lemma R_resume_after_capability_preflight:
  "resume_after_capability_preflight d rid s = Inr d' \<Longrightarrow> R d d'"
  by (auto simp: resume_after_capability_preflight_def res_simps
      split: json.splits option.splits if_splits intro: R_refl intro!: moved_then_updated)

lemma R_resume_after_validation_environment:
  "resume_after_validation_environment d rid s = Inr d' \<Longrightarrow> R d d'"
  by (auto simp: resume_after_validation_environment_def res_simps
      split: json.splits option.splits if_splits intro: R_refl intro!: moved_then_updated)

lemma R_resume_repaired_step:
  assumes "resume_repaired_step d rid s = Inr (b, d')"
  shows "R d d'"
proof -
  from assms consider "d' = d"
    | target validation where "d' = add_step (revalidation_step d rid target validation s) d"
    | d1 k p ev where "transition_step d k S_QUEUED ''workflow_manager'' None [] = Inr d1"
        "d' = add_event ev (upd_step k (\<lambda>x. (clear_failure (grant_attempt x))
           \<lparr>step_unknown_effects := False, step_payload := p x\<rparr>) d1)"
    by (auto simp: resume_repaired_step_def res_simps split: option.splits if_splits)
  then show ?thesis
  proof cases
    case 1
    then show ?thesis by (simp add: R_refl)
  next
    case 2
    show ?thesis
      unfolding "2"
      by (rule R_add_step) (simp_all add: revalidation_step_def held_status_def is_repair_step_def)
  next
    case 3
    show ?thesis
      unfolding "3"(2) by (rule R_trans [OF moved_then_updated [OF "3"(1)] R_add_event]) simp_all
  qed
qed

lemma R_resume_review_after_validation:
  assumes "resume_review_after_validation d rid s = Inr (b, d')"
  shows "R d d'"
proof -
  from assms consider "d' = d"
    | d1 k p where "transition_step d k S_QUEUED ''workflow_manager'' None [] = Inr d1"
        "d' = upd_step k (\<lambda>x. (clear_failure (grant_attempt x))\<lparr>step_payload := p x\<rparr>) d1"
    by (auto simp: resume_review_after_validation_def res_simps split: option.splits if_splits)
  then show ?thesis
  proof cases
    case 1
    then show ?thesis by (simp add: R_refl)
  next
    case 2
    show ?thesis unfolding "2"(2) by (rule moved_then_updated [OF "2"(1)]) simp_all
  qed
qed

end

interpretation evolution: workflow_frame db_evolves
proof (rule workflow_frame.intro)
  show "db_evolves d d'" if "db_steps d' = db_steps d" "db_runs d' = db_runs d"
      "db_tasks d' = db_tasks d" "next_uuid d \<le> next_uuid d'" "db_now d' = db_now d" for d d' :: db
    using that by (rule db_evolves_other)
  show "db_evolves d (upd_step k f d)" if "\<And>s. columns_kept s (f s)" for f d k
    by (rule upd_step_evolves) (use that in \<open>simp_all add: columns_kept_evolves columns_kept_def\<close>)
  show "db_evolves d (upd_run k g d)" if "\<And>r. run_evolves r (g r) \<and> run_status (g r) = run_status r"
    for g d k
    by (rule upd_run_evolves) (use that in \<open>simp_all add: run_evolves_def\<close>)
  show "db_evolves d (upd_task k h d)" if "\<And>t. task_id (h t) = task_id t" for h d k
    using that by (rule upd_task_evolves)
  show "db_evolves d (add_step s d)" if "step_id s = next_uuid d" "held_status s = None"
      "step_lease_generation s = 0" "\<not> is_repair_step s" for s d
    using that(1-3) by (rule add_step_evolves)
  show "db_evolves d d'" if "transition_step d sid st actor aid payload = Inr d'"
      "st \<notin> {S_LEASED, S_RUNNING}" for d sid st actor aid payload d'
    using that by (rule transition_step_evolves)
  show "db_evolves d d'" if "transition_run d rid rt actor aid payload = Inr d'" "rt \<noteq> R_COMPLETED"
    for d rid rt actor aid payload d'
    using that(1) by (rule transition_run_evolves)
qed (fact db_evolves_refl db_evolves_trans released_evolves transition_task_evolves)+

end
