(* ===== verification/Workflow_Commit.thy ===== *)
theory Workflow_Commit
  imports Workflow_Frame
begin

text \<open>
  The branches of the fenced commit of a step outcome (\<open>commit_step_outcome\<close> of
  \<^verbatim>\<open>workflows/service.py\<close>), over the frames of the service: what each branch changes, that
  it releases the committed step, and the elimination rule of the whole commit.
\<close>

section \<open>Cases\<close>

lemma schedule_bounded_repair_cases:
  assumes "schedule_bounded_repair pf d r failed outcome policy = Inr (b, d')"
  obtains (unchanged) "\<not> b" "d' = d"
  | (declined) st action where "\<not> b"
      "d' = emit_recovery_event (run_id r) (step_id failed) st action d"
  | (scheduled) st components t worker repair d1 d2 ev where "b"
      "build_recovery_state pf d r failed outcome policy = Inr (st, components)"
      "decide_recovery st policy = REPAIR" "get_task d (run_task_id r) = Some t"
      "d1 = emit_recovery_event (run_id r) (step_id failed) st REPAIR d"
      "repair = repair_step d1 (run_id r) failed worker outcome st (task_budget_epoch t)"
      "transition_step (add_step repair d1) (step_id failed) S_BLOCKED ''workflow_manager'' None [] = Inr d2"
      "d' = add_event ev (upd_step (step_id failed) (\<lambda>s. s
         \<lparr>step_failure_category := so_category outcome, step_failure_summary := so_summary outcome,
          step_result := Some (so_result outcome), step_unknown_effects := False,
          step_payload := repair_entries (step_payload s) st components
            (task_budget_epoch t) (step_id repair)\<rparr>) d2)"
proof -
  show thesis
  proof (cases "step_type failed = ''review'' \<and>
      py_truthy (jget (step_payload failed) ''review_only_recovery'')")
    case True
    then show thesis using assms unchanged by (simp add: schedule_bounded_repair_def)
  next
    case False
    show thesis
    proof (cases "get_task d (run_task_id r)")
      case None
      then show thesis using assms False unchanged by (auto simp: schedule_bounded_repair_def)
    next
      case (Some t)
      from assms False Some obtain st components where
        b: "build_recovery_state pf d r failed outcome policy = Inr (st, components)"
        by (auto simp: schedule_bounded_repair_def res_simps)
      let ?d1 = "emit_recovery_event (run_id r) (step_id failed) st (decide_recovery st policy) d"
      show thesis
      proof (cases "decide_recovery st policy = REPAIR")
        case no: False
        then show thesis using assms False Some b
          by (intro declined [of st "decide_recovery st policy"])
            (auto simp: schedule_bounded_repair_def Let_def)
      next
        case repair: True
        show thesis
        proof (cases "completed_of_type ?d1 (run_id r) {''execute_code'', ''execute_agent''}")
          case None
          then show thesis using assms False Some b repair
            by (intro declined [of st "decide_recovery st policy"])
              (auto simp: schedule_bounded_repair_def Let_def)
        next
          case (Some worker)
          with assms False \<open>get_task d (run_task_id r) = Some t\<close> b repair show thesis
            by (auto simp: schedule_bounded_repair_def Let_def res_simps
                intro: scheduled [OF _ b repair])
        qed
      qed
    qed
  qed
qed

lemma repair_step_simps [simp]:
  "step_id (repair_step d rid failed worker outcome st epoch) = next_uuid d"
  "step_run_id (repair_step d rid failed worker outcome st epoch) = rid"
  "step_status (repair_step d rid failed worker outcome st epoch) = S_QUEUED"
  "step_lease_generation (repair_step d rid failed worker outcome st epoch) = 0"
  "step_attempt_count (repair_step d rid failed worker outcome st epoch) = 0"
  "step_max_attempts (repair_step d rid failed worker outcome st epoch) = 1"
  "is_repair_step (repair_step d rid failed worker outcome st epoch)"
  by (simp_all add: repair_step_def is_repair_step_def)

lemma emit_recovery_event_frame [simp]:
  "db_steps (emit_recovery_event rid sid st a d) = db_steps d"
  "db_runs (emit_recovery_event rid sid st a d) = db_runs d"
  "db_tasks (emit_recovery_event rid sid st a d) = db_tasks d"
  "next_uuid (emit_recovery_event rid sid st a d) = next_uuid d"
  "db_now (emit_recovery_event rid sid st a d) = db_now d"
  "get_step (emit_recovery_event rid sid st a d) = get_step d"
  "get_run (emit_recovery_event rid sid st a d) = get_run d"
  "get_task (emit_recovery_event rid sid st a d) = get_task d"
  by (simp_all add: emit_recovery_event_def)

lemma schedule_capability_preflight_cases:
  assumes "schedule_capability_preflight d r target outcome = (b, d')"
  obtains (unchanged) "\<not> b" "d' = d"
  | (scheduled) environment p ev where "b"
      "d' = add_event ev (upd_step (step_id target)
         (\<lambda>s. s\<lparr>step_payload := p s\<rparr>)
         (add_step (preflight_step d (run_id r) target environment) d))"
  using assms
  by (auto simp: schedule_capability_preflight_def Let_def split: option.splits if_splits)

lemma settle_task_cases:
  assumes "settle_task tid rid sid kind d = Inr d'"
  obtains (moved) t s d1 r d2 t' target where "get_task d tid = Some t" "get_step d sid = Some s"
      "d1 = (if step_type s = ''review'' then publish_review_event t s d else d)"
      "get_run d1 rid = Some r" "target = derive_task_status (steps_for_run d1 rid) (run_status r)"
      "target \<noteq> task_status t" "transition_task d1 tid target ''workflow_manager'' None [] = Inr d2"
      "get_task d2 tid = Some t'" "d' = project_status t' target rid d2"
  | (stayed) t s d1 r where "get_task d tid = Some t" "get_step d sid = Some s"
      "d1 = (if step_type s = ''review'' then publish_review_event t s d else d)"
      "get_run d1 rid = Some r"
      "task_status t = derive_task_status (steps_for_run d1 rid) (run_status r)"
      "d' = d1 \<or> record_task_progress tid rid sid ''completed'' d1 = Inr d'"
proof -
  from assms obtain t s where ts: "get_task d tid = Some t" "get_step d sid = Some s"
    by (auto simp: settle_task_def res_simps held_task_def held_step_def split: option.splits)
  let ?d1 = "if step_type s = ''review'' then publish_review_event t s d else d"
  from assms ts obtain r where r: "get_run ?d1 rid = Some r"
    by (auto simp: settle_task_def Let_def res_simps held_task_def held_step_def held_run_def
        split: option.splits if_splits)
  show thesis
  proof (cases "derive_task_status (steps_for_run ?d1 rid) (run_status r) = task_status t")
    case True
    then show thesis using assms ts r
      by (intro stayed [OF ts refl r])
        (auto simp: settle_task_def Let_def res_simps held_task_def held_step_def held_run_def
          split: if_splits)
  next
    case False
    with assms ts r obtain d2 t' where
      "transition_task ?d1 tid (derive_task_status (steps_for_run ?d1 rid) (run_status r))
         ''workflow_manager'' None [] = Inr d2"
      "get_task d2 tid = Some t'"
      "d' = project_status t' (derive_task_status (steps_for_run ?d1 rid) (run_status r)) rid d2"
      by (auto simp: settle_task_def Let_def res_simps held_task_def held_step_def held_run_def
          split: if_splits option.splits)
    then show thesis using False by (intro moved [OF ts refl r refl]) auto
  qed
qed

section \<open>Branches of the commit\<close>

context workflow_frame
begin

lemma R_schedule_capability_preflight:
  assumes "schedule_capability_preflight d r target outcome = (b, d')"
  shows "R d d'"
  using assms
proof (cases rule: schedule_capability_preflight_cases)
  case unchanged
  then show ?thesis by (simp add: R_refl)
next
  case (scheduled environment p ev)
  let ?s = "preflight_step d (run_id r) target environment"
  have "R d (add_step ?s d)"
    by (rule R_add_step) (simp_all add: preflight_step_def held_status_def is_repair_step_def)
  moreover have "R (add_step ?s d) d'"
    unfolding scheduled(2)
    by (rule R_trans [OF R_upd_step R_add_event]) (simp add: columns_kept_def)
  ultimately show ?thesis by (rule R_trans)
qed

text \<open>A branch of the commit is good when it respects the frame and releases the step.\<close>

definition settles :: "db \<Rightarrow> uuid \<Rightarrow> db \<Rightarrow> bool" where
  "settles d sid d' = (R d d' \<and> released d' sid)"

lemma settles_then: "settles d sid d1 \<Longrightarrow> R d1 d2 \<Longrightarrow> settles d sid d2"
  unfolding settles_def using R_trans R_released by blast

lemma R_settles: "R d d1 \<Longrightarrow> settles d1 sid d2 \<Longrightarrow> settles d sid d2"
  unfolding settles_def using R_trans by blast

lemma transition_settles:
  "transition_step d sid target actor aid payload = Inr d' \<Longrightarrow> target \<notin> {S_LEASED, S_RUNNING} \<Longrightarrow>
   settles d sid d'"
  by (simp add: settles_def R_transition_step transition_released)

lemma block_for_attention_settles:
  assumes "block_for_attention d rid sid = Inr d'"
  shows "settles d sid d'"
proof -
  from assms obtain d1 d2 and r :: run where
    t: "transition_step d sid S_BLOCKED ''worker'' None [] = Inr d1"
      "transition_run d1 rid R_BLOCKED ''worker'' None [] = Inr d2"
      "record_corrective_signal ''blocked_attention'' ''blocked_attention'' None
         (Some (run_task_id r)) (Some rid) (Some sid) d2 = Inr d'"
    by (simp add: block_for_attention_def res_simps) blast
  have "settles d sid d1" by (rule transition_settles [OF t(1)]) simp
  moreover have "R d1 d2" by (rule R_transition_run [OF t(2)]) simp
  moreover have "R d2 d'" by (rule R_record_corrective_signal [OF t(3)])
  ultimately show ?thesis by (blast intro: settles_then)
qed

lemma commit_success_settles:
  assumes "commit_success pf d r s outcome = Inr d'"
  shows "settles d (step_id s) d'"
proof -
  from assms obtain d1 where d1: "transition_step d (step_id s) S_COMPLETED ''worker'' None [] = Inr d1"
    and d': "d' = (let d2 = upd_step (step_id s) (\<lambda>x. x\<lparr>step_result := Some (so_result outcome)\<rparr>) d1
     in (if step_type s = ''review'' \<and> py_truthy (jget (so_result outcome) ''verdict'')
         then record_review_outcome pf (run_task_id r) (run_id r) (step_id s) (so_result outcome) d2
         else d2))"
    by (auto simp: commit_success_def res_simps Let_def)
  have "R d1 (upd_step (step_id s) (\<lambda>x. x\<lparr>step_result := Some (so_result outcome)\<rparr>) d1)"
    by (rule R_upd_step) (simp add: columns_kept_def)
  then have "R d1 d'"
    unfolding d' Let_def using R_record_review_outcome R_trans by auto
  then show ?thesis using settles_then [OF transition_settles [OF d1]] by simp
qed

lemma commit_transient_settles:
  assumes "commit_transient pf d r s outcome delay policy = Inr d'"
  shows "settles d (step_id s) d'"
proof -
  from assms obtain st components where
    b: "build_recovery_state pf d r s outcome policy = Inr (st, components)"
    by (auto simp: commit_transient_def res_simps)
  let ?d1 = "emit_recovery_event (run_id r) (step_id s) st (decide_recovery st policy) d"
  from b assms consider d2 f where
      "transition_step ?d1 (step_id s) S_QUEUED ''worker'' None [] = Inr d2"
      "\<And>x. columns_kept x (f x)" "d' = upd_step (step_id s) f d2"
    | "block_for_attention ?d1 (run_id r) (step_id s) = Inr d'"
  proof (cases "decide_recovery st policy")
    case WAIT
    with b assms obtain d2 where d2: "transition_step ?d1 (step_id s) S_QUEUED ''worker'' None [] = Inr d2"
      and d': "d' = upd_step (step_id s) (\<lambda>x. (refund_attempt x)
        \<lparr>step_available_at := db_now d + delay,
         step_payload := jput (step_payload x) ''backpressure_count''
           (JInt (rs_backpressure_count st + 1))\<rparr>) d2"
      by (auto simp: commit_transient_def res_simps)
    show thesis by (rule that(1) [OF d2 _ d']) (simp add: columns_kept_def refund_attempt_def)
  next
    case RETRY
    with b assms obtain d2 where d2: "transition_step ?d1 (step_id s) S_QUEUED ''worker'' None [] = Inr d2"
      and d': "d' = upd_step (step_id s) (\<lambda>x. x\<lparr>step_available_at := db_now d + delay\<rparr>) d2"
      by (auto simp: commit_transient_def res_simps)
    show thesis by (rule that(1) [OF d2 _ d']) (simp add: columns_kept_def)
  qed (auto simp: commit_transient_def res_simps)
  then have "settles ?d1 (step_id s) d'"
    by cases (auto intro: block_for_attention_settles settles_then [OF transition_settles]
        R_upd_step)
  then show ?thesis by (rule R_settles [OF R_emit_recovery_event])
qed

lemma commit_needs_input_settles:
  assumes "commit_needs_input d r s = Inr d'"
  shows "settles d (step_id s) d'"
proof -
  from assms obtain d1 where "transition_step d (step_id s) S_AWAITING_USER ''worker'' None [] = Inr d1"
    "transition_run d1 (run_id r) R_AWAITING_USER ''worker'' None [] = Inr d'"
    by (auto simp: commit_needs_input_def res_simps)
  then show ?thesis using settles_then transition_settles R_transition_run by blast
qed

lemma commit_failed_settles:
  assumes "commit_failed d r s = Inr d'"
  shows "settles d (step_id s) d'"
proof -
  from assms obtain d1 where "transition_step d (step_id s) S_FAILED ''worker'' None [] = Inr d1"
    "transition_run d1 (run_id r) R_FAILED ''worker'' None [] = Inr d'"
    by (auto simp: commit_failed_def res_simps)
  then show ?thesis using settles_then transition_settles R_transition_run by blast
qed

lemma commit_needs_approval_settles:
  assumes "commit_needs_approval d s = Inr d'"
  shows "settles d (step_id s) d'"
proof -
  from assms consider d1 where "transition_step d (step_id s) S_QUEUED ''worker'' None [] = Inr d1"
      "d' = upd_step (step_id s) refund_attempt d1"
    | "transition_step d (step_id s) S_WAITING_APPROVAL ''worker'' None [] = Inr d'"
    by (auto simp: commit_needs_approval_def res_simps split: if_splits)
  then show ?thesis
  proof cases
    case 1
    then show ?thesis
      using settles_then [OF transition_settles [OF "1"(1)]] R_upd_step [of refund_attempt d1]
      by simp
  next
    case 2
    then show ?thesis by (rule transition_settles) simp
  qed
qed

lemma commit_preflight_settles:
  assumes "commit_preflight pf d r s outcome = Inr d'"
  shows "settles d (step_id s) d'"
proof -
  obtain b d1 where p: "schedule_capability_preflight d r s outcome = (b, d1)" by fastforce
  have e: "R d d1" by (rule R_schedule_capability_preflight [OF p])
  from assms p consider d2 acts where
      "transition_step d1 (step_id s) S_BLOCKED ''capability_inventory'' None [] = Inr d2"
      "activate_ready_steps pf d2 (run_id r) = Inr (acts, d')"
    | "block_for_attention d1 (run_id r) (step_id s) = Inr d'"
    by (auto simp: commit_preflight_def res_simps split: if_splits)
  then have "settles d1 (step_id s) d'"
    by cases (auto intro: block_for_attention_settles settles_then transition_settles
        R_activate_ready_steps)
  then show ?thesis by (rule R_settles [OF e])
qed

lemma commit_blocked_unscheduled:
  assumes "block_for_attention d (run_id r) (step_id s) = Inr d1"
    "d' = upd_step (step_id s) (\<lambda>x. x\<lparr>step_unknown_effects := u\<rparr>) d1"
  shows "settles d (step_id s) d'"
  unfolding assms(2)
  by (rule settles_then [OF block_for_attention_settles [OF assms(1)] R_upd_step])
    (simp add: columns_kept_def)

lemma R_note_failure:
  assumes "note_failure rid sid outcome d = Inr d'"
  shows "R d d'"
proof (cases "so_kind outcome = SUCCEEDED")
  case True
  then show ?thesis using assms by (simp add: note_failure_def R_refl)
next
  case False
  let ?d1 = "upd_step sid (\<lambda>x. x\<lparr>step_failure_category := so_category outcome,
      step_failure_summary := so_summary outcome\<rparr>) d"
  let ?d2 = "upd_run rid (\<lambda>x. x\<lparr>run_failure_category := so_category outcome,
      run_failure_summary := so_summary outcome\<rparr>) ?d1"
  have e1: "R d ?d1" by (rule R_upd_step) (simp add: columns_kept_def)
  have e2: "R ?d1 ?d2"
    by (rule R_upd_run) (simp_all add: run_evolves_def final_run_status_def)
  from assms False have "d' = ?d1 \<or> d' = ?d2 \<or>
      d' = add_call (AbandonCapabilityInstallation sid ''leader_unavailable'') ?d2"
    by (auto simp: note_failure_def Let_def res_simps split: if_splits)
  then show ?thesis
  proof (elim disjE)
    assume "d' = ?d1"
    then show ?thesis using e1 by simp
  next
    assume "d' = ?d2"
    then show ?thesis using R_trans [OF e1 e2] by simp
  next
    assume d': "d' = add_call (AbandonCapabilityInstallation sid ''leader_unavailable'') ?d2"
    show ?thesis
      unfolding d' by (rule R_trans [OF R_trans [OF e1 e2] R_add_call])
  qed
qed

lemma R_release_lease: "R d (release_lease sid d)"
  unfolding release_lease_def by (rule R_upd_step) (simp add: columns_kept_def)

text \<open>Only the last operation after a completed step may complete the run.\<close>

lemma after_completion_frame:
  assumes "after_completion pf rid sid d = Inr d'"
  obtains d1 b where "R d d1" "d' = d1 \<or> finalize_if_complete d1 rid = Inr (b, d')"
proof -
  from assms consider "d' = d"
    | s d1 d2 d3 d4 d5 b3 b4 acts b where "resume_after_validation_environment d rid s = Inr d1"
        "resume_after_capability_preflight d1 rid s = Inr d2"
        "resume_repaired_step d2 rid s = Inr (b3, d3)"
        "resume_review_after_validation d3 rid s = Inr (b4, d4)"
        "activate_ready_steps pf d4 rid = Inr (acts, d5)" "finalize_if_complete d5 rid = Inr (b, d')"
    by (auto simp: after_completion_def res_simps split: if_splits)
  then show thesis
  proof cases
    case 1
    then show thesis using that R_refl by blast
  next
    case 2
    then have "R d d1" "R d1 d2" "R d2 d3" "R d3 d4" "R d4 d5"
      by (auto intro: R_resume_after_validation_environment R_resume_after_capability_preflight
          R_resume_repaired_step R_resume_review_after_validation R_activate_ready_steps)
    then have "R d d5" by (blast intro: R_trans)
    then show thesis using that "2"(6) by blast
  qed
qed

lemma R_record_task_progress:
  assumes "record_task_progress tid rid sid phase d = Inr d'"
  shows "R d d'"
proof -
  from assms obtain c e where "d' = d \<or>
      d' = add_call c (add_event e (upd_task tid (\<lambda>x. x\<lparr>task_version := task_version x + 1\<rparr>) d))"
    by (auto simp: record_task_progress_def res_simps split: if_splits)
  moreover have "R d (upd_task tid (\<lambda>x. x\<lparr>task_version := task_version x + 1\<rparr>) d)"
    by (rule R_upd_task) simp
  ultimately show ?thesis
    using R_trans [OF R_trans [OF _ R_add_event] R_add_call]
    by (elim disjE) (simp_all add: R_refl)
qed

lemma R_settle_task:
  assumes "settle_task tid rid sid kind d = Inr d'"
  shows "R d d'"
  using assms
proof (cases rule: settle_task_cases)
  case (moved t s d1 r d2 t' target)
  have "R d d1" unfolding moved(3) by (simp add: R_publish_review_event R_refl)
  moreover have "R d1 d2" by (rule R_transition_task [OF moved(7)])
  moreover have "R d2 d'" unfolding moved(9) by (rule R_project_status)
  ultimately show ?thesis by (blast intro: R_trans)
next
  case (stayed t s d1 r)
  have "R d d1" unfolding stayed(3) by (simp add: R_publish_review_event R_refl)
  moreover have "R d1 d'" using stayed(6) R_record_task_progress R_refl by blast
  ultimately show ?thesis by (rule R_trans)
qed

lemma R_unscheduled:
  assumes "schedule_bounded_repair pf d r s outcome policy = Inr (False, d')"
  shows "R d d'"
  using assms by (cases rule: schedule_bounded_repair_cases) (simp_all add: R_refl R_emit_recovery_event)

text \<open>Every branch settles the step within the frame, or has scheduled a repair.\<close>

lemma commit_blocked_frame:
  assumes "commit_blocked pf d r s outcome policy = Inr d'"
  obtains (settled) "settles d (step_id s) d'"
  | (repaired) d1 where "R d d1" "schedule_bounded_repair pf d1 r s outcome policy = Inr (True, d')"
proof -
  let ?d1 = "if py_truthy (jget (so_result outcome) ''verdict'')
    then record_review_outcome pf (run_task_id r) (run_id r) (step_id s) (so_result outcome) d else d"
  have e: "R d ?d1" by (simp add: R_record_review_outcome R_refl)
  from assms consider
      "schedule_bounded_repair pf ?d1 r s outcome policy = Inr (True, d')"
    | d2 d3 where "schedule_bounded_repair pf ?d1 r s outcome policy = Inr (False, d2)"
        "block_for_attention d2 (run_id r) (step_id s) = Inr d3"
        "d' = upd_step (step_id s) (\<lambda>x. x\<lparr>step_unknown_effects := so_unknown_effects outcome\<rparr>) d3"
    by (auto simp: commit_blocked_def Let_def res_simps split: if_splits)
  then show thesis
  proof cases
    case 1
    then show thesis using repaired e by blast
  next
    case 2
    have "settles d2 (step_id s) d'" by (rule commit_blocked_unscheduled [OF "2"(2,3)])
    then show thesis using settled R_settles [OF R_trans [OF e R_unscheduled [OF "2"(1)]]] by blast
  qed
qed

lemma commit_kind_frame:
  assumes "commit_kind pf d r s outcome delay policy = Inr d'"
  obtains (settled) "settles d (step_id s) d'"
  | (repaired) d1 where "R d d1" "schedule_bounded_repair pf d1 r s outcome policy = Inr (True, d')"
proof (cases "commit_blocked pf d r s outcome policy = Inr d'")
  case True
  then show thesis using settled repaired by (rule commit_blocked_frame)
next
  case False
  then have "settles d (step_id s) d'"
    using assms unfolding commit_kind_def
    by (auto split: if_splits intro: commit_success_settles commit_transient_settles
        commit_needs_input_settles commit_needs_approval_settles commit_preflight_settles
        commit_failed_settles transition_settles)
  then show thesis by (rule settled)
qed

end

text \<open>On the evolution of the database also repairs and completed runs are covered.\<close>

lemma schedule_bounded_repair_evolves:
  assumes "schedule_bounded_repair pf d r failed outcome policy = Inr (True, d')"
  shows "evolution.settles d (step_id failed) d'"
  using assms
proof (cases rule: schedule_bounded_repair_cases)
  case (scheduled st components t worker repair d1 d2 ev)
  have "db_evolves d d1" unfolding scheduled(5) by (rule evolution.R_emit_recovery_event)
  moreover have "db_evolves d1 (add_step repair d1)"
    unfolding scheduled(6) by (rule add_step_evolves) (simp_all add: held_status_def)
  moreover have "evolution.settles (add_step repair d1) (step_id failed) d2"
    by (rule evolution.transition_settles [OF scheduled(7)]) simp
  moreover have "db_evolves d2 d'"
    unfolding scheduled(8)
    by (rule db_evolves_trans [OF evolution.R_upd_step add_event_evolves]) (simp add: columns_kept_def)
  ultimately show ?thesis
    using evolution.R_settles evolution.settles_then by blast
qed simp_all

lemma commit_kind_settles:
  assumes "commit_kind pf d r s outcome delay policy = Inr d'"
  shows "evolution.settles d (step_id s) d'"
  using assms
proof (cases rule: evolution.commit_kind_frame)
  case settled
  then show ?thesis .
next
  case (repaired d1)
  show ?thesis by (rule evolution.R_settles [OF repaired(1) schedule_bounded_repair_evolves [OF repaired(2)]])
qed

lemma finalize_if_complete_cases:
  assumes "finalize_if_complete d rid = Inr (b, d')"
  obtains (unchanged) "d' = d"
  | (completed) r d1 where "get_run d rid = Some r" "run_status r = R_RUNNING"
      "\<forall>s \<in> set (steps_for_run d rid). step_status s = S_COMPLETED" "steps_for_run d rid \<noteq> []"
      "\<not> effect_unsettled d (step_id ` set (steps_for_run d rid))"
      "transition_run d rid R_COMPLETED ''workflow_manager'' None [] = Inr d1"
      "d' = upd_run rid (\<lambda>x. x\<lparr>run_ended_at := Some (db_now d)\<rparr>) d1"
  using assms
  by (auto simp: finalize_if_complete_def res_simps Let_def held_run_def split: if_splits option.splits)

lemma finalize_if_complete_evolves:
  assumes "finalize_if_complete d rid = Inr (b, d')"
  shows "db_evolves d d'"
  using assms
proof (cases rule: finalize_if_complete_cases)
  case unchanged
  then show ?thesis by (simp add: db_evolves_refl)
next
  case (completed r d1)
  have "db_evolves d1 d'"
    unfolding completed(7) by (rule evolution.R_upd_run) (simp add: run_evolves_def final_run_status_def)
  then show ?thesis by (rule db_evolves_trans [OF transition_run_evolves [OF completed(6)]])
qed

lemma after_completion_evolves:
  assumes "after_completion pf rid sid d = Inr d'"
  shows "db_evolves d d'"
  using evolution.after_completion_frame [OF assms] finalize_if_complete_evolves db_evolves_trans
  by metis

section \<open>The whole commit\<close>

text \<open>The guards of a commit and the policy it uses.\<close>

definition commit_policy :: "run \<Rightarrow> recovery_policy option \<Rightarrow> error + recovery_policy" where
  "commit_policy r recovery_policy =
     (if run_execution_contract_version r = Some ''execution-contract.v2''
      then pinned_recovery_policy r
      else Inr (case recovery_policy of None \<Rightarrow> DEFAULT_RECOVERY_POLICY | Some p \<Rightarrow> p))"

lemma lock_task_run_step_Some:
  "lock_task_run_step d sid = Some (t, r, s) \<longleftrightarrow>
   get_step d sid = Some s \<and> get_run d (step_run_id s) = Some r \<and> get_task d (run_task_id r) = Some t"
  by (auto simp: lock_task_run_step_def split: option.splits)

lemma commit_step_outcomeE:
  assumes "commit_step_outcome pf d token outcome delay rp = Inr d'"
  obtains t r s policy d1 d2 d3 where
    "get_step d (sr_id (tok_step token)) = Some s" "get_run d (step_run_id s) = Some r"
    "get_task d (run_task_id r) = Some t" "step_id s = sr_id (tok_step token)"
    "run_id r = step_run_id s" "task_id t = run_task_id r" "commit_policy r rp = Inr policy"
    "step_lease_owner s = Some (tok_owner token)" "step_lease_generation s = tok_generation token"
    "step_status s \<in> {S_LEASED, S_RUNNING}"
    "run_status r \<notin> {R_CANCELLED, R_FAILED, R_COMPLETED, R_PAUSED}"
    "commit_kind pf d r s outcome delay policy = Inr d1"
    "note_failure (run_id r) (step_id s) outcome d1 = Inr d2"
    "after_completion pf (run_id r) (step_id s) (release_lease (step_id s) d2) = Inr d3"
    "settle_task (run_task_id r) (run_id r) (step_id s) (so_kind outcome) d3 = Inr d'"
proof -
  from assms obtain t r s where l: "lock_task_run_step d (sr_id (tok_step token)) = Some (t, r, s)"
    by (auto simp: commit_step_outcome_def Let_def split: option.splits)
  note rows = l [unfolded lock_task_run_step_Some]
  then have ids: "step_id s = sr_id (tok_step token)" "run_id r = step_run_id s"
      "task_id t = run_task_id r"
    by (auto simp: get_step_def get_run_def get_task_def dest!: find_row_Some)
  show thesis
    using assms l rows ids
    by (auto simp: commit_step_outcome_def Let_def res_simps commit_policy_def [symmetric]
        split: if_splits intro!: that)
qed

end
