(* ===== verification/Workflow_Samples.thy ===== *)
theory Workflow_Samples
  imports Workflow_Commit
begin

text \<open>
  Concrete databases of the workflow service: a run whose step is being executed by a worker, a run
  whose second step waits for the first, and the database after a commit.
\<close>

definition running_step :: step where
  "running_step = sample_step\<lparr>step_status := S_RUNNING, step_lease_owner := Some ''w'',
     step_lease_expires_at := Some 70, step_lease_generation := 1, step_attempt_count := 1\<rparr>"

definition running_db :: db where
  "running_db = sample_db\<lparr>db_steps := [running_step]\<rparr>"

definition running_token :: lease_token where
  "running_token = \<lparr>tok_step = step_record_of running_step, tok_owner = ''w'', tok_generation = 1\<rparr>"

definition waiting_step :: step where
  "waiting_step = sample_step\<lparr>step_id := 5, step_ordinal := 2, step_status := S_PENDING,
     step_type := ''validate'',
     step_dependency_metadata := [(''predecessor_ordinals'', JList [JInt 1])]\<rparr>"

definition waiting_db :: db where
  "waiting_db = sample_db\<lparr>db_steps := [sample_step\<lparr>step_status := S_COMPLETED\<rparr>, waiting_step]\<rparr>"

definition unknown_outcome :: step_outcome where
  "unknown_outcome = \<lparr>so_kind = BLOCKED, so_result = [], so_category = Some ''executor_crashed'',
     so_summary = None, so_unknown_effects = True\<rparr>"

definition blocked_outcome :: step_outcome where
  "blocked_outcome = \<lparr>so_kind = BLOCKED, so_result = [], so_category = Some ''validation_failed'',
     so_summary = None, so_unknown_effects = False\<rparr>"

text \<open>The result of an operation that returns one.\<close>

definition result_or :: "'a \<Rightarrow> error + 'a \<Rightarrow> 'a" where
  "result_or x r = (case r of Inl _ \<Rightarrow> x | Inr y \<Rightarrow> y)"

lemma result_or_Inr: "(case r of Inl _ \<Rightarrow> False | Inr _ \<Rightarrow> True) \<Longrightarrow> r = Inr (result_or x r)"
  by (cases r) (simp_all add: result_or_def)

definition committed_db :: "step_outcome \<Rightarrow> db" where
  "committed_db outcome =
     result_or running_db (commit_step_outcome sample_platform running_db running_token outcome 0 None)"

lemma succeeded_commit:
  "commit_step_outcome sample_platform running_db running_token (outcome_succeeded []) 0 None =
   Inr (committed_db (outcome_succeeded []))"
  unfolding committed_db_def by (rule result_or_Inr) code_simp

lemma running_rows:
  "get_step running_db (sr_id (tok_step running_token)) = Some running_step"
  "get_run running_db (step_run_id running_step) = Some sample_run"
  "get_run running_db 2 = Some sample_run"
  by (simp_all add: running_db_def running_token_def running_step_def step_record_of_def sample_defs
      get_step_def get_run_def find_row_def)

text \<open>Blocking for attention and what follows, whatever recovery event was written before.\<close>

definition blocked_run :: run where
  "blocked_run = sample_run\<lparr>run_status := R_BLOCKED, run_version := 2\<rparr>"

definition blocked_step :: step where
  "blocked_step = running_step\<lparr>step_status := S_BLOCKED, step_version := 2\<rparr>"

lemma blocked_rows:
  "\<exists>evs. block_for_attention (add_event e running_db) 2 3 =
     Inr (running_db\<lparr>db_events := evs, db_steps := [blocked_step], db_runs := [blocked_run]\<rparr>)"
  by (simp add: check_transition_def block_for_attention_def transition_step_def transition_run_def running_db_def
      running_step_def sample_defs get_step_def get_run_def find_row_def upd_step_def upd_run_def
      update_row_def add_event_def held_run_def
      record_corrective_signal_def Let_def blocked_run_def blocked_step_def)

lemma blocked_tail:
  "case bindE (note_failure 2 3 unknown_outcome
       (upd_step 3 (\<lambda>x. x\<lparr>step_unknown_effects := True\<rparr>)
         (running_db\<lparr>db_events := evs, db_steps := [blocked_step], db_runs := [blocked_run]\<rparr>))) (\<lambda>d4.
     bindE (after_completion sample_platform 2 3 (release_lease 3 d4)) (\<lambda>d5.
     settle_task 1 2 3 BLOCKED d5)) of Inl _ \<Rightarrow> False | Inr _ \<Rightarrow> True"
  by (simp add: check_transition_def note_failure_def Let_def blocked_step_def blocked_run_def running_db_def
      running_step_def sample_defs get_step_def get_run_def get_task_def find_row_def upd_step_def
      upd_run_def update_row_def held_run_def held_step_def held_task_def unknown_outcome_def
      release_lease_def after_completion_def settle_task_def derive_task_status_def transition_task_def
      upd_task_def moved_task_def)

lemma unknown_unscheduled:
  "\<exists>e. schedule_bounded_repair sample_platform running_db sample_run running_step unknown_outcome
     DEFAULT_RECOVERY_POLICY = Inr (False, add_event e running_db)"
proof -
  have "get_task running_db (run_task_id sample_run) = Some sample_task"
    by (simp add: running_db_def sample_defs get_task_def find_row_def)
  moreover have "\<exists>st components. build_recovery_state sample_platform running_db sample_run running_step
      unknown_outcome DEFAULT_RECOVERY_POLICY = Inr (st, components) \<and> rs_unknown_effects st"
    by (simp add: build_recovery_state_def running_step_def sample_step_def jget_default_def
        unknown_outcome_def Let_def)
  ultimately show ?thesis
    by (auto simp: schedule_bounded_repair_def running_step_def sample_step_def decide_recovery_def
        emit_recovery_event_def)
qed

lemma unknown_commit:
  "commit_step_outcome sample_platform running_db running_token unknown_outcome 0 None =
   Inr (committed_db unknown_outcome)"
proof -
  obtain e where e: "schedule_bounded_repair sample_platform running_db sample_run running_step
      unknown_outcome DEFAULT_RECOVERY_POLICY = Inr (False, add_event e running_db)"
    using unknown_unscheduled by blast
  obtain evs where evs: "block_for_attention (add_event e running_db) 2 3 =
      Inr (running_db\<lparr>db_events := evs, db_steps := [blocked_step], db_runs := [blocked_run]\<rparr>)"
    using blocked_rows by blast
  have lock: "lock_task_run_step running_db 3 = Some (sample_task, sample_run, running_step)"
    by (simp add: lock_task_run_step_def running_db_def running_step_def sample_defs get_step_def
        get_run_def get_task_def find_row_def)
  have ids: "sr_id (tok_step running_token) = 3" "step_id running_step = 3" "run_id sample_run = 2"
      "run_task_id sample_run = 1" "tok_owner running_token = ''w''" "tok_generation running_token = 1"
      "step_lease_owner running_step = Some ''w''" "step_lease_generation running_step = 1"
      "step_status running_step = S_RUNNING" "run_status sample_run = R_RUNNING"
      "run_execution_contract_version sample_run = Some ''execution-contract.v1''"
      "so_kind unknown_outcome = BLOCKED" "so_result unknown_outcome = []"
      "so_unknown_effects unknown_outcome"
    by (simp_all add: running_token_def running_step_def sample_defs step_record_of_def unknown_outcome_def)
  show ?thesis
    unfolding committed_db_def
  proof (rule result_or_Inr)
    show "case commit_step_outcome sample_platform running_db running_token unknown_outcome 0 None of
        Inl _ \<Rightarrow> False | Inr _ \<Rightarrow> True"
      using blocked_tail [of evs]
      by (simp add: commit_step_outcome_def Let_def ids lock commit_kind_def commit_blocked_def e evs)
  qed
qed

end
