(* ===== verification/Commit_Properties.thy ===== *)
theory Commit_Properties
  imports Workflow_Samples
begin

text \<open>
  The properties of the fenced commit: who may commit, that a lease commits at most once, the status
  of the task afterwards, when a run completes, that repairs are bounded and that an unknown outcome
  stops the run.
\<close>

section \<open>Completed runs and repair steps\<close>

definition completed_runs :: "db \<Rightarrow> uuid set" where
  "completed_runs d = {k. \<exists>r. get_run d k = Some r \<and> run_status r = R_COMPLETED}"

definition run_scopes :: "db \<Rightarrow> (uuid \<times> uuid) list" where
  "run_scopes d = map (\<lambda>r. (run_id r, run_task_id r)) (db_runs d)"

definition repair_runs :: "db \<Rightarrow> uuid list" where
  "repair_runs d = map step_run_id (filter is_repair_step (db_steps d))"

definition ledger_kept :: "db \<Rightarrow> db \<Rightarrow> bool" where
  "ledger_kept d d' =
     (db_evolves d d' \<and> completed_runs d' \<subseteq> completed_runs d \<and> run_scopes d' = run_scopes d \<and>
      repair_runs d' = repair_runs d)"

lemma same_rows_kept:
  "db_steps d' = db_steps d \<Longrightarrow> db_runs d' = db_runs d \<Longrightarrow>
   completed_runs d' = completed_runs d \<and> run_scopes d' = run_scopes d \<and> repair_runs d' = repair_runs d"
  by (simp add: completed_runs_def run_scopes_def repair_runs_def get_run_def)

lemma repair_runs_upd:
  assumes "\<And>s. step_run_id (f s) = step_run_id s"
    and "\<And>s. step_dependency_metadata (f s) = step_dependency_metadata s"
  shows "repair_runs (upd_step k f d) = repair_runs d"
proof -
  have "map step_run_id (filter is_repair_step (update_row step_id k f xs)) =
      map step_run_id (filter is_repair_step xs)" for xs
    by (induction xs) (simp_all add: update_row_def assms is_repair_step_def)
  then show ?thesis by (simp add: repair_runs_def upd_step_def)
qed

lemma run_scopes_upd:
  assumes "\<And>r. run_id (f r) = run_id r" "\<And>r. run_task_id (f r) = run_task_id r"
  shows "run_scopes (upd_run k f d) = run_scopes d"
proof -
  have "map (\<lambda>r. (run_id r, run_task_id r)) (update_row run_id k f xs) =
      map (\<lambda>r. (run_id r, run_task_id r)) xs" for xs
    by (induction xs) (simp_all add: update_row_def assms)
  then show ?thesis by (simp add: run_scopes_def upd_run_def)
qed

lemma completed_runs_upd:
  assumes "\<And>r. run_id (f r) = run_id r"
    and "\<And>r. run_status (f r) = R_COMPLETED \<Longrightarrow> run_status r = R_COMPLETED"
  shows "completed_runs (upd_run k f d) \<subseteq> completed_runs d"
  using assms by (auto simp: completed_runs_def run_store.get_upd split: if_splits)

lemma step_write_kept:
  "completed_runs (upd_step k f d) = completed_runs d" "run_scopes (upd_step k f d) = run_scopes d"
  by (simp_all add: completed_runs_def run_scopes_def get_run_def upd_step_def)

lemma run_write_kept: "repair_runs (upd_run k f d) = repair_runs d"
  by (simp add: repair_runs_def upd_run_def)

interpretation ledger: workflow_frame ledger_kept
proof (rule workflow_frame.intro)
  show "ledger_kept d d" for d by (simp add: ledger_kept_def db_evolves_refl)
  show "ledger_kept d1 d3" if "ledger_kept d1 d2" "ledger_kept d2 d3" for d1 d2 d3
    using that db_evolves_trans by (auto simp: ledger_kept_def)
  show "released d' sid" if "ledger_kept d d'" "released d sid" for d d' sid
    using that released_evolves by (auto simp: ledger_kept_def)
  show "ledger_kept d d'" if "db_steps d' = db_steps d" "db_runs d' = db_runs d"
      "db_tasks d' = db_tasks d" "next_uuid d \<le> next_uuid d'" "db_now d' = db_now d" for d d' :: db
    using db_evolves_other [OF that] same_rows_kept [OF that(1,2)] by (simp add: ledger_kept_def)
  show "ledger_kept d (upd_step k f d)" if "\<And>s. columns_kept s (f s)" for f d k
    using evolution.R_upd_step that
    by (simp add: ledger_kept_def step_write_kept repair_runs_upd columns_kept_def)
  show "ledger_kept d (upd_run k g d)" if "\<And>r. run_evolves r (g r) \<and> run_status (g r) = run_status r"
    for g d k
    using evolution.R_upd_run [OF that] that completed_runs_upd [of g]
    by (simp add: ledger_kept_def run_write_kept run_scopes_upd completed_runs_upd run_evolves_def)
  show "ledger_kept d (upd_task k h d)" if "\<And>t. task_id (h t) = task_id t" for h d k
    using upd_task_evolves [OF that] same_rows_kept [of "upd_task k h d" d]
    by (simp add: ledger_kept_def upd_task_def)
  show "ledger_kept d (add_step s d)" if "step_id s = next_uuid d" "held_status s = None"
      "step_lease_generation s = 0" "\<not> is_repair_step s" for s d
    using add_step_evolves [OF that(1-3)] that(4)
    by (simp add: ledger_kept_def add_step_def completed_runs_def run_scopes_def repair_runs_def get_run_def)
  show "ledger_kept d d'" if t: "transition_step d sid st actor aid payload = Inr d'"
      "st \<notin> {S_LEASED, S_RUNNING}" for d sid st actor aid payload d'
  proof -
    from t(1) obtain e f where "d' = add_event e (upd_step sid f d)"
      "\<And>s. step_run_id (f s) = step_run_id s"
      "\<And>s. step_dependency_metadata (f s) = step_dependency_metadata s"
      by (elim transition_stepE) auto
    then show ?thesis
      using transition_step_evolves [OF t] same_rows_kept [of d' "upd_step sid f d"]
      by (simp add: ledger_kept_def add_event_def step_write_kept repair_runs_upd)
  qed
  show "ledger_kept d d'" if t: "transition_run d rid rt actor aid payload = Inr d'"
      "rt \<noteq> R_COMPLETED" for d rid rt actor aid payload d'
  proof -
    from t obtain e f where "d' = add_event e (upd_run rid f d)"
      "\<And>r. run_id (f r) = run_id r" "\<And>r. run_task_id (f r) = run_task_id r"
      "\<And>r. run_status (f r) \<noteq> R_COMPLETED"
      by (elim transition_runE) auto
    then show ?thesis
      using transition_run_evolves [OF t(1)] same_rows_kept [of d' "upd_run rid f d"]
        completed_runs_upd [of f]
      by (simp add: ledger_kept_def add_event_def run_write_kept run_scopes_upd)
  qed
  show "ledger_kept d d'" if t: "transition_task d tid tt actor aid payload = Inr d'"
    for d tid tt actor aid payload d'
  proof -
    from t have "db_steps d' = db_steps d" "db_runs d' = db_runs d"
      by (auto elim!: transition_taskE simp: upd_task_def)
    then show ?thesis
      using transition_task_evolves [OF t] same_rows_kept [of d' d] by (simp add: ledger_kept_def)
  qed
qed

text \<open>The task's repairs are counted from the scopes of the repair steps.\<close>

definition repair_in_scope :: "db \<Rightarrow> run \<Rightarrow> uuid \<Rightarrow> bool" where
  "repair_in_scope d r k =
     (\<exists>x \<in> set (run_scopes d). fst x = k \<and>
        (if run_execution_contract_version r = Some ''execution-contract.v2''
         then snd x = run_task_id r else k = run_id r))"

lemma task_repair_count_scopes:
  "task_repair_count d r = int (length (filter (repair_in_scope d r) (repair_runs d)))"
proof -
  have "in_repair_scope d r s = repair_in_scope d r (step_run_id s)" for s
    by (auto simp: in_repair_scope_def repair_in_scope_def run_scopes_def)
  then show ?thesis
    by (simp add: task_repair_count_def repair_runs_def filter_map comp_def conj_commute)
qed

lemma task_repair_count_cong:
  "run_scopes d' = run_scopes d \<Longrightarrow> repair_runs d' = repair_runs d \<Longrightarrow>
   task_repair_count d' r = task_repair_count d r"
  by (simp add: task_repair_count_scopes repair_in_scope_def [abs_def])

lemma task_repair_count_append:
  assumes "run_scopes d' = run_scopes d" "repair_runs d' = repair_runs d @ [k]"
  shows "task_repair_count d' r \<in> {task_repair_count d r, task_repair_count d r + 1}"
proof -
  have "repair_in_scope d' r = repair_in_scope d r"
    using assms(1) by (simp add: repair_in_scope_def [abs_def])
  then show ?thesis using assms(2) by (simp add: task_repair_count_scopes)
qed

section \<open>Who commits\<close>

lemma commit_evolves:
  assumes "commit_step_outcome pf d token outcome delay rp = Inr d'"
  shows "evolution.settles d (sr_id (tok_step token)) d'"
  using assms
proof (cases rule: commit_step_outcomeE)
  case (1 t r s policy d1 d2 d3)
  have "evolution.settles d (step_id s) d1" by (rule commit_kind_settles [OF "1"(12)])
  moreover have "db_evolves d1 d2" by (rule evolution.R_note_failure [OF "1"(13)])
  moreover have "db_evolves d2 d3"
    by (rule db_evolves_trans [OF evolution.R_release_lease after_completion_evolves [OF "1"(14)]])
  moreover have "db_evolves d3 d'" by (rule evolution.R_settle_task [OF "1"(15)])
  ultimately have "evolution.settles d (step_id s) d'" by (blast intro: evolution.settles_then)
  then show ?thesis using "1"(4) by simp
qed

lemma commit_policy_evolves:
  "run_evolves r r' \<Longrightarrow> commit_policy r rp = Inr policy \<Longrightarrow> \<exists>p. commit_policy r' rp' = Inr p"
  by (auto simp: commit_policy_def run_evolves_def pinned_recovery_policy_def)

lemma released_token_lost:
  assumes "get_step d (sr_id (tok_step token)) = Some s" "held_status s = None"
    "get_run d (step_run_id s) = Some r" "commit_policy r rp = Inr policy"
  shows "\<exists>m. commit_step_outcome pf d token outcome delay rp = Inl (LeaseLost m)"
  using assms
  by (auto simp: commit_step_outcome_def lock_task_run_step_def commit_policy_def [symmetric] Let_def
      held_status_def split: option.splits if_splits)

text \<open>
  C1. A commit is fenced and happens at most once: it succeeds only while the step is leased or
  running under the token's owner and generation in a run that is neither settled nor paused; it
  takes the step out of the leased statuses, and committing again with the same token, whatever the
  outcome, is answered by \<open>LeaseLost\<close>.
\<close>

theorem lease_commits_at_most_once:
  assumes "commit_step_outcome pf d token outcome delay rp = Inr d'"
  shows "(\<exists>s r. get_step d (sr_id (tok_step token)) = Some s \<and> get_run d (step_run_id s) = Some r \<and>
           step_lease_owner s = Some (tok_owner token) \<and>
           step_lease_generation s = tok_generation token \<and> step_status s \<in> {S_LEASED, S_RUNNING} \<and>
           run_status r \<notin> {R_CANCELLED, R_FAILED, R_COMPLETED, R_PAUSED}) \<and>
         (\<exists>s'. get_step d' (sr_id (tok_step token)) = Some s' \<and>
           step_status s' \<notin> {S_LEASED, S_RUNNING} \<and> step_lease_generation s' = tok_generation token) \<and>
         (\<exists>m. commit_step_outcome pf d' token outcome' delay' rp' = Inl (LeaseLost m))"
  using assms
proof (cases rule: commit_step_outcomeE)
  case (1 t r s policy d1 d2 d3)
  have e: "db_evolves d d'" "released d' (sr_id (tok_step token))"
    using commit_evolves [OF assms] by (auto simp: evolution.settles_def)
  obtain s' where s': "get_step d' (sr_id (tok_step token)) = Some s'" "step_evolves s s'"
    using db_evolves_step [OF e(1) "1"(1)] by blast
  obtain r' where r': "get_run d' (step_run_id s) = Some r'" "run_evolves r r'"
    using db_evolves_run [OF e(1) "1"(2)] by blast
  have free: "held_status s' = None" using e(2) s'(1) by (simp add: released_def)
  have same: "step_run_id s' = step_run_id s" "step_lease_generation s' = tok_generation token"
    using s'(2) "1"(9) by (simp_all add: step_evolves_def)
  obtain p where "commit_policy r' rp' = Inr p" using commit_policy_evolves [OF r'(2) "1"(7)] by blast
  then have "\<exists>m. commit_step_outcome pf d' token outcome' delay' rp' = Inl (LeaseLost m)"
    using released_token_lost [OF s'(1) free] r'(1) same(1) by simp
  moreover have "step_status s' \<notin> {S_LEASED, S_RUNNING}"
    using free by (auto simp: held_status_def split: if_splits)
  ultimately show ?thesis using "1"(1,2,8-11) s'(1) same(2) by blast
qed

theorem lease_commits_at_most_once_witness:
  "\<exists>m. commit_step_outcome sample_platform (committed_db (outcome_succeeded [])) running_token
     (outcome_succeeded []) 0 None = Inl (LeaseLost m)"
  using lease_commits_at_most_once [OF succeeded_commit, of "outcome_succeeded []" 0 None] by blast

section \<open>The task after a commit\<close>

lemma publish_review_event_rows [simp]:
  "db_steps (publish_review_event t s d) = db_steps d" "db_runs (publish_review_event t s d) = db_runs d"
  "db_tasks (publish_review_event t s d) = db_tasks d"
  "db_effects (publish_review_event t s d) = db_effects d"
  by (auto simp: publish_review_event_def lead_enqueue_def Let_def split: option.splits)

lemma transition_task_rows:
  assumes "transition_task d tid target actor aid payload = Inr d'"
  shows "db_steps d' = db_steps d \<and> db_runs d' = db_runs d \<and> db_effects d' = db_effects d"
  using assms by (elim transition_taskE) (simp add: upd_task_def)

lemma project_status_rows [simp]:
  "db_steps (project_status t target rid d) = db_steps d"
  "db_runs (project_status t target rid d) = db_runs d"
  "db_tasks (project_status t target rid d) = db_tasks d"
  "db_effects (project_status t target rid d) = db_effects d"
  by (simp_all add: project_status_def add_call_def)

lemma record_task_progress_rows:
  assumes "record_task_progress tid rid sid phase d = Inr d'"
  shows "db_steps d' = db_steps d \<and> db_runs d' = db_runs d \<and> db_effects d' = db_effects d"
  using assms
  by (auto simp: record_task_progress_def res_simps add_call_def add_event_def upd_task_def
      split: if_splits)

lemma settle_task_rows:
  assumes "settle_task tid rid sid kind d = Inr d'"
  shows "db_steps d' = db_steps d \<and> db_runs d' = db_runs d \<and> db_effects d' = db_effects d"
  using assms
proof (cases rule: settle_task_cases)
  case (moved t s d1 r d2 t' target)
  show ?thesis using transition_task_rows [OF moved(7)] unfolding moved(3,9) by simp
next
  case (stayed t s d1 r)
  show ?thesis
    using stayed(6) record_task_progress_rows [of tid rid sid "''completed''" d1 d']
    unfolding stayed(3) by auto
qed

lemma settle_task_status:
  assumes "settle_task tid rid sid kind d = Inr d'"
  shows "\<exists>r t. get_run d' rid = Some r \<and> get_task d' tid = Some t \<and>
     task_status t = derive_task_status (steps_for_run d' rid) (run_status r)"
proof -
  note rows = settle_task_rows [OF assms]
  have same: "steps_for_run d1 rid = steps_for_run d' rid \<and> get_run d1 rid = get_run d' rid"
    if "db_steps d1 = db_steps d" "db_runs d1 = db_runs d" for d1
    using rows that by (simp add: steps_for_run_def get_run_def)
  from assms show ?thesis
  proof (cases rule: settle_task_cases)
    case (moved t s d1 r d2 t' target)
    have "get_task d' tid = get_task d2 tid"
      unfolding moved(9) by (simp add: get_task_def)
    moreover have "task_status t' = target"
      using moved(7,8) by (auto elim!: transition_taskE simp: task_store.get_upd)
    moreover have "steps_for_run d1 rid = steps_for_run d' rid \<and> get_run d1 rid = get_run d' rid"
      by (rule same) (simp_all add: moved(3))
    ultimately show ?thesis using moved(4,5,8) by (intro exI [of _ r]) simp
  next
    case (stayed t s d1 r)
    have t1: "get_task d1 tid = Some t" using stayed(1,3) by (simp add: get_task_def)
    then obtain t' where "get_task d' tid = Some t'" "task_status t' = task_status t"
      using stayed(6)
      by (auto simp: record_task_progress_def held_task_def res_simps task_store.get_upd
          split: if_splits)
    moreover have "steps_for_run d1 rid = steps_for_run d' rid \<and> get_run d1 rid = get_run d' rid"
      by (rule same) (simp_all add: stayed(3))
    ultimately show ?thesis using stayed(4,5) by (intro exI [of _ r]) simp
  qed
qed

lemma task_status_of_commit:
  assumes "commit_step_outcome pf d token outcome delay rp = Inr d'"
  shows "\<exists>s r t. get_step d' (sr_id (tok_step token)) = Some s \<and>
     get_run d' (step_run_id s) = Some r \<and> get_task d' (run_task_id r) = Some t \<and>
     task_status t = derive_task_status (steps_for_run d' (run_id r)) (run_status r)"
  using assms
proof (cases rule: commit_step_outcomeE)
  case (1 t r s policy d1 d2 d3)
  have e: "db_evolves d d'" using commit_evolves [OF assms] by (simp add: evolution.settles_def)
  obtain s' where s': "get_step d' (sr_id (tok_step token)) = Some s'" "step_evolves s s'"
    using db_evolves_step [OF e "1"(1)] by blast
  obtain r' where r': "get_run d' (run_id r) = Some r'" "run_evolves r r'"
    using db_evolves_run [OF e "1"(2)] "1"(5) by auto
  show ?thesis
    using settle_task_status [OF "1"(15)] s' r' "1"(5)
    by (auto simp: step_evolves_def run_evolves_def)
qed

text \<open>
  C26. After a commit the task's status is the one its run has: the status that
  \<open>derive_task_status\<close> computes from the steps and the run as they are then.
\<close>

theorem task_status_follows_run:
  assumes "commit_step_outcome pf d token outcome delay rp = Inr d'"
  shows "\<exists>s r t. get_step d' (sr_id (tok_step token)) = Some s \<and>
     get_run d' (step_run_id s) = Some r \<and> get_task d' (run_task_id r) = Some t \<and>
     task_status t = derive_task_status (steps_for_run d' (run_id r)) (run_status r)"
  by (rule task_status_of_commit [OF assms])


theorem task_status_follows_run_witness:
  "\<exists>r t. get_run (committed_db (outcome_succeeded [])) 2 = Some r \<and> run_status r = R_COMPLETED \<and>
     get_task (committed_db (outcome_succeeded [])) 1 = Some t \<and> task_status t = T_COMPLETED"
proof -
  have r: "case get_run (committed_db (outcome_succeeded [])) 2 of None \<Rightarrow> False
      | Some r \<Rightarrow> run_status r = R_COMPLETED \<and> run_task_id r = 1 \<and> run_id r = 2"
    "case get_step (committed_db (outcome_succeeded [])) 3 of None \<Rightarrow> False
      | Some s \<Rightarrow> step_run_id s = 2" "sr_id (tok_step running_token) = 3"
    by code_simp+
  then show ?thesis
    using task_status_follows_run [OF succeeded_commit]
    by (auto simp: derive_task_status_def split: option.splits)
qed

section \<open>When a run completes\<close>

lemma repair_ledger:
  assumes "schedule_bounded_repair pf d r failed outcome policy = Inr (True, d')"
  shows "completed_runs d' \<subseteq> completed_runs d \<and> run_scopes d' = run_scopes d \<and>
    repair_runs d' = repair_runs d @ [run_id r] \<and>
    task_repair_count d r < rp_task_repair_cap policy"
  using assms
proof (cases rule: schedule_bounded_repair_cases)
  case (scheduled st components t worker repair d1 d2 ev)
  have d1: "completed_runs d1 = completed_runs d" "run_scopes d1 = run_scopes d"
      "repair_runs d1 = repair_runs d"
    using same_rows_kept [of d1 d] unfolding scheduled(5) by simp_all
  have "completed_runs (add_step repair d1) = completed_runs d1"
      "run_scopes (add_step repair d1) = run_scopes d1"
      "repair_runs (add_step repair d1) = repair_runs d1 @ [run_id r]"
    unfolding scheduled(6)
    by (simp_all add: add_step_def completed_runs_def run_scopes_def repair_runs_def get_run_def)
  moreover have "ledger_kept (add_step repair d1) d2"
    by (rule ledger.R_transition_step [OF scheduled(7)]) simp
  moreover have "ledger_kept d2 d'"
    unfolding scheduled(8)
    by (rule ledger.R_trans [OF ledger.R_upd_step ledger.R_add_event]) (simp add: columns_kept_def)
  moreover have "task_repair_count d r < rp_task_repair_cap policy"
    using scheduled(2,3) by (auto simp: build_recovery_state_def Let_def res_simps decide_REPAIR)
  ultimately show ?thesis using d1 by (auto simp: ledger_kept_def)
qed simp_all

text \<open>What one commit does to the completed runs and to the repair steps.\<close>

lemma commit_ledger:
  assumes "commit_step_outcome pf d token outcome delay rp = Inr d'"
  obtains r s policy d1 d2 d3 b where "get_step d (sr_id (tok_step token)) = Some s"
    "get_run d (step_run_id s) = Some r" "run_id r = step_run_id s" "commit_policy r rp = Inr policy"
    "completed_runs d1 \<subseteq> completed_runs d" "run_scopes d1 = run_scopes d"
    "repair_runs d1 = repair_runs d \<or>
     repair_runs d1 = repair_runs d @ [run_id r] \<and> task_repair_count d r < rp_task_repair_cap policy"
    "ledger_kept d1 d2" "d3 = d2 \<or> finalize_if_complete d2 (run_id r) = Inr (b, d3)"
    "db_steps d' = db_steps d3" "db_runs d' = db_runs d3" "db_effects d' = db_effects d3"
  using assms
proof (cases rule: commit_step_outcomeE)
  case (1 t r s policy d1 d2 d3)
  have k: "completed_runs d1 \<subseteq> completed_runs d \<and> run_scopes d1 = run_scopes d \<and>
      (repair_runs d1 = repair_runs d \<or>
       repair_runs d1 = repair_runs d @ [run_id r] \<and> task_repair_count d r < rp_task_repair_cap policy)"
    using "1"(12)
  proof (cases rule: ledger.commit_kind_frame)
    case settled
    then show ?thesis by (simp add: ledger.settles_def ledger_kept_def)
  next
    case (repaired d0)
    have "task_repair_count d0 r = task_repair_count d r"
      using repaired(1) by (intro task_repair_count_cong) (simp_all add: ledger_kept_def)
    then show ?thesis using repair_ledger [OF repaired(2)] repaired(1) by (auto simp: ledger_kept_def)
  qed
  obtain d4 b where d4: "ledger_kept (release_lease (step_id s) d2) d4"
      "d3 = d4 \<or> finalize_if_complete d4 (run_id r) = Inr (b, d3)"
    using ledger.after_completion_frame [OF "1"(14)] by metis
  have "ledger_kept d1 d4"
    by (rule ledger.R_trans [OF ledger.R_note_failure [OF "1"(13)]
        ledger.R_trans [OF ledger.R_release_lease d4(1)]])
  then show thesis
    using that [OF "1"(1,2,5,7)] k d4(2) settle_task_rows [OF "1"(15)] by blast
qed

lemma finalize_rows:
  assumes "finalize_if_complete d rid = Inr (b, d')"
  shows "db_steps d' = db_steps d \<and> db_effects d' = db_effects d \<and> run_scopes d' = run_scopes d"
  using assms
proof (cases rule: finalize_if_complete_cases)
  case (completed r d1)
  from completed(6) obtain e f where d1: "d1 = add_event e (upd_run rid f d)"
    "\<And>x. run_id (f x) = run_id x" "\<And>x. run_task_id (f x) = run_task_id x"
    by (elim transition_runE) auto
  have "run_scopes d1 = run_scopes d"
    using same_rows_kept [of d1 "upd_run rid f d"] run_scopes_upd d1 by (simp add: add_event_def)
  then show ?thesis
    unfolding completed(7) by (simp add: run_scopes_upd d1(1)) (simp add: upd_run_def add_event_def)
qed simp

lemma finalize_completed:
  assumes "finalize_if_complete d rid = Inr (b, d')" "k \<in> completed_runs d'" "k \<notin> completed_runs d"
  shows "k = rid \<and> steps_for_run d rid \<noteq> [] \<and>
    (\<forall>s \<in> set (steps_for_run d rid). step_status s = S_COMPLETED) \<and>
    \<not> effect_unsettled d (step_id ` set (steps_for_run d rid))"
  using assms(1)
proof (cases rule: finalize_if_complete_cases)
  case (completed r d1)
  have "k = rid"
  proof (rule ccontr)
    assume "k \<noteq> rid"
    then have "get_run d' k = get_run d k"
      using completed(6) unfolding completed(7)
      by (elim transition_runE) (simp add: run_store.get_upd)
    then show False using assms(2,3) by (simp add: completed_runs_def)
  qed
  then show ?thesis using completed by blast
qed (use assms in simp)

text \<open>
  C13. A commit completes a run only when the work is done: a run that is completed after the
  commit and was not before has steps, every one of them is completed, and no effect of one of them
  is still being executed or unknown.
\<close>

theorem run_completes_only_when_done:
  assumes "commit_step_outcome pf d token outcome delay rp = Inr d'"
    and "get_run d' k = Some r'" "run_status r' = R_COMPLETED"
    and "\<And>r. get_run d k = Some r \<Longrightarrow> run_status r \<noteq> R_COMPLETED"
  shows "steps_for_run d' k \<noteq> [] \<and> (\<forall>s \<in> set (steps_for_run d' k). step_status s = S_COMPLETED) \<and>
    \<not> effect_unsettled d' (step_id ` set (steps_for_run d' k))"
  using assms(1)
proof (cases rule: commit_ledger)
  case (1 r s policy d1 d2 d3 b)
  have "k \<in> completed_runs d3" using assms(2,3) "1"(11) by (simp add: completed_runs_def get_run_def)
  moreover have not: "k \<notin> completed_runs d2"
  proof
    assume "k \<in> completed_runs d2"
    then have "k \<in> completed_runs d" using "1"(5,8) by (auto simp: ledger_kept_def)
    then show False using assms(4) by (auto simp: completed_runs_def)
  qed
  ultimately have f: "finalize_if_complete d2 (run_id r) = Inr (b, d3)" using "1"(9) by auto
  have "steps_for_run d' k = steps_for_run d2 k" "effect_unsettled d' X = effect_unsettled d2 X" for X
    using finalize_rows [OF f] "1"(10,12) by (simp_all add: steps_for_run_def effect_unsettled_def)
  then show ?thesis using finalize_completed [OF f \<open>k \<in> completed_runs d3\<close> not] by simp
qed

theorem run_completes_only_when_done_witness:
  "\<exists>r. get_run (committed_db (outcome_succeeded [])) 2 = Some r \<and> run_status r = R_COMPLETED \<and>
     (\<forall>s \<in> set (steps_for_run (committed_db (outcome_succeeded [])) 2). step_status s = S_COMPLETED)"
proof -
  have "case get_run (committed_db (outcome_succeeded [])) 2 of None \<Rightarrow> False
      | Some r \<Rightarrow> run_status r = R_COMPLETED"
    by code_simp
  then obtain r where r: "get_run (committed_db (outcome_succeeded [])) 2 = Some r"
      "run_status r = R_COMPLETED"
    by (auto split: option.splits)
  have "\<And>x. get_run running_db 2 = Some x \<Longrightarrow> run_status x \<noteq> R_COMPLETED"
    by (simp add: running_rows sample_run_def)
  from run_completes_only_when_done [OF succeeded_commit r this] r show ?thesis by blast
qed

section \<open>Repairs\<close>

text \<open>
  A commit never takes the repairs of a run's task past the cap of the recovery policy in
  force: it adds at most one repair step, and only while the count is below the cap.
\<close>

theorem task_repairs_stay_capped:
  assumes "commit_step_outcome pf d token outcome delay rp = Inr d'"
    and "get_step d (sr_id (tok_step token)) = Some s" "get_run d (step_run_id s) = Some r"
    and "commit_policy r rp = Inr policy"
  shows "task_repair_count d r \<le> task_repair_count d' r \<and>
    task_repair_count d' r \<le> task_repair_count d r + 1 \<and>
    task_repair_count d' r \<le> max (task_repair_count d r) (rp_task_repair_cap policy)"
  using assms(1)
proof (cases rule: commit_ledger)
  case (1 r' s' policy' d1 d2 d3 b)
  then have same: "s' = s" "r' = r" "policy' = policy" using assms(2-4) by auto
  have "run_scopes d3 = run_scopes d2 \<and> repair_runs d3 = repair_runs d2"
    using "1"(9) finalize_rows by (auto simp: repair_runs_def)
  then have d': "run_scopes d' = run_scopes d" "repair_runs d' = repair_runs d1"
    using "1"(6,8,10,11) by (simp_all add: ledger_kept_def repair_runs_def run_scopes_def)
  have "task_repair_count d' r \<in> {task_repair_count d r, task_repair_count d r + 1} \<and>
    (task_repair_count d' r = task_repair_count d r \<or> task_repair_count d r < rp_task_repair_cap policy)"
    using "1"(7) d' task_repair_count_cong [OF d'(1), of r] task_repair_count_append [OF d'(1)]
    unfolding same by auto
  then show ?thesis by auto
qed

section \<open>Unknown outcomes\<close>

lemma block_for_attention_blocks:
  assumes "block_for_attention d rid sid = Inr d'"
  shows "(\<exists>s. get_step d' sid = Some s \<and> step_status s = S_BLOCKED) \<and>
    (\<exists>r. get_run d' rid = Some r \<and> run_status r = R_BLOCKED)"
proof -
  from assms obtain d1 d2 and r :: run where
    t: "transition_step d sid S_BLOCKED ''worker'' None [] = Inr d1"
      "transition_run d1 rid R_BLOCKED ''worker'' None [] = Inr d2"
      "record_corrective_signal ''blocked_attention'' ''blocked_attention'' None
         (Some (run_task_id r)) (Some rid) (Some sid) d2 = Inr d'"
    by (simp add: block_for_attention_def res_simps) blast
  have "db_steps d' = db_steps d2" "db_runs d' = db_runs d2"
    using t(3) by (auto simp: record_corrective_signal_def Let_def)
  moreover have "\<exists>s. get_step d1 sid = Some s \<and> step_status s = S_BLOCKED"
    using t(1) by (elim transition_stepE) (simp add: step_store.get_upd)
  moreover have "db_steps d2 = db_steps d1"
    using t(2) by (elim transition_runE) (simp add: upd_run_def)
  moreover have "\<exists>r. get_run d2 rid = Some r \<and> run_status r = R_BLOCKED"
    using t(2) by (elim transition_runE) (simp add: run_store.get_upd)
  ultimately show ?thesis by (simp add: get_step_def get_run_def)
qed

lemma unknown_not_repaired:
  assumes "so_unknown_effects outcome"
  shows "schedule_bounded_repair pf d r s outcome policy \<noteq> Inr (True, d')"
proof
  assume "schedule_bounded_repair pf d r s outcome policy = Inr (True, d')"
  then show False
    by (cases rule: schedule_bounded_repair_cases)
      (use assms in \<open>auto simp: build_recovery_state_def Let_def res_simps decide_REPAIR\<close>)
qed

text \<open>The branches an outcome with unknown effects can take block the step and the run.\<close>

lemma unknown_blocks:
  assumes "commit_kind pf d r s outcome delay policy = Inr d'" "so_unknown_effects outcome"
    and "so_kind outcome \<notin> {SUCCEEDED, NEEDS_USER_INPUT, NEEDS_APPROVAL}"
  obtains d1 where "block_for_attention d1 (run_id r) (step_id s) = Inr d'"
    "so_kind outcome = TRANSIENT_FAILURE"
  | d1 d2 where "block_for_attention d1 (run_id r) (step_id s) = Inr d2"
    "d' = upd_step (step_id s) (\<lambda>x. x\<lparr>step_unknown_effects := True\<rparr>) d2"
proof (cases "so_kind outcome = TRANSIENT_FAILURE")
  case True
  with assms have c: "commit_transient pf d r s outcome delay policy = Inr d'"
    by (simp add: commit_kind_def)
  then obtain st components where b: "build_recovery_state pf d r s outcome policy = Inr (st, components)"
    by (auto simp: commit_transient_def res_simps)
  then have "rs_unknown_effects st"
    using assms(2) by (auto simp: build_recovery_state_def Let_def res_simps)
  then have "decide_recovery st policy = ATTENTION" by (simp add: decide_recovery_def)
  then show thesis using c b that(1) True by (auto simp: commit_transient_def)
next
  case False
  with assms have "commit_blocked pf d r s outcome policy = Inr d'"
    by (auto simp: commit_kind_def split: if_splits)
  then show thesis
    using unknown_not_repaired [OF assms(2)] assms(2) that(2)
    by (auto simp: commit_blocked_def Let_def res_simps split: if_splits)
qed

lemma unknown_statuses:
  assumes "commit_kind pf d r s outcome delay policy = Inr d'" "so_unknown_effects outcome"
    and "so_kind outcome \<notin> {SUCCEEDED, NEEDS_USER_INPUT, NEEDS_APPROVAL}"
  shows "(\<exists>s'. get_step d' (step_id s) = Some s' \<and> step_status s' = S_BLOCKED \<and>
      (so_kind outcome \<noteq> TRANSIENT_FAILURE \<longrightarrow> step_unknown_effects s')) \<and>
    (\<exists>r'. get_run d' (run_id r) = Some r' \<and> run_status r' = R_BLOCKED)"
  using assms
proof (cases rule: unknown_blocks)
  case (1 d1)
  then show ?thesis using block_for_attention_blocks by blast
next
  case (2 d1 d2)
  then show ?thesis
    using block_for_attention_blocks [OF "2"(1)] by (auto simp: step_store.get_upd)
qed

lemma note_failure_statuses:
  assumes "note_failure rid sid outcome d = Inr d'"
    and "get_step d k = Some s" "get_run d rid' = Some r"
  shows "(\<exists>s'. get_step d' k = Some s' \<and> step_status s' = step_status s \<and>
      step_unknown_effects s' = step_unknown_effects s) \<and>
    (\<exists>r'. get_run d' rid' = Some r' \<and> run_status r' = run_status r)"
proof -
  let ?f = "\<lambda>x :: step. x\<lparr>step_failure_category := so_category outcome, step_failure_summary := so_summary outcome\<rparr>"
  let ?g = "\<lambda>x :: run. x\<lparr>run_failure_category := so_category outcome, run_failure_summary := so_summary outcome\<rparr>"
  from assms(1) have "d' = d \<or> (\<exists>e. d' = e \<and> db_steps e = db_steps (upd_step sid ?f d) \<and>
      (db_runs e = db_runs d \<or> db_runs e = db_runs (upd_run rid ?g d)))"
    by (auto simp: note_failure_def Let_def res_simps add_call_def upd_run_def upd_step_def
        split: if_splits)
  then have "(d' = d \<or> get_step d' k = get_step (upd_step sid ?f d) k) \<and>
      (get_run d' rid' = get_run d rid' \<or> get_run d' rid' = get_run (upd_run rid ?g d) rid')"
    by (auto simp: get_step_def get_run_def)
  then show ?thesis using assms(2,3) by (auto simp: step_store.get_upd run_store.get_upd)
qed

lemma unknown_commit_blocks:
  assumes "commit_step_outcome pf d token outcome delay rp = Inr d'" "so_unknown_effects outcome"
    and "so_kind outcome \<notin> {SUCCEEDED, NEEDS_USER_INPUT, NEEDS_APPROVAL}"
  shows "\<exists>s r t. get_step d' (sr_id (tok_step token)) = Some s \<and> step_status s = S_BLOCKED \<and>
     (so_kind outcome = TRANSIENT_FAILURE \<or> step_unknown_effects s) \<and>
     get_run d' (step_run_id s) = Some r \<and> run_status r = R_BLOCKED \<and>
     get_task d' (run_task_id r) = Some t \<and> task_status t = T_BLOCKED"
  using assms(1)
proof (cases rule: commit_step_outcomeE)
  case (1 t r s policy d1 d2 d3)
  obtain s1 r1 where b1: "get_step d1 (step_id s) = Some s1" "step_status s1 = S_BLOCKED"
      "so_kind outcome \<noteq> TRANSIENT_FAILURE \<longrightarrow> step_unknown_effects s1"
      "get_run d1 (run_id r) = Some r1" "run_status r1 = R_BLOCKED"
    using unknown_statuses [OF "1"(12) assms(2,3)] by blast
  obtain s2 r2 where b2: "get_step d2 (step_id s) = Some s2" "step_status s2 = S_BLOCKED"
      "step_unknown_effects s2 = step_unknown_effects s1"
      "get_run d2 (run_id r) = Some r2" "run_status r2 = R_BLOCKED"
    using note_failure_statuses [OF "1"(13) b1(1,4)] b1(2,5) by auto
  let ?s = "s2\<lparr>step_lease_owner := None, step_lease_expires_at := None\<rparr>"
  have rel: "get_step (release_lease (step_id s) d2) (step_id s) = Some ?s"
      "get_run (release_lease (step_id s) d2) (run_id r) = Some r2"
    using b2(1,4) by (simp_all add: release_lease_def step_store.get_upd)
  then have "d3 = release_lease (step_id s) d2"
    using "1"(14) b2(2) by (simp add: after_completion_def held_step_def)
  then have rows: "get_step d' (step_id s) = Some ?s" "get_run d' (run_id r) = Some r2"
    using settle_task_rows [OF "1"(15)] rel by (simp_all add: get_step_def get_run_def)
  obtain s' r' t' where f: "get_step d' (sr_id (tok_step token)) = Some s'"
      "get_run d' (step_run_id s') = Some r'" "get_task d' (run_task_id r') = Some t'"
      "task_status t' = derive_task_status (steps_for_run d' (run_id r')) (run_status r')"
    using task_status_of_commit [OF assms(1)] by blast
  have "s' = ?s" using rows(1) f(1) "1"(4) by simp
  moreover have "step_run_id s' = run_id r"
    using commit_evolves [OF assms(1)] db_evolves_step [OF _ "1"(1), of d'] f(1) "1"(5)
    by (auto simp: evolution.settles_def step_evolves_def)
  ultimately show ?thesis
    using f rows b2 b1(3) by (auto simp: derive_task_status_def)
qed



end
