(* ===== verification/Activation.thy ===== *)
theory Activation
  imports Workflow_Samples
begin

text \<open>
  Activation of the steps of a run (\<open>activate_ready_steps\<close> of \<^verbatim>\<open>workflows/service.py\<close>): a
  pending step starts exactly when its predecessors are completed.
\<close>

section \<open>One step\<close>

definition preds_done :: "db \<Rightarrow> (int \<rightharpoonup> uuid) \<Rightarrow> int list \<Rightarrow> bool" where
  "preds_done d by_ordinal preds =
     (\<forall>v \<in> set preds. \<exists>p s. by_ordinal v = Some p \<and> get_step d p = Some s \<and> step_status s = S_COMPLETED)"

lemma preds_completed_True:
  "preds_completed d m preds = Inr True \<longleftrightarrow> preds_done d m preds"
  by (induction preds)
    (auto simp: preds_done_def res_simps held_step_def split: option.splits if_splits)

lemma preds_done_evolves:
  assumes "db_evolves d d'" "preds_done d m preds"
  shows "preds_done d' m preds"
  unfolding preds_done_def
proof
  fix v
  assume "v \<in> set preds"
  then obtain p s where p: "m v = Some p" "get_step d p = Some s" "step_status s = S_COMPLETED"
    using assms(2) by (auto simp: preds_done_def)
  obtain s' where s': "get_step d' p = Some s'" "step_evolves s s'"
    using db_evolves_step [OF assms(1) p(2)] by blast
  have "step_status s' = S_COMPLETED"
    using s'(2) p(3) by (auto simp: step_evolves_def final_status_def STEP_TERMINAL_def split: if_splits)
  then show "\<exists>p s. m v = Some p \<and> get_step d' p = Some s \<and> step_status s = S_COMPLETED"
    using p(1) s'(1) by blast
qed

lemma get_step_approval [simp]:
  "get_step (add_approval a d) = get_step d" "get_step (upd_approval k f d) = get_step d"
  by (simp_all add: get_step_def add_approval_def upd_approval_def)

lemma ensure_result_approval_other:
  assumes "ensure_result_approval pf d r s steps = Inr d'" "k \<noteq> step_id s"
  shows "get_step d' k = get_step d k"
  using assms(1)
proof (cases rule: ensure_result_approvalE)
  case (2 wt e branch head envelope a)
  show ?thesis unfolding "2"(9) using assms(2) by (simp add: step_store.get_upd)
next
  case (3 wt e branch head envelope a d2 ev)
  show ?thesis
    unfolding "3"(11) using transition_step_get_step [OF "3"(10)] assms(2)
    by (simp add: step_store.get_upd)
qed simp

lemma ensure_result_approval_status:
  assumes "ensure_result_approval pf d r s steps = Inr d'"
    and "get_step d (step_id s) = Some s" "step_status s = S_WAITING_APPROVAL"
  shows "\<exists>s'. get_step d' (step_id s) = Some s' \<and> step_status s' \<in> {S_QUEUED, S_WAITING_APPROVAL}"
  using assms(1)
proof (cases rule: ensure_result_approvalE)
  case (2 wt e branch head envelope a)
  show ?thesis
    unfolding "2"(9) using assms(2,3) by (simp add: step_store.get_upd bind_envelope_def)
next
  case (3 wt e branch head envelope a d2 ev)
  show ?thesis
    unfolding "3"(11) using transition_step_get_step [OF "3"(10)] assms(2)
    by (simp add: step_store.get_upd)
qed (use assms(2,3) in auto)

text \<open>One iteration: nothing happens, or a pending step with completed predecessors starts.\<close>

lemma activate_one_cases:
  assumes "activate_one pf rid ordinals (acts, d) sid = Inr (acts', d')"
  obtains (skipped) s where "acts' = acts" "d' = d" "get_step d sid = Some s"
      "step_status s = S_PENDING \<Longrightarrow> \<exists>preds. predecessors (step_dependency_metadata s) = Inr preds \<and>
         \<not> preds_done d (map_of (rev ordinals)) preds"
  | (activated) s s' preds where "acts' = acts @ [sid]" "get_step d sid = Some s"
      "step_status s = S_PENDING" "predecessors (step_dependency_metadata s) = Inr preds"
      "preds_done d (map_of (rev ordinals)) preds"
      "get_step d' sid = Some s'" "step_status s' \<in> {S_QUEUED, S_WAITING_APPROVAL}"
      "\<And>k. k \<noteq> sid \<Longrightarrow> get_step d' k = get_step d k"
proof -
  from assms obtain s where s: "get_step d sid = Some s"
    by (auto simp: activate_one_def res_simps held_step_def split: option.splits)
  show thesis
  proof (cases "step_status s = S_PENDING")
    case False
    then show thesis using assms s
      by (intro skipped [of s]) (simp_all add: activate_one_def held_step_def)
  next
    case pending: True
    from assms s pending obtain preds ready where p: "predecessors (step_dependency_metadata s) = Inr preds"
      "preds_completed d (map_of (rev ordinals)) preds = Inr ready"
      by (auto simp: activate_one_def res_simps held_step_def)
    show thesis
    proof (cases ready)
      case False
      then have "\<not> preds_done d (map_of (rev ordinals)) preds"
        using p(2) preds_completed_True [of d "map_of (rev ordinals)" preds] by simp
      then show thesis using assms s pending p False
        by (intro skipped [of s]) (simp_all add: activate_one_def held_step_def)
    next
      case True
      then have pd: "preds_done d (map_of (rev ordinals)) preds"
        using p(2) by (simp add: preds_completed_True)
      show thesis
      proof (cases "step_type s = ''approval''")
        case False
        with assms s pending p True have
          t: "transition_step d sid S_QUEUED ''workflow_manager'' None [] = Inr d'" "acts' = acts @ [sid]"
          by (auto simp: activate_one_def res_simps held_step_def)
        show thesis
          by (rule activated [OF t(2) s pending p(1) pd, of "s\<lparr>step_status := S_QUEUED,
              step_version := step_version s + 1\<rparr>"])
            (simp_all add: transition_step_get_step [OF t(1)] s)
      next
        case approval: True
        with assms s pending p True obtain d1 r s1 steps where
          t: "transition_step d sid S_WAITING_APPROVAL ''workflow_manager'' None [] = Inr d1"
            "get_step d1 sid = Some s1" "ensure_result_approval pf d1 r s1 steps = Inr d'"
            "acts' = acts @ [sid]"
          by (auto simp: activate_one_def res_simps held_step_def split: option.splits)
        have id: "step_id s1 = sid" using t(2) step_store.get_key by blast
        have "step_status s1 = S_WAITING_APPROVAL"
          using t(2) transition_step_get_step [OF t(1)] s by auto
        then obtain s' where "get_step d' sid = Some s'" "step_status s' \<in> {S_QUEUED, S_WAITING_APPROVAL}"
          using ensure_result_approval_status [OF t(3)] t(2) id by auto
        then show thesis
          by (rule activated [OF t(4) s pending p(1) pd])
            (use ensure_result_approval_other [OF t(3)] transition_step_get_step [OF t(1)] id in simp)
      qed
    qed
  qed
qed

section \<open>The loop\<close>

text \<open>The state of the loop: activated steps started with completed predecessors, all other steps
  are as they were.\<close>

definition activation_state :: "db \<Rightarrow> (int \<rightharpoonup> uuid) \<Rightarrow> uuid list \<times> db \<Rightarrow> bool" where
  "activation_state d by_ordinal st =
     (db_evolves d (snd st) \<and> (\<forall>k. k \<notin> set (fst st) \<longrightarrow> get_step (snd st) k = get_step d k) \<and>
      (\<forall>k \<in> set (fst st). \<exists>s s' preds. get_step d k = Some s \<and> step_status s = S_PENDING \<and>
         predecessors (step_dependency_metadata s) = Inr preds \<and> preds_done (snd st) by_ordinal preds \<and>
         get_step (snd st) k = Some s' \<and> step_status s' \<in> {S_QUEUED, S_WAITING_APPROVAL}))"

lemma activation_state_step:
  assumes inv: "activation_state d (map_of (rev ordinals)) (acts, x)"
    and one: "activate_one pf rid ordinals (acts, x) sid = Inr (acts', x')"
  shows "activation_state d (map_of (rev ordinals)) (acts', x')"
  using one
proof (cases rule: activate_one_cases)
  case (skipped s)
  then show ?thesis using inv by simp
next
  case (activated s s' preds)
  have e: "db_evolves x x'" by (rule evolution.R_activate_one [OF one])
  have "sid \<notin> set acts"
    using inv activated(2,3) by (auto simp: activation_state_def)
  then have s: "get_step d sid = Some s" using inv activated(2) by (simp add: activation_state_def)
  show ?thesis
    unfolding activation_state_def fst_conv snd_conv
  proof (intro conjI ballI)
    show "db_evolves d x'" using inv e db_evolves_trans by (auto simp: activation_state_def)
    show "\<forall>k. k \<notin> set acts' \<longrightarrow> get_step x' k = get_step d k"
      using inv activated(1,8) by (simp add: activation_state_def)
    fix k
    assume "k \<in> set acts'"
    then consider "k = sid" | "k \<in> set acts" "k \<noteq> sid" using activated(1) \<open>sid \<notin> set acts\<close> by auto
    then show "\<exists>s s' preds. get_step d k = Some s \<and> step_status s = S_PENDING \<and>
         predecessors (step_dependency_metadata s) = Inr preds \<and>
         preds_done x' (map_of (rev ordinals)) preds \<and>
         get_step x' k = Some s' \<and> step_status s' \<in> {S_QUEUED, S_WAITING_APPROVAL}"
    proof cases
      case 1
      then show ?thesis using s activated(3-7) preds_done_evolves [OF e] by blast
    next
      case 2
      then show ?thesis using inv activated(8) preds_done_evolves [OF e]
        by (auto simp: activation_state_def)
    qed
  qed
qed

lemma activate_fold_state:
  assumes "foldE (activate_one pf rid ordinals) (acts, x) sids = Inr (acts', x')"
    and "activation_state d (map_of (rev ordinals)) (acts, x)"
  shows "activation_state d (map_of (rev ordinals)) (acts', x')"
  using assms
proof (rule foldE_invariant)
  fix sid st st'
  assume "activation_state d (map_of (rev ordinals)) st" "activate_one pf rid ordinals st sid = Inr st'"
  then show "activation_state d (map_of (rev ordinals)) st'"
    by (cases st; cases st') (simp add: activation_state_step)
qed

lemma activation_state_init: "activation_state d m ([], d)"
  by (simp add: activation_state_def db_evolves_refl)

lemma activate_fold_keeps:
  assumes "foldE (activate_one pf rid ordinals) (acts, x) sids = Inr (acts', x')"
  shows "set acts \<subseteq> set acts'"
proof -
  have "(\<lambda>st. set acts \<subseteq> set (fst st)) (acts', x')"
    using assms
  proof (rule foldE_invariant)
    fix sid st st'
    assume "set acts \<subseteq> set (fst st)" "activate_one pf rid ordinals st sid = Inr st'"
    then show "set acts \<subseteq> set (fst st')"
      by (cases st; cases st') (auto elim!: activate_one_cases)
  qed simp
  then show ?thesis by simp
qed

abbreviation run_ordinals :: "db \<Rightarrow> uuid \<Rightarrow> (int \<times> uuid) list" where
  "run_ordinals d rid \<equiv> map (\<lambda>s. (step_ordinal s, step_id s)) (steps_for_run d rid)"

lemma activate_ready_stepsE:
  assumes "activate_ready_steps pf d rid = Inr (acts, d')"
  obtains (idle) r where "get_run d rid = Some r" "run_status r \<noteq> R_RUNNING" "acts = []" "d' = d"
  | (loop) r where "get_run d rid = Some r" "run_status r = R_RUNNING"
      "foldE (activate_one pf rid (run_ordinals d rid)) ([], d) (map step_id (steps_for_run d rid))
         = Inr (acts, d')"
  using assms
  by (auto simp: activate_ready_steps_def res_simps Let_def held_run_def split: if_splits option.splits)

definition activated_db :: "uuid list \<times> db" where
  "activated_db = result_or ([], waiting_db) (activate_ready_steps sample_platform waiting_db 2)"

lemma waiting_activation: "activate_ready_steps sample_platform waiting_db 2 = Inr ([5], snd activated_db)"
proof -
  have "fst activated_db = [5]" by code_simp
  moreover have "activate_ready_steps sample_platform waiting_db 2 = Inr activated_db"
    unfolding activated_db_def by (rule result_or_Inr) code_simp
  ultimately show ?thesis by (metis prod.collapse)
qed

text \<open>
  C27. A step starts only after its predecessors: every step that \<open>activate_ready_steps\<close> reports
  was pending, is now queued or waiting for an approval, and each of its predecessor ordinals names
  a completed step of the run.
\<close>

theorem activation_waits_for_predecessors:
  assumes "activate_ready_steps pf d rid = Inr (acts, d')" "sid \<in> set acts"
  shows "\<exists>s s' preds. get_step d sid = Some s \<and> step_status s = S_PENDING \<and>
    predecessors (step_dependency_metadata s) = Inr preds \<and>
    (\<forall>v \<in> set preds. \<exists>x p. x \<in> set (steps_for_run d rid) \<and> step_ordinal x = v \<and>
       get_step d' (step_id x) = Some p \<and> step_status p = S_COMPLETED) \<and>
    get_step d' sid = Some s' \<and> step_status s' \<in> {S_QUEUED, S_WAITING_APPROVAL}"
  using assms(1)
proof (cases rule: activate_ready_stepsE)
  case idle
  then show ?thesis using assms(2) by simp
next
  case (loop r)
  have "activation_state d (map_of (rev (run_ordinals d rid))) (acts, d')"
    by (rule activate_fold_state [OF loop(3) activation_state_init])
  then obtain s s' preds where s: "get_step d sid = Some s" "step_status s = S_PENDING"
      "predecessors (step_dependency_metadata s) = Inr preds"
      "preds_done d' (map_of (rev (run_ordinals d rid))) preds"
      "get_step d' sid = Some s'" "step_status s' \<in> {S_QUEUED, S_WAITING_APPROVAL}"
    using assms(2) by (fastforce simp: activation_state_def)
  have "\<exists>x p. x \<in> set (steps_for_run d rid) \<and> step_ordinal x = v \<and>
      get_step d' (step_id x) = Some p \<and> step_status p = S_COMPLETED" if "v \<in> set preds" for v
  proof -
    from s(4) that obtain k p where k: "map_of (rev (run_ordinals d rid)) v = Some k"
        "get_step d' k = Some p" "step_status p = S_COMPLETED"
      by (auto simp: preds_done_def)
    from map_of_SomeD [OF k(1)] obtain x where
      "x \<in> set (steps_for_run d rid)" "step_ordinal x = v" "step_id x = k" by auto
    then show ?thesis using k(2,3) by blast
  qed
  then show ?thesis using s by blast
qed

theorem activation_waits_for_predecessors_witness:
  "\<exists>s'. get_step (snd activated_db) 5 = Some s' \<and> step_status s' \<in> {S_QUEUED, S_WAITING_APPROVAL}"
  using activation_waits_for_predecessors [OF waiting_activation, of 5] by auto

text \<open>
  No ready step is forgotten: in a running run, activation, when it does not raise, starts every
  pending step of the run whose predecessors are all completed.
\<close>

theorem ready_steps_are_activated:
  assumes "activate_ready_steps pf d rid = Inr (acts, d')"
    and "get_run d rid = Some r" "run_status r = R_RUNNING"
    and "x \<in> set (steps_for_run d rid)" "get_step d (step_id x) = Some s" "step_status s = S_PENDING"
    and "predecessors (step_dependency_metadata s) = Inr preds"
    and "preds_done d (map_of (rev (run_ordinals d rid))) preds"
  shows "step_id x \<in> set acts"
  using assms(1)
proof (cases rule: activate_ready_stepsE)
  case (idle r')
  then show ?thesis using assms(2,3) by simp
next
  case (loop r')
  let ?f = "activate_one pf rid (run_ordinals d rid)"
  have "step_id x \<in> set (map step_id (steps_for_run d rid))" using assms(4) by simp
  then obtain xs ys where split: "map step_id (steps_for_run d rid) = xs @ step_id x # ys"
    by (meson split_list)
  with loop(3) obtain acts1 d1 acts2 d2 where
    f: "foldE ?f ([], d) xs = Inr (acts1, d1)" "?f (acts1, d1) (step_id x) = Inr (acts2, d2)"
      "foldE ?f (acts2, d2) ys = Inr (acts, d')"
    by (auto simp: foldE_append res_simps)
  have inv: "activation_state d (map_of (rev (run_ordinals d rid))) (acts1, d1)"
    by (rule activate_fold_state [OF f(1) activation_state_init])
  have "step_id x \<in> set acts2"
    using f(2)
  proof (cases rule: activate_one_cases)
    case (skipped s1)
    show ?thesis
    proof (rule ccontr)
      assume "step_id x \<notin> set acts2"
      then have "s1 = s" using skipped inv assms(5) by (simp add: activation_state_def)
      moreover have "preds_done d1 (map_of (rev (run_ordinals d rid))) preds"
        using inv preds_done_evolves assms(8) by (auto simp: activation_state_def)
      ultimately show False using skipped(4) assms(6,7) by auto
    qed
  qed simp
  then show ?thesis using activate_fold_keeps [OF f(3)] by blast
qed

end
