(* ===== verification/Budget_Ledger.thy ===== *)
theory Budget_Ledger
  imports Leasing Recovery_Policy
begin

text \<open>
  \<^verbatim>\<open>providers/budgets.py\<close>, first part: the rows of the ledger, the estimates, the totals that
  admission reads, and the owner's decisions about cost. Amounts are rationals, so the sums and
  comparisons of Python decimals are exact; \<open>show\<close> is \<open>str\<close> of a decimal, which only reaches
  audit payloads. A day is a day of the UTC session clock.
\<close>

section \<open>Rows\<close>

definition get_reservation :: "db \<Rightarrow> uuid \<Rightarrow> budget_reservation option" where
  "get_reservation d = find_row br_id (db_reservations d)"

definition upd_reservation :: "uuid \<Rightarrow> (budget_reservation \<Rightarrow> budget_reservation) \<Rightarrow> db \<Rightarrow> db" where
  "upd_reservation k f d = d\<lparr>db_reservations := update_row br_id k f (db_reservations d)\<rparr>"

definition add_reservation :: "budget_reservation \<Rightarrow> db \<Rightarrow> db" where
  "add_reservation r d =
     d\<lparr>db_reservations := db_reservations d @ [r], next_uuid := Suc (next_uuid d)\<rparr>"

definition get_usage :: "db \<Rightarrow> uuid \<Rightarrow> usage_record option" where
  "get_usage d = find_row us_id (db_usage d)"

definition upd_usage :: "uuid \<Rightarrow> (usage_record \<Rightarrow> usage_record) \<Rightarrow> db \<Rightarrow> db" where
  "upd_usage k f d = d\<lparr>db_usage := update_row us_id k f (db_usage d)\<rparr>"

definition add_usage :: "usage_record \<Rightarrow> db \<Rightarrow> db" where
  "add_usage u d = d\<lparr>db_usage := db_usage d @ [u], next_uuid := Suc (next_uuid d)\<rparr>"

interpretation reservation_store: row_store db_reservations br_id get_reservation upd_reservation
  by unfold_locales (simp_all add: get_reservation_def upd_reservation_def)

interpretation usage_store: row_store db_usage us_id get_usage upd_usage
  by unfold_locales (simp_all add: get_usage_def upd_usage_def)

definition usage_of :: "db \<Rightarrow> uuid \<Rightarrow> usage_record option" where
  "usage_of d rid = find (\<lambda>u. us_reservation_id u = Some rid) (db_usage d)"

definition DEFAULT_ACCOUNTING_CURRENCY :: string where
  "DEFAULT_ACCOUNTING_CURRENCY = ''USD''"

definition ORPHAN_PROVIDER :: string where
  "ORPHAN_PROVIDER = ''unknown''"

definition ORPHAN_MODEL :: string where
  "ORPHAN_MODEL = ''unknown''"

section \<open>Limits, estimates and usage\<close>

record hard_limits =
  hl_task_cost_units :: money
  hl_task_input_tokens :: int
  hl_task_output_tokens :: int
  hl_step_cost_units :: money
  hl_step_input_tokens :: int
  hl_step_output_tokens :: int
  hl_provider_call_input_tokens :: int
  hl_provider_call_output_tokens :: int
  hl_daily_cost_units :: money
  hl_daily_quota_units :: money
  hl_usage_total_hard :: bool
  hl_estimated_cost_hard :: bool
  hl_explicit_money_cap_units :: "money option"
  hl_max_work_attempts :: int
  hl_max_provider_calls :: int
  hl_max_replans :: int
  hl_review_allowance_input_tokens :: int
  hl_review_allowance_output_tokens :: int
  hl_review_allowance_cost_units :: money

datatype launch_mode = LM_API | LM_CLI | LM_TOOL

record provider_profile =
  pp_id :: string
  pp_provider :: string
  pp_model :: string
  pp_launch_mode :: launch_mode
  pp_input_cost_units_per_million :: "money option"
  pp_output_cost_units_per_million :: "money option"
  pp_quota_units_per_call :: "money option"
  pp_minimum_unknown_usage_cost :: money

definition ceiling_is_admission_only :: "provider_profile \<Rightarrow> bool" where
  "ceiling_is_admission_only profile = (pp_launch_mode profile \<in> {LM_CLI, LM_TOOL})"

record normalized_usage =
  nu_input_tokens :: "int option"
  nu_output_tokens :: "int option"
  nu_cached_tokens :: "int option"
  nu_cost_units :: "money option"
  nu_quota_units :: "money option"
  nu_duration_ms :: int

record accounting_context =
  ac_purpose :: string
  ac_attempt_kind :: string
  ac_pricing_revision :: "string option"
  ac_currency :: string
  ac_horizon_id :: "uuid option"

record reservation_estimate =
  re_input_tokens :: int
  re_output_tokens :: int
  re_cost_units :: money
  re_quota_units :: money

text \<open>\<open>quantize(MONEY_QUANTUM)\<close> away from zero and, by default, half to even.\<close>

definition MONEY_QUANTUM :: money where
  "MONEY_QUANTUM = 1 / 1000000"

definition quantize_up :: "money \<Rightarrow> money" where
  "quantize_up x =
     (if 0 \<le> x then of_int \<lceil>x / MONEY_QUANTUM\<rceil> else of_int \<lfloor>x / MONEY_QUANTUM\<rfloor>) * MONEY_QUANTUM"

definition quantize_even :: "money \<Rightarrow> money" where
  "quantize_even x =
     (let y = x / MONEY_QUANTUM; n = \<lfloor>y\<rfloor>; r = y - of_int n
      in of_int (if r < 1 / 2 then n else if 1 / 2 < r then n + 1
                 else if even n then n else n + 1) * MONEY_QUANTUM)"

definition token_cost :: "int \<Rightarrow> money \<Rightarrow> int \<Rightarrow> money \<Rightarrow> money" where
  "token_cost input_tokens input_rate output_tokens output_rate =
     (of_int input_tokens * input_rate + of_int output_tokens * output_rate) / 1000000"

definition or_zero :: "money option \<Rightarrow> money" where
  "or_zero v = (case v of None \<Rightarrow> 0 | Some x \<Rightarrow> x)"

definition estimate_reservation :: "provider_profile \<Rightarrow> int \<Rightarrow> int \<Rightarrow> reservation_estimate" where
  "estimate_reservation profile input_tokens output_tokens =
     \<lparr>re_input_tokens = input_tokens, re_output_tokens = output_tokens,
      re_cost_units = quantize_up (max
        (token_cost input_tokens (or_zero (pp_input_cost_units_per_million profile))
           output_tokens (or_zero (pp_output_cost_units_per_million profile)))
        (pp_minimum_unknown_usage_cost profile)),
      re_quota_units = quantize_even (or_zero (pp_quota_units_per_call profile))\<rparr>"

definition account_usage :: "provider_profile \<Rightarrow> normalized_usage \<Rightarrow> normalized_usage" where
  "account_usage profile usage = usage
     \<lparr>nu_cost_units :=
        (case (nu_cost_units usage, pp_input_cost_units_per_million profile,
               pp_output_cost_units_per_million profile, nu_input_tokens usage, nu_output_tokens usage) of
           (None, Some ir, Some our, Some i, Some ou) \<Rightarrow> Some (quantize_up (token_cost i ir ou our))
         | _ \<Rightarrow> nu_cost_units usage),
      nu_quota_units :=
        (case (nu_quota_units usage, pp_quota_units_per_call profile) of
           (None, Some q) \<Rightarrow> Some (quantize_even q)
         | _ \<Rightarrow> nu_quota_units usage)\<rparr>"

definition STEP_PURPOSE :: "(string \<times> string) list" where
  "STEP_PURPOSE =
     [(''planner'', ''planning''), (''execute_code'', ''coding''), (''execute_agent'', ''coding''),
      (''research_execute'', ''research''), (''synthesize'', ''research''),
      (''ensure_capabilities'', ''setup''), (''ensure_dependencies'', ''setup''),
      (''scout'', ''scout'')]"

definition purpose_for_step_type :: "string \<Rightarrow> string" where
  "purpose_for_step_type ty = (case map_of STEP_PURPOSE ty of None \<Rightarrow> ''coding'' | Some p \<Rightarrow> p)"

definition attempt_kind_for_payload :: "json_obj \<Rightarrow> int \<Rightarrow> string" where
  "attempt_kind_for_payload payload attempt_count =
     (if jget payload ''repair_context'' \<noteq> JNull then attempt_kind_value K_REPAIR
      else if attempt_count > 1 then attempt_kind_value K_RETRY
      else attempt_kind_value K_INITIAL)"

definition attempt_kind_for_step :: "step \<Rightarrow> string" where
  "attempt_kind_for_step s = attempt_kind_for_payload (step_payload s) (step_attempt_count s)"

section \<open>Budget events\<close>

definition task_event :: "uuid \<Rightarrow> string \<Rightarrow> string \<Rightarrow> string option \<Rightarrow> json_obj \<Rightarrow> event" where
  "task_event tid event_type actor_type actor_id payload =
     \<lparr>ev_entity_type = ''task'', ev_entity_id = tid, ev_event_type = event_type,
      ev_actor_type = actor_type, ev_actor_id = actor_id, ev_previous_state = None,
      ev_new_state = None, ev_payload = payload\<rparr>"

definition task_event_exists :: "db \<Rightarrow> uuid \<Rightarrow> string \<Rightarrow> (event \<Rightarrow> bool) \<Rightarrow> bool" where
  "task_event_exists d tid event_type P =
     (\<exists>e \<in> set (db_events d). ev_entity_type e = ''task'' \<and> ev_entity_id e = tid \<and>
        ev_event_type e = event_type \<and> P e)"

definition note_budget_event :: "uuid \<Rightarrow> string \<Rightarrow> string \<Rightarrow> string \<Rightarrow> db \<Rightarrow> db" where
  "note_budget_event tid event_type dimension detail d =
     (if task_event_exists d tid event_type (\<lambda>e. jget (ev_payload e) ''dimension'' = JStr dimension)
      then d
      else add_event (task_event tid event_type ''budget'' None
             [(''dimension'', JStr dimension), (''detail'', JStr detail)]) d)"

definition enforce_or_note :: "uuid option \<Rightarrow> bool \<Rightarrow> bool \<Rightarrow> string \<Rightarrow> string \<Rightarrow> db \<Rightarrow> error + db" where
  "enforce_or_note tid exceeded hard dimension detail d =
     (if \<not> exceeded then Inr d
      else
        case tid of
          None \<Rightarrow> Inl (BudgetExceeded detail)
        | Some t \<Rightarrow>
            if hard then Inl (BudgetExceeded detail)
            else Inr (note_budget_event t ''budget.soft_overrun'' dimension detail d))"

definition note_admission_only_ceiling :: "uuid \<Rightarrow> string \<Rightarrow> db \<Rightarrow> db" where
  "note_admission_only_ceiling tid profile_id =
     note_budget_event tid ''budget.ceiling_unenforceable'' (''launch:'' @ profile_id)
       (''explicit money cap is checked only before launch; '' @
        ''the adapter cannot cap the running session'')"

section \<open>Task families\<close>

definition parent_of :: "db \<Rightarrow> uuid \<Rightarrow> uuid option" where
  "parent_of d tid = Option.bind (get_task d tid) task_parent_task_id"

text \<open>The climb to the root, at most twenty steps and never through a task twice.\<close>

fun family_climb :: "db \<Rightarrow> nat \<Rightarrow> uuid set \<Rightarrow> uuid \<Rightarrow> uuid" where
  "family_climb d 0 seen current = current"
| "family_climb d (Suc n) seen current =
     (case parent_of d current of
        None \<Rightarrow> current
      | Some p \<Rightarrow> if p \<in> seen then current else family_climb d n (insert p seen) p)"

definition task_family_root :: "db \<Rightarrow> uuid \<Rightarrow> uuid" where
  "task_family_root d tid = family_climb d 20 {tid} tid"

definition children_of :: "db \<Rightarrow> uuid list \<Rightarrow> uuid list" where
  "children_of d frontier =
     map task_id (filter (\<lambda>t. \<exists>p \<in> set frontier. task_parent_task_id t = Some p) (db_tasks d))"

fun family_descend :: "db \<Rightarrow> nat \<Rightarrow> uuid list \<Rightarrow> uuid set \<Rightarrow> uuid set" where
  "family_descend d 0 frontier family = family"
| "family_descend d (Suc n) frontier family =
     (if frontier = [] then family
      else let next = filter (\<lambda>c. c \<notin> family) (children_of d frontier)
           in family_descend d n next (family \<union> set next))"

definition explicit_money_family :: "db \<Rightarrow> uuid \<Rightarrow> uuid set" where
  "explicit_money_family d tid =
     (let root = task_family_root d tid in family_descend d 20 [root] {root})"

definition in_family :: "uuid set \<Rightarrow> uuid option \<Rightarrow> bool" where
  "in_family family v = (case v of None \<Rightarrow> False | Some t \<Rightarrow> t \<in> family)"

section \<open>Owner decisions\<close>

definition accepted_unknown_usage_ids :: "db \<Rightarrow> uuid set \<Rightarrow> string set" where
  "accepted_unknown_usage_ids d family =
     \<Union> ((\<lambda>e. set (json_strings (jget (ev_payload e) ''usage_ids''))) `
       set (filter (\<lambda>e. ev_entity_type e = ''task'' \<and> ev_entity_id e \<in> family \<and>
         ev_event_type e = ''budget.cost_uncertainty_accepted'') (db_events d)))"

definition has_admission_only_consent :: "db \<Rightarrow> uuid \<Rightarrow> bool" where
  "has_admission_only_consent d tid =
     task_event_exists d (task_family_root d tid) ''budget.admission_only_consent'' (\<lambda>_. True)"

definition require_admission_only_consent ::
  "db \<Rightarrow> uuid option \<Rightarrow> hard_limits \<Rightarrow> bool \<Rightarrow> error + unit" where
  "require_admission_only_consent d tid limits admission_only =
     (case tid of
        None \<Rightarrow> Inr ()
      | Some t \<Rightarrow>
          if \<not> admission_only \<or> hl_explicit_money_cap_units limits = None \<or>
             has_admission_only_consent d t
          then Inr ()
          else Inl (BudgetExceeded
            ''explicit money cap cannot cover an admission-only launch without owner consent''))"

definition ADMISSION_ONLY_CONSENT_SUMMARY :: string where
  "ADMISSION_ONLY_CONSENT_SUMMARY =
     ''Strogij denezhnyj potolok nelzya garantirovat dlya etoj sessii: adapter '' @
     ''mozhet otkazat do zapuska i ostanovit process, no ne ogranichivaet uzhe '' @
     ''zapushchennuyu sessiyu. Nuzhno yavnoe soglasie vladelca na etu ogranichennuyu '' @
     ''garantiyu libo kontroliruemyj vyzov.''"

definition record_admission_only_consent ::
  "platform \<Rightarrow> uuid \<Rightarrow> int \<Rightarrow> string \<Rightarrow> db \<Rightarrow> error + db" where
  "record_admission_only_consent pf tid owner reason d =
     (if owner = 0 \<or> pf_strip pf reason = []
      then Inl (ValueError ''admission-only consent requires an owner and a reason'')
      else if has_admission_only_consent d tid then Inr d
      else
        let root = task_family_root d tid
        in Inr (add_event (task_event root ''budget.admission_only_consent'' ''user''
             (Some (int_dec owner))
             [(''principal_user_id'', JInt owner), (''reason'', JStr (pf_strip pf reason)),
              (''scope'', JStr ''task_family''), (''root_task_id'', JStr (uuid_str root)),
              (''statement'', JStr ADMISSION_ONLY_CONSENT_SUMMARY)]) d))"

definition money_json :: "(money \<Rightarrow> string) \<Rightarrow> money option \<Rightarrow> json" where
  "money_json show v = opt_json (map_option show v)"

definition reconcile_unknown_usage ::
  "(money \<Rightarrow> string) \<Rightarrow> uuid \<Rightarrow> money \<Rightarrow> int \<Rightarrow> db \<Rightarrow> error + db" where
  "reconcile_unknown_usage show usage_id cost_units owner d =
     (if owner = 0 then Inl (ValueError ''reconciliation requires an owner'')
      else if cost_units \<le> 0 then Inl (ValueError ''a measured receipt is not zero'')
      else
        case get_usage d usage_id of
          None \<Rightarrow> Inl (ValueError ''unknown usage receipt is missing'')
        | Some row \<Rightarrow>
            (case us_task_id row of
               None \<Rightarrow> Inl (ValueError ''unknown usage receipt is missing'')
             | Some tid \<Rightarrow>
                 if us_cost_known row then Inl (ValueError ''unknown usage receipt is missing'')
                 else Inr (add_event (task_event tid ''budget.cost_reconciled'' ''user''
                        (Some (int_dec owner))
                        [(''usage_id'', JStr (uuid_str usage_id)),
                         (''previous_cost_units'', money_json show (us_cost_units row)),
                         (''cost_units'', JStr (show cost_units)),
                         (''principal_user_id'', JInt owner)])
                   (upd_usage usage_id (\<lambda>u. u\<lparr>us_cost_units := Some cost_units,
                      us_cost_known := True, us_late_receipt := True\<rparr>) d))))"

definition unknown_usage :: "db \<Rightarrow> uuid set \<Rightarrow> usage_record list" where
  "unknown_usage d family =
     filter (\<lambda>u. in_family family (us_task_id u) \<and> \<not> us_cost_known u) (db_usage d)"

definition accept_cost_uncertainty ::
  "platform \<Rightarrow> (money \<Rightarrow> string) \<Rightarrow> uuid \<Rightarrow> int \<Rightarrow> string \<Rightarrow> db \<Rightarrow> error + db" where
  "accept_cost_uncertainty pf show tid owner reason d =
     (if owner = 0 \<or> pf_strip pf reason = []
      then Inl (ValueError ''uncertainty acceptance requires an owner and a reason'')
      else
        let unknown_rows = unknown_usage d (explicit_money_family d tid)
        in if unknown_rows = [] then Inl (ValueError ''no unknown cost to accept'')
           else Inr (add_event (task_event (task_family_root d tid)
                  ''budget.cost_uncertainty_accepted'' ''user'' (Some (int_dec owner))
                  [(''principal_user_id'', JInt owner), (''reason'', JStr (pf_strip pf reason)),
                   (''scope'', JStr ''task_family''),
                   (''usage_ids'', JList (map (\<lambda>u. JStr (uuid_str (us_id u))) unknown_rows)),
                   (''floors'', JList (map (\<lambda>u. money_json show (us_cost_units u)) unknown_rows))]) d))"

section \<open>Totals\<close>

text \<open>\<open>coalesce(sum(column), 0)\<close>: a null is left out of a sum.\<close>

definition sum_known :: "('r \<Rightarrow> 'n :: comm_monoid_add option) \<Rightarrow> 'r list \<Rightarrow> 'n" where
  "sum_known f rows = sum_list (List.map_filter f rows)"

definition money_reserved :: "db \<Rightarrow> uuid set \<Rightarrow> money" where
  "money_reserved d family =
     sum_list (map br_reserved_cost_units (filter (\<lambda>r. in_family family (br_task_id r) \<and>
       br_status r = B_RESERVED) (db_reservations d)))"

definition money_known :: "db \<Rightarrow> uuid set \<Rightarrow> money" where
  "money_known d family =
     sum_known us_cost_units (filter (\<lambda>u. in_family family (us_task_id u) \<and> us_cost_known u) (db_usage d))"

definition enforce_explicit_money_cap ::
  "db \<Rightarrow> uuid option \<Rightarrow> reservation_estimate \<Rightarrow> hard_limits \<Rightarrow> error + unit" where
  "enforce_explicit_money_cap d tid estimate limits =
     (case (tid, hl_explicit_money_cap_units limits) of
        (Some t, Some cap) \<Rightarrow>
          let family = explicit_money_family d t;
              unknown_rows = unknown_usage d family;
              covered = accepted_unknown_usage_ids d family
          in if \<exists>u \<in> set unknown_rows. uuid_str (us_id u) \<notin> covered \<or> us_cost_units u = None
             then Inl (BudgetExceeded ''explicit money cap cannot be certified while cost is unknown'')
             else if money_known d family + money_reserved d family +
                     sum_known us_cost_units unknown_rows + re_cost_units estimate > cap
             then Inl (BudgetExceeded ''explicit money cap exceeded'')
             else Inr ()
      | _ \<Rightarrow> Inr ())"

type_synonym totals = "int \<times> int \<times> money \<times> money"

definition usage_sums :: "usage_record list \<Rightarrow> totals" where
  "usage_sums rows =
     (sum_known us_input_tokens rows, sum_known us_output_tokens rows, sum_known us_cost_units rows,
      sum_known us_quota_units rows)"

definition reserved_sums :: "budget_reservation list \<Rightarrow> totals" where
  "reserved_sums rows =
     (sum_list (map br_reserved_input_tokens rows), sum_list (map br_reserved_output_tokens rows),
      sum_list (map br_reserved_cost_units rows), sum_list (map br_reserved_quota_units rows))"

fun add_totals :: "totals \<Rightarrow> totals \<Rightarrow> totals" where
  "add_totals (a, b, c, e) (a', b', c', e') = (a + a', b + b', c + c', e + e')"

text \<open>An optional filter: absent means every row.\<close>

definition matches :: "'a option \<Rightarrow> 'a option \<Rightarrow> bool" where
  "matches wanted v = (wanted = None \<or> v = wanted)"

definition usage_totals :: "db \<Rightarrow> uuid option \<Rightarrow> uuid option \<Rightarrow> int option \<Rightarrow> totals" where
  "usage_totals d tid sid epoch =
     usage_sums (filter (\<lambda>u. matches tid (us_task_id u) \<and> matches sid (us_step_id u) \<and>
       (\<exists>r \<in> set (db_reservations d). us_reservation_id u = Some (br_id r) \<and>
          matches epoch (Some (br_budget_epoch r)))) (db_usage d))"

definition reserved_totals :: "db \<Rightarrow> uuid option \<Rightarrow> uuid option \<Rightarrow> int option \<Rightarrow> totals" where
  "reserved_totals d tid sid epoch =
     reserved_sums (filter (\<lambda>r. br_status r = B_RESERVED \<and> matches tid (br_task_id r) \<and>
       matches sid (br_step_id r) \<and> matches epoch (Some (br_budget_epoch r))) (db_reservations d))"

definition day_start :: "time \<Rightarrow> time" where
  "day_start t = t - t mod seconds 86400"

definition daily_usage_totals :: "db \<Rightarrow> totals" where
  "daily_usage_totals d = usage_sums (filter (\<lambda>u. day_start (db_now d) \<le> us_created_at u) (db_usage d))"

definition lifetime_totals :: "db \<Rightarrow> uuid \<Rightarrow> totals \<times> int" where
  "lifetime_totals d horizon =
     (let usage = filter (\<lambda>u. us_horizon_id u = Some horizon) (db_usage d);
          reserved = filter (\<lambda>r. br_horizon_id r = Some horizon \<and> br_status r = B_RESERVED)
            (db_reservations d)
      in (add_totals (usage_sums usage) (reserved_sums reserved),
          int (length usage) + int (length reserved)))"

definition lifetime_task_count :: "db \<Rightarrow> uuid set \<Rightarrow> int" where
  "lifetime_task_count d scopes =
     (let tasks = set (List.map_filter us_task_id
                   (filter (\<lambda>u. in_family scopes (us_horizon_id u)) (db_usage d))) \<union>
                  set (List.map_filter br_task_id
                   (filter (\<lambda>r. in_family scopes (br_horizon_id r)) (db_reservations d)))
      in int (card tasks) + int (length (filter (\<lambda>a. wa_task_id a \<in> tasks) (db_attempts d))))"

definition task_lifetime_calls :: "db \<Rightarrow> uuid \<Rightarrow> int" where
  "task_lifetime_calls d tid =
     int (length (filter (\<lambda>u. us_task_id u = Some tid) (db_usage d))) +
     int (length (filter (\<lambda>r. br_task_id r = Some tid \<and> br_status r = B_RESERVED) (db_reservations d)))"

definition task_review_allowance :: "db \<Rightarrow> uuid \<Rightarrow> int \<times> int \<times> money" where
  "task_review_allowance d tid =
     (let rows = filter (\<lambda>r. br_task_id r = Some tid) (db_reservations d)
      in (sum_list (map br_allowance_input_tokens rows), sum_list (map br_allowance_output_tokens rows),
          sum_list (map br_allowance_cost_units rows)))"

definition resolve_package_id :: "db \<Rightarrow> uuid \<Rightarrow> uuid option" where
  "resolve_package_id d tid =
     map_option link_work_package_id (find (\<lambda>l. link_task_id l = tid) (db_links d))"

definition resolve_horizon_scope :: "db \<Rightarrow> uuid option \<Rightarrow> uuid option \<Rightarrow> uuid option" where
  "resolve_horizon_scope d tid intake =
     (case tid of Some t \<Rightarrow> resolve_package_id d t | None \<Rightarrow> intake)"

definition remaining_output_allowance ::
  "db \<Rightarrow> uuid \<Rightarrow> uuid \<Rightarrow> int \<Rightarrow> int \<Rightarrow> hard_limits \<Rightarrow> int" where
  "remaining_output_allowance d tid sid epoch requested limits =
     (let output = min requested (hl_provider_call_output_tokens limits) in
      if \<not> hl_usage_total_hard limits then output
      else
        let (_, task_used, _) = add_totals (usage_totals d (Some tid) None (Some epoch))
                                  (reserved_totals d (Some tid) None (Some epoch));
            (_, step_used, _) = add_totals (usage_totals d None (Some sid) (Some epoch))
                                  (reserved_totals d None (Some sid) (Some epoch))
        in max 0 (min output (min (hl_task_output_tokens limits - task_used)
                                  (hl_step_output_tokens limits - step_used))))"

end
