(* ===== verification/Budgets.thy ===== *)
theory Budgets
  imports Budget_Ledger
begin

text \<open>
  \<^verbatim>\<open>providers/budgets.py\<close>, second part: admission (\<open>reserve_budget\<close>, \<open>reserve_invocation_budget\<close>),
  settlement, release, and the sweep of reservations left behind by a dead worker; and
  \<open>parse_work_limits\<close> of \<^verbatim>\<open>leadership/limits.py\<close>. The advisory lock that serialises admissions
  is what lets the model run them one after another. A reservation that the code holds as a row
  object is passed as that row; its attribute writes go to the stored row.
\<close>

section \<open>Lifetime limits of a goal\<close>

record work_limits =
  wl_max_cost :: "int option"
  wl_max_attempts :: "int option"
  wl_max_packages :: "int option"
  wl_max_items_per_package :: "int option"

text \<open>A strict optional number with a lower bound: absent and null give none.\<close>

definition limit_field :: "json_obj \<Rightarrow> string \<Rightarrow> int \<Rightarrow> error + int option" where
  "limit_field raw key least =
     (case jget raw key of
        JNull \<Rightarrow> Inr None
      | JInt i \<Rightarrow> if least \<le> i then Inr (Some i) else Inl (DomainError ''invalid_work_limits'')
      | _ \<Rightarrow> Inl (DomainError ''invalid_work_limits''))"

definition work_limit_keys :: "string list" where
  "work_limit_keys = [''max_cost'', ''max_attempts'', ''max_packages'', ''max_items_per_package'']"

text \<open>The owner's default cost limit applies only where the stored limits do not name one.\<close>

definition parse_work_limits :: "json \<Rightarrow> int option \<Rightarrow> error + work_limits" where
  "parse_work_limits raw default_max_cost =
     (case raw of
        JObj obj \<Rightarrow>
          if \<exists>(k, _) \<in> set obj. k \<notin> set work_limit_keys then Inl (DomainError ''invalid_work_limits'')
          else
            bindE (limit_field obj ''max_cost'' 0) (\<lambda>cost.
            bindE (limit_field obj ''max_attempts'' 1) (\<lambda>attempts.
            bindE (limit_field obj ''max_packages'' 1) (\<lambda>packages.
            bindE (limit_field obj ''max_items_per_package'' 1) (\<lambda>items.
              Inr \<lparr>wl_max_cost = (if default_max_cost \<noteq> None \<and> \<not> jhas obj ''max_cost''
                                  then default_max_cost else cost), wl_max_attempts = attempts, wl_max_packages = packages,
                   wl_max_items_per_package = items\<rparr>))))
      | _ \<Rightarrow> Inl (DomainError ''invalid_work_limits''))"

definition get_package :: "db \<Rightarrow> uuid \<Rightarrow> work_package option" where
  "get_package d = find_row wp_id (db_packages d)"

definition get_goal :: "db \<Rightarrow> uuid \<Rightarrow> managed_goal option" where
  "get_goal d = find_row goal_id (db_goals d)"

text \<open>A goal and every package it owns.\<close>

definition goal_scopes :: "db \<Rightarrow> uuid \<Rightarrow> uuid set" where
  "goal_scopes d gid =
     insert gid (wp_id ` set (filter (\<lambda>p. wp_managed_goal_id p = Some gid) (db_packages d)))"

definition goal_cost_totals :: "db \<Rightarrow> uuid \<Rightarrow> money \<times> money" where
  "goal_cost_totals d gid =
     (let scopes = goal_scopes d gid
      in (sum_known us_cost_units (filter (\<lambda>u. in_family scopes (us_horizon_id u)) (db_usage d)),
          sum_list (map br_reserved_cost_units (filter (\<lambda>r. in_family scopes (br_horizon_id r) \<and>
            br_status r = B_RESERVED) (db_reservations d)))))"

definition check_batch_limits :: "db \<Rightarrow> managed_goal \<Rightarrow> int \<Rightarrow> bool \<Rightarrow> error + unit" where
  "check_batch_limits d goal items admitting =
     bindE (parse_work_limits (jget_default (goal_constraints goal) ''work_limits'' (JObj [])) None) (\<lambda>limits.
       if (case wl_max_items_per_package limits of None \<Rightarrow> False | Some n \<Rightarrow> items > n)
       then Inl (DomainError ''work_item_limit_reached'')
       else
         case wl_max_packages limits of
           None \<Rightarrow> Inr ()
         | Some n \<Rightarrow>
             let used = int (length (filter (\<lambda>p. wp_managed_goal_id p = Some (goal_id goal))
                          (db_packages d)))
             in if used + (if admitting then 1 else 0) > n
                then Inl (DomainError ''work_package_limit_reached'') else Inr ())"

definition enforce_lifetime_budget :: "db \<Rightarrow> uuid \<Rightarrow> reservation_estimate \<Rightarrow> error + unit" where
  "enforce_lifetime_budget d horizon estimate =
     (let gid = (case get_package d horizon of Some p \<Rightarrow> wp_managed_goal_id p | None \<Rightarrow> Some horizon)
      in case Option.bind gid (get_goal d) of
           None \<Rightarrow> Inr ()
         | Some goal \<Rightarrow>
             bindE (parse_work_limits (jget_default (goal_constraints goal) ''work_limits'' (JObj [])) None)
               (\<lambda>budget.
                 bindE
                   (case wl_max_cost budget of
                      None \<Rightarrow> Inr ()
                    | Some cap \<Rightarrow>
                        let (spent, reserved) = goal_cost_totals d (goal_id goal)
                        in if spent + reserved + re_cost_units estimate > of_int cap
                           then Inl (GoalBudgetExceeded ''lifetime owner cost budget exhausted'')
                           else Inr ())
                   (\<lambda>_. case wl_max_attempts budget of
                      None \<Rightarrow> Inr ()
                    | Some cap \<Rightarrow>
                        if lifetime_task_count d (goal_scopes d (goal_id goal)) \<ge> cap
                        then Inl (BudgetExceeded ''lifetime owner attempt budget exhausted'')
                        else Inr ())))"

section \<open>Admission\<close>

definition enforce_call_caps :: "reservation_estimate \<Rightarrow> hard_limits \<Rightarrow> error + unit" where
  "enforce_call_caps estimate limits =
     (if re_input_tokens estimate > hl_provider_call_input_tokens limits
      then Inl (BudgetExceeded ''provider call input-token limit exceeded'')
      else if re_output_tokens estimate > hl_provider_call_output_tokens limits
      then Inl (BudgetExceeded ''provider call output-token limit exceeded'')
      else Inr ())"

definition enforce_daily_caps :: "db \<Rightarrow> reservation_estimate \<Rightarrow> hard_limits \<Rightarrow> error + unit" where
  "enforce_daily_caps d estimate limits =
     (let (_, _, used_cost, used_quota) = daily_usage_totals d;
          (_, _, reserved_cost, reserved_quota) = reserved_totals d None None None
      in if used_cost + reserved_cost + re_cost_units estimate > hl_daily_cost_units limits
         then Inl (BudgetExceeded ''daily cost limit exceeded'')
         else if used_quota + reserved_quota + re_quota_units estimate > hl_daily_quota_units limits
         then Inl (BudgetExceeded ''daily quota limit exceeded'')
         else Inr ())"

definition review_allowance_parts ::
  "db \<Rightarrow> uuid \<Rightarrow> totals \<Rightarrow> reservation_estimate \<Rightarrow> hard_limits \<Rightarrow> int \<times> int \<times> money" where
  "review_allowance_parts d tid task_total estimate limits =
     (let (used_in, used_out, used_cost) = task_review_allowance d tid;
          (total_in, total_out, total_cost, _) = task_total
      in (min (re_input_tokens estimate)
            (min (max (total_in + re_input_tokens estimate - hl_task_input_tokens limits) 0)
                 (max (hl_review_allowance_input_tokens limits - used_in) 0)),
          min (re_output_tokens estimate)
            (min (max (total_out + re_output_tokens estimate - hl_task_output_tokens limits) 0)
                 (max (hl_review_allowance_output_tokens limits - used_out) 0)),
          min (re_cost_units estimate)
            (min (max (total_cost + re_cost_units estimate - hl_task_cost_units limits) 0)
                 (max (hl_review_allowance_cost_units limits - used_cost) 0))))"

definition step_attempts_of_task :: "db \<Rightarrow> uuid \<Rightarrow> int" where
  "step_attempts_of_task d tid =
     sum_list (map step_attempt_count (filter (\<lambda>s. \<exists>r \<in> set (db_runs d).
       run_id r = step_run_id s \<and> run_task_id r = tid) (db_steps d)))"

text \<open>Replans of a package since the owner last approved a revision.\<close>

definition replans_since_approval :: "db \<Rightarrow> uuid \<Rightarrow> int" where
  "replans_since_approval d package =
     (let revisions = filter (\<lambda>r. prev_work_package_id r = package) (db_plan_revisions d);
          approved = map prev_revision_number
            (filter (\<lambda>r. prev_approved_by_user_id r \<noteq> None) revisions);
          floor = (if approved = [] then 0 else fold max (tl approved) (hd approved))
      in int (length (filter (\<lambda>r. prev_revision_number r > floor) revisions)))"

definition enforce_counters :: "db \<Rightarrow> uuid \<Rightarrow> hard_limits \<Rightarrow> error + unit" where
  "enforce_counters d tid limits =
     (if hl_max_provider_calls limits > 0 \<and>
         task_lifetime_calls d tid \<ge> hl_max_provider_calls limits
      then Inl (BudgetExceeded ''task provider-call limit exceeded'')
      else if hl_max_work_attempts limits > 0 \<and>
         int (length (filter (\<lambda>a. wa_task_id a = tid) (db_attempts d))) + step_attempts_of_task d tid
           \<ge> hl_max_work_attempts limits
      then Inl (BudgetExceeded ''task work-attempt limit exceeded'')
      else if hl_max_replans limits > 0 \<and>
         (case resolve_package_id d tid of
            None \<Rightarrow> False
          | Some package \<Rightarrow> replans_since_approval d package \<ge> hl_max_replans limits)
      then Inl (BudgetExceeded ''package replan limit exceeded'')
      else Inr ())"

definition new_reservation ::
  "db \<Rightarrow> uuid option \<Rightarrow> uuid option \<Rightarrow> uuid option \<Rightarrow> uuid option \<Rightarrow> string \<Rightarrow> int \<Rightarrow> int \<Rightarrow>
   reservation_estimate \<Rightarrow> accounting_context option \<Rightarrow> int \<times> int \<times> money \<Rightarrow> budget_reservation" where
  "new_reservation d tid rid sid invocation profile_id epoch attempt estimate accounting allowed =
     \<lparr>br_id = next_uuid d, br_task_id = tid, br_run_id = rid, br_step_id = sid,
      br_invocation_id = invocation, br_profile_id = profile_id, br_budget_epoch = epoch,
      br_provider_attempt = attempt,
      br_purpose = map_option ac_purpose accounting,
      br_attempt_kind = map_option ac_attempt_kind accounting,
      br_horizon_id = Option.bind accounting ac_horizon_id,
      br_pricing_revision = Option.bind accounting ac_pricing_revision,
      br_currency = map_option ac_currency accounting,
      br_reserved_input_tokens = re_input_tokens estimate,
      br_reserved_output_tokens = re_output_tokens estimate,
      br_reserved_cost_units = re_cost_units estimate,
      br_reserved_quota_units = re_quota_units estimate,
      br_allowance_input_tokens = fst allowed, br_allowance_output_tokens = fst (snd allowed),
      br_allowance_cost_units = snd (snd allowed),
      br_reconciled_input_tokens = None, br_reconciled_output_tokens = None,
      br_reconciled_cost_units = None, br_reconciled_quota_units = None,
      br_status = B_RESERVED, br_provider_request_id = None, br_created_at = db_now d,
      br_reconciled_at = None\<rparr>"

definition by_invocation :: "db \<Rightarrow> uuid \<Rightarrow> budget_reservation option" where
  "by_invocation d invocation = find (\<lambda>r. br_invocation_id r = Some invocation) (db_reservations d)"

definition by_step_attempt :: "db \<Rightarrow> uuid \<Rightarrow> int \<Rightarrow> budget_reservation option" where
  "by_step_attempt d sid attempt =
     find (\<lambda>r. br_step_id r = Some sid \<and> br_provider_attempt r = attempt) (db_reservations d)"

definition existing_reservation ::
  "db \<Rightarrow> uuid option \<Rightarrow> int \<Rightarrow> uuid option \<Rightarrow> error + budget_reservation option" where
  "existing_reservation d sid attempt invocation =
     (case sid of
        Some s \<Rightarrow> Inr (by_step_attempt d s attempt)
      | None \<Rightarrow>
          (case invocation of
             None \<Rightarrow> Inl (ValueError ''step-less reserve requires invocation_id'')
           | Some i \<Rightarrow> Inr (by_invocation d i)))"

text \<open>The soft or hard caps on the sums of a task and of a step, in the order of the code.\<close>

definition enforce_sum_caps ::
  "uuid \<Rightarrow> totals \<Rightarrow> totals \<Rightarrow> int \<times> int \<times> money \<Rightarrow> reservation_estimate \<Rightarrow> hard_limits \<Rightarrow> db \<Rightarrow>
   error + db" where
  "enforce_sum_caps tid task_total step_total allowed estimate limits d =
     (let (task_in, task_out, task_cost, _) = task_total;
          (step_in, step_out, step_cost, _) = step_total;
          (allowed_in, allowed_out, allowed_cost) = allowed;
          usage_hard = hl_usage_total_hard limits;
          cost_hard = hl_estimated_cost_hard limits
      in
      bindE (enforce_or_note (Some tid) (step_in + re_input_tokens estimate > hl_step_input_tokens limits)
        usage_hard ''step_input_tokens'' ''step input-token limit exceeded'' d) (\<lambda>d.
      bindE (enforce_or_note (Some tid) (step_out + re_output_tokens estimate > hl_step_output_tokens limits)
        usage_hard ''step_output_tokens'' ''step output-token limit exceeded'' d) (\<lambda>d.
      bindE (enforce_or_note (Some tid)
        (task_in + re_input_tokens estimate - allowed_in > hl_task_input_tokens limits)
        usage_hard ''task_input_tokens'' ''task input-token limit exceeded'' d) (\<lambda>d.
      bindE (enforce_or_note (Some tid)
        (task_out + re_output_tokens estimate - allowed_out > hl_task_output_tokens limits)
        usage_hard ''task_output_tokens'' ''task output-token limit exceeded'' d) (\<lambda>d.
      bindE (enforce_or_note (Some tid) (step_cost + re_cost_units estimate > hl_step_cost_units limits)
        cost_hard ''step_cost_units'' ''step cost limit exceeded'' d) (\<lambda>d.
      enforce_or_note (Some tid)
        (task_cost + re_cost_units estimate - allowed_cost > hl_task_cost_units limits)
        cost_hard ''task_cost_units'' ''task cost limit exceeded'' d))))))"

definition reserve_budget ::
  "uuid option \<Rightarrow> uuid option \<Rightarrow> uuid option \<Rightarrow> string \<Rightarrow> int \<Rightarrow> reservation_estimate \<Rightarrow> hard_limits \<Rightarrow>
   bool \<Rightarrow> accounting_context option \<Rightarrow> uuid option \<Rightarrow> bool \<Rightarrow> db \<Rightarrow> error + budget_reservation \<times> db" where
  "reserve_budget task run sid profile_id attempt estimate limits review accounting invocation
      admission_only d =
     bindE (existing_reservation d sid attempt invocation) (\<lambda>existing.
       case existing of
         Some r \<Rightarrow> Inr (r, d)
       | None \<Rightarrow>
           (case task of
              None \<Rightarrow> Inl (LookupError ''workflow budget reserve requires a task'')
            | Some tid \<Rightarrow>
                (case get_task d tid of
                   None \<Rightarrow> Inl (LookupError (''unknown budget task: '' @ uuid_str tid))
                 | Some t \<Rightarrow>
                     let epoch = task_budget_epoch t;
                         task_total = add_totals (usage_totals d (Some tid) None (Some epoch))
                                        (reserved_totals d (Some tid) None (Some epoch));
                         step_total = add_totals (usage_totals d None sid (Some epoch))
                                        (reserved_totals d None sid (Some epoch));
                         allowed = (if review
                            then review_allowance_parts d tid task_total estimate limits else (0, 0, 0))
                     in
                     bindE (enforce_call_caps estimate limits) (\<lambda>_.
                     bindE (enforce_sum_caps tid task_total step_total allowed estimate limits d) (\<lambda>d.
                     bindE (enforce_daily_caps d estimate limits) (\<lambda>_.
                     bindE (case Option.bind accounting ac_horizon_id of
                              None \<Rightarrow> Inr ()
                            | Some h \<Rightarrow> enforce_lifetime_budget d h estimate) (\<lambda>_.
                     bindE (enforce_counters d tid limits) (\<lambda>_.
                     bindE (require_admission_only_consent d (Some tid) limits admission_only) (\<lambda>_.
                     bindE (enforce_explicit_money_cap d (Some tid) estimate limits) (\<lambda>_.
                       let r = new_reservation d (Some tid) run sid invocation profile_id epoch attempt
                                 estimate accounting allowed
                       in Inr (r, add_reservation r d)))))))))))"

text \<open>
  The caps of the task a step-less invocation is bound to, and the epoch the reservation is booked
  in: epoch 0 is only the bucket of invocations without a task.
\<close>

definition enforce_task_caps ::
  "uuid option \<Rightarrow> reservation_estimate \<Rightarrow> hard_limits \<Rightarrow> db \<Rightarrow> error + int \<times> db" where
  "enforce_task_caps task estimate limits d =
     (case task of
        None \<Rightarrow> Inr (0, d)
      | Some tid \<Rightarrow>
          (case get_task d tid of
             None \<Rightarrow> Inl (LookupError (''unknown budget task: '' @ uuid_str tid))
           | Some t \<Rightarrow>
               let epoch = task_budget_epoch t;
                   (total_in, total_out, total_cost, _) =
                     add_totals (usage_totals d (Some tid) None (Some epoch))
                       (reserved_totals d (Some tid) None (Some epoch))
               in
               bindE (enforce_or_note (Some tid)
                 (total_in + re_input_tokens estimate > hl_task_input_tokens limits)
                 (hl_usage_total_hard limits) ''task_input_tokens''
                 ''task input-token limit exceeded'' d) (\<lambda>d.
               bindE (enforce_or_note (Some tid)
                 (total_out + re_output_tokens estimate > hl_task_output_tokens limits)
                 (hl_usage_total_hard limits) ''task_output_tokens''
                 ''task output-token limit exceeded'' d) (\<lambda>d.
               bindE (enforce_or_note (Some tid)
                 (total_cost + re_cost_units estimate > hl_task_cost_units limits)
                 (hl_estimated_cost_hard limits) ''task_cost_units''
                 ''task cost limit exceeded'' d) (\<lambda>d.
               Inr (epoch, d))))))"

definition reserve_invocation_budget ::
  "uuid \<Rightarrow> provider_profile \<Rightarrow> reservation_estimate \<Rightarrow> hard_limits \<Rightarrow> accounting_context \<Rightarrow>
   uuid option \<Rightarrow> uuid option \<Rightarrow> bool \<Rightarrow> db \<Rightarrow> error + budget_reservation \<times> db" where
  "reserve_invocation_budget invocation profile estimate limits accounting task run enforce_lifetime d =
     (case by_invocation d invocation of
        Some r \<Rightarrow> Inr (r, d)
      | None \<Rightarrow>
          bindE (enforce_call_caps estimate limits) (\<lambda>_.
          bindE (enforce_daily_caps d estimate limits) (\<lambda>_.
          bindE (enforce_task_caps task estimate limits d)
            (\<lambda>(epoch, d).
              bindE (case ac_horizon_id accounting of
                       Some h \<Rightarrow> if enforce_lifetime then enforce_lifetime_budget d h estimate else Inr ()
                     | None \<Rightarrow> Inr ()) (\<lambda>_.
              bindE (require_admission_only_consent d task limits (ceiling_is_admission_only profile)) (\<lambda>_.
              bindE (enforce_explicit_money_cap d task estimate limits) (\<lambda>_.
                let r = new_reservation d task run None (Some invocation) (pp_id profile) epoch 1 estimate
                          (Some accounting) (0, 0, 0)
                in Inr (r, add_reservation r d))))))))"

end
