(* ===== verification/Settlement.thy ===== *)
theory Settlement
  imports Budgets
begin

text \<open>
  \<^verbatim>\<open>providers/budgets.py\<close>, third part: settlement of reservations (fenced, late, step-less), their
  release, the closing of a step's reservations and the orphan sweep. \<open>locked\<close> are the rows that
  other transactions hold, which \<open>SKIP LOCKED\<close> passes over.
\<close>

section \<open>One reservation\<close>

definition apply_accounting :: "accounting_context \<Rightarrow> budget_reservation \<Rightarrow> budget_reservation" where
  "apply_accounting accounting r = r
     \<lparr>br_purpose := Some (ac_purpose accounting),
      br_attempt_kind := Some (ac_attempt_kind accounting),
      br_horizon_id := (case ac_horizon_id accounting of None \<Rightarrow> br_horizon_id r | Some h \<Rightarrow> Some h),
      br_pricing_revision := ac_pricing_revision accounting,
      br_currency := Some (ac_currency accounting)\<rparr>"

text \<open>A measured value, or the reserved one.\<close>

definition measured_or :: "(normalized_usage \<Rightarrow> 'a option) \<Rightarrow> normalized_usage option \<Rightarrow> 'a \<Rightarrow> 'a" where
  "measured_or field usage reserved = (case Option.bind usage field of None \<Rightarrow> reserved | Some v \<Rightarrow> v)"

definition cost_unknown :: "normalized_usage option \<Rightarrow> bool" where
  "cost_unknown usage = (Option.bind usage nu_cost_units = None)"

definition settled_row ::
  "normalized_usage option \<Rightarrow> string option \<Rightarrow> bool \<Rightarrow> time \<Rightarrow> budget_reservation \<Rightarrow> budget_reservation" where
  "settled_row usage request_id conservative now r = r
     \<lparr>br_reconciled_input_tokens := Some (measured_or nu_input_tokens usage (br_reserved_input_tokens r)),
      br_reconciled_output_tokens := Some (measured_or nu_output_tokens usage (br_reserved_output_tokens r)),
      br_reconciled_cost_units := Some (measured_or nu_cost_units usage (br_reserved_cost_units r)),
      br_reconciled_quota_units := Some (measured_or nu_quota_units usage (br_reserved_quota_units r)),
      br_provider_request_id := request_id,
      br_status := (if conservative \<or> cost_unknown usage then B_CONSERVATIVE else B_RECONCILED),
      br_reconciled_at := Some now\<rparr>"

definition settled_usage ::
  "uuid \<Rightarrow> string \<Rightarrow> string \<Rightarrow> normalized_usage option \<Rightarrow> string option \<Rightarrow> string \<Rightarrow> bool \<Rightarrow> time \<Rightarrow>
   budget_reservation \<Rightarrow> usage_record" where
  "settled_usage uid provider model usage request_id outcome late now r =
     \<lparr>us_id = uid, us_provider = provider, us_profile_id = br_profile_id r, us_model = model,
      us_task_id = br_task_id r, us_run_id = br_run_id r, us_step_id = br_step_id r,
      us_input_tokens = Some (measured_or nu_input_tokens usage (br_reserved_input_tokens r)),
      us_output_tokens = Some (measured_or nu_output_tokens usage (br_reserved_output_tokens r)),
      us_cached_tokens = Option.bind usage nu_cached_tokens,
      us_cost_units = Some (measured_or nu_cost_units usage (br_reserved_cost_units r)),
      us_quota_units = Some (measured_or nu_quota_units usage (br_reserved_quota_units r)),
      us_duration_ms = (case usage of None \<Rightarrow> 0 | Some u \<Rightarrow> nu_duration_ms u),
      us_provider_request_id = request_id, us_reservation_id = Some (br_id r),
      us_invocation_id = br_invocation_id r, us_outcome = outcome, us_purpose = br_purpose r,
      us_attempt_kind = br_attempt_kind r, us_horizon_id = br_horizon_id r,
      us_pricing_revision = br_pricing_revision r, us_currency = br_currency r,
      us_cost_known = (\<not> cost_unknown usage), us_late_receipt = late, us_created_at = now\<rparr>"

text \<open>The reservation is closed and its invocation row is written.\<close>

definition settle_reservation ::
  "string \<Rightarrow> string \<Rightarrow> normalized_usage option \<Rightarrow> string option \<Rightarrow> string \<Rightarrow> bool \<Rightarrow> bool \<Rightarrow>
   accounting_context option \<Rightarrow> budget_reservation \<Rightarrow> db \<Rightarrow> usage_record \<times> db" where
  "settle_reservation provider model usage request_id outcome conservative late accounting r d =
     (let account = (case accounting of None \<Rightarrow> id | Some a \<Rightarrow> apply_accounting a);
          record = settled_usage (next_uuid d) provider model usage request_id outcome late (db_now d)
                     (account r)
      in (record, add_usage record (upd_reservation (br_id r)
            (settled_row usage request_id conservative (db_now d) \<circ> account) d)))"

definition release_row :: "time \<Rightarrow> budget_reservation \<Rightarrow> budget_reservation" where
  "release_row now r = r\<lparr>br_status := B_RELEASED, br_reconciled_at := Some now\<rparr>"

definition token_step :: "db \<Rightarrow> lease_token \<Rightarrow> step option" where
  "token_step d token =
     find (\<lambda>s. step_fence token s \<and> step_status s \<in> {S_LEASED, S_RUNNING}) (db_steps d)"

definition holds_reservation :: "db \<Rightarrow> lease_token \<Rightarrow> budget_reservation \<Rightarrow> bool" where
  "holds_reservation d token r =
     (case token_step d token of None \<Rightarrow> False | Some s \<Rightarrow> br_step_id r = Some (step_id s))"

section \<open>Settlement\<close>

definition reconcile_usage ::
  "uuid \<Rightarrow> lease_token \<Rightarrow> string \<Rightarrow> string \<Rightarrow> normalized_usage option \<Rightarrow> string option \<Rightarrow> string \<Rightarrow> bool \<Rightarrow>
   accounting_context option \<Rightarrow> db \<Rightarrow> error + usage_record \<times> db" where
  "reconcile_usage rid token provider model usage request_id outcome conservative accounting d =
     (case get_reservation d rid of
        None \<Rightarrow> Inl (LookupError (''unknown budget reservation: '' @ uuid_str rid))
      | Some r \<Rightarrow>
          (case usage_of d rid of
             Some u \<Rightarrow> Inr (u, d)
           | None \<Rightarrow>
               if \<not> holds_reservation d token r
               then Inl (LeaseLost (''step lease lost before usage reconciliation: '' @
                      uuid_str (sr_id (tok_step token))))
               else Inr (settle_reservation provider model usage request_id outcome conservative False
                           accounting r d)))"

definition record_late_receipt ::
  "uuid \<Rightarrow> string \<Rightarrow> string \<Rightarrow> normalized_usage option \<Rightarrow> string option \<Rightarrow> string \<Rightarrow> bool \<Rightarrow>
   accounting_context option \<Rightarrow> db \<Rightarrow> error + usage_record option \<times> db" where
  "record_late_receipt rid provider model usage request_id outcome conservative accounting d =
     (case get_reservation d rid of
        None \<Rightarrow> Inl (LookupError (''unknown budget reservation: '' @ uuid_str rid))
      | Some r \<Rightarrow>
          (case usage_of d rid of
             Some u \<Rightarrow> Inr (Some u, d)
           | None \<Rightarrow>
               if br_status r = B_RELEASED then Inr (None, d)
               else Inr (apfst Some (settle_reservation provider model usage request_id outcome
                           conservative True accounting r d))))"

definition release_reservation :: "uuid \<Rightarrow> lease_token \<Rightarrow> db \<Rightarrow> error + db" where
  "release_reservation rid token d =
     (case get_reservation d rid of
        None \<Rightarrow> Inl (LookupError (''unknown budget reservation: '' @ uuid_str rid))
      | Some r \<Rightarrow>
          if \<not> holds_reservation d token r
          then Inl (LeaseLost (''step lease lost before budget release: '' @
                 uuid_str (sr_id (tok_step token))))
          else if br_status r = B_RESERVED then Inr (upd_reservation rid (release_row (db_now d)) d)
          else Inr d)"

definition release_reservation_unfenced :: "uuid \<Rightarrow> db \<Rightarrow> error + db" where
  "release_reservation_unfenced rid d =
     (case get_reservation d rid of
        None \<Rightarrow> Inl (LookupError (''unknown budget reservation: '' @ uuid_str rid))
      | Some r \<Rightarrow>
          if br_status r = B_RESERVED then Inr (upd_reservation rid (release_row (db_now d)) d)
          else Inr d)"

section \<open>Step-less invocations\<close>

definition invocation_event :: "budget_reservation \<Rightarrow> string \<Rightarrow> json_obj \<Rightarrow> event" where
  "invocation_event r event_type payload =
     \<lparr>ev_entity_type = ''provider_invocation'',
      ev_entity_id = (case br_invocation_id r of None \<Rightarrow> br_id r | Some i \<Rightarrow> i),
      ev_event_type = event_type, ev_actor_type = ''system'', ev_actor_id = Some ''provider'',
      ev_previous_state = None, ev_new_state = None, ev_payload = payload\<rparr>"

text \<open>\<open>str(None)\<close> is the text None.\<close>

definition show_cost :: "(money \<Rightarrow> string) \<Rightarrow> money option \<Rightarrow> json" where
  "show_cost show v = JStr (case v of None \<Rightarrow> ''None'' | Some x \<Rightarrow> show x)"

definition or_else :: "'a option \<Rightarrow> 'a option \<Rightarrow> 'a option" where
  "or_else v old = (case v of None \<Rightarrow> old | Some x \<Rightarrow> Some x)"

definition corrected_usage ::
  "provider_profile \<Rightarrow> normalized_usage \<Rightarrow> string option \<Rightarrow> string \<Rightarrow> uuid option \<Rightarrow> usage_record \<Rightarrow>
   usage_record" where
  "corrected_usage profile accounted request_id outcome invocation u = u
     \<lparr>us_input_tokens := or_else (nu_input_tokens accounted) (us_input_tokens u),
      us_output_tokens := or_else (nu_output_tokens accounted) (us_output_tokens u),
      us_cached_tokens := or_else (nu_cached_tokens accounted) (us_cached_tokens u),
      us_quota_units := or_else (nu_quota_units accounted) (us_quota_units u),
      us_cost_units := or_else (nu_cost_units accounted) (us_cost_units u),
      us_cost_known := (nu_cost_units accounted \<noteq> None \<or> us_cost_known u),
      us_provider := pp_provider profile, us_model := pp_model profile,
      us_duration_ms := nu_duration_ms accounted,
      us_provider_request_id := or_else request_id (us_provider_request_id u),
      us_outcome := outcome, us_late_receipt := True, us_invocation_id := invocation\<rparr>"

definition corrected_row ::
  "normalized_usage \<Rightarrow> string option \<Rightarrow> budget_reservation \<Rightarrow> budget_reservation" where
  "corrected_row accounted request_id r = r
     \<lparr>br_reconciled_input_tokens := or_else (nu_input_tokens accounted) (br_reconciled_input_tokens r),
      br_reconciled_output_tokens := or_else (nu_output_tokens accounted) (br_reconciled_output_tokens r),
      br_reconciled_quota_units := or_else (nu_quota_units accounted) (br_reconciled_quota_units r),
      br_reconciled_cost_units := or_else (nu_cost_units accounted) (br_reconciled_cost_units r),
      br_status := (if nu_cost_units accounted \<noteq> None then B_RECONCILED else br_status r),
      br_provider_request_id := or_else request_id (br_provider_request_id r)\<rparr>"

definition settle_invocation_budget ::
  "(money \<Rightarrow> string) \<Rightarrow> budget_reservation \<Rightarrow> provider_profile \<Rightarrow> normalized_usage option \<Rightarrow>
   string option \<Rightarrow> string \<Rightarrow> bool \<Rightarrow> db \<Rightarrow> error + usage_record \<times> db" where
  "settle_invocation_budget show r profile usage request_id outcome conservative d =
     (let accounted = map_option (account_usage profile) usage in
      if br_status r \<noteq> B_RESERVED
      then
        (case usage_of d (br_id r) of
           None \<Rightarrow> Inl (ValueError (''invocation reservation is not open: '' @ uuid_str (br_id r)))
         | Some u \<Rightarrow>
             (case accounted of
                None \<Rightarrow> Inr (u, d)
              | Some a \<Rightarrow>
                  if us_cost_known u then Inr (u, d)
                  else
                    let u' = corrected_usage profile a request_id outcome (br_invocation_id r) u
                    in Inr (u', add_event (invocation_event r ''budget.late_provider_receipt''
                              [(''reservation_id'', JStr (uuid_str (br_id r))),
                               (''previous_cost_units'', show_cost show (us_cost_units u)),
                               (''cost_units'', show_cost show (us_cost_units u'))])
                         (upd_usage (us_id u)
                            (corrected_usage profile a request_id outcome (br_invocation_id r))
                         (upd_reservation (br_id r) (corrected_row a request_id) d)))))
      else Inr (settle_reservation (pp_provider profile) (pp_model profile) accounted request_id outcome
                  (conservative \<or> accounted = None) False None r d))"

definition unsent_usage :: "uuid option \<Rightarrow> usage_record \<Rightarrow> usage_record" where
  "unsent_usage invocation u = u
     \<lparr>us_input_tokens := Some 0, us_output_tokens := Some 0, us_cached_tokens := Some 0,
      us_cost_units := Some 0, us_quota_units := Some 0, us_cost_known := True,
      us_late_receipt := True, us_outcome := ''not_sent'', us_invocation_id := invocation\<rparr>"

definition unsent_row :: "time \<Rightarrow> budget_reservation \<Rightarrow> budget_reservation" where
  "unsent_row now r = r
     \<lparr>br_status := B_RELEASED, br_reconciled_input_tokens := Some 0,
      br_reconciled_output_tokens := Some 0, br_reconciled_cost_units := Some 0,
      br_reconciled_quota_units := Some 0, br_reconciled_at := Some now\<rparr>"

definition release_unsent_invocation ::
  "(money \<Rightarrow> string) \<Rightarrow> budget_reservation \<Rightarrow> db \<Rightarrow> error + db" where
  "release_unsent_invocation show r d =
     (let close = upd_reservation (br_id r) (unsent_row (db_now d)) in
      case usage_of d (br_id r) of
        None \<Rightarrow> Inr (close d)
      | Some u \<Rightarrow>
          if us_cost_known u \<and> us_outcome u \<noteq> ''not_sent''
          then Inl (ValueError ''no-send receipt conflicts with measured provider usage'')
          else Inr (close (add_event (invocation_event r ''budget.authoritative_no_send''
                 [(''reservation_id'', JStr (uuid_str (br_id r))),
                  (''previous_estimate'', show_cost show (us_cost_units u))])
               (upd_usage (us_id u) (unsent_usage (br_invocation_id r)) d))))"

section \<open>Reservations whose lease is gone\<close>

definition close_one ::
  "string \<Rightarrow> bool \<Rightarrow> string \<Rightarrow> string \<Rightarrow> accounting_context option \<Rightarrow> budget_reservation \<Rightarrow> nat \<times> db \<Rightarrow>
   nat \<times> db" where
  "close_one outcome release provider model accounting r acc =
     (case acc of (n, d) \<Rightarrow>
        if usage_of d (br_id r) \<noteq> None then (n, d)
        else if release then (Suc n, upd_reservation (br_id r) (release_row (db_now d)) d)
        else (Suc n,
              snd (settle_reservation provider model None None outcome True True accounting r d)))"

definition close_step_reservations ::
  "uuid \<Rightarrow> string \<Rightarrow> bool \<Rightarrow> string \<Rightarrow> string \<Rightarrow> accounting_context option \<Rightarrow> db \<Rightarrow> nat \<times> db" where
  "close_step_reservations sid outcome release provider model accounting d =
     fold (close_one outcome release provider model accounting)
       (filter (\<lambda>r. br_step_id r = Some sid \<and> br_status r = B_RESERVED) (db_reservations d)) (0, d)"

text \<open>An inference phase whose goal lease is still held by the turn that made the call.\<close>

definition phase_in_flight :: "db \<Rightarrow> budget_reservation \<Rightarrow> bool" where
  "phase_in_flight d r =
     (case Option.bind (br_invocation_id r) (find_row li_id (db_inferences d)) of
        None \<Rightarrow> False
      | Some phase \<Rightarrow>
          (case find_row lt_id (db_turns d) (li_turn_id phase) of
             None \<Rightarrow> False
           | Some turn \<Rightarrow>
               (case get_goal d (lt_goal_id turn) of
                  None \<Rightarrow> False
                | Some goal \<Rightarrow>
                    goal_lease_epoch goal = lt_lease_epoch turn \<and>
                    (case goal_lease_until goal of None \<Rightarrow> False | Some t \<Rightarrow> t > wall_now d) \<and>
                    lt_status turn = ''claimed'')))"

definition lease_in_flight :: "db \<Rightarrow> step option \<Rightarrow> bool" where
  "lease_in_flight d s =
     (case s of
        None \<Rightarrow> False
      | Some x \<Rightarrow> step_status x \<in> {S_LEASED, S_RUNNING} \<and>
          (case step_lease_expires_at x of None \<Rightarrow> False | Some t \<Rightarrow> t > wall_now d))"

definition never_started :: "budget_reservation \<Rightarrow> step option \<Rightarrow> bool" where
  "never_started r s =
     (br_invocation_id r = None \<and>
      (case s of None \<Rightarrow> True | Some x \<Rightarrow> step_status x \<in> {S_PENDING, S_QUEUED, S_LEASED}))"

definition sweep_one :: "budget_reservation \<Rightarrow> nat \<times> db \<Rightarrow> nat \<times> db" where
  "sweep_one r acc =
     (case acc of (n, d) \<Rightarrow>
        let s = Option.bind (br_step_id r) (get_step d) in
        if phase_in_flight d r \<or> lease_in_flight d s then (n, d)
        else close_one ''orphan_recovered'' (never_started r s) ORPHAN_PROVIDER ORPHAN_MODEL None r
               (n, d))"

definition orphans :: "uuid set \<Rightarrow> int \<Rightarrow> nat \<Rightarrow> db \<Rightarrow> budget_reservation list" where
  "orphans locked older_than batch_size d =
     take batch_size (sort_key (\<lambda>r. (br_created_at r, br_id r))
       (filter (\<lambda>r. br_status r = B_RESERVED \<and>
          br_created_at r < wall_now d - seconds (max 0 older_than) \<and> br_id r \<notin> locked)
        (db_reservations d)))"

definition release_orphan_reservations ::
  "uuid set \<Rightarrow> int \<Rightarrow> nat \<Rightarrow> db \<Rightarrow> nat \<times> db" where
  "release_orphan_reservations locked older_than batch_size d =
     fold sweep_one (orphans locked older_than batch_size d) (0, d)"

end
