(* ===== verification/Lease_Recovery.thy ===== *)
theory Lease_Recovery
  imports Settlement Retry_Policy Workflow_Samples
begin

text \<open>
  \<^verbatim>\<open>workflows/recovery.py\<close>: what happens to a step whose lease has expired. The card refresh of
  the paused branch and the terminal projections are kept as calls.
\<close>

definition ORPHAN_RESERVATION_MIN_AGE_SECONDS :: int where
  "ORPHAN_RESERVATION_MIN_AGE_SECONDS = 900"

definition step_lease_expired :: "db \<Rightarrow> step \<Rightarrow> bool" where
  "step_lease_expired d s =
     (step_status s \<in> {S_LEASED, S_RUNNING} \<and>
      (case step_lease_expires_at s of None \<Rightarrow> False | Some t \<Rightarrow> t < db_now d))"

text \<open>Never started, or repeatable by its declared class.\<close>

definition recovery_safe :: "step \<Rightarrow> bool" where
  "recovery_safe s =
     (step_status s = S_LEASED \<or> step_idempotency_class s = IDEM_READ_ONLY \<or>
      step_idempotency_class s = IDEM_IDEMPOTENT \<and> step_external_idempotency_key s \<noteq> None)"

definition recovery_payload :: "step \<Rightarrow> json_obj" where
  "recovery_payload s =
     [(''expired_owner'', opt_json (step_lease_owner s)),
      (''generation'', JInt (step_lease_generation s)),
      (''idempotency_class'', JStr (idempotency_class_value (step_idempotency_class s)))]"

definition note_pause_hold :: "uuid \<Rightarrow> uuid \<Rightarrow> uuid \<Rightarrow> string \<Rightarrow> db \<Rightarrow> error + db" where
  "note_pause_hold tid rid sid reason d =
     bindE (held_task d tid) (\<lambda>t.
     bindE (held_step d sid) (\<lambda>s.
       Inr (add_call (StatusProjection tid (task_version t + 1) (Some rid) None)
         (add_event (plain_event ''task'' tid ''task.pause_hold'' ''recovery'' None
            [(''run_id'', JStr (uuid_str rid)), (''step_id'', JStr (uuid_str sid)),
             (''reason'', JStr reason), (''step_status'', JStr (step_status_value (step_status s))),
             (''failure_category'', opt_json (step_failure_category s)),
             (''unknown_effects'', JBool (step_unknown_effects s))])
           (upd_task tid (\<lambda>x. x\<lparr>task_version := task_version x + 1\<rparr>) d)))))"

text \<open>Back to the queue; a claim that never started gives its attempt back.\<close>

definition requeue_expired :: "step \<Rightarrow> db \<Rightarrow> error + db" where
  "requeue_expired s d =
     bindE (transition_step d (step_id s) S_QUEUED ''recovery'' None (recovery_payload s)) (\<lambda>d1.
       Inr (if step_status s = S_LEASED then upd_step (step_id s) refund_attempt d1 else d1))"

definition block_expired :: "step \<Rightarrow> string \<Rightarrow> string \<Rightarrow> bool \<Rightarrow> db \<Rightarrow> error + db" where
  "block_expired s category summary unknown d =
     bindE (transition_step d (step_id s) S_BLOCKED ''recovery'' None (recovery_payload s)) (\<lambda>d1.
       Inr (upd_step (step_id s) (\<lambda>x. x\<lparr>step_unknown_effects := unknown,
              step_failure_category := Some category, step_failure_summary := Some summary\<rparr>) d1))"

definition PAUSED_EXHAUSTED_SUMMARY :: string where
  "PAUSED_EXHAUSTED_SUMMARY =
     ''Ispolnitel ne zavershil etap do istecheniya lease; bezopasnye povtory ischerpany. '' @
     ''Pauza sohranena: mozhno prodolzhit ili otmenit.''"

definition PAUSED_UNKNOWN_SUMMARY :: string where
  "PAUSED_UNKNOWN_SUMMARY =
     ''Arenda etapa istekla vo vremya pauzy, a vneshnij effekt nelzya bezopasno povtorit. '' @
     ''Sverte effekt ili otmenite zadachu.''"

definition EXHAUSTED_SUMMARY :: string where
  "EXHAUSTED_SUMMARY =
     ''Ispolnitel ne zavershil etap do istecheniya lease; bezopasnye povtory ischerpany.''"

definition UNKNOWN_SUMMARY :: string where
  "UNKNOWN_SUMMARY =
     ''Arenda etapa istekla, a vneshnie effekty nelzya bezopasno opredelit ili povtorit.''"

definition recover_paused :: "task \<Rightarrow> run \<Rightarrow> step \<Rightarrow> db \<Rightarrow> error + db" where
  "recover_paused t r s d =
     (if step_status s = S_LEASED \<or> recovery_safe s \<and> step_attempt_count s < step_max_attempts s
      then bindE (requeue_expired s d)
        (note_pause_hold (task_id t) (run_id r) (step_id s)
           (if step_status s = S_LEASED then ''lease_expired_before_start''
            else ''lease_expired_requeued''))
      else if repeatable_without_new_mutation s
      then bindE (block_expired s LEASE_EXPIRED_ATTEMPTS_EXHAUSTED PAUSED_EXHAUSTED_SUMMARY False d)
        (note_pause_hold (task_id t) (run_id r) (step_id s) LEASE_EXPIRED_ATTEMPTS_EXHAUSTED)
      else bindE (block_expired s LEASE_EXPIRED_UNKNOWN_EFFECTS PAUSED_UNKNOWN_SUMMARY True d)
        (note_pause_hold (task_id t) (run_id r) (step_id s) LEASE_EXPIRED_UNKNOWN_EFFECTS))"

text \<open>The run and the task follow a step that cannot go on.\<close>

definition stop_run_and_task ::
  "task \<Rightarrow> run \<Rightarrow> run_status \<Rightarrow> task_status \<Rightarrow> string \<Rightarrow> string \<Rightarrow> db \<Rightarrow> error + db" where
  "stop_run_and_task t r run_target task_target category summary d =
     bindE (if run_status r = R_RUNNING
            then transition_run d (run_id r) run_target ''recovery'' None [] else Inr d) (\<lambda>d1.
     bindE (if task_status t \<notin> {task_target, T_CANCELLED, T_COMPLETED}
            then transition_task d1 (task_id t) task_target ''recovery'' None
                   [(''category'', JStr category), (''summary'', JStr summary)]
            else Inr d1) (\<lambda>d2.
       Inr (upd_run (run_id r) (\<lambda>x. x\<lparr>run_failure_category := Some category,
              run_failure_summary := Some summary\<rparr>) d2)))"

definition fail_expired :: "task \<Rightarrow> run \<Rightarrow> step \<Rightarrow> db \<Rightarrow> error + db" where
  "fail_expired t r s d =
     bindE (transition_step d (step_id s) S_FAILED ''recovery'' None (recovery_payload s)) (\<lambda>d1.
       stop_run_and_task t r R_FAILED T_FAILED LEASE_EXPIRED_ATTEMPTS_EXHAUSTED EXHAUSTED_SUMMARY
         (upd_step (step_id s) (\<lambda>x. x\<lparr>step_failure_category := Some LEASE_EXPIRED_ATTEMPTS_EXHAUSTED,
            step_failure_summary := Some EXHAUSTED_SUMMARY\<rparr>) d1))"

definition block_unknown :: "task \<Rightarrow> run \<Rightarrow> step \<Rightarrow> db \<Rightarrow> error + db" where
  "block_unknown t r s d =
     bindE (block_expired s LEASE_EXPIRED_UNKNOWN_EFFECTS UNKNOWN_SUMMARY True d)
       (stop_run_and_task t r R_BLOCKED T_BLOCKED LEASE_EXPIRED_UNKNOWN_EFFECTS UNKNOWN_SUMMARY)"

text \<open>The status part of a recovery: the new database and whether the run was stopped.\<close>

definition recover_status :: "task \<Rightarrow> run \<Rightarrow> step \<Rightarrow> db \<Rightarrow> error + bool \<times> db" where
  "recover_status t r s d =
     (if run_status r \<in> {R_CANCELLED, R_FAILED, R_COMPLETED}
      then bindE (transition_step d (step_id s) S_CANCELLED ''recovery'' None (recovery_payload s))
        (\<lambda>d. Inr (False, d))
      else if run_status r = R_PAUSED then bindE (recover_paused t r s d) (\<lambda>d. Inr (False, d))
      else if step_status s = S_LEASED \<or> recovery_safe s \<and> step_attempt_count s < step_max_attempts s
      then bindE (requeue_expired s d) (\<lambda>d. Inr (False, d))
      else if recovery_safe s then bindE (fail_expired t r s d) (\<lambda>d. Inr (True, d))
      else bindE (block_unknown t r s d) (\<lambda>d. Inr (True, d)))"

definition drop_lease :: "step \<Rightarrow> step" where
  "drop_lease x = x\<lparr>step_lease_owner := None, step_lease_expires_at := None\<rparr>"

definition close_expired :: "step \<Rightarrow> db \<Rightarrow> db" where
  "close_expired s d =
     snd (close_step_reservations (step_id s)
       (if step_status s = S_LEASED then ''lease_expired_before_start'' else ''lease_expired'')
       (step_status s = S_LEASED) ORPHAN_PROVIDER ORPHAN_MODEL None d)"

definition recover_one :: "task \<Rightarrow> run \<Rightarrow> step \<Rightarrow> db \<Rightarrow> error + db" where
  "recover_one t r s d =
     bindE (recover_status t r s d) (\<lambda>(stopped, d1).
       let d2 = close_expired s (upd_step (step_id s) drop_lease d1);
           d3 = (if stopped \<and> step_type s = ''ensure_capabilities''
                 then add_call (AbandonCapabilityInstallation (step_id s) ''leader_lease_expired'') d2
                 else d2)
       in if \<not> stopped then Inr d3
          else bindE (held_task d3 (task_id t)) (\<lambda>t'.
            Inr (add_call (TerminalProjections (task_id t') (task_version t') (run_id r)) d3)))"

definition recover_locked :: "db \<Rightarrow> uuid \<Rightarrow> error + bool \<times> db" where
  "recover_locked d sid =
     (case lock_task_run_step d sid of
        None \<Rightarrow> Inr (False, d)
      | Some (t, r, s) \<Rightarrow>
          if step_lease_expired d s then bindE (recover_one t r s d) (\<lambda>d'. Inr (True, d'))
          else Inr (False, d))"

definition expired_steps :: "nat \<Rightarrow> db \<Rightarrow> uuid list" where
  "expired_steps batch_size d =
     map (step_id \<circ> snd) (take batch_size
       (sort_key (\<lambda>(r, s). (run_task_id r, the (step_lease_expires_at s), step_id s))
         (List.map_filter (\<lambda>s. map_option (\<lambda>r. (r, s)) (get_run d (step_run_id s)))
           (filter (step_lease_expired d) (db_steps d)))))"

definition recover_expired_steps :: "uuid set \<Rightarrow> nat \<Rightarrow> db \<Rightarrow> error + nat \<times> db" where
  "recover_expired_steps locked batch_size d =
     bindE (foldE (\<lambda>(n, d) sid. bindE (recover_locked d sid) (\<lambda>(done, d').
              Inr (if done then Suc n else n, d'))) (0, d) (expired_steps batch_size d)) (\<lambda>(n, d).
       Inr (n, snd (release_orphan_reservations locked ORPHAN_RESERVATION_MIN_AGE_SECONDS batch_size d)))"

end
