(* ===== verification/Budget_Properties.thy ===== *)
theory Budget_Properties
  imports Settlement Workflow_Samples
begin

text \<open>
  What the budget ledger guarantees: the daily caps and the explicit money cap hold after every
  admission, admission is idempotent, no reservation is charged twice over any sequence of ledger
  operations, and an unknown cost is carried at its reserved amount.
\<close>

section \<open>Frames\<close>

definition events_only :: "db \<Rightarrow> db \<Rightarrow> bool" where
  "events_only d d' \<longleftrightarrow> (\<exists>es. d' = d\<lparr>db_events := es\<rparr>)"

lemma events_only_refl [simp, intro]: "events_only d d"
  unfolding events_only_def by (rule exI [of _ "db_events d"]) simp

lemma events_only_trans: "events_only a b \<Longrightarrow> events_only b c \<Longrightarrow> events_only a c"
  unfolding events_only_def by auto

lemma events_only_add_event [simp, intro]: "events_only d (add_event e d)"
  by (auto simp: events_only_def add_event_def)

lemma events_onlyD:
  assumes "events_only d d'"
  shows "db_reservations d' = db_reservations d" "db_usage d' = db_usage d"
    "next_uuid d' = next_uuid d" "db_now d' = db_now d" "db_tasks d' = db_tasks d"
  using assms by (auto simp: events_only_def)

lemma enforce_or_note_events:
  "enforce_or_note tid exceeded hard dimension detail d = Inr d' \<Longrightarrow> events_only d d'"
  by (auto simp: enforce_or_note_def note_budget_event_def split: if_splits option.splits)

lemma enforce_sum_caps_events:
  "enforce_sum_caps tid tt st allowed estimate limits d = Inr d' \<Longrightarrow> events_only d d'"
  by (auto simp: enforce_sum_caps_def Let_def res_simps split: prod.splits
      dest!: enforce_or_note_events) (meson events_only_trans)

lemma enforce_task_caps_events:
  "enforce_task_caps task est limits d = Inr (epoch, d') \<Longrightarrow> events_only d d'"
  by (auto simp: enforce_task_caps_def Let_def res_simps split: option.splits prod.splits
      dest!: enforce_or_note_events intro: events_only_trans)

section \<open>Admission\<close>

text \<open>
  A successful admission either returns the stored reservation or appends one new row, after every
  gate has been passed on a database that differs only in its audit events.
\<close>

definition admitted ::
  "db \<Rightarrow> uuid option \<Rightarrow> reservation_estimate \<Rightarrow> hard_limits \<Rightarrow> budget_reservation \<Rightarrow> db \<Rightarrow> bool" where
  "admitted d tid estimate limits r d' \<longleftrightarrow>
     (\<exists>e. events_only d e \<and> enforce_daily_caps e estimate limits = Inr () \<and>
        enforce_explicit_money_cap e tid estimate limits = Inr () \<and>
        d' = add_reservation r e \<and> br_id r = next_uuid e \<and> br_status r = B_RESERVED \<and>
        br_task_id r = tid \<and>
        br_reserved_cost_units r = re_cost_units estimate \<and>
        br_reserved_quota_units r = re_quota_units estimate)"

lemma enforce_daily_caps_events:
  "events_only d e \<Longrightarrow> enforce_daily_caps e estimate limits = enforce_daily_caps d estimate limits"
  by (auto simp: enforce_daily_caps_def daily_usage_totals_def reserved_totals_def events_only_def)

lemma new_reservation_sel [simp]:
  "br_id (new_reservation d tid rid sid ivk pid ep att est acc al) = next_uuid d"
  "br_status (new_reservation d tid rid sid ivk pid ep att est acc al) = B_RESERVED"
  "br_task_id (new_reservation d tid rid sid ivk pid ep att est acc al) = tid"
  "br_step_id (new_reservation d tid rid sid ivk pid ep att est acc al) = sid"
  "br_provider_attempt (new_reservation d tid rid sid ivk pid ep att est acc al) = att"
  "br_invocation_id (new_reservation d tid rid sid ivk pid ep att est acc al) = ivk"
  "br_reserved_cost_units (new_reservation d tid rid sid ivk pid ep att est acc al) = re_cost_units est"
  "br_reserved_quota_units (new_reservation d tid rid sid ivk pid ep att est acc al) = re_quota_units est"
  by (simp_all add: new_reservation_def)

lemma reserve_budgetE:
  assumes "reserve_budget task run sid pid att est limits review acc ivk adm d = Inr (r, d')"
  obtains (existing) "existing_reservation d sid att ivk = Inr (Some r)" "d' = d"
  | (fresh) "existing_reservation d sid att ivk = Inr None" "admitted d task est limits r d'"
      "br_step_id r = sid" "br_provider_attempt r = att" "br_invocation_id r = ivk" "task \<noteq> None"
proof -
  from assms obtain ex where ex: "existing_reservation d sid att ivk = Inr ex"
    by (auto simp: reserve_budget_def res_simps)
  show thesis
  proof (cases ex)
    case (Some r')
    with assms ex show thesis by (intro existing) (auto simp: reserve_budget_def)
  next
    case None
    from assms ex None obtain e where "events_only d e"
      "enforce_daily_caps e est limits = Inr ()" "enforce_explicit_money_cap e task est limits = Inr ()"
      "d' = add_reservation r e" "br_id r = next_uuid e" "br_status r = B_RESERVED"
      "br_task_id r = task" "br_step_id r = sid" "br_provider_attempt r = att"
      "br_invocation_id r = ivk" "br_reserved_cost_units r = re_cost_units est"
      "br_reserved_quota_units r = re_quota_units est" "task \<noteq> None"
      by (auto simp: reserve_budget_def Let_def res_simps split: option.splits
          dest!: enforce_sum_caps_events)
    with ex None show thesis by (intro fresh) (auto simp: admitted_def)
  qed
qed

lemma reserve_invocation_budgetE:
  assumes "reserve_invocation_budget ivk profile est limits acc task run life d = Inr (r, d')"
  obtains (existing) "by_invocation d ivk = Some r" "d' = d"
  | (fresh) "by_invocation d ivk = None" "admitted d task est limits r d'" "br_invocation_id r = Some ivk"
proof (cases "by_invocation d ivk")
  case (Some r')
  with assms show thesis by (intro existing) (auto simp: reserve_invocation_budget_def)
next
  case None
  from assms None obtain epoch e where e: "enforce_daily_caps d est limits = Inr ()"
    "enforce_task_caps task est limits d = Inr (epoch, e)"
    "enforce_explicit_money_cap e task est limits = Inr ()"
    "r = new_reservation e task run None (Some ivk) (pp_id profile) epoch 1 est (Some acc) (0, 0, 0)"
    "d' = add_reservation r e"
    by (auto simp: reserve_invocation_budget_def Let_def res_simps)
  with enforce_task_caps_events [OF e(2)] None show thesis
    by (intro fresh) (auto simp: admitted_def enforce_daily_caps_events)
qed

section \<open>Caps\<close>

text \<open>What the day has committed: charges of the day and open reservations.\<close>

definition daily_cost :: "db \<Rightarrow> money" where
  "daily_cost d = fst (snd (snd (add_totals (daily_usage_totals d) (reserved_totals d None None None))))"

definition daily_quota :: "db \<Rightarrow> money" where
  "daily_quota d = snd (snd (snd (add_totals (daily_usage_totals d) (reserved_totals d None None None))))"

lemma daily_cost_eq:
  "daily_cost d = sum_known us_cost_units (filter (\<lambda>u. day_start (db_now d) \<le> us_created_at u) (db_usage d)) +
     sum_list (map br_reserved_cost_units (filter (\<lambda>r. br_status r = B_RESERVED) (db_reservations d)))"
  by (simp add: daily_cost_def daily_usage_totals_def reserved_totals_def usage_sums_def
      reserved_sums_def matches_def)

lemma daily_quota_eq:
  "daily_quota d = sum_known us_quota_units (filter (\<lambda>u. day_start (db_now d) \<le> us_created_at u) (db_usage d)) +
     sum_list (map br_reserved_quota_units (filter (\<lambda>r. br_status r = B_RESERVED) (db_reservations d)))"
  by (simp add: daily_quota_def daily_usage_totals_def reserved_totals_def usage_sums_def
      reserved_sums_def matches_def)

lemma add_reservation_sel [simp]:
  "db_reservations (add_reservation r d) = db_reservations d @ [r]"
  "db_usage (add_reservation r d) = db_usage d" "db_now (add_reservation r d) = db_now d"
  "db_tasks (add_reservation r d) = db_tasks d" "db_events (add_reservation r d) = db_events d"
  "next_uuid (add_reservation r d) = Suc (next_uuid d)"
  by (simp_all add: add_reservation_def)

lemma enforce_daily_caps_iff:
  "enforce_daily_caps d estimate limits = Inr () \<longleftrightarrow>
     daily_cost d + re_cost_units estimate \<le> hl_daily_cost_units limits \<and>
     daily_quota d + re_quota_units estimate \<le> hl_daily_quota_units limits"
  by (auto simp: enforce_daily_caps_def daily_cost_def daily_quota_def split: prod.splits)

lemma admitted_daily:
  assumes "admitted d tid estimate limits r d'"
  shows "daily_cost d' \<le> hl_daily_cost_units limits \<and> daily_quota d' \<le> hl_daily_quota_units limits"
  using assms by (auto simp: admitted_def enforce_daily_caps_iff daily_cost_eq daily_quota_eq)

lemma admission_cases:
  assumes "reserve_budget task run sid pid att est limits review acc ivk adm d = Inr (r, d') \<or>
      reserve_invocation_budget ivk' profile est limits acc' task run life d = Inr (r, d')"
    and "r \<notin> set (db_reservations d)"
  shows "admitted d task est limits r d'"
  using assms
  by (auto simp: existing_reservation_def by_invocation_def by_step_attempt_def find_Some_iff
      elim!: reserve_budgetE reserve_invocation_budgetE split: option.splits)

section \<open>The family of a task\<close>

definition parent_rel :: "db \<Rightarrow> (uuid \<times> uuid) set" where
  "parent_rel d = {(c, p). parent_of d c = Some p}"

lemma family_climb_chain: "\<exists>k \<le> n. (c, family_climb d n seen c) \<in> parent_rel d ^^ k"
proof (induction n arbitrary: seen c)
  case 0
  show ?case by simp
next
  case (Suc n)
  show ?case
  proof (cases "parent_of d c")
    case None
    then show ?thesis by (intro exI [of _ 0]) simp
  next
    case (Some p)
    show ?thesis
    proof (cases "p \<in> seen")
      case True
      with Some show ?thesis by (intro exI [of _ 0]) simp
    next
      case False
      from Suc.IH [of p "insert p seen"] obtain k
        where "k \<le> n" "(p, family_climb d n (insert p seen) p) \<in> parent_rel d ^^ k" by blast
      moreover have "(c, p) \<in> parent_rel d" using Some by (simp add: parent_rel_def)
      ultimately show ?thesis
        using Some False by (intro exI [of _ "Suc k"]) (auto intro: relpow_Suc_I2 simp del: relpow.simps)
    qed
  qed
qed

lemma parent_rel_child: "(c, p) \<in> parent_rel d \<Longrightarrow> p \<in> set frontier \<Longrightarrow> c \<in> set (children_of d frontier)"
  by (auto simp: parent_rel_def parent_of_def children_of_def bind_eq_Some_conv
      dest: task_store.get_key task_store.get_mem intro!: image_eqI)

lemma family_descend_mono: "family \<subseteq> family_descend d n frontier family"
  by (induction d n frontier family rule: family_descend.induct) (auto simp: Let_def)

lemma family_descend_Nil [simp]: "family_descend d n [] family = family"
  by (cases n) auto

lemma family_descend_complete:
  assumes "\<And>c p. (c, p) \<in> parent_rel d \<Longrightarrow> p \<in> family \<Longrightarrow> p \<in> set frontier \<or> c \<in> family"
    and "y \<in> family" "(t, y) \<in> parent_rel d ^^ k" "k \<le> n"
  shows "t \<in> family_descend d n frontier family"
  using assms
proof (induction n arbitrary: frontier family y k)
  case 0
  then show ?case by simp
next
  case (Suc n)
  show ?case
  proof (cases k)
    case 0
    with Suc.prems show ?thesis using family_descend_mono by fastforce
  next
    case (Suc j)
    with Suc.prems(3) obtain c where c: "(t, c) \<in> parent_rel d ^^ j" "(c, y) \<in> parent_rel d" by auto
    let ?next = "filter (\<lambda>c. c \<notin> family) (children_of d frontier)"
    have closed: "x \<in> family \<or> x \<in> set ?next" if "(x, p) \<in> parent_rel d" "p \<in> family" for x p
      using Suc.prems(1) [OF that] parent_rel_child [OF that(1), of frontier] by auto
    have "t \<in> family_descend d n ?next (family \<union> set ?next)"
    proof (rule Suc.IH [OF _ _ c(1)])
      show "c \<in> family \<union> set ?next" using closed [OF c(2) Suc.prems(2)] by auto
      show "j \<le> n" using Suc Suc.prems(4) by simp
    next
      fix x p assume "(x, p) \<in> parent_rel d" "p \<in> family \<union> set ?next"
      then show "p \<in> set ?next \<or> x \<in> family \<union> set ?next" using closed by blast
    qed
    then show ?thesis by (cases "frontier = []") (simp_all add: Let_def children_of_def)
  qed
qed

lemma task_in_family: "t \<in> explicit_money_family d t"
proof -
  obtain k where "k \<le> 20" "(t, task_family_root d t) \<in> parent_rel d ^^ k"
    using family_climb_chain [where n = 20 and c = t and d = d and seen = "{t}"]
    unfolding task_family_root_def by blast
  then show ?thesis
    unfolding explicit_money_family_def Let_def by (intro family_descend_complete) auto
qed

text \<open>The families only depend on the task table.\<close>

lemma explicit_money_family_tasks:
  assumes "db_tasks d' = db_tasks d"
  shows "explicit_money_family d' t = explicit_money_family d t"
proof -
  have parent: "parent_of d' = parent_of d"
    using assms by (simp add: parent_of_def get_task_def fun_eq_iff)
  have climb: "family_climb d' n seen c = family_climb d n seen c" for n seen c
    by (induction n arbitrary: seen c) (auto simp: parent split: option.splits)
  have children: "children_of d' = children_of d"
    using assms by (simp add: children_of_def fun_eq_iff)
  have descend: "family_descend d' n f s = family_descend d n f s" for n f s
    by (induction n arbitrary: f s) (auto simp: children Let_def)
  show ?thesis by (simp add: explicit_money_family_def task_family_root_def climb descend)
qed

text \<open>What a strict money cap counts: measured cost, accepted floors and open reservations.\<close>

definition money_exposure :: "db \<Rightarrow> uuid \<Rightarrow> money" where
  "money_exposure d t =
     money_known d (explicit_money_family d t) + money_reserved d (explicit_money_family d t) +
     sum_known us_cost_units (unknown_usage d (explicit_money_family d t))"

definition uncertainty_accepted :: "db \<Rightarrow> uuid \<Rightarrow> bool" where
  "uncertainty_accepted d t \<longleftrightarrow>
     (\<forall>u \<in> set (unknown_usage d (explicit_money_family d t)).
        uuid_str (us_id u) \<in> accepted_unknown_usage_ids d (explicit_money_family d t) \<and>
        us_cost_units u \<noteq> None)"

lemma enforce_explicit_money_cap_iff:
  "enforce_explicit_money_cap d (Some t) estimate limits = Inr () \<longleftrightarrow>
     (\<forall>cap. hl_explicit_money_cap_units limits = Some cap \<longrightarrow>
        uncertainty_accepted d t \<and> money_exposure d t + re_cost_units estimate \<le> cap)"
  by (auto simp: enforce_explicit_money_cap_def money_exposure_def uncertainty_accepted_def Let_def
      split: option.splits)

lemma add_reservation_family [simp]:
  "explicit_money_family (add_reservation r d) = explicit_money_family d"
  by (rule ext, rule explicit_money_family_tasks) simp

lemma admitted_exposure:
  assumes "admitted d (Some t) estimate limits r d'" and "hl_explicit_money_cap_units limits = Some cap"
  shows "money_exposure d' t \<le> cap \<and> uncertainty_accepted d' t"
proof -
  from assms obtain e where e: "d' = add_reservation r e" "br_status r = B_RESERVED" "br_task_id r = Some t"
    "br_reserved_cost_units r = re_cost_units estimate" "uncertainty_accepted e t"
    "money_exposure e t + re_cost_units estimate \<le> cap"
    unfolding admitted_def enforce_explicit_money_cap_iff by blast
  have "in_family (explicit_money_family e t) (Some t)" by (simp add: in_family_def task_in_family)
  then have "money_exposure d' t = money_exposure e t + re_cost_units estimate"
    using e(2-4) by (simp add: e(1) money_exposure_def money_known_def money_reserved_def unknown_usage_def)
  moreover have "uncertainty_accepted d' t"
    using e(5) by (simp add: e(1) uncertainty_accepted_def unknown_usage_def accepted_unknown_usage_ids_def)
  ultimately show ?thesis using e(6) by simp
qed

section \<open>No double charge\<close>

text \<open>
  The invariant of the ledger: row ids are distinct and already allocated, a reservation has at
  most one charge, every charge names a reservation of the ledger or none, and an open reservation
  has not been charged.
\<close>

definition charges :: "db \<Rightarrow> uuid list" where
  "charges d = List.map_filter us_reservation_id (db_usage d)"

definition ledger_ok :: "db \<Rightarrow> bool" where
  "ledger_ok d \<longleftrightarrow>
     distinct (map br_id (db_reservations d)) \<and> distinct (map us_id (db_usage d)) \<and>
     (\<forall>r \<in> set (db_reservations d). br_id r < next_uuid d) \<and>
     (\<forall>u \<in> set (db_usage d). us_id u < next_uuid d) \<and>
     distinct (charges d) \<and> set (charges d) \<subseteq> br_id ` set (db_reservations d) \<and>
     (\<forall>r \<in> set (db_reservations d). br_status r = B_RESERVED \<longrightarrow> br_id r \<notin> set (charges d))"

lemma usage_of_charges: "usage_of d rid = None \<longleftrightarrow> rid \<notin> set (charges d)"
  by (auto simp: usage_of_def charges_def find_None_iff List.map_filter_def image_iff)

lemma usage_of_SomeD: "usage_of d rid = Some u \<Longrightarrow> u \<in> set (db_usage d) \<and> us_reservation_id u = Some rid"
  by (auto simp: usage_of_def find_Some_iff)

lemma upd_reservation_sel [simp]:
  "db_reservations (upd_reservation k f d) = update_row br_id k f (db_reservations d)"
  "db_usage (upd_reservation k f d) = db_usage d" "next_uuid (upd_reservation k f d) = next_uuid d"
  "db_now (upd_reservation k f d) = db_now d" "charges (upd_reservation k f d) = charges d"
  by (simp_all add: upd_reservation_def charges_def)

lemma upd_usage_sel [simp]:
  "db_usage (upd_usage k f d) = update_row us_id k f (db_usage d)"
  "db_reservations (upd_usage k f d) = db_reservations d" "next_uuid (upd_usage k f d) = next_uuid d"
  "db_now (upd_usage k f d) = db_now d"
  by (simp_all add: upd_usage_def)

lemma add_usage_sel [simp]:
  "db_usage (add_usage u d) = db_usage d @ [u]" "db_reservations (add_usage u d) = db_reservations d"
  "next_uuid (add_usage u d) = Suc (next_uuid d)" "db_now (add_usage u d) = db_now d"
  by (simp_all add: add_usage_def)

lemma charges_append [simp]:
  "charges (add_usage u d) = charges d @ (case us_reservation_id u of None \<Rightarrow> [] | Some r \<Rightarrow> [r])"
  by (simp add: charges_def List.map_filter_def split: option.splits)

lemma charges_upd_usage:
  assumes "\<And>u. us_reservation_id (f u) = us_reservation_id u"
  shows "charges (upd_usage k f d) = charges d"
proof -
  have "List.map_filter us_reservation_id (update_row us_id k f us) =
      List.map_filter us_reservation_id us" for us
    using assms by (induction us) (auto simp: update_row_def List.map_filter_def)
  then show ?thesis by (simp add: charges_def)
qed

lemma ledger_ok_upd_reservation:
  assumes "ledger_ok d" and "\<And>r. br_id (f r) = br_id r"
    and "\<And>r. br_status (f r) = B_RESERVED \<Longrightarrow> br_status r = B_RESERVED"
  shows "ledger_ok (upd_reservation k f d)"
proof -
  have "map br_id (update_row br_id k f (db_reservations d)) = map br_id (db_reservations d)"
    using assms(2) by (rule map_key_update_row)
  then have keys: "br_id ` set (update_row br_id k f (db_reservations d)) = br_id ` set (db_reservations d)"
    by (metis list.set_map)
  have "br_id x \<notin> set (charges d)"
    if "x \<in> set (update_row br_id k f (db_reservations d))" "br_status x = B_RESERVED" for x
  proof -
    from that(1) obtain r where r: "r \<in> set (db_reservations d)" "x = (if br_id r = k then f r else r)"
      by (auto simp: in_set_update_row)
    then have "br_status r = B_RESERVED" "br_id x = br_id r"
      using that(2) assms(2,3) by (auto split: if_splits)
    then show ?thesis using assms(1) r(1) by (simp add: ledger_ok_def)
  qed
  then show ?thesis
    using assms(1) unfolding ledger_ok_def
    by (auto simp: map_key_update_row assms(2) in_set_update_row keys)
qed

lemma ledger_ok_upd_usage:
  assumes "ledger_ok d" and "\<And>u. us_id (f u) = us_id u"
    and "\<And>u. us_reservation_id (f u) = us_reservation_id u"
  shows "ledger_ok (upd_usage k f d)"
  using assms(1) unfolding ledger_ok_def charges_upd_usage [OF assms(3)]
  by (auto simp: map_key_update_row assms(2) in_set_update_row)

lemma ledger_ok_frame:
  assumes "ledger_ok d" "db_reservations d' = db_reservations d" "db_usage d' = db_usage d"
    "next_uuid d \<le> next_uuid d'"
  shows "ledger_ok d'"
  using assms unfolding ledger_ok_def charges_def by (auto intro: less_le_trans)

lemma ledger_ok_events: "ledger_ok d \<Longrightarrow> events_only d d' \<Longrightarrow> ledger_ok d'"
  using events_onlyD(1-3) [of d d'] ledger_ok_frame [of d d'] by simp

lemma ledger_ok_admitted: "ledger_ok d \<Longrightarrow> admitted d tid estimate limits r d' \<Longrightarrow> ledger_ok d'"
proof -
  assume "ledger_ok d" "admitted d tid estimate limits r d'"
  then obtain e where e: "ledger_ok e" "d' = add_reservation r e" "br_id r = next_uuid e"
    by (auto simp: admitted_def intro: ledger_ok_events)
  have "charges d' = charges e" by (simp add: e(2) charges_def)
  then show "ledger_ok d'"
    using e(1,3) unfolding ledger_ok_def by (fastforce simp: e(2) less_Suc_eq)
qed

text \<open>Settlement of a reservation that is not charged yet.\<close>

lemma apply_accounting_id [simp]: "br_id (apply_accounting a r) = br_id r"
  by (simp add: apply_accounting_def)

lemma settled_row_sel [simp]:
  "br_id (settled_row usage req cons now r) = br_id r" "br_status (settled_row usage req cons now r) \<noteq> B_RESERVED"
  by (simp_all add: settled_row_def)

definition accounted_row :: "accounting_context option \<Rightarrow> budget_reservation \<Rightarrow> budget_reservation" where
  "accounted_row acc = (case acc of None \<Rightarrow> id | Some a \<Rightarrow> apply_accounting a)"

lemma accounted_row_sel [simp]:
  "br_id (accounted_row acc r) = br_id r"
  "br_reserved_cost_units (accounted_row acc r) = br_reserved_cost_units r"
  "br_reserved_quota_units (accounted_row acc r) = br_reserved_quota_units r"
  by (simp_all add: accounted_row_def apply_accounting_def split: option.splits)

lemma settle_reservation_eq:
  "settle_reservation provider model usage req outcome cons late acc r d =
     (let u = settled_usage (next_uuid d) provider model usage req outcome late (db_now d) (accounted_row acc r)
      in (u, add_usage u (upd_reservation (br_id r) (settled_row usage req cons (db_now d) \<circ> accounted_row acc) d)))"
  by (simp add: settle_reservation_def accounted_row_def Let_def)

lemma settled_usage_sel [simp]:
  "us_id (settled_usage i provider model usage req outcome late now r) = i"
  "us_reservation_id (settled_usage i provider model usage req outcome late now r) = Some (br_id r)"
  by (simp_all add: settled_usage_def)

lemma ledger_ok_settle:
  assumes "ledger_ok d" "br_id r \<in> br_id ` set (db_reservations d)" "br_id r \<notin> set (charges d)"
  shows "ledger_ok (snd (settle_reservation provider model usage req outcome cons late acc r d))"
proof -
  let ?f = "settled_row usage req cons (db_now d) \<circ> accounted_row acc"
  let ?e = "upd_reservation (br_id r) ?f d"
  have ok: "ledger_ok ?e" by (rule ledger_ok_upd_reservation) (simp_all add: assms)
  have keys: "br_id ` set (db_reservations ?e) = br_id ` set (db_reservations d)"
    using reservation_store.keys_upd [of ?f "br_id r" d] by (metis comp_apply list.set_map accounted_row_sel(1) settled_row_sel(1))
  have "br_status x = B_RESERVED \<Longrightarrow> br_id x \<noteq> br_id r" if "x \<in> set (db_reservations ?e)" for x
    using that by (auto simp: in_set_update_row split: if_splits) (metis settled_row_sel(2))
  then show ?thesis
    using ok assms(2,3) unfolding ledger_ok_def
    by (auto simp: settle_reservation_eq Let_def keys [simplified] less_Suc_eq)
qed

definition reservation_ids :: "db \<Rightarrow> uuid set" where
  "reservation_ids d = br_id ` set (db_reservations d)"

lemma reservation_ids_upd: "(\<And>r. br_id (f r) = br_id r) \<Longrightarrow> reservation_ids (upd_reservation k f d) = reservation_ids d"
  using arg_cong [OF map_key_update_row, where f = set, of br_id f]
  by (simp add: reservation_ids_def)

lemma reservation_ids_add_usage [simp]: "reservation_ids (add_usage u d) = reservation_ids d"
  by (simp add: reservation_ids_def)

lemma settle_ids:
  "reservation_ids (snd (settle_reservation provider model usage req outcome cons late acc r d)) =
   reservation_ids d"
  by (simp add: settle_reservation_eq Let_def reservation_ids_upd)

lemma release_row_sel [simp]: "br_id (release_row now r) = br_id r" "br_status (release_row now r) = B_RELEASED"
  by (simp_all add: release_row_def)

lemma ledger_ok_release: "ledger_ok d \<Longrightarrow> ledger_ok (upd_reservation k (release_row now) d)"
  by (rule ledger_ok_upd_reservation) simp_all

lemma release_ids:
  "reservation_ids (upd_reservation k (release_row now) d) = reservation_ids d"
  by (simp add: reservation_ids_upd)

text \<open>One reservation of a closing loop, and the loop.\<close>

lemma close_one_ok:
  assumes "ledger_ok d" "br_id r \<in> reservation_ids d"
    and "close_one outcome release provider model acc r (n, d) = (n', d')"
  shows "ledger_ok d' \<and> reservation_ids d' = reservation_ids d"
  using assms ledger_ok_settle [OF assms(1), of r] unfolding reservation_ids_def [symmetric]
  by (auto simp: close_one_def usage_of_charges ledger_ok_release release_ids settle_ids
      split: if_splits)

lemma sweep_one_ok:
  assumes "ledger_ok d" "br_id r \<in> reservation_ids d" and "sweep_one r (n, d) = (n', d')"
  shows "ledger_ok d' \<and> reservation_ids d' = reservation_ids d"
  using assms(1,3) close_one_ok [OF assms(1,2)]
  by (auto simp: sweep_one_def Let_def split: if_splits)

lemma fold_ledger_ok:
  assumes "\<And>r n d n' d'. ledger_ok d \<Longrightarrow> br_id r \<in> reservation_ids d \<Longrightarrow>
      f r (n, d) = (n', d') \<Longrightarrow>
      ledger_ok d' \<and> reservation_ids d' = reservation_ids d"
    and "ledger_ok d" "br_id ` set rs \<subseteq> reservation_ids d" "fold f rs (n, d) = (n', d')"
  shows "ledger_ok d'"
  using assms(2-)
proof (induction rs arbitrary: n d)
  case Nil
  then show ?case by simp
next
  case (Cons r rs)
  obtain m e where e: "f r (n, d) = (m, e)" by (cases "f r (n, d)")
  have "ledger_ok e \<and> reservation_ids e = reservation_ids d"
    using Cons.prems(2) by (intro assms(1) [OF Cons.prems(1) _ e]) auto
  then show ?case using Cons.prems(2,3) e by (intro Cons.IH [of e m]) auto
qed

lemma ledger_ok_close_step:
  "ledger_ok d \<Longrightarrow> close_step_reservations sid outcome release provider model acc d = (n, d') \<Longrightarrow> ledger_ok d'"
  unfolding close_step_reservations_def
  by (rule fold_ledger_ok [OF close_one_ok]) (auto simp: reservation_ids_def)

lemma ledger_ok_sweep:
  "ledger_ok d \<Longrightarrow> release_orphan_reservations locked age batch d = (n, d') \<Longrightarrow> ledger_ok d'"
  unfolding release_orphan_reservations_def
  by (rule fold_ledger_ok [OF sweep_one_ok]) (auto simp: reservation_ids_def orphans_def dest!: in_set_takeD)

text \<open>
  The operations of the ledger, in any order, interleaved with any work that leaves its two tables
  alone. A settlement of a step-less invocation is given the stored row.
\<close>

inductive ledger_step :: "db \<Rightarrow> db \<Rightarrow> bool" where
  reserve: "reserve_budget task run sid pid att est limits review acc ivk adm d = Inr (r, d') \<Longrightarrow>
     ledger_step d d'"
| reserve_invocation:
    "reserve_invocation_budget i profile est limits a task run life d = Inr (r, d') \<Longrightarrow> ledger_step d d'"
| reconcile: "reconcile_usage rid token provider model usage req outcome cons acc d = Inr (u, d') \<Longrightarrow>
     ledger_step d d'"
| late: "record_late_receipt rid provider model usage req outcome cons acc d = Inr (v, d') \<Longrightarrow>
     ledger_step d d'"
| release: "release_reservation rid token d = Inr d' \<Longrightarrow> ledger_step d d'"
| release_unfenced: "release_reservation_unfenced rid d = Inr d' \<Longrightarrow> ledger_step d d'"
| settle_invocation: "get_reservation d (br_id r) = Some r \<Longrightarrow>
     settle_invocation_budget show r profile usage req outcome cons d = Inr (u, d') \<Longrightarrow> ledger_step d d'"
| release_unsent: "get_reservation d (br_id r) = Some r \<Longrightarrow>
     release_unsent_invocation show r d = Inr d' \<Longrightarrow> ledger_step d d'"
| close_step: "close_step_reservations sid outcome rel provider model acc d = (n, d') \<Longrightarrow> ledger_step d d'"
| sweep: "release_orphan_reservations locked age batch d = (n, d') \<Longrightarrow> ledger_step d d'"
| reconcile_unknown: "reconcile_unknown_usage show uid cost owner d = Inr d' \<Longrightarrow> ledger_step d d'"
| accept_unknown: "accept_cost_uncertainty pf show tid owner reason d = Inr d' \<Longrightarrow> ledger_step d d'"
| consent: "record_admission_only_consent pf tid owner reason d = Inr d' \<Longrightarrow> ledger_step d d'"
| other: "db_reservations d' = db_reservations d \<Longrightarrow> db_usage d' = db_usage d \<Longrightarrow>
     next_uuid d \<le> next_uuid d' \<Longrightarrow> ledger_step d d'"

lemma stored_id: "get_reservation d rid = Some r \<Longrightarrow> br_id r \<in> br_id ` set (db_reservations d)"
  by (auto simp: reservation_ids_def dest: reservation_store.get_mem)

lemma ledger_ok_reconcile:
  assumes "ledger_ok d" "reconcile_usage rid token provider model usage req outcome cons acc d = Inr (u, d')"
  shows "ledger_ok d'"
proof (cases "usage_of d rid = None")
  case True
  with assms(2) obtain r where r: "get_reservation d rid = Some r"
    "(u, d') = settle_reservation provider model usage req outcome cons False acc r d"
    by (auto simp: reconcile_usage_def split: option.splits if_splits)
  then have "br_id r = rid" and d': "d' = snd (settle_reservation provider model usage req outcome cons False acc r d)"
    by (auto simp: reservation_store.get_key dest: arg_cong [where f = snd])
  then show ?thesis
    using ledger_ok_settle [OF assms(1) stored_id [OF r(1)]] True by (simp add: usage_of_charges)
next
  case False
  with assms show ?thesis by (auto simp: reconcile_usage_def split: option.splits)
qed

lemma ledger_ok_late:
  assumes "ledger_ok d" "record_late_receipt rid provider model usage req outcome cons acc d = Inr (v, d')"
  shows "ledger_ok d'"
proof (cases "usage_of d rid = None")
  case True
  with assms(2) obtain r where r: "get_reservation d rid = Some r"
    "d' = d \<or> d' = snd (settle_reservation provider model usage req outcome cons True acc r d)"
    by (auto simp: record_late_receipt_def apfst_def map_prod_def split: option.splits if_splits prod.splits)
  then have "br_id r = rid" by (simp add: reservation_store.get_key)
  then show ?thesis
    using ledger_ok_settle [OF assms(1) stored_id [OF r(1)], of provider model usage req outcome cons True acc]
      True r(2) assms(1) by (auto simp: usage_of_charges)
next
  case False
  with assms show ?thesis by (auto simp: record_late_receipt_def split: option.splits)
qed

lemma ledger_ok_settle_invocation:
  assumes "ledger_ok d" "get_reservation d (br_id r) = Some r"
    "settle_invocation_budget show r profile usage req outcome cons d = Inr (u, d')"
  shows "ledger_ok d'"
proof (cases "br_status r = B_RESERVED")
  case True
  then have "br_id r \<notin> set (charges d)"
    using assms(1) reservation_store.get_mem [OF assms(2)] by (simp add: ledger_ok_def)
  then show ?thesis
    using ledger_ok_settle [OF assms(1) stored_id [OF assms(2)]] True assms(3)
    by (auto simp: settle_invocation_budget_def Let_def) (metis snd_conv)
next
  case False
  have "ledger_ok (add_event e (upd_usage k (corrected_usage profile a req outcome i)
      (upd_reservation (br_id r) (corrected_row a req) d)))" for e k a i
    by (rule ledger_ok_events [OF _ events_only_add_event], rule ledger_ok_upd_usage,
        rule ledger_ok_upd_reservation)
      (auto simp: assms(1) corrected_usage_def corrected_row_def split: if_splits)
  with False assms show ?thesis
    by (auto simp: settle_invocation_budget_def Let_def split: option.splits if_splits)
qed

lemma ledger_ok_release_unsent:
  assumes "ledger_ok d" "release_unsent_invocation show r d = Inr d'"
  shows "ledger_ok d'"
proof -
  have close: "ledger_ok (upd_reservation k (unsent_row t) e)" if "ledger_ok e" for k t e
    by (rule ledger_ok_upd_reservation) (simp_all add: that unsent_row_def)
  have "ledger_ok (add_event x (upd_usage k (unsent_usage i) d))" for x k i
    by (rule ledger_ok_events [OF _ events_only_add_event], rule ledger_ok_upd_usage)
      (simp_all add: assms(1) unsent_usage_def)
  with close assms show ?thesis
    by (auto simp: release_unsent_invocation_def Let_def split: option.splits if_splits)
qed

lemma ledger_ok_reconcile_unknown:
  assumes "ledger_ok d" "reconcile_unknown_usage show uid cost owner d = Inr d'"
  shows "ledger_ok d'"
proof -
  have "ledger_ok (add_event x (upd_usage uid (\<lambda>u. u\<lparr>us_cost_units := Some cost, us_cost_known := True,
      us_late_receipt := True\<rparr>) d))" for x
    by (rule ledger_ok_events [OF _ events_only_add_event], rule ledger_ok_upd_usage)
      (simp_all add: assms(1))
  with assms show ?thesis
    by (auto simp: reconcile_unknown_usage_def split: option.splits if_splits)
qed

lemma owner_decisions_events:
  "accept_cost_uncertainty pf show tid owner reason d = Inr d' \<Longrightarrow> events_only d d'"
  "record_admission_only_consent pf tid owner reason d = Inr d' \<Longrightarrow> events_only d d'"
  by (auto simp: accept_cost_uncertainty_def record_admission_only_consent_def Let_def split: if_splits)

lemma ledger_step_ok: "ledger_step d d' \<Longrightarrow> ledger_ok d \<Longrightarrow> ledger_ok d'"
proof (induction rule: ledger_step.induct)
  case (reserve task run sid pid att est limits review acc ivk adm d r d')
  then show ?case by (auto elim!: reserve_budgetE intro: ledger_ok_admitted)
next
  case (reserve_invocation i profile est limits a task run life d r d')
  then show ?case by (auto elim!: reserve_invocation_budgetE intro: ledger_ok_admitted)
next
  case (release rid token d d')
  then show ?case
    by (auto simp: release_reservation_def intro: ledger_ok_release split: option.splits if_splits)
next
  case (release_unfenced rid d d')
  then show ?case
    by (auto simp: release_reservation_unfenced_def intro: ledger_ok_release split: option.splits if_splits)
qed (blast intro: ledger_ok_reconcile ledger_ok_late ledger_ok_settle_invocation
    ledger_ok_release_unsent ledger_ok_close_step ledger_ok_sweep ledger_ok_reconcile_unknown
    ledger_ok_events owner_decisions_events ledger_ok_frame)+

section \<open>Unknown cost\<close>

lemma sum_list_update_row:
  fixes w :: "'r \<Rightarrow> 'n :: ab_group_add"
  assumes "distinct (map key rows)" "r \<in> set rows" "key r = k"
  shows "sum_list (map w (update_row key k f rows)) = sum_list (map w rows) - w r + w (f r)"
  using assms
proof (induction rows)
  case Nil
  then show ?case by simp
next
  case (Cons x rows)
  show ?case
  proof (cases "x = r")
    case True
    have "update_row key k f rows = rows"
      using Cons.prems True by (auto simp: update_row_def image_iff intro!: map_idI)
    with True Cons.prems show ?thesis by (simp add: update_row_def)
  next
    case False
    with Cons.prems have "key x \<noteq> k" by force
    with False Cons show ?thesis by (simp add: update_row_def algebra_simps)
  qed
qed

lemma reserved_after_settle:
  fixes w :: "budget_reservation \<Rightarrow> money"
  assumes "ledger_ok d" "get_reservation d rid = Some r" "br_status r = B_RESERVED"
  shows "sum_list (map w (filter (\<lambda>r. br_status r = B_RESERVED) (db_reservations
      (snd (settle_reservation provider model usage req outcome cons late acc r d))))) =
    sum_list (map w (filter (\<lambda>r. br_status r = B_RESERVED) (db_reservations d))) - w r"
  using assms reservation_store.get_mem [OF assms(2)]
  by (simp add: settle_reservation_eq Let_def sum_list_map_filter' sum_list_update_row ledger_ok_def)

lemma day_start_le: "day_start t \<le> t"
  by (simp add: day_start_def seconds_def)

lemma sum_known_Some:
  "sum_known f (xs @ [x]) = sum_known f xs + (case f x of None \<Rightarrow> 0 | Some v \<Rightarrow> v)"
  by (simp add: sum_known_def List.map_filter_def split: option.splits)

lemma settle_daily:
  assumes "ledger_ok d" "get_reservation d rid = Some r" "br_status r = B_RESERVED"
    and "d' = snd (settle_reservation provider model usage req outcome cons late acc r d)"
  shows "daily_cost d' = daily_cost d - br_reserved_cost_units r +
      measured_or nu_cost_units usage (br_reserved_cost_units r)"
    "daily_quota d' = daily_quota d - br_reserved_quota_units r +
      measured_or nu_quota_units usage (br_reserved_quota_units r)"
  using reserved_after_settle [OF assms(1-3), of br_reserved_cost_units provider model usage req outcome cons late acc]
    reserved_after_settle [OF assms(1-3), of br_reserved_quota_units provider model usage req outcome cons late acc]
  unfolding daily_cost_eq daily_quota_eq assms(4)
  by (simp_all add: settle_reservation_eq Let_def settled_usage_def sum_known_Some day_start_le)

section \<open>A sample ledger\<close>

definition sample_limits :: hard_limits where
  "sample_limits =
     \<lparr>hl_task_cost_units = 5, hl_task_input_tokens = 1000, hl_task_output_tokens = 1000,
      hl_step_cost_units = 5, hl_step_input_tokens = 1000, hl_step_output_tokens = 1000,
      hl_provider_call_input_tokens = 500, hl_provider_call_output_tokens = 500,
      hl_daily_cost_units = 4, hl_daily_quota_units = 10, hl_usage_total_hard = False,
      hl_estimated_cost_hard = True, hl_explicit_money_cap_units = Some 3, hl_max_work_attempts = 5,
      hl_max_provider_calls = 5, hl_max_replans = 2, hl_review_allowance_input_tokens = 10,
      hl_review_allowance_output_tokens = 10, hl_review_allowance_cost_units = 1\<rparr>"

definition sample_estimate :: reservation_estimate where
  "sample_estimate = \<lparr>re_input_tokens = 100, re_output_tokens = 50, re_cost_units = 2, re_quota_units = 1\<rparr>"

definition sample_reservation :: budget_reservation where
  "sample_reservation =
     new_reservation sample_db (Some 1) (Some 2) (Some 3) None ''codex'' 0 1 sample_estimate None (0, 0, 0)"

definition reserved_db :: db where
  "reserved_db = add_reservation sample_reservation sample_db"

lemma sample_reserve:
  "reserve_budget (Some 1) (Some 2) (Some 3) ''codex'' 1 sample_estimate sample_limits False None None False
     sample_db = Inr (sample_reservation, reserved_db)"
proof -
  have tasks: "get_task sample_db 1 = Some sample_task" "task_budget_epoch sample_task = 0"
    by (simp_all add: get_task_def find_row_def sample_defs)
  have totals: "usage_totals sample_db t s e = (0, 0, 0, 0)" "reserved_totals sample_db t s e = (0, 0, 0, 0)"
    "daily_usage_totals sample_db = (0, 0, 0, 0)" for t s e
    by (simp_all add: usage_totals_def reserved_totals_def daily_usage_totals_def usage_sums_def reserved_sums_def
        sum_known_def List.map_filter_def sample_defs)
  have "enforce_counters sample_db 1 sample_limits = Inr ()"
    by (simp add: enforce_counters_def task_lifetime_calls_def step_attempts_of_task_def resolve_package_id_def
        sample_limits_def sample_defs)
  moreover have "enforce_explicit_money_cap sample_db (Some 1) sample_estimate sample_limits = Inr ()"
    by (simp add: enforce_explicit_money_cap_def unknown_usage_def money_known_def money_reserved_def
        sum_known_def List.map_filter_def sample_limits_def sample_estimate_def sample_defs Let_def)
  moreover have "existing_reservation sample_db (Some 3) 1 None = Inr None"
    by (simp add: existing_reservation_def by_step_attempt_def sample_defs)
  ultimately show ?thesis
    by (simp add: reserve_budget_def tasks totals enforce_call_caps_def enforce_sum_caps_def enforce_or_note_def
        enforce_daily_caps_def require_admission_only_consent_def sample_limits_def sample_estimate_def Let_def
        reserved_db_def sample_reservation_def del: One_nat_def)
qed

lemma sample_fresh: "sample_reservation \<notin> set (db_reservations sample_db)"
  by (simp add: sample_defs)

lemma sample_ledger: "ledger_ok reserved_db" "ledger_ok sample_db"
  by (simp_all add: ledger_ok_def reserved_db_def sample_reservation_def sample_defs charges_def
      List.map_filter_def)

lemma sample_stored:
  "get_reservation reserved_db 100 = Some sample_reservation" "br_status sample_reservation = B_RESERVED"
  by (simp_all add: reserved_db_def sample_reservation_def sample_defs get_reservation_def find_row_def)

definition charged :: "usage_record option \<times> db" where
  "charged = result_or (None, reserved_db)
     (record_late_receipt 100 ''unknown'' ''unknown'' None None ''lost'' True None reserved_db)"

lemma sample_late:
  "record_late_receipt 100 ''unknown'' ''unknown'' None None ''lost'' True None reserved_db =
     Inr (fst charged, snd charged)"
  unfolding charged_def prod.collapse by (rule result_or_Inr) code_simp

section \<open>Properties\<close>

text \<open>C29. The daily caps on cost and quota hold after every new reservation, whichever of the two
  admission paths made it: what the day has charged plus what is still reserved, the new
  reservation included, stays within the limits.\<close>

theorem daily_caps_hold:
  assumes "reserve_budget task run sid pid att est limits review acc ivk adm d = Inr (r, d') \<or>
      reserve_invocation_budget ivk' profile est limits acc' task run life d = Inr (r, d')"
    and "r \<notin> set (db_reservations d)"
  shows "daily_cost d' \<le> hl_daily_cost_units limits \<and> daily_quota d' \<le> hl_daily_quota_units limits"
  using admitted_daily [OF admission_cases [OF assms]] .

theorem daily_caps_hold_witness: "daily_cost reserved_db \<le> 4 \<and> daily_quota reserved_db \<le> 10"
  using daily_caps_hold [OF disjI1 [OF sample_reserve] sample_fresh] by (simp add: sample_limits_def)

text \<open>C12. Under an explicit money cap a task gets a new reservation only while the exposure of
  its whole family of tasks (measured cost, accepted floors and open reservations, the new one
  included) stays within the cap, and no charge of unknown cost in the family is left that the owner
  has not accepted.\<close>

theorem explicit_cap_is_certified:
  assumes "reserve_budget (Some t) run sid pid att est limits review acc ivk adm d = Inr (r, d') \<or>
      reserve_invocation_budget ivk' profile est limits acc' (Some t) run life d = Inr (r, d')"
    and "r \<notin> set (db_reservations d)" and "hl_explicit_money_cap_units limits = Some cap"
  shows "money_exposure d' t \<le> cap \<and> uncertainty_accepted d' t"
  using admitted_exposure [OF admission_cases [OF assms(1,2)] assms(3)] .

theorem explicit_cap_is_certified_witness: "money_exposure reserved_db 1 \<le> 3 \<and> uncertainty_accepted reserved_db 1"
  by (rule explicit_cap_is_certified [OF disjI1 [OF sample_reserve] sample_fresh])
    (simp add: sample_limits_def)

text \<open>Admission is idempotent: repeating the reservation of a step's provider attempt, with
  whatever estimate and limits, returns the stored row and reserves nothing more.\<close>

theorem reserve_is_idempotent:
  assumes "reserve_budget task run (Some s) pid att est limits review acc ivk adm d = Inr (r, d')"
  shows "reserve_budget task2 run2 (Some s) pid2 att est2 limits2 review2 acc2 ivk2 adm2 d' = Inr (r, d')"
proof -
  have "by_step_attempt d' s att = Some r"
    using assms
  proof (cases rule: reserve_budgetE)
    case existing
    then show ?thesis by (simp add: existing_reservation_def)
  next
    case fresh
    then obtain e where "db_reservations e = db_reservations d" "d' = add_reservation r e"
      by (auto simp: admitted_def dest: events_onlyD)
    with fresh show ?thesis
      by (auto simp: existing_reservation_def by_step_attempt_def find_append_None)
  qed
  then show ?thesis by (simp add: reserve_budget_def existing_reservation_def)
qed

text \<open>C11. No sequence of ledger operations, in any order and interleaved with any other work,
  charges a reservation twice, and a reservation that is still open has not been charged: a late
  receipt, a fenced settlement, lease recovery and the orphan sweep may race for the same
  reservation.\<close>

theorem no_double_charge:
  assumes "ledger_step\<^sup>*\<^sup>* d d'" and "ledger_ok d"
  shows "distinct (charges d') \<and>
    (\<forall>r \<in> set (db_reservations d'). br_status r = B_RESERVED \<longrightarrow> usage_of d' (br_id r) = None)"
proof -
  from assms have "ledger_ok d'" by (induction rule: rtranclp_induct) (auto intro: ledger_step_ok)
  then show ?thesis by (simp add: ledger_ok_def usage_of_charges)
qed

theorem no_double_charge_witness: "distinct (charges (snd charged)) \<and> charges (snd charged) = [100]"
proof -
  have "ledger_step sample_db reserved_db" "ledger_step reserved_db (snd charged)"
    by (rule ledger_step.reserve [OF sample_reserve], rule ledger_step.late [OF sample_late])
  then have "ledger_step\<^sup>*\<^sup>* sample_db (snd charged)" by auto
  then have "distinct (charges (snd charged))" using no_double_charge sample_ledger(2) by blast
  moreover have "charges (snd charged) = [100]" by code_simp
  ultimately show ?thesis by blast
qed

text \<open>A call whose cost is unknown is charged its reserved amount and marked as unknown, so
  closing it never lowers what the day has committed: unknown is not zero.\<close>

theorem unknown_cost_keeps_its_reservation:
  assumes "ledger_ok d" and "get_reservation d rid = Some r" and "br_status r = B_RESERVED"
    and "cost_unknown usage" and "Option.bind usage nu_quota_units = None"
    and "record_late_receipt rid provider model usage req outcome cons acc d = Inr (v, d')"
  shows "daily_cost d' = daily_cost d \<and> daily_quota d' = daily_quota d \<and>
    (\<exists>u. v = Some u \<and> us_cost_units u = Some (br_reserved_cost_units r) \<and> \<not> us_cost_known u) \<and>
    (\<exists>r'. get_reservation d' rid = Some r' \<and> br_status r' = B_CONSERVATIVE)"
proof -
  have rid: "br_id r = rid" using assms(2) by (rule reservation_store.get_key)
  have "usage_of d rid = None"
    using assms(1,3) reservation_store.get_mem [OF assms(2)]
    by (simp add: ledger_ok_def usage_of_charges rid [symmetric])
  then have sr: "v = Some (fst (settle_reservation provider model usage req outcome cons True acc r d))"
    "d' = snd (settle_reservation provider model usage req outcome cons True acc r d)"
    using assms(2,3,6) by (auto simp: record_late_receipt_def apfst_def map_prod_def split: prod.splits)
  have "get_reservation d' rid = Some (settled_row usage req cons (db_now d) (accounted_row acc r))"
    using assms(2) by (simp add: sr(2) settle_reservation_eq Let_def add_usage_def rid
        reservation_store.get_rows find_row_update_row)
  then show ?thesis
    using settle_daily [OF assms(1-3) sr(2)] assms(4,5)
    by (simp add: sr(1) settle_reservation_eq Let_def settled_usage_def settled_row_def measured_or_def
        cost_unknown_def)
qed

end
