(* ===== verification/Recovery_Properties.thy ===== *)
theory Recovery_Properties
  imports Lease_Recovery Budget_Properties
begin

text \<open>
  What the recovery of an expired lease guarantees: work is repeated only when repeating is safe, a
  claim that never started costs no attempt, the owner's pause is not moved, and no budget
  reservation of the step stays open.
\<close>

section \<open>The step after a recovery\<close>

text \<open>What a recovery may turn an expired step into, by the status of its run.\<close>

definition recovered :: "run_status \<Rightarrow> step \<Rightarrow> step \<Rightarrow> bool" where
  "recovered rs s s' \<longleftrightarrow>
     step_id s' = step_id s \<and> step_lease_generation s' = step_lease_generation s \<and>
     step_max_attempts s' = step_max_attempts s \<and>
     (if rs \<in> RUN_TERMINAL then step_status s' = S_CANCELLED
      else if step_status s = S_LEASED
      then step_status s' = S_QUEUED \<and> step_attempt_count s' = step_attempt_count (refund_attempt s)
      else if recovery_safe s \<and> step_attempt_count s < step_max_attempts s
      then step_status s' = S_QUEUED \<and> step_attempt_count s' = step_attempt_count s
      else if recovery_safe s
      then step_status s' \<in> {S_FAILED, S_BLOCKED}
      else step_status s' = S_BLOCKED \<and> step_unknown_effects s')"

lemma get_step_same: "db_steps d' = db_steps d \<Longrightarrow> get_step d' = get_step d"
  by (simp add: get_step_def fun_eq_iff)

lemma note_pause_hold_frame:
  assumes "note_pause_hold tid rid sid reason d = Inr d'"
  shows "db_steps d' = db_steps d" "db_runs d' = db_runs d"
    "map_option task_status (get_task d' k) = map_option task_status (get_task d k)"
    "db_reservations d' = db_reservations d" "db_usage d' = db_usage d" "db_now d' = db_now d"
    "next_uuid d' = next_uuid d"
  using assms
  by (auto simp: note_pause_hold_def res_simps add_call_def add_event_def upd_task_def get_task_def
      find_row_update_row option.map_comp comp_def)

lemma stop_run_and_task_steps:
  "stop_run_and_task t r rt tt category summary d = Inr d' \<Longrightarrow> db_steps d' = db_steps d"
  by (auto simp: stop_run_and_task_def res_simps split: if_splits
      dest!: transition_run_frame transition_task_frame)

lemma requeue_expired_get_step:
  assumes "requeue_expired s d = Inr d'" "get_step d (step_id s) = Some s"
  shows "\<exists>s'. get_step d' (step_id s) = Some s' \<and> step_id s' = step_id s \<and> step_status s' = S_QUEUED \<and>
    step_lease_generation s' = step_lease_generation s \<and> step_max_attempts s' = step_max_attempts s \<and>
    step_attempt_count s' = step_attempt_count (if step_status s = S_LEASED then refund_attempt s else s)"
proof -
  from assms(1) obtain e where e: "transition_step d (step_id s) S_QUEUED ''recovery'' None (recovery_payload s) = Inr e"
    "d' = (if step_status s = S_LEASED then upd_step (step_id s) refund_attempt e else e)"
    by (auto simp: requeue_expired_def res_simps)
  with assms(2) show ?thesis
    by (simp add: transition_step_get_step [OF e(1)] step_store.get_upd refund_attempt_def)
qed

lemma block_expired_get_step:
  assumes "block_expired s category summary unknown d = Inr d'" "get_step d (step_id s) = Some s"
  shows "\<exists>s'. get_step d' (step_id s) = Some s' \<and> step_id s' = step_id s \<and> step_status s' = S_BLOCKED \<and>
    step_lease_generation s' = step_lease_generation s \<and> step_max_attempts s' = step_max_attempts s \<and>
    step_unknown_effects s' = unknown"
proof -
  from assms(1) obtain e where e: "transition_step d (step_id s) S_BLOCKED ''recovery'' None (recovery_payload s) = Inr e"
    "d' = upd_step (step_id s) (\<lambda>x. x\<lparr>step_unknown_effects := unknown,
       step_failure_category := Some category, step_failure_summary := Some summary\<rparr>) e"
    by (auto simp: block_expired_def res_simps)
  with assms(2) show ?thesis by (simp add: transition_step_get_step [OF e(1)] step_store.get_upd)
qed

lemma recover_paused_recovered:
  assumes "recover_paused t r s d = Inr d'" "get_step d (step_id s) = Some s" "run_status r = R_PAUSED"
    "step_status s \<in> {S_LEASED, S_RUNNING}"
  shows "\<exists>s'. get_step d' (step_id s) = Some s' \<and> recovered (run_status r) s s'"
proof -
  have repeatable: "recovery_safe s" if "repeatable_without_new_mutation s"
    using that by (auto simp: repeatable_without_new_mutation_def recovery_safe_def split: if_splits option.splits)
  have hold: "get_step d' = get_step e" if "note_pause_hold tid rid sid reason e = Inr d'" for tid rid sid reason e
    using that by (intro get_step_same note_pause_hold_frame)
  show ?thesis
    using assms(1,2)
    unfolding recover_paused_def
    by (auto simp: res_simps hold recovered_def assms(3) RUN_TERMINAL_def repeatable
        dest!: requeue_expired_get_step block_expired_get_step split: if_splits)
qed

lemma recover_status_recovered:
  assumes "recover_status t r s d = Inr (stopped, d')" "get_step d (step_id s) = Some s"
    "step_status s \<in> {S_LEASED, S_RUNNING}"
  shows "\<exists>s'. get_step d' (step_id s) = Some s' \<and> recovered (run_status r) s s'"
proof -
  consider (final) "run_status r \<in> RUN_TERMINAL" | (paused) "run_status r = R_PAUSED"
    | (live) "run_status r \<notin> RUN_TERMINAL" "run_status r \<noteq> R_PAUSED" by blast
  then show ?thesis
  proof cases
    case final
    with assms(1) have "transition_step d (step_id s) S_CANCELLED ''recovery'' None (recovery_payload s) = Inr d'"
      by (auto simp: recover_status_def RUN_TERMINAL_def res_simps)
    from transition_step_get_step [OF this, of "step_id s"] final assms(2) show ?thesis
      by (simp add: recovered_def)
  next
    case paused
    with assms(1) have "recover_paused t r s d = Inr d'" by (auto simp: recover_status_def res_simps)
    then show ?thesis using recover_paused_recovered assms(2,3) paused by blast
  next
    case live
    have stop: "get_step d' = get_step e" if "stop_run_and_task t r rt tt c m e = Inr d'" for rt tt c m e
      using that by (intro get_step_same stop_run_and_task_steps)
    consider (requeue) "step_status s = S_LEASED \<or> recovery_safe s \<and> step_attempt_count s < step_max_attempts s"
      | (unknown) "\<not> recovery_safe s"
      | (exhausted) "step_status s \<noteq> S_LEASED" "recovery_safe s" "\<not> step_attempt_count s < step_max_attempts s"
      by blast
    then show ?thesis
    proof cases
      case requeue
      with assms(1) live have "requeue_expired s d = Inr d'"
        by (auto simp: recover_status_def RUN_TERMINAL_def res_simps)
      from requeue_expired_get_step [OF this assms(2)] requeue live show ?thesis
        by (auto simp: recovered_def)
    next
      case unknown
      with assms(1) live obtain e where "block_expired s LEASE_EXPIRED_UNKNOWN_EFFECTS UNKNOWN_SUMMARY True d = Inr e"
        "get_step d' = get_step e"
        by (auto simp: recover_status_def block_unknown_def RUN_TERMINAL_def recovery_safe_def res_simps stop)
      with block_expired_get_step [OF this(1) assms(2)] unknown live show ?thesis
        by (auto simp: recovered_def recovery_safe_def)
    next
      case exhausted
      with assms(1) live obtain e where
        e: "transition_step d (step_id s) S_FAILED ''recovery'' None (recovery_payload s) = Inr e"
        "db_steps d' = db_steps (upd_step (step_id s) (\<lambda>x. x\<lparr>step_failure_category :=
            Some LEASE_EXPIRED_ATTEMPTS_EXHAUSTED, step_failure_summary := Some EXHAUSTED_SUMMARY\<rparr>) e)"
        by (auto simp: recover_status_def fail_expired_def res_simps RUN_TERMINAL_def dest!: stop_run_and_task_steps)
      from exhausted live show ?thesis
        using assms(2)
        by (simp add: get_step_same [OF e(2)] transition_step_get_step [OF e(1)] step_store.get_upd recovered_def)
    qed
  qed
qed

section \<open>Tables that recovery leaves to the ledger\<close>

definition budget_kept :: "db \<Rightarrow> db \<Rightarrow> bool" where
  "budget_kept d d' \<longleftrightarrow> db_reservations d' = db_reservations d \<and> db_usage d' = db_usage d \<and>
     next_uuid d \<le> next_uuid d' \<and> db_now d' = db_now d"

named_theorems budget \<open>operations that leave the budget tables alone\<close>

lemma budget_kept_refl [budget]: "budget_kept d d"
  by (simp add: budget_kept_def)

lemma budget_kept_trans: "budget_kept a b \<Longrightarrow> budget_kept b c \<Longrightarrow> budget_kept a c"
  by (simp add: budget_kept_def)

lemma budget_kept_upd [budget]:
  "budget_kept d (upd_step k f d)" "budget_kept d (upd_run k g d)" "budget_kept d (upd_task k h d)"
  "budget_kept d (add_event e d)" "budget_kept d (add_call c d)" "budget_kept d (lead_enqueue row d)"
  by (simp_all add: budget_kept_def upd_step_def upd_run_def upd_task_def add_event_def add_call_def
      lead_enqueue_def)

lemma budget_kept_publish [budget]: "budget_kept d (publish_task_event t d)"
  by (auto simp: publish_task_event_def note_attention_def budget_kept_def lead_enqueue_def add_event_def
      add_call_def Let_def split: option.splits)

lemma budget_kept_transition:
  "transition_step d k st actor aid payload = Inr d' \<Longrightarrow> budget_kept d d'"
  "transition_run d k rt actor aid payload = Inr d' \<Longrightarrow> budget_kept d d'"
  "transition_task d k tt actor aid payload = Inr d' \<Longrightarrow> budget_kept d d'"
  by (auto elim!: transition_stepE transition_runE transition_taskE
      intro!: budget budget_kept_trans [OF _ budget_kept_publish] budget_kept_trans [OF _ budget_kept_upd(4)])

lemma budget_kept_hold: "note_pause_hold tid rid sid reason d = Inr d' \<Longrightarrow> budget_kept d d'"
  by (simp add: budget_kept_def note_pause_hold_frame)

lemma budget_kept_expired:
  "requeue_expired s d = Inr d' \<Longrightarrow> budget_kept d d'"
  "block_expired s category summary unknown d = Inr d' \<Longrightarrow> budget_kept d d'"
  by (auto simp: requeue_expired_def block_expired_def res_simps dest!: budget_kept_transition(1)
      intro: budget_kept_trans [OF _ budget_kept_upd(1)])

lemma budget_kept_stop: "stop_run_and_task t r rt tt category summary d = Inr d' \<Longrightarrow> budget_kept d d'"
  by (auto simp: stop_run_and_task_def res_simps split: if_splits dest!: budget_kept_transition
      intro: budget budget_kept_trans [OF _ budget_kept_upd(2)] budget_kept_trans)

lemma budget_kept_paused: "recover_paused t r s d = Inr d' \<Longrightarrow> budget_kept d d'"
  by (auto simp: recover_paused_def res_simps split: if_splits dest!: budget_kept_expired budget_kept_hold
      intro: budget_kept_trans)

lemma budget_kept_fail: "fail_expired t r s d = Inr d' \<Longrightarrow> budget_kept d d'"
  by (auto simp: fail_expired_def res_simps dest!: budget_kept_transition(1) budget_kept_stop
      intro: budget_kept_trans [OF budget_kept_trans [OF _ budget_kept_upd(1)]])

lemma budget_kept_block: "block_unknown t r s d = Inr d' \<Longrightarrow> budget_kept d d'"
  by (auto simp: block_unknown_def res_simps dest!: budget_kept_expired(2) budget_kept_stop
      intro: budget_kept_trans)

lemma budget_kept_recover_status:
  "recover_status t r s d = Inr (stopped, d') \<Longrightarrow> budget_kept d d'"
  by (auto simp: recover_status_def res_simps split: if_splits
      dest: budget_kept_transition(1) budget_kept_expired(1) budget_kept_paused budget_kept_fail budget_kept_block)

section \<open>Closing the reservations\<close>

text \<open>Closing reservations changes the two tables of the ledger and allocates identifiers.\<close>

definition ledger_only :: "db \<Rightarrow> db \<Rightarrow> bool" where
  "ledger_only d d' \<longleftrightarrow> (\<exists>rs us n. d' = d\<lparr>db_reservations := rs, db_usage := us, next_uuid := n\<rparr> \<and> next_uuid d \<le> n)"

lemma ledger_only_refl: "ledger_only d d"
  unfolding ledger_only_def
  by (rule exI [of _ "db_reservations d"], rule exI [of _ "db_usage d"], rule exI [of _ "next_uuid d"]) simp

lemma ledger_only_trans: "ledger_only a b \<Longrightarrow> ledger_only b c \<Longrightarrow> ledger_only a c"
  unfolding ledger_only_def by force

lemma ledger_only_upd: "ledger_only d (upd_reservation k f d)"
  unfolding ledger_only_def upd_reservation_def
  by (rule exI, rule exI [of _ "db_usage d"], rule exI [of _ "next_uuid d"]) simp

lemma ledger_only_settle:
  "ledger_only d (snd (settle_reservation provider model usage req outcome cons late acc r d))"
  unfolding ledger_only_def settle_reservation_eq Let_def add_usage_def upd_reservation_def snd_conv
  by (rule exI, rule exI, rule exI [of _ "Suc (next_uuid d)"]) simp

lemma ledger_only_close_one: "ledger_only d (snd (close_one outcome release provider model acc r (n, d)))"
  by (simp add: close_one_def ledger_only_refl ledger_only_upd ledger_only_settle)

lemma ledger_only_fold:
  assumes "\<And>r n d. ledger_only d (snd (f r (n, d)))"
  shows "ledger_only d (snd (fold f rs (n, d)))"
proof (induction rs arbitrary: n d)
  case Nil
  show ?case by (simp add: ledger_only_refl)
next
  case (Cons r rs)
  then show ?case using ledger_only_trans [OF assms] by (cases "f r (n, d)") (metis fold_simps(2) snd_conv)
qed

lemma ledger_only_close_step:
  "ledger_only d (snd (close_step_reservations sid outcome release provider model acc d))"
  unfolding close_step_reservations_def by (rule ledger_only_fold) (rule ledger_only_close_one)

lemma ledger_onlyD:
  assumes "ledger_only d d'"
  shows "db_steps d' = db_steps d" "db_runs d' = db_runs d" "db_tasks d' = db_tasks d"
    "db_now d' = db_now d" "next_uuid d \<le> next_uuid d'"
  using assms by (auto simp: ledger_only_def)

lemma get_reservation_settle:
  "get_reservation (snd (settle_reservation provider model usage req outcome cons late acc r d)) k =
   (if k = br_id r then map_option (settled_row usage req cons (db_now d) \<circ> accounted_row acc) (get_reservation d k)
    else get_reservation d k)"
  by (simp add: settle_reservation_eq Let_def get_reservation_def find_row_update_row)

text \<open>One open reservation of the loop.\<close>

lemma close_one_open:
  assumes "ledger_ok d" "get_reservation d (br_id r) = Some r" "br_status r = B_RESERVED"
  obtains d' where "close_one outcome release provider model acc r (n, d) = (Suc n, d')" "ledger_ok d'"
    "\<And>k. k \<noteq> br_id r \<Longrightarrow> get_reservation d' k = get_reservation d k"
    "\<exists>r'. get_reservation d' (br_id r) = Some r' \<and> br_status r' \<noteq> B_RESERVED"
    "\<not> release \<Longrightarrow> daily_cost d' = daily_cost d"
proof -
  have uncharged: "usage_of d (br_id r) = None"
    using assms(1,3) reservation_store.get_mem [OF assms(2)] by (simp add: ledger_ok_def usage_of_charges)
  obtain n' d' where c: "close_one outcome release provider model acc r (n, d) = (n', d')" by force
  with uncharged have n': "n' = Suc n" and d': "d' = (if release then upd_reservation (br_id r) (release_row (db_now d)) d
      else snd (settle_reservation provider model None None outcome True True acc r d))"
    by (auto simp: close_one_def split: if_splits)
  have "ledger_ok d'" using close_one_ok [OF assms(1) _ c] stored_id [OF assms(2)] by (simp add: reservation_ids_def)
  moreover have "get_reservation d' k = get_reservation d k" if "k \<noteq> br_id r" for k
    using that by (simp add: d' get_reservation_settle reservation_store.get_upd)
  moreover have "\<exists>r'. get_reservation d' (br_id r) = Some r' \<and> br_status r' \<noteq> B_RESERVED"
    using assms(2) by (auto simp: d' get_reservation_settle reservation_store.get_upd)
  moreover have "daily_cost d' = daily_cost d" if "\<not> release"
    using settle_daily(1) [OF assms refl, of provider model None None outcome True True acc] that
    by (simp add: d' measured_or_def)
  ultimately show thesis using that c n' by blast
qed

lemma close_fold_open:
  assumes "ledger_ok d" "distinct (map br_id rs)"
    "\<And>r. r \<in> set rs \<Longrightarrow> get_reservation d (br_id r) = Some r \<and> br_status r = B_RESERVED"
    "fold (close_one outcome release provider model acc) rs (n, d) = (m, d')"
  shows "ledger_ok d' \<and> (\<forall>k. k \<notin> br_id ` set rs \<longrightarrow> get_reservation d' k = get_reservation d k) \<and>
    (\<forall>k \<in> br_id ` set rs. \<exists>r'. get_reservation d' k = Some r' \<and> br_status r' \<noteq> B_RESERVED) \<and>
    (\<not> release \<longrightarrow> daily_cost d' = daily_cost d)"
  using assms
proof (induction rs arbitrary: n d)
  case Nil
  then show ?case by simp
next
  case (Cons r rs)
  obtain e where e: "close_one outcome release provider model acc r (n, d) = (Suc n, e)" "ledger_ok e"
    "\<And>k. k \<noteq> br_id r \<Longrightarrow> get_reservation e k = get_reservation d k"
    "\<exists>r'. get_reservation e (br_id r) = Some r' \<and> br_status r' \<noteq> B_RESERVED"
    "\<not> release \<Longrightarrow> daily_cost e = daily_cost d"
    using close_one_open [OF Cons.prems(1)] Cons.prems(3) by (metis list.set_intros(1))
  have "ledger_ok d' \<and> (\<forall>k. k \<notin> br_id ` set rs \<longrightarrow> get_reservation d' k = get_reservation e k) \<and>
    (\<forall>k \<in> br_id ` set rs. \<exists>r'. get_reservation d' k = Some r' \<and> br_status r' \<noteq> B_RESERVED) \<and>
    (\<not> release \<longrightarrow> daily_cost d' = daily_cost e)"
  proof (rule Cons.IH [OF e(2)])
    show "distinct (map br_id rs)" using Cons.prems(2) by simp
    show "fold (close_one outcome release provider model acc) rs (Suc n, e) = (m, d')"
      using Cons.prems(4) e(1) by simp
  next
    fix x
    assume "x \<in> set rs"
    then have "br_id x \<noteq> br_id r" using Cons.prems(2) by (auto simp: image_iff)
    then show "get_reservation e (br_id x) = Some x \<and> br_status x = B_RESERVED"
      using e(3) Cons.prems(3) \<open>x \<in> set rs\<close> by simp
  qed
  moreover have "br_id r \<notin> br_id ` set rs" using Cons.prems(2) by auto
  ultimately show ?case using e(3-5) by simp
qed

lemma close_step_fold:
  assumes "ledger_ok d" "close_step_reservations sid outcome release provider model acc d = (n, d')"
    and "ids = br_id ` set (filter (\<lambda>r. br_step_id r = Some sid \<and> br_status r = B_RESERVED) (db_reservations d))"
  shows "ledger_ok d' \<and> (\<forall>k. k \<notin> ids \<longrightarrow> get_reservation d' k = get_reservation d k) \<and>
    (\<forall>k \<in> ids. \<exists>r'. get_reservation d' k = Some r' \<and> br_status r' \<noteq> B_RESERVED) \<and>
    (\<not> release \<longrightarrow> daily_cost d' = daily_cost d)"
proof -
  have dist: "distinct (map br_id (db_reservations d))" using assms(1) by (simp add: ledger_ok_def)
  show ?thesis
    unfolding assms(3)
    by (rule close_fold_open [OF assms(1) distinct_map_filter [OF dist] _
          assms(2) [unfolded close_step_reservations_def]])
      (simp add: reservation_store.mem_get [OF dist])
qed

lemma close_step_reservations_closes:
  assumes "ledger_ok d" "close_step_reservations sid outcome release provider model acc d = (n, d')"
    "r \<in> set (db_reservations d)" "br_step_id r = Some sid"
  shows "\<exists>r'. get_reservation d' (br_id r) = Some r' \<and> br_status r' \<noteq> B_RESERVED"
proof (cases "br_status r = B_RESERVED")
  case True
  then show ?thesis using close_step_fold [OF assms(1,2) refl] assms(3,4) by simp
next
  case False
  have dist: "distinct (map br_id (db_reservations d))" using assms(1) by (simp add: ledger_ok_def)
  have "br_id r \<notin> br_id ` set (filter (\<lambda>r. br_step_id r = Some sid \<and> br_status r = B_RESERVED) (db_reservations d))"
    using False assms(3) dist by (auto simp: distinct_map dest: inj_onD)
  with close_step_fold [OF assms(1,2) refl] have "get_reservation d' (br_id r) = get_reservation d (br_id r)"
    by blast
  then show ?thesis using False reservation_store.mem_get [OF dist assms(3)] by auto
qed

section \<open>A recovered step\<close>

lemma recover_lockedE:
  assumes "recover_locked d sid = Inr (True, d')"
  obtains t r s stopped d1 n d2 cs where "get_step d sid = Some s" "get_run d (step_run_id s) = Some r"
    "get_task d (run_task_id r) = Some t" "step_lease_expired d s" "step_id s = sid"
    "recover_status t r s d = Inr (stopped, d1)"
    "close_step_reservations sid
       (if step_status s = S_LEASED then ''lease_expired_before_start'' else ''lease_expired'')
       (step_status s = S_LEASED) ORPHAN_PROVIDER ORPHAN_MODEL None (upd_step sid drop_lease d1) = (n, d2)"
    "d' = d2\<lparr>db_calls := cs\<rparr>" "stopped \<or> cs = db_calls d2"
proof -
  from assms obtain t r s where lock: "lock_task_run_step d sid = Some (t, r, s)" "step_lease_expired d s"
    "recover_one t r s d = Inr d'"
    by (auto simp: recover_locked_def res_simps split: option.splits if_splits)
  then have rows: "get_step d sid = Some s" "get_run d (step_run_id s) = Some r" "get_task d (run_task_id r) = Some t"
    by (simp_all add: lock_task_run_step_Some)
  then have sid: "step_id s = sid" by (simp add: step_store.get_key)
  from lock(3) obtain stopped d1 where st: "recover_status t r s d = Inr (stopped, d1)"
    by (auto simp: recover_one_def res_simps)
  obtain n d2 where close: "close_step_reservations sid
       (if step_status s = S_LEASED then ''lease_expired_before_start'' else ''lease_expired'')
       (step_status s = S_LEASED) ORPHAN_PROVIDER ORPHAN_MODEL None (upd_step sid drop_lease d1) = (n, d2)"
    by (rule prod.exhaust)
  have ce: "close_expired s (upd_step (step_id s) drop_lease d1) = d2"
    by (simp add: close_expired_def sid close)
  have "\<exists>cs. d' = d2\<lparr>db_calls := cs\<rparr> \<and> (stopped \<or> cs = db_calls d2)"
  proof (cases stopped)
    case True
    with lock(3) obtain x c where "d' = add_call c x" "x = d2 \<or> (\<exists>b. x = add_call b d2)"
      by (auto simp: recover_one_def st ce Let_def res_simps split: if_splits)
    then show ?thesis using True by (elim disjE) (auto simp: add_call_def)
  next
    case False
    with lock(3) have "d' = d2" by (simp add: recover_one_def st ce)
    then show ?thesis using False by (intro exI [of _ "db_calls d2"]) simp
  qed
  then show thesis using that [OF rows lock(2) sid st close] by blast
qed

lemma drop_lease_sel [simp]: "step_id (drop_lease s) = step_id s" "step_lease_owner (drop_lease s) = None"
  by (simp_all add: drop_lease_def)

lemma recovered_drop_lease [simp]: "recovered rs s (drop_lease s') = recovered rs s s'"
  by (simp add: recovered_def drop_lease_def)

lemma recover_locked_step:
  assumes "recover_locked d sid = Inr (True, d')" "get_step d sid = Some s" "get_run d (step_run_id s) = Some r"
  obtains s' where "get_step d' sid = Some s'" "recovered (run_status r) s s'" "step_lease_owner s' = None"
proof (rule recover_lockedE [OF assms(1)])
  fix t and r' :: run and x :: step and stopped d1 n d2 cs
  assume x: "get_step d sid = Some x" "get_run d (step_run_id x) = Some r'" "step_lease_expired d x" "step_id x = sid"
    "recover_status t r' x d = Inr (stopped, d1)"
    and close: "close_step_reservations sid
       (if step_status x = S_LEASED then ''lease_expired_before_start'' else ''lease_expired'')
       (step_status x = S_LEASED) ORPHAN_PROVIDER ORPHAN_MODEL None (upd_step sid drop_lease d1) = (n, d2)"
    and d': "d' = d2\<lparr>db_calls := cs\<rparr>"
  have eq: "x = s" "r' = r" using x assms by auto
  have "ledger_only (upd_step sid drop_lease d1) d2"
    using ledger_only_close_step close by (metis snd_conv)
  then have "get_step d2 = get_step (upd_step sid drop_lease d1)" by (intro get_step_same ledger_onlyD)
  then have "get_step d' = get_step (upd_step sid drop_lease d1)" by (simp add: d' get_step_def fun_eq_iff)
  moreover obtain s1 where "get_step d1 sid = Some s1" "recovered (run_status r) s s1"
    using recover_status_recovered [OF x(5)] x eq by (auto simp: step_lease_expired_def)
  ultimately show thesis
    using that [of "drop_lease s1"] by (simp add: step_store.get_upd)
qed

text \<open>A pause keeps the rows of the run and the status of the task.\<close>

lemma expired_runs:
  "requeue_expired s d = Inr d' \<Longrightarrow> db_runs d' = db_runs d \<and> db_tasks d' = db_tasks d"
  "block_expired s category summary unknown d = Inr d' \<Longrightarrow> db_runs d' = db_runs d \<and> db_tasks d' = db_tasks d"
  by (auto simp: requeue_expired_def block_expired_def res_simps dest!: transition_step_frame)

lemma recover_paused_holds:
  assumes "recover_paused t r s d = Inr d'"
  shows "db_runs d' = db_runs d \<and> map_option task_status (get_task d' k) = map_option task_status (get_task d k)"
proof -
  obtain e reason where e: "db_runs e = db_runs d" "db_tasks e = db_tasks d"
    "note_pause_hold (task_id t) (run_id r) (step_id s) reason e = Inr d'"
    using assms by (auto simp: recover_paused_def res_simps dest!: expired_runs split: if_splits)
  then show ?thesis using note_pause_hold_frame(2,3) [OF e(3)] by (simp add: get_task_def)
qed

lemma recover_locked_paused:
  assumes "recover_locked d sid = Inr (True, d')" "get_step d sid = Some s" "get_run d (step_run_id s) = Some r"
    and "run_status r = R_PAUSED"
  shows "db_runs d' = db_runs d \<and> map_option task_status (get_task d' k) = map_option task_status (get_task d k)"
proof (rule recover_lockedE [OF assms(1)])
  fix t and r' :: run and x :: step and stopped d1 n d2 cs
  assume x: "get_step d sid = Some x" "get_run d (step_run_id x) = Some r'"
    "recover_status t r' x d = Inr (stopped, d1)" "d' = d2\<lparr>db_calls := cs\<rparr>"
    and close: "close_step_reservations sid
       (if step_status x = S_LEASED then ''lease_expired_before_start'' else ''lease_expired'')
       (step_status x = S_LEASED) ORPHAN_PROVIDER ORPHAN_MODEL None (upd_step sid drop_lease d1) = (n, d2)"
  have "r' = r" using x assms by simp
  with x(3) assms(4) have "recover_paused t r x d = Inr d1" by (auto simp: recover_status_def res_simps)
  note held = recover_paused_holds [OF this, of k]
  have "ledger_only (upd_step sid drop_lease d1) d2"
    using ledger_only_close_step close by (metis snd_conv)
  then show ?thesis using held by (simp add: x(4) ledger_onlyD get_task_def)
qed

section \<open>A worker that died\<close>

definition expired_db :: db where
  "expired_db = add_reservation sample_reservation (running_db\<lparr>db_now := 100\<rparr>)"

definition recovered_db :: "bool \<times> db" where
  "recovered_db = result_or (False, expired_db) (recover_locked expired_db 3)"

lemma sample_recovery: "recover_locked expired_db 3 = Inr (True, snd recovered_db)"
proof -
  have "(case recover_locked expired_db 3 of Inl _ \<Rightarrow> False | Inr (b, _) \<Rightarrow> b)" by code_simp
  then show ?thesis unfolding recovered_db_def result_or_def by (auto split: sum.splits)
qed

lemma expired_rows:
  "get_step expired_db 3 = Some running_step" "get_run expired_db (step_run_id running_step) = Some sample_run"
  "step_status running_step = S_RUNNING" "\<not> recovery_safe running_step" "run_status sample_run \<notin> RUN_TERMINAL"
  by (simp_all add: expired_db_def add_reservation_def running_db_def running_step_def sample_defs get_step_def
      get_run_def find_row_def recovery_safe_def RUN_TERMINAL_def)

lemma expired_ledger: "ledger_ok expired_db"
  by (simp add: ledger_ok_def expired_db_def running_db_def sample_reservation_def sample_defs charges_def
      List.map_filter_def)

section \<open>Properties\<close>

text \<open>C10. Recovery of an expired lease repeats only work that is safe to repeat. The lease is
  gone and keeps its generation. A step goes back to the queue only if its handler never started, or
  if its class allows repetition and attempts remain. A running step of any other class is blocked
  with its effects marked unknown. A claim that never started gets its attempt back. While the run is
  paused neither the run nor the status of any task moves.\<close>

theorem recovery_repeats_only_safe_work:
  assumes "recover_locked d sid = Inr (True, d')" and "get_step d sid = Some s"
    and "get_run d (step_run_id s) = Some r" and "get_step d' sid = Some s'"
  shows "step_lease_owner s' = None \<and> step_lease_generation s' = step_lease_generation s \<and>
    (step_status s' = S_QUEUED \<longrightarrow>
       step_status s = S_LEASED \<or> recovery_safe s \<and> step_attempt_count s < step_max_attempts s) \<and>
    (\<not> recovery_safe s \<and> run_status r \<notin> RUN_TERMINAL \<longrightarrow>
       step_status s' = S_BLOCKED \<and> step_unknown_effects s') \<and>
    (step_status s = S_LEASED \<and> step_attempt_count s > 0 \<and> run_status r \<notin> RUN_TERMINAL \<longrightarrow>
       step_status s' = S_QUEUED \<and> step_attempt_count s' = step_attempt_count s - 1) \<and>
    (run_status r = R_PAUSED \<longrightarrow> db_runs d' = db_runs d \<and>
       (\<forall>k. map_option task_status (get_task d' k) = map_option task_status (get_task d k)))"
proof -
  have s': "recovered (run_status r) s s'" "step_lease_owner s' = None"
    using recover_locked_step [OF assms(1-3)] assms(4) by auto
  moreover have "run_status r = R_PAUSED \<Longrightarrow> db_runs d' = db_runs d \<and>
      (\<forall>k. map_option task_status (get_task d' k) = map_option task_status (get_task d k))"
    using recover_locked_paused [OF assms(1-3)] by blast
  moreover have "step_status s = S_LEASED \<Longrightarrow> recovery_safe s" by (simp add: recovery_safe_def)
  ultimately show ?thesis
    by (auto simp: recovered_def refund_attempt_def split: if_splits)
qed

theorem recovery_repeats_only_safe_work_witness:
  "\<exists>s'. get_step (snd recovered_db) 3 = Some s' \<and> step_status s' = S_BLOCKED \<and> step_unknown_effects s' \<and>
     step_lease_owner s' = None"
proof -
  obtain s' where s': "get_step (snd recovered_db) 3 = Some s'"
    using recover_locked_step [OF sample_recovery expired_rows(1,2)] by blast
  from recovery_repeats_only_safe_work [OF sample_recovery expired_rows(1,2) s'] expired_rows(4,5) s'
  show ?thesis by simp
qed

text \<open>C30. Recovery leaves no budget reservation of the step open. If its handler had started,
  the calls are charged what was reserved, so the cost the day has committed stays the same; and the
  ledger stays free of double charges.\<close>

theorem recovery_closes_reservations:
  assumes "recover_locked d sid = Inr (True, d')" and "get_step d sid = Some s" and "ledger_ok d"
  shows "ledger_ok d' \<and>
    (\<forall>b \<in> set (db_reservations d). br_step_id b = Some sid \<longrightarrow>
       (\<exists>b'. get_reservation d' (br_id b) = Some b' \<and> br_status b' \<noteq> B_RESERVED)) \<and>
    (step_status s = S_RUNNING \<longrightarrow> daily_cost d' = daily_cost d)"
proof (rule recover_lockedE [OF assms(1)])
  fix t and r :: run and x :: step and stopped d1 n d2 cs
  let ?e = "upd_step sid drop_lease d1"
  assume x: "get_step d sid = Some x" "recover_status t r x d = Inr (stopped, d1)" "d' = d2\<lparr>db_calls := cs\<rparr>"
    and close: "close_step_reservations sid
       (if step_status x = S_LEASED then ''lease_expired_before_start'' else ''lease_expired'')
       (step_status x = S_LEASED) ORPHAN_PROVIDER ORPHAN_MODEL None ?e = (n, d2)"
  have kept: "budget_kept d ?e"
    using budget_kept_trans [OF budget_kept_recover_status [OF x(2)] budget_kept_upd(1)] .
  then have ok: "ledger_ok ?e" and rows: "db_reservations ?e = db_reservations d" and cost: "daily_cost ?e = daily_cost d"
    using ledger_ok_frame [OF assms(3)] by (simp_all add: budget_kept_def daily_cost_eq)
  have calls: "ledger_ok d' = ledger_ok d2" "get_reservation d' = get_reservation d2" "daily_cost d' = daily_cost d2"
    by (simp_all add: x(3) ledger_ok_def charges_def get_reservation_def daily_cost_eq fun_eq_iff)
  have "step_status s = S_RUNNING \<Longrightarrow> daily_cost d2 = daily_cost ?e"
    using close_step_fold [OF ok close refl] x(1) assms(2) by simp
  then show ?thesis
    using close_step_reservations_closes [OF ok close] close_step_fold [OF ok close refl] rows cost calls by simp
qed

theorem recovery_closes_reservations_witness:
  "ledger_ok (snd recovered_db) \<and> daily_cost (snd recovered_db) = daily_cost expired_db \<and>
   (\<exists>b'. get_reservation (snd recovered_db) 100 = Some b' \<and> br_status b' \<noteq> B_RESERVED)"
proof -
  have "sample_reservation \<in> set (db_reservations expired_db)" "br_step_id sample_reservation = Some 3"
    "br_id sample_reservation = 100"
    by (simp_all add: expired_db_def sample_reservation_def sample_defs)
  then show ?thesis
    using recovery_closes_reservations [OF sample_recovery expired_rows(1) expired_ledger] expired_rows(3)
    by auto
qed

end
