(* ===== verification/Controls.thy ===== *)
theory Controls
  imports Settlement Retry_Policy Workflow_Samples
begin

text \<open>
  \<^verbatim>\<open>workflows/controls.py\<close>, the controls a user has over a task: the decision about a result, pause,
  resume, cancel and the retry of a blocked step; with \<open>start_run\<close> of \<^verbatim>\<open>workflows/service.py\<close>, the
  attempt rows of \<^verbatim>\<open>storage/attempts.py\<close> and \<^verbatim>\<open>providers/fallback_policy.py\<close>.
\<close>

section \<open>Rows\<close>

definition latest_run :: "db \<Rightarrow> uuid \<Rightarrow> run option" where
  "latest_run d tid = newest run_created_at (filter (\<lambda>r. run_task_id r = tid) (db_runs d))"

definition locked_context :: "db \<Rightarrow> uuid \<Rightarrow> error + task \<times> run \<times> step list" where
  "locked_context d tid =
     (case get_task d tid of
        None \<Rightarrow> Inl (ValueError (''task not found: '' @ uuid_str tid))
      | Some t \<Rightarrow>
          (case latest_run d (task_id t) of
             None \<Rightarrow> Inl (ValueError (''task has no run: '' @ uuid_str tid))
           | Some r \<Rightarrow> Inr (t, r, steps_for_run d (run_id r))))"

definition control_noop :: "uuid \<Rightarrow> string \<Rightarrow> string \<Rightarrow> string option \<Rightarrow> db \<Rightarrow> db" where
  "control_noop rid action actor_type actor_id =
     add_event (plain_event ''run'' rid ''workflow.control_noop'' actor_type actor_id
       [(''action'', JStr action)])"

definition enqueue_telegram_projection :: "uuid \<Rightarrow> uuid \<Rightarrow> db \<Rightarrow> error + db" where
  "enqueue_telegram_projection tid rid d =
     bindE (held_task d tid) (\<lambda>t.
       Inr (add_call (StatusProjection tid (task_version t) (Some rid) None) d))"

definition check_task_version :: "task \<Rightarrow> int option \<Rightarrow> error + unit" where
  "check_task_version t expected =
     (case expected of
        None \<Rightarrow> Inr ()
      | Some v \<Rightarrow> if task_version t \<noteq> v
          then Inl (ValueError (''stale task version: expected '' @ int_dec v)) else Inr ())"

section \<open>Work attempts\<close>

definition next_attempt_no :: "db \<Rightarrow> uuid \<Rightarrow> int" where
  "next_attempt_no d sid =
     (let numbers = map wa_attempt_no (filter (\<lambda>a. wa_step_id a = sid) (db_attempts d))
      in (if numbers = [] then 0 else fold max (tl numbers) (hd numbers)) + 1)"

definition latest_attempt :: "db \<Rightarrow> uuid \<Rightarrow> work_attempt option" where
  "latest_attempt d sid = newest wa_attempt_no (filter (\<lambda>a. wa_step_id a = sid) (db_attempts d))"

definition resolve_stable_item :: "db \<Rightarrow> uuid \<Rightarrow> uuid" where
  "resolve_stable_item d tid =
     (case find (\<lambda>l. link_task_id l = tid) (db_links d) of
        None \<Rightarrow> tid
      | Some l \<Rightarrow>
          (case Option.bind (find_row pri_id (db_plan_items d) (link_plan_revision_item_id l)) pri_item_id of
             None \<Rightarrow> tid
           | Some item \<Rightarrow> item))"

text \<open>The columns of the new row that the caller names; its number follows the step's history.\<close>

definition record_work_attempt :: "work_attempt \<Rightarrow> db \<Rightarrow> db" where
  "record_work_attempt a d = d
     \<lparr>db_attempts := db_attempts d @
        [a\<lparr>wa_id := next_uuid d, wa_attempt_no := next_attempt_no d (wa_step_id a)\<rparr>],
      next_uuid := Suc (next_uuid d)\<rparr>"

section \<open>The decision about a result\<close>

definition envelope_drift :: "run \<Rightarrow> step \<Rightarrow> string option" where
  "envelope_drift r s =
     (case jget (step_payload s) ''action_envelope'' of
        JObj envelope \<Rightarrow>
          map_option fst (find (\<lambda>(field, current). jget envelope field \<noteq> JNull \<and>
             jget envelope field \<noteq> JStr current)
            [(''configuration_revision'', run_configuration_revision r),
             (''policy_revision'', run_policy_revision r)])
      | _ \<Rightarrow> None)"

definition installation_action :: "approval \<Rightarrow> bool" where
  "installation_action a = (appr_requested_action a \<in> {''install_capabilities'', ''install_dependencies''})"

definition publication_action :: "approval \<Rightarrow> bool" where
  "publication_action a = (appr_requested_action a = ''publish_static'')"

definition installation_event :: "approval \<Rightarrow> string" where
  "installation_event a =
     (if appr_requested_action a = ''install_capabilities'' then ''capability_installation''
      else ''dependency_installation'')"

definition prior_candidate_hash :: "platform \<Rightarrow> step \<Rightarrow> string option" where
  "prior_candidate_hash pf s = map_option (\<lambda>m. pf_sha256 pf (json_dumps True (JObj m))) (step_result s)"

definition prior_review_summary :: "platform \<Rightarrow> step \<Rightarrow> string option" where
  "prior_review_summary pf s =
     (case step_result s of
        None \<Rightarrow> None
      | Some m \<Rightarrow>
          let summary = (if py_truthy (jget m ''summary'') then jget m ''summary''
                         else jget m ''implementation_summary'')
          in case summary of
               JStr text \<Rightarrow> if pf_strip pf text = [] then None else Some (take 2000 (pf_strip pf text))
             | _ \<Rightarrow> None)"

definition redo_attempt :: "platform \<Rightarrow> db \<Rightarrow> task \<Rightarrow> run \<Rightarrow> step \<Rightarrow> work_attempt" where
  "redo_attempt pf d t r s =
     \<lparr>wa_id = 0, wa_task_id = task_id t, wa_run_id = run_id r, wa_step_id = step_id s,
      wa_stable_item_id = Some (resolve_stable_item d (task_id t)), wa_attempt_no = 0,
      wa_parent_attempt_id = map_option wa_id (latest_attempt d (step_id s)),
      wa_attempt_kind = ''retry'', wa_purpose = ''coding'', wa_outcome = ''cancelled'',
      wa_prior_candidate_hash = prior_candidate_hash pf s,
      wa_prior_review_summary = prior_review_summary pf s,
      wa_intent_revision = task_spec_revision t\<rparr>"

definition set_approval_status :: "uuid \<Rightarrow> approval_status \<Rightarrow> db \<Rightarrow> db" where
  "set_approval_status aid st = upd_approval aid (\<lambda>a. a\<lparr>appr_status := st\<rparr>)"

text \<open>A refused result: the step, the run and the task are cancelled.\<close>

definition cancel_decided :: "uuid \<Rightarrow> task \<Rightarrow> run \<Rightarrow> step \<Rightarrow> string \<Rightarrow> db \<Rightarrow> error + db" where
  "cancel_decided aid t r s actor d =
     bindE (transition_step (set_approval_status aid A_REJECTED d) (step_id s) S_CANCELLED ''user''
              (Some actor) []) (\<lambda>d1.
     bindE (transition_run d1 (run_id r) R_CANCELLED ''user'' (Some actor) []) (\<lambda>d2.
     transition_task d2 (task_id t) T_CANCELLED ''user'' (Some actor) []))"

definition apply_decision ::
  "platform \<Rightarrow> approval \<Rightarrow> task \<Rightarrow> run \<Rightarrow> step \<Rightarrow> string \<Rightarrow> string \<Rightarrow> db \<Rightarrow> error + string \<times> db" where
  "apply_decision pf a t r s decision actor d =
     (if decision = ''approve'' then
        let d1 = set_approval_status (appr_id a) A_APPROVED d;
            d2 = (if installation_action a \<or> publication_action a
                  then upd_step (step_id s) refund_attempt d1 else d1)
        in bindE (transition_step d2 (step_id s) S_QUEUED ''user'' (Some actor) []) (\<lambda>d3.
           bindE (transition_task d3 (task_id t) T_EXECUTING ''user'' (Some actor) []) (\<lambda>d4.
             Inr (if installation_action a then installation_event a @ ''.approved''
                  else ''result.approved'', d4)))
      else if decision = ''redo'' then
        (if installation_action a \<or> publication_action a
         then Inl (ValueError ''effect approval does not support redo'')
         else bindE (cancel_decided (appr_id a) t r s actor
                       (record_work_attempt (redo_attempt pf d t r s) d)) (\<lambda>d1.
                Inr (''result.redo_requested'', d1)))
      else if decision = ''reject'' then
        bindE (cancel_decided (appr_id a) t r s actor d) (\<lambda>d1.
        bindE (record_corrective_signal ''final_reject'' ''final_reject'' None (Some (task_id t))
                 (Some (run_id r)) (Some (step_id s)) d1) (\<lambda>d2.
          Inr (if installation_action a then installation_event a @ ''.rejected''
               else ''result.rejected'', d2)))
      else Inl (ValueError (''unsupported result decision: '' @ decision)))"

definition decide_result :: "platform \<Rightarrow> uuid \<Rightarrow> string \<Rightarrow> int \<Rightarrow> db \<Rightarrow> error + db" where
  "decide_result pf aid decision user d =
     (case get_approval d aid of
        None \<Rightarrow> Inl (ValueError ''result approval workflow is missing'')
      | Some a \<Rightarrow>
          (case lock_task_run_step d (appr_step_id a) of
             None \<Rightarrow> Inl (ValueError ''result approval workflow is missing'')
           | Some (t, r, s) \<Rightarrow>
               if appr_status a \<noteq> A_PENDING
               then Inl (ValueError ''result approval is missing or already decided'')
               else if appr_expires_at a \<le> wall_now d
               then Inl (ValueError ''result approval has expired'')
               else if step_status s \<noteq> S_WAITING_APPROVAL
               then Inl (ValueError ''result approval step is not waiting for a decision'')
               else
                 bindE (verified_envelope pf s a) (\<lambda>_.
                   case envelope_drift r s of
                     Some field \<Rightarrow> Inl (ValueError (''approval envelope '' @ field @ '' drifted since request''))
                   | None \<Rightarrow>
                       if publication_action a \<and> user \<noteq> task_user_id t
                       then Inl (ValueError ''result approval requires the task owner'')
                       else
                         bindE (apply_decision pf a t r s decision (int_dec user)
                                  (upd_approval aid (\<lambda>x. x\<lparr>appr_deciding_user_id := Some user,
                                     appr_decided_at := Some (db_now d)\<rparr>) d)) (\<lambda>(event_type, d1).
                           let d2 = (if appr_requested_action a = ''install_capabilities'' \<and> decision = ''reject''
                                     then add_call (WakeCapabilityWaiters aid) d1 else d1)
                           in enqueue_telegram_projection (task_id t) (run_id r)
                                (add_event (plain_event ''task'' (task_id t) event_type ''user''
                                   (Some (int_dec user)) [(''approval_id'', JStr (uuid_str aid))]) d2)))))"

section \<open>Start\<close>

definition start_run :: "platform \<Rightarrow> uuid \<Rightarrow> string \<Rightarrow> string option \<Rightarrow> db \<Rightarrow> error + db" where
  "start_run pf rid actor_type actor_id d =
     bindE (held_run d rid) (\<lambda>r.
       if run_status r = R_RUNNING then Inr (control_noop rid ''start'' actor_type actor_id d)
       else if run_status r \<noteq> R_CREATED
       then Inl (ValueError (''run cannot start from '' @ run_status_value (run_status r)))
       else
         bindE (held_task d (run_task_id r)) (\<lambda>t.
         bindE (transition_run d rid R_RUNNING actor_type actor_id []) (\<lambda>d1.
         bindE (activate_ready_steps pf (upd_run rid (\<lambda>x. x\<lparr>run_started_at := Some (db_now d)\<rparr>) d1) rid)
           (\<lambda>(_, d2).
              let target = derive_task_status (steps_for_run d2 rid) R_RUNNING
              in if target \<noteq> task_status t
                 then transition_task d2 (task_id t) target actor_type actor_id [] else Inr d2))))"

section \<open>Pause\<close>

text \<open>
  The lease of an active step is revoked for good: the generation moves on, so that a late result
  of the old process is refused even after a resume.
\<close>

definition revoke_lease :: "bool \<Rightarrow> step \<Rightarrow> step" where
  "revoke_lease was_running x = x
     \<lparr>step_failure_category := Some (if was_running then ''owner_paused'' else ''owner_paused_before_start''),
      step_failure_summary := Some ''Owner paused execution; the previous lease is revoked'',
      step_lease_owner := None, step_lease_expires_at := None,
      step_lease_generation := step_lease_generation x + 1\<rparr>"

definition pause_step :: "string option \<Rightarrow> db \<Rightarrow> step \<Rightarrow> error + db" where
  "pause_step actor_id d s =
     (let was_running = (step_status s = S_RUNNING);
          unknown = (step_unknown_effects s \<or> was_running \<and> \<not> repeatable_without_new_mutation s)
      in bindE (transition_step (upd_step (step_id s) (\<lambda>x. x\<lparr>step_unknown_effects := unknown\<rparr>) d)
                  (step_id s) S_BLOCKED ''user'' actor_id []) (\<lambda>d1.
           Inr (upd_step (step_id s) (revoke_lease was_running) d1)))"

definition is_active :: "step \<Rightarrow> bool" where
  "is_active s = (step_status s \<in> {S_LEASED, S_RUNNING})"

definition pause_task :: "uuid \<Rightarrow> string option \<Rightarrow> int option \<Rightarrow> db \<Rightarrow> error + db" where
  "pause_task tid actor_id expected d =
     bindE (locked_context d tid) (\<lambda>(t, r, steps).
     bindE (check_task_version t expected) (\<lambda>_.
       if run_status r = R_PAUSED then Inr (control_noop (run_id r) ''pause'' ''user'' actor_id d)
       else if run_status r \<in> RUN_TERMINAL
       then Inl (ValueError (''terminal run cannot pause: '' @ run_status_value (run_status r)))
       else
         bindE (transition_run d (run_id r) R_PAUSED ''user'' actor_id []) (\<lambda>d1.
         bindE (transition_task d1 (task_id t) T_PAUSED ''user'' actor_id []) (\<lambda>d2.
         bindE (foldE (pause_step actor_id) d2 (filter is_active steps)) (\<lambda>d3.
           enqueue_telegram_projection (task_id t) (run_id r)
             (add_event (plain_event ''task'' (task_id t) ''task.pause_effective'' ''user'' actor_id
                [(''active_step_ids'',
                  JList (map (\<lambda>s. JStr (uuid_str (step_id s))) (filter is_active steps)))]) d3))))))"

section \<open>Resume\<close>

text \<open>A new budget epoch of the task, pinned on the route of the run.\<close>

definition start_budget_epoch :: "platform \<Rightarrow> uuid \<Rightarrow> uuid \<Rightarrow> db \<Rightarrow> error + int \<times> db" where
  "start_budget_epoch pf tid rid d =
     bindE (held_task d tid) (\<lambda>t.
       let epoch = task_budget_epoch t + 1
       in Inr (epoch, upd_run rid (\<lambda>x. x\<lparr>run_selected_route :=
                 jput (jput (run_selected_route x) ''recovery_epoch'' (JInt epoch))
                   ''recovery_epoch_started_at'' (JStr (pf_isoformat pf (wall_now d)))\<rparr>)
               (upd_task tid (\<lambda>x. x\<lparr>task_budget_epoch := epoch\<rparr>) d)))"

definition epoch_event :: "uuid \<Rightarrow> string option \<Rightarrow> int \<Rightarrow> string \<Rightarrow> event" where
  "epoch_event tid actor_id epoch reason =
     plain_event ''task'' tid ''task.budget_epoch_started'' ''user'' actor_id
       [(''budget_epoch'', JInt epoch), (''reason'', JStr reason)]"

definition continue_paused_step ::
  "platform \<Rightarrow> uuid \<Rightarrow> uuid \<Rightarrow> uuid \<Rightarrow> string option \<Rightarrow> db \<Rightarrow> error + db" where
  "continue_paused_step pf tid rid sid actor_id d =
     bindE (transition_step (upd_step sid grant_attempt d) sid S_QUEUED ''user'' actor_id []) (\<lambda>d1.
     bindE (start_budget_epoch pf tid rid (upd_step sid clear_failure d1)) (\<lambda>(epoch, d2).
       Inr (add_event (epoch_event tid actor_id epoch ''paused_step_continuation'') d2)))"

definition continuable :: "step \<Rightarrow> bool" where
  "continuable s =
     (step_status s = S_BLOCKED \<and>
      step_failure_category s \<in> Some ` {LEASE_EXPIRED_ATTEMPTS_EXHAUSTED, ''owner_paused'',
        ''owner_paused_before_start''} \<and>
      \<not> step_unknown_effects s \<and>
      (repeatable_without_new_mutation s \<or> step_failure_category s = Some ''owner_paused_before_start''))"

definition undrained :: "db \<Rightarrow> uuid \<Rightarrow> bool" where
  "undrained d rid = (\<exists>p \<in> set (db_processes d). sp_run_id p = Some rid \<and> sp_status p \<noteq> P_EXITED)"

text \<open>The end of a resume: the task follows its steps, and a run with nothing left to do is blocked again.\<close>

definition settle_resumed :: "task \<Rightarrow> run \<Rightarrow> string option \<Rightarrow> db \<Rightarrow> error + db" where
  "settle_resumed t r actor_id d3 =
     (let target = derive_task_status (steps_for_run d3 (run_id r)) R_RUNNING
      in bindE (if target = T_BLOCKED
                then transition_run d3 (run_id r) R_BLOCKED ''user'' actor_id [] else Inr d3) (\<lambda>d4.
         bindE (transition_task d4 (task_id t) target ''user'' actor_id []) (\<lambda>d5.
           enqueue_telegram_projection (task_id t) (run_id r) d5)))"

definition resume_task :: "platform \<Rightarrow> uuid \<Rightarrow> string option \<Rightarrow> int option \<Rightarrow> db \<Rightarrow> error + db" where
  "resume_task pf tid actor_id expected d =
     bindE (locked_context d tid) (\<lambda>(t, r, steps).
     bindE (check_task_version t expected) (\<lambda>_.
       if run_status r = R_RUNNING then Inr (control_noop (run_id r) ''resume'' ''user'' actor_id d)
       else if run_status r \<noteq> R_PAUSED
       then Inl (ValueError (''run cannot resume from '' @ run_status_value (run_status r)))
       else if task_status t \<in> {T_FAILED, T_CANCELLED, T_COMPLETED}
       then Inl (ValueError (''task is '' @ task_status_value (task_status t) @
              '' while its run is paused; no automatic repair is applied''))
       else if undrained d (run_id r)
       then Inl (ValueError ''resume requires the previous supervised process to stop'')
       else if \<exists>s \<in> set steps. step_status s = S_BLOCKED \<and> step_unknown_effects s
       then Inl (ValueError (''resume cannot continue a step with unknown external effects; '' @
              ''reconcile the effect or cancel''))
       else if length (filter continuable steps) > 1
       then Inl (ValueError ''resume requires one continuable paused step'')
       else
         bindE (transition_run d (run_id r) R_RUNNING ''user'' actor_id []) (\<lambda>d1.
         bindE (case filter continuable steps of
                  [] \<Rightarrow> Inr d1
                | s # _ \<Rightarrow> continue_paused_step pf (task_id t) (run_id r) (step_id s) actor_id d1) (\<lambda>d2.
         bindE (activate_ready_steps pf d2 (run_id r)) (\<lambda>(_, d3).
           settle_resumed t r actor_id d3)))))"

section \<open>Cancel\<close>

definition cancel_runless :: "uuid \<Rightarrow> string option \<Rightarrow> int option \<Rightarrow> db \<Rightarrow> error + bool \<times> db" where
  "cancel_runless tid actor_id expected d =
     (case get_task d tid of
        None \<Rightarrow> Inl (ValueError (''task not found: '' @ uuid_str tid))
      | Some t \<Rightarrow>
          if \<exists>r \<in> set (db_runs d). run_task_id r = task_id t then Inr (False, d)
          else
            bindE (check_task_version t expected) (\<lambda>_.
              if task_status t = T_CANCELLED then Inr (True, d)
              else if task_status t \<in> USER_TERMINAL_TASK_STATUSES
              then Inl (ValueError (''terminal task cannot cancel: '' @ task_status_value (task_status t)))
              else
                bindE (transition_task d (task_id t) T_CANCELLED ''user'' actor_id []) (\<lambda>d1.
                  Inr (True, add_event (plain_event ''task'' (task_id t) ''task.cancel_requested'' ''user''
                    actor_id [(''rollback_attempted'', JBool False), (''runless'', JBool True)]) d1))))"

definition cancel_step :: "string option \<Rightarrow> db \<Rightarrow> step \<Rightarrow> error + db" where
  "cancel_step actor_id d s =
     (if step_status s \<in> STEP_TERMINAL then Inr d
      else
        bindE (transition_step
                 (upd_step (step_id s) (\<lambda>x. x\<lparr>step_unknown_effects :=
                    (step_status s = S_RUNNING \<or> step_unknown_effects x)\<rparr>) d)
                 (step_id s) S_CANCELLED ''user'' actor_id []) (\<lambda>d1.
          Inr (release_lease (step_id s) d1)))"

definition retains_failure :: "task \<Rightarrow> run \<Rightarrow> bool" where
  "retains_failure t r = (task_status t = T_FAILED \<and> run_status r = R_PAUSED)"

text \<open>A failed task whose run was left paused keeps its failure: only its version moves.\<close>

definition settle_cancelled :: "task \<Rightarrow> run \<Rightarrow> string option \<Rightarrow> db \<Rightarrow> error + db" where
  "settle_cancelled t r actor_id d =
     (if retains_failure t r then
        bindE (held_task (upd_task (task_id t) (\<lambda>x. x\<lparr>task_version := task_version x + 1\<rparr>) d) (task_id t))
          (\<lambda>t'. Inr (publish_task_event t'
             (upd_task (task_id t) (\<lambda>x. x\<lparr>task_version := task_version x + 1\<rparr>) d)))
      else transition_task d (task_id t) T_CANCELLED ''user'' actor_id [])"

definition abandon_installations :: "step list \<Rightarrow> db \<Rightarrow> db" where
  "abandon_installations steps =
     fold (\<lambda>s. add_call (AbandonCapabilityInstallation (step_id s) ''leader_cancelled''))
       (filter (\<lambda>s. step_type s = ''ensure_capabilities'') steps)"

definition cancel_task :: "uuid \<Rightarrow> string option \<Rightarrow> int option \<Rightarrow> db \<Rightarrow> error + db" where
  "cancel_task tid actor_id expected d =
     bindE (cancel_runless tid actor_id expected d) (\<lambda>(settled, d').
       if settled then Inr d'
       else
         bindE (locked_context d tid) (\<lambda>(t, r, steps).
         bindE (check_task_version t expected) (\<lambda>_.
           if run_status r = R_CANCELLED then Inr (control_noop (run_id r) ''cancel'' ''user'' actor_id d)
           else if task_status t = T_COMPLETED \<and> run_status r = R_PAUSED
           then Inl (ValueError (''task is '' @ task_status_value (task_status t) @
                  '' while its run is paused; no automatic repair is applied''))
           else if run_status r \<in> {R_FAILED, R_COMPLETED}
           then Inl (ValueError (''terminal run cannot cancel: '' @ run_status_value (run_status r)))
           else
             bindE (foldE (cancel_step actor_id) d steps) (\<lambda>d1.
             bindE (transition_run d1 (run_id r) R_CANCELLED ''user'' actor_id []) (\<lambda>d2.
             bindE (settle_cancelled t r actor_id d2) (\<lambda>d3.
               enqueue_telegram_projection (task_id t) (run_id r)
                 (add_event (plain_event ''task'' (task_id t) ''task.cancel_requested'' ''user'' actor_id
                    [(''rollback_attempted'', JBool False),
                     (''retained_task_failure'', JBool (retains_failure t r))])
                   (abandon_installations steps d3))))))))"

section \<open>Retry of a blocked step\<close>

definition PROVIDER_FALLBACK_FAILURES :: "string set" where
  "PROVIDER_FALLBACK_FAILURES =
     {''authentication'', ''context_too_large'', ''invalid_structured_output'', ''permanent_request'',
      ''provider_execution_unexpected'', ''provider_unavailable'', ''quota_exhausted'', ''rate_limited'',
      ''safety_refusal'', ''timeout'', ''unsupported_capability''}"

definition should_fallback_provider :: "string option \<Rightarrow> bool" where
  "should_fallback_provider category = (category \<in> Some ` PROVIDER_FALLBACK_FAILURES)"

definition without_keys :: "string set \<Rightarrow> json_obj \<Rightarrow> json_obj" where
  "without_keys keys = filter (\<lambda>(k, _). k \<notin> keys)"

definition reset_review_pin :: "string \<Rightarrow> uuid \<Rightarrow> db \<Rightarrow> error + db" where
  "reset_review_pin actor sid d =
     bindE (held_step d sid) (\<lambda>s.
       let old_pin = jget (step_payload s) ''cli_reviewer_pin''
       in if old_pin = JNull then Inr d
          else Inr (upd_step sid (\<lambda>x. x\<lparr>step_payload := without_keys
                 {''cli_reviewer_pin'', ''executor_model_override'', ''executor_reasoning_effort''}
                 (step_payload x)\<rparr>)
               (add_event (plain_event ''step'' sid ''step.cli_reviewer_rebind_requested'' ''user'' (Some actor)
                  [(''previous_pin'', old_pin), (''lease_generation'', JInt (step_lease_generation s))]) d)))"

definition retry_prepared :: "step \<Rightarrow> step" where
  "retry_prepared s = (grant_attempt s)
     \<lparr>step_payload :=
        (case step_executor_profile_id s of
           Some profile \<Rightarrow>
             if should_fallback_provider (step_failure_category s)
             then jput (step_payload s) ''retry_failed_profile_id'' (JStr profile)
             else without_keys {''retry_failed_profile_id''} (step_payload s)
         | None \<Rightarrow> without_keys {''retry_failed_profile_id''} (step_payload s))\<rparr>"

definition retry_blocked_step :: "platform \<Rightarrow> uuid \<Rightarrow> string option \<Rightarrow> db \<Rightarrow> error + db" where
  "retry_blocked_step pf sid actor_id d =
     (case get_step d sid of
        None \<Rightarrow> Inl (ValueError ''only a blocked step can be retried'')
      | Some s \<Rightarrow>
          if step_status s \<noteq> S_BLOCKED then Inl (ValueError ''only a blocked step can be retried'')
          else if \<not> blocked_step_is_retryable s
          then Inl (ValueError ''blocked step is not safely retryable'')
          else
            bindE (held_run d (step_run_id s)) (\<lambda>r.
            bindE (held_task d (run_task_id r)) (\<lambda>t.
            bindE (case actor_id of
                     Some actor \<Rightarrow>
                       if step_type s = ''review''
                       then reset_review_pin actor sid (upd_step sid (\<lambda>_. retry_prepared s) d)
                       else Inr (upd_step sid (\<lambda>_. retry_prepared s) d)
                   | None \<Rightarrow> Inr (upd_step sid (\<lambda>_. retry_prepared s) d)) (\<lambda>d1.
            bindE (start_budget_epoch pf (task_id t) (run_id r) d1) (\<lambda>(epoch, d2).
            bindE (transition_step (add_event (epoch_event (task_id t) actor_id epoch ''explicit_retry'') d2)
                     sid S_QUEUED ''user'' actor_id []) (\<lambda>d3.
            bindE (let d4 = upd_step sid clear_failure d3
                   in if run_status r = R_BLOCKED
                      then bindE (transition_run d4 (run_id r) R_RUNNING ''user'' actor_id []) (\<lambda>d5.
                        Inr (upd_run (run_id r) (\<lambda>x. x\<lparr>run_failure_category := None,
                               run_failure_summary := None\<rparr>) d5))
                      else Inr d4) (\<lambda>d6.
              if task_status t \<in> {T_BLOCKED, T_QUOTA_EXHAUSTED}
              then bindE (transition_task d6 (task_id t) T_RETRYING ''user'' actor_id [])
                     (enqueue_telegram_projection (task_id t) (run_id r))
              else Inr d6)))))))"

end
