(* ===== verification/Control_Recovery.thy ===== *)
theory Control_Recovery
  imports Controls
begin

text \<open>
  \<^verbatim>\<open>workflows/controls.py\<close>, the two recoveries an operator may ask for: a review whose provider was
  never reached, and the environment of a failed validation.
\<close>

definition later_delivery_types :: "string set" where
  "later_delivery_types =
     {''produce_artifacts'', ''build_static'', ''publish_preview'', ''approval'', ''apply_result'',
      ''publish_static'', ''finalize''}"

definition run_worktree :: "db \<Rightarrow> uuid \<Rightarrow> worktree option" where
  "run_worktree d rid = find (\<lambda>w. wt_run_id w = rid) (db_worktrees d)"

section \<open>A review that was never sent\<close>

definition pinned_profile :: "step \<Rightarrow> json option" where
  "pinned_profile s =
     (case jget (step_payload s) ''cli_reviewer_pin'' of
        JObj pin \<Rightarrow> Some (jget pin ''profile_id'')
      | _ \<Rightarrow> None)"

definition unsent_review :: "task \<Rightarrow> run \<Rightarrow> step \<Rightarrow> bool" where
  "unsent_review t r target =
     (task_status t = T_FAILED \<and> run_status r = R_FAILED \<and> step_type target = ''review'' \<and>
      step_status target = S_FAILED \<and> step_failure_category target = Some ''handler_exception'' \<and>
      step_failure_summary target = Some ''LeaseLost'' \<and> \<not> step_unknown_effects target \<and>
      step_lease_owner target = None \<and> step_lease_generation target \<ge> 1 \<and>
      task_project_id t \<noteq> None \<and>
      (case step_executor_profile_id target of
         None \<Rightarrow> False
       | Some profile \<Rightarrow> profile \<noteq> [] \<and> pinned_profile target = Some (JStr profile)))"

definition races_other_work :: "step \<Rightarrow> step list \<Rightarrow> bool" where
  "races_other_work target steps =
     (\<exists>s \<in> set steps. step_status s \<in> {S_LEASED, S_RUNNING} \<or>
        step_status s \<in> {S_FAILED, S_BLOCKED} \<and> step_id s \<noteq> step_id target)"

definition transport_evidence :: "db \<Rightarrow> step \<Rightarrow> bool" where
  "transport_evidence d target =
     (\<exists>p \<in> set (db_processes d). sp_step_id p = Some (step_id target) \<and>
        sp_lease_generation p \<ge> step_lease_generation target)"

definition retained_validated_source :: "task \<Rightarrow> run \<Rightarrow> step \<Rightarrow> step list \<Rightarrow> db \<Rightarrow> bool" where
  "retained_validated_source t r target steps d =
     (case run_worktree d (run_id r) of
        None \<Rightarrow> False
      | Some wt \<Rightarrow>
          wt_task_id wt = task_id t \<and> task_project_id t = Some (wt_project_id wt) \<and>
          wt_delivery_state wt = W_WORKTREE_RETAINED \<and> wt_result_commit wt \<noteq> None \<and>
          (\<exists>s \<in> set steps. step_type s \<in> {''execute_code'', ''execute_agent''} \<and> step_status s = S_COMPLETED) \<and>
          (\<exists>s \<in> set steps. step_type s = ''validate'' \<and> step_status s = S_COMPLETED) \<and>
          \<not> (\<exists>s \<in> set steps. step_ordinal s > step_ordinal target \<and>
               step_type s \<in> later_delivery_types \<and> step_attempt_count s \<noteq> 0))"

definition review_reservations :: "task \<Rightarrow> step \<Rightarrow> db \<Rightarrow> budget_reservation list" where
  "review_reservations t target d =
     filter (\<lambda>b. br_step_id b = Some (step_id target) \<and> br_budget_epoch b = task_budget_epoch t)
       (db_reservations d)"

definition release_unsent_review :: "step \<Rightarrow> db \<Rightarrow> budget_reservation \<Rightarrow> error + db" where
  "release_unsent_review target d b =
     (if br_status b \<noteq> B_RESERVED then Inr d
      else if \<exists>p \<in> set (db_processes d). sp_step_id p = Some (step_id target) \<and>
                sp_provider_attempt p = br_provider_attempt b
      then Inl (ValueError ''review recovery refuses a reservation with transport evidence'')
      else if usage_of d (br_id b) \<noteq> None
      then Inl (ValueError ''review recovery refuses an unreconciled usage receipt'')
      else release_reservation_unfenced (br_id b) d)"

text \<open>Statuses set by the operator outside the transition tables, with the same audit events.\<close>

definition operator_requeue :: "string \<Rightarrow> task \<Rightarrow> run \<Rightarrow> step \<Rightarrow> db \<Rightarrow> db" where
  "operator_requeue actor t r target d =
     (let event = (\<lambda>kind k prev new. add_event (status_event kind k prev new ''operator'' (Some actor)
            [(''reason'', JStr ''explicit_unsent_review_recovery'')]));
          d1 = event ''step'' (step_id target) (step_status_value (step_status target))
                 (step_status_value S_QUEUED)
                 (upd_step (step_id target) (\<lambda>x. x\<lparr>step_status := S_QUEUED,
                    step_version := step_version x + 1\<rparr>) d);
          d2 = event ''run'' (run_id r) (run_status_value (run_status r)) (run_status_value R_RUNNING)
                 (upd_run (run_id r) (\<lambda>x. x\<lparr>run_status := R_RUNNING, run_version := run_version x + 1\<rparr>) d1)
      in event ''task'' (task_id t) (task_status_value (task_status t)) (task_status_value T_RETRYING)
           (upd_task (task_id t) (\<lambda>x. x\<lparr>task_status := T_RETRYING, task_version := task_version x + 1\<rparr>) d2))"

definition review_recovery_event :: "string \<Rightarrow> int \<Rightarrow> int \<Rightarrow> task \<Rightarrow> step \<Rightarrow> event" where
  "review_recovery_event actor expected epoch t target =
     plain_event ''task'' (task_id t) ''task.unsent_review_recovery'' ''operator'' (Some actor)
       [(''ingress_source'', JStr ''cli''), (''step_id'', JStr (uuid_str (step_id target))),
        (''expected_task_version'', JInt expected),
        (''previous_failure'', JObj [(''category'', opt_json (step_failure_category target)),
           (''summary'', opt_json (step_failure_summary target))]),
        (''lease_generation'', JInt (step_lease_generation target)),
        (''attempt_count'', JInt (step_attempt_count target)),
        (''max_attempts'', JInt (step_attempt_count target + 1)), (''budget_epoch'', JInt epoch)]"

definition recover_unsent_cli_review ::
  "platform \<Rightarrow> uuid \<Rightarrow> int \<Rightarrow> int option \<Rightarrow> uuid option \<Rightarrow> db \<Rightarrow> error + db" where
  "recover_unsent_cli_review pf tid user expected sid d =
     bindE (locked_context d tid) (\<lambda>(t, r, steps).
       if task_user_id t \<noteq> user
       then Inl (ValueError ''review recovery requires the task owner's principal'')
       else
         (case expected of
            None \<Rightarrow> Inl (ValueError ''stale task version for review recovery'')
          | Some version \<Rightarrow>
              if version \<noteq> task_version t
              then Inl (ValueError ''stale task version for review recovery'')
              else
                (case find (\<lambda>s. sid = Some (step_id s)) steps of
                   None \<Rightarrow> Inl (ValueError
                     ''review recovery requires one failed, pinned prelaunch CLI review'')
                 | Some target \<Rightarrow>
                     let reservations = review_reservations t target d in
                     if \<not> unsent_review t r target
                     then Inl (ValueError
                       ''review recovery requires one failed, pinned prelaunch CLI review'')
                     else if races_other_work target steps
                     then Inl (ValueError ''review recovery cannot race active work or unrelated failures'')
                     else if transport_evidence d target
                     then Inl (ValueError ''review recovery refuses a generation with transport evidence'')
                     else if \<not> retained_validated_source t r target steps d
                     then Inl (ValueError
                       ''review recovery requires retained validated source before delivery'')
                     else if reservations = [] \<or>
                        (\<exists>b \<in> set reservations. Some (br_profile_id b) \<noteq> step_executor_profile_id target)
                     then Inl (ValueError ''review recovery requires matching failed-epoch accounting'')
                     else
                       bindE (foldE (release_unsent_review target) d reservations) (\<lambda>d1.
                       bindE (reset_review_pin (int_dec user) (step_id target) d1) (\<lambda>d2.
                       bindE (start_budget_epoch pf (task_id t) (run_id r)
                         (upd_run (run_id r) (\<lambda>x. x\<lparr>run_ended_at := None\<rparr>)
                         (upd_task (task_id t) (\<lambda>x. x\<lparr>task_completed_at := None\<rparr>)
                         (upd_step (step_id target) (\<lambda>x. x\<lparr>step_payload :=
                              jput (step_payload x) ''review_only_recovery'' (JBool True),
                            step_max_attempts := step_attempt_count x + 1\<rparr>) d2)))) (\<lambda>(epoch, d3).
                         enqueue_telegram_projection (task_id t) (run_id r)
                           (add_event (review_recovery_event (int_dec user) version epoch t target)
                           (upd_run (run_id r) (\<lambda>x. x\<lparr>run_failure_category := None,
                              run_failure_summary := None\<rparr>)
                           (upd_step (step_id target) clear_failure
                           (operator_requeue (int_dec user) t r target d3))))))))))"

section \<open>The environment of a failed validation\<close>

definition failed_validation :: "task \<Rightarrow> run \<Rightarrow> step \<Rightarrow> bool" where
  "failed_validation t r target =
     (run_status r = R_BLOCKED \<and> step_type target = ''validate'' \<and> step_status target = S_BLOCKED \<and>
      \<not> step_unknown_effects target \<and> task_project_id t \<noteq> None \<and>
      step_failure_category target \<in> Some ` {''validation_gate_failed'', ''validation_environment_missing_tool''} \<and>
      \<not> py_truthy (jget (step_payload target) ''environment_recovery_step_id''))"

definition unfinalized_source :: "task \<Rightarrow> run \<Rightarrow> step list \<Rightarrow> db \<Rightarrow> bool" where
  "unfinalized_source t r steps d =
     (case find (\<lambda>w. wt_run_id w = run_id r \<and> wt_task_id w = task_id t \<and>
             task_project_id t = Some (wt_project_id w)) (db_worktrees d) of
        None \<Rightarrow> False
      | Some wt \<Rightarrow>
          wt_result_commit wt \<in> {None, Some (wt_base_commit wt)} \<and>
          wt_delivery_state wt \<in> {W_ACTIVE, W_WORKTREE_RETAINED} \<and>
          (\<exists>s \<in> set steps. step_type s = ''execute_code'' \<and> step_status s = S_COMPLETED))"

definition unstarted_repair :: "step \<Rightarrow> step \<Rightarrow> bool" where
  "unstarted_repair target repair =
     (step_type repair = ''execute_code'' \<and> step_attempt_count repair = 0 \<and> \<not> step_unknown_effects repair \<and>
      jget (step_payload repair) ''repair_for_step_id'' = JStr (uuid_str (step_id target)) \<and>
      jget (step_payload target) ''repair_scheduled_step_id'' = JStr (uuid_str (step_id repair)) \<and>
      jget (step_dependency_metadata repair) ''template_key'' = JStr ''repair_code'' \<and>
      json_eq_int (jget (step_dependency_metadata repair) ''repair_for_ordinal'') (step_ordinal target))"

definition repair_evidence :: "db \<Rightarrow> uuid \<Rightarrow> bool" where
  "repair_evidence d sid =
     ((\<exists>p \<in> set (db_processes d). sp_step_id p = Some sid) \<or>
      (\<exists>u \<in> set (db_usage d). us_step_id u = Some sid) \<or>
      (\<exists>b \<in> set (db_reservations d). br_step_id b = Some sid))"

definition retire_repair :: "string \<Rightarrow> step \<Rightarrow> step list \<Rightarrow> db \<Rightarrow> error + db" where
  "retire_repair actor target repairs d =
     (case repairs of
        [] \<Rightarrow> Inr d
      | [repair] \<Rightarrow>
          if \<not> unstarted_repair target repair
          then Inl (ValueError ''source repair has already started or is not mutually bound'')
          else if repair_evidence d (step_id repair)
          then Inl (ValueError ''source repair has execution or accounting evidence'')
          else transition_step d (step_id repair) S_CANCELLED ''operator'' (Some actor)
                 [(''reason'', JStr ''environment_recovery'')]
      | _ \<Rightarrow> Inl (ValueError ''unrelated blocked steps require attention''))"

definition environment_preparation :: "db \<Rightarrow> uuid \<Rightarrow> step list \<Rightarrow> step \<Rightarrow> step" where
  "environment_preparation d rid steps target =
     (blank_step d rid)
     \<lparr>step_ordinal := fold max (map step_ordinal steps) (step_ordinal target) + 1,
      step_type := ''ensure_dependencies'', step_queue_class := Q_HEAVY, step_status := S_QUEUED,
      step_required_capabilities := [''project_shell'', ''filesystem_write''],
      step_dependency_metadata := [(''template_key'', JStr ''validation_environment_recovery''),
        (''predecessor_ordinals'', JList [])],
      step_payload := [(''validation_environment_for_step_id'', JStr (uuid_str (step_id target)))],
      step_retry_class := RETRY_NEVER, step_idempotency_class := IDEM_UNKNOWN_EFFECTS_POSSIBLE,
      step_max_attempts := 1, step_timeout_seconds := 1800\<rparr>"

definition recover_validation_environment ::
  "uuid \<Rightarrow> int \<Rightarrow> int option \<Rightarrow> uuid option \<Rightarrow> db \<Rightarrow> error + db" where
  "recover_validation_environment tid user expected sid d =
     bindE (locked_context d tid) (\<lambda>(t, r, steps).
       if task_user_id t \<noteq> user
       then Inl (ValueError ''environment recovery requires the task owner's principal'')
       else
         (case expected of
            None \<Rightarrow> Inl (ValueError ''stale task version for environment recovery'')
          | Some version \<Rightarrow>
              if task_version t \<noteq> version
              then Inl (ValueError ''stale task version for environment recovery'')
              else
                (case find (\<lambda>s. sid = Some (step_id s)) steps of
                   None \<Rightarrow> Inl (ValueError ''environment recovery requires an unambiguous failed validation'')
                 | Some target \<Rightarrow>
                     if \<not> failed_validation t r target
                     then Inl (ValueError ''environment recovery requires an unambiguous failed validation'')
                     else if \<exists>s \<in> set steps. step_status s \<in> {S_LEASED, S_RUNNING}
                     then Inl (ValueError ''environment recovery cannot race active work'')
                     else if \<not> unfinalized_source t r steps d
                     then Inl (ValueError
                       ''environment recovery requires retained, unfinalized completed source'')
                     else
                       bindE (retire_repair (int_dec user) target
                         (filter (\<lambda>s. step_status s = S_BLOCKED \<and> step_id s \<noteq> step_id target) steps) d) (\<lambda>d1.
                       let preparation = environment_preparation d1 (run_id r) steps target;
                           d2 = upd_step (step_id target) (\<lambda>x. x\<lparr>step_payload := jput (step_payload x)
                                  ''environment_recovery_step_id'' (JStr (uuid_str (step_id preparation)))\<rparr>)
                                  (add_step preparation d1)
                       in bindE (transition_run d2 (run_id r) R_RUNNING ''operator'' (Some (int_dec user)) []) (\<lambda>d3.
                          bindE (transition_task d3 (task_id t) T_RETRYING ''operator'' (Some (int_dec user)) [])
                            (\<lambda>d4. enqueue_telegram_projection (task_id t) (run_id r)
                               (add_event (plain_event ''task'' (task_id t) ''task.validation_environment_recovery''
                                  ''operator'' (Some (int_dec user))
                                  [(''ingress_source'', JStr ''cli''), (''expected_task_version'', JInt version),
                                   (''validation_step_id'', JStr (uuid_str (step_id target))),
                                   (''preparation_step_id'', JStr (uuid_str (step_id preparation)))]) d4)))))))"

end
