(* ===== verification/Application.thy ===== *)
theory Application
  imports Control_Recovery
begin

text \<open>
  \<^verbatim>\<open>workflows/application.py\<close>, the commands every ingress goes through, and the consumer of queued
  controls in \<^verbatim>\<open>workflows/controls.py\<close>. An expected version is an integer or absent; \<open>show\<close> is
  \<open>str\<close> of a decimal.
\<close>

section \<open>Commands\<close>

datatype task_command =
    START
  | PAUSE
  | CANCEL
  | RESUME
  | INSPECT
  | RETRY
  | REVALIDATE
  | REREVIEW
  | ADMIT_CEILING
  | ACCEPT_UNCERTAINTY
  | RECONCILE_COST

definition task_commands :: "(string \<times> task_command) list" where
  "task_commands =
     [(''start'', START), (''pause'', PAUSE), (''cancel'', CANCEL), (''resume'', RESUME),
      (''inspect'', INSPECT), (''retry'', RETRY), (''revalidate'', REVALIDATE), (''rereview'', REREVIEW),
      (''admit_ceiling'', ADMIT_CEILING), (''accept_uncertainty'', ACCEPT_UNCERTAINTY),
      (''reconcile_cost'', RECONCILE_COST)]"

definition validate_command :: "string \<Rightarrow> error + task_command" where
  "validate_command command =
     (case map_of task_commands command of
        None \<Rightarrow> Inl (ValueError (''unknown task command: '' @ command))
      | Some c \<Rightarrow> Inr c)"

record principal_identity =
  pr_user_id :: int
  pr_ingress_source :: string

record owner_decision =
  od_reason :: string
  od_cost_units :: "money option"
  od_usage_id :: "uuid option"

record task_command_result =
  tcr_task_id :: uuid
  tcr_version :: int
  tcr_status :: string
  tcr_applied :: bool

definition INGRESS_SOURCES :: "string set" where
  "INGRESS_SOURCES = {''telegram'', ''cli'', ''api''}"

definition validate_principal :: "principal_identity \<Rightarrow> error + unit" where
  "validate_principal p =
     (if pr_user_id p = 0 then Inl (ValueError ''principal_invalid: refusing fake user ID 0'')
      else if pr_ingress_source p \<notin> INGRESS_SOURCES
      then Inl (ValueError (''principal_invalid: unknown ingress '' @ pr_ingress_source p))
      else Inr ())"

definition read_task :: "db \<Rightarrow> uuid \<Rightarrow> error + task" where
  "read_task d tid =
     (case get_task d tid of
        None \<Rightarrow> Inl (ValueError (''task not found: '' @ uuid_str tid))
      | Some t \<Rightarrow> Inr t)"

definition start_command :: "platform \<Rightarrow> uuid \<Rightarrow> string \<Rightarrow> int option \<Rightarrow> db \<Rightarrow> error + bool \<times> db" where
  "start_command pf tid actor expected d =
     bindE (locked_context d tid) (\<lambda>(t, r, _).
     bindE (check_task_version t expected) (\<lambda>_.
     bindE (start_run pf (run_id r) ''user'' (Some actor) d) (\<lambda>d1.
     bindE (held_task d1 (task_id t)) (\<lambda>t1.
       if task_version t1 \<noteq> task_version t
       then bindE (enqueue_telegram_projection (task_id t) (run_id r) d1) (\<lambda>d2. Inr (True, d2))
       else Inr (False, d1)))))"

text \<open>The current blocked step that a retry or a decision may address.\<close>

definition blocked_target_for ::
  "task \<Rightarrow> run \<Rightarrow> step list \<Rightarrow> int \<Rightarrow> int option \<Rightarrow> uuid option \<Rightarrow> string \<Rightarrow> string \<Rightarrow> error + step" where
  "blocked_target_for t r steps user expected sid what stale =
     (if task_user_id t \<noteq> user
      then Inl (ValueError (''task '' @ what @ '' requires the task owner's principal''))
      else if expected \<noteq> Some (task_version t)
      then Inl (ValueError (''stale task version for '' @ stale))
      else if run_status r = R_PAUSED
      then Inl (ValueError ''run is paused; resume to continue the saved work or cancel to close it'')
      else
        (case current_retry_target steps of
           None \<Rightarrow> Inl (ValueError (what @ '' requires one unambiguous current blocked step''))
         | Some target \<Rightarrow>
             if run_status r \<noteq> R_BLOCKED \<or> (sid \<noteq> None \<and> sid \<noteq> Some (step_id target))
             then Inl (ValueError (what @ '' requires one unambiguous current blocked step''))
             else Inr target))"

definition retry_command ::
  "platform \<Rightarrow> uuid \<Rightarrow> principal_identity \<Rightarrow> int option \<Rightarrow> uuid option \<Rightarrow> db \<Rightarrow> error + db" where
  "retry_command pf tid p expected sid d =
     bindE (locked_context d tid) (\<lambda>(t, r, steps).
     bindE (blocked_target_for t r steps (pr_user_id p) expected sid ''retry'' ''retry'') (\<lambda>target.
     bindE (retry_blocked_step pf (step_id target) (Some (int_dec (pr_user_id p))) d) (\<lambda>d1.
       Inr (add_event (plain_event ''task'' (task_id t) ''task.retry_requested'' ''user''
              (Some (int_dec (pr_user_id p)))
              [(''ingress_source'', JStr (pr_ingress_source p)),
               (''step_id'', JStr (uuid_str (step_id target))),
               (''expected_task_version'', JInt (task_version t))]) d1))))"

definition owner_category :: "task_command \<Rightarrow> string option" where
  "owner_category action =
     (case action of
        ADMIT_CEILING \<Rightarrow> Some ''admission_only_consent_required''
      | ACCEPT_UNCERTAINTY \<Rightarrow> Some ''money_cap_uncertified''
      | RECONCILE_COST \<Rightarrow> Some ''money_cap_uncertified''
      | _ \<Rightarrow> None)"

definition unknown_usage_id :: "db \<Rightarrow> uuid \<Rightarrow> uuid option \<Rightarrow> error + uuid" where
  "unknown_usage_id d tid usage_id =
     (let rows = map us_id (unknown_usage d (explicit_money_family d tid))
      in case usage_id of
           Some u \<Rightarrow> if u \<notin> set rows then Inl (ValueError ''unknown usage receipt is missing'') else Inr u
         | None \<Rightarrow>
             (case rows of
                [u] \<Rightarrow> Inr u
              | _ \<Rightarrow> Inl (ValueError
                  ''reconciliation needs one unknown receipt or an explicit usage id'')))"

definition store_decision ::
  "platform \<Rightarrow> (money \<Rightarrow> string) \<Rightarrow> task_command \<Rightarrow> uuid \<Rightarrow> int \<Rightarrow> owner_decision \<Rightarrow> db \<Rightarrow> error + db" where
  "store_decision pf show action tid user decision d =
     (case action of
        ADMIT_CEILING \<Rightarrow> record_admission_only_consent pf tid user (od_reason decision) d
      | ACCEPT_UNCERTAINTY \<Rightarrow> accept_cost_uncertainty pf show tid user (od_reason decision) d
      | _ \<Rightarrow>
          (case od_cost_units decision of
             None \<Rightarrow> Inl (ValueError ''reconciliation requires a measured receipt'')
           | Some cost \<Rightarrow>
               if cost \<le> 0 then Inl (ValueError ''reconciliation requires a measured receipt'')
               else bindE (unknown_usage_id d tid (od_usage_id decision)) (\<lambda>u.
                 reconcile_unknown_usage show u cost user d)))"

definition continue_owner_decision ::
  "platform \<Rightarrow> (money \<Rightarrow> string) \<Rightarrow> uuid \<Rightarrow> task_command \<Rightarrow> principal_identity \<Rightarrow> int option \<Rightarrow> uuid option \<Rightarrow>
   owner_decision option \<Rightarrow> db \<Rightarrow> error + db" where
  "continue_owner_decision pf show tid action p expected sid decision d =
     (case decision of
        None \<Rightarrow> Inl (ValueError ''owner decision requires a reason'')
      | Some dec \<Rightarrow>
          if pf_strip pf (od_reason dec) = [] then Inl (ValueError ''owner decision requires a reason'')
          else
            bindE (locked_context d tid) (\<lambda>(t, r, steps).
            bindE (blocked_target_for t r steps (pr_user_id p) expected sid ''continuation'' ''continuation'')
              (\<lambda>target.
                 if step_failure_category target \<noteq> owner_category action
                 then Inl (ValueError ''owner action does not match the blocked step'')
                 else
                   bindE (store_decision pf show action (task_id t) (pr_user_id p) dec d)
                     (retry_blocked_step pf (step_id target) (Some (int_dec (pr_user_id p)))))))"

text \<open>What a command does to the database, and whether it counts as applied.\<close>

definition run_command ::
  "platform \<Rightarrow> (money \<Rightarrow> string) \<Rightarrow> uuid \<Rightarrow> task_command \<Rightarrow> principal_identity \<Rightarrow> int option \<Rightarrow> uuid option \<Rightarrow>
   owner_decision option \<Rightarrow> db \<Rightarrow> error + bool \<times> db" where
  "run_command pf show tid action p expected sid decision d =
     (let actor = int_dec (pr_user_id p);
          always = (\<lambda>r. bindE r (\<lambda>d'. Inr (True, d')));
          by_version = (\<lambda>op. bindE (read_task d tid) (\<lambda>before.
             bindE (op d) (\<lambda>d'. bindE (read_task d' tid) (\<lambda>after.
               Inr (task_version after \<noteq> task_version before, d')))))
      in case action of
           REREVIEW \<Rightarrow>
             if pr_ingress_source p \<noteq> ''cli''
             then Inl (ValueError ''review recovery requires an explicit operator CLI request'')
             else always (recover_unsent_cli_review pf tid (pr_user_id p) expected sid d)
         | REVALIDATE \<Rightarrow>
             if pr_ingress_source p \<noteq> ''cli''
             then Inl (ValueError ''environment recovery requires an explicit operator CLI request'')
             else always (recover_validation_environment tid (pr_user_id p) expected sid d)
         | RETRY \<Rightarrow> always (retry_command pf tid p expected sid d)
         | START \<Rightarrow> start_command pf tid actor expected d
         | PAUSE \<Rightarrow> by_version (pause_task tid (Some actor) expected)
         | RESUME \<Rightarrow> by_version (resume_task pf tid (Some actor) expected)
         | CANCEL \<Rightarrow> by_version (cancel_task tid (Some actor) expected)
         | INSPECT \<Rightarrow> bindE (read_task d tid) (\<lambda>_. Inr (False, d))
         | _ \<Rightarrow> always (continue_owner_decision pf show tid action p expected sid decision d))"

definition apply_task_command ::
  "platform \<Rightarrow> (money \<Rightarrow> string) \<Rightarrow> uuid \<Rightarrow> string \<Rightarrow> principal_identity \<Rightarrow> int option \<Rightarrow> uuid option \<Rightarrow>
   owner_decision option \<Rightarrow> db \<Rightarrow> error + task_command_result \<times> db" where
  "apply_task_command pf show tid command p expected sid decision d =
     bindE (validate_command command) (\<lambda>action.
     bindE (validate_principal p) (\<lambda>_.
     bindE (run_command pf show tid action p expected sid decision d) (\<lambda>(applied, d').
     bindE (read_task d' tid) (\<lambda>t.
       Inr (\<lparr>tcr_task_id = task_id t, tcr_version = task_version t,
             tcr_status = task_status_value (task_status t), tcr_applied = applied\<rparr>, d')))))"

definition blocked_receipt_tasks :: "db \<Rightarrow> int \<Rightarrow> int \<Rightarrow> int \<Rightarrow> task list" where
  "blocked_receipt_tasks d user chat thread =
     filter (\<lambda>t. task_user_id t = user \<and> task_source_chat_id t = Some chat \<and>
        task_source_thread_id t = Some thread \<and>
        (\<exists>r \<in> set (db_runs d). run_task_id r = task_id t \<and> run_status r = R_BLOCKED \<and>
           (\<exists>s \<in> set (db_steps d). step_run_id s = run_id r \<and> step_status s = S_BLOCKED \<and>
              step_failure_category s = Some ''money_cap_uncertified''))) (db_tasks d)"

definition continue_blocked_receipt ::
  "platform \<Rightarrow> (money \<Rightarrow> string) \<Rightarrow> int \<Rightarrow> int \<Rightarrow> principal_identity \<Rightarrow> money \<Rightarrow> db \<Rightarrow>
   error + task_command_result \<times> db" where
  "continue_blocked_receipt pf show chat thread p cost d =
     bindE (validate_principal p) (\<lambda>_.
       if cost \<le> 0 then Inl (ValueError ''a measured receipt is not zero'')
       else
         (case blocked_receipt_tasks d (pr_user_id p) chat thread of
            [t] \<Rightarrow> apply_task_command pf show (task_id t) ''reconcile_cost'' p (Some (task_version t)) None
               (Some \<lparr>od_reason = ''late receipt from the owner'', od_cost_units = Some cost,
                      od_usage_id = None\<rparr>) d
          | _ \<Rightarrow> Inl (ValueError
              ''receipt requires exactly one blocked unknown-cost task in this thread'')))"

section \<open>Queued controls\<close>

definition get_action :: "db \<Rightarrow> uuid \<Rightarrow> control_action option" where
  "get_action d = find_row ca_id (db_actions d)"

definition upd_action :: "uuid \<Rightarrow> (control_action \<Rightarrow> control_action) \<Rightarrow> db \<Rightarrow> db" where
  "upd_action k f d = d\<lparr>db_actions := update_row ca_id k f (db_actions d)\<rparr>"

definition command_outcome :: "task_command_result \<Rightarrow> json" where
  "command_outcome res =
     JObj [(''task_id'', JStr (uuid_str (tcr_task_id res))), (''version'', JInt (tcr_version res)),
       (''status'', JStr (tcr_status res)), (''applied'', JBool (tcr_applied res))]"

definition store_outcome :: "uuid \<Rightarrow> task_command_result \<times> db \<Rightarrow> db" where
  "store_outcome aid res =
     upd_action aid (\<lambda>a. a\<lparr>ca_payload := jput (ca_payload a) ''outcome'' (command_outcome (fst res))\<rparr>) (snd res)"

fun version_of :: "json \<Rightarrow> error + int option" where
  "version_of JNull = Inr None"
| "version_of (JInt i) = Inr (Some i)"
| "version_of _ = Inl (ValueError ''stale task version'')"

definition owner_action :: "string \<Rightarrow> string \<times> owner_decision option" where
  "owner_action kind =
     (if kind = ''admit''
      then (''admit_ceiling'', Some \<lparr>od_reason = ADMISSION_ONLY_CONSENT_SUMMARY, od_cost_units = None,
              od_usage_id = None\<rparr>)
      else if kind = ''uncertain''
      then (''accept_uncertainty'', Some \<lparr>od_reason =
              ''owner accepted the current unknown cost from the status card'', od_cost_units = None,
              od_usage_id = None\<rparr>)
      else (''retry'', None))"

definition apply_step_action ::
  "platform \<Rightarrow> (money \<Rightarrow> string) \<Rightarrow> control_action \<Rightarrow> uuid \<Rightarrow> db \<Rightarrow> error + db" where
  "apply_step_action pf show a sid d =
     (case Option.bind (get_step d sid) (\<lambda>s. get_run d (step_run_id s)) of
        None \<Rightarrow> Inl (ValueError ''retry task/step binding is invalid'')
      | Some r \<Rightarrow>
          if ca_task_id a \<noteq> None \<and> ca_task_id a \<noteq> Some (run_task_id r)
          then Inl (ValueError ''retry task/step binding is invalid'')
          else
            bindE (version_of (jget (ca_payload a) ''expected_task_version'')) (\<lambda>given.
            bindE (case given of
                     Some v \<Rightarrow> Inr v
                   | None \<Rightarrow>
                       (case get_task d (run_task_id r) of
                          None \<Rightarrow> Inl (ValueError ''retry task is missing'')
                        | Some t \<Rightarrow> Inr (task_version t))) (\<lambda>version.
            bindE (apply_task_command pf show (run_task_id r) (fst (owner_action (ca_action_kind a)))
                     \<lparr>pr_user_id = ca_requested_by_user_id a, pr_ingress_source = ''telegram''\<rparr> (Some version)
                     (Some sid) (snd (owner_action (ca_action_kind a))) d) (\<lambda>res.
              Inr (store_outcome (ca_id a) res)))))"

definition apply_action :: "platform \<Rightarrow> (money \<Rightarrow> string) \<Rightarrow> control_action \<Rightarrow> db \<Rightarrow> error + db" where
  "apply_action pf show a d =
     (if ca_action_kind a \<in> {''approve'', ''redo'', ''reject''} then
        (case ca_approval_id a of
           None \<Rightarrow> Inl (ValueError ''result decision requires an approval target'')
         | Some aid \<Rightarrow> decide_result pf aid (ca_action_kind a) (ca_requested_by_user_id a) d)
      else if ca_action_kind a \<in> {''retry'', ''admit'', ''uncertain''} then
        (case ca_step_id a of
           None \<Rightarrow> Inl (ValueError ''retry requires a step target'')
         | Some sid \<Rightarrow> if ca_status a \<noteq> C_QUEUED then Inr d else apply_step_action pf show a sid d)
      else
        (case ca_task_id a of
           None \<Rightarrow> Inl (ValueError ''workflow control requires a task target'')
         | Some tid \<Rightarrow>
             if ca_action_kind a \<in> {''pause'', ''resume'', ''cancel'', ''start''} then
               bindE (version_of (jget (ca_payload a) ''expected_task_version'')) (\<lambda>expected.
               bindE (apply_task_command pf show tid (ca_action_kind a)
                        \<lparr>pr_user_id = ca_requested_by_user_id a, pr_ingress_source = ''telegram''\<rparr> expected
                        None None d) (\<lambda>res.
                 Inr (store_outcome (ca_id a) res)))
             else Inl (ValueError (''unsupported workflow control: '' @ ca_action_kind a))))"

text \<open>A refused control is recorded on its row, with a fresh snapshot for the sender.\<close>

definition reject_action :: "control_action \<Rightarrow> string \<Rightarrow> db \<Rightarrow> db" where
  "reject_action a reason d =
     (let d1 = upd_action (ca_id a) (\<lambda>x. x\<lparr>ca_status := C_REJECTED,
                 ca_payload := jput (ca_payload x) ''rejection_reason'' (JStr (take 500 reason))\<rparr>) d
      in case Option.bind (ca_task_id a) (get_task d1) of
           None \<Rightarrow> d1
         | Some t \<Rightarrow>
             (case (task_source_chat_id t, task_source_thread_id t) of
                (Some chat, Some thread) \<Rightarrow>
                  if jget (ca_payload a) ''expected_task_version'' = JNull then d1
                  else add_call (ControlSnapshot (task_id t) chat thread (ca_requested_by_user_id a)
                         (''task:control-rejected:'' @ uuid_str (ca_id a))) d1
              | _ \<Rightarrow> d1))"

definition process_control :: "platform \<Rightarrow> (money \<Rightarrow> string) \<Rightarrow> outbox_lease_token \<Rightarrow> db \<Rightarrow> error + db" where
  "process_control pf show token d =
     (case get_outbox d (otok_item_id token) of
        None \<Rightarrow> Inl (ValueError ''workflow control outbox item is invalid'')
      | Some item \<Rightarrow>
          if ob_linked_entity_type item \<noteq> ''telegram_control_action''
          then Inl (ValueError ''workflow control outbox item is invalid'')
          else
            (case get_action d (ob_linked_entity_id item) of
               None \<Rightarrow> Inl (ValueError ''workflow control action is missing'')
             | Some a \<Rightarrow>
                 bindE
                   (case apply_action pf show a d of
                      Inr d' \<Rightarrow> Inr (upd_action (ca_id a) (\<lambda>x. x\<lparr>ca_status := C_PROCESSED\<rparr>) d')
                    | Inl (ValueError reason) \<Rightarrow> Inr (reject_action a reason d)
                    | Inl e \<Rightarrow> Inl e) (\<lambda>d'.
                   complete_outbox_item
                     (upd_action (ca_id a) (\<lambda>x. x\<lparr>ca_processed_at := Some (db_now d')\<rparr>) d') token)))"

text \<open>
  The claim is committed on its own; a failure of the second transaction leaves it in place. The
  first component is what the call returns or raises.
\<close>

definition process_one ::
  "platform \<Rightarrow> (money \<Rightarrow> string) \<Rightarrow> uuid set \<Rightarrow> string \<Rightarrow> int \<Rightarrow> db \<Rightarrow> (error + bool) \<times> db" where
  "process_one pf show locked owner lease_seconds d =
     (case claim_outbox_item locked owner lease_seconds {''workflow_control''} d of
        (None, d1) \<Rightarrow> (Inr False, d1)
      | (Some token, d1) \<Rightarrow>
          (case process_control pf show token d1 of
             Inl e \<Rightarrow> (Inl e, d1)
           | Inr d2 \<Rightarrow> (Inr True, d2)))"

end
