(* ===== verification/Control_Properties.thy ===== *)
theory Control_Properties
  imports Application
begin

text \<open>
  What the controls guarantee: a pause revokes the leases for good, an approval is decided once and
  only as it was requested, and a control based on an old version of the task changes nothing.
\<close>

section \<open>Lease generations\<close>

text \<open>The generation of a step never goes back, and no step disappears.\<close>

definition gens_grow :: "db \<Rightarrow> db \<Rightarrow> bool" where
  "gens_grow d d' \<longleftrightarrow>
     (\<forall>k s. get_step d k = Some s \<longrightarrow>
        (\<exists>s'. get_step d' k = Some s' \<and> step_lease_generation s \<le> step_lease_generation s'))"

named_theorems gens \<open>operations along which lease generations grow\<close>

lemma gens_grow_refl [gens]: "gens_grow d d"
  by (simp add: gens_grow_def)

lemma gens_grow_trans: "gens_grow a b \<Longrightarrow> gens_grow b c \<Longrightarrow> gens_grow a c"
  unfolding gens_grow_def by (meson order_trans)

lemma gens_grow_steps: "db_steps d' = db_steps d \<Longrightarrow> gens_grow d d'"
  by (simp add: gens_grow_def get_step_def)

lemma gens_grow_evolves: "db_evolves d d' \<Longrightarrow> gens_grow d d'"
  unfolding gens_grow_def by (fastforce dest: db_evolves_step simp: step_evolves_def)

lemma gens_grow_upd_step:
  assumes "\<And>s. step_id (f s) = step_id s" "\<And>s. step_lease_generation s \<le> step_lease_generation (f s)"
  shows "gens_grow d (upd_step k f d)"
  using assms by (auto simp: gens_grow_def step_store.get_upd)

lemma gens_grow_frame [gens]:
  "gens_grow d (upd_run k g d)" "gens_grow d (upd_task k h d)" "gens_grow d (add_event e d)"
  "gens_grow d (add_call c d)"
  by (simp_all add: gens_grow_steps)

lemma gens_grow_transition_step: "transition_step d k st actor aid payload = Inr d' \<Longrightarrow> gens_grow d d'"
  by (elim transition_stepE) (auto simp: gens_grow_def step_store.get_upd)

lemma gens_grow_transitions:
  "transition_run d k rt actor aid payload = Inr d' \<Longrightarrow> gens_grow d d'"
  "transition_task d k tt actor aid payload = Inr d' \<Longrightarrow> gens_grow d d'"
  by (auto intro: gens_grow_steps dest: transition_run_frame transition_task_frame)

lemma projection_frame:
  "enqueue_telegram_projection tid rid d = Inr d' \<Longrightarrow>
   db_steps d' = db_steps d \<and> db_runs d' = db_runs d \<and> db_tasks d' = db_tasks d \<and> db_approvals d' = db_approvals d"
  by (auto simp: enqueue_telegram_projection_def res_simps add_call_def)

section \<open>Pause\<close>

lemma pause_step_gens:
  assumes "pause_step actor d s = Inr d'"
  shows "gens_grow d d'"
    and "get_step d (step_id s) = Some x \<Longrightarrow>
      \<exists>x'. get_step d' (step_id s) = Some x' \<and> step_lease_generation x' = step_lease_generation x + 1"
proof -
  let ?u = "step_unknown_effects s \<or> step_status s = S_RUNNING \<and> \<not> repeatable_without_new_mutation s"
  from assms obtain e where
    e: "transition_step (upd_step (step_id s) (\<lambda>x. x\<lparr>step_unknown_effects := ?u\<rparr>) d) (step_id s) S_BLOCKED
        ''user'' actor [] = Inr e"
    and d': "d' = upd_step (step_id s) (revoke_lease (step_status s = S_RUNNING)) e"
    by (auto simp: pause_step_def Let_def res_simps)
  have "gens_grow d (upd_step (step_id s) (\<lambda>x. x\<lparr>step_unknown_effects := ?u\<rparr>) d)"
    by (rule gens_grow_upd_step) simp_all
  moreover have "gens_grow e d'"
    unfolding d' by (rule gens_grow_upd_step) (simp_all add: revoke_lease_def)
  ultimately show "gens_grow d d'" using gens_grow_transition_step [OF e] gens_grow_trans by blast
  show "\<exists>x'. get_step d' (step_id s) = Some x' \<and> step_lease_generation x' = step_lease_generation x + 1"
    if "get_step d (step_id s) = Some x"
    using that transition_step_get_step [OF e, of "step_id s"]
    by (simp add: d' step_store.get_upd revoke_lease_def)
qed

lemma pause_fold_gens:
  assumes "foldE (pause_step actor) d xs = Inr d'" "s \<in> set xs" "get_step d (step_id s) = Some x"
  shows "\<exists>x'. get_step d' (step_id s) = Some x' \<and> step_lease_generation x < step_lease_generation x'"
  using assms
proof (induction xs arbitrary: d x)
  case Nil
  then show ?case by simp
next
  case (Cons y ys)
  from Cons.prems(1) obtain e where e: "pause_step actor d y = Inr e" "foldE (pause_step actor) e ys = Inr d'"
    by (auto simp: res_simps)
  have later: "gens_grow e d'"
    using foldE_invariant [OF e(2), of "gens_grow e"] pause_step_gens(1) gens_grow_refl gens_grow_trans by blast
  show ?case
  proof (cases "s = y")
    case True
    with pause_step_gens(2) [OF e(1)] Cons.prems(3) obtain x1 where
      "get_step e (step_id s) = Some x1" "step_lease_generation x1 = step_lease_generation x + 1" by blast
    with later show ?thesis unfolding gens_grow_def by force
  next
    case False
    from pause_step_gens(1) [OF e(1)] Cons.prems(3) obtain x1 where
      x1: "get_step e (step_id s) = Some x1" "step_lease_generation x \<le> step_lease_generation x1"
      unfolding gens_grow_def by blast
    from Cons.IH [OF e(2) _ x1(1)] False Cons.prems(2) x1(2) show ?thesis by force
  qed
qed

lemma pause_taskE:
  assumes "pause_task tid actor expected d = Inr d'" "locked_context d tid = Inr (t, r, steps)"
    "run_status r \<noteq> R_PAUSED"
  obtains d2 d3 where "db_steps d2 = db_steps d" "foldE (pause_step actor) d2 (filter is_active steps) = Inr d3"
    "db_steps d' = db_steps d3"
proof -
  from assms obtain d1 d2 d3 where
    "transition_run d (run_id r) R_PAUSED ''user'' actor [] = Inr d1"
    "transition_task d1 (task_id t) T_PAUSED ''user'' actor [] = Inr d2"
    "foldE (pause_step actor) d2 (filter is_active steps) = Inr d3" "db_steps d' = db_steps d3"
    by (auto simp: pause_task_def res_simps split: if_splits dest!: projection_frame)
  then show thesis using that transition_run_frame transition_task_frame by metis
qed

lemma pause_raises_generation:
  assumes "pause_task tid actor expected d = Inr d'" "locked_context d tid = Inr (t, r, steps)"
    "run_status r \<noteq> R_PAUSED" "s \<in> set steps" "is_active s" "get_step d (step_id s) = Some s"
  shows "\<exists>s'. get_step d' (step_id s) = Some s' \<and> step_lease_generation s < step_lease_generation s'"
proof -
  obtain d2 d3 where p: "db_steps d2 = db_steps d" "foldE (pause_step actor) d2 (filter is_active steps) = Inr d3"
    "db_steps d' = db_steps d3"
    by (rule pause_taskE [OF assms(1-3)])
  have "get_step d2 (step_id s) = Some s" using assms(6) p(1) by (simp add: get_step_def)
  from pause_fold_gens [OF p(2) _ this] assms(4,5) p(3) show ?thesis by (simp add: get_step_def)
qed

lemma gens_grow_epoch: "start_budget_epoch pf tid rid d = Inr (epoch, d') \<Longrightarrow> db_steps d' = db_steps d"
  by (auto simp: start_budget_epoch_def res_simps Let_def)

lemma gens_grow_continue:
  assumes "continue_paused_step pf tid rid sid actor d = Inr d'"
  shows "gens_grow d d'"
proof -
  from assms obtain d1 epoch d2 where
    c: "transition_step (upd_step sid grant_attempt d) sid S_QUEUED ''user'' actor [] = Inr d1"
    "start_budget_epoch pf tid rid (upd_step sid clear_failure d1) = Inr (epoch, d2)" "db_steps d' = db_steps d2"
    by (auto simp: continue_paused_step_def res_simps add_event_def)
  have "gens_grow d (upd_step sid grant_attempt d)" "gens_grow d1 (upd_step sid clear_failure d1)"
    by (rule gens_grow_upd_step; simp add: grant_attempt_def clear_failure_def)+
  moreover have "gens_grow (upd_step sid clear_failure d1) d'"
    using gens_grow_epoch [OF c(2)] c(3) by (intro gens_grow_steps) simp
  ultimately show ?thesis using gens_grow_transition_step [OF c(1)] gens_grow_trans by blast
qed

lemma gens_grow_settle_resumed:
  assumes "settle_resumed t r actor d3 = Inr d'"
  shows "gens_grow d3 d'"
proof -
  obtain target where tt: "target = derive_task_status (steps_for_run d3 (run_id r)) R_RUNNING" by simp
  from assms obtain d4 d5 where
    s: "(if target = T_BLOCKED then transition_run d3 (run_id r) R_BLOCKED ''user'' actor [] else Inr d3) = Inr d4"
    "transition_task d4 (task_id t) target ''user'' actor [] = Inr d5"
    "enqueue_telegram_projection (task_id t) (run_id r) d5 = Inr d'"
    unfolding settle_resumed_def Let_def tt [symmetric] bindE_eq_Inr by blast
  have "gens_grow d3 d4" using s(1) by (auto split: if_splits intro: gens gens_grow_transitions(1))
  moreover have "gens_grow d5 d'" using projection_frame [OF s(3)] by (intro gens_grow_steps) simp
  ultimately show ?thesis using gens_grow_transitions(2) [OF s(2)] gens_grow_trans by meson
qed

lemma gens_grow_resume:
  assumes "resume_task pf tid actor expected d = Inr d'"
  shows "gens_grow d d'"
proof -
  from assms obtain t r steps where ctx: "locked_context d tid = Inr (t, r, steps)"
    by (auto simp: resume_task_def res_simps)
  show ?thesis
  proof (cases "run_status r = R_RUNNING")
    case True
    with assms ctx show ?thesis by (auto simp: resume_task_def res_simps control_noop_def intro: gens)
  next
    case False
    with assms ctx obtain d1 d2 acts d3 where
      s: "transition_run d (run_id r) R_RUNNING ''user'' actor [] = Inr d1"
      "(case filter continuable steps of [] \<Rightarrow> Inr d1
        | s # _ \<Rightarrow> continue_paused_step pf (task_id t) (run_id r) (step_id s) actor d1) = Inr d2"
      "activate_ready_steps pf d2 (run_id r) = Inr (acts, d3)"
      "settle_resumed t r actor d3 = Inr d'"
      by (auto simp: resume_task_def settle_resumed_def res_simps Let_def split: if_splits)
    have "gens_grow d1 d2" using s(2) by (auto split: list.splits intro: gens gens_grow_continue)
    moreover have "gens_grow d2 d3" using evolution.R_activate_ready_steps [OF s(3)] by (rule gens_grow_evolves)
    moreover have "gens_grow d3 d'" by (rule gens_grow_settle_resumed [OF s(4)])
    ultimately show ?thesis using gens_grow_transitions(1) [OF s(1)] gens_grow_trans by meson
  qed
qed

lemma stale_commit_fails:
  assumes "get_step d (sr_id (tok_step token)) = Some s" "step_lease_generation s \<noteq> tok_generation token"
  shows "\<exists>e. commit_step_outcome pf d token outcome delay rp = Inl e"
proof (rule ccontr)
  assume "\<nexists>e. commit_step_outcome pf d token outcome delay rp = Inl e"
  then obtain d' where "commit_step_outcome pf d token outcome delay rp = Inr d'"
    by (cases "commit_step_outcome pf d token outcome delay rp") auto
  then show False using assms by (elim commit_step_outcomeE) simp
qed

section \<open>Decisions\<close>

lemma record_corrective_signal_task:
  "record_corrective_signal scope reason None tid rid sid d = Inr d' \<Longrightarrow>
   db_steps d' = db_steps d \<and> db_approvals d' = db_approvals d"
  by (auto simp: record_corrective_signal_def Let_def add_event_def)

lemma cancel_decided_frame:
  assumes "cancel_decided aid t r s actor d = Inr d'"
  shows "db_approvals d' = db_approvals (set_approval_status aid A_REJECTED d)"
  using assms by (auto simp: cancel_decided_def res_simps
      dest!: transition_step_frame transition_run_frame transition_task_frame)

lemma decide_resultE:
  assumes "decide_result pf aid decision user d = Inr d'"
  obtains a t r s envelope d1 event_type where "get_approval d aid = Some a"
    "lock_task_run_step d (appr_step_id a) = Some (t, r, s)" "appr_status a = A_PENDING"
    "wall_now d < appr_expires_at a" "step_status s = S_WAITING_APPROVAL"
    "verified_envelope pf s a = Inr envelope" "envelope_drift r s = None"
    "apply_decision pf a t r s decision (int_dec user)
       (upd_approval aid (\<lambda>x. x\<lparr>appr_deciding_user_id := Some user, appr_decided_at := Some (db_now d)\<rparr>) d) =
       Inr (event_type, d1)"
    "publication_action a \<Longrightarrow> user = task_user_id t"
    "db_approvals d' = db_approvals d1" "db_steps d' = db_steps d1"
  using assms unfolding decide_result_def
  by (auto simp: res_simps Let_def add_call_def split: option.splits if_splits dest!: projection_frame)

lemma apply_decision_approvals:
  assumes "apply_decision pf a t r s decision actor d = Inr (event_type, d1)"
  shows "\<exists>st. st \<in> {A_APPROVED, A_REJECTED} \<and> (st = A_APPROVED \<longleftrightarrow> decision = ''approve'') \<and>
    db_approvals d1 = db_approvals (set_approval_status (appr_id a) st d)"
proof -
  have approve: "db_approvals d1 = db_approvals (set_approval_status (appr_id a) A_APPROVED d)"
    if "decision = ''approve''"
    using assms that
    by (auto simp: apply_decision_def Let_def res_simps upd_step_def
        dest!: transition_step_frame transition_task_frame split: if_splits)
  have other: "db_approvals d1 = db_approvals (set_approval_status (appr_id a) A_REJECTED d)"
    if "decision \<noteq> ''approve''"
    using assms that
    by (auto simp: apply_decision_def res_simps record_work_attempt_def set_approval_status_def upd_approval_def
        dest!: cancel_decided_frame record_corrective_signal_task split: if_splits)
  show ?thesis
  proof (cases "decision = ''approve''")
    case True
    then show ?thesis using approve by blast
  next
    case False
    then show ?thesis using other by blast
  qed
qed

lemma apply_decision_row:
  assumes "apply_decision pf a t r s decision actor d = Inr (event_type, d1)" "get_approval d (appr_id a) = Some x"
  shows "get_approval d1 (appr_id a) =
    Some (x\<lparr>appr_status := (if decision = ''approve'' then A_APPROVED else A_REJECTED)\<rparr>)"
proof -
  from apply_decision_approvals [OF assms(1)] obtain st where
    "st \<in> {A_APPROVED, A_REJECTED}" "st = A_APPROVED \<longleftrightarrow> decision = ''approve''"
    "db_approvals d1 = db_approvals (set_approval_status (appr_id a) st d)" by blast
  moreover from this(3) have "get_approval d1 (appr_id a) = get_approval (set_approval_status (appr_id a) st d) (appr_id a)"
    by (simp add: get_approval_def)
  ultimately show ?thesis using assms(2) by (auto simp: set_approval_status_def approval_store.get_upd)
qed

lemma decided_refuses:
  assumes "get_approval d aid = Some a" "appr_status a \<noteq> A_PENDING"
  shows "\<exists>e. decide_result pf aid decision user d = Inl e"
  using assms by (simp add: decide_result_def split: option.split)

section \<open>Stale controls\<close>

lemma check_task_version_ok: "check_task_version t expected = Inr u \<Longrightarrow> expected \<in> {None, Some (task_version t)}"
  by (auto simp: check_task_version_def split: option.splits if_splits)

text \<open>An operation that answers only to the current version of a task.\<close>

locale versioned =
  fixes op :: "uuid \<Rightarrow> int option \<Rightarrow> db \<Rightarrow> error + 'a"
  assumes current: "op tid (Some v) d = Inr y \<Longrightarrow> \<exists>t. get_task d tid = Some t \<and> task_version t = v"
begin

lemma stale:
  assumes "get_task d tid = Some t" "v \<noteq> task_version t"
  shows "\<exists>e. op tid (Some v) d = Inl e"
  using current [of tid v d] assms by (cases "op tid (Some v) d") auto

end

lemma locked_context_task: "locked_context d tid = Inr (t, r, steps) \<Longrightarrow> get_task d tid = Some t"
  by (auto simp: locked_context_def split: option.splits)

lemma blocked_target_version:
  "blocked_target_for t r steps user expected sid what stale = Inr target \<Longrightarrow> expected = Some (task_version t)"
  by (auto simp: blocked_target_for_def split: if_splits)

interpretation pause_versioned: versioned "\<lambda>tid. pause_task tid actor"
  by unfold_locales
    (auto simp: pause_task_def res_simps dest!: locked_context_task check_task_version_ok)

interpretation resume_versioned: versioned "\<lambda>tid. resume_task pf tid actor"
  by unfold_locales
    (auto simp: resume_task_def res_simps dest!: locked_context_task check_task_version_ok)

lemma cancel_runless_version:
  "cancel_runless tid actor (Some v) d = Inr (True, d') \<Longrightarrow> \<exists>t. get_task d tid = Some t \<and> task_version t = v"
  by (auto simp: cancel_runless_def res_simps dest!: check_task_version_ok split: option.splits if_splits)

interpretation cancel_versioned: versioned "\<lambda>tid. cancel_task tid actor"
  by unfold_locales
    (auto simp: cancel_task_def res_simps split: if_splits
      dest!: cancel_runless_version locked_context_task check_task_version_ok)

interpretation start_versioned: versioned "\<lambda>tid. start_command pf tid actor"
  by unfold_locales
    (auto simp: start_command_def res_simps dest!: locked_context_task check_task_version_ok)

interpretation retry_versioned: versioned "\<lambda>tid expected. retry_command pf tid p expected sid"
  by unfold_locales
    (auto simp: retry_command_def res_simps dest!: locked_context_task blocked_target_version)

interpretation owner_versioned:
  versioned "\<lambda>tid expected. continue_owner_decision pf shw tid action p expected sid decision"
  by unfold_locales
    (auto simp: continue_owner_decision_def res_simps split: option.splits if_splits
      dest!: locked_context_task blocked_target_version)

interpretation rereview_versioned: versioned "\<lambda>tid expected. recover_unsent_cli_review pf tid user expected sid"
  by unfold_locales
    (auto simp: recover_unsent_cli_review_def res_simps split: option.splits if_splits dest!: locked_context_task)

interpretation revalidate_versioned: versioned "\<lambda>tid expected. recover_validation_environment tid user expected sid"
  by unfold_locales
    (auto simp: recover_validation_environment_def res_simps split: option.splits if_splits
      dest!: locked_context_task)

lemmas versioned_stale = pause_versioned.stale resume_versioned.stale cancel_versioned.stale
  start_versioned.stale retry_versioned.stale owner_versioned.stale rereview_versioned.stale
  revalidate_versioned.stale

lemma stale_run_command:
  assumes "get_task d tid = Some t" "v \<noteq> task_version t" "action \<noteq> INSPECT"
  shows "\<exists>e. run_command pf shw tid action p (Some v) sid decision d = Inl e"
  using assms versioned_stale [OF assms(1,2)]
  by (cases action) (auto simp: run_command_def Let_def res_simps read_task_def ex_disj_distrib)

section \<open>Sample databases\<close>

text \<open>The owner pauses a task whose worker is busy, and resumes it.\<close>

definition idempotent_db :: db where
  "idempotent_db = running_db\<lparr>db_steps := [running_step\<lparr>step_idempotency_class := IDEM_IDEMPOTENT,
     step_external_idempotency_key := Some ''k''\<rparr>]\<rparr>"

definition paused_db :: db where
  "paused_db = result_or idempotent_db (pause_task 1 (Some ''7'') None idempotent_db)"

definition resumed_db :: db where
  "resumed_db = result_or paused_db (resume_task sample_platform 1 (Some ''7'') None paused_db)"

lemma sample_pause: "pause_task 1 (Some ''7'') None idempotent_db = Inr paused_db"
  unfolding paused_db_def by (rule result_or_Inr) code_simp

lemma sample_resume: "resume_task sample_platform 1 (Some ''7'') None paused_db = Inr resumed_db"
  unfolding resumed_db_def by (rule result_or_Inr) code_simp

lemma idempotent_context:
  "locked_context idempotent_db 1 = Inr (sample_task, sample_run, db_steps idempotent_db)"
  by (simp add: locked_context_def idempotent_db_def running_db_def running_step_def sample_defs get_task_def
      latest_run_def newest_def steps_for_run_def find_row_def)

text \<open>A result that waits for its decision.\<close>

definition decision_envelope :: json_obj where
  "decision_envelope = [(''step_id'', JStr (uuid_str 3)), (''policy_revision'', JStr ''p1'')]"

definition pending_approval :: approval where
  "pending_approval =
     \<lparr>appr_id = 8, appr_step_id = 3, appr_action_envelope_hash = envelope_hash sample_platform decision_envelope,
      appr_requested_action = ''apply_result'', appr_normalized_target = ''demo:main'', appr_human_summary = [],
      appr_token_hash = [], appr_status = A_PENDING, appr_decided_at = None, appr_deciding_user_id = None,
      appr_expires_at = 50, appr_consumed_at = None\<rparr>"

definition decision_db :: db where
  "decision_db = sample_db\<lparr>db_tasks := [sample_task\<lparr>task_status := T_WAITING_APPROVAL\<rparr>],
     db_steps := [sample_step\<lparr>step_status := S_WAITING_APPROVAL,
       step_payload := [(''action_envelope'', JObj decision_envelope)]\<rparr>],
     db_approvals := [pending_approval]\<rparr>"

definition decided_db :: db where
  "decided_db = result_or decision_db (decide_result sample_platform 8 ''approve'' 7 decision_db)"

lemma sample_decision: "decide_result sample_platform 8 ''approve'' 7 decision_db = Inr decided_db"
  unfolding decided_db_def
  by (rule result_or_Inr)
    (simp add: decide_result_def decision_db_def pending_approval_def get_approval_def find_row_def
      lock_task_run_step_def get_step_def get_run_def get_task_def sample_defs verified_envelope_def
      envelope_drift_def decision_envelope_def publication_action_def installation_action_def apply_decision_def
      Let_def set_approval_status_def upd_approval_def update_row_def transition_step_def transition_task_def
      check_transition_def upd_step_def upd_task_def moved_task_def add_event_def enqueue_telegram_projection_def
      held_task_def publish_task_event_def USER_TERMINAL_TASK_STATUSES_def task_link_def)

text \<open>A repair is queued while the owner pauses the task; the request to resume waits in the outbox.\<close>

definition resume_request :: control_action where
  "resume_request = \<lparr>ca_id = 20, ca_action_kind = ''resume'', ca_requested_by_user_id = 7, ca_task_id = Some 1,
     ca_step_id = None, ca_approval_id = None, ca_payload = [], ca_status = C_QUEUED, ca_processed_at = None\<rparr>"

definition repairing_db :: db where
  "repairing_db = sample_db\<lparr>db_tasks := [sample_task\<lparr>task_status := T_RETRYING\<rparr>],
     db_steps := [sample_step\<lparr>step_payload := [(''repair_for_step_id'', JStr ''5'')]\<rparr>],
     db_actions := [resume_request],
     db_outbox := [sample_item\<lparr>ob_destination := ''workflow_control'',
       ob_linked_entity_type := ''telegram_control_action'', ob_linked_entity_id := 20\<rparr>]\<rparr>"

definition paused_repair_db :: db where
  "paused_repair_db = result_or repairing_db (pause_task 1 (Some ''7'') None repairing_db)"

definition claimed_db :: db where
  "claimed_db = snd (claim_outbox_item {} ''w'' 60 {''workflow_control''} paused_repair_db)"

definition claimed_token :: outbox_lease_token where
  "claimed_token = \<lparr>otok_item_id = 4, otok_status = D_LEASED, otok_owner = ''w'', otok_generation = 1,
     otok_lease_expires_at = 10 + seconds 60\<rparr>"

lemma claimed_rows:
  "fst (claim_outbox_item {} ''w'' 60 {''workflow_control''} paused_repair_db) = Some claimed_token"
  "map_option ob_linked_entity_type (get_outbox claimed_db 4) = Some ''telegram_control_action''"
  "map_option ob_linked_entity_id (get_outbox claimed_db 4) = Some 20"
  "db_actions claimed_db = [resume_request]" "map ob_status (db_outbox claimed_db) = [D_LEASED]"
  "map task_status (db_tasks claimed_db) = [T_PAUSED]"
  by code_simp+

lemma claimed_resume:
  "resume_task sample_platform 1 (Some (int_dec 7)) None claimed_db =
     Inl (IllegalTransition ''illegal transition: paused -> retrying'')"
proof -
  have "(case resume_task sample_platform 1 (Some (int_dec 7)) None claimed_db of
      Inl e \<Rightarrow> e = IllegalTransition ''illegal transition: paused -> retrying'' | Inr _ \<Rightarrow> False)" by code_simp
  then show ?thesis by (auto split: sum.splits)
qed

lemma claimed_control:
  "process_control sample_platform shw claimed_token claimed_db =
     Inl (IllegalTransition ''illegal transition: paused -> retrying'')"
proof -
  obtain item where "get_outbox claimed_db 4 = Some item"
    "ob_linked_entity_type item = ''telegram_control_action''" "ob_linked_entity_id item = 20"
    using claimed_rows(2,3) by auto
  moreover have "get_action claimed_db 20 = Some resume_request"
    by (simp add: get_action_def find_row_def claimed_rows(4) resume_request_def)
  moreover have "\<exists>t. read_task claimed_db 1 = Inr t"
  proof -
    have "(case read_task claimed_db 1 of Inl _ \<Rightarrow> False | Inr _ \<Rightarrow> True)" by code_simp
    then show ?thesis by (auto split: sum.splits)
  qed
  ultimately show ?thesis
    by (auto simp: process_control_def claimed_token_def apply_action_def resume_request_def apply_task_command_def
        validate_command_def task_commands_def validate_principal_def INGRESS_SOURCES_def run_command_def Let_def
        claimed_resume simp del: One_nat_def)
qed

section \<open>Properties\<close>

text \<open>C18. A pause revokes the leases of the run for good. A worker that held one when the run was
  paused can commit nothing with it, neither while the run is paused nor after it was resumed: each
  revocation moves the generation of the step on, and no later control moves it back.\<close>

theorem pause_revokes_leases:
  assumes "pause_task tid actor expected d = Inr d'"
    and "locked_context d tid = Inr (t, r, steps)" "run_status r \<noteq> R_PAUSED"
    and "get_step d (sr_id (tok_step token)) = Some s" "step_run_id s = run_id r" "is_active s"
    and "step_lease_generation s = tok_generation token"
  shows "(\<exists>e. commit_step_outcome pf d' token outcome delay rp = Inl e) \<and>
    (\<forall>d'' expected'. resume_task pf tid actor expected' d' = Inr d'' \<longrightarrow>
       (\<exists>e. commit_step_outcome pf d'' token outcome delay rp = Inl e))"
proof -
  have id: "step_id s = sr_id (tok_step token)" and "s \<in> set (db_steps d)"
    using assms(4) by (auto simp: get_step_def find_row_def find_Some_iff)
  then have "s \<in> set steps" using assms(2,5)
    by (auto simp: locked_context_def steps_for_run_def split: option.splits)
  from pause_raises_generation [OF assms(1-3) this assms(6)] assms(4) id obtain s' where
    s': "get_step d' (sr_id (tok_step token)) = Some s'" "tok_generation token < step_lease_generation s'"
    using assms(7) by auto
  moreover have "\<exists>e. commit_step_outcome pf d'' token outcome delay rp = Inl e"
    if "resume_task pf tid actor expected' d' = Inr d''" for d'' expected'
  proof -
    from gens_grow_resume [OF that] s' obtain s'' where
      "get_step d'' (sr_id (tok_step token)) = Some s''" "tok_generation token < step_lease_generation s''"
      unfolding gens_grow_def by fastforce
    then show ?thesis by (intro stale_commit_fails) auto
  qed
  ultimately show ?thesis using stale_commit_fails by (metis less_irrefl)
qed

theorem pause_revokes_leases_witness:
  "(\<exists>e. commit_step_outcome sample_platform paused_db running_token (outcome_succeeded []) 0 None = Inl e) \<and>
   (\<exists>e. commit_step_outcome sample_platform resumed_db running_token (outcome_succeeded []) 0 None = Inl e)"
proof -
  let ?s = "running_step\<lparr>step_idempotency_class := IDEM_IDEMPOTENT, step_external_idempotency_key := Some ''k''\<rparr>"
  have "get_step idempotent_db (sr_id (tok_step running_token)) = Some ?s" "step_run_id ?s = run_id sample_run"
    "is_active ?s" "step_lease_generation ?s = tok_generation running_token" "run_status sample_run \<noteq> R_PAUSED"
    by (simp_all add: idempotent_db_def running_db_def running_step_def running_token_def step_record_of_def
        sample_defs get_step_def find_row_def is_active_def)
  from pause_revokes_leases [OF sample_pause idempotent_context this(5) this(1-4),
      of sample_platform "outcome_succeeded []" 0 None] sample_resume
  show ?thesis by blast
qed

text \<open>C19. A result is decided once, and only as it was requested. A decision goes through only for a
  pending approval that has not expired, while its step waits, with the envelope unchanged since the
  request and under the revisions it was requested for; a publication is decided by the owner of the
  task. The approval then carries the decision and the user, and every further decision is refused.\<close>

theorem result_is_decided_once:
  assumes "decide_result pf aid decision user d = Inr d'"
  shows "(\<exists>a t r s. get_approval d aid = Some a \<and> lock_task_run_step d (appr_step_id a) = Some (t, r, s) \<and>
      appr_status a = A_PENDING \<and> wall_now d < appr_expires_at a \<and> step_status s = S_WAITING_APPROVAL \<and>
      (\<exists>envelope. verified_envelope pf s a = Inr envelope) \<and> envelope_drift r s = None \<and>
      (publication_action a \<longrightarrow> user = task_user_id t)) \<and>
    (\<exists>a'. get_approval d' aid = Some a' \<and> appr_deciding_user_id a' = Some user \<and>
      appr_status a' = (if decision = ''approve'' then A_APPROVED else A_REJECTED)) \<and>
    (\<forall>decision' user'. \<exists>e. decide_result pf aid decision' user' d' = Inl e)"
proof -
  obtain a t r s envelope d1 event_type where a: "get_approval d aid = Some a"
    and facts: "lock_task_run_step d (appr_step_id a) = Some (t, r, s)" "appr_status a = A_PENDING"
      "wall_now d < appr_expires_at a" "step_status s = S_WAITING_APPROVAL"
      "verified_envelope pf s a = Inr envelope" "envelope_drift r s = None"
      "publication_action a \<Longrightarrow> user = task_user_id t"
    and step: "apply_decision pf a t r s decision (int_dec user)
       (upd_approval aid (\<lambda>x. x\<lparr>appr_deciding_user_id := Some user, appr_decided_at := Some (db_now d)\<rparr>) d) =
       Inr (event_type, d1)" and same: "db_approvals d' = db_approvals d1"
    by (rule decide_resultE [OF assms]) blast
  have id: "appr_id a = aid" using a by (auto simp: get_approval_def find_row_def find_Some_iff)
  have "get_approval d' aid = get_approval d1 aid" using same by (simp add: get_approval_def)
  with apply_decision_row [OF step] a id obtain a' where a': "get_approval d' aid = Some a'"
    "appr_deciding_user_id a' = Some user"
    "appr_status a' = (if decision = ''approve'' then A_APPROVED else A_REJECTED)"
    by (auto simp: approval_store.get_upd)
  then have "\<exists>e. decide_result pf aid decision' user' d' = Inl e" for decision' user'
    by (intro decided_refuses) (auto split: if_splits)
  with a facts a' show ?thesis by blast
qed

theorem result_is_decided_once_witness:
  "(\<exists>a'. get_approval decided_db 8 = Some a' \<and> appr_status a' = A_APPROVED) \<and>
   (\<exists>e. decide_result sample_platform 8 ''reject'' 7 decided_db = Inl e)"
  using result_is_decided_once [OF sample_decision] by auto

text \<open>A control based on an old version of its task applies nothing. Whatever the command, other
  than a mere inspection, when the version it expects is not the current one it is refused and leaves
  no trace in the database.\<close>

theorem stale_control_is_refused:
  assumes "get_task d tid = Some t" and "v \<noteq> task_version t" and "command \<noteq> ''inspect''"
  shows "\<exists>e. apply_task_command pf shw tid command p (Some v) sid decision d = Inl e"
proof (cases "validate_command command")
  case (Inr action)
  have "action \<noteq> INSPECT"
    using Inr assms(3) by (auto simp: validate_command_def task_commands_def split: option.splits if_splits)
  then show ?thesis
    using stale_run_command [OF assms(1,2)] Inr
    by (cases "validate_principal p") (auto simp: apply_task_command_def res_simps ex_disj_distrib)
qed (simp add: apply_task_command_def)


end
