(* ===== verification/Py_Text.thy ===== *)
theory Py_Text
  imports Vuzol_Prelude "HOL-Library.List_Lexorder" "HOL-Library.Char_ord"
begin

text \<open>
  Python's operations on text and bytes that the path, diff and host-name components use. A
  character is a code point below 256; a byte string is a list of characters as well, one per byte.
  Case folding is that of ASCII letters.
\<close>

type_synonym bytes = string

section \<open>Searching\<close>

definition py_endswith :: "string \<Rightarrow> string \<Rightarrow> bool" where
  "py_endswith s suffix = (length suffix \<le> length s \<and> drop (length s - length suffix) s = suffix)"

definition at_index :: "string \<Rightarrow> string \<Rightarrow> nat \<Rightarrow> bool" where
  "at_index sub s i = (take (length sub) (drop i s) = sub)"

definition py_contains :: "string \<Rightarrow> string \<Rightarrow> bool" where
  "py_contains sub s = (\<exists>i \<in> set [0..<Suc (length s)]. at_index sub s i)"

text \<open>The first and the last position of a substring.\<close>

definition find_first :: "string \<Rightarrow> string \<Rightarrow> nat option" where
  "find_first sub s = find (at_index sub s) [0..<Suc (length s - length sub)]"

definition find_last :: "string \<Rightarrow> string \<Rightarrow> nat option" where
  "find_last sub s =
     (if length s < length sub then None
      else find (at_index sub s) (rev [0..<Suc (length s - length sub)]))"

section \<open>Splitting\<close>

text \<open>\<open>s.split(c)\<close> for a one-character separator.\<close>

fun py_split_on :: "char \<Rightarrow> string \<Rightarrow> string list" where
  "py_split_on c [] = [[]]"
| "py_split_on c (x # xs) =
     (if x = c then [] # py_split_on c xs
      else case py_split_on c xs of [] \<Rightarrow> [[x]] | p # ps \<Rightarrow> (x # p) # ps)"

text \<open>The non-empty pieces of \<open>re.split("[...]+", s)\<close> for a class of characters.\<close>

fun py_tokens :: "char set \<Rightarrow> string \<Rightarrow> string list" where
  "py_tokens C [] = []"
| "py_tokens C (x # xs) =
     (if x \<in> C then py_tokens C xs
      else case xs of
        [] \<Rightarrow> [[x]]
      | y # _ \<Rightarrow> if y \<in> C then [x] # py_tokens C xs
                else case py_tokens C xs of [] \<Rightarrow> [[x]] | p # ps \<Rightarrow> (x # p) # ps)"

definition py_lower :: "string \<Rightarrow> string" where
  "py_lower s = map py_lower_char s"

text \<open>\<open>s.splitlines(keepends=True)\<close>: a return followed by a newline is one boundary.\<close>

definition line_break :: "char \<Rightarrow> bool" where
  "line_break c = (let n = of_char c :: nat in (10 \<le> n \<and> n \<le> 13) \<or> (28 \<le> n \<and> n \<le> 30) \<or> n = 133)"

fun py_splitlines_keep :: "string \<Rightarrow> string list" where
  "py_splitlines_keep [] = []"
| "py_splitlines_keep [x] = [[x]]"
| "py_splitlines_keep (x # y # xs) =
     (if x = CHR 0x0D \<and> y = CHR 0x0A then [x, y] # py_splitlines_keep xs
      else if line_break x then [x] # py_splitlines_keep (y # xs)
      else case py_splitlines_keep (y # xs) of [] \<Rightarrow> [[x]] | l # ls \<Rightarrow> (x # l) # ls)"

definition drop_line_end :: "string \<Rightarrow> string" where
  "drop_line_end s = rev (dropWhile line_break (rev s))"

definition py_splitlines :: "string \<Rightarrow> string list" where
  "py_splitlines s = map drop_line_end (py_splitlines_keep s)"

lemma py_split_on_ne [simp]: "py_split_on c s \<noteq> []"
  by (induction s) (auto split: list.split)

lemma py_join_Cons_Cons: "py_join sep ((x # p) # ps) = x # py_join sep (p # ps)"
  by (cases ps) auto

lemma py_split_on_join: "py_join [c] (py_split_on c s) = s"
proof (induction s)
  case (Cons x xs)
  then show ?case by (cases "py_split_on c xs") (auto simp: py_join_Cons_Cons)
qed simp

lemma py_split_on_sep: "p \<in> set (py_split_on c s) \<Longrightarrow> c \<notin> set p"
proof (induction s arbitrary: p)
  case (Cons x xs)
  then show ?case by (cases "py_split_on c xs") (auto split: if_splits)
qed simp

lemma concat_splitlines: "concat (py_splitlines_keep s) = s"
proof (induction s rule: py_splitlines_keep.induct)
  case (3 x y xs)
  then show ?case by (cases "py_splitlines_keep (y # xs)") (auto split: if_splits)
qed simp_all

section \<open>Representations\<close>

text \<open>\<open>repr\<close> of a byte string.\<close>

definition bytes_repr_char :: "char \<Rightarrow> char \<Rightarrow> string" where
  "bytes_repr_char q c =
     (let n = of_char c :: nat in
        if c = q \<or> n = 92 then [CHR 0x5C, c]
        else if n = 9 then [CHR 0x5C, CHR ''t'']
        else if n = 10 then [CHR 0x5C, CHR ''n'']
        else if n = 13 then [CHR 0x5C, CHR ''r'']
        else if 32 \<le> n \<and> n \<le> 126 then [c]
        else CHR 0x5C # CHR ''x'' # hex_digits 2 n)"

definition py_bytes_repr :: "bytes \<Rightarrow> string" where
  "py_bytes_repr s =
     (let q = (if CHR 0x27 \<in> set s \<and> CHR 0x22 \<notin> set s then CHR 0x22 else CHR 0x27)
      in CHR ''b'' # q # concat (map (bytes_repr_char q) s) @ [q])"

section \<open>Paths\<close>

text \<open>
  \<open>PurePosixPath\<close>: empty and dot components vanish; the name is the last component and the suffix
  starts at its last dot, if that is neither the first nor the last character.
\<close>

definition path_absolute :: "string \<Rightarrow> bool" where
  "path_absolute p = py_startswith p ''/''"

definition path_parts :: "string \<Rightarrow> string list" where
  "path_parts p = filter (\<lambda>x. x \<noteq> [] \<and> x \<noteq> ''.'') (py_split_on CHR ''/'' p)"

definition path_name :: "string \<Rightarrow> string" where
  "path_name p = (if path_parts p = [] then [] else last (path_parts p))"

definition name_suffix :: "string \<Rightarrow> string" where
  "name_suffix name =
     (case find_last ''.'' name of
        None \<Rightarrow> []
      | Some i \<Rightarrow> if 0 < i \<and> i < length name - 1 then drop i name else [])"

section \<open>UTF-8\<close>

text \<open>
  The number of bytes that the decoder with \<open>errors="replace"\<close> turns into one character: a
  well-formed sequence, or the longest prefix of one, which becomes the replacement character.
\<close>

definition continuation :: "nat \<Rightarrow> nat \<Rightarrow> string \<Rightarrow> bool" where
  "continuation lo hi s = (case s of [] \<Rightarrow> False | c # _ \<Rightarrow> lo \<le> of_char c \<and> of_char c \<le> hi)"

definition utf8_width :: "char \<Rightarrow> bytes \<Rightarrow> nat" where
  "utf8_width c rest =
     (let n = of_char c :: nat;
          lo = (if n = 224 then 160 else if n = 240 then 144 else 128);
          hi = (if n = 237 then 159 else if n = 244 then 143 else 191)
      in if n < 194 \<or> 244 < n \<or> \<not> continuation lo hi rest then 1
         else if n < 224 \<or> \<not> continuation 128 191 (drop 1 rest) then 2
         else if n < 240 \<or> \<not> continuation 128 191 (drop 2 rest) then 3
         else 4)"

function utf8_length :: "bytes \<Rightarrow> nat" where
  "utf8_length [] = 0"
| "utf8_length (c # rest) = Suc (utf8_length (drop (utf8_width c rest - 1) rest))"
  by pat_completeness auto
termination by (relation "measure length") auto

lemma utf8_length_le: "utf8_length bs \<le> length bs"
proof (induction bs rule: utf8_length.induct)
  case (2 c rest)
  then have "utf8_length (drop (utf8_width c rest - 1) rest) \<le> length rest" by simp
  then show ?case by simp
qed simp

end
