(* ===== verification/Scaffold_Gate.thy ===== *)
theory Scaffold_Gate
  imports Py_Text
begin

text \<open>
  \<^verbatim>\<open>execution/scaffold.py\<close>: a managed project starts with a Makefile whose \<open>test\<close> target
  does nothing. As long as that recipe is in force only documentation may change; the first product
  file needs a real gate. The Makefile of the worktree is a parameter, \<open>None\<close> when there is none.
\<close>

section \<open>Paths\<close>

definition DOC_NAMES :: "string set" where
  "DOC_NAMES =
     {''readme'', ''readme.md'', ''license'', ''license.md'', ''licence'', ''copying'', ''changelog'',
      ''changelog.md'', ''authors'', ''contributors'', ''code_of_conduct.md'', ''security.md'', ''makefile'',
      ''.gitignore'', ''.gitattributes'', ''.editorconfig''}"

definition DOC_SUFFIXES :: "string set" where
  "DOC_SUFFIXES = {''.md'', ''.rst'', ''.txt'', ''.adoc''}"

definition DOC_TREE_SUFFIXES :: "string set" where
  "DOC_TREE_SUFFIXES = DOC_SUFFIXES \<union> {''.json'', ''.yaml'', ''.yml'', ''.toml''}"

definition DOC_ROOT_DIRS :: "string set" where
  "DOC_ROOT_DIRS = {''docs'', ''doc'', ''documentation'', ''notes''}"

definition PRODUCT_TXT_PREFIXES :: "string list" where
  "PRODUCT_TXT_PREFIXES = [''requirements'', ''constraints'', ''requirements-dev'', ''requirements-test'']"

definition DATA_SUFFIXES :: "string set" where
  "DATA_SUFFIXES =
     {''.csv'', ''.tsv'', ''.parquet'', ''.feather'', ''.arrow'', ''.npy'', ''.npz'', ''.pkl'', ''.pickle'',
      ''.xlsx'', ''.xls'', ''.ods''}"

definition CODE_ROOT_DIRS :: "string set" where
  "CODE_ROOT_DIRS =
     {''src'', ''app'', ''lib'', ''pkg'', ''cmd'', ''internal'', ''packages'', ''services'', ''bin''}"

definition CODE_SUFFIXES :: "string set" where
  "CODE_SUFFIXES =
     {''.py'', ''.pyi'', ''.js'', ''.jsx'', ''.ts'', ''.tsx'', ''.mjs'', ''.cjs'', ''.go'', ''.rs'', ''.java'',
      ''.kt'', ''.c'', ''.cc'', ''.cpp'', ''.h'', ''.hpp'', ''.rb'', ''.php'', ''.swift'', ''.m'', ''.cs'',
      ''.scala'', ''.sh'', ''.bash'', ''.zsh'', ''.ps1'', ''.sql'', ''.toml'', ''.yaml'', ''.yml'', ''.json'',
      ''.lock'', ''.gradle'', ''.cmake'', ''.proto''}"

definition CODE_NAMES :: "string set" where
  "CODE_NAMES =
     {''pyproject.toml'', ''setup.py'', ''setup.cfg'', ''package.json'', ''package-lock.json'',
      ''pnpm-lock.yaml'', ''yarn.lock'', ''cargo.toml'', ''cargo.lock'', ''go.mod'', ''go.sum'', ''gemfile'',
      ''gemfile.lock'', ''composer.json'', ''dockerfile'', ''compose.yaml'', ''compose.yml'',
      ''docker-compose.yml'', ''docker-compose.yaml''}"

definition is_product_txt_name :: "string \<Rightarrow> bool" where
  "is_product_txt_name name =
     (py_endswith name ''.txt'' \<and>
      (let stem = take (length name - 4) name
       in \<exists>prefix \<in> set PRODUCT_TXT_PREFIXES. stem = prefix \<or> py_startswith stem (prefix @ ''-'')))"

definition escapes :: "string \<Rightarrow> bool" where
  "escapes path = (path_absolute path \<or> ''..'' \<in> set (path_parts path))"

definition path_is_docs_only :: "string \<Rightarrow> bool" where
  "path_is_docs_only path =
     (if escapes path then False
      else
        let name = py_lower (path_name path);
            suffix = py_lower (name_suffix (path_name path))
        in if is_product_txt_name name then False
           else if name \<in> DOC_NAMES then True
           else if \<exists>part \<in> set (butlast (path_parts path)). py_lower part \<in> DOC_ROOT_DIRS
           then suffix \<in> DOC_TREE_SUFFIXES \<or> suffix = []
           else suffix \<in> DOC_SUFFIXES)"

definition path_is_executable_product :: "string \<Rightarrow> bool" where
  "path_is_executable_product path =
     (if path_is_docs_only path then False
      else if escapes path then True
      else
        let name = py_lower (path_name path);
            suffix = py_lower (name_suffix (path_name path))
        in if name = ''makefile'' then False
           else if is_product_txt_name name then True
           else if suffix \<in> DATA_SUFFIXES
           then (\<exists>part \<in> set (butlast (path_parts path)). py_lower part \<in> CODE_ROOT_DIRS)
           else True)"

definition executable_product_paths :: "string list \<Rightarrow> string list" where
  "executable_product_paths changed_files = filter path_is_executable_product changed_files"

section \<open>The Makefile\<close>

definition SCAFFOLD_GATE_MARKER :: string where
  "SCAFFOLD_GATE_MARKER = ''vuzol-scaffold-gate: true''"

definition EXACT_MARKER_LINE :: string where
  "EXACT_MARKER_LINE = ''# '' @ SCAFFOLD_GATE_MARKER"

definition SCAFFOLD_TEST_ECHO :: string where
  "SCAFFOLD_TEST_ECHO = ''scaffold: no project tests yet (ok)''"

definition line :: "string \<Rightarrow> string" where
  "line s = s @ [CHR 0x0A]"

definition PROJECT_SCAFFOLD_MAKEFILE :: string where
  "PROJECT_SCAFFOLD_MAKEFILE =
     line EXACT_MARKER_LINE @
     line ''# Scaffolded by Vuzol for managed projects.'' @
     line (''# '' @ [CHR 0x60] @ ''make test'' @ [CHR 0x60] @
       '' may stay green only while the project is empty or docs-only.'') @
     line ''# When you add executable product code, replace this target with a real gate'' @
     line ''# (for example pytest) and remove the scaffold marker line above.'' @
     line ''# Platform testing policy: docs/TESTING.md (in the Vuzol repository).'' @
     line [] @
     line ''.PHONY: test'' @
     line ''test:'' @
     line ([CHR 0x09] @ ''@echo '' @ [CHR 0x22] @ SCAFFOLD_TEST_ECHO @ [CHR 0x22])"

text \<open>The first line that starts with the target and a colon: the rest of it, and what follows.\<close>

definition target_match :: "string \<Rightarrow> string \<Rightarrow> (string \<times> string) option" where
  "target_match target s =
     (let after = dropWhile py_isspace (drop (length target) s);
          body = tl after
      in if py_startswith s target \<and> py_startswith after '':''
         then Some (takeWhile (\<lambda>c. c \<noteq> CHR 0x0A) body, tl (dropWhile (\<lambda>c. c \<noteq> CHR 0x0A) body))
         else None)"

fun search_target :: "string \<Rightarrow> bool \<Rightarrow> string \<Rightarrow> (string \<times> string) option" where
  "search_target target line_start [] = None"
| "search_target target line_start (c # cs) =
     (case if line_start then target_match target (c # cs) else None of
        Some found \<Rightarrow> Some found
      | None \<Rightarrow> search_target target (c = CHR 0x0A) cs)"

fun recipe_lines :: "string list \<Rightarrow> string list \<Rightarrow> string list" where
  "recipe_lines lines [] = lines"
| "recipe_lines lines (l # ls) =
     (if py_startswith l [CHR 0x09] \<or> (lines \<noteq> [] \<and> py_startswith l '' '')
      then recipe_lines (lines @ [rev (dropWhile (\<lambda>c. c = CHR 0x0A) (rev l))]) ls
      else if py_strip l = [] then recipe_lines (lines @ [[]]) ls
      else lines)"

definition extract_make_target_recipe :: "string \<Rightarrow> string \<Rightarrow> string option" where
  "extract_make_target_recipe makefile_text target =
     (case search_target target True makefile_text of
        None \<Rightarrow> None
      | Some (rest, remainder) \<Rightarrow>
          let inline = py_strip rest;
              first = (if inline \<noteq> [] \<and> \<not> py_startswith inline ''#'' then [CHR 0x09 # inline] else []);
              lines = recipe_lines first (py_splitlines_keep remainder)
          in Some (py_join [CHR 0x0A] (rev (dropWhile (\<lambda>l. py_strip l = []) (rev lines)))))"

definition real_command :: "string \<Rightarrow> bool" where
  "real_command l =
     (let body = py_strip (dropWhile (\<lambda>c. c \<in> {CHR ''@'', CHR ''-'', CHR ''+''})
                   (dropWhile (\<lambda>c. c \<in> {CHR 0x09, CHR '' ''}) l))
      in body \<noteq> [] \<and> \<not> py_startswith body ''#'' \<and>
         \<not> (py_startswith body ''echo '' \<or> py_startswith body (''echo'' @ [CHR 0x22]) \<or>
            py_startswith body (''echo'' @ [CHR 0x27])))"

definition recipe_has_real_commands :: "string \<Rightarrow> bool" where
  "recipe_has_real_commands recipe = (\<exists>l \<in> set (py_splitlines recipe). real_command l)"

definition makefile_has_exact_scaffold_marker :: "string \<Rightarrow> bool" where
  "makefile_has_exact_scaffold_marker makefile_text =
     (\<exists>raw \<in> set (py_splitlines makefile_text). py_strip raw = EXACT_MARKER_LINE)"

definition makefile_has_scaffold_test_recipe :: "string \<Rightarrow> bool" where
  "makefile_has_scaffold_test_recipe makefile_text =
     (case extract_make_target_recipe makefile_text ''test'' of
        None \<Rightarrow> False
      | Some recipe \<Rightarrow>
          py_contains SCAFFOLD_TEST_ECHO (py_join '' '' (py_split recipe)) \<and> \<not> recipe_has_real_commands recipe)"

definition makefile_has_real_test_recipe :: "string \<Rightarrow> bool" where
  "makefile_has_real_test_recipe makefile_text =
     (case extract_make_target_recipe makefile_text ''test'' of
        None \<Rightarrow> False
      | Some recipe \<Rightarrow>
          \<not> makefile_has_scaffold_test_recipe makefile_text \<and> recipe_has_real_commands recipe)"

section \<open>The gate\<close>

definition project_lacks_real_validation_gate :: "string option \<Rightarrow> string list \<Rightarrow> bool" where
  "project_lacks_real_validation_gate makefile trusted_gate_command_ids =
     (case makefile of
        None \<Rightarrow> ''make test'' \<in> set trusted_gate_command_ids
      | Some text \<Rightarrow>
          if makefile_has_scaffold_test_recipe text then True
          else if makefile_has_real_test_recipe text then False
          else if makefile_has_exact_scaffold_marker text then True
          else ''make test'' \<in> set trusted_gate_command_ids)"

definition scaffold_gate_violation :: "string option \<Rightarrow> string list \<Rightarrow> string list \<Rightarrow> string option" where
  "scaffold_gate_violation makefile changed_files trusted_gate_command_ids =
     (let product = executable_product_paths changed_files
      in if product = [] then None
         else if \<not> project_lacks_real_validation_gate makefile trusted_gate_command_ids then None
         else
           Some (''executable product files changed while only the scaffold validation gate is configured '' @
             ''('' @ py_join '', '' (take 5 product) @ (if length product > 5 then '', ...'' else []) @
             ''); replace the scaffold Makefile test recipe with a real test/build/smoke gate '' @
             ''and remove the dedicated marker line '' @ [CHR 0x60] @ EXACT_MARKER_LINE @ [CHR 0x60] @
             '' (see '' @ SCAFFOLD_GATE_MARKER @ '')''))"

section \<open>Properties\<close>

text \<open>The provisioned Makefile is recognised by its marker and by its recipe.\<close>

lemma provisioned_makefile:
  "makefile_has_exact_scaffold_marker PROJECT_SCAFFOLD_MAKEFILE"
  "makefile_has_scaffold_test_recipe PROJECT_SCAFFOLD_MAKEFILE"
  by code_simp+

lemma real_recipe_opens: "makefile_has_real_test_recipe makefile \<Longrightarrow>
   \<not> project_lacks_real_validation_gate (Some makefile) ids"
  by (auto simp: project_lacks_real_validation_gate_def makefile_has_real_test_recipe_def split: option.splits)

text \<open>While the provisioned Makefile is in force a change is accepted exactly when it holds no
  product file; and a Makefile with a real test recipe lets every change through.\<close>

theorem scaffold_gate_holds_until_replaced:
  "(scaffold_gate_violation (Some PROJECT_SCAFFOLD_MAKEFILE) files ids = None \<longleftrightarrow>
      executable_product_paths files = []) \<and>
   (scaffold_gate_violation (Some makefile) files ids \<noteq> None \<and> makefile_has_real_test_recipe makefile \<longleftrightarrow> False)"
  using provisioned_makefile(2) real_recipe_opens [of makefile ids]
  by (auto simp: scaffold_gate_violation_def project_lacks_real_validation_gate_def Let_def)

text \<open>
  A prerequisite on the line of the target is taken for a command: the scaffold recipe with one more
  prerequisite counts as a real gate.
\<close>

lemma prerequisite_counts_as_gate:
  "makefile_has_real_test_recipe
     (line ''test: prepare'' @ line ([CHR 0x09] @ ''@echo '' @ [CHR 0x22] @ SCAFFOLD_TEST_ECHO @ [CHR 0x22]))"
  by code_simp

end
