(* ===== verification/Review_Policy.thy ===== *)
theory Review_Policy
  imports Scaffold_Gate Storage_Types
begin

text \<open>
  \<^verbatim>\<open>review/policy.py\<close>: how deep a changed file is reviewed, from the risk of the task and the class
  of the file.
\<close>

datatype review_level = L0 | L1 | L2 | L3

datatype file_class = F_DOCS | F_CODE | F_GENERATED | F_LOCKFILE | F_PRIVILEGED

fun review_level_value :: "review_level \<Rightarrow> string" where
  "review_level_value L0 = ''L0''"
| "review_level_value L1 = ''L1''"
| "review_level_value L2 = ''L2''"
| "review_level_value L3 = ''L3''"

fun file_class_value :: "file_class \<Rightarrow> string" where
  "file_class_value F_DOCS = ''docs''"
| "file_class_value F_CODE = ''code''"
| "file_class_value F_GENERATED = ''generated''"
| "file_class_value F_LOCKFILE = ''lockfile''"
| "file_class_value F_PRIVILEGED = ''privileged''"

definition REVIEW_POLICY_REVISION :: string where
  "REVIEW_POLICY_REVISION = ''review-policy.v1''"

definition PRIVILEGED_PATH_PARTS :: "string set" where
  "PRIVILEGED_PATH_PARTS =
     {''ansible'', ''deploy'', ''deployment'', ''helm'', ''infra'', ''k8s'', ''systemd'', ''terraform''}"

definition LOCKFILE_NAMES :: "string set" where
  "LOCKFILE_NAMES =
     {''package-lock.json'', ''pnpm-lock.yaml'', ''poetry.lock'', ''requirements.txt'', ''uv.lock'',
      ''cargo.lock'', ''go.lock'', ''gemfile.lock''}"

definition GENERATED_SUFFIXES :: "string list" where
  "GENERATED_SUFFIXES =
     [''.min.js'', ''.min.css'', ''.bundle.js'', ''.pb.go'', ''.generated.py'', ''_generated.py'', ''.g.dart'']"

definition GENERATED_DIR_PARTS :: "string set" where
  "GENERATED_DIR_PARTS = {''dist'', ''build'', ''out'', ''__pycache__'', ''.next'', ''coverage''}"

fun level_rank :: "review_level \<Rightarrow> nat" where
  "level_rank L0 = 0"
| "level_rank L1 = 1"
| "level_rank L2 = 2"
| "level_rank L3 = 3"

definition classify_file :: "string \<Rightarrow> file_class" where
  "classify_file path =
     (let normalized = py_lower path;
          parts = set (py_tokens {CHR ''/'', CHR ''.'', CHR ''_'', CHR ''-''} normalized);
          filename = last (py_split_on CHR ''/'' normalized)
      in if parts \<inter> PRIVILEGED_PATH_PARTS \<noteq> {} then F_PRIVILEGED
         else if filename \<in> LOCKFILE_NAMES then F_LOCKFILE
         else if (\<exists>suffix \<in> set GENERATED_SUFFIXES. py_endswith filename suffix) \<or>
                 (\<exists>part \<in> set (py_split_on CHR ''/'' normalized). part \<in> GENERATED_DIR_PARTS)
         then F_GENERATED
         else if path_is_docs_only path then F_DOCS
         else F_CODE)"

definition level_for :: "risk_level \<Rightarrow> file_class \<Rightarrow> bool \<Rightarrow> review_level" where
  "level_for risk file_class l1_enabled =
     (if risk = RISK_PRIVILEGED then L3
      else if risk = RISK_HIGH then (if file_class = F_PRIVILEGED then L3 else L2)
      else if risk = RISK_MEDIUM then L2
      else if file_class = F_PRIVILEGED then L3
      else if file_class \<in> {F_LOCKFILE, F_GENERATED} then L2
      else if file_class = F_DOCS then L0
      else if \<not> l1_enabled then L2
      else L1)"

text \<open>\<open>max(levels, key=rank, default=...)\<close>\<close>

definition higher :: "review_level \<Rightarrow> review_level \<Rightarrow> review_level" where
  "higher best x = (if level_rank best < level_rank x then x else best)"

fun max_level :: "review_level \<Rightarrow> review_level list \<Rightarrow> review_level" where
  "max_level fallback [] = fallback"
| "max_level fallback (l # ls) = foldl higher l ls"

record review_plan =
  rp_policy_revision :: string
  rp_level :: string
  rp_l1_enabled :: bool
  rp_file_classes :: "(string \<times> string) list"

definition overall_level :: "risk_level \<Rightarrow> string list \<Rightarrow> bool \<Rightarrow> review_level" where
  "overall_level risk changed_files l1_enabled =
     max_level (if risk = RISK_PRIVILEGED then L3 else L2)
       (map (\<lambda>path. level_for risk (classify_file path) l1_enabled) changed_files)"

definition resolve_review_plan :: "risk_level \<Rightarrow> string list \<Rightarrow> bool \<Rightarrow> review_plan" where
  "resolve_review_plan risk changed_files l1_enabled =
     \<lparr>rp_policy_revision = REVIEW_POLICY_REVISION,
      rp_level = review_level_value (overall_level risk changed_files l1_enabled),
      rp_l1_enabled = l1_enabled,
      rp_file_classes = foldl (\<lambda>m path. AList.update path (file_class_value (classify_file path)) m) [] changed_files\<rparr>"

definition should_skip_rereview ::
  "string \<Rightarrow> string \<Rightarrow> string \<Rightarrow> string option \<Rightarrow> string \<Rightarrow> string \<Rightarrow> string option \<Rightarrow> string \<Rightarrow> bool" where
  "should_skip_rereview previous_policy_revision previous_base previous_result previous_diff_hash
     base_commit result_commit diff_hash policy_revision =
     (previous_policy_revision = policy_revision \<and> previous_base = base_commit \<and>
      previous_result = result_commit \<and>
      (case previous_diff_hash of None \<Rightarrow> [] | Some h \<Rightarrow> h) = (case diff_hash of None \<Rightarrow> [] | Some h \<Rightarrow> h))"

definition requires_independent :: "review_level \<Rightarrow> bool" where
  "requires_independent level = (level \<in> {L2, L3})"

section \<open>Levels\<close>

lemma foldl_higher_upper: "l \<in> insert a (set xs) \<Longrightarrow> level_rank l \<le> level_rank (foldl higher a xs)"
proof (induction xs arbitrary: a l)
  case (Cons x xs)
  have "level_rank a \<le> level_rank (higher a x)" "level_rank x \<le> level_rank (higher a x)"
    by (simp_all add: higher_def)
  moreover have "level_rank (higher a x) \<le> level_rank (foldl higher (higher a x) xs)"
    by (rule Cons.IH) simp
  ultimately show ?case using Cons.prems Cons.IH [of l "higher a x"] by fastforce
qed simp

lemma foldl_higher_mem: "foldl higher a xs \<in> insert a (set xs)"
proof (induction xs arbitrary: a)
  case (Cons x xs)
  have "higher a x \<in> {a, x}" by (simp add: higher_def)
  then show ?case using Cons.IH [of "higher a x"] by auto
qed simp

lemma max_level_upper: "l \<in> set ls \<Longrightarrow> level_rank l \<le> level_rank (max_level fallback ls)"
  using foldl_higher_upper by (cases ls) auto

lemma max_level_mem: "ls \<noteq> [] \<Longrightarrow> max_level fallback ls \<in> set ls"
  using foldl_higher_mem by (cases ls) auto

fun risk_rank :: "risk_level \<Rightarrow> nat" where
  "risk_rank RISK_LOW = 0"
| "risk_rank RISK_MEDIUM = 1"
| "risk_rank RISK_HIGH = 2"
| "risk_rank RISK_PRIVILEGED = 3"

lemma level_for_mono:
  "risk_rank r \<le> risk_rank r' \<Longrightarrow> r = RISK_LOW \<and> r' \<in> {RISK_MEDIUM, RISK_HIGH} \<longrightarrow> c \<noteq> F_PRIVILEGED \<Longrightarrow>
   level_rank (level_for r c l1) \<le> level_rank (level_for r' c l1)"
  by (cases r; cases r') (auto simp: level_for_def)

text \<open>
  The exception: a privileged path gets the deepest review at low risk, but not at medium risk.
\<close>

lemma medium_risk_lowers_privileged:
  "level_for RISK_LOW F_PRIVILEGED l1 = L3" "level_for RISK_MEDIUM F_PRIVILEGED l1 = L2"
  by (simp_all add: level_for_def)

text \<open>Every file is covered by the overall level, and the files that need a model get one.\<close>

lemma overall_level_upper:
  "path \<in> set files \<Longrightarrow>
   level_rank (level_for risk (classify_file path) l1) \<le> level_rank (overall_level risk files l1)"
  unfolding overall_level_def by (rule max_level_upper) simp

text \<open>The depth of a review is an upper bound over the changed files and never skips a model where
  one is due. Every task of medium risk or more, every privileged, generated or lock file and every
  change without files is reviewed independently; privileged risk always gets the deepest level.\<close>

theorem review_depth_covers_every_file:
  "(\<forall>path \<in> set files. level_rank (level_for risk (classify_file path) l1) \<le>
      level_rank (overall_level risk files l1)) \<and>
   (risk \<noteq> RISK_LOW \<or> files = [] \<or>
      (\<exists>path \<in> set files. classify_file path \<in> {F_PRIVILEGED, F_GENERATED, F_LOCKFILE}) \<longrightarrow>
    requires_independent (overall_level risk files l1)) \<and>
   (risk = RISK_PRIVILEGED \<longrightarrow> overall_level risk files l1 = L3)"
proof -
  have up: "level_rank (level_for risk (classify_file path) l1) \<le> level_rank (overall_level risk files l1)"
    if "path \<in> set files" for path
    using that by (rule overall_level_upper)
  have need: "requires_independent l \<longleftrightarrow> 2 \<le> level_rank l" for l
    by (cases l) (simp_all add: requires_independent_def)
  have one: "requires_independent (overall_level risk files l1)"
    if "path \<in> set files" "2 \<le> level_rank (level_for risk (classify_file path) l1)" for path
    using up [OF that(1)] that(2) need by fastforce
  have "requires_independent (overall_level risk files l1)" if "risk \<noteq> RISK_LOW"
  proof (cases files)
    case Nil
    then show ?thesis by (simp add: overall_level_def requires_independent_def)
  next
    case (Cons path rest)
    then show ?thesis using that by (intro one [of path]) (cases risk; simp add: level_for_def)+
  qed
  moreover have "requires_independent (overall_level risk files l1)" if "files = []"
    using that by (simp add: overall_level_def requires_independent_def)
  moreover have "requires_independent (overall_level risk files l1)"
    if "path \<in> set files" "classify_file path \<in> {F_PRIVILEGED, F_GENERATED, F_LOCKFILE}" for path
    using that by (intro one [of path]) (cases risk; auto simp: level_for_def)+
  moreover have "overall_level risk files l1 = L3" if "risk = RISK_PRIVILEGED"
  proof (cases "files = []")
    case False
    then show ?thesis
      using max_level_mem [of "map (\<lambda>path. level_for risk (classify_file path) l1) files" L3] that
      by (auto simp: overall_level_def level_for_def)
  qed (simp add: overall_level_def that)
  ultimately show ?thesis using up by blast
qed

end
