(* ===== verification/Review_Partitions.thy ===== *)
theory Review_Partitions
  imports Review_Policy
begin

text \<open>
  \<^verbatim>\<open>review/partitions.py\<close>: a large diff is cut into its files, and the files are packed into bounded
  partitions for review. A path is represented by its bytes: decoding with \<open>surrogateescape\<close> is
  injective. SHA-256 is the parameter \<open>sha256\<close>.
\<close>

section \<open>Paths in a diff\<close>

definition BACKSLASH :: char where "BACKSLASH = CHR 0x5C"

definition DQUOTE :: char where "DQUOTE = CHR 0x22"

definition octal_value :: "char \<Rightarrow> nat option" where
  "octal_value c = (let n = of_char c :: nat in if 48 \<le> n \<and> n \<le> 55 then Some (n - 48) else None)"

definition simple_escape :: "char \<Rightarrow> char" where
  "simple_escape c =
     (if c = CHR ''n'' then CHR 0x0A else if c = CHR ''t'' then CHR 0x09 else c)"

text \<open>
  \<open>_unquote_git_path\<close>. An octal escape beyond 255 does not fit a byte: \<open>bytearray.append\<close> raises.
\<close>

fun unquote_git_path :: "bytes \<Rightarrow> error + bytes" where
  "unquote_git_path [] = Inr []"
| "unquote_git_path (c # cs) =
     (if c \<noteq> BACKSLASH then bindE (unquote_git_path cs) (\<lambda>out. Inr (c # out))
      else case cs of
        [] \<Rightarrow> Inl (IndependentReviewError ''truncated escape in quoted diff path'')
      | x # xs \<Rightarrow>
          (case octal_value x of
             None \<Rightarrow> bindE (unquote_git_path xs) (\<lambda>out. Inr (simple_escape x # out))
           | Some a \<Rightarrow>
               (case xs of
                  y # z # rest \<Rightarrow>
                    (case (octal_value y, octal_value z) of
                       (Some b, Some c) \<Rightarrow>
                         if 64 * a + 8 * b + c > 255
                         then Inl (ValueError ''byte must be in range(0, 256)'')
                         else bindE (unquote_git_path rest) (\<lambda>out. Inr (char_of (64 * a + 8 * b + c) # out))
                     | _ \<Rightarrow> Inl (IndependentReviewError ''truncated octal escape in quoted diff path''))
                | _ \<Rightarrow> Inl (IndependentReviewError ''truncated octal escape in quoted diff path''))))"

definition DIFF_GIT_PREFIX :: bytes where
  "DIFF_GIT_PREFIX = ''diff --git ''"

definition quoted_prefix :: bytes where
  "quoted_prefix = DQUOTE # ''a/''"

definition quoted_middle :: bytes where
  "quoted_middle = [DQUOTE, CHR '' '', DQUOTE] @ ''b/''"

text \<open>
  The second group of \<open>re.fullmatch(rb'"a/(.*)" "b/(.*)"', rest)\<close>: the first group is greedy, so the
  last separator counts.
\<close>

definition quoted_b_side :: "bytes \<Rightarrow> bytes option" where
  "quoted_b_side rest =
     (let body = drop 3 (butlast rest)
      in if length rest < 4 \<or> last rest \<noteq> DQUOTE then None
         else map_option (\<lambda>i. drop (i + 5) body) (find_last quoted_middle body))"

definition unparseable :: "string \<Rightarrow> bytes \<Rightarrow> error" where
  "unparseable kind rest = IndependentReviewError (''unparseable '' @ kind @ ''diff header: '' @ py_bytes_repr (take 80 rest))"

definition plain_b_side :: "bytes \<Rightarrow> bytes option" where
  "plain_b_side body =
     map_option (\<lambda>i. drop (i + 3) body)
       (find (\<lambda>i. at_index '' b/'' body i \<and> take i body = drop (i + 3) body) [0..<length body])"

definition parse_header_path :: "bytes \<Rightarrow> error + string" where
  "parse_header_path header =
     (let rest = drop (length DIFF_GIT_PREFIX) header
      in if py_startswith rest quoted_prefix then
           (case quoted_b_side rest of
              None \<Rightarrow> Inl (unparseable ''quoted '' rest)
            | Some quoted \<Rightarrow> unquote_git_path quoted)
         else if \<not> py_startswith rest ''a/'' then Inl (unparseable [] rest)
         else
           (case plain_b_side (drop 2 rest) of
              None \<Rightarrow> Inl (unparseable [] rest)
            | Some path \<Rightarrow> Inr path))"

section \<open>Slices\<close>

text \<open>The offset and the path of every header line.\<close>

fun header_starts :: "nat \<Rightarrow> bytes list \<Rightarrow> error + (nat \<times> string) list" where
  "header_starts offset [] = Inr []"
| "header_starts offset (l # ls) =
     (if py_startswith l DIFF_GIT_PREFIX
      then bindE (parse_header_path l) (\<lambda>path.
           bindE (header_starts (offset + length l + 1) ls) (\<lambda>rest. Inr ((offset, path) # rest)))
      else header_starts (offset + length l + 1) ls)"

fun slices :: "bytes \<Rightarrow> (nat \<times> string) list \<Rightarrow> (string \<times> bytes) list" where
  "slices diff [] = []"
| "slices diff [(start, path)] = [(path, drop start diff)]"
| "slices diff ((start, path) # (next, path') # rest) =
     (path, take (next - start) (drop start diff)) # slices diff ((next, path') # rest)"

definition FULL :: string where "FULL = ''__full__''"

definition split_diff_by_file :: "bytes \<Rightarrow> error + (string \<times> bytes) list" where
  "split_diff_by_file diff =
     bindE (header_starts 0 (py_split_on CHR 0x0A diff)) (\<lambda>starts.
       Inr (if starts = [] then [(FULL, diff)]
            else foldl (\<lambda>out (path, slice). AList.update path slice out) [] (slices diff starts)))"

section \<open>Packing\<close>

record partition =
  pt_id :: string
  pt_files :: "string list"
  pt_file_classes :: "string list"
  pt_level :: string
  pt_diff_hash :: "string option"
  pt_char_count :: nat
  pt_diff_truncated :: bool
  pt_generated_files :: "string list"
  pt_lockfile_files :: "string list"

record partition_manifest =
  pm_schema_version :: string
  pm_policy_revision :: string
  pm_base_commit :: string
  pm_result_commit :: string
  pm_diff_hash :: string
  pm_partitions :: "partition list"
  pm_generated_inventory :: "string list"
  pm_lockfile_inventory :: "string list"
  pm_truncated :: bool
  pm_total_files :: nat
  pm_total_chars :: nat

record git_inspection =
  gi_head :: string
  gi_branch :: string
  gi_changed_files :: "string list"
  gi_diff :: bytes
  gi_added_files :: "string list"

text \<open>First fit: the file goes to the first bucket with room for it, or opens a new one.\<close>

type_synonym bucket = "string list \<times> nat"

definition fits :: "nat \<Rightarrow> nat \<Rightarrow> nat \<Rightarrow> bucket \<Rightarrow> bool" where
  "fits max_files max_chars chars b =
     (length (fst b) < max_files \<and> (snd b + chars \<le> max_chars \<or> fst b = []))"

fun place :: "nat \<Rightarrow> nat \<Rightarrow> string \<Rightarrow> nat \<Rightarrow> bucket list \<Rightarrow> bucket list" where
  "place max_files max_chars path chars [] = [([path], chars)]"
| "place max_files max_chars path chars (b # bs) =
     (if fits max_files max_chars chars b then (fst b @ [path], snd b + chars) # bs
      else b # place max_files max_chars path chars bs)"

definition pack :: "nat \<Rightarrow> nat \<Rightarrow> (string \<Rightarrow> nat) \<Rightarrow> string list \<Rightarrow> bucket list" where
  "pack max_files max_chars chars changed =
     foldl (\<lambda>buckets path. place max_files max_chars path (chars path) buckets) [] changed"

definition single_blob :: "(string \<times> bytes) list \<Rightarrow> bool" where
  "single_blob per_file = (set (map fst per_file) = {FULL})"

definition slice_of :: "(string \<times> bytes) list \<Rightarrow> string \<Rightarrow> bytes" where
  "slice_of per_file path = (case map_of per_file path of None \<Rightarrow> [] | Some b \<Rightarrow> b)"

definition file_size :: "bytes \<Rightarrow> string list \<Rightarrow> (string \<times> bytes) list \<Rightarrow> string \<Rightarrow> nat" where
  "file_size diff changed per_file path =
     (if single_blob per_file then length diff div max (length changed) 1
      else length (slice_of per_file path))"

definition pad2 :: "nat \<Rightarrow> string" where
  "pad2 n = (if n < 10 then ''0'' else []) @ nat_dec n"

definition mk_partition ::
  "(bytes \<Rightarrow> string) \<Rightarrow> risk_level \<Rightarrow> bool \<Rightarrow> nat \<Rightarrow> (string \<times> bytes) list \<Rightarrow> nat \<Rightarrow> nat \<Rightarrow> string list \<Rightarrow> partition" where
  "mk_partition sha256 risk l1_enabled max_chars per_file count number files =
     (let blob = (if single_blob per_file then slice_of per_file FULL
                  else concat (map (slice_of per_file) files));
          char_count = (if single_blob per_file then length blob div count else utf8_length blob)
      in \<lparr>pt_id = ''p'' @ pad2 number, pt_files = files,
          pt_file_classes = map (\<lambda>p. file_class_value (classify_file p)) files,
          pt_level = review_level_value
            (max_level L2 (map (\<lambda>p. level_for risk (classify_file p) l1_enabled) files)),
          pt_diff_hash = (if \<not> single_blob per_file \<and> blob = [] then None else Some (sha256 blob)),
          pt_char_count = char_count,
          pt_diff_truncated = (if single_blob per_file then count > 1 else char_count > max_chars),
          pt_generated_files = filter (\<lambda>p. classify_file p = F_GENERATED) files,
          pt_lockfile_files = filter (\<lambda>p. classify_file p = F_LOCKFILE) files\<rparr>)"

definition validate_manifest ::
  "partition_manifest \<Rightarrow> string list \<Rightarrow> (string \<times> bytes) list option \<Rightarrow> error + unit" where
  "validate_manifest manifest changed_files per_file =
     (let expected = sort changed_files; seen = concat (map pt_files (pm_partitions manifest))
      in case find (\<lambda>p. sort (pt_files p) \<noteq> pt_files p) (pm_partitions manifest) of
           Some p \<Rightarrow> Inl (IndependentReviewError
             (''partition '' @ pt_id p @ '' files are not deterministically ordered''))
         | None \<Rightarrow>
             if sort seen \<noteq> expected
             then Inl (IndependentReviewError (''partition manifest does not cover all required partitions '' @
               ''(expected '' @ nat_dec (length expected) @ '' files, got '' @ nat_dec (length seen) @ '')''))
             else if \<not> distinct seen
             then Inl (IndependentReviewError ''partition manifest has overlapping partitions'')
             else
               (case per_file of
                  None \<Rightarrow> Inr ()
                | Some delivered \<Rightarrow>
                    let missing = filter (\<lambda>path. slice_of delivered path = []) seen
                    in if \<not> single_blob delivered \<and> missing \<noteq> []
                       then Inl (IndependentReviewError
                         (''partition manifest lists files with no delivered diff content: '' @
                          py_join '', '' (take 5 missing)))
                       else Inr ()))"

definition build_manifest ::
  "(bytes \<Rightarrow> string) \<Rightarrow> git_inspection \<Rightarrow> risk_level \<Rightarrow> string \<Rightarrow> string \<Rightarrow> nat \<Rightarrow> nat \<Rightarrow> bool \<Rightarrow> string \<Rightarrow>
   error + partition_manifest" where
  "build_manifest sha256 inspection risk base_commit result_commit max_files max_chars l1_enabled policy_revision =
     (let changed = sort (gi_changed_files inspection); diff = gi_diff inspection
      in bindE (split_diff_by_file diff) (\<lambda>per_file.
         let missing = filter (\<lambda>path. map_of per_file path = None) changed
         in if \<not> single_blob per_file \<and> missing \<noteq> []
            then Inl (IndependentReviewError
              (''partition manifest has no diff content for required files: '' @ py_join '', '' (take 5 missing)))
            else
              let buckets = map fst (pack max_files max_chars (file_size diff changed per_file) changed);
                  partitions = map (\<lambda>(number, files).
                      mk_partition sha256 risk l1_enabled max_chars per_file (length buckets) number files)
                    (enumerate 0 buckets);
                  manifest = \<lparr>pm_schema_version = ''review-partition-manifest.v1'',
                    pm_policy_revision = policy_revision, pm_base_commit = base_commit,
                    pm_result_commit = result_commit, pm_diff_hash = sha256 diff,
                    pm_partitions = partitions,
                    pm_generated_inventory = filter (\<lambda>p. classify_file p = F_GENERATED) changed,
                    pm_lockfile_inventory = filter (\<lambda>p. classify_file p = F_LOCKFILE) changed,
                    pm_truncated = (length buckets > 1 \<or> (\<exists>p \<in> set partitions. pt_diff_truncated p)),
                    pm_total_files = length changed, pm_total_chars = utf8_length diff\<rparr>
              in bindE (validate_manifest manifest changed (Some per_file)) (\<lambda>_. Inr manifest)))"

section \<open>Receipts\<close>

record chunk =
  ck_reference :: string
  ck_content :: string
  ck_content_hash :: string

definition is_digit :: "char \<Rightarrow> bool" where
  "is_digit c = (let n = of_char c :: nat in 48 \<le> n \<and> n \<le> 57)"

definition dec_value :: "string \<Rightarrow> nat" where
  "dec_value s = foldl (\<lambda>acc c. 10 * acc + (of_char c - 48)) 0 s"

text \<open>
  \<open>re.search(r":part-(\d+)-of-(\d+)$", reference)\<close>: the digits at the end, preceded by the fixed
  text and further digits. \<open>$\<close> also matches before a final newline.
\<close>

definition part_of :: "string \<Rightarrow> (nat \<times> nat) option" where
  "part_of reference =
     (let text = (if reference \<noteq> [] \<and> last reference = CHR 0x0A then butlast reference else reference);
          back = rev text;
          parts = takeWhile is_digit back;
          back1 = drop (length parts) back;
          back2 = drop 4 back1;
          index = takeWhile is_digit back2;
          back3 = drop (length index) back2
      in if parts \<noteq> [] \<and> take 4 back1 = rev ''-of-'' \<and> index \<noteq> [] \<and> take 6 back3 = rev '':part-''
         then Some (dec_value (rev index), dec_value (rev parts)) else None)"

definition receipt_step ::
  "(string \<Rightarrow> string) \<Rightarrow> string list \<times> nat list \<times> nat list \<Rightarrow> chunk \<Rightarrow>
   error + string list \<times> nat list \<times> nat list" where
  "receipt_step sha256 st c =
     (case st of (seen, totals, indices) \<Rightarrow>
        if ck_reference c \<in> set seen
        then Inl (IndependentReviewError
          (''duplicate chunk receipt invalidates the review bundle: '' @ ck_reference c))
        else if ck_content_hash c \<noteq> sha256 (ck_content c)
        then Inl (IndependentReviewError (''chunk hash mismatch invalidates the review bundle: '' @ ck_reference c))
        else
          (case part_of (ck_reference c) of
             None \<Rightarrow> Inl (IndependentReviewError
               (''chunk reference is not a verifiable batch item: '' @ ck_reference c))
           | Some (index, parts) \<Rightarrow> Inr (ck_reference c # seen, parts # totals, index # indices)))"

definition verify_chunk_receipts :: "(string \<Rightarrow> string) \<Rightarrow> chunk list \<Rightarrow> error + unit" where
  "verify_chunk_receipts sha256 chunks =
     (if chunks = [] then Inl (IndependentReviewError ''review bundle has no chunks to verify'')
      else
        bindE (foldE (receipt_step sha256) ([], [], []) chunks) (\<lambda>(_, totals, indices).
          case remdups totals of
            [parts] \<Rightarrow>
              if parts \<noteq> length chunks \<or> set indices \<noteq> {1..parts}
              then Inl (IndependentReviewError ''incomplete chunk batch: missing parts'') else Inr ()
          | _ \<Rightarrow> Inl (IndependentReviewError ''incomplete chunk batch: inconsistent totals'')))"

end
