(* ===== verification/Review_Properties.thy ===== *)
theory Review_Properties
  imports Review_Partitions "HOL-Library.Multiset"
begin

text \<open>
  What the partition manifest guarantees: the partitions cover the changed files once each, in bounded
  pieces; the slices of the diff are byte-exact; and quoted paths are read back as they were written.
\<close>

section \<open>Packing\<close>

definition bucket_ok :: "nat \<Rightarrow> nat \<Rightarrow> (string \<Rightarrow> nat) \<Rightarrow> bucket \<Rightarrow> bool" where
  "bucket_ok max_files max_chars weight b \<longleftrightarrow>
     fst b \<noteq> [] \<and> length (fst b) \<le> max 1 max_files \<and> snd b = sum_list (map weight (fst b)) \<and>
     (snd b \<le> max_chars \<or> length (fst b) = 1) \<and> sorted (fst b)"

lemma mset_place:
  "mset (concat (map fst (place mf mc path n bs))) = add_mset path (mset (concat (map fst bs)))"
  by (induction bs) auto

lemma place_ok:
  assumes "\<forall>b \<in> set bs. bucket_ok mf mc weight b" "\<forall>b \<in> set bs. \<forall>x \<in> set (fst b). x \<le> path"
  shows "\<forall>b \<in> set (place mf mc path (weight path) bs). bucket_ok mf mc weight b"
  using assms
proof (induction bs)
  case Nil
  then show ?case by (simp add: bucket_ok_def)
next
  case (Cons b bs)
  show ?case
  proof (cases "fits mf mc (weight path) b")
    case True
    then have "bucket_ok mf mc weight (fst b @ [path], snd b + weight path)"
      using Cons.prems by (auto simp: bucket_ok_def fits_def sorted_append)
    then show ?thesis using True Cons.prems by auto
  next
    case False
    then show ?thesis using Cons by auto
  qed
qed

lemma set_place: "set (concat (map fst (place mf mc path n bs))) = insert path (set (concat (map fst bs)))"
  using arg_cong [OF mset_place, of set_mset] by simp

lemma pack_invariant:
  assumes "sorted xs" "\<forall>b \<in> set bs. bucket_ok mf mc weight b"
    "\<forall>x \<in> set (concat (map fst bs)). \<forall>y \<in> set xs. x \<le> y"
  shows "let out = foldl (\<lambda>buckets path. place mf mc path (weight path) buckets) bs xs
    in mset (concat (map fst out)) = mset (concat (map fst bs)) + mset xs \<and>
       (\<forall>b \<in> set out. bucket_ok mf mc weight b)"
  using assms
proof (induction xs arbitrary: bs)
  case (Cons x xs)
  let ?bs = "place mf mc x (weight x) bs"
  have "\<forall>b \<in> set ?bs. bucket_ok mf mc weight b"
    using Cons.prems by (intro place_ok) auto
  moreover have "\<forall>y \<in> set (concat (map fst ?bs)). \<forall>z \<in> set xs. y \<le> z"
    unfolding set_place using Cons.prems by auto
  ultimately show ?case using Cons.IH [of ?bs] Cons.prems(1) mset_place [of mf mc x "weight x" bs]
    by (simp add: Let_def)
qed simp

lemma pack_buckets:
  assumes "sorted changed"
  shows "mset (concat (map fst (pack mf mc weight changed))) = mset changed"
    and "\<forall>b \<in> set (pack mf mc weight changed). bucket_ok mf mc weight b"
  using pack_invariant [OF assms, of "[]" mf mc weight] by (simp_all add: pack_def Let_def)

section \<open>The manifest\<close>

text \<open>The partitions of a manifest before its final validation.\<close>

definition partitions_for ::
  "(bytes \<Rightarrow> string) \<Rightarrow> git_inspection \<Rightarrow> risk_level \<Rightarrow> nat \<Rightarrow> nat \<Rightarrow> bool \<Rightarrow> (string \<times> bytes) list \<Rightarrow> partition list" where
  "partitions_for sha256 inspection risk mf mc l1 per_file =
     (let changed = sort (gi_changed_files inspection);
          buckets = map fst (pack mf mc (file_size (gi_diff inspection) changed per_file) changed)
      in map (\<lambda>(number, files). mk_partition sha256 risk l1 mc per_file (length buckets) number files)
           (enumerate 0 buckets))"

lemma build_manifestE:
  assumes "build_manifest sha256 inspection risk base result mf mc l1 revision = Inr m"
  obtains per_file where "split_diff_by_file (gi_diff inspection) = Inr per_file"
    "pm_partitions m = partitions_for sha256 inspection risk mf mc l1 per_file"
    "validate_manifest m (sort (gi_changed_files inspection)) (Some per_file) = Inr ()"
  using assms that
  by (auto simp: build_manifest_def partitions_for_def Let_def res_simps split: if_splits)

lemma pt_files_mk [simp]: "pt_files (mk_partition sha256 risk l1 mc per_file n i files) = files"
  by (simp add: mk_partition_def Let_def)

lemma files_of_partitions:
  "map pt_files (partitions_for sha256 inspection risk mf mc l1 per_file) =
   map fst (pack mf mc (file_size (gi_diff inspection) (sort (gi_changed_files inspection)) per_file)
     (sort (gi_changed_files inspection)))"
proof -
  have "map (\<lambda>(i, fs). fs) (enumerate n xs) = xs" for n and xs :: "string list list"
    by (induction xs arbitrary: n) simp_all
  then show ?thesis by (simp add: partitions_for_def Let_def o_def case_prod_unfold)
qed

lemma partition_bucket:
  assumes "p \<in> set (partitions_for sha256 inspection risk mf mc l1 per_file)"
  shows "\<exists>n i b. p = mk_partition sha256 risk l1 mc per_file n i (fst b) \<and>
    bucket_ok mf mc (file_size (gi_diff inspection) (sort (gi_changed_files inspection)) per_file) b"
proof -
  let ?w = "file_size (gi_diff inspection) (sort (gi_changed_files inspection)) per_file"
  let ?bs = "pack mf mc ?w (sort (gi_changed_files inspection))"
  from assms obtain i fs where "(i, fs) \<in> set (enumerate 0 (map fst ?bs))"
    and p: "p = mk_partition sha256 risk l1 mc per_file (length ?bs) i fs"
    by (auto simp: partitions_for_def Let_def)
  then have "fs \<in> set (map fst ?bs)" by (metis in_set_zip snd_conv nth_mem enumerate_eq_zip)
  then obtain b where "b \<in> set ?bs" "fs = fst b" by auto
  with pack_buckets(2) [of "sort (gi_changed_files inspection)" mf mc ?w] have "bucket_ok mf mc ?w b" by simp
  with p \<open>fs = fst b\<close> show ?thesis by blast
qed

lemma truncated_single:
  assumes "bucket_ok mf mc weight b" "\<not> single_blob per_file"
    and "\<And>path. weight path = length (slice_of per_file path)"
    and "pt_diff_truncated (mk_partition sha256 risk l1 mc per_file n i (fst b))"
  shows "length (fst b) = 1"
proof -
  let ?blob = "concat (map (slice_of per_file) (fst b))"
  have "mc < utf8_length ?blob" using assms(2,4) by (simp add: mk_partition_def Let_def)
  also have "\<dots> \<le> length ?blob" by (rule utf8_length_le)
  also have "length ?blob = snd b"
    using assms(1) by (simp add: bucket_ok_def length_concat o_def flip: assms(3))
  finally show ?thesis using assms(1) by (auto simp: bucket_ok_def)
qed

text \<open>The final validation has nothing to object to when every file has its slice.\<close>

lemma validate_ok:
  assumes "mset (concat (map pt_files (pm_partitions m))) = mset changed" "distinct changed"
    "\<And>p. p \<in> set (pm_partitions m) \<Longrightarrow> sorted (pt_files p)"
    "single_blob per_file \<or> (\<forall>path \<in> set changed. slice_of per_file path \<noteq> [])"
  shows "validate_manifest m changed (Some per_file) = Inr ()"
proof -
  let ?seen = "concat (map pt_files (pm_partitions m))"
  have "find (\<lambda>p. sort (pt_files p) \<noteq> pt_files p) (pm_partitions m) = None"
    using assms(3) by (auto simp: find_None_iff sort_key_id_if_sorted sorted_sort_id)
  moreover have "sort ?seen = sort changed"
    using assms(1) by (metis mset_sort properties_for_sort sorted_sort)
  moreover have "distinct ?seen" using assms(1,2) by (metis mset_eq_imp_distinct_iff)
  moreover have "set ?seen = set changed" using assms(1) by (metis set_mset_mset)
  ultimately show ?thesis
    using assms(4) by (auto simp: validate_manifest_def Let_def filter_empty_conv)
qed

section \<open>Slices\<close>

text \<open>Header offsets lie in the diff, in increasing order.\<close>

fun ascending :: "nat \<Rightarrow> nat \<Rightarrow> (nat \<times> string) list \<Rightarrow> bool" where
  "ascending lo n [] = True"
| "ascending lo n ((start, _) # rest) = (lo \<le> start \<and> start \<le> n \<and> ascending start n rest)"

lemma concat_slices:
  "ascending lo (length diff) ((start, path) # rest) \<Longrightarrow>
   concat (map snd (slices diff ((start, path) # rest))) = drop start diff"
proof (induction rest arbitrary: lo start path)
  case (Cons x rest)
  obtain stop path' where x: "x = (stop, path')" by (cases x)
  have "concat (map snd (slices diff ((stop, path') # rest))) = drop stop diff"
    using Cons.prems x by (intro Cons.IH [of start]) simp
  moreover have "drop stop diff = drop (stop - start) (drop start diff)" using Cons.prems x by simp
  ultimately show ?case by (simp add: x del: drop_drop)
qed simp

lemma map_fst_slices: "map fst (slices diff starts) = map snd starts"
  by (induction diff starts rule: slices.induct) auto

lemma length_split_lines: "length s + 1 = sum_list (map (\<lambda>l. length l + 1) (py_split_on c s))"
  by (induction s) (auto split: list.split)

lemma header_starts_ascending:
  assumes "header_starts offset ls = Inr starts" "lo \<le> offset"
    "offset + sum_list (map (\<lambda>l. length l + 1) ls) \<le> n + 1"
  shows "ascending lo n starts"
  using assms
proof (induction ls arbitrary: offset lo starts)
  case (Cons l ls)
  show ?case
  proof (cases "py_startswith l DIFF_GIT_PREFIX")
    case True
    with Cons.prems(1) obtain path rest where st: "starts = (offset, path) # rest"
      "header_starts (offset + length l + 1) ls = Inr rest" by (auto simp: res_simps)
    have "ascending offset n rest" using Cons.prems(3) by (intro Cons.IH [OF st(2)]) auto
    then show ?thesis using Cons.prems(2,3) st(1) by simp
  next
    case False
    then show ?thesis using Cons.prems by (intro Cons.IH [of "offset + length l + 1"]) auto
  qed
qed simp

lemma foldl_update_distinct:
  "distinct (map fst (out @ xs)) \<Longrightarrow>
   foldl (\<lambda>out (path, slice). AList.update path slice out) out xs = out @ xs"
proof (induction xs arbitrary: out)
  case (Cons x xs)
  obtain path slice where x: "x = (path, slice)" by (cases x)
  have "AList.update path slice out = out @ [x]"
    using Cons.prems x by (induction out) auto
  then show ?case using Cons.IH [of "out @ [x]"] Cons.prems x by simp
qed simp

section \<open>Quoted paths\<close>

text \<open>How git writes a path with \<open>core.quotePath\<close>: escapes for the quote, the backslash, tabs and
  newlines, and three octal digits for every byte outside printable ASCII.\<close>

definition octal_digits :: "nat \<Rightarrow> string" where
  "octal_digits n = [char_of (48 + n div 64), char_of (48 + n div 8 mod 8), char_of (48 + n mod 8)]"

definition git_quote_char :: "char \<Rightarrow> string" where
  "git_quote_char c =
     (let n = of_char c :: nat in
        if c = BACKSLASH \<or> c = DQUOTE then [BACKSLASH, c]
        else if c = CHR 0x0A then [BACKSLASH, CHR ''n'']
        else if c = CHR 0x09 then [BACKSLASH, CHR ''t'']
        else if 32 \<le> n \<and> n \<le> 126 then [c]
        else BACKSLASH # octal_digits n)"

definition git_quote :: "bytes \<Rightarrow> bytes" where
  "git_quote p = concat (map git_quote_char p)"

lemma octal_value_digit: "d < 8 \<Longrightarrow> octal_value (char_of (48 + d)) = Some d"
  by (auto simp: octal_value_def Let_def)

lemma octal_sum: "64 * (n div 64) + 8 * (n div 8 mod 8) + n mod 8 = (n :: nat)"
proof -
  have "n div 64 = n div 8 div 8" by (simp flip: div_mult2_eq)
  then show ?thesis using div_mult_mod_eq [of n 8] div_mult_mod_eq [of "n div 8" 8] by linarith
qed

lemma unquote_octal:
  assumes "n < 256"
  shows "unquote_git_path (BACKSLASH # octal_digits n @ rest) =
    bindE (unquote_git_path rest) (\<lambda>out. Inr (char_of n # out))"
proof -
  have "n div 64 < 8" "n div 8 mod 8 < 8" "n mod 8 < 8" using assms by auto
  then show ?thesis
    using assms octal_sum [of n]
    by (simp add: octal_digits_def octal_value_digit del: unquote_git_path.simps)
      (simp add: octal_value_digit)
qed

lemma unquote_char:
  "unquote_git_path (git_quote_char c @ rest) = bindE (unquote_git_path rest) (\<lambda>out. Inr (c # out))"
proof -
  consider "c = BACKSLASH" | "c = DQUOTE" | "c = CHR 0x0A" | "c = CHR 0x09"
    | "c \<notin> {BACKSLASH, DQUOTE, CHR 0x0A, CHR 0x09}" by blast
  then show ?thesis
  proof cases
    case 5
    then show ?thesis
      using unquote_octal [of "of_char c" rest] nat_of_char_less_256 [of c]
      by (auto simp: git_quote_char_def Let_def)
  qed (simp_all add: git_quote_char_def BACKSLASH_def DQUOTE_def octal_value_def simple_escape_def)
qed

lemma unquote_git_quote: "unquote_git_path (git_quote p) = Inr p"
  by (induction p) (simp_all add: git_quote_def unquote_char)

text \<open>In quoted text a quote always follows a backslash, so the separator of a header occurs only once.\<close>

lemma git_quote_escaped:
  "i < length (git_quote p) \<Longrightarrow> git_quote p ! i = DQUOTE \<Longrightarrow> 0 < i \<and> git_quote p ! (i - 1) = BACKSLASH"
proof (induction p arbitrary: i)
  case (Cons c p)
  let ?c = "git_quote_char c"
  have q: "git_quote (c # p) = ?c @ git_quote p" by (simp add: git_quote_def)
  have oct: "char_of (48 + d) \<noteq> DQUOTE" if "d < 8" for d :: nat
  proof
    assume "char_of (48 + d) = DQUOTE"
    then have "of_char (char_of (48 + d) :: char) = (34 :: nat)" by (simp add: DQUOTE_def)
    then show False using that by simp
  qed
  have here: "0 < j \<and> ?c ! (j - 1) = BACKSLASH" if "j < length ?c" "?c ! j = DQUOTE" for j
    using that oct [of "of_char c div 64"] oct [of "of_char c div 8 mod 8"] oct [of "of_char c mod 8"]
      nat_of_char_less_256 [of c]
    by (auto simp: git_quote_char_def Let_def octal_digits_def BACKSLASH_def DQUOTE_def nth_Cons' less_Suc_eq
        split: if_splits)
  show ?case
  proof (cases "i < length ?c")
    case True
    then show ?thesis using here [of i] Cons.prems by (auto simp: q nth_append)
  next
    case False
    then have "0 < i - length ?c \<and> git_quote p ! (i - length ?c - 1) = BACKSLASH"
      using Cons.prems by (intro Cons.IH) (auto simp: q nth_append)
    then show ?thesis using False by (auto simp: q nth_append)
  qed
qed (simp add: git_quote_def)

lemma quoted_middle_nth:
  "quoted_middle ! 0 = DQUOTE" "quoted_middle ! Suc 0 = CHR '' ''" "quoted_middle ! 2 = DQUOTE"
  "quoted_middle ! 3 = CHR ''b''" "quoted_middle ! 4 = CHR ''/''" "length quoted_middle = 5"
  by (simp_all add: quoted_middle_def DQUOTE_def)

lemma at_index_nth: "at_index sub s i \<Longrightarrow> j < length sub \<Longrightarrow> i + j < length s \<and> s ! (i + j) = sub ! j"
proof -
  assume a: "at_index sub s i" and j: "j < length sub"
  then have "sub ! j = take (length sub) (drop i s) ! j" "length (take (length sub) (drop i s)) = length sub"
    by (simp_all add: at_index_def)
  with j show "i + j < length s \<and> s ! (i + j) = sub ! j" by (auto simp: min_def split: if_splits)
qed

lemma middle_once:
  assumes "at_index quoted_middle (quoted_middle @ git_quote p) i"
  shows "i = 0"
proof (rule ccontr)
  assume "i \<noteq> 0"
  let ?s = "quoted_middle @ git_quote p"
  note ch = at_index_nth [OF assms, unfolded quoted_middle_nth(6)]
  have two: "?s ! (i + 2) = DQUOTE" "?s ! (i + 1) = CHR '' ''" "i + 2 < length ?s"
    using ch [of 2] ch [of 1] by (simp_all add: quoted_middle_nth)
  consider "i + 2 = 3" | "i + 2 = 4" | "5 \<le> i + 2" using \<open>i \<noteq> 0\<close> by linarith
  then show False
  proof cases
    case 1
    then show False using two(1) by (simp add: quoted_middle_def DQUOTE_def eval_nat_numeral)
  next
    case 2
    then show False using two(1) by (simp add: quoted_middle_def DQUOTE_def eval_nat_numeral)
  next
    case 3
    let ?j = "i + 2 - 5"
    have "git_quote p ! ?j = DQUOTE" "?j < length (git_quote p)"
      using two 3 by (simp_all add: nth_append quoted_middle_nth)
    from git_quote_escaped [OF this(2,1)] have "0 < ?j" "git_quote p ! (?j - 1) = BACKSLASH" by auto
    then show False using two(2) 3 by (auto simp: nth_append quoted_middle_nth BACKSLASH_def)
  qed
qed

lemma upt_split: "k < n \<Longrightarrow> [0..<n] = [0..<k] @ k # [Suc k..<n]"
  by (induction n) (auto simp: less_Suc_eq)

lemma find_only:
  assumes "P x" "x \<in> set xs" "\<And>y. y \<in> set xs \<Longrightarrow> P y \<Longrightarrow> y = x"
  shows "find P xs = Some x"
proof (cases "find P xs")
  case None
  then show ?thesis using assms(1,2) by (simp add: find_None_iff)
next
  case (Some y)
  then show ?thesis using assms(3) find_SomeD [OF Some] by simp
qed

lemma find_last_middle: "find_last quoted_middle (q @ quoted_middle @ git_quote p) = Some (length q)"
proof -
  let ?s = "q @ quoted_middle @ git_quote p"
  have hit: "at_index quoted_middle ?s (length q)" by (simp add: at_index_def)
  have miss: "\<not> at_index quoted_middle ?s i" if "length q < i" for i
  proof
    assume "at_index quoted_middle ?s i"
    then have "at_index quoted_middle (quoted_middle @ git_quote p) (i - length q)"
      using that by (simp add: at_index_def)
    with middle_once that show False by fastforce
  qed
  obtain xs ys where xs: "rev [0..<Suc (length ?s - length quoted_middle)] = xs @ length q # ys"
    "\<forall>i \<in> set xs. length q < i"
  proof
    let ?n = "Suc (length ?s - length quoted_middle)"
    have "[0..<?n] = [0..<length q] @ length q # [Suc (length q)..<?n]"
      by (rule upt_split) (simp add: quoted_middle_nth(6))
    then show "rev [0..<?n] = rev [Suc (length q)..<?n] @ length q # rev [0..<length q]" by simp
  qed auto
  have "find (at_index quoted_middle ?s) (xs @ length q # ys) = Some (length q)"
    using xs(2) miss hit by (induction xs) auto
  then show ?thesis using xs(1) by (simp add: find_last_def)
qed

text \<open>The header line of a quoted path, and the plain one.\<close>

lemma parse_quoted_header:
  "parse_header_path (DIFF_GIT_PREFIX @ quoted_prefix @ git_quote p @ quoted_middle @ git_quote p @ [DQUOTE]) = Inr p"
proof -
  let ?rest = "quoted_prefix @ git_quote p @ quoted_middle @ git_quote p @ [DQUOTE]"
  have "quoted_b_side ?rest = Some (git_quote p)"
    by (simp add: quoted_b_side_def Let_def butlast_append quoted_prefix_def find_last_middle quoted_middle_nth(6))
  moreover have "py_startswith ?rest quoted_prefix" by (simp add: py_startswith_def)
  ultimately show ?thesis by (simp add: parse_header_path_def Let_def unquote_git_quote)
qed

lemma parse_plain_header: "parse_header_path (DIFF_GIT_PREFIX @ ''a/'' @ p @ '' b/'' @ p) = Inr p"
proof -
  let ?body = "p @ '' b/'' @ p"
  let ?P = "\<lambda>i. at_index '' b/'' ?body i \<and> take i ?body = drop (i + 3) ?body"
  have only: "?P i \<Longrightarrow> i < length ?body \<Longrightarrow> i = length p" for i
    by (drule conjunct2, drule arg_cong [where f = length]) (simp add: min_def split: if_splits)
  have hit: "?P (length p)" by (simp add: at_index_def)
  have "find ?P [0..<length ?body] = Some (length p)"
  proof (rule find_only)
    show "?P (length p)" by (rule hit)
    show "length p \<in> set [0..<length ?body]" by simp
    show "y = length p" if "y \<in> set [0..<length ?body]" "?P y" for y
      by (rule only [OF that(2)]) (use that(1) in \<open>simp only: set_upt atLeastLessThan_iff\<close>)
  qed
  then have "plain_b_side ?body = Some p" by (simp add: plain_b_side_def)
  then show ?thesis
    by (simp add: parse_header_path_def Let_def py_startswith_def quoted_prefix_def DQUOTE_def)
qed

section \<open>Receipts\<close>

lemma receipt_step_Inr:
  "receipt_step sha256 (seen, totals, indices) c = Inr st \<longleftrightarrow>
   ck_reference c \<notin> set seen \<and> ck_content_hash c = sha256 (ck_content c) \<and>
   (\<exists>index n. part_of (ck_reference c) = Some (index, n) \<and>
      st = (ck_reference c # seen, n # totals, index # indices))"
  by (auto simp: receipt_step_def split: if_splits option.splits)

lemma receipts_read:
  assumes "foldE (receipt_step sha256) (seen, totals, indices) chunks = Inr (seen', totals', indices')"
  shows "\<exists>parts. map (\<lambda>c. part_of (ck_reference c)) chunks = map Some parts \<and>
    indices' = rev (map fst parts) @ indices \<and> totals' = rev (map snd parts) @ totals \<and>
    (\<forall>c \<in> set chunks. ck_content_hash c = sha256 (ck_content c)) \<and>
    (distinct seen \<longrightarrow> distinct (map ck_reference chunks) \<and> set (map ck_reference chunks) \<inter> set seen = {})"
  using assms
proof (induction chunks arbitrary: seen totals indices)
  case (Cons c chunks)
  from Cons.prems obtain index n where
    c: "ck_reference c \<notin> set seen" "ck_content_hash c = sha256 (ck_content c)"
      "part_of (ck_reference c) = Some (index, n)"
    and rest: "foldE (receipt_step sha256) (ck_reference c # seen, n # totals, index # indices) chunks =
      Inr (seen', totals', indices')"
    by (auto simp: receipt_step_Inr res_simps)
  from Cons.IH [OF rest] obtain parts where
    "map (\<lambda>c. part_of (ck_reference c)) chunks = map Some parts"
    "indices' = rev (map fst parts) @ index # indices" "totals' = rev (map snd parts) @ n # totals"
    "\<forall>c \<in> set chunks. ck_content_hash c = sha256 (ck_content c)"
    "distinct (ck_reference c # seen) \<longrightarrow>
       distinct (map ck_reference chunks) \<and> set (map ck_reference chunks) \<inter> set (ck_reference c # seen) = {}"
    by blast
  then show ?case using c by (intro exI [of _ "(index, n) # parts"]) auto
qed simp

section \<open>A sample change\<close>

definition sample_diff :: bytes where
  "sample_diff = DIFF_GIT_PREFIX @ ''a/x b/x'' @ [CHR 0x0A] @ ''+1'' @ [CHR 0x0A] @
     DIFF_GIT_PREFIX @ ''a/deploy/y b/deploy/y'' @ [CHR 0x0A] @ ''+2''"

definition sample_inspection :: git_inspection where
  "sample_inspection = \<lparr>gi_head = [], gi_branch = [], gi_changed_files = [''x'', ''deploy/y''], gi_diff = sample_diff,
     gi_added_files = []\<rparr>"

definition sample_manifest :: "error + partition_manifest" where
  "sample_manifest = build_manifest (\<lambda>b. b) sample_inspection RISK_LOW ''base'' ''head'' 1 1000 True ''r''"

definition sample_slices :: "(string \<times> bytes) list" where
  "sample_slices = [(''x'', take 22 sample_diff), (''deploy/y'', drop 22 sample_diff)]"

lemma sample_starts:
  "header_starts 0 (py_split_on CHR 0x0A sample_diff) = Inr ((0, ''x'') # [(22, ''deploy/y'')])"
  by code_simp

lemma sample_split: "split_diff_by_file sample_diff = Inr sample_slices"
  by code_simp

lemma sample_built: "(case sample_manifest of Inl _ \<Rightarrow> False | Inr _ \<Rightarrow> True)"
  by code_simp

section \<open>Properties\<close>

text \<open>C32. The partitions of a manifest are the changed files, each exactly once, in bounded pieces. Every
  partition is a sorted, non-empty list of at most the allowed number of files, and where the diff can
  be attributed to files only a partition of a single file is larger than its budget.\<close>

theorem partitions_cover_the_change:
  assumes "build_manifest sha256 inspection risk base result mf mc l1 revision = Inr m"
  shows "mset (concat (map pt_files (pm_partitions m))) = mset (gi_changed_files inspection) \<and>
    distinct (concat (map pt_files (pm_partitions m))) \<and>
    (\<forall>p \<in> set (pm_partitions m). pt_files p \<noteq> [] \<and> sorted (pt_files p) \<and>
       length (pt_files p) \<le> max 1 mf) \<and>
    (\<forall>per_file. split_diff_by_file (gi_diff inspection) = Inr per_file \<and> \<not> single_blob per_file \<longrightarrow>
       (\<forall>p \<in> set (pm_partitions m). pt_diff_truncated p \<longrightarrow> length (pt_files p) = 1))"
proof -
  obtain per_file where split: "split_diff_by_file (gi_diff inspection) = Inr per_file"
    and parts: "pm_partitions m = partitions_for sha256 inspection risk mf mc l1 per_file"
    and valid: "validate_manifest m (sort (gi_changed_files inspection)) (Some per_file) = Inr ()"
    using build_manifestE [OF assms] by metis
  let ?changed = "sort (gi_changed_files inspection)"
  let ?w = "file_size (gi_diff inspection) ?changed per_file"
  have "map pt_files (pm_partitions m) = map fst (pack mf mc ?w ?changed)"
    by (simp add: parts files_of_partitions)
  then have cover: "mset (concat (map pt_files (pm_partitions m))) = mset (gi_changed_files inspection)"
    using pack_buckets(1) [of ?changed mf mc ?w] by simp
  have dist: "distinct (concat (map pt_files (pm_partitions m)))"
    using valid by (auto simp: validate_manifest_def Let_def split: option.splits if_splits)
  have each: "pt_files p \<noteq> [] \<and> sorted (pt_files p) \<and> length (pt_files p) \<le> max 1 mf \<and>
      (\<not> single_blob per_file \<and> pt_diff_truncated p \<longrightarrow> length (pt_files p) = 1)"
    if "p \<in> set (pm_partitions m)" for p
  proof -
    from partition_bucket that parts obtain n i b where
      p: "p = mk_partition sha256 risk l1 mc per_file n i (fst b)" and b: "bucket_ok mf mc ?w b" by metis
    have "length (fst b) = 1" if "\<not> single_blob per_file" "pt_diff_truncated p"
      using truncated_single [OF b that(1), of sha256 risk l1 n i] that p by (simp add: file_size_def)
    then show ?thesis using b p by (simp add: bucket_ok_def)
  qed
  show ?thesis using cover dist each split by auto
qed

theorem partitions_cover_the_change_witness:
  "\<exists>m. sample_manifest = Inr m \<and> mset (concat (map pt_files (pm_partitions m))) = {#''x'', ''deploy/y''#}"
proof -
  obtain m where "sample_manifest = Inr m" using sample_built by (auto split: sum.splits)
  with partitions_cover_the_change [OF this [unfolded sample_manifest_def]] show ?thesis
    by (auto simp: sample_inspection_def)
qed

text \<open>A manifest is always built when it can be: for distinct changed files, each with its slice of
  the diff, neither the coverage check nor the final validation refuses.\<close>

theorem manifest_is_built:
  assumes "distinct (gi_changed_files inspection)" and "split_diff_by_file (gi_diff inspection) = Inr per_file"
    and "\<forall>path \<in> set (gi_changed_files inspection). slice_of per_file path \<noteq> []"
  shows "\<exists>m. build_manifest sha256 inspection risk base result mf mc l1 revision = Inr m"
proof -
  let ?changed = "sort (gi_changed_files inspection)"
  let ?parts = "partitions_for sha256 inspection risk mf mc l1 per_file"
  let ?w = "file_size (gi_diff inspection) ?changed per_file"
  have sorted: "sorted (pt_files p)" if "p \<in> set ?parts" for p
    using partition_bucket [OF that] by (auto simp: bucket_ok_def)
  have cover: "mset (concat (map pt_files ?parts)) = mset ?changed"
    using pack_buckets(1) [of ?changed mf mc ?w] by (simp add: files_of_partitions)
  have valid: "validate_manifest m ?changed (Some per_file) = Inr ()" if "pm_partitions m = ?parts" for m
    using that sorted cover assms(1,3) by (intro validate_ok) simp_all
  have "filter (\<lambda>path. map_of per_file path = None) ?changed = []"
    using assms(3) by (fastforce simp: filter_empty_conv slice_of_def split: option.splits)
  then show ?thesis
    using assms(2) by (simp add: build_manifest_def Let_def valid partitions_for_def)
qed



text \<open>A path is read back from its header as it was written, with or without quoting: both forms of
  the header that git writes for any path give that path.\<close>

theorem diff_header_roundtrip:
  "parse_header_path (DIFF_GIT_PREFIX @ quoted_prefix @ git_quote p @ quoted_middle @ git_quote p @ [DQUOTE]) =
     Inr p \<and>
   parse_header_path (DIFF_GIT_PREFIX @ ''a/'' @ p @ '' b/'' @ p) = Inr p"
  using parse_quoted_header parse_plain_header by blast

text \<open>C34. Accepted chunk receipts are one complete batch: every chunk carries the hash of its content
  and the number of chunks as its total, no reference repeats, and the part numbers are 1 to that
  total, each of them once.\<close>

theorem accepted_receipts_are_complete:
  assumes "verify_chunk_receipts sha256 chunks = Inr ()"
  shows "chunks \<noteq> [] \<and> distinct (map ck_reference chunks) \<and>
    (\<forall>c \<in> set chunks. ck_content_hash c = sha256 (ck_content c)) \<and>
    (\<exists>indices. map (\<lambda>c. part_of (ck_reference c)) chunks = map (\<lambda>i. Some (i, length chunks)) indices \<and>
       distinct indices \<and> set indices = {1..length chunks})"
proof -
  from assms obtain seen totals indices where
    read: "foldE (receipt_step sha256) ([], [], []) chunks = Inr (seen, totals, indices)"
    and tot: "remdups totals = [length chunks]" and ind: "set indices = {1..length chunks}" and "chunks \<noteq> []"
  proof -
    from assms obtain seen totals indices where "chunks \<noteq> []"
      and read: "foldE (receipt_step sha256) ([], [], []) chunks = Inr (seen, totals, indices)"
      and fin: "(case remdups totals of
          [n] \<Rightarrow> if n \<noteq> length chunks \<or> set indices \<noteq> {1..n}
            then Inl (IndependentReviewError ''incomplete chunk batch: missing parts'') else Inr ()
        | _ \<Rightarrow> Inl (IndependentReviewError ''incomplete chunk batch: inconsistent totals'')) = Inr ()"
      by (auto simp: verify_chunk_receipts_def res_simps split: if_splits)
    from fin obtain n where "remdups totals = [n]"
      by (cases "remdups totals") (auto split: list.splits)
    with fin have "remdups totals = [length chunks]" "set indices = {1..length chunks}"
      by (auto split: if_splits)
    then show thesis using that read \<open>chunks \<noteq> []\<close> by blast
  qed
  from receipts_read [OF read] obtain parts where
    parts: "map (\<lambda>c. part_of (ck_reference c)) chunks = map Some parts" "indices = rev (map fst parts)"
    "totals = rev (map snd parts)" and ok: "\<forall>c \<in> set chunks. ck_content_hash c = sha256 (ck_content c)"
    "distinct (map ck_reference chunks)" by auto
  have len: "length parts = length chunks" using arg_cong [OF parts(1), of length] by simp
  have "set totals = {length chunks}" using arg_cong [OF tot, of set] by simp
  then have all: "snd x = length chunks" if "x \<in> set parts" for x
    using that by (auto simp: parts(3))
  have "map Some parts = map (\<lambda>i. Some (i, length chunks)) (map fst parts)"
    using all by (auto simp: o_def intro!: map_cong)
  moreover have set: "set (map fst parts) = {1..length chunks}" using ind parts(2) by simp
  moreover have "distinct (map fst parts)" using set len by (intro card_distinct) simp
  ultimately show ?thesis using \<open>chunks \<noteq> []\<close> ok parts(1) by metis
qed

theorem accepted_receipts_are_complete_witness:
  "distinct (map ck_reference [\<lparr>ck_reference = ''r:part-2-of-2'', ck_content = ''b'', ck_content_hash = ''b''\<rparr>,
     \<lparr>ck_reference = ''r:part-1-of-2'', ck_content = ''a'', ck_content_hash = ''a''\<rparr>])"
proof -
  have "verify_chunk_receipts (\<lambda>s. s)
      [\<lparr>ck_reference = ''r:part-2-of-2'', ck_content = ''b'', ck_content_hash = ''b''\<rparr>,
       \<lparr>ck_reference = ''r:part-1-of-2'', ck_content = ''a'', ck_content_hash = ''a''\<rparr>] = Inr ()"
    by code_simp
  from accepted_receipts_are_complete [OF this] show ?thesis by blast
qed

end
