(* ===== verification/Message_Format.thy ===== *)
theory Message_Format
  imports Vuzol_Prelude
begin

text \<open>
  The renderers of \<^verbatim>\<open>telegram/formatting.py\<close>: CommonMark, parsed by the Markdown library, becomes
  the HTML subset of Telegram. Text is a list of Unicode code points. The tokens are those of the
  library; the scheme of a link is the parameter \<open>scheme\<close>, what \<open>urlparse\<close> returns for it.
\<close>

type_synonym utext = "nat list"

definition tx :: "string \<Rightarrow> utext" where
  "tx s = map of_char s"

definition uni_space :: "nat \<Rightarrow> bool" where
  "uni_space c =
     ((9 \<le> c \<and> c \<le> 13) \<or> (28 \<le> c \<and> c \<le> 32) \<or> c \<in> {133, 160, 5760} \<or> (8192 \<le> c \<and> c \<le> 8202) \<or>
      c \<in> {8232, 8233, 8239, 8287, 12288})"

definition uni_strip :: "utext \<Rightarrow> utext" where
  "uni_strip t = rev (dropWhile uni_space (rev (dropWhile uni_space t)))"

section \<open>Escaping\<close>

definition LT :: nat where "LT = 60"

definition GT :: nat where "GT = 62"

definition AMP :: nat where "AMP = 38"

definition escape_char :: "bool \<Rightarrow> nat \<Rightarrow> utext" where
  "escape_char quote c =
     (if c = AMP then tx ''&amp;'' else if c = LT then tx ''&lt;'' else if c = GT then tx ''&gt;''
      else if quote \<and> c = 34 then tx ''&quot;'' else if quote \<and> c = 39 then tx ''&#x27;'' else [c])"

definition html_escape :: "bool \<Rightarrow> utext \<Rightarrow> utext" where
  "html_escape quote t = concat (map (escape_char quote) t)"

section \<open>Tokens\<close>

record inline_token =
  it_type :: string
  it_content :: utext
  it_href :: "utext option"

record md_token =
  tk_type :: string
  tk_tag :: string
  tk_nesting :: int
  tk_level :: nat
  tk_content :: utext
  tk_info :: utext
  tk_hidden :: bool
  tk_start :: "int option"
  tk_style :: "utext option"
  tk_children :: "inline_token list"

definition safe_link :: "(utext \<Rightarrow> utext) \<Rightarrow> utext \<Rightarrow> bool" where
  "safe_link scheme value =
     (scheme value \<in> {tx ''http'', tx ''https'', tx ''tg'', tx ''mailto''})"

text \<open>\<open>_render_inline\<close>: the stack remembers which open links were written.\<close>

definition render_one :: "(utext \<Rightarrow> utext) \<Rightarrow> utext list \<times> bool list \<Rightarrow> inline_token \<Rightarrow> error + utext list \<times> bool list" where
  "render_one scheme st token =
     (case st of (output, links) \<Rightarrow>
        let kind = it_type token; write = (\<lambda>t. Inr (output @ [t], links))
        in if kind = ''text'' then write (html_escape False (it_content token))
           else if kind = ''code_inline''
           then write (tx ''<code>'' @ html_escape False (it_content token) @ tx ''</code>'')
           else if kind \<in> {''softbreak'', ''hardbreak''} then write [10]
           else if kind = ''strong_open'' then write (tx ''<b>'')
           else if kind = ''strong_close'' then write (tx ''</b>'')
           else if kind = ''em_open'' then write (tx ''<i>'')
           else if kind = ''em_close'' then write (tx ''</i>'')
           else if kind = ''s_open'' then write (tx ''<s>'')
           else if kind = ''s_close'' then write (tx ''</s>'')
           else if kind = ''link_open'' then
             let href = (case it_href token of None \<Rightarrow> [] | Some h \<Rightarrow> h)
             in if safe_link scheme href
                then Inr (output @ [tx ''<a href='' @ [34] @ html_escape True href @ [34, GT]], True # links)
                else Inr (output, False # links)
           else if kind = ''link_close'' then
             (case links of
                [] \<Rightarrow> Inl (LookupError ''pop from empty list'')
              | written # rest \<Rightarrow> Inr (if written then output @ [tx ''</a>''] else output, rest))
           else if kind \<in> {''image'', ''html_inline''} then write (html_escape False (it_content token))
           else Inr (output, links))"

definition render_inline :: "(utext \<Rightarrow> utext) \<Rightarrow> inline_token list \<Rightarrow> error + utext" where
  "render_inline scheme tokens =
     bindE (foldE (render_one scheme) ([], []) tokens) (\<lambda>(output, _). Inr (concat output))"

text \<open>The first word of the info string, and the code block it labels.\<close>

definition language_of :: "utext \<Rightarrow> utext" where
  "language_of info = takeWhile (\<lambda>c. \<not> uni_space c) (uni_strip info)"

definition code_block :: "bool \<Rightarrow> md_token \<Rightarrow> utext" where
  "code_block quote token =
     (let language = language_of (tk_info token);
          attribute = (if language \<noteq> []
            then tx '' class='' @ [34] @ tx ''language-'' @ html_escape True language @ [34] else [])
      in tx ''<pre><code'' @ attribute @ [GT] @ html_escape quote (tk_content token) @ tx ''</code></pre>'')"

section \<open>Ordinary messages\<close>

datatype md_list = BulletList | OrderedList int

definition nested_indent :: "md_list list \<Rightarrow> utext" where
  "nested_indent levels = replicate (2 * (length levels - 1)) 32"

definition list_item :: "md_list list \<Rightarrow> utext \<times> md_list list" where
  "list_item levels =
     (case levels of
        OrderedList number # rest \<Rightarrow>
          (nested_indent levels @ tx (int_dec number) @ tx ''. '', OrderedList (number + 1) # rest)
      | _ \<Rightarrow> (nested_indent levels @ [8226, 32], levels))"

text \<open>The innermost list is the head of the stack.\<close>

definition render_block ::
  "(utext \<Rightarrow> utext) \<Rightarrow> utext list \<times> md_list list \<Rightarrow> md_token \<Rightarrow> error + utext list \<times> md_list list" where
  "render_block scheme st token =
     (case st of (output, levels) \<Rightarrow>
        let kind = tk_type token; write = (\<lambda>t. Inr (output @ [t], levels))
        in if kind = ''inline'' then bindE (render_inline scheme (tk_children token)) write
           else if kind = ''heading_open'' then write (tx ''<b>'')
           else if kind = ''heading_close'' then write (tx ''</b>'' @ [10])
           else if kind = ''paragraph_close'' \<and> \<not> tk_hidden token then write [10, 10]
           else if kind = ''bullet_list_open'' then Inr (output, BulletList # levels)
           else if kind = ''ordered_list_open''
           then Inr (output, OrderedList (case tk_start token of
                  None \<Rightarrow> 1 | Some n \<Rightarrow> if n = 0 then 1 else n) # levels)
           else if kind \<in> {''bullet_list_close'', ''ordered_list_close''} then
             (case levels of
                [] \<Rightarrow> Inl (LookupError ''pop from empty list'')
              | _ # rest \<Rightarrow> Inr (output @ [[10]], rest))
           else if kind = ''list_item_open''
           then Inr (output @ [fst (list_item levels)], snd (list_item levels))
           else if kind = ''list_item_close'' then write [10]
           else if kind = ''blockquote_open'' then write (tx ''<blockquote>'')
           else if kind = ''blockquote_close'' then write (tx ''</blockquote>'' @ [10])
           else if kind \<in> {''fence'', ''code_block''} then write (code_block False token @ [10])
           else if kind = ''hr'' then write (replicate 8 9472 @ [10])
           else if kind = ''html_block'' then write (html_escape False (tk_content token))
           else Inr (output, levels))"

definition telegram_markdown_html :: "(utext \<Rightarrow> utext) \<Rightarrow> md_token list \<Rightarrow> error + utext" where
  "telegram_markdown_html scheme tokens =
     bindE (foldE (render_block scheme) ([], []) tokens) (\<lambda>(output, _). Inr (uni_strip (concat output)))"

section \<open>Rich posts\<close>

definition RICH_BLOCK_TAGS :: "string set" where
  "RICH_BLOCK_TAGS =
     {''p'', ''blockquote'', ''ul'', ''ol'', ''li'', ''table'', ''tr'', ''th'', ''td'', ''h1'', ''h2'', ''h3'',
      ''h4'', ''h5'', ''h6''}"

definition text_removeprefix :: "utext \<Rightarrow> utext \<Rightarrow> utext" where
  "text_removeprefix prefix t = (if take (length prefix) t = prefix then drop (length prefix) t else t)"

definition tag_attribute :: "md_token \<Rightarrow> utext" where
  "tag_attribute token =
     (let alignment = text_removeprefix (tx ''text-align:'') (case tk_style token of None \<Rightarrow> [] | Some s \<Rightarrow> s);
          start = (case tk_start token of
            Some n \<Rightarrow> if tk_tag token = ''ol'' then tx '' start='' @ [34] @ tx (int_dec n) @ [34] else []
          | None \<Rightarrow> [])
      in if tk_tag token \<in> {''th'', ''td''} \<and> alignment \<in> {tx ''left'', tx ''center'', tx ''right''}
         then tx '' align='' @ [34] @ alignment @ [34] else start)"

text \<open>What a token writes, and whether it opens a block.\<close>

definition rich_piece :: "(utext \<Rightarrow> utext) \<Rightarrow> md_token \<Rightarrow> error + utext list \<times> nat" where
  "rich_piece scheme token =
     (if tk_type token = ''inline'' then bindE (render_inline scheme (tk_children token)) (\<lambda>t. Inr ([t], 0))
      else if tk_nesting token \<noteq> 0 \<and> tk_tag token \<in> RICH_BLOCK_TAGS then
        Inr (if tk_nesting token = 1
             then ([LT # tx (tk_tag token) @ tag_attribute token @ [GT]], 1)
             else ([tx ''</'' @ tx (tk_tag token) @ [GT]], 0))
      else if tk_type token \<in> {''fence'', ''code_block''} then Inr ([code_block True token], 1)
      else if tk_type token = ''hr'' then Inr ([tx ''<hr/>''], 1)
      else if tk_type token = ''html_block''
      then Inr ([tx ''<p>'' @ html_escape True (tk_content token) @ tx ''</p>''], 1)
      else Inr ([], 0))"

fun rich_loop :: "(utext \<Rightarrow> utext) \<Rightarrow> utext list \<Rightarrow> nat \<Rightarrow> md_token list \<Rightarrow> error + utext list option" where
  "rich_loop scheme output blocks [] = Inr (Some output)"
| "rich_loop scheme output blocks (token # tokens) =
     (if 16 \<le> tk_level token then Inr None
      else bindE (rich_piece scheme token) (\<lambda>(pieces, opened).
        if blocks + opened > 500 then Inr None
        else rich_loop scheme (output @ pieces) (blocks + opened) tokens))"

definition telegram_rich_html :: "(utext \<Rightarrow> utext) \<Rightarrow> md_token list \<Rightarrow> error + utext option" where
  "telegram_rich_html scheme tokens =
     bindE (rich_loop scheme [] 0 tokens) (\<lambda>output.
       Inr (case output of
              None \<Rightarrow> None
            | Some pieces \<Rightarrow>
                let rendered = concat pieces
                in if rendered \<noteq> [] \<and> length rendered \<le> 32768 then Some rendered else None))"

end
