(* ===== verification/Message_Splitter.thy ===== *)
theory Message_Splitter
  imports Message_Format
begin

text \<open>
  \<open>_TelegramHtmlSplitter\<close> of \<^verbatim>\<open>telegram/formatting.py\<close>: rendered HTML is cut into messages of a
  bounded number of UTF-16 units. The HTML parser of the standard library drives it; the model takes
  the sequence of its callbacks. \<open>unescape\<close> is \<open>html.unescape\<close>.
\<close>

datatype html_event =
    StartTag string utext   \<comment> \<open>name and text of the tag as written\<close>
  | EndTag string
  | Data utext
  | Entity utext           \<comment> \<open>the reference as written\<close>

record splitter =
  sp_parts :: "(utext \<times> utext) list"
  sp_tags :: "(string \<times> utext) list"   \<comment> \<open>innermost first\<close>
  sp_markup :: "utext list"
  sp_plain :: "utext list"
  sp_units :: nat

definition empty_splitter :: splitter where
  "empty_splitter = \<lparr>sp_parts = [], sp_tags = [], sp_markup = [], sp_plain = [], sp_units = 0\<rparr>"

text \<open>UTF-16 units of a character and of a text.\<close>

definition width :: "nat \<Rightarrow> nat" where
  "width c = (if c > 65535 then 2 else 1)"

definition utf16_units :: "utext \<Rightarrow> nat" where
  "utf16_units t = sum_list (map width t)"

definition closing_tag :: "string \<Rightarrow> utext" where
  "closing_tag tag = tx ''</'' @ tx tag @ [GT]"

definition flush :: "splitter \<Rightarrow> splitter" where
  "flush st =
     (if sp_units st = 0 then st
      else st\<lparr>sp_parts := sp_parts st @
                [(concat (sp_markup st) @ concat (map (closing_tag \<circ> fst) (sp_tags st)),
                  html_escape True (concat (sp_plain st)))],
              sp_markup := rev (map snd (sp_tags st)), sp_plain := [], sp_units := 0\<rparr>)"

definition handle_starttag :: "string \<Rightarrow> utext \<Rightarrow> splitter \<Rightarrow> splitter" where
  "handle_starttag tag opening st =
     st\<lparr>sp_tags := (tag, opening) # sp_tags st, sp_markup := sp_markup st @ [opening]\<rparr>"

definition handle_endtag :: "string \<Rightarrow> splitter \<Rightarrow> error + splitter" where
  "handle_endtag tag st =
     (case sp_tags st of
        [] \<Rightarrow> Inl AssertionError
      | (open_tag, _) # rest \<Rightarrow>
          if open_tag \<noteq> tag then Inl AssertionError
          else Inr (st\<lparr>sp_tags := rest, sp_markup := sp_markup st @ [closing_tag tag]\<rparr>))"

text \<open>The longest prefix that fits into the units left.\<close>

fun fitting :: "nat \<Rightarrow> utext \<Rightarrow> nat" where
  "fitting available [] = 0"
| "fitting available (c # cs) =
     (if width c > available then 0 else Suc (fitting (available - width c) cs))"

text \<open>The position after the last line or word boundary of a prefix, if it lies in its second half.\<close>

definition boundary_cut :: "utext \<Rightarrow> nat \<Rightarrow> nat" where
  "boundary_cut rest k =
     (case find (\<lambda>i. rest ! i \<in> {10, 32}) (rev [0..<k]) of
        Some i \<Rightarrow> if k < length rest \<and> k div 2 \<le> i then Suc i else k
      | None \<Rightarrow> k)"

definition emit :: "utext \<Rightarrow> splitter \<Rightarrow> splitter" where
  "emit t st = st\<lparr>sp_markup := sp_markup st @ [html_escape False t], sp_plain := sp_plain st @ [t],
     sp_units := sp_units st + utf16_units t\<rparr>"

text \<open>\<open>handle_data\<close>, on the rest of the data. The loop of the code need not end for every limit.\<close>

partial_function (option) handle_data :: "nat \<Rightarrow> utext \<Rightarrow> splitter \<Rightarrow> splitter option" where
  "handle_data limit rest st =
     (if rest = [] then Some st
      else
        let k = fitting (limit - sp_units st) rest
        in if k = 0 then handle_data limit rest (flush st)
           else
             let cut = boundary_cut rest k;
                 st1 = emit (take cut rest) st
             in handle_data limit (drop cut rest) (if cut < length rest then flush st1 else st1))"

definition handle_entity :: "(utext \<Rightarrow> utext) \<Rightarrow> nat \<Rightarrow> utext \<Rightarrow> splitter \<Rightarrow> splitter" where
  "handle_entity unescape limit escaped st =
     (let decoded = unescape escaped; w = utf16_units decoded;
          st1 = (if sp_units st + w > limit then flush st else st)
      in st1\<lparr>sp_markup := sp_markup st1 @ [escaped], sp_plain := sp_plain st1 @ [decoded],
             sp_units := sp_units st1 + w\<rparr>)"

definition handle_event :: "(utext \<Rightarrow> utext) \<Rightarrow> nat \<Rightarrow> html_event \<Rightarrow> splitter \<Rightarrow> (error + splitter) option" where
  "handle_event unescape limit e st =
     (case e of
        StartTag tag opening \<Rightarrow> Some (Inr (handle_starttag tag opening st))
      | EndTag tag \<Rightarrow> Some (handle_endtag tag st)
      | Data t \<Rightarrow> map_option Inr (handle_data limit t st)
      | Entity escaped \<Rightarrow> Some (Inr (handle_entity unescape limit escaped st)))"

fun feed :: "(utext \<Rightarrow> utext) \<Rightarrow> nat \<Rightarrow> html_event list \<Rightarrow> splitter \<Rightarrow> (error + splitter) option" where
  "feed unescape limit [] st = Some (Inr st)"
| "feed unescape limit (e # es) st =
     (case handle_event unescape limit e st of
        None \<Rightarrow> None
      | Some (Inl err) \<Rightarrow> Some (Inl err)
      | Some (Inr st') \<Rightarrow> feed unescape limit es st')"

definition finish :: "splitter \<Rightarrow> error + (utext \<times> utext) list" where
  "finish st =
     (if sp_tags st \<noteq> [] then Inl AssertionError
      else Inr (if sp_parts (flush st) = [] then [([], [])] else sp_parts (flush st)))"

text \<open>\<open>telegram_markdown_parts\<close> on the callbacks for the rendered message.\<close>

definition telegram_markdown_parts ::
  "(utext \<Rightarrow> utext) \<Rightarrow> nat \<Rightarrow> html_event list \<Rightarrow> (error + (utext \<times> utext) list) option" where
  "telegram_markdown_parts unescape limit events =
     (if limit < 2 then Some (Inl (ValueError ''message limit must accommodate a Unicode code point''))
      else
        case feed unescape limit events empty_splitter of
          None \<Rightarrow> None
        | Some (Inl err) \<Rightarrow> Some (Inl err)
        | Some (Inr st) \<Rightarrow> Some (finish st))"

section \<open>Cutting\<close>

lemma utf16_units_Nil [simp]: "utf16_units [] = 0"
  by (simp add: utf16_units_def)

lemma utf16_units_append [simp]: "utf16_units (s @ t) = utf16_units s + utf16_units t"
  by (simp add: utf16_units_def)

lemma utf16_units_zero: "utf16_units t = 0 \<longleftrightarrow> t = []"
  by (cases t) (auto simp: utf16_units_def width_def)

lemma html_escape_append [simp]: "html_escape q (s @ t) = html_escape q s @ html_escape q t"
  by (simp add: html_escape_def)

lemma fitting_le: "fitting n t \<le> length t"
  by (induction n t rule: fitting.induct) auto

lemma fitting_units: "utf16_units (take (fitting n t) t) \<le> n"
  by (induction n t rule: fitting.induct) (auto simp: utf16_units_def)

lemma fitting_pos: "2 \<le> n \<Longrightarrow> t \<noteq> [] \<Longrightarrow> 0 < fitting n t"
  by (cases t) (auto simp: width_def)

lemma boundary_cut_bounds: "0 < k \<Longrightarrow> 0 < boundary_cut rest k \<and> boundary_cut rest k \<le> k"
proof (cases "find (\<lambda>i. rest ! i \<in> {10, 32}) (rev [0..<k])")
  case (Some i)
  then have "i < k" by (auto dest: find_SomeD)
  then show "0 < k \<Longrightarrow> 0 < boundary_cut rest k \<and> boundary_cut rest k \<le> k"
    unfolding boundary_cut_def Some by simp
qed (simp add: boundary_cut_def)

lemma units_take_mono: "i \<le> j \<Longrightarrow> utf16_units (take i t) \<le> utf16_units (take j t)"
  by (metis le_add1 utf16_units_append take_add le_Suc_ex)

section \<open>Balanced markup\<close>

text \<open>Markup is a sequence of tags and texts; reading it moves a stack of open tags, innermost first.\<close>

datatype piece = POpen string utext | PClose string | PText utext

fun piece_text :: "piece \<Rightarrow> utext" where
  "piece_text (POpen _ opening) = opening"
| "piece_text (PClose tag) = closing_tag tag"
| "piece_text (PText t) = t"

fun stack_after :: "piece list \<Rightarrow> string list \<Rightarrow> string list option" where
  "stack_after [] stack = Some stack"
| "stack_after (POpen tag _ # ps) stack = stack_after ps (tag # stack)"
| "stack_after (PText _ # ps) stack = stack_after ps stack"
| "stack_after (PClose tag # ps) stack =
     (case stack of [] \<Rightarrow> None | inner # rest \<Rightarrow> if inner = tag then stack_after ps rest else None)"

definition reads_as :: "utext \<Rightarrow> string list \<Rightarrow> bool" where
  "reads_as markup stack \<longleftrightarrow> (\<exists>ps. markup = concat (map piece_text ps) \<and> stack_after ps [] = Some stack)"

lemma stack_after_append: "stack_after (ps @ qs) s = Option.bind (stack_after ps s) (stack_after qs)"
  by (induction ps s rule: stack_after.induct) (auto split: list.splits)

lemma reads_as_append:
  assumes "reads_as markup stack" "stack_after ps stack = Some stack'"
  shows "reads_as (markup @ concat (map piece_text ps)) stack'"
proof -
  from assms(1) obtain qs where "markup = concat (map piece_text qs)" "stack_after qs [] = Some stack"
    by (auto simp: reads_as_def)
  then show ?thesis
    using assms(2) unfolding reads_as_def by (intro exI [of _ "qs @ ps"]) (simp add: stack_after_append)
qed

lemma stack_after_closing: "stack_after (map PClose stack) stack = Some []"
  by (induction stack) auto

lemma stack_after_opening: "stack_after (map (\<lambda>x. POpen (fst x) (snd x)) ts) s = Some (rev (map fst ts) @ s)"
  by (induction ts arbitrary: s) auto

definition markup_ok :: "splitter \<Rightarrow> bool" where
  "markup_ok st \<longleftrightarrow> reads_as (concat (sp_markup st)) (map fst (sp_tags st)) \<and>
     (\<forall>part \<in> set (sp_parts st). reads_as (fst part) [])"

lemma markup_flush: "markup_ok st \<Longrightarrow> markup_ok (flush st)"
proof -
  assume ok: "markup_ok st"
  let ?tags = "sp_tags st"
  have "reads_as (concat (sp_markup st) @ concat (map piece_text (map PClose (map fst ?tags)))) []"
    using ok by (intro reads_as_append [OF _ stack_after_closing]) (simp add: markup_ok_def)
  then have "reads_as (concat (sp_markup st) @ concat (map (closing_tag \<circ> fst) ?tags)) []" by (simp add: o_def)
  moreover have "reads_as (concat (rev (map snd ?tags))) (map fst ?tags)"
    unfolding reads_as_def
    by (rule exI [of _ "map (\<lambda>x. POpen (fst x) (snd x)) (rev ?tags)"])
      (simp add: stack_after_opening rev_map o_def case_prod_unfold)
  ultimately show ?thesis using ok by (auto simp: markup_ok_def flush_def)
qed

lemma markup_write:
  assumes "markup_ok st" "stack_after [p] (map fst (sp_tags st)) = Some (map fst (sp_tags st'))"
    "sp_markup st' = sp_markup st @ [piece_text p]" "sp_parts st' = sp_parts st"
  shows "markup_ok st'"
  using assms reads_as_append [of "concat (sp_markup st)" "map fst (sp_tags st)" "[p]"]
  by (simp add: markup_ok_def)

section \<open>What every callback keeps\<close>

text \<open>
  The text delivered so far, and the bounds: a finished part holds between one unit and the limit, and
  the open part has not passed it. \<open>texts\<close> are the plain texts of the finished parts.
\<close>

definition delivered :: "utext list \<Rightarrow> splitter \<Rightarrow> bool" where
  "delivered texts st \<longleftrightarrow> map snd (sp_parts st) = map (html_escape True) texts"

definition splitter_ok :: "nat \<Rightarrow> utext \<Rightarrow> splitter \<Rightarrow> bool" where
  "splitter_ok limit seen st \<longleftrightarrow>
     (\<exists>texts. delivered texts st \<and> (\<forall>t \<in> set texts. 0 < utf16_units t \<and> utf16_units t \<le> limit) \<and>
        seen = concat texts @ concat (sp_plain st)) \<and>
     sp_units st = utf16_units (concat (sp_plain st)) \<and> sp_units st \<le> limit \<and> markup_ok st"

lemma ok_flush: "splitter_ok limit seen st \<Longrightarrow> splitter_ok limit seen (flush st)"
proof (cases "sp_units st = 0")
  case False
  assume "splitter_ok limit seen st"
  then obtain texts where "delivered texts st" "\<forall>t \<in> set texts. 0 < utf16_units t \<and> utf16_units t \<le> limit"
    "seen = concat texts @ concat (sp_plain st)" "sp_units st = utf16_units (concat (sp_plain st))"
    "sp_units st \<le> limit" "markup_ok (flush st)"
    unfolding splitter_ok_def using markup_flush by blast
  then show ?thesis
    unfolding splitter_ok_def using False
    by (auto simp: flush_def delivered_def intro!: exI [of _ "texts @ [concat (sp_plain st)]"])
qed (simp add: flush_def)

lemma ok_markup: "splitter_ok limit seen st \<Longrightarrow> markup_ok st"
  unfolding splitter_ok_def by blast

lemma ok_emit:
  assumes "splitter_ok limit seen st" "sp_units st + utf16_units t \<le> limit"
  shows "splitter_ok limit (seen @ t) (emit t st)"
proof -
  have "markup_ok (emit t st)"
    by (rule markup_write [OF ok_markup [OF assms(1)], of "PText (html_escape False t)"]) (simp_all add: emit_def)
  then show ?thesis using assms unfolding splitter_ok_def by (auto simp: emit_def delivered_def)
qed

lemma units_flush [simp]: "sp_units (flush st) = 0"
  by (simp add: flush_def)

lemma shorter: "a < b \<Longrightarrow> 2 * a + (if P then 0 else 1) < 2 * b + (if Q then 0 else (1 :: nat))"
  by auto

lemma handle_data_ok:
  assumes "2 \<le> limit" "splitter_ok limit seen st"
  shows "\<exists>st'. handle_data limit rest st = Some st' \<and> splitter_ok limit (seen @ rest) st' \<and>
    sp_tags st' = sp_tags st"
  using assms(2)
proof (induction "2 * length rest + (if sp_units st = 0 then 0 else 1)" arbitrary: rest st seen rule: less_induct)
  case less
  show ?case
  proof (cases "rest = []")
    case True
    then show ?thesis using less.prems by (subst handle_data.simps) simp
  next
    case False
    let ?k = "fitting (limit - sp_units st) rest"
    show ?thesis
    proof (cases "?k = 0")
      case True
      have "sp_units st \<noteq> 0"
      proof
        assume "sp_units st = 0"
        then show False using True fitting_pos [of limit rest] assms(1) False by simp
      qed
      then have lt: "2 * length rest + (if sp_units (flush st) = 0 then 0 else 1) <
          2 * length rest + (if sp_units st = 0 then 0 else 1)" by simp
      obtain st' where "handle_data limit rest (flush st) = Some st'" "splitter_ok limit (seen @ rest) st'"
        "sp_tags st' = sp_tags (flush st)"
        using less.hyps [OF lt ok_flush [OF less.prems]] by blast
      moreover have "handle_data limit rest st = handle_data limit rest (flush st)"
        using True False by (subst handle_data.simps) simp
      moreover have "sp_tags (flush st) = sp_tags st" by (simp add: flush_def)
      ultimately show ?thesis by simp
    next
      case k: False
      let ?cut = "boundary_cut rest ?k"
      let ?st = "emit (take ?cut rest) st"
      let ?st1 = "if ?cut < length rest then flush ?st else ?st"
      have cut: "0 < ?cut" "?cut \<le> ?k" using boundary_cut_bounds [of ?k rest] k by auto
      have "utf16_units (take ?cut rest) \<le> limit - sp_units st"
        using units_take_mono [OF cut(2), of rest] fitting_units [of "limit - sp_units st" rest] by simp
      moreover have "sp_units st \<le> limit" using less.prems by (simp add: splitter_ok_def)
      ultimately have "splitter_ok limit (seen @ take ?cut rest) ?st"
        by (intro ok_emit [OF less.prems]) simp
      then have ok1: "splitter_ok limit (seen @ take ?cut rest) ?st1"
        by (cases "?cut < length rest") (simp_all only: if_True if_False simp_thms ok_flush)
      have "length (drop ?cut rest) < length rest" using cut(1) False by simp
      then have lt: "2 * length (drop ?cut rest) + (if sp_units ?st1 = 0 then 0 else 1) <
          2 * length rest + (if sp_units st = 0 then 0 else 1)" by (rule shorter)
      obtain st' where "handle_data limit (drop ?cut rest) ?st1 = Some st'"
        "splitter_ok limit ((seen @ take ?cut rest) @ drop ?cut rest) st'" "sp_tags st' = sp_tags ?st1"
        using less.hyps [OF lt ok1] by blast
      moreover have "handle_data limit rest st = handle_data limit (drop ?cut rest) ?st1"
        using k False by (subst handle_data.simps) (simp add: Let_def)
      moreover have "sp_tags ?st1 = sp_tags st" by (simp add: flush_def emit_def)
      ultimately show ?thesis by simp
    qed
  qed
qed

lemma handle_entity_ok:
  assumes "splitter_ok limit seen st" "utf16_units (unescape escaped) \<le> limit"
  shows "splitter_ok limit (seen @ unescape escaped) (handle_entity unescape limit escaped st)"
    and "sp_tags (handle_entity unescape limit escaped st) = sp_tags st"
proof -
  let ?t = "unescape escaped"
  let ?st = "if sp_units st + utf16_units ?t > limit then flush st else st"
  let ?st' = "handle_entity unescape limit escaped st"
  have ok: "splitter_ok limit seen ?st" "sp_units ?st + utf16_units ?t \<le> limit"
    using assms by (auto simp: ok_flush)
  have st': "?st' = ?st\<lparr>sp_markup := sp_markup ?st @ [escaped], sp_plain := sp_plain ?st @ [?t],
      sp_units := sp_units ?st + utf16_units ?t\<rparr>"
    by (simp add: handle_entity_def Let_def)
  show "sp_tags ?st' = sp_tags st" by (simp add: handle_entity_def Let_def flush_def)
  have "markup_ok ?st'"
    unfolding st' by (rule markup_write [OF ok_markup [OF ok(1)], of "PText escaped"]) simp_all
  then show "splitter_ok limit (seen @ ?t) ?st'"
    using ok unfolding splitter_ok_def st' delivered_def by auto
qed

section \<open>Properties\<close>

text \<open>The text a sequence of callbacks stands for, and the tags it leaves open.\<close>

fun text_of :: "(utext \<Rightarrow> utext) \<Rightarrow> html_event \<Rightarrow> utext" where
  "text_of unescape (Data t) = t"
| "text_of unescape (Entity escaped) = unescape escaped"
| "text_of unescape _ = []"

fun open_after :: "html_event list \<Rightarrow> string list \<Rightarrow> string list option" where
  "open_after [] stack = Some stack"
| "open_after (StartTag tag _ # es) stack = open_after es (tag # stack)"
| "open_after (EndTag tag # es) stack =
     (case stack of [] \<Rightarrow> None | inner # rest \<Rightarrow> if inner = tag then open_after es rest else None)"
| "open_after (_ # es) stack = open_after es stack"

definition entities_fit :: "(utext \<Rightarrow> utext) \<Rightarrow> nat \<Rightarrow> html_event list \<Rightarrow> bool" where
  "entities_fit unescape limit events \<longleftrightarrow>
     (\<forall>escaped. Entity escaped \<in> set events \<longrightarrow> utf16_units (unescape escaped) \<le> limit)"

lemma feed_ok:
  assumes "2 \<le> limit" "entities_fit unescape limit events" "splitter_ok limit seen st"
    "open_after events (map fst (sp_tags st)) = Some stack"
  shows "\<exists>st'. feed unescape limit events st = Some (Inr st') \<and>
    splitter_ok limit (seen @ concat (map (text_of unescape) events)) st' \<and> map fst (sp_tags st') = stack"
  using assms(2-4)
proof (induction events arbitrary: seen st)
  case (Cons e es)
  have fit: "entities_fit unescape limit es" using Cons.prems(1) by (auto simp: entities_fit_def)
  have rest: ?case
    if "handle_event unescape limit e st = Some (Inr st')"
      "splitter_ok limit (seen @ text_of unescape e) st'" "open_after es (map fst (sp_tags st')) = Some stack" for st'
    using Cons.IH [OF fit that(2,3)] that(1) by auto
  show ?case
  proof (cases e)
    case (StartTag tag written)
    let ?st = "handle_starttag tag written st"
    have "markup_ok ?st"
      by (rule markup_write [OF ok_markup [OF Cons.prems(2)], of "POpen tag written"])
        (simp_all add: handle_starttag_def)
    then have "splitter_ok limit (seen @ text_of unescape e) ?st"
      using Cons.prems(2) by (auto simp: splitter_ok_def StartTag handle_starttag_def delivered_def)
    moreover have "sp_tags ?st = (tag, written) # sp_tags st" by (simp add: handle_starttag_def)
    ultimately show ?thesis
      using Cons.prems(3) by (intro rest [of ?st]) (simp_all add: StartTag handle_event_def)
  next
    case (EndTag tag)
    with Cons.prems(3) obtain written more where tags: "sp_tags st = (tag, written) # more"
      "open_after es (map fst more) = Some stack"
      by (cases "sp_tags st") (auto split: if_splits)
    let ?st = "st\<lparr>sp_tags := more, sp_markup := sp_markup st @ [closing_tag tag]\<rparr>"
    have "markup_ok ?st"
      by (rule markup_write [OF ok_markup [OF Cons.prems(2)], of "PClose tag"]) (simp_all add: tags)
    then have "splitter_ok limit (seen @ text_of unescape e) ?st"
      using Cons.prems(2) by (auto simp: splitter_ok_def EndTag delivered_def)
    moreover have "sp_tags ?st = more" by simp
    ultimately show ?thesis
      using tags by (intro rest [of ?st]) (simp_all add: EndTag handle_event_def handle_endtag_def)
  next
    case (Data t)
    from handle_data_ok [OF assms(1) Cons.prems(2), of t] obtain st' where
      "handle_data limit t st = Some st'" "splitter_ok limit (seen @ t) st'" "sp_tags st' = sp_tags st" by blast
    then show ?thesis
      using Cons.prems(3) by (intro rest [of st']) (simp_all add: Data handle_event_def)
  next
    case (Entity escaped)
    have "utf16_units (unescape escaped) \<le> limit" using Cons.prems(1) Entity by (simp add: entities_fit_def)
    from handle_entity_ok [where unescape = unescape, OF Cons.prems(2) this] show ?thesis
      using Cons.prems(3) by (intro rest [of "handle_entity unescape limit escaped st"])
        (simp_all add: Entity handle_event_def)
  qed
qed simp



end
