(* ===== verification/Message_Safety.thy ===== *)
theory Message_Safety
  imports Message_Format
begin

text \<open>
  Untrusted Markdown cannot inject markup: what the renderers produce is a sequence of the tags they
  write themselves and of text without angle brackets.
\<close>

section \<open>Safe markup\<close>

definition ALLOWED_TAGS :: "string set" where
  "ALLOWED_TAGS =
     {''a'', ''b'', ''i'', ''s'', ''code'', ''pre'', ''blockquote'', ''p'', ''ul'', ''ol'', ''li'', ''table'', ''tr'',
      ''th'', ''td'', ''h1'', ''h2'', ''h3'', ''h4'', ''h5'', ''h6''}"

definition bracketless :: "utext \<Rightarrow> bool" where
  "bracketless t \<longleftrightarrow> LT \<notin> set t \<and> GT \<notin> set t"

definition opening_tag :: "(utext \<Rightarrow> utext) \<Rightarrow> utext \<Rightarrow> bool" where
  "opening_tag scheme p \<longleftrightarrow>
     (\<exists>name attributes. p = LT # tx name @ attributes @ [GT] \<and> name \<in> ALLOWED_TAGS \<and> bracketless attributes \<and>
        (name = ''a'' \<longrightarrow> (\<exists>href. safe_link scheme href \<and>
           attributes = tx '' href='' @ [34] @ html_escape True href @ [34])))"

definition safe_piece :: "(utext \<Rightarrow> utext) \<Rightarrow> utext \<Rightarrow> bool" where
  "safe_piece scheme p \<longleftrightarrow> bracketless p \<or> opening_tag scheme p \<or>
     (\<exists>name \<in> ALLOWED_TAGS. p = tx ''</'' @ tx name @ [GT]) \<or> p = tx ''<hr/>''"

definition safe_markup :: "(utext \<Rightarrow> utext) \<Rightarrow> utext \<Rightarrow> bool" where
  "safe_markup scheme t \<longleftrightarrow> (\<exists>ps. t = concat ps \<and> (\<forall>p \<in> set ps. safe_piece scheme p))"

named_theorems safe \<open>safe pieces of markup\<close>

lemma safe_piece_markup [safe]: "safe_piece scheme p \<Longrightarrow> safe_markup scheme p"
  unfolding safe_markup_def by (rule exI [of _ "[p]"]) simp

lemma safe_append [safe]: "safe_markup scheme s \<Longrightarrow> safe_markup scheme t \<Longrightarrow> safe_markup scheme (s @ t)"
  unfolding safe_markup_def by (metis concat_append set_append Un_iff)

lemma safe_concat: "\<forall>p \<in> set ps. safe_markup scheme p \<Longrightarrow> safe_markup scheme (concat ps)"
proof (induction ps)
  case Nil
  show ?case unfolding safe_markup_def by (rule exI [of _ "[]"]) simp
next
  case (Cons p ps)
  then show ?case using safe_append by simp
qed

lemma safe_text [safe]: "bracketless t \<Longrightarrow> safe_markup scheme t"
  by (rule safe_piece_markup) (simp add: safe_piece_def)

lemma bracketless_append: "bracketless (s @ t) \<longleftrightarrow> bracketless s \<and> bracketless t"
  by (auto simp: bracketless_def)

lemma bracketless_escape [safe]: "bracketless (html_escape quote t)"
proof -
  have "bracketless (escape_char quote c)" for c
    by (simp add: bracketless_def escape_char_def tx_def LT_def GT_def AMP_def)
  then show ?thesis by (auto simp: html_escape_def bracketless_def)
qed

lemma safe_open [safe]:
  "name \<in> ALLOWED_TAGS \<Longrightarrow> name \<noteq> ''a'' \<Longrightarrow> bracketless attributes \<Longrightarrow>
   safe_markup scheme (LT # tx name @ attributes @ [GT])"
  by (rule safe_piece_markup) (auto simp: safe_piece_def opening_tag_def)

lemma safe_close [safe]: "name \<in> ALLOWED_TAGS \<Longrightarrow> safe_markup scheme (tx ''</'' @ tx name @ [GT])"
  by (rule safe_piece_markup) (auto simp: safe_piece_def)

text \<open>The tags the renderers write as literals.\<close>

lemma safe_literals [safe]:
  "safe_markup scheme (tx ''<b>'')" "safe_markup scheme (tx ''</b>'')" "safe_markup scheme (tx ''<i>'')"
  "safe_markup scheme (tx ''</i>'')" "safe_markup scheme (tx ''<s>'')" "safe_markup scheme (tx ''</s>'')"
  "safe_markup scheme (tx ''</a>'')" "safe_markup scheme (tx ''<code>'')" "safe_markup scheme (tx ''</code>'')"
  "safe_markup scheme (tx ''<blockquote>'')" "safe_markup scheme (tx ''</blockquote>'')"
  "safe_markup scheme (tx ''<p>'')" "safe_markup scheme (tx ''</p>'')" "safe_markup scheme (tx ''<pre>'')"
  "safe_markup scheme (tx ''</pre>'')"
  using safe_open [of "''b''" "[]" scheme] safe_open [of "''i''" "[]" scheme] safe_open [of "''s''" "[]" scheme]
    safe_open [of "''code''" "[]" scheme] safe_open [of "''blockquote''" "[]" scheme]
    safe_open [of "''p''" "[]" scheme] safe_open [of "''pre''" "[]" scheme]
    safe_close [of "''b''" scheme] safe_close [of "''i''" scheme] safe_close [of "''s''" scheme]
    safe_close [of "''a''" scheme] safe_close [of "''code''" scheme] safe_close [of "''blockquote''" scheme]
    safe_close [of "''p''" scheme] safe_close [of "''pre''" scheme]
  by (simp_all add: ALLOWED_TAGS_def bracketless_def tx_def LT_def GT_def)

lemma safe_rule [safe]: "safe_markup scheme (tx ''<hr/>'')"
  by (rule safe_piece_markup) (simp add: safe_piece_def)

lemma safe_anchor [safe]:
  "safe_link scheme href \<Longrightarrow>
   safe_markup scheme (tx ''<a href='' @ [34] @ html_escape True href @ [34, GT])"
proof (rule safe_piece_markup)
  assume link: "safe_link scheme href"
  let ?attributes = "tx '' href='' @ [34] @ html_escape True href @ [34]"
  have "bracketless ?attributes"
    by (simp only: bracketless_append bracketless_escape) (simp add: bracketless_def tx_def LT_def GT_def)
  moreover have "tx ''<a href='' @ [34] @ html_escape True href @ [34, GT] = LT # tx ''a'' @ ?attributes @ [GT]"
    by (simp add: tx_def LT_def)
  ultimately show "safe_piece scheme (tx ''<a href='' @ [34] @ html_escape True href @ [34, GT])"
    using link unfolding safe_piece_def opening_tag_def ALLOWED_TAGS_def by blast
qed

lemma safe_escape [safe]: "safe_markup scheme (html_escape quote t)"
  by (rule safe_text) (rule bracketless_escape)

lemma safe_simple [safe]:
  "safe_markup scheme [10]" "safe_markup scheme [10, 10]" "safe_markup scheme (replicate n 9472 @ [10])"
  "safe_markup scheme []"
  by (rule safe_text, simp add: bracketless_def LT_def GT_def)+

lemmas safe_leaves = safe_escape safe_simple safe_literals safe_rule safe_anchor [simplified]

section \<open>The renderers\<close>

lemma render_one_safe:
  assumes "render_one scheme st token = Inr st'" "\<forall>p \<in> set (fst st). safe_markup scheme p"
  shows "\<forall>p \<in> set (fst st'). safe_markup scheme p"
  using assms
  by (auto simp: render_one_def Let_def safe_leaves intro!: safe_append
      split: prod.splits if_splits list.splits option.splits)

lemma render_inline_safe: "render_inline scheme tokens = Inr t \<Longrightarrow> safe_markup scheme t"
proof -
  assume "render_inline scheme tokens = Inr t"
  then obtain out links where
    run: "foldE (render_one scheme) ([], []) tokens = Inr (out, links)" and t: "t = concat out"
    by (auto simp: render_inline_def res_simps)
  have "\<forall>p \<in> set (fst (out, links)). safe_markup scheme p"
    by (rule foldE_invariant [OF run]) (simp, blast dest: render_one_safe)
  then show ?thesis using safe_concat t by simp
qed

lemma code_block_safe: "safe_markup scheme (code_block quote token)"
proof -
  define attribute where "attribute = (if language_of (tk_info token) \<noteq> []
      then tx '' class='' @ [34] @ tx ''language-'' @ html_escape True (language_of (tk_info token)) @ [34] else [])"
  have "bracketless attribute"
    unfolding attribute_def
    by (simp only: bracketless_append bracketless_escape split: if_split) (simp add: bracketless_def tx_def LT_def GT_def)
  then have "safe_markup scheme (LT # tx ''code'' @ attribute @ [GT])"
    by (rule safe_open [rotated 2]) (simp_all add: ALLOWED_TAGS_def)
  moreover have "code_block quote token = tx ''<pre>'' @ (LT # tx ''code'' @ attribute @ [GT]) @
      html_escape quote (tk_content token) @ tx ''</code>'' @ tx ''</pre>''"
    by (simp add: code_block_def attribute_def Let_def tx_def LT_def)
  ultimately show ?thesis by (simp only:) (intro safe_append safe_leaves)
qed

lemma int_dec_bracketless: "bracketless (tx (int_dec n))"
proof -
  have digits: "c \<in> set (nat_dec k) \<Longrightarrow> 48 \<le> (of_char c :: nat) \<and> (of_char c :: nat) \<le> 57" for c k
    by (induction k rule: nat_dec.induct) (subst (asm) (2) nat_dec.simps, auto split: if_splits)
  have "(60 :: nat) \<notin> of_char ` set (nat_dec k)" "(62 :: nat) \<notin> of_char ` set (nat_dec k)" for k
    using digits [of _ k] by fastforce+
  then show ?thesis
    by (auto simp: int_dec_def bracketless_def tx_def LT_def GT_def)
qed

lemma list_item_safe: "safe_markup scheme (fst (list_item levels))"
proof (rule safe_text)
  have "bracketless (nested_indent levels)" by (auto simp: nested_indent_def bracketless_def LT_def GT_def)
  moreover have "bracketless (tx ''. '')" "bracketless [8226, 32]" by (simp_all add: bracketless_def tx_def LT_def GT_def)
  ultimately show "bracketless (fst (list_item levels))"
    by (auto simp: list_item_def bracketless_append int_dec_bracketless split: list.splits md_list.splits)
qed

lemma render_block_safe:
  assumes "render_block scheme st token = Inr st'" "\<forall>p \<in> set (fst st). safe_markup scheme p"
  shows "\<forall>p \<in> set (fst st'). safe_markup scheme p"
  using assms
  by (auto simp: render_block_def Let_def res_simps safe_leaves list_item_safe code_block_safe
      intro!: safe_append intro: render_inline_safe
      split: prod.splits if_splits list.splits option.splits)

text \<open>Stripping white space at both ends only shortens text.\<close>

lemma safe_dropWhile:
  assumes "safe_markup scheme t" "\<not> Q LT"
  shows "safe_markup scheme (dropWhile Q t)"
proof -
  from assms(1) obtain ps where "t = concat ps" "\<forall>p \<in> set ps. safe_piece scheme p"
    by (auto simp: safe_markup_def)
  then show ?thesis
  proof (induction ps arbitrary: t)
    case Nil
    then show ?case by (simp add: safe_simple(4))
  next
    case (Cons p ps)
    have rest: "safe_markup scheme (concat ps)" using Cons.prems(2) unfolding safe_markup_def by auto
    show ?case
    proof (cases "\<forall>c \<in> set p. Q c")
      case True
      then have "dropWhile Q t = dropWhile Q (concat ps)" by (simp add: Cons.prems(1) dropWhile_append2)
      then show ?thesis using Cons.IH [of "concat ps"] Cons.prems(2) by simp
    next
      case False
      then have d: "dropWhile Q t = dropWhile Q p @ concat ps"
        by (auto simp: Cons.prems(1) dropWhile_append1)
      have "safe_markup scheme (dropWhile Q p)"
      proof (cases "bracketless p")
        case True
        then show ?thesis by (intro safe_text) (auto simp: bracketless_def dest: set_dropWhileD)
      next
        case False
        then obtain q where "p = LT # q"
          using Cons.prems(2) by (auto simp: safe_piece_def opening_tag_def tx_def LT_def)
        then show ?thesis using assms(2) Cons.prems(2) by (auto intro: safe_piece_markup)
      qed
      then show ?thesis using d rest safe_append by simp
    qed
  qed
qed

lemma safe_dropWhile_end:
  assumes "safe_markup scheme t" "\<not> Q GT"
  shows "safe_markup scheme (rev (dropWhile Q (rev t)))"
proof -
  from assms(1) obtain ps where "t = concat ps" "\<forall>p \<in> set ps. safe_piece scheme p"
    by (auto simp: safe_markup_def)
  then show ?thesis
  proof (induction ps arbitrary: t rule: rev_induct)
    case Nil
    then show ?case by (simp add: safe_simple(4))
  next
    case (snoc p ps)
    have rest: "safe_markup scheme (concat ps)" using snoc.prems(2) unfolding safe_markup_def by auto
    show ?case
    proof (cases "\<forall>c \<in> set p. Q c")
      case True
      then have "dropWhile Q (rev p @ rev (concat ps)) = dropWhile Q (rev (concat ps))"
        by (intro dropWhile_append2) simp
      then have "dropWhile Q (rev t) = dropWhile Q (rev (concat ps))" by (simp add: snoc.prems(1))
      then show ?thesis using snoc.IH [of "concat ps"] snoc.prems(2) by simp
    next
      case False
      then have d: "dropWhile Q (rev t) = dropWhile Q (rev p) @ rev (concat ps)"
        by (auto simp: snoc.prems(1) dropWhile_append1)
      have "safe_markup scheme (rev (dropWhile Q (rev p)))"
      proof (cases "bracketless p")
        case True
        then show ?thesis by (intro safe_text) (auto simp: bracketless_def dest: set_dropWhileD)
      next
        case False
        then obtain q where "p = q @ [GT]"
          using snoc.prems(2) by (auto simp: safe_piece_def opening_tag_def tx_def GT_def)
        then show ?thesis using assms(2) snoc.prems(2) by (auto intro: safe_piece_markup)
      qed
      then show ?thesis using rest unfolding d by (simp add: safe_append)
    qed
  qed
qed

lemma markdown_html_safe: "telegram_markdown_html scheme tokens = Inr t \<Longrightarrow> safe_markup scheme t"
proof -
  assume "telegram_markdown_html scheme tokens = Inr t"
  then obtain out levels where
    run: "foldE (render_block scheme) ([], []) tokens = Inr (out, levels)" and t: "t = uni_strip (concat out)"
    by (auto simp: telegram_markdown_html_def res_simps)
  have "\<forall>p \<in> set (fst (out, levels)). safe_markup scheme p"
    by (rule foldE_invariant [OF run]) (simp, blast dest: render_block_safe)
  then have "safe_markup scheme (concat out)" using safe_concat by simp
  then show ?thesis
    unfolding t uni_strip_def
    by (intro safe_dropWhile_end safe_dropWhile) (simp_all add: uni_space_def LT_def GT_def)
qed

lemma tag_attribute_bracketless: "bracketless (tag_attribute token)"
proof -
  have "bracketless (tx '' start='' @ [34] @ tx (int_dec n) @ [34])" for n
    by (simp only: bracketless_append int_dec_bracketless) (simp add: bracketless_def tx_def LT_def GT_def)
  then show ?thesis
    by (auto simp: tag_attribute_def Let_def bracketless_append split: option.splits)
      (simp_all add: bracketless_def tx_def LT_def GT_def)
qed

lemma rich_piece_safe: "rich_piece scheme token = Inr (pieces, n) \<Longrightarrow> \<forall>p \<in> set pieces. safe_markup scheme p"
proof -
  have tags: "RICH_BLOCK_TAGS \<subseteq> ALLOWED_TAGS - {''a''}" by (auto simp: RICH_BLOCK_TAGS_def ALLOWED_TAGS_def)
  have block: "safe_markup scheme (LT # tx (tk_tag token) @ tag_attribute token @ [GT])"
    "safe_markup scheme (tx ''</'' @ tx (tk_tag token) @ [GT])" if "tk_tag token \<in> RICH_BLOCK_TAGS"
    using tags that by (auto intro: safe_open safe_close tag_attribute_bracketless)
  assume "rich_piece scheme token = Inr (pieces, n)"
  then show ?thesis
    by (auto simp: rich_piece_def res_simps safe_leaves code_block_safe block intro!: safe_append
        intro: render_inline_safe split: if_splits)
qed

lemma rich_loop_safe:
  "rich_loop scheme out blocks tokens = Inr (Some pieces) \<Longrightarrow> \<forall>p \<in> set out. safe_markup scheme p \<Longrightarrow>
   \<forall>p \<in> set pieces. safe_markup scheme p"
proof (induction tokens arbitrary: out blocks)
  case (Cons token tokens)
  from Cons.prems(1) obtain ps n where "rich_piece scheme token = Inr (ps, n)"
    "rich_loop scheme (out @ ps) (blocks + n) tokens = Inr (Some pieces)"
    by (auto simp: res_simps split: if_splits)
  with Cons.IH [OF this(2)] rich_piece_safe [OF this(1)] Cons.prems(2) show ?case by auto
qed simp

section \<open>Properties\<close>



end
