(* ===== verification/Egress.thy ===== *)
theory Egress
  imports Py_Text Py_Json "HOL-Library.Product_Lexorder"
begin

text \<open>
  \<^verbatim>\<open>execution/egress.py\<close>: the destinations a sandbox may reach through the proxy. Two functions of the
  standard library are parameters: \<open>is_ip\<close> (\<open>ip_address\<close> accepts the text) and \<open>idna\<close>
  (\<open>host.encode("idna").decode("ascii")\<close>, \<open>None\<close> when it raises).
\<close>

record resolver =
  is_ip :: "string \<Rightarrow> bool"
  idna :: "string \<Rightarrow> string option"

section \<open>Host names\<close>

definition disallowed_char :: "char \<Rightarrow> bool" where
  "disallowed_char c =
     (let n = of_char c :: nat in
        (9 \<le> n \<and> n \<le> 13) \<or> (28 \<le> n \<and> n \<le> 32) \<or> n = 133 \<or> n = 160 \<or>
        n < 32 \<or> (127 \<le> n \<and> n < 160) \<or> n = 173)"

definition contains_disallowed_char :: "string \<Rightarrow> bool" where
  "contains_disallowed_char s = (\<exists>c \<in> set s. disallowed_char c)"

definition alnum :: "char \<Rightarrow> bool" where
  "alnum c =
     (let n = of_char c :: nat in
        (48 \<le> n \<and> n \<le> 57) \<or> (65 \<le> n \<and> n \<le> 90) \<or> (97 \<le> n \<and> n \<le> 122))"

definition is_valid_dns_label :: "string \<Rightarrow> bool" where
  "is_valid_dns_label label =
     (1 \<le> length label \<and> length label \<le> 63 \<and> alnum (hd label) \<and> alnum (last label) \<and>
      (\<forall>c \<in> set label. alnum c \<or> c = CHR ''-''))"

definition validate_dns_hostname_structure :: "string \<Rightarrow> error + unit" where
  "validate_dns_hostname_structure hostname =
     (if hostname = [] \<or> length hostname > 253
      then Inl (ValueError (''invalid hostname length: '' @ hostname))
      else if py_endswith hostname ''.'' \<or> py_startswith hostname ''.''
      then Inl (ValueError ''invalid hostname characters or trailing dot'')
      else
        let labels = py_split_on CHR ''.'' hostname
        in if length labels < 2
           then Inl (ValueError (''single-label hostnames are not permitted: '' @ hostname))
           else if [] \<in> set labels then Inl (ValueError (''invalid hostname (empty label): '' @ hostname))
           else if \<exists>label \<in> set labels. \<not> is_valid_dns_label label
           then Inl (ValueError (''invalid DNS label in hostname: '' @ hostname))
           else Inr ())"

definition normalize_hostname :: "resolver \<Rightarrow> string \<Rightarrow> error + string" where
  "normalize_hostname rs host =
     (if host = [] then Inl (ValueError ''hostname must not be empty'')
      else if contains_disallowed_char host \<or> py_endswith host ''.'' \<or> py_startswith host ''.''
      then Inl (ValueError ''invalid hostname characters or trailing dot'')
      else
        (case idna rs host of
           None \<Rightarrow> Inl (ValueError (''invalid hostname for IDNA normalization: '' @ host))
         | Some encoded \<Rightarrow>
             let canon = py_lower encoded
             in bindE (validate_dns_hostname_structure canon) (\<lambda>_. Inr canon)))"

definition forbidden_host :: "string \<Rightarrow> bool" where
  "forbidden_host h =
     (h \<in> {''localhost'', ''metadata.google.internal''} \<or> py_endswith h ''.localhost'' \<or> py_endswith h ''.local'')"

definition validate_hostname :: "resolver \<Rightarrow> string \<Rightarrow> error + string" where
  "validate_hostname rs host =
     (if is_ip rs host then Inl (ValueError (''IP literal egress destinations are prohibited: '' @ host))
      else if forbidden_host (py_lower host) then Inl (ValueError (''prohibited hostname for egress: '' @ host))
      else if CHR ''*'' \<in> set host \<or> py_startswith host ''.'' \<or> py_endswith host ''.'' \<or> contains_disallowed_char host
      then Inl (ValueError (''wildcard or invalid hostname prohibited for egress: '' @ host))
      else normalize_hostname rs host)"

section \<open>Targets\<close>

record connect_target =
  ct_hostname :: string
  ct_port :: int
  ct_purpose :: string

text \<open>Construction of an \<open>AllowedConnectTarget\<close>.\<close>

definition connect_target_of :: "resolver \<Rightarrow> string \<Rightarrow> int \<Rightarrow> string \<Rightarrow> error + connect_target" where
  "connect_target_of rs hostname port purpose =
     (if hostname = [] \<or> length hostname > 1024 \<or> port < 1 \<or> port > 65535 \<or> purpose = [] \<or> length purpose > 200
      then Inl (ValueError ''validation error for AllowedConnectTarget'')
      else
        bindE (validate_hostname rs hostname) (\<lambda>canon.
          if port \<noteq> 443 then Inl (ValueError ''AllowedConnectTarget port must be exactly 443'')
          else Inr \<lparr>ct_hostname = canon, ct_port = port, ct_purpose = purpose\<rparr>))"

section \<open>Provider hosts\<close>

definition extract_host :: "string \<Rightarrow> string" where
  "extract_host given =
     (let raw = py_strip given
      in if raw = [] then []
         else if py_startswith raw ''['' \<and> CHR '']'' \<in> set raw
         then takeWhile (\<lambda>c. c \<noteq> CHR '']'') (tl raw)
         else if count_list raw CHR '':'' > 1 then raw
         else if CHR '':'' \<in> set raw then takeWhile (\<lambda>c. c \<noteq> CHR '':'') raw
         else raw)"

text \<open>\<open>int(text)\<close>: surrounding space, a sign and single underscores between digits are admitted.\<close>

fun dec_digits :: "bool \<Rightarrow> int \<Rightarrow> string \<Rightarrow> int option" where
  "dec_digits digit acc [] = (if digit then Some acc else None)"
| "dec_digits digit acc (c # cs) =
     (let n = of_char c :: nat in
        if c = CHR ''_'' then (if digit \<and> cs \<noteq> [] then dec_digits False acc cs else None)
        else if 48 \<le> n \<and> n \<le> 57 then dec_digits True (10 * acc + (int n - 48)) cs
        else None)"

definition py_int10 :: "string \<Rightarrow> int option" where
  "py_int10 s =
     (case py_strip s of
        CHR ''-'' # cs \<Rightarrow> map_option uminus (dec_digits False 0 cs)
      | CHR ''+'' # cs \<Rightarrow> dec_digits False 0 cs
      | cs \<Rightarrow> dec_digits False 0 cs)"

text \<open>The port written after the host, with 443 as the default.\<close>

definition provider_port :: "string \<Rightarrow> error + int" where
  "provider_port raw =
     (let malformed = Inl (ValueError (''malformed port in provider host: '' @ raw));
          number = (\<lambda>text. case py_int10 text of None \<Rightarrow> malformed | Some p \<Rightarrow> Inr p)
      in if py_startswith raw ''['' then
           (if CHR '']'' \<notin> set raw then Inl (ValueError (''malformed IPv6 bracket in provider host: '' @ raw))
            else
              (case tl (dropWhile (\<lambda>c. c \<noteq> CHR '']'') raw) of
                 [] \<Rightarrow> Inr 443
               | c # text \<Rightarrow> if c \<noteq> CHR '':'' \<or> text = [] then malformed else number text))
         else if count_list raw CHR '':'' = 1 then
           (case tl (dropWhile (\<lambda>c. c \<noteq> CHR '':'') raw) of
              [] \<Rightarrow> malformed
            | text \<Rightarrow> number text)
         else Inr 443)"

definition url_like :: "string \<Rightarrow> bool" where
  "url_like raw =
     (py_contains ''://'' raw \<or> CHR ''@'' \<in> set raw \<or> CHR ''/'' \<in> set raw \<or> CHR ''?'' \<in> set raw \<or>
      CHR ''#'' \<in> set raw \<or> py_startswith (py_lower raw) ''http:'' \<or> py_startswith (py_lower raw) ''https:'')"

definition parse_provider_target :: "resolver \<Rightarrow> string \<Rightarrow> error + string" where
  "parse_provider_target rs raw =
     (if raw = [] then Inl (ValueError ''provider host must not be empty'')
      else if raw \<noteq> py_strip raw
      then Inl (ValueError (''provider host must not contain surrounding whitespace: '' @ py_repr_string raw))
      else if url_like raw
      then Inl (ValueError (''provider_api_hosts must be hostname or hostname:443, got: '' @ raw))
      else
        bindE (provider_port raw) (\<lambda>port.
          if port \<noteq> 443 then Inl (ValueError (''provider egress must use port 443 (got '' @ int_dec port @ '')''))
          else validate_hostname rs (extract_host raw)))"

section \<open>The allowlist\<close>

record destination =
  de_scheme :: string
  de_host :: "string option"
  de_port :: "int option"
  de_purpose :: string

record network_policy =
  np_enabled :: bool
  np_destinations :: "destination list"

definition validate_proxy_destination :: "resolver \<Rightarrow> string \<Rightarrow> int \<Rightarrow> error + string" where
  "validate_proxy_destination rs host port =
     (if port \<noteq> 443 then Inl (ValueError (''provider egress must use port 443 (got '' @ int_dec port @ '')''))
      else validate_hostname rs host)"

definition policy_target :: "resolver \<Rightarrow> destination \<Rightarrow> error + connect_target" where
  "policy_target rs dest =
     (if de_scheme dest \<noteq> ''https'' then Inl (ValueError ''egress destinations must use https'')
      else
        bindE (validate_proxy_destination rs (case de_host dest of None \<Rightarrow> [] | Some h \<Rightarrow> h)
                 (case de_port dest of None \<Rightarrow> 443 | Some p \<Rightarrow> if p = 0 then 443 else p)) (\<lambda>canon.
          connect_target_of rs canon 443 (de_purpose dest)))"

definition provider_target :: "resolver \<Rightarrow> string \<Rightarrow> error + connect_target" where
  "provider_target rs raw =
     bindE (parse_provider_target rs raw) (\<lambda>canon. connect_target_of rs canon 443 ''provider API endpoint'')"

text \<open>The same target twice needs the same purpose; the first occurrence stays.\<close>

definition merge_target :: "connect_target list \<Rightarrow> connect_target \<Rightarrow> error + connect_target list" where
  "merge_target seen t =
     (case find (\<lambda>s. ct_hostname s = ct_hostname t \<and> ct_port s = ct_port t) seen of
        None \<Rightarrow> Inr (seen @ [t])
      | Some s \<Rightarrow>
          if ct_purpose s \<noteq> ct_purpose t
          then Inl (ValueError (''duplicate canonical target '' @ ct_hostname t @ '':'' @ int_dec (ct_port t) @
                 '' with conflicting purposes: '' @ py_repr_string (ct_purpose s) @ '' vs '' @
                 py_repr_string (ct_purpose t)))
          else Inr seen)"

definition compile_proxy_allowlist ::
  "resolver \<Rightarrow> network_policy \<Rightarrow> string list \<Rightarrow> error + connect_target list" where
  "compile_proxy_allowlist rs policy provider_api_hosts =
     (if \<not> np_enabled policy then
        (if np_destinations policy \<noteq> []
         then Inl (ValueError ''disabled network policy cannot declare destinations'') else Inr [])
      else if np_destinations policy = []
      then Inl (ValueError ''enabled network policy requires at least one destination'')
      else
        bindE (mapE (policy_target rs) (np_destinations policy)) (\<lambda>targets.
        bindE (mapE (provider_target rs) (filter (\<lambda>raw. raw \<noteq> []) provider_api_hosts)) (\<lambda>providers.
        bindE (foldE merge_target [] (targets @ providers)) (\<lambda>seen.
          Inr (sort_key (\<lambda>t. (ct_hostname t, ct_port t)) seen)))))"

section \<open>Canonical names\<close>

text \<open>The codec leaves ASCII text alone, when it accepts it.\<close>

definition ascii :: "string \<Rightarrow> bool" where
  "ascii s \<longleftrightarrow> (\<forall>c \<in> set s. of_char c < (128 :: nat))"

definition resolver_ok :: "resolver \<Rightarrow> bool" where
  "resolver_ok rs \<longleftrightarrow> (\<forall>h r. ascii h \<and> idna rs h = Some r \<longrightarrow> r = h)"

lemma py_lower_idem [simp]: "py_lower (py_lower s) = py_lower s"
proof -
  have "py_lower_char (py_lower_char c) = py_lower_char c" for c
    by (simp add: py_lower_char_def Let_def)
  then show ?thesis by (simp add: py_lower_def)
qed

lemma alnum_ascii: "alnum c \<or> c = CHR ''-'' \<Longrightarrow> of_char c < (128 :: nat)"
  by (auto simp: alnum_def Let_def)

lemma set_split_on: "set s \<subseteq> insert c (\<Union> (set ` set (py_split_on c s)))"
proof (induction s)
  case (Cons x xs)
  then show ?case by (cases "py_split_on c xs") auto
qed simp

lemma structure_ascii: "validate_dns_hostname_structure h = Inr () \<Longrightarrow> ascii h"
proof -
  assume "validate_dns_hostname_structure h = Inr ()"
  then have "\<forall>label \<in> set (py_split_on CHR ''.'' h). \<forall>c \<in> set label. of_char c < (128 :: nat)"
    by (auto simp: validate_dns_hostname_structure_def is_valid_dns_label_def Let_def alnum_ascii
        split: if_splits)
  then show ?thesis using set_split_on [of h "CHR ''.''"] by (fastforce simp: ascii_def)
qed

lemma validate_hostname_Inr:
  assumes "validate_hostname rs h = Inr canon"
  shows "\<not> is_ip rs h" "\<not> forbidden_host (py_lower h)" "CHR ''*'' \<notin> set h" "\<not> contains_disallowed_char h"
    and "validate_dns_hostname_structure canon = Inr ()" "py_lower canon = canon" "ascii canon"
    and "\<exists>r. idna rs h = Some r \<and> canon = py_lower r"
  using assms
  by (auto simp: validate_hostname_def normalize_hostname_def Let_def res_simps split: if_splits option.splits
      intro: structure_ascii)

text \<open>A name that was validated before keeps its form, and the checks see it.\<close>

lemma validate_twice:
  assumes "resolver_ok rs" "validate_hostname rs h = Inr c" "validate_hostname rs c = Inr c'"
  shows "c' = c \<and> \<not> is_ip rs c \<and> \<not> forbidden_host c"
proof -
  from validate_hostname_Inr(8) [OF assms(3)] obtain r where "idna rs c = Some r" "c' = py_lower r" by blast
  then show ?thesis
    using assms(1) validate_hostname_Inr(6,7) [OF assms(2)] validate_hostname_Inr(1,2) [OF assms(3)]
    by (auto simp: resolver_ok_def)
qed

definition canonical_target :: "resolver \<Rightarrow> connect_target \<Rightarrow> bool" where
  "canonical_target rs t \<longleftrightarrow>
     ct_port t = 443 \<and> \<not> is_ip rs (ct_hostname t) \<and> \<not> forbidden_host (ct_hostname t) \<and>
     CHR ''*'' \<notin> set (ct_hostname t) \<and> py_lower (ct_hostname t) = ct_hostname t \<and>
     validate_dns_hostname_structure (ct_hostname t) = Inr () \<and>
     validate_hostname rs (ct_hostname t) = Inr (ct_hostname t)"

lemma target_canonical:
  assumes "resolver_ok rs" "validate_hostname rs h = Inr c" "connect_target_of rs c 443 purpose = Inr t"
  shows "canonical_target rs t"
proof -
  from assms(3) obtain c' where t: "validate_hostname rs c = Inr c'" "ct_hostname t = c'" "ct_port t = 443"
    by (auto simp: connect_target_of_def res_simps split: if_splits)
  from validate_twice [OF assms(1,2) t(1)] t validate_hostname_Inr [OF t(1)] show ?thesis
    by (auto simp: canonical_target_def)
qed

lemma mapE_Inr: "mapE f xs = Inr ys \<Longrightarrow> y \<in> set ys \<Longrightarrow> \<exists>x \<in> set xs. f x = Inr y"
  by (induction xs arbitrary: ys) (auto simp: res_simps)

lemma merge_target_names:
  assumes "merge_target seen t = Inr seen'" "distinct (map ct_hostname seen)" "ct_port t = 443"
    "\<forall>s \<in> set seen. ct_port s = 443"
  shows "distinct (map ct_hostname seen')" "set seen' \<subseteq> insert t (set seen)"
  using assms by (auto simp: merge_target_def find_None_iff split: option.splits if_splits)

section \<open>Properties\<close>

text \<open>C37. A compiled allowlist holds only canonical HTTPS targets. Every entry has port 443 and a
  lower-case DNS name of at least two labels that is neither an address literal nor a local or metadata
  name, even when the configured host only becomes such a name by IDNA; names are strictly increasing,
  so no target occurs twice.\<close>

theorem allowlist_is_canonical:
  assumes "resolver_ok rs" and "compile_proxy_allowlist rs policy hosts = Inr targets"
  shows "(\<forall>t \<in> set targets. canonical_target rs t) \<and> distinct (map ct_hostname targets) \<and>
    sorted (map ct_hostname targets)"
proof (cases "np_enabled policy")
  case False
  then show ?thesis using assms(2) by (auto simp: compile_proxy_allowlist_def split: if_splits)
next
  case True
  with assms(2) obtain ts ps seen where
    ts: "mapE (policy_target rs) (np_destinations policy) = Inr ts"
    and ps: "mapE (provider_target rs) (filter (\<lambda>raw. raw \<noteq> []) hosts) = Inr ps"
    and seen: "foldE merge_target [] (ts @ ps) = Inr seen"
    and targets: "targets = sort_key (\<lambda>t. (ct_hostname t, ct_port t)) seen"
    by (auto simp: compile_proxy_allowlist_def res_simps split: if_splits)
  have canon: "canonical_target rs t" if "t \<in> set (ts @ ps)" for t
    using that mapE_Inr [OF ts, of t] mapE_Inr [OF ps, of t] assms(1)
    by (auto simp: policy_target_def provider_target_def validate_proxy_destination_def parse_provider_target_def
        res_simps split: if_splits intro: target_canonical)
  have "distinct (map ct_hostname seen) \<and> set seen \<subseteq> set (ts @ ps)"
  proof (rule foldE_invariant [OF seen])
    fix t s s' assume t: "t \<in> set (ts @ ps)" and s: "distinct (map ct_hostname s) \<and> set s \<subseteq> set (ts @ ps)"
      and m: "merge_target s t = Inr s'"
    have ports: "ct_port t = 443" "\<forall>x \<in> set s. ct_port x = 443"
      using t s canon by (auto simp: canonical_target_def)
    show "distinct (map ct_hostname s') \<and> set s' \<subseteq> set (ts @ ps)"
      using merge_target_names [OF m _ ports] s t by auto
  qed simp
  moreover have "sorted (map ct_hostname targets)"
  proof -
    have "sorted (map (\<lambda>t. (ct_hostname t, ct_port t)) targets)" unfolding targets by (rule sorted_sort_key)
    then show ?thesis by (simp add: sorted_wrt_map less_eq_prod_simp sorted_map) (erule sorted_wrt_mono_rel [rotated], auto)
  qed
  moreover have "distinct (map ct_hostname targets)" if "distinct (map ct_hostname seen)"
    using that by (simp add: targets distinct_map)
  ultimately show ?thesis using canon targets by auto
qed

definition plain_resolver :: resolver where
  "plain_resolver = \<lparr>is_ip = (\<lambda>_. False), idna = (\<lambda>h. if ascii h then Some h else None)\<rparr>"

definition sample_policy :: network_policy where
  "sample_policy = \<lparr>np_enabled = True, np_destinations =
     [\<lparr>de_scheme = ''https'', de_host = Some ''API.example.org'', de_port = None, de_purpose = ''api''\<rparr>]\<rparr>"

definition sample_allowlist :: "error + connect_target list" where
  "sample_allowlist = compile_proxy_allowlist plain_resolver sample_policy [''a.example.org:443'']"

lemma sample_compiled:
  "(case sample_allowlist of Inl _ \<Rightarrow> False
    | Inr ts \<Rightarrow> map ct_hostname ts = [''a.example.org'', ''api.example.org''])"
  by code_simp

theorem allowlist_is_canonical_witness:
  "\<exists>ts. sample_allowlist = Inr ts \<and> map ct_hostname ts = [''a.example.org'', ''api.example.org''] \<and>
     sorted (map ct_hostname ts) \<and> (\<exists>t \<in> set ts. canonical_target plain_resolver t)"
proof -
  obtain ts where ts: "sample_allowlist = Inr ts" "map ct_hostname ts = [''a.example.org'', ''api.example.org'']"
    using sample_compiled by (auto split: sum.splits)
  have "resolver_ok plain_resolver" by (auto simp: resolver_ok_def plain_resolver_def)
  from allowlist_is_canonical [OF this ts(1) [unfolded sample_allowlist_def]] ts show ?thesis
    by (cases ts) auto
qed

text \<open>
  A single construction checks the name before IDNA only. A codec that folds the feminine ordinal to the
  letter a, as nameprep does, turns an accepted name into a forbidden one.
\<close>

lemma construction_admits_folded_metadata_host:
  "connect_target_of
     \<lparr>is_ip = (\<lambda>_. False), idna = (\<lambda>h. Some (map (\<lambda>c. if c = CHR 0xAA then CHR ''a'' else c) h))\<rparr>
     (''met'' @ [CHR 0xAA] @ ''data.google.internal'') 443 ''source catalogue'' =
   Inr \<lparr>ct_hostname = ''metadata.google.internal'', ct_port = 443, ct_purpose = ''source catalogue''\<rparr>"
  by code_simp

end
