(* ===== verification/Git_Local.thy ===== *)
theory Git_Local
  imports Py_Json Review_Partitions "HOL-Library.List_Lexorder" "HOL-Library.Char_ord"
begin

text \<open>
  \<^verbatim>\<open>execution/git.py\<close>: the typed operations on Git. The program and the file system below it
  are a parameter: a state, what a command prints and how it leaves the state, and what the file
  system shows. An operation that raises keeps what its commands have done, so results and states
  are passed on separately. Output is taken as bytes and the fixed environment of the child process
  is left out; only what a caller adds to it is passed.
\<close>

section \<open>Running the program\<close>

datatype git_exit =
    GitExit nat bytes bytes
  | GitTimeout

record 'g git_program =
  gp_exec :: "'g \<Rightarrow> string \<Rightarrow> string list \<Rightarrow> (string \<times> string) list \<Rightarrow> git_exit \<times> 'g"
  gp_exists :: "'g \<Rightarrow> string \<Rightarrow> bool"
  gp_is_dir :: "'g \<Rightarrow> string \<Rightarrow> bool"
  gp_read_only :: "'g \<Rightarrow> string \<Rightarrow> bool option"
  gp_access :: "'g \<Rightarrow> string \<Rightarrow> bool \<Rightarrow> bool"

type_synonym ('g, 'a) git_op = "'g \<Rightarrow> (error + 'a) \<times> 'g"

definition git_return :: "'a \<Rightarrow> ('g, 'a) git_op" where
  "git_return x g = (Inr x, g)"

definition git_fail :: "string \<Rightarrow> ('g, 'a) git_op" where
  "git_fail message g = (Inl (GitError message), g)"

definition git_bind :: "('g, 'a) git_op \<Rightarrow> ('a \<Rightarrow> ('g, 'b) git_op) \<Rightarrow> ('g, 'b) git_op" where
  "git_bind m f g = (case m g of (Inl e, g') \<Rightarrow> (Inl e, g') | (Inr x, g') \<Rightarrow> f x g')"

definition git_check :: "bool \<Rightarrow> string \<Rightarrow> ('g, unit) git_op" where
  "git_check ok message = (if ok then git_return () else git_fail message)"

definition SYSTEM_GIT_CONFIG :: "string list" where
  "SYSTEM_GIT_CONFIG =
     [''core.hooksPath=/dev/null'', ''core.pager=cat'', ''diff.external='', ''credential.helper='',
      ''commit.gpgSign=false'']"

definition git_command :: "string \<Rightarrow> string list \<Rightarrow> string list" where
  "git_command cwd args =
     ''/usr/bin/git'' # concat (map (\<lambda>item. [''-c'', item]) (SYSTEM_GIT_CONFIG @ [''safe.directory='' @ cwd])) @
     args"

definition git_run_allowed ::
  "'g git_program \<Rightarrow> string \<Rightarrow> nat set \<Rightarrow> string list \<Rightarrow> (string \<times> string) list \<Rightarrow> ('g, bytes) git_op" where
  "git_run_allowed G cwd allowed_returncodes args extra_environment g =
     (case gp_exec G g cwd (git_command cwd args) extra_environment of
        (GitTimeout, g') \<Rightarrow> (Inl (GitError ''Git operation timed out''), g')
      | (GitExit returncode stdout stderr, g') \<Rightarrow>
          if returncode \<notin> allowed_returncodes
          then
            (let diagnostic = (if stderr \<noteq> [] then stderr else stdout);
                 detail = take 400 (py_join '' '' (py_split diagnostic));
                 suffix = (if detail \<noteq> [] then '': '' @ detail else [])
             in (Inl (GitError (''Git operation failed: '' @ hd args @ suffix)), g'))
          else (Inr stdout, g'))"

definition git_run :: "'g git_program \<Rightarrow> string \<Rightarrow> string list \<Rightarrow> ('g, bytes) git_op" where
  "git_run G cwd args = git_run_allowed G cwd {0} args []"

definition git_optional :: "'g git_program \<Rightarrow> string \<Rightarrow> string list \<Rightarrow> ('g, bytes option) git_op" where
  "git_optional G cwd args g =
     (case git_run G cwd args g of (Inl e, g') \<Rightarrow> (Inr None, g') | (Inr out, g') \<Rightarrow> (Inr (Some out), g'))"

section \<open>Reading\<close>

definition commit_identity :: "string \<Rightarrow> bool" where
  "commit_identity commit =
     ((length commit = 40 \<or> length commit = 64) \<and> (\<forall>c \<in> set commit. c \<in> set ''0123456789abcdef''))"

definition head_ref :: "string \<Rightarrow> string" where
  "head_ref branch = ''refs/heads/'' @ branch"

definition resolve_commit :: "'g git_program \<Rightarrow> string \<Rightarrow> string \<Rightarrow> ('g, string) git_op" where
  "resolve_commit G repository ref =
     git_bind (git_run G repository [''rev-parse'', ''--verify'', ref @ ''^{commit}'']) (\<lambda>value.
       let commit = py_strip value
       in if \<not> commit_identity commit then git_fail ''Git returned an invalid commit identity''
          else git_return commit)"

definition read_ref :: "'g git_program \<Rightarrow> string \<Rightarrow> string \<Rightarrow> ('g, string option) git_op" where
  "read_ref G repository branch =
     git_bind (git_optional G repository [''rev-parse'', ''--verify'', head_ref branch @ ''^{commit}''])
       (\<lambda>raw. case raw of
          None \<Rightarrow> git_return None
        | Some value \<Rightarrow>
            let commit = py_strip value
            in if \<not> commit_identity commit then git_fail ''Git returned an invalid commit identity''
               else git_return (Some commit))"

definition path_join :: "string \<Rightarrow> string \<Rightarrow> string" where
  "path_join root name = root @ ''/'' @ name"

definition OPERATION_MARKERS :: "string list" where
  "OPERATION_MARKERS =
     [''MERGE_HEAD'', ''CHERRY_PICK_HEAD'', ''REVERT_HEAD'', ''rebase-apply'', ''rebase-merge'', ''sequencer'']"

definition require_clean_source :: "'g git_program \<Rightarrow> string \<Rightarrow> ('g, unit) git_op" where
  "require_clean_source G repository =
     git_bind (git_run G repository [''status'', ''--porcelain=v2'', ''--untracked-files=all'']) (\<lambda>status.
     git_bind (git_check (status = []) ''source repository is dirty'') (\<lambda>_.
     git_bind (git_run G repository [''rev-parse'', ''--absolute-git-dir'']) (\<lambda>raw g.
       git_check (\<not> (\<exists>marker \<in> set OPERATION_MARKERS. gp_exists G g (path_join (py_strip raw) marker)))
         ''source repository has an in-progress Git operation'' g)))"

definition repository_identity ::
  "platform \<Rightarrow> 'g git_program \<Rightarrow> string \<Rightarrow> ('g, string \<times> string option) git_op" where
  "repository_identity pf G repository =
     git_bind (git_run G repository [''rev-parse'', ''--path-format=absolute'', ''--git-common-dir'']) (\<lambda>common.
     git_bind (git_optional G repository [''remote'', ''get-url'', ''origin'']) (\<lambda>remote.
       git_return (pf_sha256 pf (py_strip common),
         case remote of None \<Rightarrow> None | Some url \<Rightarrow> if url = [] then None else Some (py_strip url))))"

definition commit_parent :: "'g git_program \<Rightarrow> string \<Rightarrow> string \<Rightarrow> ('g, string) git_op" where
  "commit_parent G worktree commit = resolve_commit G worktree (commit @ ''^'')"

definition is_ancestor :: "'g git_program \<Rightarrow> string \<Rightarrow> string \<Rightarrow> string \<Rightarrow> ('g, bool) git_op" where
  "is_ancestor G repository ancestor descendant =
     git_bind (git_optional G repository [''merge-base'', ''--is-ancestor'', ancestor, descendant])
       (\<lambda>result. git_return (result \<noteq> None))"

definition require_no_remotes :: "'g git_program \<Rightarrow> string \<Rightarrow> ('g, unit) git_op" where
  "require_no_remotes G worktree =
     git_bind (git_run G worktree [''remote''])
       (\<lambda>out. git_check (out = []) ''isolated worktree unexpectedly has a remote'')"

definition require_clean_worktree :: "'g git_program \<Rightarrow> string \<Rightarrow> ('g, unit) git_op" where
  "require_clean_worktree G worktree =
     git_bind (git_run G worktree [''status'', ''--porcelain=v2'', ''--untracked-files=all''])
       (\<lambda>status. git_check (status = []) ''finalized worktree is dirty'')"

definition require_clean_tracked_worktree :: "'g git_program \<Rightarrow> string \<Rightarrow> ('g, unit) git_op" where
  "require_clean_tracked_worktree G worktree =
     git_bind (git_optional G worktree [''diff'', ''--quiet'', ''--no-ext-diff'', ''HEAD'', ''--'']) (\<lambda>unstaged.
     git_bind (git_optional G worktree [''diff'', ''--cached'', ''--quiet'', ''--no-ext-diff'', ''HEAD'', ''--''])
       (\<lambda>staged. git_check (unstaged \<noteq> None \<and> staged \<noteq> None) ''artifact command changed tracked Git content''))"

definition require_diff_check :: "'g git_program \<Rightarrow> string \<Rightarrow> ('g, unit) git_op" where
  "require_diff_check G worktree =
     git_bind (git_run G worktree [''diff'', ''--cached'', ''--check'', ''--no-ext-diff'', ''--no-color''])
       (\<lambda>_. git_return ())"

definition tree_matches_commit :: "'g git_program \<Rightarrow> string \<Rightarrow> string \<Rightarrow> ('g, bool) git_op" where
  "tree_matches_commit G repository commit =
     git_bind (git_run G repository [''diff'', ''--name-only'', ''-z'', ''--no-ext-diff'', commit, ''--'']) (\<lambda>tracked.
     git_bind (git_run G repository [''ls-files'', ''--others'', ''--exclude-standard'', ''-z'']) (\<lambda>untracked.
       git_return (tracked = [] \<and> untracked = [])))"

section \<open>Write access\<close>

definition require_writable_path :: "'g git_program \<Rightarrow> bool \<Rightarrow> string \<Rightarrow> ('g, unit) git_op" where
  "require_writable_path G directory path g =
     (if directory \<and> \<not> gp_is_dir G g path
      then git_fail (''applier directory is unavailable: '' @ path) g
      else case gp_read_only G g path of
        None \<Rightarrow> git_fail (''applier cannot inspect write access to: '' @ path) g
      | Some True \<Rightarrow> git_fail (''applier path is on a read-only filesystem: '' @ path) g
      | Some False \<Rightarrow>
          git_check (gp_access G g path directory) (''applier lacks write access to: '' @ path) g)"

fun git_each :: "('a \<Rightarrow> ('g, unit) git_op) \<Rightarrow> 'a list \<Rightarrow> ('g, unit) git_op" where
  "git_each f [] = git_return ()"
| "git_each f (x # xs) = git_bind (f x) (\<lambda>_. git_each f xs)"

definition require_if_present :: "'g git_program \<Rightarrow> bool \<Rightarrow> string \<Rightarrow> ('g, unit) git_op" where
  "require_if_present G directory path g =
     (if gp_exists G g path then require_writable_path G directory path g else git_return () g)"

definition require_writable_root :: "'g git_program \<Rightarrow> string \<Rightarrow> ('g, unit) git_op" where
  "require_writable_root G root =
     git_bind (require_writable_path G True root) (\<lambda>_.
     git_bind (git_each (\<lambda>name. require_if_present G True (path_join root name))
                 [''objects'', ''objects/pack'', ''refs'', ''refs/heads'']) (\<lambda>_.
       git_each (\<lambda>name. require_if_present G False (path_join root name))
         [''HEAD'', ''index'', ''FETCH_HEAD'', ''packed-refs'']))"

text \<open>The two metadata roots are a set; their order in the loop does not matter.\<close>

definition require_apply_access :: "'g git_program \<Rightarrow> string \<Rightarrow> ('g, unit) git_op" where
  "require_apply_access G repository =
     git_bind (require_writable_path G True repository) (\<lambda>_.
     git_bind (git_run G repository [''rev-parse'', ''--path-format=absolute'', ''--absolute-git-dir'']) (\<lambda>own.
     git_bind (git_run G repository [''rev-parse'', ''--path-format=absolute'', ''--git-common-dir'']) (\<lambda>common.
       git_each (require_writable_root G) (remdups [py_strip own, py_strip common]))))"

section \<open>Inspection and commits\<close>

definition require_safe_path :: "string \<Rightarrow> ('g, unit) git_op" where
  "require_safe_path path =
     git_check (path \<noteq> [] \<and> \<not> path_absolute path \<and> ''..'' \<notin> set (path_parts path))
       ''Git path is not repository-relative''"

definition nul_items :: "bytes \<Rightarrow> string list" where
  "nul_items out = filter (\<lambda>item. item \<noteq> []) (py_split_on (CHR 0x00) out)"

fun untracked_diff :: "'g git_program \<Rightarrow> string \<Rightarrow> bytes \<Rightarrow> string list \<Rightarrow> ('g, bytes) git_op" where
  "untracked_diff G worktree diff [] = git_return diff"
| "untracked_diff G worktree diff (path # paths) =
     git_bind (require_safe_path path) (\<lambda>_.
     git_bind (git_run_allowed G worktree {0, 1}
                 [''diff'', ''--no-index'', ''--binary'', ''--no-ext-diff'', ''--no-textconv'', ''--no-color'',
                  ''--'', ''/dev/null'', path] []) (\<lambda>addition.
       untracked_diff G worktree (diff @ addition) paths))"

definition git_inspect :: "'g git_program \<Rightarrow> string \<Rightarrow> string option \<Rightarrow>
    ('g, git_inspection) git_op" where
  "git_inspect G worktree base_commit =
     (let comparison = (case base_commit of None \<Rightarrow> ''HEAD'' | Some b \<Rightarrow> if b = [] then ''HEAD'' else b) in
      git_bind (git_run G worktree [''rev-parse'', ''HEAD'']) (\<lambda>head.
      git_bind (git_run G worktree [''branch'', ''--show-current'']) (\<lambda>branch.
      git_bind (git_run G worktree
        [''diff'', ''--name-only'', ''-z'', ''--no-ext-diff'', ''--no-renames'', comparison]) (\<lambda>names.
      git_bind (git_run G worktree
        [''diff'', ''--name-only'', ''--diff-filter=A'', ''-z'', ''--no-ext-diff'', ''--find-renames'', comparison])
        (\<lambda>added_names.
      git_bind (git_run G worktree [''ls-files'', ''--others'', ''--exclude-standard'', ''-z'']) (\<lambda>untracked.
      git_bind (git_run G worktree
        [''diff'', ''--binary'', ''--no-ext-diff'', ''--no-textconv'', ''--no-color'', ''--no-renames'', comparison])
        (\<lambda>diff.
      git_bind (untracked_diff G worktree diff (nul_items untracked)) (\<lambda>whole.
        git_return
          \<lparr>gi_head = py_strip head, gi_branch = py_strip branch,
           gi_changed_files = sort (remdups (nul_items names @ nul_items untracked)), gi_diff = whole,
           gi_added_files = sort (remdups (nul_items added_names @ nul_items untracked))\<rparr>))))))))"

definition stage_paths :: "'g git_program \<Rightarrow> string \<Rightarrow> string list \<Rightarrow> ('g, unit) git_op" where
  "stage_paths G worktree paths =
     git_bind (git_check (paths \<noteq> []) ''cannot stage an empty path set'') (\<lambda>_.
     git_bind (git_each require_safe_path paths) (\<lambda>_.
     git_bind (git_run G worktree ([''add'', ''--all'', ''--''] @ paths)) (\<lambda>_. git_return ())))"

section \<open>Moving a branch\<close>

definition ZERO_COMMIT :: string where "ZERO_COMMIT = replicate 40 (CHR ''0'')"

text \<open>Bring the checked-out tree back to a branch that has already moved.\<close>

definition recover_tree ::
  "'g git_program \<Rightarrow> string \<Rightarrow> string \<Rightarrow> string \<Rightarrow> ('g, bool) git_op" where
  "recover_tree G repository expected_head result_commit =
     git_bind (tree_matches_commit G repository result_commit) (\<lambda>matches.
       if matches then git_return False
       else
         git_bind (tree_matches_commit G repository expected_head) (\<lambda>at_base.
         git_bind (git_check at_base ''managed worktree diverged during apply recovery'') (\<lambda>_.
         git_bind (git_run G repository [''reset'', ''--hard'', result_commit]) (\<lambda>_.
         git_bind (tree_matches_commit G repository result_commit) (\<lambda>recovered.
         git_bind (git_check recovered ''managed worktree did not recover to the approved result'') (\<lambda>_.
           git_return False))))))"

text \<open>Keep a checked-out tree aligned with the branch that has just moved.\<close>

definition align_tree :: "'g git_program \<Rightarrow> string \<Rightarrow> string \<Rightarrow> string \<Rightarrow> ('g, unit) git_op" where
  "align_tree G repository commit message =
     git_bind (git_run G repository [''reset'', ''--hard'', commit]) (\<lambda>_.
     git_bind (resolve_commit G repository ''HEAD'') (\<lambda>head. git_check (head = commit) message))"

text \<open>Fetch the result and swing the branch from its expected head.\<close>

definition advance_ref ::
  "'g git_program \<Rightarrow> string \<Rightarrow> string \<Rightarrow> string \<Rightarrow> string \<Rightarrow> string \<Rightarrow> bool \<Rightarrow> bool \<Rightarrow> ('g, bool) git_op" where
  "advance_ref G repository worktree target_ref expected_head result_commit target_exists checked_out =
     git_bind (if checked_out then require_clean_source G repository else git_return ()) (\<lambda>_.
     git_bind (git_run G repository [''fetch'', ''--no-tags'', worktree, result_commit]) (\<lambda>_.
     git_bind (resolve_commit G repository ''FETCH_HEAD'') (\<lambda>fetched.
     git_bind (git_check (fetched = result_commit) ''fetched result identity does not match the approval'') (\<lambda>_.
     git_bind (git_run G repository [''update-ref'', target_ref, result_commit,
                 if target_exists then expected_head else ZERO_COMMIT]) (\<lambda>_.
     git_bind (resolve_commit G repository target_ref) (\<lambda>moved.
     git_bind (git_check (moved = result_commit) ''target branch did not advance to the approved result'') (\<lambda>_.
     git_bind (if checked_out
               then align_tree G repository result_commit ''managed worktree did not reset to the approved result''
               else git_return ()) (\<lambda>_.
       git_return True))))))))"

definition unchanged_result ::
  "'g git_program \<Rightarrow> string \<Rightarrow> string \<Rightarrow> string \<Rightarrow> string \<Rightarrow> ('g, bool) git_op" where
  "unchanged_result G repository worktree target_branch result_commit =
     git_bind (resolve_commit G worktree ''HEAD'') (\<lambda>head.
     git_bind (git_check (head = result_commit) ''no-change worktree differs from the approved base'') (\<lambda>_.
     git_bind (require_clean_source G repository) (\<lambda>_.
     git_bind (read_ref G repository target_branch) (\<lambda>current.
     git_bind (git_check ((case current of None \<Rightarrow> result_commit | Some c \<Rightarrow> c) = result_commit)
                 ''target branch changed after the result was produced'') (\<lambda>_.
       git_return False)))))"

definition descends ::
  "'g git_program \<Rightarrow> string \<Rightarrow> string \<Rightarrow> string \<Rightarrow> string \<Rightarrow> ('g, bool) git_op" where
  "descends G repository worktree expected_head result_commit =
     git_bind (commit_parent G worktree result_commit) (\<lambda>result_parent.
       if result_parent = expected_head then git_return True
       else
         git_bind (is_ancestor G worktree expected_head result_commit) (\<lambda>inside.
           if inside then git_return True
           else is_ancestor G repository expected_head result_parent))"

text \<open>The branch has moved already, has moved elsewhere, or is where the result expects it.\<close>

definition move_branch ::
  "'g git_program \<Rightarrow> string \<Rightarrow> string \<Rightarrow> string \<Rightarrow> string \<Rightarrow> string \<Rightarrow> bytes option \<Rightarrow> bytes option \<Rightarrow>
   ('g, bool) git_op" where
  "move_branch G repository worktree target_branch expected_head result_commit checked_out raw_current =
     (let target_ref = head_ref target_branch;
          target_is_checked_out =
            (case checked_out of None \<Rightarrow> False | Some out \<Rightarrow> py_strip out = target_ref);
          current = (case raw_current of None \<Rightarrow> expected_head | Some out \<Rightarrow> py_strip out)
      in if current = result_commit
         then (if target_is_checked_out then recover_tree G repository expected_head result_commit
               else git_return False)
         else if current \<noteq> expected_head
         then git_fail ''target branch changed after the result was produced''
         else advance_ref G repository worktree target_ref expected_head result_commit
                (raw_current \<noteq> None) target_is_checked_out)"

definition apply_result ::
  "'g git_program \<Rightarrow> string \<Rightarrow> string \<Rightarrow> string \<Rightarrow> string \<Rightarrow> string \<Rightarrow> ('g, bool) git_op" where
  "apply_result G repository worktree target_branch expected_head result_commit =
     git_bind (require_clean_worktree G worktree) (\<lambda>_.
     git_bind (require_no_remotes G worktree) (\<lambda>_.
       if result_commit = expected_head
       then unchanged_result G repository worktree target_branch result_commit
       else
         git_bind (descends G repository worktree expected_head result_commit) (\<lambda>descendant.
         git_bind (git_check descendant ''result commit is not a descendant of the approved base'') (\<lambda>_.
         git_bind (git_optional G repository [''symbolic-ref'', ''--quiet'', ''HEAD'']) (\<lambda>checked_out.
         git_bind (git_optional G repository [''rev-parse'', ''--verify'', head_ref target_branch]) (\<lambda>raw_current.
           move_branch G repository worktree target_branch expected_head result_commit checked_out
             raw_current))))))"

definition fast_forward ::
  "'g git_program \<Rightarrow> string \<Rightarrow> string \<Rightarrow> string \<Rightarrow> ('g, string) git_op" where
  "fast_forward G repository branch commit =
     (let target_ref = head_ref branch in
      git_bind (read_ref G repository branch) (\<lambda>current.
        if current = Some commit then git_return ''already''
        else
          git_bind (case current of None \<Rightarrow> git_return True | Some c \<Rightarrow> is_ancestor G repository c commit) (\<lambda>forward.
            if \<not> forward then git_return ''diverged''
            else
              git_bind (git_optional G repository [''symbolic-ref'', ''--quiet'', ''HEAD'']) (\<lambda>checked_out.
                let target_is_checked_out =
                      (case checked_out of None \<Rightarrow> False | Some out \<Rightarrow> py_strip out = target_ref)
                in
                git_bind (if target_is_checked_out then require_clean_source G repository else git_return ()) (\<lambda>_.
                git_bind (git_run G repository [''update-ref'', target_ref, commit,
                            case current of None \<Rightarrow> ZERO_COMMIT | Some c \<Rightarrow> c]) (\<lambda>_.
                git_bind (resolve_commit G repository target_ref) (\<lambda>moved.
                git_bind (git_check (moved = commit) ''target branch did not advance to the accepted result'') (\<lambda>_.
                git_bind (if target_is_checked_out
                          then align_tree G repository commit ''checked-out branch did not reset to the accepted result''
                          else git_return ()) (\<lambda>_.
                  git_return ''advanced'')))))))))"

end
