(* ===== verification/Git_Contract.thy ===== *)
theory Git_Contract
  imports Git_Local
begin

text \<open>
  What the operations of \<^verbatim>\<open>execution/git.py\<close> rely on of Git, as the contract of a locale over two
  observers of its state, the tips of the branches and the branch of \<open>HEAD\<close>; and what applying a
  result does to the tips, proved inside it for every answer and every timeout of the program.
\<close>

section \<open>The contract\<close>

record 'g git_view =
  gv_tip :: "'g \<Rightarrow> string \<Rightarrow> string \<Rightarrow> string option"
  gv_head :: "'g \<Rightarrow> string \<Rightarrow> string option"

definition view_kept :: "'g git_view \<Rightarrow> 'g \<Rightarrow> 'g \<Rightarrow> bool" where
  "view_kept V g g' \<longleftrightarrow> gv_tip V g' = gv_tip V g \<and> gv_head V g' = gv_head V g"

definition tip_moved :: "'g git_view \<Rightarrow> string \<Rightarrow> string \<Rightarrow> string \<Rightarrow> 'g \<Rightarrow> 'g \<Rightarrow> bool" where
  "tip_moved V repo ref new g g' \<longleftrightarrow>
     gv_tip V g' repo ref = Some new \<and>
     (\<forall>repo' ref'. (repo', ref') \<noteq> (repo, ref) \<longrightarrow> gv_tip V g' repo' ref' = gv_tip V g repo' ref') \<and>
     gv_head V g' = gv_head V g"

fun keeps_branches :: "string list \<Rightarrow> bool" where
  "keeps_branches [] = False"
| "keeps_branches (c # args) \<longleftrightarrow>
     c \<in> {''rev-parse'', ''status'', ''merge-base'', ''diff'', ''ls-files''} \<or> c = ''remote'' \<and> (args = [] \<or> hd args = ''get-url'') \<or>
     c = ''symbolic-ref'' \<and> args = [''--quiet'', ''HEAD''] \<or> c = ''fetch'' \<and> hd args = ''--no-tags''"

fun exited :: "git_exit \<Rightarrow> bool" where
  "exited (GitExit code out err) \<longleftrightarrow> code = 0"
| "exited GitTimeout \<longleftrightarrow> False"

fun exit_output :: "git_exit \<Rightarrow> string" where
  "exit_output (GitExit code out err) = py_strip out"
| "exit_output GitTimeout = []"

definition expected_tip :: "string \<Rightarrow> string option" where
  "expected_tip old = (if old = ZERO_COMMIT then None else Some old)"

text \<open>A branch name without the characters that select another revision.\<close>

definition plain_branch :: "string \<Rightarrow> bool" where
  "plain_branch b \<longleftrightarrow> (\<forall>c \<in> set b. c \<in> set ''abcdefghijklmnopqrstuvwxyzABCDEFGHIJKLMNOPQRSTUVWXYZ0123456789-_./'')"

locale git_contract =
  fixes G :: "'g git_program" and V :: "'g git_view"
  assumes reads_keep:
    "keeps_branches args \<Longrightarrow> view_kept V g (snd (gp_exec G g cwd (git_command cwd args) []))"
  and verify_tip:
    "plain_branch b \<Longrightarrow> exited (fst (gp_exec G g cwd (git_command cwd [''rev-parse'', ''--verify'', head_ref b]) [])) \<Longrightarrow>
     gv_tip V g cwd (head_ref b) =
       Some (exit_output (fst (gp_exec G g cwd (git_command cwd [''rev-parse'', ''--verify'', head_ref b]) [])))"
  and verify_commit:
    "plain_branch b \<Longrightarrow> exited (fst (gp_exec G g cwd (git_command cwd [''rev-parse'', ''--verify'', head_ref b @ ''^{commit}'']) [])) \<Longrightarrow>
     gv_tip V g cwd (head_ref b) = Some (exit_output
       (fst (gp_exec G g cwd (git_command cwd [''rev-parse'', ''--verify'', head_ref b @ ''^{commit}'']) [])))"
  and symbolic_head:
    "exited (fst (gp_exec G g cwd (git_command cwd [''symbolic-ref'', ''--quiet'', ''HEAD'']) [])) \<Longrightarrow>
     gv_head V g cwd =
       Some (exit_output (fst (gp_exec G g cwd (git_command cwd [''symbolic-ref'', ''--quiet'', ''HEAD'']) [])))"
  and compare_and_swap:
    "gp_exec G g cwd (git_command cwd [''update-ref'', ref, new, old]) [] = (x, g') \<Longrightarrow>
     view_kept V g g' \<and> \<not> exited x \<or> gv_tip V g cwd ref = expected_tip old \<and> tip_moved V cwd ref new g g'"
  and reset_head:
    "gp_exec G g cwd (git_command cwd [''reset'', ''--hard'', commit]) [] = (x, g') \<Longrightarrow>
     view_kept V g g' \<or> (\<exists>ref. gv_head V g cwd = Some ref \<and> tip_moved V cwd ref commit g g')"

section \<open>Triples\<close>

text \<open>
  A condition on the state before an operation, and one on its result and the state after it,
  raised errors included.
\<close>

definition git_triple :: "('g \<Rightarrow> bool) \<Rightarrow> ('g, 'a) git_op \<Rightarrow> (error + 'a \<Rightarrow> 'g \<Rightarrow> bool) \<Rightarrow> bool" where
  "git_triple P m Q \<longleftrightarrow> (\<forall>g. P g \<longrightarrow> Q (fst (m g)) (snd (m g)))"

lemma git_tripleD: "git_triple P m Q \<Longrightarrow> P g \<Longrightarrow> Q (fst (m g)) (snd (m g))"
  by (simp add: git_triple_def)

lemma triple_return [intro]: "(\<And>g. P g \<Longrightarrow> Q (Inr x) g) \<Longrightarrow> git_triple P (git_return x) Q"
  by (simp add: git_triple_def git_return_def)

lemma triple_fail [intro]: "(\<And>g. P g \<Longrightarrow> Q (Inl (GitError e)) g) \<Longrightarrow> git_triple P (git_fail e) Q"
  by (simp add: git_triple_def git_fail_def)

lemma triple_bind:
  assumes "git_triple P m R" and "\<And>e g. R (Inl e) g \<Longrightarrow> Q (Inl e) g"
    and "\<And>x. git_triple (R (Inr x)) (f x) Q"
  shows "git_triple P (git_bind m f) Q"
  unfolding git_triple_def
proof (intro allI impI)
  fix g
  assume "P g"
  then have R: "R (fst (m g)) (snd (m g))" by (rule git_tripleD [OF assms(1)])
  show "Q (fst (git_bind m f g)) (snd (git_bind m f g))"
  proof (cases "m g")
    case (Pair r g')
    then show ?thesis
      using R assms(2) git_tripleD [OF assms(3)] by (cases r) (auto simp: git_bind_def)
  qed
qed

lemma triple_check:
  assumes "\<And>g. P g \<Longrightarrow> ok \<Longrightarrow> Q (Inr ()) g" and "\<And>e g. P g \<Longrightarrow> Q (Inl e) g"
  shows "git_triple P (git_check ok msg) Q"
  using assms by (auto simp: git_check_def)

lemma triple_weaken:
  "git_triple P m Q \<Longrightarrow> (\<And>g. P' g \<Longrightarrow> P g) \<Longrightarrow> (\<And>r g. Q r g \<Longrightarrow> Q' r g) \<Longrightarrow> git_triple P' m Q'"
  by (auto simp: git_triple_def)

text \<open>An operation that leaves what is observed alone keeps every condition on it.\<close>

definition git_reads :: "'g git_view \<Rightarrow> ('g, 'a) git_op \<Rightarrow> bool" where
  "git_reads V m \<longleftrightarrow> (\<forall>g. view_kept V g (snd (m g)))"

definition observed :: "'g git_view \<Rightarrow> ('g \<Rightarrow> bool) \<Rightarrow> bool" where
  "observed V P \<longleftrightarrow> (\<forall>g g'. view_kept V g g' \<longrightarrow> P g \<longrightarrow> P g')"

lemma view_kept_refl [simp]: "view_kept V g g"
  by (simp add: view_kept_def)

lemma view_kept_trans: "view_kept V g g' \<Longrightarrow> view_kept V g' g'' \<Longrightarrow> view_kept V g g''"
  by (simp add: view_kept_def)

lemma reads_return [simp]: "git_reads V (git_return x)" "git_reads V (git_fail e)" "git_reads V (git_check ok e)"
  by (simp_all add: git_reads_def git_return_def git_fail_def git_check_def)

lemma reads_bind: "git_reads V m \<Longrightarrow> (\<And>x. git_reads V (f x)) \<Longrightarrow> git_reads V (git_bind m f)"
  unfolding git_reads_def git_bind_def
  by (auto split: prod.split sum.split) (metis snd_conv view_kept_trans)+

lemma reads_if: "git_reads V m \<Longrightarrow> git_reads V m' \<Longrightarrow> git_reads V (if b then m else m')"
  by simp

lemma triple_reads:
  assumes "git_reads V m" and "observed V P"
  shows "git_triple P m (\<lambda>_. P)"
  using assms by (auto simp: git_triple_def git_reads_def observed_def)

lemma run_allowed_state:
  "snd (git_run_allowed G cwd allowed args env g) = snd (gp_exec G g cwd (git_command cwd args) env)"
  by (auto simp: git_run_allowed_def Let_def split: prod.split git_exit.split)

lemma run_state: "snd (git_run G cwd args g) = snd (gp_exec G g cwd (git_command cwd args) [])"
  by (simp add: git_run_def run_allowed_state)

lemma optional_state: "snd (git_optional G cwd args g) = snd (gp_exec G g cwd (git_command cwd args) [])"
  by (auto simp: git_optional_def run_state [symmetric] split: prod.split sum.split)

lemma run_Inr:
  "fst (git_run G cwd args g) = Inr out \<Longrightarrow>
   exited (fst (gp_exec G g cwd (git_command cwd args) [])) \<and>
   exit_output (fst (gp_exec G g cwd (git_command cwd args) [])) = py_strip out"
  by (auto simp: git_run_def git_run_allowed_def Let_def split: prod.splits git_exit.splits if_splits)

lemma optional_Some:
  "fst (git_optional G cwd args g) = Inr (Some out) \<Longrightarrow>
   exited (fst (gp_exec G g cwd (git_command cwd args) [])) \<and>
   exit_output (fst (gp_exec G g cwd (git_command cwd args) [])) = py_strip out"
  using run_Inr [of G cwd args g out] by (auto simp: git_optional_def split: prod.splits sum.splits)

lemma optional_total: "\<exists>r. fst (git_optional G cwd args g) = Inr r"
  by (auto simp: git_optional_def split: prod.split sum.split)

section \<open>Applying a result\<close>

text \<open>
  The branch \<open>ref\<close> is as it was, or it was at the head the swap expects and is now at the result;
  no other branch has changed.
\<close>

definition swung :: "'g git_view \<Rightarrow> string \<Rightarrow> string \<Rightarrow> string option set \<Rightarrow> string \<Rightarrow> 'g \<Rightarrow> 'g \<Rightarrow> bool" where
  "swung V repo ref olds new g g' \<longleftrightarrow>
     view_kept V g g' \<or> gv_tip V g repo ref \<in> olds \<and> tip_moved V repo ref new g g'"

text \<open>What applying a result leaves: on success the branch is at the result, or nothing has changed.\<close>

definition delivered_post ::
  "'g git_view \<Rightarrow> 'g \<Rightarrow> string \<Rightarrow> string \<Rightarrow> string \<Rightarrow> string \<Rightarrow> error + bool \<Rightarrow> 'g \<Rightarrow> bool" where
  "delivered_post V g0 repo b expected result r g \<longleftrightarrow>
     swung V repo (head_ref b) {None, Some expected} result g0 g \<and>
     (if result = expected then view_kept V g0 g
      else \<forall>x. r = Inr x \<longrightarrow> gv_tip V g repo (head_ref b) = Some result)"

lemma observed_conj [intro]: "observed V P \<Longrightarrow> observed V Q \<Longrightarrow> observed V (\<lambda>g. P g \<and> Q g)"
  by (simp add: observed_def)

lemma observed_view [intro]:
  "observed V (view_kept V g)" "observed V (swung V repo ref olds new g)"
  "observed V (\<lambda>g'. gv_tip V g' repo ref = x)" "observed V (\<lambda>g'. gv_head V g' repo = y)" "observed V (\<lambda>_. b)"
  unfolding observed_def swung_def by (auto simp: view_kept_def tip_moved_def)

lemma swung_head: "swung V repo ref olds new g g' \<Longrightarrow> gv_head V g' = gv_head V g"
  by (auto simp: swung_def view_kept_def tip_moved_def)

lemma moved_again:
  assumes "tip_moved V repo ref new g g'" and "gv_tip V g repo ref = Some new"
  shows "view_kept V g g'"
proof -
  have "gv_tip V g' repo' ref' = gv_tip V g repo' ref'" for repo' ref'
    using assms by (cases "(repo', ref') = (repo, ref)") (auto simp: tip_moved_def)
  then show ?thesis using assms(1) by (auto simp: view_kept_def tip_moved_def)
qed

lemmas git_reader_defs = resolve_commit_def read_ref_def require_clean_source_def commit_parent_def
  is_ancestor_def require_no_remotes_def require_clean_worktree_def tree_matches_commit_def
  descends_def unchanged_result_def Let_def

context git_contract
begin

lemma reads_run: "keeps_branches args \<Longrightarrow> git_reads V (git_run G cwd args)"
  by (simp add: git_reads_def run_state reads_keep)

lemma reads_optional: "keeps_branches args \<Longrightarrow> git_reads V (git_optional G cwd args)"
  by (simp add: git_reads_def optional_state reads_keep)

lemmas reads_intros = reads_bind reads_if reads_run reads_optional reads_return

lemma readers:
  "git_reads V (resolve_commit G repo ref)" "git_reads V (is_ancestor G repo a c)"
  "git_reads V (read_ref G repo b)" "git_reads V (require_no_remotes G repo)"
  "git_reads V (require_clean_worktree G repo)" "git_reads V (tree_matches_commit G repo c)"
  by (auto simp: git_reader_defs intro!: reads_intros split: option.split)

lemma reads_clean_source: "git_reads V (require_clean_source G repo)"
proof -
  have check: "git_reads V (\<lambda>g. git_check (P g) e g)" for P :: "'g \<Rightarrow> bool" and e
    by (simp add: git_reads_def git_check_def git_return_def git_fail_def)
  show ?thesis
    unfolding require_clean_source_def
    by (rule reads_bind reads_run reads_return check keeps_branches.simps(2) [THEN iffD2] | simp)+
qed

lemma reads_descends: "git_reads V (descends G repo wt h c)"
  unfolding descends_def commit_parent_def by (intro reads_bind reads_if readers reads_return)

lemma reads_writable: "git_reads V (require_writable_path G directory path)"
  by (auto simp: git_reads_def require_writable_path_def git_fail_def git_check_def git_return_def
      split: option.split bool.split)

lemma reads_present: "git_reads V (require_if_present G directory path)"
  using reads_writable [of directory path]
  by (auto simp: git_reads_def require_if_present_def git_return_def)

lemma reads_each: "(\<And>x. git_reads V (f x)) \<Longrightarrow> git_reads V (git_each f xs)"
  by (induction xs) (auto intro: reads_bind)

lemma reads_access: "git_reads V (require_apply_access G repo)"
  unfolding require_apply_access_def require_writable_root_def
  by (intro reads_bind reads_each reads_writable reads_present reads_run) simp_all

lemma reads_identity: "git_reads V (repository_identity pf G repo)"
  unfolding repository_identity_def
  by (intro reads_bind reads_run reads_optional reads_return) simp_all

lemma reads_unchanged: "git_reads V (unchanged_result G repo wt b c)"
  unfolding unchanged_result_def by (intro reads_bind readers reads_clean_source reads_return)

lemma resolve_tip:
  "plain_branch b \<Longrightarrow> git_triple (\<lambda>_. True) (resolve_commit G repo (head_ref b))
     (\<lambda>r g. case r of Inl _ \<Rightarrow> True | Inr c \<Rightarrow> gv_tip V g repo (head_ref b) = Some c)"
proof -
  assume b: "plain_branch b"
  let ?args = "[''rev-parse'', ''--verify'', head_ref b @ ''^{commit}'']"
  have "git_triple (\<lambda>_. True) (git_run G repo ?args)
     (\<lambda>r g. case r of Inl _ \<Rightarrow> True | Inr out \<Rightarrow> gv_tip V g repo (head_ref b) = Some (py_strip out))"
    unfolding git_triple_def
    using run_Inr [of G repo ?args] verify_commit [OF b, of _ repo] reads_keep [of ?args]
    by (auto simp: run_state view_kept_def split: sum.split)
  then show ?thesis
    unfolding resolve_commit_def by (rule triple_bind) (auto simp: Let_def)
qed

lemma swap_triple:
  "git_triple (view_kept V g0) (git_run G repo [''update-ref'', ref, new, old])
     (\<lambda>_. swung V repo ref {expected_tip old} new g0)"
  unfolding git_triple_def
proof (intro allI impI)
  fix g
  assume kept: "view_kept V g0 g"
  obtain x g' where x: "gp_exec G g repo (git_command repo [''update-ref'', ref, new, old]) [] = (x, g')"
    by (cases "gp_exec G g repo (git_command repo [''update-ref'', ref, new, old]) []")
  then have "snd (git_run G repo [''update-ref'', ref, new, old] g) = g'" by (simp add: run_state)
  with compare_and_swap [OF x] kept
  show "swung V repo ref {expected_tip old} new g0 (snd (git_run G repo [''update-ref'', ref, new, old] g))"
    by (auto simp: swung_def view_kept_def tip_moved_def)
qed

lemma reset_triple:
  "git_triple (\<lambda>g. swung V repo ref olds new g0 g \<and> gv_tip V g repo ref = Some new \<and>
       gv_head V g0 repo = Some ref)
     (git_run G repo [''reset'', ''--hard'', new])
     (\<lambda>_ g. swung V repo ref olds new g0 g \<and> gv_tip V g repo ref = Some new)"
  unfolding git_triple_def
proof (intro allI impI)
  fix g
  assume P: "swung V repo ref olds new g0 g \<and> gv_tip V g repo ref = Some new \<and>
       gv_head V g0 repo = Some ref"
  obtain x g' where x: "gp_exec G g repo (git_command repo [''reset'', ''--hard'', new]) [] = (x, g')"
    by (cases "gp_exec G g repo (git_command repo [''reset'', ''--hard'', new]) []")
  have head: "gv_head V g repo = Some ref" using P swung_head by metis
  have "view_kept V g g'" using reset_head [OF x] head P moved_again by fastforce
  moreover have "observed V (\<lambda>g. swung V repo ref olds new g0 g \<and> gv_tip V g repo ref = Some new)"
    by (intro observed_conj observed_view)
  ultimately show "swung V repo ref olds new g0 (snd (git_run G repo [''reset'', ''--hard'', new] g)) \<and>
      gv_tip V (snd (git_run G repo [''reset'', ''--hard'', new] g)) repo ref = Some new"
    using P x by (auto simp: observed_def run_state)
qed

lemma triple_keeps:
  assumes "git_reads V m" and "observed V P" and "\<And>r g. P g \<Longrightarrow> Q r g"
  shows "git_triple P m Q"
  using triple_reads [OF assms(1, 2)] by (rule triple_weaken) (simp_all add: assms(3))

lemma triple_reads_and:
  assumes "git_reads V m" and "observed V P" and "git_triple (\<lambda>_. True) m Q"
  shows "git_triple P m (\<lambda>r g. P g \<and> Q r g)"
  using assms by (auto simp: git_triple_def git_reads_def observed_def)

lemma align_triple:
  assumes "gv_head V g0 repo = Some ref"
  shows "git_triple (\<lambda>g. swung V repo ref olds new g0 g \<and> gv_tip V g repo ref = Some new)
    (align_tree G repo new message) (\<lambda>_ g. swung V repo ref olds new g0 g \<and> gv_tip V g repo ref = Some new)"
  unfolding align_tree_def
proof (rule triple_bind)
  show "git_triple (\<lambda>g. swung V repo ref olds new g0 g \<and> gv_tip V g repo ref = Some new)
      (git_run G repo [''reset'', ''--hard'', new])
      (\<lambda>_ g. swung V repo ref olds new g0 g \<and> gv_tip V g repo ref = Some new)"
    using reset_triple by (rule triple_weaken) (simp_all add: assms)
next
  show "git_triple (\<lambda>g. swung V repo ref olds new g0 g \<and> gv_tip V g repo ref = Some new)
      (git_bind (resolve_commit G repo ''HEAD'') (\<lambda>head. git_check (head = new) message))
      (\<lambda>_ g. swung V repo ref olds new g0 g \<and> gv_tip V g repo ref = Some new)"
    by (rule triple_keeps [OF reads_bind [OF readers(1) reads_return(3)]]) auto
qed auto

lemma advance_triple:
  assumes b: "plain_branch b" and head: "checked_out \<Longrightarrow> gv_head V g0 repo = Some (head_ref b)"
  shows "git_triple (view_kept V g0)
    (advance_ref G repo wt (head_ref b) expected result exists checked_out)
    (\<lambda>r g. swung V repo (head_ref b) {None, Some expected} result g0 g \<and>
       (\<forall>x. r = Inr x \<longrightarrow> gv_tip V g repo (head_ref b) = Some result))"
proof -
  let ?old = "if exists then expected else ZERO_COMMIT"
  let ?S = "swung V repo (head_ref b) {None, Some expected} result g0"
  let ?at = "\<lambda>g. ?S g \<and> gv_tip V g repo (head_ref b) = Some result"
  have kept: "git_triple (view_kept V g0) m (\<lambda>_. view_kept V g0)" if "git_reads V m" for m :: "('g, 'b) git_op"
    using triple_reads [OF that] by blast
  have swap: "git_triple (view_kept V g0) (git_run G repo [''update-ref'', head_ref b, result, ?old]) (\<lambda>_. ?S)"
    using swap_triple by (rule triple_weaken) (auto simp: swung_def expected_tip_def split: if_splits)
  have moved: "git_triple ?S (resolve_commit G repo (head_ref b))
      (\<lambda>r g. ?S g \<and> (case r of Inl _ \<Rightarrow> True | Inr c \<Rightarrow> gv_tip V g repo (head_ref b) = Some c))"
    by (rule triple_reads_and [OF readers(1) _ resolve_tip [OF b]]) blast
  have aligned: "git_triple ?at (if checked_out then align_tree G repo result e else git_return ()) (\<lambda>_. ?at)" for e
    using align_triple [OF head] by auto
  have S0: "?S g" if "view_kept V g0 g" for g using that by (simp add: swung_def)
  show ?thesis
    unfolding advance_ref_def
    apply (rule triple_bind [OF kept], rule reads_if [OF reads_clean_source reads_return(1)], simp add: S0)
    apply (rule triple_bind [OF kept], rule reads_run, simp, simp add: S0)
    apply (rule triple_bind [OF kept [OF readers(1)]], simp add: S0)
    apply (rule triple_bind [OF kept [OF reads_return(3)]], simp add: S0)
    apply (rule triple_bind [OF swap], simp)
    apply (rule triple_bind [OF moved], simp)
    apply (rule triple_bind [OF triple_check [where Q = "\<lambda>r g. ?S g \<and>
        (\<forall>x. r = Inr x \<longrightarrow> gv_tip V g repo (head_ref b) = Some result)"]], simp, simp, simp)
    apply (rule triple_weaken [OF triple_bind [OF aligned [of "''managed worktree did not reset to the approved result''"]]])
    by auto
qed

lemma recover_triple:
  assumes "gv_head V g0 repo = Some (head_ref b)" and "gv_tip V g0 repo (head_ref b) = Some result"
  shows "git_triple (view_kept V g0) (recover_tree G repo expected result) (\<lambda>_. view_kept V g0)"
proof -
  have kept: "git_triple (view_kept V g0) m (\<lambda>_. view_kept V g0)" if "git_reads V m" for m :: "('g, 'b) git_op"
    using triple_reads [OF that] by blast
  have same: "swung V repo (head_ref b) {} result g0 g \<longleftrightarrow> view_kept V g0 g" for g
    by (simp add: swung_def)
  have tip: "gv_tip V g repo (head_ref b) = Some result" if "view_kept V g0 g" for g
    using that assms(2) by (simp add: view_kept_def)
  have reset: "git_triple (view_kept V g0) (git_run G repo [''reset'', ''--hard'', result]) (\<lambda>_. view_kept V g0)"
    using reset_triple [of repo "head_ref b" "{}" result g0]
    by (rule triple_weaken) (auto simp: same tip assms)
  have rest: "git_reads V (git_bind (tree_matches_commit G repo result) (\<lambda>recovered.
      git_bind (git_check recovered e) (\<lambda>_. git_return False)))" for e
    by (intro reads_bind readers reads_return)
  show ?thesis
    unfolding recover_tree_def
    apply (rule triple_bind [OF kept [OF readers(6)]], simp)
    apply (split if_split, intro conjI impI, rule kept [OF reads_return(1)])
    apply (rule triple_bind [OF kept [OF readers(6)]], simp)
    apply (rule triple_bind [OF kept [OF reads_return(3)]], simp)
    apply (rule triple_bind [OF reset], simp)
    apply (rule kept [OF rest])
    done
qed

lemma read_ref_tip:
  assumes "plain_branch b"
  shows "git_triple (\<lambda>_. True) (read_ref G repo b)
    (\<lambda>r g. \<forall>c. r = Inr (Some c) \<longrightarrow> gv_tip V g repo (head_ref b) = Some c)"
proof -
  let ?args = "[''rev-parse'', ''--verify'', head_ref b @ ''^{commit}'']"
  have "git_triple (\<lambda>_. True) (git_optional G repo ?args)
     (\<lambda>r g. \<forall>out. r = Inr (Some out) \<longrightarrow> gv_tip V g repo (head_ref b) = Some (py_strip out))"
    unfolding git_triple_def
    using optional_Some [of G repo ?args] verify_commit [OF assms, of _ repo] reads_keep [of ?args]
    by (auto simp: optional_state view_kept_def)
  then show ?thesis
    unfolding read_ref_def by (rule triple_bind) (auto simp: Let_def split: option.split)
qed

lemma optional_triple:
  assumes "keeps_branches args" and "observed V P"
    and "\<And>g. exited (fst (gp_exec G g repo (git_command repo args) [])) \<Longrightarrow>
       obs g = Some (exit_output (fst (gp_exec G g repo (git_command repo args) [])))"
    and "\<And>x. observed V (\<lambda>g. obs g = x)"
  shows "git_triple P (git_optional G repo args)
    (\<lambda>r g. P g \<and> (\<forall>out. r = Inr (Some out) \<longrightarrow> obs g = Some (py_strip out)))"
proof -
  have "obs (snd (git_optional G repo args g)) = Some (py_strip out)"
    if "fst (git_optional G repo args g) = Inr (Some out)" for g out
  proof -
    have "obs g = Some (py_strip out)" using optional_Some [OF that] assms(3) by simp
    moreover have "view_kept V g (snd (git_optional G repo args g))"
      using reads_keep [OF assms(1)] by (simp add: optional_state)
    ultimately show ?thesis using assms(4) by (simp add: observed_def)
  qed
  then show ?thesis
    using triple_reads [OF reads_optional [OF assms(1)] assms(2)] by (auto simp: git_triple_def)
qed

lemma delivered_kept: "view_kept V g0 g \<Longrightarrow> delivered_post V g0 repo b expected result (Inl e) g"
  by (simp add: delivered_post_def swung_def)

lemma move_triple:
  assumes b: "plain_branch b" and ne: "result \<noteq> expected"
    and head: "\<And>out. co = Some out \<Longrightarrow> gv_head V g0 repo = Some (py_strip out)"
    and tip: "\<And>out. raw = Some out \<Longrightarrow> gv_tip V g0 repo (head_ref b) = Some (py_strip out)"
  shows "git_triple (view_kept V g0) (move_branch G repo wt b expected result co raw)
    (delivered_post V g0 repo b expected result)"
proof -
  let ?co = "case co of None \<Rightarrow> False | Some out \<Rightarrow> py_strip out = head_ref b"
  have co: "?co \<Longrightarrow> gv_head V g0 repo = Some (head_ref b)" using head by (auto split: option.splits)
  consider (there) out where "raw = Some out" "py_strip out = result"
    | (elsewhere) out where "raw = Some out" "py_strip out \<noteq> result" "py_strip out \<noteq> expected"
    | (expected) "(case raw of None \<Rightarrow> expected | Some out \<Rightarrow> py_strip out) = expected"
    by (cases raw) auto
  then show ?thesis
  proof cases
    case there
    then have "gv_tip V g repo (head_ref b) = Some result" if "view_kept V g0 g" for g
      using tip that by (simp add: view_kept_def)
    then have "delivered_post V g0 repo b expected result r g" if "view_kept V g0 g" for r g
      using that ne by (simp add: delivered_post_def swung_def)
    with there co show ?thesis
      by (auto simp: move_branch_def Let_def tip intro!: triple_weaken [OF recover_triple])
  next
    case elsewhere
    then show ?thesis by (auto simp: move_branch_def delivered_kept)
  next
    case expected
    show ?thesis
      using advance_triple [where checked_out = ?co and wt = wt and expected = expected and result = result
          and exists = "raw \<noteq> None", OF b co] expected ne
      by (simp add: move_branch_def delivered_post_def [abs_def] Let_def)
  qed
qed

lemma apply_triple:
  assumes b: "plain_branch b"
  shows "git_triple (view_kept V g0) (apply_result G repo wt b expected result)
     (delivered_post V g0 repo b expected result)"
proof -
  have kept: "git_triple (view_kept V g0) m (\<lambda>_. view_kept V g0)" if "git_reads V m" for m :: "('g, 'b) git_op"
    using triple_reads [OF that] by blast
  have head: "git_triple (view_kept V g0) (git_optional G repo [''symbolic-ref'', ''--quiet'', ''HEAD''])
      (\<lambda>r g. view_kept V g0 g \<and> (\<forall>out. r = Inr (Some out) \<longrightarrow> gv_head V g0 repo = Some (py_strip out)))"
    by (rule triple_weaken [OF optional_triple [where obs = "\<lambda>g. gv_head V g repo" and P = "view_kept V g0"]])
      (auto simp: symbolic_head view_kept_def observed_def)
  have tip: "git_triple (\<lambda>g. view_kept V g0 g \<and> C) (git_optional G repo [''rev-parse'', ''--verify'', head_ref b])
      (\<lambda>r g. view_kept V g0 g \<and> C \<and>
         (\<forall>out. r = Inr (Some out) \<longrightarrow> gv_tip V g0 repo (head_ref b) = Some (py_strip out)))" for C
    by (rule triple_weaken [OF optional_triple [where obs = "\<lambda>g. gv_tip V g repo (head_ref b)"
          and P = "\<lambda>g. view_kept V g0 g \<and> C"]])
      (auto simp: verify_tip [OF b] view_kept_def observed_def)
  have move: "git_triple (\<lambda>g. view_kept V g0 g \<and>
        (\<forall>out. co = Some out \<longrightarrow> gv_head V g0 repo = Some (py_strip out)) \<and>
        (\<forall>out. raw = Some out \<longrightarrow> gv_tip V g0 repo (head_ref b) = Some (py_strip out)))
      (move_branch G repo wt b expected result co raw) (delivered_post V g0 repo b expected result)"
    if "result \<noteq> expected" for co raw
    using move_triple [OF b that] by (auto simp: git_triple_def)
  have noop: "git_triple (view_kept V g0) (unchanged_result G repo wt b result)
      (delivered_post V g0 repo b expected result)" if "result = expected"
    by (rule triple_keeps [OF reads_unchanged]) (auto simp: delivered_post_def swung_def that)
  show ?thesis
    unfolding apply_result_def
    apply (rule triple_bind [OF kept [OF readers(5)]], simp add: delivered_kept)
    apply (rule triple_bind [OF kept [OF readers(4)]], simp add: delivered_kept)
    apply (split if_split, intro conjI impI, erule noop)
    apply (rule triple_bind [OF kept [OF reads_descends]], simp add: delivered_kept)
    apply (rule triple_bind [OF kept [OF reads_return(3)]], simp add: delivered_kept)
    apply (rule triple_bind [OF head], simp add: delivered_kept)
    apply (rule triple_bind [OF tip], simp add: delivered_kept)
    apply (simp add: move)
    done
qed

end

section \<open>A small Git\<close>

text \<open>
  An instance of the contract: one commit store per repository path, a \<open>HEAD\<close> branch, what was
  fetched last, and a switch that makes one command time out after it has done its work.
\<close>

record mini_git =
  mg_tip :: "string \<Rightarrow> string \<Rightarrow> string option"
  mg_head :: "string \<Rightarrow> string option"
  mg_fetched :: string
  mg_parent :: "string \<Rightarrow> string"
  mg_slow :: "string list \<Rightarrow> bool"

definition drop_suffix :: "string \<Rightarrow> string \<Rightarrow> string" where
  "drop_suffix suffix s = (if py_endswith s suffix then take (length s - length suffix) s else s)"

definition mini_tip :: "mini_git \<Rightarrow> string \<Rightarrow> string \<Rightarrow> string option" where
  "mini_tip g cwd r = map_option py_strip (mg_tip g cwd r)"

definition mini_head :: "mini_git \<Rightarrow> string \<Rightarrow> string option" where
  "mini_head g cwd = map_option py_strip (mg_head g cwd)"

definition mini_rev :: "mini_git \<Rightarrow> string \<Rightarrow> string \<Rightarrow> string option" where
  "mini_rev g cwd r =
     (if r = ''HEAD'' then Option.bind (mini_head g cwd) (mini_tip g cwd)
      else if r = ''FETCH_HEAD'' then Some (mg_fetched g)
      else if py_startswith r ''refs/heads/'' then mini_tip g cwd r
      else Some (mg_parent g r))"

definition answer :: "string option \<Rightarrow> git_exit" where
  "answer out = (case out of None \<Rightarrow> GitExit 128 [] ''fatal'' | Some s \<Rightarrow> GitExit 0 (s @ [CHR 0x0A]) [])"

definition mini_set :: "string \<Rightarrow> string \<Rightarrow> string \<Rightarrow> mini_git \<Rightarrow> mini_git" where
  "mini_set cwd ref new g = g\<lparr>mg_tip := (mg_tip g)(cwd := (mg_tip g cwd)(ref := Some new))\<rparr>"

definition mini_args :: "mini_git \<Rightarrow> string \<Rightarrow> string list \<Rightarrow> git_exit \<times> mini_git" where
  "mini_args g cwd args =
     (if take 2 args = [''rev-parse'', ''--verify''] \<and> length args = 3
      then (answer (mini_rev g cwd (drop_suffix ''^{commit}'' (args ! 2))), g)
      else if take 1 args = [''rev-parse''] then (answer (Some (cwd @ ''/.git'')), g)
      else if args = [''symbolic-ref'', ''--quiet'', ''HEAD''] then (answer (mini_head g cwd), g)
      else if take 1 args = [''update-ref''] \<and> length args = 4
      then (if mini_tip g cwd (args ! 1) = expected_tip (args ! 3) \<and> py_strip (args ! 2) = args ! 2
            then (GitExit 0 [] [], mini_set cwd (args ! 1) (args ! 2) g) else (GitExit 128 [] ''fatal'', g))
      else if take 1 args = [''reset''] \<and> length args = 3
      then (case mini_head g cwd of None \<Rightarrow> (GitExit 0 [] [], g)
            | Some r \<Rightarrow> if py_strip (args ! 2) = args ! 2 then (GitExit 0 [] [], mini_set cwd r (args ! 2) g)
                        else (GitExit 128 [] ''fatal'', g))
      else if take 1 args = [''fetch''] then (GitExit 0 [] [], g\<lparr>mg_fetched := last args\<rparr>)
      else (GitExit 0 [] [], g))"

definition mini_exec ::
  "mini_git \<Rightarrow> string \<Rightarrow> string list \<Rightarrow> (string \<times> string) list \<Rightarrow> git_exit \<times> mini_git" where
  "mini_exec g cwd command env =
     (let args = drop 13 command; r = mini_args g cwd args
      in if mg_slow g args then (GitTimeout, snd r) else r)"

definition mini_program :: "mini_git git_program" where
  "mini_program = \<lparr>gp_exec = mini_exec, gp_exists = (\<lambda>_ _. False), gp_is_dir = (\<lambda>_ _. True),
     gp_read_only = (\<lambda>_ _. Some False), gp_access = (\<lambda>_ _ _. True)\<rparr>"

definition mini_view :: "mini_git git_view" where
  "mini_view = \<lparr>gv_tip = mini_tip, gv_head = mini_head\<rparr>"

lemma drop_command [simp]: "drop 13 (git_command cwd args) = args"
  by (simp add: git_command_def SYSTEM_GIT_CONFIG_def)

lemma exited_answer [simp]: "exited (answer out) \<longleftrightarrow> out \<noteq> None"
  by (auto simp: answer_def split: option.split)

lemma dropWhile_rev_snoc: "P x \<Longrightarrow> dropWhile P (rev (dropWhile P (s @ [x]))) = dropWhile P (rev (dropWhile P s))"
  by (induction s) auto

lemma strip_newline [simp]: "py_strip (s @ [CHR 0x0A]) = py_strip s"
  by (simp add: py_strip_def py_lstrip_def dropWhile_rev_snoc py_isspace_def)

lemma dropWhile_strip_idem:
  "dropWhile P (rev (dropWhile P (rev (dropWhile P (rev (dropWhile P s)))))) = dropWhile P (rev (dropWhile P s))"
proof -
  let ?m = "rev (dropWhile P (rev (dropWhile P s)))"
  have "dropWhile P ?m = ?m"
  proof (cases "dropWhile P s")
    case (Cons a l)
    then have "\<not> P a" using hd_dropWhile [of P s] by simp
    then have "dropWhile P (rev l @ [a]) = dropWhile P (rev l) @ [a]" by (auto simp: dropWhile_append)
    with Cons \<open>\<not> P a\<close> show ?thesis by simp
  next
    case Nil
    show ?thesis unfolding Nil by simp
  qed
  then show ?thesis by simp
qed

lemma strip_idem [simp]: "py_strip (py_strip s) = py_strip s"
  by (simp add: py_strip_def py_lstrip_def dropWhile_strip_idem)

lemma output_answer [simp]: "exit_output (answer (Some s)) = py_strip s"
  by (simp add: answer_def)

lemma exec_mini [simp]:
  "gp_exec mini_program g cwd (git_command cwd args) env =
     (if mg_slow g args then (GitTimeout, snd (mini_args g cwd args)) else mini_args g cwd args)"
  by (simp add: mini_program_def mini_exec_def Let_def)

lemma mini_set_view:
  "py_strip new = new \<Longrightarrow> tip_moved mini_view cwd ref new g (mini_set cwd ref new g)"
  by (auto simp: tip_moved_def mini_view_def mini_tip_def mini_head_def mini_set_def fun_eq_iff)

lemma mini_view_fetched: "view_kept mini_view g (g\<lparr>mg_fetched := c\<rparr>)"
  by (simp add: view_kept_def mini_view_def mini_tip_def mini_head_def fun_eq_iff)

lemma mini_rev_head: "mini_rev g cwd (head_ref b) = mini_tip g cwd (head_ref b)"
  by (simp add: mini_rev_def head_ref_def py_startswith_def)

lemma drop_suffix_commit: "drop_suffix ''^{commit}'' (s @ ''^{commit}'') = s"
  by (simp add: drop_suffix_def py_endswith_def)

lemma drop_suffix_plain: "plain_branch b \<Longrightarrow> drop_suffix ''^{commit}'' (head_ref b) = head_ref b"
proof -
  assume b: "plain_branch b"
  have "CHR ''}'' \<notin> set ''abcdefghijklmnopqrstuvwxyzABCDEFGHIJKLMNOPQRSTUVWXYZ0123456789-_./''" by simp
  then have "CHR ''}'' \<notin> set b" using b unfolding plain_branch_def by metis
  then have brace: "CHR ''}'' \<notin> set (head_ref b)" by (simp add: head_ref_def)
  have "\<not> py_endswith (head_ref b) ''^{commit}''"
  proof
    assume "py_endswith (head_ref b) ''^{commit}''"
    then have "set ''^{commit}'' \<subseteq> set (head_ref b)" by (metis py_endswith_def set_drop_subset)
    with brace show False by simp
  qed
  then show ?thesis by (simp add: drop_suffix_def)
qed

interpretation mini: git_contract mini_program mini_view
proof
  show "view_kept mini_view g (snd (gp_exec mini_program g cwd (git_command cwd args) []))"
    if "keeps_branches args" for args g cwd
    using that by (cases args) (auto simp: mini_args_def mini_view_fetched)
  show "gv_tip mini_view g cwd (head_ref b) =
       Some (exit_output (fst (gp_exec mini_program g cwd (git_command cwd [''rev-parse'', ''--verify'', head_ref b]) [])))"
    if "plain_branch b" "exited (fst (gp_exec mini_program g cwd (git_command cwd [''rev-parse'', ''--verify'', head_ref b]) []))"
    for g cwd b
    using that
    by (auto simp: mini_args_def mini_view_def mini_rev_head drop_suffix_plain mini_tip_def
        numeral_2_eq_2 split: if_splits)
  show "gv_tip mini_view g cwd (head_ref b) = Some (exit_output
       (fst (gp_exec mini_program g cwd (git_command cwd [''rev-parse'', ''--verify'', head_ref b @ ''^{commit}'']) [])))"
    if "plain_branch b"
      "exited (fst (gp_exec mini_program g cwd (git_command cwd [''rev-parse'', ''--verify'', head_ref b @ ''^{commit}'']) []))"
    for g cwd b
    using that
    by (auto simp: mini_args_def mini_view_def mini_rev_head drop_suffix_commit mini_tip_def
        numeral_2_eq_2 split: if_splits)
  show "gv_head mini_view g cwd =
       Some (exit_output (fst (gp_exec mini_program g cwd (git_command cwd [''symbolic-ref'', ''--quiet'', ''HEAD'']) [])))"
    if "exited (fst (gp_exec mini_program g cwd (git_command cwd [''symbolic-ref'', ''--quiet'', ''HEAD'']) []))" for g cwd
    using that by (auto simp: mini_args_def mini_view_def mini_head_def split: if_splits)
  show "view_kept mini_view g g' \<and> \<not> exited x \<or>
      gv_tip mini_view g cwd ref = expected_tip old \<and> tip_moved mini_view cwd ref new g g'"
    if "gp_exec mini_program g cwd (git_command cwd [''update-ref'', ref, new, old]) [] = (x, g')"
    for g cwd ref new old x g'
    using that mini_set_view [of new cwd ref g]
    by (auto simp: mini_args_def mini_view_def numeral_2_eq_2 numeral_3_eq_3 split: if_splits)
  show "view_kept mini_view g g' \<or> (\<exists>ref. gv_head mini_view g cwd = Some ref \<and> tip_moved mini_view cwd ref commit g g')"
    if "gp_exec mini_program g cwd (git_command cwd [''reset'', ''--hard'', commit]) [] = (x, g')" for g cwd commit x g'
    using that mini_set_view [of commit cwd _ g]
    by (auto simp: mini_args_def mini_view_def numeral_2_eq_2 split: if_splits option.splits)
qed

section \<open>Delivery is a compare and swap\<close>

definition demo_git :: mini_git where
  "demo_git = \<lparr>mg_tip = (\<lambda>cwd r. if cwd = ''/repo'' \<and> r = head_ref ''main'' then Some (replicate 40 (CHR ''1''))
       else if cwd = ''/work'' \<and> r = head_ref ''task'' then Some (replicate 40 (CHR ''2'')) else None),
     mg_head = (\<lambda>cwd. if cwd = ''/repo'' then Some (head_ref ''main'') else Some (head_ref ''task'')),
     mg_fetched = [], mg_parent = (\<lambda>_. replicate 40 (CHR ''1'')), mg_slow = (\<lambda>_. False)\<rparr>"

text \<open>C7. Applying a result is a compare and swap of one branch. Whatever Git answers and wherever a
  command fails or times out, no other branch changes; the target branch is untouched, or it was
  absent or at the expected head and is now at the result; and when the operation returns, the
  branch is at the result. A result equal to its base changes nothing.\<close>

theorem apply_is_compare_and_swap:
  assumes "git_contract G V" and "plain_branch b"
    and "apply_result G repo wt b expected result g = (r, g')"
  shows "(\<forall>repo' ref. (repo', ref) \<noteq> (repo, head_ref b) \<longrightarrow> gv_tip V g' repo' ref = gv_tip V g repo' ref) \<and>
    (gv_tip V g' repo (head_ref b) = gv_tip V g repo (head_ref b) \<or>
     gv_tip V g repo (head_ref b) \<in> {None, Some expected} \<and> gv_tip V g' repo (head_ref b) = Some result) \<and>
    (if result = expected then gv_tip V g' = gv_tip V g
     else \<forall>changed. r = Inr changed \<longrightarrow> gv_tip V g' repo (head_ref b) = Some result)"
proof -
  have "delivered_post V g repo b expected result r g'"
    using git_tripleD [OF git_contract.apply_triple [OF assms(1, 2), of g repo wt expected result], of g] assms(3)
    by simp
  then show ?thesis
    by (auto simp: delivered_post_def swung_def view_kept_def tip_moved_def)
qed

theorem apply_is_compare_and_swap_witness:
  "\<exists>g'. apply_result mini_program ''/repo'' ''/work'' ''main'' (replicate 40 (CHR ''1''))
       (replicate 40 (CHR ''2'')) demo_git = (Inr True, g') \<and>
     mini_tip g' ''/repo'' (head_ref ''main'') = Some (replicate 40 (CHR ''2'')) \<and>
     mini_tip g' ''/work'' (head_ref ''task'') = Some (replicate 40 (CHR ''2''))"
proof -
  let ?r = "apply_result mini_program ''/repo'' ''/work'' ''main'' (replicate 40 (CHR ''1''))
       (replicate 40 (CHR ''2'')) demo_git"
  have plain: "plain_branch ''main''" by code_simp
  have ok: "fst ?r = Inr True" by code_simp
  then obtain g' where g': "?r = (Inr True, g')" by (cases ?r) auto
  have ne: "replicate 40 (CHR ''2'') \<noteq> replicate 40 (CHR ''1'')" by simp
  have "mini_tip demo_git ''/work'' (head_ref ''task'') = Some (replicate 40 (CHR ''2''))" by code_simp
  with apply_is_compare_and_swap [OF mini.git_contract_axioms plain g'] ne g' show ?thesis
    by (auto simp: mini_view_def head_ref_def)
qed

end
