(* ===== verification/Result_Apply.thy ===== *)
theory Result_Apply
  imports Workflow_Steps Leasing Git_Contract
begin

text \<open>
  \<^verbatim>\<open>execution/result_apply.py\<close>: the handler that applies an approved result to its branch. The
  effect is recorded before Git is touched and settled after it; every transaction checks the lease
  again. A transaction that raises leaves the database as it was, while what Git has done stays.
  The two moments at which the handler asks for cancellation are arguments.
\<close>

section \<open>Configuration and request\<close>

datatype delivery_mode = DM_RETAIN | DM_PATCH | DM_APPLY | DM_MERGE | DM_PUSH

record project_config =
  pc_id :: string
  pc_repository_path :: string
  pc_default_branch :: string
  pc_enabled :: bool
  pc_allowed_modes :: "delivery_mode list"
  pc_approval_required :: "delivery_mode list"

definition project_get :: "project_config list \<Rightarrow> string \<Rightarrow> error + project_config" where
  "project_get projects project_id =
     (case find_row pc_id projects project_id of
        None \<Rightarrow> Inl (ValueError (''unknown project ID: '' @ project_id))
      | Some project \<Rightarrow> Inr project)"

record step_request =
  rq_task_id :: uuid
  rq_run_id :: uuid
  rq_step_id :: uuid
  rq_lease_owner :: string
  rq_lease_generation :: int

text \<open>\<open>envelope[key]\<close>, and a value that is passed on as text.\<close>

definition jindex :: "json_obj \<Rightarrow> string \<Rightarrow> error + json" where
  "jindex obj key = (case map_of obj key of None \<Rightarrow> Inl (KeyError key) | Some v \<Rightarrow> Inr v)"

fun text_arg :: "json \<Rightarrow> error + string" where
  "text_arg (JStr s) = Inr s"
| "text_arg _ = Inl (TypeError ''expected str, bytes or os.PathLike object'')"

definition LIVE_LEASE :: "step_status set" where
  "LIVE_LEASE = {S_LEASED, S_RUNNING}"

definition USABLE_APPROVAL :: "approval_status set" where
  "USABLE_APPROVAL = {A_APPROVED, A_CONSUMED}"

definition holds_lease :: "step_request \<Rightarrow> step \<Rightarrow> bool" where
  "holds_lease rq s =
     (step_status s \<in> LIVE_LEASE \<and> step_lease_owner s = Some (rq_lease_owner rq) \<and>
      step_lease_generation s = rq_lease_generation rq)"

definition leased_step :: "db \<Rightarrow> step_request \<Rightarrow> step option" where
  "leased_step d rq =
     (case get_step d (rq_step_id rq) of
        None \<Rightarrow> None
      | Some s \<Rightarrow> if step_run_id s = rq_run_id rq \<and> holds_lease rq s then Some s else None)"

definition require_lease :: "db \<Rightarrow> step_request \<Rightarrow> string \<Rightarrow> error + step" where
  "require_lease d rq stage =
     (case leased_step d rq of
        None \<Rightarrow> Inl (LeaseLost (''apply step lease lost '' @ stage @ '': '' @ uuid_str (rq_step_id rq)))
      | Some s \<Rightarrow> Inr s)"

section \<open>Loading the approved result\<close>

definition get_worktree :: "db \<Rightarrow> uuid \<Rightarrow> worktree option" where
  "get_worktree d = find_row wt_id (db_worktrees d)"

definition upd_worktree :: "uuid \<Rightarrow> (worktree \<Rightarrow> worktree) \<Rightarrow> db \<Rightarrow> db" where
  "upd_worktree k f d = d\<lparr>db_worktrees := update_row wt_id k f (db_worktrees d)\<rparr>"

interpretation worktree_store: row_store db_worktrees wt_id get_worktree upd_worktree
  by unfold_locales (simp_all add: get_worktree_def upd_worktree_def)

definition upd_package :: "uuid \<Rightarrow> (work_package \<Rightarrow> work_package) \<Rightarrow> db \<Rightarrow> db" where
  "upd_package k f d = d\<lparr>db_packages := update_row wp_id k f (db_packages d)\<rparr>"

interpretation package_store: row_store db_packages wp_id get_package upd_package
  by unfold_locales (simp_all add: get_package_def upd_package_def)

text \<open>The comparison stops at the first difference; a missing key raises.\<close>

fun pinned_values :: "json_obj \<Rightarrow> (string \<times> json) list \<Rightarrow> error + bool" where
  "pinned_values envelope [] = Inr True"
| "pinned_values envelope ((key, v) # rest) =
     bindE (jindex envelope key) (\<lambda>x. if \<not> json_eq x v then Inr False else pinned_values envelope rest)"

definition revision_drift :: "json_obj \<Rightarrow> run \<Rightarrow> string option" where
  "revision_drift envelope r =
     map_option fst (find (\<lambda>(field, v). jget envelope field \<noteq> JNull \<and> \<not> json_eq (jget envelope field) (JStr v))
       [(''configuration_revision'', run_configuration_revision r), (''policy_revision'', run_policy_revision r)])"

definition approved_row :: "db \<Rightarrow> uuid \<Rightarrow> approval option" where
  "approved_row d aid =
     (case get_approval d aid of
        None \<Rightarrow> None
      | Some a \<Rightarrow> if appr_status a \<in> USABLE_APPROVAL then Some a else None)"

definition load_bound :: "platform \<Rightarrow> db \<Rightarrow> step_request \<Rightarrow> step \<Rightarrow> uuid \<Rightarrow> error + (uuid \<times> json_obj \<times> worktree)" where
  "load_bound pf d rq s aid =
     (case approved_row d aid of
        None \<Rightarrow> Inl (ValueError ''result has not been approved'')
      | Some a \<Rightarrow>
          bindE (verified_envelope pf s a) (\<lambda>envelope.
          case find (\<lambda>w. wt_run_id w = rq_run_id rq \<and> wt_task_id w = rq_task_id rq) (db_worktrees d) of
            None \<Rightarrow> Inl (LookupError ''approved result worktree is missing'')
          | Some w \<Rightarrow>
              bindE (pinned_values envelope
                [(''project_id'', JStr (wt_project_id w)), (''base_commit'', JStr (wt_base_commit w)),
                 (''result_commit'', opt_json (wt_result_commit w)), (''diff_hash'', opt_json (wt_diff_hash w))])
                (\<lambda>same.
                if \<not> same then Inl (ValueError ''retained result changed after approval was requested'')
                else case get_run d (rq_run_id rq) of
                  None \<Rightarrow> Inl (LookupError ''approved result run is missing'')
                | Some r \<Rightarrow>
                    (case revision_drift envelope r of
                       Some field \<Rightarrow> Inl (ValueError (''approval envelope '' @ field @ '' drifted since approval''))
                     | None \<Rightarrow> Inr (aid, envelope, w)))))"

definition load_approved :: "platform \<Rightarrow> db \<Rightarrow> step_request \<Rightarrow> error + (uuid \<times> json_obj \<times> worktree)" where
  "load_approved pf d rq =
     (case get_step d (rq_step_id rq) of
        None \<Rightarrow> Inl (LookupError ''approval step is missing'')
      | Some s \<Rightarrow>
          if \<not> holds_lease rq s \<or> step_run_id s \<noteq> rq_run_id rq
          then Inl (LeaseLost (''apply step lease lost before loading: '' @ uuid_str (rq_step_id rq)))
          else case jget (step_payload s) ''approval_id'' of
            JStr raw_id \<Rightarrow>
              (case uuid_parse raw_id of
                 None \<Rightarrow> Inl (ValueError ''badly formed hexadecimal UUID string'')
               | Some aid \<Rightarrow> load_bound pf d rq s aid)
          | _ \<Rightarrow> Inl (ValueError ''approval step has no approval identity''))"

section \<open>The live grant of a managed goal\<close>

definition INACTIVE_GOAL :: "string set" where
  "INACTIVE_GOAL = {''paused'', ''cancelled'', ''completed''}"

definition POLICY_REVISION :: string where
  "POLICY_REVISION = ''project-lead-policy.v1''"

definition task_package :: "db \<Rightarrow> uuid \<Rightarrow> work_package option" where
  "task_package d tid = Option.bind (task_link d tid) (\<lambda>link. get_package d (link_work_package_id link))"

definition new_effect_blocker :: "db \<Rightarrow> uuid \<Rightarrow> bool option \<Rightarrow> bool \<Rightarrow> string option" where
  "new_effect_blocker d tid feature_enabled restoring_publication =
     (case Option.bind (task_package d tid) wp_managed_goal_id of
        None \<Rightarrow> None
      | Some gid \<Rightarrow>
          if feature_enabled = Some False then Some ''project_lead_disabled''
          else case get_goal d gid of
            None \<Rightarrow> Some ''managed_goal_missing''
          | Some goal \<Rightarrow>
              if goal_lifecycle goal \<in> INACTIVE_GOAL \<and>
                 \<not> (restoring_publication \<and> goal_lifecycle goal = ''completed'')
              then Some ''managed_goal_inactive''
              else case find_row deleg_id (db_delegations d) (goal_delegation_id goal) of
                None \<Rightarrow> Some ''delegation_revoked''
              | Some delegation \<Rightarrow>
                  if deleg_revoked_at delegation \<noteq> None then Some ''delegation_revoked''
                  else if delegation_is_expired (deleg_expires_at delegation) (wall_now d)
                  then Some ''delegation_expired''
                  else if deleg_policy_revision delegation \<noteq> POLICY_REVISION \<or>
                          deleg_project_id delegation \<noteq> goal_project_id goal \<or>
                          deleg_integration_branch delegation \<noteq> goal_integration_branch goal \<or>
                          ''apply_integration'' \<notin> set (deleg_allowed_actions delegation)
                  then Some ''delegation_changed''
                  else None)"

section \<open>Transactions\<close>

definition EFFECT_CLASS_ISOLATED_MUTATION :: string where
  "EFFECT_CLASS_ISOLATED_MUTATION = ''isolated_mutation''"

definition IDEMPOTENCY_RECONCILABLE :: string where
  "IDEMPOTENCY_RECONCILABLE = ''reconcilable''"

definition apply_intent ::
  "platform \<Rightarrow> step_request \<Rightarrow> uuid \<Rightarrow> json_obj \<Rightarrow> worktree \<Rightarrow> json \<times> json \<times> json \<Rightarrow> effect_intent" where
  "apply_intent pf rq aid envelope w terms =
     (let payload_hash = envelope_hash pf envelope; (branch, expected_head, result_commit) = terms in
      \<lparr>ei_operation_key = apply_operation_key aid (py_str result_commit) (py_str branch),
       ei_step_id = rq_step_id rq, ei_effect_class = EFFECT_CLASS_ISOLATED_MUTATION,
       ei_target_kind = TARGET_KIND_GIT_REF, ei_target_reference = head_ref (py_str branch),
       ei_idempotency = IDEMPOTENCY_RECONCILABLE, ei_payload_hash = payload_hash,
       ei_lease_generation = rq_lease_generation rq, ei_task_id = Some (rq_task_id rq),
       ei_run_id = Some (rq_run_id rq), ei_horizon_id = None, ei_attempt_id = None,
       ei_permission_envelope_hash = Some payload_hash, ei_approval_id = Some aid,
       ei_approval_envelope_hash = Some payload_hash,
       ei_context =
         [(''project_id'', JStr (wt_project_id w)), (''worktree_id'', JStr (uuid_str (wt_id w))),
          (''target_branch'', branch), (''expected_head'', expected_head), (''result_commit'', result_commit)]\<rparr>)"

definition record_apply_intent ::
  "db \<Rightarrow> step_request \<Rightarrow> bool option \<Rightarrow> uuid \<Rightarrow> effect_intent \<Rightarrow> error + (uuid \<times> db)" where
  "record_apply_intent d rq feature_enabled aid intent =
     (case new_effect_blocker d (rq_task_id rq) feature_enabled False of
        Some blocker \<Rightarrow> Inl (ValueError blocker)
      | None \<Rightarrow>
          bindE (require_lease d rq ''before effect intent'') (\<lambda>_.
            case approved_row d aid of
              None \<Rightarrow> Inl (ValueError ''result has not been approved'')
            | Some _ \<Rightarrow> record_intent d intent))"

definition consumed :: "time \<Rightarrow> approval \<Rightarrow> approval" where
  "consumed now a =
     a\<lparr>appr_status := A_CONSUMED,
       appr_consumed_at := (case appr_consumed_at a of None \<Rightarrow> Some now | Some t \<Rightarrow> Some t)\<rparr>"

definition delivered :: "string \<Rightarrow> string \<Rightarrow> worktree \<Rightarrow> worktree" where
  "delivered operation_hash ref w =
     w\<lparr>wt_delivery_state := W_APPLIED, wt_delivery_operation_hash := Some operation_hash,
       wt_delivered_ref := Some ref\<rparr>"

definition APPLICABLE :: "worktree_delivery_state set" where
  "APPLICABLE = {W_WORKTREE_RETAINED, W_APPLIED}"

text \<open>The head of a package that integrates on the branch; its evidence is captured by a call.\<close>

definition record_package_head ::
  "project_config list \<Rightarrow> db \<Rightarrow> uuid \<Rightarrow> string \<Rightarrow> worktree \<Rightarrow> error + db" where
  "record_package_head projects d tid target_branch w =
     (case task_link d tid of
        None \<Rightarrow> Inr d
      | Some link \<Rightarrow>
          (case get_package d (link_work_package_id link) of
             None \<Rightarrow> Inl (LookupError ''applied package disappeared'')
           | Some package \<Rightarrow>
               if wp_integration_branch package \<noteq> Some target_branch then Inr d
               else
                 let d1 = upd_package (wp_id package)
                            (\<lambda>p. p\<lparr>wp_integration_head_commit := wt_result_commit w\<rparr>) d
                 in case (wp_managed_goal_id package, wt_result_commit w) of
                      (Some _, Some commit) \<Rightarrow>
                        if commit = [] then Inr d1
                        else bindE (project_get projects (wt_project_id w)) (\<lambda>project.
                          Inr (add_call (HeadEvidence (wp_id package) (wt_path w)
                                 (pc_repository_path project) commit) d1))
                    | _ \<Rightarrow> Inr d1))"

definition OPEN_EFFECT :: "string set" where
  "OPEN_EFFECT = {STATUS_INTENT_RECORDED, STATUS_DISPATCHED, STATUS_UNCERTAIN}"

definition settle_effect :: "uuid \<Rightarrow> string \<Rightarrow> db \<Rightarrow> db" where
  "settle_effect eid external_ref d =
     (case get_effect d eid of
        None \<Rightarrow> d
      | Some e \<Rightarrow>
          if eff_status e \<in> OPEN_EFFECT
          then upd_effect eid (settle_applied (wall_now d) external_ref None METHOD_READ_GIT_REF) d
          else d)"

definition record_applied ::
  "project_config list \<Rightarrow> db \<Rightarrow> step_request \<Rightarrow> uuid \<Rightarrow> uuid \<Rightarrow> string \<Rightarrow> string \<Rightarrow> uuid \<Rightarrow> error + db" where
  "record_applied projects d rq aid wid operation_hash target_branch eid =
     bindE (require_lease d rq ''before persistence'') (\<lambda>_.
     case (get_approval d aid, get_worktree d wid) of
       (Some a, Some w) \<Rightarrow>
         if appr_status a \<notin> USABLE_APPROVAL
         then Inl (ValueError ''approval changed before apply was recorded'')
         else if wt_delivery_state w \<notin> APPLICABLE
         then Inl (ValueError ''worktree is not in an applicable delivery state'')
         else
           let d1 = upd_worktree wid (delivered operation_hash (head_ref target_branch))
                      (upd_approval aid (consumed (wall_now d)) d)
           in bindE (record_package_head projects d1 (rq_task_id rq) target_branch w) (\<lambda>d2.
              Inr (settle_effect eid (head_ref target_branch @ ''@'' @ py_str (opt_json (wt_result_commit w))) d2))
     | _ \<Rightarrow> Inl (LookupError ''applied result records disappeared''))"

text \<open>A report has no branch to move: accepting it consumes the approval.\<close>

definition report_evidence_same :: "json_obj \<Rightarrow> evidence \<Rightarrow> bool" where
  "report_evidence_same envelope e =
     (json_eq (jget envelope ''validation_evidence_hash'') (JStr (vd_validation_evidence_hash e)) \<and>
      json_eq (jget envelope ''review_evidence_hash'') (vd_review_evidence_hash e) \<and>
      json_eq (jget envelope ''report_hash'') (vd_report_hash e))"

definition accept_report :: "platform \<Rightarrow> db \<Rightarrow> step_request \<Rightarrow> uuid \<Rightarrow> json_obj \<Rightarrow> error + db" where
  "accept_report pf d rq aid envelope =
     (case lock_task_run_step d (rq_step_id rq) of
        None \<Rightarrow> Inl (LeaseLost ''report acceptance step disappeared'')
      | Some (t, r, s) \<Rightarrow>
          if \<not> holds_lease rq s then Inl (LeaseLost ''report acceptance lease changed'')
          else case approved_row d aid of
            None \<Rightarrow> Inl (ValueError ''report approval changed'')
          | Some a \<Rightarrow>
              bindE (verified_envelope pf s a) (\<lambda>current.
                if \<not> json_eq (JObj current) (JObj envelope) then Inl (ValueError ''report approval envelope changed'')
                else case find (\<lambda>w. wt_run_id w = run_id r) (db_worktrees d) of
                  None \<Rightarrow> Inl (ValueError ''report worktree missing'')
                | Some w \<Rightarrow>
                    bindE (validation_evidence pf (filter (\<lambda>x. step_run_id x = run_id r) (db_steps d)) w) (\<lambda>e.
                      if \<not> report_evidence_same envelope e then Inl (ValueError ''report evidence changed'')
                      else Inr (upd_approval aid (consumed (wall_now d)) d))))"

section \<open>The handler\<close>

definition cancelled_outcome :: "string \<Rightarrow> step_outcome" where
  "cancelled_outcome category =
     \<lparr>so_kind = CANCELLED, so_result = [], so_category = Some category, so_summary = None,
      so_unknown_effects = False\<rparr>"

definition blocked_outcome :: "string \<Rightarrow> step_outcome" where
  "blocked_outcome message =
     \<lparr>so_kind = BLOCKED, so_result = [], so_category = Some ''approved_result_not_applied'',
      so_summary = Some (take 500 message), so_unknown_effects = False\<rparr>"

text \<open>What \<open>except\<close> makes of an error; anything else is raised on.\<close>

fun caught :: "error \<Rightarrow> error + step_outcome" where
  "caught (LeaseLost _) = Inr (cancelled_outcome ''apply_lease_lost'')"
| "caught (GitError m) = Inr (blocked_outcome m)"
| "caught (LookupError m) = Inr (blocked_outcome m)"
| "caught (KeyError k) = Inr (blocked_outcome (py_repr_string k))"
| "caught (ValueError m) = Inr (blocked_outcome m)"
| "caught (EffectUncertainError m) = Inr (blocked_outcome m)"
| "caught e = Inl e"

definition package_target :: "db \<Rightarrow> uuid \<Rightarrow> json \<Rightarrow> bool" where
  "package_target d tid target_branch =
     (case target_branch of
        JStr branch \<Rightarrow> Option.bind (task_package d tid) wp_integration_branch = Some branch
      | _ \<Rightarrow> False)"

definition check_policy ::
  "db \<Rightarrow> step_request \<Rightarrow> project_config \<Rightarrow> json_obj \<Rightarrow> worktree \<Rightarrow> error + unit" where
  "check_policy d rq project envelope w =
     (if \<not> pc_enabled project
      then Inl (ValueError ''project is disabled; approved result cannot be applied'')
      else if DM_APPLY \<notin> set (pc_allowed_modes project)
      then Inl (ValueError ''project policy does not allow local apply'')
      else if DM_APPLY \<notin> set (pc_approval_required project)
      then Inl (ValueError ''project policy does not require approval for local apply'')
      else
        bindE (jindex envelope ''target_branch'') (\<lambda>branch.
          if branch \<noteq> JStr (pc_default_branch project) \<and> \<not> package_target d (rq_task_id rq) branch
          then Inl (ValueError ''project default branch changed after approval was requested'')
          else
            bindE (jindex envelope ''project_id'') (\<lambda>pid.
              if \<not> json_eq pid (JStr (wt_project_id w))
              then Inl (ValueError ''approval project does not match retained worktree'')
              else Inr ())))"

text \<open>The state of the handler: the database and Git. \<open>with_db\<close> is a transaction, \<open>with_git\<close> a call.\<close>

type_synonym ('g, 'a) world_op = "db \<times> 'g \<Rightarrow> (error + 'a) \<times> (db \<times> 'g)"

definition world_bind :: "('g, 'a) world_op \<Rightarrow> ('a \<Rightarrow> ('g, 'b) world_op) \<Rightarrow> ('g, 'b) world_op" where
  "world_bind m f w = (case m w of (Inl e, w') \<Rightarrow> (Inl e, w') | (Inr x, w') \<Rightarrow> f x w')"

definition with_db :: "(db \<Rightarrow> error + 'a \<times> db) \<Rightarrow> ('g, 'a) world_op" where
  "with_db f w = (case f (fst w) of Inl e \<Rightarrow> (Inl e, w) | Inr (x, d) \<Rightarrow> (Inr x, d, snd w))"

definition reading :: "(db \<Rightarrow> error + 'a) \<Rightarrow> ('g, 'a) world_op" where
  "reading f w = (f (fst w), w)"

definition with_git :: "('g, 'a) git_op \<Rightarrow> ('g, 'a) world_op" where
  "with_git m w = (fst (m (snd w)), fst w, snd (m (snd w)))"

definition world_return :: "'a \<Rightarrow> ('g, 'a) world_op" where
  "world_return x w = (Inr x, w)"

definition delivery_terms :: "json_obj \<Rightarrow> error + json \<times> json \<times> json" where
  "delivery_terms envelope =
     bindE (jindex envelope ''result_commit'') (\<lambda>result_commit.
     bindE (jindex envelope ''target_branch'') (\<lambda>branch.
     bindE (jindex envelope ''expected_target_head'') (\<lambda>expected_head.
       Inr (branch, expected_head, result_commit))))"

definition text_terms :: "json \<times> json \<times> json \<Rightarrow> error + string \<times> string \<times> string" where
  "text_terms terms =
     (case terms of (branch, expected_head, result_commit) \<Rightarrow>
        bindE (text_arg branch) (\<lambda>b. bindE (text_arg expected_head) (\<lambda>h. bindE (text_arg result_commit) (\<lambda>c.
          Inr (b, h, c)))))"

text \<open>Git and the record of its success, behind the recorded intent.\<close>

definition perform ::
  "platform \<Rightarrow> project_config list \<Rightarrow> 'g git_program \<Rightarrow> step_request \<Rightarrow> project_config \<Rightarrow> uuid \<Rightarrow> json_obj \<Rightarrow>
   worktree \<Rightarrow> json \<times> json \<times> json \<Rightarrow> uuid \<Rightarrow> ('g, step_outcome) world_op" where
  "perform pf projects G rq project aid envelope w terms eid =
     world_bind (reading (\<lambda>_. text_terms terms)) (\<lambda>(b, h, c).
     world_bind (with_git (apply_result G (pc_repository_path project) (wt_path w) b h c)) (\<lambda>_.
     world_bind (with_db (\<lambda>d. map_sum id (Pair ()) (record_applied projects d rq aid (wt_id w)
                   (envelope_hash pf envelope) b eid))) (\<lambda>_.
       world_return (outcome_succeeded
         [(''approval_id'', JStr (uuid_str aid)), (''delivery_state'', JStr ''applied'')]))))"

definition deliver ::
  "platform \<Rightarrow> project_config list \<Rightarrow> bool option \<Rightarrow> 'g git_program \<Rightarrow> step_request \<Rightarrow> project_config \<Rightarrow>
   uuid \<Rightarrow> json_obj \<Rightarrow> worktree \<Rightarrow> ('g, step_outcome) world_op" where
  "deliver pf projects feature_enabled G rq project aid envelope w =
     world_bind (with_git (require_apply_access G (pc_repository_path project))) (\<lambda>_.
     world_bind (reading (\<lambda>_. delivery_terms envelope)) (\<lambda>terms.
     world_bind (with_db (\<lambda>d. record_apply_intent d rq feature_enabled aid
                   (apply_intent pf rq aid envelope w terms))) (\<lambda>eid.
       perform pf projects G rq project aid envelope w terms eid)))"

definition apply_approved ::
  "platform \<Rightarrow> project_config list \<Rightarrow> bool option \<Rightarrow> 'g git_program \<Rightarrow> bool \<Rightarrow> step_request \<Rightarrow>
   ('g, step_outcome) world_op" where
  "apply_approved pf projects feature_enabled G cancelled rq =
     world_bind (reading (\<lambda>d. load_approved pf d rq)) (\<lambda>(aid, envelope, w).
       if jget envelope ''result_kind'' = JStr ''report''
       then
         world_bind (with_db (\<lambda>d. map_sum id (Pair ()) (accept_report pf d rq aid envelope))) (\<lambda>_.
         world_bind (reading (\<lambda>_. jindex envelope ''report_hash'')) (\<lambda>report_hash.
           world_return (outcome_succeeded
             [(''approval_id'', JStr (uuid_str aid)), (''report_hash'', report_hash),
              (''delivery_state'', JStr ''report_accepted'')])))
       else
         world_bind (reading (\<lambda>_. project_get projects (wt_project_id w))) (\<lambda>project.
         world_bind (reading (\<lambda>d. check_policy d rq project envelope w)) (\<lambda>_.
         world_bind (with_git (repository_identity pf G (pc_repository_path project))) (\<lambda>identity.
         world_bind (reading (\<lambda>_. jindex envelope ''repository_identity_hash'')) (\<lambda>approved_identity.
         world_bind (reading (\<lambda>_. if approved_identity \<noteq> JStr (fst identity)
                       then Inl (ValueError ''managed repository identity does not match the approval'')
                       else Inr ())) (\<lambda>_.
         world_bind (reading (\<lambda>d. require_lease d rq ''before side effect'')) (\<lambda>_.
           if cancelled then world_return (cancelled_outcome ''cancelled_before_apply'')
           else deliver pf projects feature_enabled G rq project aid envelope w)))))))"

definition execute_apply ::
  "platform \<Rightarrow> project_config list \<Rightarrow> bool option \<Rightarrow> 'g git_program \<Rightarrow> bool \<Rightarrow> bool \<Rightarrow> step_request \<Rightarrow>
   ('g, step_outcome) world_op" where
  "execute_apply pf projects feature_enabled G requested cancelled rq w =
     (if requested then (Inr (cancelled_outcome ''cancelled_before_apply''), w)
      else case apply_approved pf projects feature_enabled G cancelled rq w of
             (Inr outcome, w') \<Rightarrow> (Inr outcome, w')
           | (Inl e, w') \<Rightarrow> (caught e, w'))"

end
