(* ===== verification/Effect_Reconciliation.thy ===== *)
theory Effect_Reconciliation
  imports Result_Apply
begin

text \<open>
  \<^verbatim>\<open>execution/effect_reconciliation.py\<close>: after a restart, every effect whose outcome is open is
  settled by looking at the branch it was to move. Nothing is launched and no branch is touched.
  Whether the advisory lock was obtained before its deadline is an argument.
\<close>

datatype effect_observation = OBS_APPLIED | OBS_NOT_APPLIED | OBS_UNCERTAIN

fun effect_observation_value :: "effect_observation \<Rightarrow> string" where
  "effect_observation_value OBS_APPLIED = ''applied''"
| "effect_observation_value OBS_NOT_APPLIED = ''not_applied''"
| "effect_observation_value OBS_UNCERTAIN = ''uncertain''"

record reconciliation_decision =
  rd_effect_id :: string
  rd_operation_key :: string
  rd_classification :: effect_observation

record reconciliation_report =
  rr_lock_acquired :: bool
  rr_decisions :: "reconciliation_decision list"

definition observation_count :: "effect_observation \<Rightarrow> reconciliation_report \<Rightarrow> nat" where
  "observation_count c report = length (filter (\<lambda>x. rd_classification x = c) (rr_decisions report))"

definition confirmed_count :: "reconciliation_report \<Rightarrow> nat" where
  "confirmed_count = observation_count OBS_APPLIED"

definition denied_count :: "reconciliation_report \<Rightarrow> nat" where
  "denied_count = observation_count OBS_NOT_APPLIED"

definition uncertain_count :: "reconciliation_report \<Rightarrow> nat" where
  "uncertain_count = observation_count OBS_UNCERTAIN"

definition classify_effect_observation :: "string option \<Rightarrow> string \<Rightarrow> string \<Rightarrow> effect_observation" where
  "classify_effect_observation observed_ref result_commit expected_head =
     (case observed_ref of
        None \<Rightarrow> OBS_UNCERTAIN
      | Some ref \<Rightarrow>
          if ref = result_commit then OBS_APPLIED
          else if ref = expected_head then OBS_NOT_APPLIED
          else OBS_UNCERTAIN)"

section \<open>Observing the branch\<close>

definition resolve_repository :: "project_config list \<Rightarrow> json_obj \<Rightarrow> string option" where
  "resolve_repository projects context =
     (case jget context ''project_id'' of
        JStr project_id \<Rightarrow>
          (case project_get projects project_id of Inl _ \<Rightarrow> None | Inr project \<Rightarrow> Some (pc_repository_path project))
      | _ \<Rightarrow> jstr_of (jget context ''repository_path''))"

definition read_target ::
  "'g git_program \<Rightarrow> string \<Rightarrow> string \<Rightarrow> string \<Rightarrow> string \<Rightarrow> ('g, string option) git_op" where
  "read_target G repository branch result_commit expected_head =
     git_bind (if result_commit = expected_head then require_clean_source G repository else git_return ())
       (\<lambda>_. read_ref G repository branch)"

definition observe_branch ::
  "'g git_program \<Rightarrow> string \<Rightarrow> string \<Rightarrow> string \<Rightarrow> string \<Rightarrow> 'g \<Rightarrow> (effect_observation \<times> string) \<times> 'g" where
  "observe_branch G repository branch result_commit expected_head g =
     (case read_target G repository branch result_commit expected_head g of
        (Inl _, g') \<Rightarrow> ((OBS_UNCERTAIN, []), g')
      | (Inr found, g') \<Rightarrow>
          ((classify_effect_observation found result_commit expected_head,
            case found of None \<Rightarrow> [] | Some ref \<Rightarrow> ref), g'))"

definition observe_effect ::
  "'g git_program \<Rightarrow> project_config list \<Rightarrow> effect \<Rightarrow> 'g \<Rightarrow> (effect_observation \<times> string) \<times> 'g" where
  "observe_effect G projects e g =
     (if eff_target_kind e \<noteq> TARGET_KIND_GIT_REF then ((OBS_UNCERTAIN, []), g)
      else case (jget (eff_context e) ''target_branch'', jget (eff_context e) ''result_commit'',
                 jget (eff_context e) ''expected_head'') of
        (JStr branch, JStr result_commit, JStr expected_head) \<Rightarrow>
          (case resolve_repository projects (eff_context e) of
             None \<Rightarrow> ((OBS_UNCERTAIN, []), g)
           | Some repository \<Rightarrow> observe_branch G repository branch result_commit expected_head g)
      | _ \<Rightarrow> ((OBS_UNCERTAIN, []), g))"

section \<open>Settling\<close>

definition consume_approval :: "uuid option \<Rightarrow> db \<Rightarrow> db" where
  "consume_approval approval_id d =
     (case approval_id of
        None \<Rightarrow> d
      | Some aid \<Rightarrow>
          (case approved_row d aid of None \<Rightarrow> d | Some _ \<Rightarrow> upd_approval aid (consumed (wall_now d)) d))"

definition settle_package_head :: "uuid \<Rightarrow> string \<Rightarrow> string \<Rightarrow> db \<Rightarrow> db" where
  "settle_package_head tid target_reference observed_ref d =
     (case task_package d tid of
        None \<Rightarrow> d
      | Some package \<Rightarrow>
          if target_reference = head_ref (py_str (opt_json (wp_integration_branch package)))
          then upd_package (wp_id package) (\<lambda>p. p\<lparr>wp_integration_head_commit := Some observed_ref\<rparr>) d
          else d)"

definition effect_worktree :: "db \<Rightarrow> effect \<Rightarrow> worktree option" where
  "effect_worktree d e =
     (case jget (eff_context e) ''worktree_id'' of
        JStr raw \<Rightarrow> Option.bind (uuid_parse raw) (get_worktree d)
      | _ \<Rightarrow> None)"

definition settle_business_state :: "db \<Rightarrow> effect \<Rightarrow> string \<Rightarrow> db option" where
  "settle_business_state d e observed_ref =
     (case effect_worktree d e of
        None \<Rightarrow> None
      | Some w \<Rightarrow>
          if wt_result_commit w \<noteq> Some observed_ref \<or> wt_delivery_state w \<notin> APPLICABLE then None
          else Some (settle_package_head (wt_task_id w) (eff_target_reference e) observed_ref
                 (consume_approval (eff_approval_id e)
                   (upd_worktree (wt_id w) (delivered (eff_payload_hash e) (eff_target_reference e)) d))))"

definition reconciliation_event :: "string \<Rightarrow> effect \<Rightarrow> effect_observation \<Rightarrow> event" where
  "reconciliation_event owner e observation =
     \<lparr>ev_entity_type = ''effect'', ev_entity_id = eff_id e, ev_event_type = ''execution.effect_reconciliation'',
      ev_actor_type = ''applier'', ev_actor_id = Some owner, ev_previous_state = None, ev_new_state = None,
      ev_payload =
        [(''operation_key'', JStr (eff_operation_key e)),
         (''classification'', JStr (effect_observation_value observation)),
         (''step_id'', JStr (uuid_str (eff_step_id e)))]\<rparr>"

definition QUIET_STEP :: "step_status set" where
  "QUIET_STEP = {S_BLOCKED, S_FAILED, S_CANCELLED, S_COMPLETED}"

definition flag_unknown :: "uuid \<Rightarrow> db \<Rightarrow> db" where
  "flag_unknown sid d =
     (case get_step d sid of
        None \<Rightarrow> d
      | Some s \<Rightarrow>
          if step_status s \<in> QUIET_STEP then d
          else upd_step sid (\<lambda>x. x\<lparr>step_unknown_effects := True\<rparr>) d)"

definition settle_observation ::
  "effect \<Rightarrow> effect_observation \<Rightarrow> string \<Rightarrow> db \<Rightarrow> effect_observation \<times> db" where
  "settle_observation e observation observed_ref d =
     (case observation of
        OBS_APPLIED \<Rightarrow>
          (case settle_business_state d e observed_ref of
             None \<Rightarrow> (OBS_UNCERTAIN, upd_effect (eff_id e) (mark_uncertain (wall_now d)) d)
           | Some d1 \<Rightarrow>
               (OBS_APPLIED, upd_effect (eff_id e)
                  (settle_applied (wall_now d) (eff_target_reference e @ ''@'' @ observed_ref) None METHOD_READ_GIT_REF)
                  d1))
      | OBS_NOT_APPLIED \<Rightarrow> (OBS_NOT_APPLIED, upd_effect (eff_id e) (mark_denied (wall_now d)) d)
      | OBS_UNCERTAIN \<Rightarrow>
          (OBS_UNCERTAIN, flag_unknown (eff_step_id e) (upd_effect (eff_id e) (mark_uncertain (wall_now d)) d)))"

definition reconcile_one ::
  "string \<Rightarrow> 'g git_program \<Rightarrow> project_config list \<Rightarrow> uuid \<Rightarrow> db \<times> 'g \<Rightarrow> reconciliation_decision option \<times> (db \<times> 'g)" where
  "reconcile_one owner G projects eid w =
     (case get_effect (fst w) eid of
        None \<Rightarrow> (None, w)
      | Some e \<Rightarrow>
          if eff_status e \<notin> OPEN_EFFECT then (None, w)
          else
            let ((seen, observed_ref), g) = observe_effect G projects e (snd w);
                (observation, d) = settle_observation e seen observed_ref (fst w)
            in (Some \<lparr>rd_effect_id = uuid_str (eff_id e), rd_operation_key = eff_operation_key e,
                      rd_classification = observation\<rparr>,
                (add_event (reconciliation_event owner e observation) d, g)))"

fun reconcile_each ::
  "string \<Rightarrow> 'g git_program \<Rightarrow> project_config list \<Rightarrow> uuid list \<Rightarrow> db \<times> 'g \<Rightarrow>
   reconciliation_decision list \<times> (db \<times> 'g)" where
  "reconcile_each owner G projects [] w = ([], w)"
| "reconcile_each owner G projects (eid # eids) w =
     (let (decision, w1) = reconcile_one owner G projects eid w;
          (decisions, w2) = reconcile_each owner G projects eids w1
      in (case decision of None \<Rightarrow> decisions | Some x \<Rightarrow> x # decisions, w2))"

definition reconcile_startup ::
  "string \<Rightarrow> 'g git_program \<Rightarrow> project_config list \<Rightarrow> nat \<Rightarrow> bool \<Rightarrow> db \<times> 'g \<Rightarrow>
   reconciliation_report \<times> (db \<times> 'g)" where
  "reconcile_startup owner G projects batch_size lock_acquired w =
     (if \<not> lock_acquired then (\<lparr>rr_lock_acquired = False, rr_decisions = []\<rparr>, w)
      else
        let (decisions, w') = reconcile_each owner G projects (map eff_id (active_effects (fst w) batch_size)) w
        in (\<lparr>rr_lock_acquired = True, rr_decisions = decisions\<rparr>, w'))"

end
