(* ===== verification/Delivery_Properties.thy ===== *)
theory Delivery_Properties
  imports Effect_Reconciliation
begin

text \<open>
  What the apply handler and the reconciler promise together: a branch moves only behind a recorded
  intent of an approved result, a delivery that is reported is recorded everywhere, and after a
  restart the record of every effect follows the branch.
\<close>

section \<open>Runs of the handler\<close>

lemma world_bindE:
  assumes "world_bind m f w = (r, w')"
  obtains (failed) e where "m w = (Inl e, w')" "r = Inl e"
  | (went) x w1 where "m w = (Inr x, w1)" "f x w1 = (r, w')"
  using assms by (cases "m w"; cases "fst (m w)") (auto simp: world_bind_def)

lemma reading_eq [simp]: "reading f w = (r, w') \<longleftrightarrow> f (fst w) = r \<and> w' = w"
  by (auto simp: reading_def)

lemma with_db_Inr: "with_db f w = (Inr x, w') \<longleftrightarrow> f (fst w) = Inr (x, fst w') \<and> snd w' = snd w"
  by (cases w') (auto simp: with_db_def split: sum.split prod.split)

lemma with_db_Inl: "with_db f w = (Inl e, w') \<longleftrightarrow> f (fst w) = Inl e \<and> w' = w"
  by (auto simp: with_db_def split: sum.split prod.split)

lemma with_git_eq: "with_git m w = (r, w') \<longleftrightarrow> m (snd w) = (r, snd w') \<and> fst w' = fst w"
  by (cases w'; cases "m (snd w)") (auto simp: with_git_def)

lemma world_return_eq [simp]: "world_return x w = (r, w') \<longleftrightarrow> r = Inr x \<and> w' = w"
  by (auto simp: world_return_def)

lemma text_arg_Inr: "text_arg j = Inr s \<longleftrightarrow> j = JStr s"
  by (cases j) auto

lemma map_sum_Inr: "map_sum id (Pair ()) x = Inr ((), y) \<longleftrightarrow> x = Inr y"
  by (cases x) auto

lemma map_sum_Inl: "map_sum id (Pair ()) x = Inl e \<longleftrightarrow> x = Inl e"
  by (cases x) auto

lemma text_terms_Inr: "text_terms terms = Inr (b, h, c) \<longleftrightarrow> terms = (JStr b, JStr h, JStr c)"
  by (cases terms) (auto simp: text_terms_def res_simps text_arg_Inr)

lemma performE:
  assumes "perform pf projects G rq project aid envelope w terms eid (d, g) = (r, (d', g'))"
  obtains (untyped) e where "r = Inl e" "d' = d" "g' = g"
  | (stopped) e b h c x where "r = Inl e" "d' = d" "terms = (JStr b, JStr h, JStr c)"
      "apply_result G (pc_repository_path project) (wt_path w) b h c g = (x, g')"
  | (settled) b h c x where "terms = (JStr b, JStr h, JStr c)"
      "r = Inr (outcome_succeeded [(''approval_id'', JStr (uuid_str aid)), (''delivery_state'', JStr ''applied'')])"
      "apply_result G (pc_repository_path project) (wt_path w) b h c g = (Inr x, g')"
      "record_applied projects d rq aid (wt_id w) (envelope_hash pf envelope) b eid = Inr d'"
  using assms unfolding perform_def
proof (cases rule: world_bindE)
  case (went bhc w1)
  obtain b h c where bhc: "bhc = (b, h, c)" by (cases bhc)
  from went have w1: "w1 = (d, g)" and terms: "terms = (JStr b, JStr h, JStr c)"
    by (simp_all add: bhc text_terms_Inr)
  from went(2) show thesis
    unfolding bhc prod.case w1
  proof (cases rule: world_bindE)
    case (failed e)
    then show thesis using stopped [OF _ _ terms] by (simp add: with_git_eq)
  next
    case (went x w2)
    then have x: "apply_result G (pc_repository_path project) (wt_path w) b h c g = (Inr x, snd w2)" "fst w2 = d"
      by (simp_all add: with_git_eq)
    from went(2) show thesis
    proof (cases rule: world_bindE)
      case (failed e)
      with x show thesis by (intro stopped [OF _ _ terms]) (auto simp: with_db_Inl)
    next
      case (went u w3)
      with x show thesis by (intro settled [OF terms, where x = x]) (auto simp: with_db_Inr map_sum_Inr)
    qed
  qed
qed (use untyped in auto)

text \<open>How far a delivery came: all cases after the first have recorded the intent.\<close>

lemma deliverE:
  assumes "git_contract G V" and "deliver pf projects fe G rq project aid envelope w (d, g) = (r, (d', g'))"
  obtains (early) e where "r = Inl e" "d' = d" "view_kept V g g'"
  | (recorded) terms eid d1 g1 where "view_kept V g g1" "delivery_terms envelope = Inr terms"
      "record_apply_intent d rq fe aid (apply_intent pf rq aid envelope w terms) = Inr (eid, d1)"
      "perform pf projects G rq project aid envelope w terms eid (d1, g1) = (r, (d', g'))"
proof -
  have access: "view_kept V g g1" if "require_apply_access G (pc_repository_path project) g = (x, g1)" for x g1
    using git_contract.reads_access [OF assms(1), of "pc_repository_path project"] that
    unfolding git_reads_def by (metis snd_conv)
  from assms(2) show thesis
    unfolding deliver_def
  proof (cases rule: world_bindE)
    case (failed e)
    with access early show thesis by (auto simp: with_git_eq)
  next
    case (went x w1)
    then have w1: "fst w1 = d" "view_kept V g (snd w1)" using access by (auto simp: with_git_eq)
    from went(2) show thesis
    proof (cases rule: world_bindE)
      case (failed e)
      with w1 early show thesis by auto
    next
      case (went terms w2)
      then have terms: "delivery_terms envelope = Inr terms" and w2: "w2 = w1" by simp_all
      from went(2) show thesis
        unfolding w2
      proof (cases rule: world_bindE)
        case (failed e)
        with w1 early show thesis by (auto simp: with_db_Inl)
      next
        case (went eid w3)
        with w1 terms show thesis by (cases w3) (auto intro!: recorded simp: with_db_Inr)
      qed
    qed
  qed
qed

lemma apply_approvedE:
  assumes G: "git_contract G V" and "apply_approved pf projects fe G cancelled rq (d, g) = (r, (d', g'))"
  obtains (early) "d' = d" "view_kept V g g'" "\<And>o'. r = Inr o' \<Longrightarrow> so_kind o' = CANCELLED"
  | (report) aid envelope w where "load_approved pf d rq = Inr (aid, envelope, w)"
      "jget envelope ''result_kind'' = JStr ''report''"
      "accept_report pf d rq aid envelope = Inr d'" "g' = g"
  | (delivery) aid envelope w project g1 where "load_approved pf d rq = Inr (aid, envelope, w)"
      "project_get projects (wt_project_id w) = Inr project" "check_policy d rq project envelope w = Inr ()"
      "leased_step d rq \<noteq> None" "view_kept V g g1"
      "deliver pf projects fe G rq project aid envelope w (d, g1) = (r, (d', g'))"
  using assms(2) unfolding apply_approved_def
proof (cases rule: world_bindE)
  case (failed e)
  then show thesis using early by auto
next
  case (went x w1)
  obtain aid envelope w where x: "x = (aid, envelope, w)" by (cases x)
  from went have load: "load_approved pf d rq = Inr (aid, envelope, w)" and w1: "w1 = (d, g)" by (simp_all add: x)
  show thesis
  proof (cases "jget envelope ''result_kind'' = JStr ''report''")
    case True
    from went(2) show thesis
      unfolding x w1 prod.case if_P [OF True]
    proof (cases rule: world_bindE)
      case (failed e)
      then show thesis using early by (auto simp: with_db_Inl)
    next
      case (went u w2)
      then show thesis using report [OF load True]
        by (auto simp: with_db_Inr map_sum_Inr elim!: world_bindE)
    qed
  next
    case False
    have identity: "view_kept V g g1" if "repository_identity pf G repo g = (y, g1)" for y g1 repo
      using git_contract.reads_identity [OF G, of pf repo] that unfolding git_reads_def by (metis snd_conv)
    from went(2) show thesis
      unfolding x w1 prod.case if_not_P [OF False]
    proof (elim world_bindE)
    qed (use early load delivery in
        \<open>auto simp: with_git_eq require_lease_def cancelled_outcome_def split: if_splits option.splits dest!: identity\<close>)
  qed
qed

section \<open>The recorded intent\<close>

lemma record_apply_intent_Inr:
  assumes "record_apply_intent d rq fe aid i = Inr (eid, d1)"
  shows "new_effect_blocker d (rq_task_id rq) fe False = None \<and> leased_step d rq \<noteq> None \<and>
    approved_row d aid \<noteq> None \<and> record_intent d i = Inr (eid, d1)"
  using assms by (auto simp: record_apply_intent_def require_lease_def res_simps split: option.splits)

lemma record_intent_key:
  assumes "record_intent d i = Inr (eid, d1)"
  shows "ei_operation_key i \<in> eff_operation_key ` set (db_effects d1)"
  using assms
proof (cases rule: record_intent_cases)
  case (resume e)
  then show ?thesis
    using effect_by_key_Some [OF resume(1)] by (force simp: in_set_update_row)
next
  case (relaunch e)
  then show ?thesis
    using effect_by_key_Some [OF relaunch(1)] by (force simp: in_set_update_row)
qed (auto dest!: effect_by_key_Some intro: rev_image_eqI)

lemma settle_effect_keys: "map eff_operation_key (db_effects (settle_effect eid ref d)) = map eff_operation_key (db_effects d)"
  by (auto simp: settle_effect_def upd_effect_def settle_applied_def map_key_update split: option.split)

lemma record_package_head_frame:
  assumes "record_package_head projects d tid b w = Inr d'"
  shows "db_effects d' = db_effects d" "db_approvals d' = db_approvals d" "db_worktrees d' = db_worktrees d"
    "db_steps d' = db_steps d"
  using assms by (auto simp: record_package_head_def Let_def upd_package_def add_call_def res_simps
      split: option.splits if_splits)

lemma record_appliedE:
  assumes "record_applied projects d rq aid wid h b eid = Inr d'"
  obtains a w d1 where "leased_step d rq \<noteq> None" "get_approval d aid = Some a" "appr_status a \<in> USABLE_APPROVAL"
    "get_worktree d wid = Some w" "wt_delivery_state w \<in> APPLICABLE"
    "record_package_head projects (upd_worktree wid (delivered h (head_ref b))
       (upd_approval aid (consumed (wall_now d)) d)) (rq_task_id rq) b w = Inr d1"
    "d' = settle_effect eid (head_ref b @ ''@'' @ py_str (opt_json (wt_result_commit w))) d1"
  using assms by (auto simp: record_applied_def require_lease_def Let_def res_simps split: option.splits if_splits)

lemma record_applied_keys:
  assumes "record_applied projects d rq aid wid h b eid = Inr d'"
  shows "map eff_operation_key (db_effects d') = map eff_operation_key (db_effects d)"
  using assms
  by (elim record_appliedE)
    (simp add: settle_effect_keys record_package_head_frame(1) upd_worktree_def upd_approval_def)

lemma jindex_jget: "jindex obj k = Inr v \<Longrightarrow> jget obj k = v"
  by (auto simp: jindex_def jget_def split: option.splits)

lemma delivery_terms_Inr:
  "delivery_terms envelope = Inr (b, h, c) \<Longrightarrow>
   jget envelope ''target_branch'' = b \<and> jget envelope ''expected_target_head'' = h \<and>
   jget envelope ''result_commit'' = c"
  by (auto simp: delivery_terms_def res_simps dest!: jindex_jget)

lemma apply_intent_key:
  "ei_operation_key (apply_intent pf rq aid envelope w (JStr b, h, JStr c)) = apply_operation_key aid c b"
  by (simp add: apply_intent_def Let_def)

text \<open>What a run of the handler did to the branches, when it did anything.\<close>

lemma perform_moves:
  assumes "git_contract G V" and "perform pf projects G rq project aid envelope w terms eid (d, g) = (r, (d', g'))"
    and "gv_tip V g' \<noteq> gv_tip V g" and "\<And>b. fst terms = JStr b \<Longrightarrow> plain_branch b"
  obtains b h c where "terms = (JStr b, JStr h, JStr c)"
    "swung V (pc_repository_path project) (head_ref b) {None, Some h} c g g'" "\<not> view_kept V g g'"
    "map eff_operation_key (db_effects d') = map eff_operation_key (db_effects d)" "c \<noteq> h"
proof -
  have moved: "\<not> view_kept V g g'" using assms(3) by (auto simp: view_kept_def)
  have swing: "c \<noteq> h" "swung V (pc_repository_path project) (head_ref b) {None, Some h} c g g'"
    if "terms = (JStr b, JStr h, JStr c)"
      "apply_result G (pc_repository_path project) (wt_path w) b h c g = (x, g')" for b h c x
  proof -
    have "delivered_post V g (pc_repository_path project) b h c x g'"
      using git_tripleD [OF git_contract.apply_triple [OF assms(1) assms(4),
            of b g "pc_repository_path project" "wt_path w" h c], of g] that by simp
    then show "swung V (pc_repository_path project) (head_ref b) {None, Some h} c g g'" "c \<noteq> h"
      using moved by (auto simp: delivered_post_def split: if_splits)
  qed
  from assms(2) show thesis
  proof (cases rule: performE)
    case untyped
    with moved show thesis by simp
  next
    case (stopped e b h c x)
    with swing moved that show thesis by simp
  next
    case (settled b h c x)
    show thesis
      by (rule that [OF settled(1) swing(2) [OF settled(1, 3)] moved record_applied_keys [OF settled(4)]
            swing(1) [OF settled(1, 3)]])
  qed
qed

lemma swung_moved:
  assumes "swung V repo ref olds new g g'" and "\<not> view_kept V g g'"
  shows "gv_tip V g repo ref \<in> olds \<and> gv_tip V g' repo ref = Some new \<and>
    (\<forall>repo' ref'. (repo', ref') \<noteq> (repo, ref) \<longrightarrow> gv_tip V g' repo' ref' = gv_tip V g repo' ref')"
  using assms by (auto simp: swung_def tip_moved_def)

lemma executeE:
  assumes "git_contract G V" and "execute_apply pf projects fe G requested cancelled rq (d, g) = (r, (d', g'))"
    and "gv_tip V g' \<noteq> gv_tip V g"
  obtains aid envelope w project terms eid d1 g1 r' where "load_approved pf d rq = Inr (aid, envelope, w)"
    "project_get projects (wt_project_id w) = Inr project" "check_policy d rq project envelope w = Inr ()"
    "delivery_terms envelope = Inr terms" "view_kept V g g1"
    "record_apply_intent d rq fe aid (apply_intent pf rq aid envelope w terms) = Inr (eid, d1)"
    "perform pf projects G rq project aid envelope w terms eid (d1, g1) = (r', (d', g'))"
    "r = (case r' of Inl e \<Rightarrow> caught e | Inr o' \<Rightarrow> Inr o')"
proof -
  have moved: "\<not> view_kept V g g'" using assms(3) by (auto simp: view_kept_def)
  then have "\<not> requested" using assms(2) by (auto simp: execute_apply_def)
  obtain r' w' where run: "apply_approved pf projects fe G cancelled rq (d, g) = (r', w')"
    by (rule prod.exhaust)
  with assms(2) \<open>\<not> requested\<close> have w': "w' = (d', g')" by (cases r') (simp_all add: execute_apply_def)
  have r: "r = (case r' of Inl e \<Rightarrow> caught e | Inr o' \<Rightarrow> Inr o')"
    using assms(2) \<open>\<not> requested\<close> run by (cases r') (auto simp: execute_apply_def)
  have "apply_approved pf projects fe G cancelled rq (d, g) = (r', (d', g'))" using run w' by simp
  from assms(1) this show thesis
  proof (cases rule: apply_approvedE)
    case (delivery aid envelope w project g1)
    from assms(1) delivery(6) show thesis
    proof (cases rule: deliverE)
      case early
      from moved view_kept_trans [OF delivery(5) early(3)] show thesis by contradiction
    next
      case (recorded terms eid d1 g2)
      from that [OF delivery(1-3) recorded(2) view_kept_trans [OF delivery(5) recorded(1)] recorded(3, 4) r]
      show thesis .
    qed
  qed (use moved in auto)
qed

lemma performed:
  assumes "git_contract G V" and "gv_tip V g' \<noteq> gv_tip V g" and "delivery_terms envelope = Inr terms"
    and "view_kept V g g1" and "perform pf projects G rq project aid envelope w terms eid (d, g1) = (r, (d', g'))"
    and "\<And>b. jget envelope ''target_branch'' = JStr b \<Longrightarrow> plain_branch b"
  obtains b h c where "terms = (JStr b, JStr h, JStr c)"
    "swung V (pc_repository_path project) (head_ref b) {None, Some h} c g1 g'" "\<not> view_kept V g1 g'"
    "map eff_operation_key (db_effects d') = map eff_operation_key (db_effects d)" "c \<noteq> h" "plain_branch b"
proof -
  have terms: "jget envelope ''target_branch'' = fst terms"
    using delivery_terms_Inr [of envelope "fst terms" "fst (snd terms)" "snd (snd terms)"] assms(3) by simp
  have moved: "gv_tip V g' \<noteq> gv_tip V g1" using assms(2, 4) by (simp add: view_kept_def)
  have plain: "plain_branch b" if "fst terms = JStr b" for b using assms(6) terms that by simp
  show thesis
    by (rule perform_moves [OF assms(1, 5) moved plain]) (use that plain in auto)
qed

section \<open>Observation\<close>

context git_contract
begin

lemma read_target_triple:
  assumes "plain_branch b"
  shows "git_triple (view_kept V g) (read_target G repo b c h)
    (\<lambda>r g'. view_kept V g g' \<and> (\<forall>x. r = Inr (Some x) \<longrightarrow> gv_tip V g repo (head_ref b) = Some x))"
proof -
  have "git_triple (view_kept V g) (read_ref G repo b)
    (\<lambda>r g'. view_kept V g g' \<and> (\<forall>x. r = Inr (Some x) \<longrightarrow> gv_tip V g' repo (head_ref b) = Some x))"
    by (rule triple_reads_and [OF readers(3) _ read_ref_tip [OF assms]]) blast
  then have ref: "git_triple (view_kept V g) (read_ref G repo b)
    (\<lambda>r g'. view_kept V g g' \<and> (\<forall>x. r = Inr (Some x) \<longrightarrow> gv_tip V g repo (head_ref b) = Some x))"
    by (rule triple_weaken) (auto simp: view_kept_def)
  show ?thesis
    unfolding read_target_def
    by (rule triple_bind [OF triple_reads [OF reads_if [OF reads_clean_source reads_return(1)]]])
      (use ref in auto)
qed

lemma observe_branch_true:
  assumes "plain_branch b" and "observe_branch G repo b c h g = ((seen, ref), g')"
  shows "view_kept V g g' \<and> (seen = OBS_APPLIED \<longrightarrow> gv_tip V g repo (head_ref b) = Some c \<and> ref = c) \<and>
    (seen = OBS_NOT_APPLIED \<longrightarrow> gv_tip V g repo (head_ref b) = Some h \<and> h \<noteq> c)"
  using git_tripleD [OF read_target_triple [OF assms(1), of g repo c h], of g] assms(2)
  by (auto simp: observe_branch_def classify_effect_observation_def split: prod.splits sum.splits option.splits if_splits)

lemma observe_effect_true:
  assumes "observe_effect G projects e g = ((seen, ref), g')"
    and "\<And>b. jget (eff_context e) ''target_branch'' = JStr b \<Longrightarrow> plain_branch b"
  shows "view_kept V g g'"
    and "seen \<noteq> OBS_UNCERTAIN \<Longrightarrow> \<exists>repo b c h. resolve_repository projects (eff_context e) = Some repo \<and>
      jget (eff_context e) ''target_branch'' = JStr b \<and> jget (eff_context e) ''result_commit'' = JStr c \<and>
      jget (eff_context e) ''expected_head'' = JStr h \<and>
      (seen = OBS_APPLIED \<longrightarrow> gv_tip V g repo (head_ref b) = Some c \<and> ref = c) \<and>
      (seen = OBS_NOT_APPLIED \<longrightarrow> gv_tip V g repo (head_ref b) = Some h \<and> h \<noteq> c)"
proof -
  consider (unclear) "seen = OBS_UNCERTAIN" "g' = g"
    | (read) repo b c h where "resolve_repository projects (eff_context e) = Some repo"
        "jget (eff_context e) ''target_branch'' = JStr b" "jget (eff_context e) ''result_commit'' = JStr c"
        "jget (eff_context e) ''expected_head'' = JStr h" "observe_branch G repo b c h g = ((seen, ref), g')"
    using assms(1) by (auto simp: observe_effect_def split: if_splits json.splits option.splits)
  then show "view_kept V g g'"
    and "seen \<noteq> OBS_UNCERTAIN \<Longrightarrow> \<exists>repo b c h. resolve_repository projects (eff_context e) = Some repo \<and>
      jget (eff_context e) ''target_branch'' = JStr b \<and> jget (eff_context e) ''result_commit'' = JStr c \<and>
      jget (eff_context e) ''expected_head'' = JStr h \<and>
      (seen = OBS_APPLIED \<longrightarrow> gv_tip V g repo (head_ref b) = Some c \<and> ref = c) \<and>
      (seen = OBS_NOT_APPLIED \<longrightarrow> gv_tip V g repo (head_ref b) = Some h \<and> h \<noteq> c)"
    by (cases; use observe_branch_true assms(2) in fastforce)+
qed

end

section \<open>Settlement\<close>

text \<open>Settling touches the rows of its own tables only.\<close>

lemma settlement_frame:
  "db_effects (consume_approval a d) = db_effects d" "db_worktrees (consume_approval a d) = db_worktrees d"
  "db_effects (settle_package_head tid r ref d) = db_effects d"
  "db_worktrees (settle_package_head tid r ref d) = db_worktrees d"
  "db_approvals (settle_package_head tid r ref d) = db_approvals d"
  "db_effects (flag_unknown sid d) = db_effects d" "db_worktrees (flag_unknown sid d) = db_worktrees d"
  "db_approvals (flag_unknown sid d) = db_approvals d" "db_packages (flag_unknown sid d) = db_packages d"
  "db_effects (upd_worktree k f d) = db_effects d" "db_approvals (upd_worktree k f d) = db_approvals d"
  "db_worktrees (upd_effect k g d) = db_worktrees d" "db_approvals (upd_effect k g d) = db_approvals d"
  "db_packages (upd_effect k g d) = db_packages d" "db_steps (upd_effect k g d) = db_steps d"
  "wall_now (upd_worktree k f d) = wall_now d"
  by (auto simp: consume_approval_def settle_package_head_def flag_unknown_def upd_worktree_def upd_effect_def
      upd_approval_def upd_package_def upd_step_def split: option.split)

lemma settled_statuses [simp]:
  "eff_id (settle_applied now r h m e) = eff_id e" "eff_id (mark_denied now e) = eff_id e"
  "eff_id (mark_uncertain now e) = eff_id e" "eff_status (settle_applied now r h m e) = STATUS_SETTLED"
  "eff_status (mark_denied now e) = STATUS_FAILED" "eff_status (mark_uncertain now e) = STATUS_UNCERTAIN"
  "eff_reconcile_status (mark_denied now e) = RECONCILE_DENIED"
  "eff_operation_key (settle_applied now r h m e) = eff_operation_key e"
  "eff_operation_key (mark_denied now e) = eff_operation_key e"
  "eff_operation_key (mark_uncertain now e) = eff_operation_key e"
  by (simp_all add: settle_applied_def mark_denied_def mark_uncertain_def)

lemma get_effect_frame: "db_effects d' = db_effects d \<Longrightarrow> get_effect d' k = get_effect d k"
  by (simp add: get_effect_def)

lemma effect_worktree_get: "effect_worktree d e = Some w \<Longrightarrow> get_worktree d (wt_id w) = Some w"
  by (auto simp: effect_worktree_def bind_eq_Some_conv split: json.splits dest: worktree_store.get_key)

lemma settle_business_stateE:
  assumes "settle_business_state d e ref = Some d'"
  obtains w where "effect_worktree d e = Some w" "wt_result_commit w = Some ref" "wt_delivery_state w \<in> APPLICABLE"
    "db_effects d' = db_effects d"
    "get_worktree d' (wt_id w) = Some (delivered (eff_payload_hash e) (eff_target_reference e) w)"
proof -
  from assms obtain w where w: "effect_worktree d e = Some w" "wt_result_commit w = Some ref" "wt_delivery_state w \<in> APPLICABLE"
    "d' = settle_package_head (wt_task_id w) (eff_target_reference e) ref (consume_approval (eff_approval_id e)
       (upd_worktree (wt_id w) (delivered (eff_payload_hash e) (eff_target_reference e)) d))"
    by (auto simp: settle_business_state_def split: option.splits if_splits)
  have "get_worktree d' (wt_id w) =
      get_worktree (upd_worktree (wt_id w) (delivered (eff_payload_hash e) (eff_target_reference e)) d) (wt_id w)"
    by (simp add: w(4) get_worktree_def settlement_frame)
  also have "\<dots> = Some (delivered (eff_payload_hash e) (eff_target_reference e) w)"
    by (subst worktree_store.get_upd) (simp_all add: delivered_def effect_worktree_get [OF w(1)])
  finally show thesis by (intro that [OF w(1-3)]) (simp_all add: w(4) settlement_frame)
qed

lemma settle_observation_effect:
  assumes "get_effect d (eff_id e) = Some e" and "settle_observation e seen ref d = (o', d')"
  obtains e' where "get_effect d' (eff_id e) = Some e'" "eff_operation_key e' = eff_operation_key e"
    "o' = OBS_APPLIED \<longrightarrow> seen = OBS_APPLIED \<and> eff_status e' = STATUS_SETTLED"
    "o' = OBS_NOT_APPLIED \<longrightarrow> seen = OBS_NOT_APPLIED \<and> eff_status e' = STATUS_FAILED \<and>
       eff_reconcile_status e' = RECONCILE_DENIED"
    "o' = OBS_UNCERTAIN \<longrightarrow> eff_status e' = STATUS_UNCERTAIN"
proof -
  have upd: "get_effect (upd_effect (eff_id e) f d1) (eff_id e) = Some (f e)"
    if "db_effects d1 = db_effects d" "\<And>r. eff_id (f r) = eff_id r" for f d1
    using effect_store.get_upd [of f "eff_id e" d1 "eff_id e", OF that(2)] get_effect_frame [OF that(1)] assms(1)
    by simp
  have flag: "get_effect (flag_unknown sid d1) k = get_effect d1 k" for sid d1 k
    by (simp add: get_effect_def settlement_frame)
  show thesis
  proof (cases seen)
    case OBS_APPLIED
    show thesis
    proof (cases "settle_business_state d e ref")
      case None
      with OBS_APPLIED assms(2) upd [of d "mark_uncertain (wall_now d)"] that show thesis
        by (auto simp: settle_observation_def)
    next
      case (Some d1)
      then have "db_effects d1 = db_effects d" by (rule settle_business_stateE)
      with Some OBS_APPLIED assms(2) upd [of d1 "settle_applied (wall_now d) (eff_target_reference e @ ''@'' @ ref) None METHOD_READ_GIT_REF"] that
      show thesis by (auto simp: settle_observation_def)
    qed
  next
    case OBS_NOT_APPLIED
    with assms(2) upd [of d "mark_denied (wall_now d)"] that show thesis by (auto simp: settle_observation_def)
  next
    case OBS_UNCERTAIN
    with assms(2) upd [of d "mark_uncertain (wall_now d)"] that show thesis
      by (auto simp: settle_observation_def flag)
  qed
qed

lemma settle_observation_rows:
  assumes "settle_observation e seen ref d = (o', d')"
  shows "o' \<noteq> OBS_APPLIED \<Longrightarrow> db_worktrees d' = db_worktrees d \<and> db_approvals d' = db_approvals d \<and>
      db_packages d' = db_packages d"
    and "o' = OBS_APPLIED \<Longrightarrow> \<exists>w. effect_worktree d e = Some w \<and> wt_result_commit w = Some ref \<and>
      get_worktree d' (wt_id w) = Some (delivered (eff_payload_hash e) (eff_target_reference e) w)"
proof -
  have frame: "get_worktree (upd_effect k f d1) j = get_worktree d1 j" for k f d1 j
    by (simp add: get_worktree_def settlement_frame)
  show "o' \<noteq> OBS_APPLIED \<Longrightarrow> db_worktrees d' = db_worktrees d \<and> db_approvals d' = db_approvals d \<and>
      db_packages d' = db_packages d"
    using assms by (auto simp: settle_observation_def settlement_frame split: effect_observation.splits option.splits)
  show "o' = OBS_APPLIED \<Longrightarrow> \<exists>w. effect_worktree d e = Some w \<and> wt_result_commit w = Some ref \<and>
      get_worktree d' (wt_id w) = Some (delivered (eff_payload_hash e) (eff_target_reference e) w)"
    using assms by (auto simp: settle_observation_def frame split: effect_observation.splits option.splits
        elim!: settle_business_stateE)
qed

lemma reconcile_oneE:
  assumes "reconcile_one owner G projects eid (d, g) = (Some x, (d', g'))"
  obtains e seen ref d1 where "get_effect d eid = Some e" "eff_id e = eid" "eff_status e \<in> OPEN_EFFECT"
    "observe_effect G projects e g = ((seen, ref), g')"
    "settle_observation e seen ref d = (rd_classification x, d1)"
    "d' = add_event (reconciliation_event owner e (rd_classification x)) d1"
proof -
  from assms obtain e where e: "get_effect d eid = Some e" "eff_status e \<in> OPEN_EFFECT"
    by (auto simp: reconcile_one_def split: option.splits if_splits)
  obtain seen ref g1 where o: "observe_effect G projects e g = ((seen, ref), g1)"
    by (cases "observe_effect G projects e g") auto
  obtain c d1 where s: "settle_observation e seen ref d = (c, d1)" by (rule prod.exhaust)
  from assms e o s have "rd_classification x = c" "g1 = g'" "d' = add_event (reconciliation_event owner e c) d1"
    by (auto simp: reconcile_one_def)
  with that [OF e(1) effect_store.get_key [OF e(1)] e(2)] o s show thesis by simp
qed

section \<open>Recovery of a stopped delivery\<close>

lemma json_eq_str: "json_eq (JStr c) (opt_json v) \<longleftrightarrow> v = Some c"
  by (cases v) (auto simp: json_eq_def opt_json_def)

lemma load_approvedD:
  assumes "load_approved pf d rq = Inr (aid, envelope, w)"
  shows "w \<in> set (db_worktrees d)" "approved_row d aid \<noteq> None"
    "jget envelope ''result_commit'' = JStr c \<Longrightarrow> wt_result_commit w = Some c"
proof -
  from assms obtain s k where "load_bound pf d rq s k = Inr (aid, envelope, w)"
    by (auto simp: load_approved_def split: option.splits if_splits json.splits)
  then have lb: "k = aid" "find (\<lambda>w. wt_run_id w = rq_run_id rq \<and> wt_task_id w = rq_task_id rq) (db_worktrees d) = Some w"
    "approved_row d k \<noteq> None"
    "pinned_values envelope
        [(''project_id'', JStr (wt_project_id w)), (''base_commit'', JStr (wt_base_commit w)),
         (''result_commit'', opt_json (wt_result_commit w)), (''diff_hash'', opt_json (wt_diff_hash w))] = Inr True"
    by (cases "approved_row d k"; cases "verified_envelope pf s (the (approved_row d k))";
        cases "find (\<lambda>w. wt_run_id w = rq_run_id rq \<and> wt_task_id w = rq_task_id rq) (db_worktrees d)";
        cases "get_run d (rq_run_id rq)";
        auto simp: load_bound_def bindE_eq_Inr simp del: pinned_values.simps split: if_splits option.splits)+
  note w = lb(2) and row = lb(3) [unfolded lb(1)] and pin = lb(4)
  show "w \<in> set (db_worktrees d)" using find_SomeD [OF w] by simp
  show "approved_row d aid \<noteq> None" by (fact row)
  have "\<exists>v. jindex envelope ''result_commit'' = Inr v \<and> json_eq v (opt_json (wt_result_commit w))"
    using pin by (auto simp: res_simps split: if_splits)
  then show "jget envelope ''result_commit'' = JStr c \<Longrightarrow> wt_result_commit w = Some c"
    by (auto simp: json_eq_str dest!: jindex_jget)
qed

lemma fresh_intent:
  assumes "record_intent d i = Inr (eid, d1)" and "ei_operation_key i \<notin> eff_operation_key ` set (db_effects d)"
    and "effects_ok d"
  shows "d1 = d\<lparr>db_effects := db_effects d @ [new_effect d i], next_uuid := Suc (next_uuid d)\<rparr>"
    and "get_effect d1 eid = Some (new_effect d i)"
proof -
  have none: "effect_by_key d (ei_operation_key i) = None" using assms(2) by (simp add: effect_by_key_None)
  then show d1: "d1 = d\<lparr>db_effects := db_effects d @ [new_effect d i], next_uuid := Suc (next_uuid d)\<rparr>"
    using assms(1) by (auto simp: record_intent_def)
  have eid: "eid = next_uuid d" using none assms(1) by (simp add: record_intent_def)
  have "find_row eff_id (db_effects d) eid = None"
    using assms(3) by (auto simp: effects_ok_def eid find_row_None_iff)
  then show "get_effect d1 eid = Some (new_effect d i)"
    by (simp add: get_effect_def d1 find_row_append eid) (simp add: find_row_def)
qed

lemma consume_approval_get:
  assumes "approved_row d aid \<noteq> None"
  shows "\<exists>a. get_approval (consume_approval (Some aid) d) aid = Some a \<and> appr_status a = A_CONSUMED"
  using assms approval_store.get_upd [of "consumed (wall_now d)" aid d aid]
  by (auto simp: consume_approval_def approved_row_def consumed_def split: option.splits if_splits)

text \<open>The effect as the handler records it, and what the reconciler sees of it.\<close>

lemma observe_recorded:
  assumes "project_get projects (wt_project_id w) = Inr project" and "c \<noteq> h"
    and "fst (read_ref G (pc_repository_path project) b g) = Inr (Some c)"
  shows "fst (observe_effect G projects (new_effect d (apply_intent pf rq aid envelope w (JStr b, JStr h, JStr c))) g) =
    (OBS_APPLIED, c)"
  using assms
  by (cases "read_ref G (pc_repository_path project) b g")
    (simp add: observe_effect_def observe_branch_def new_effect_def apply_intent_def resolve_repository_def
      read_target_def git_bind_def git_return_def classify_effect_observation_def Let_def)

lemma settle_recorded:
  assumes "get_worktree d (wt_id w) = Some w" "wt_id w < 2 ^ 128" "wt_result_commit w = Some c"
    "wt_delivery_state w \<in> APPLICABLE" "approved_row d aid \<noteq> None"
    and e: "e = new_effect d0 (apply_intent pf rq aid envelope w (JStr b, JStr h, JStr c))"
  obtains d' a where "settle_business_state d e c = Some d'"
    "get_worktree d' (wt_id w) = Some (delivered (envelope_hash pf envelope) (head_ref b) w)"
    "get_approval d' aid = Some a" "appr_status a = A_CONSUMED"
proof -
  have cols: "eff_approval_id e = Some aid" "eff_payload_hash e = envelope_hash pf envelope"
    "eff_target_reference e = head_ref b" "jget (eff_context e) ''worktree_id'' = JStr (uuid_str (wt_id w))"
    by (simp_all add: e new_effect_def apply_intent_def Let_def)
  have w: "effect_worktree d e = Some w"
    using assms(1, 2) by (simp add: effect_worktree_def cols uuid_parse_str)
  let ?d1 = "upd_worktree (wt_id w) (delivered (eff_payload_hash e) (eff_target_reference e)) d"
  let ?d2 = "consume_approval (eff_approval_id e) ?d1"
  let ?d' = "settle_package_head (wt_task_id w) (eff_target_reference e) c ?d2"
  have d': "settle_business_state d e c = Some ?d'"
    using w assms(3, 4) by (simp add: settle_business_state_def)
  have "approved_row ?d1 aid \<noteq> None"
    using assms(5) by (simp add: approved_row_def get_approval_def settlement_frame)
  then obtain a where a: "get_approval ?d2 aid = Some a" "appr_status a = A_CONSUMED"
    using consume_approval_get cols(1) by metis
  have "get_approval ?d' aid = Some a" using a(1) by (simp add: get_approval_def settlement_frame)
  moreover have "get_worktree ?d' (wt_id w) = Some (delivered (envelope_hash pf envelope) (head_ref b) w)"
    using d' by (rule settle_business_stateE) (use w cols in auto)
  ultimately show thesis using that d' a(2) by blast
qed

lemma reconcile_recorded:
  assumes "get_effect d eid = Some e" "eff_status e \<in> OPEN_EFFECT"
    and "fst (observe_effect G projects e g) = (OBS_APPLIED, c)" and "settle_business_state d e c = Some d1"
  shows "\<exists>x d' g'. reconcile_one owner G projects eid (d, g) = (Some x, (d', g')) \<and>
    rd_classification x = OBS_APPLIED \<and> (\<forall>k. get_worktree d' k = get_worktree d1 k) \<and>
    (\<forall>k. get_approval d' k = get_approval d1 k)"
  using assms
  by (cases "observe_effect G projects e g")
    (auto simp: reconcile_one_def settle_observation_def get_worktree_def get_approval_def add_event_def settlement_frame)

lemma reconciled_effect:
  assumes "reconcile_one owner G projects eid (d, g) = (Some x, (d', g'))" and "rd_classification x = OBS_APPLIED"
  shows "\<exists>e. get_effect d' eid = Some e \<and> eff_status e = STATUS_SETTLED"
  using assms(1)
proof (cases rule: reconcile_oneE)
  case (1 e seen ref d1)
  then have "get_effect d (eff_id e) = Some e" by simp
  then obtain e' where "get_effect d1 (eff_id e) = Some e'" "rd_classification x = OBS_APPLIED \<longrightarrow>
      seen = OBS_APPLIED \<and> eff_status e' = STATUS_SETTLED"
    using 1(5) by (rule settle_observation_effect)
  with 1 assms(2) show ?thesis by (auto simp: add_event_def get_effect_def)
qed

lemma recorded_delivery_recovers:
  assumes "load_approved pf d rq = Inr (aid, envelope, w)" and "project_get projects (wt_project_id w) = Inr project"
    and "delivery_terms envelope = Inr (JStr b, JStr h, JStr c)"
    and "record_apply_intent d rq fe aid (apply_intent pf rq aid envelope w (JStr b, JStr h, JStr c)) = Inr (eid, d1)"
    and ne: "c \<noteq> h" and read: "fst (read_ref G (pc_repository_path project) b g') = Inr (Some c)"
    and "\<And>b c. apply_operation_key aid c b \<notin> eff_operation_key ` set (db_effects d)" and "effects_ok d"
    and "distinct (map wt_id (db_worktrees d))" and "wt_id w < 2 ^ 128" and "wt_delivery_state w \<in> APPLICABLE"
  shows "\<exists>x d2 g2 e a. reconcile_one owner G projects eid (d1, g') = (Some x, (d2, g2)) \<and>
    rd_classification x = OBS_APPLIED \<and> jget envelope ''target_branch'' = JStr b \<and>
    get_worktree d2 (wt_id w) = Some (delivered (envelope_hash pf envelope) (head_ref b) w) \<and>
    get_approval d2 aid = Some a \<and> appr_status a = A_CONSUMED \<and>
    get_effect d2 eid = Some e \<and> eff_status e = STATUS_SETTLED"
proof -
  define i where "i = apply_intent pf rq aid envelope w (JStr b, JStr h, JStr c)"
  have intent: "record_intent d i = Inr (eid, d1)" "approved_row d aid \<noteq> None"
    using record_apply_intent_Inr [OF assms(4)] by (simp_all add: i_def)
  have key: "ei_operation_key i \<notin> eff_operation_key ` set (db_effects d)"
    using assms(7) by (simp add: i_def apply_intent_key)
  note new = fresh_intent [OF intent(1) key assms(8)]
  have terms: "jget envelope ''target_branch'' = JStr b" "jget envelope ''result_commit'' = JStr c"
    using delivery_terms_Inr [OF assms(3)] by simp_all
  have open_effect: "eff_status (new_effect d i) \<in> OPEN_EFFECT" by (simp add: OPEN_EFFECT_def)
  from read have seen: "fst (observe_effect G projects (new_effect d i) g') = (OBS_APPLIED, c)"
    unfolding i_def by (rule observe_recorded [OF assms(2) ne])
  have "get_worktree d (wt_id w) = Some w"
    using worktree_store.mem_get [OF assms(9) load_approvedD(1) [OF assms(1)]] .
  then have w: "get_worktree d1 (wt_id w) = Some w" by (simp add: new(1) get_worktree_def)
  have row: "approved_row d1 aid \<noteq> None"
    using intent(2) by (simp add: new(1) approved_row_def get_approval_def)
  obtain d2 a where settled: "settle_business_state d1 (new_effect d i) c = Some d2"
    "get_worktree d2 (wt_id w) = Some (delivered (envelope_hash pf envelope) (head_ref b) w)"
    "get_approval d2 aid = Some a" "appr_status a = A_CONSUMED"
    by (rule settle_recorded [OF w assms(10) load_approvedD(3) [OF assms(1) terms(2)] assms(11) row]) (simp_all add: i_def)
  from reconcile_recorded [OF new(2) open_effect seen settled(1), of owner]
  obtain x d3 g3 where done': "reconcile_one owner G projects eid (d1, g') = (Some x, (d3, g3))"
    "rd_classification x = OBS_APPLIED" "\<forall>k. get_worktree d3 k = get_worktree d2 k"
    "\<forall>k. get_approval d3 k = get_approval d2 k" by blast
  obtain e where "get_effect d3 eid = Some e" "eff_status e = STATUS_SETTLED"
    using reconciled_effect [OF done'(1, 2)] by blast
  with done' settled terms(1) show ?thesis
    by (intro exI [of _ x] exI [of _ d3] exI [of _ g3] exI [of _ e] exI [of _ a]) simp
qed

section \<open>A delivery\<close>

definition commit_a :: string where "commit_a = replicate 40 (CHR ''1'')"
definition commit_b :: string where "commit_b = replicate 40 (CHR ''2'')"

text \<open>Git answers, but resetting the checked-out tree times out after the branch has moved.\<close>

definition slow_git :: mini_git where
  "slow_git = demo_git\<lparr>mg_slow := (\<lambda>args. take 1 args = [''reset''])\<rparr>"

definition demo_platform :: platform where
  "demo_platform = sample_platform\<lparr>pf_sha256 := take 12\<rparr>"

definition demo_envelope :: json_obj where
  "demo_envelope =
     [(''step_id'', JStr (uuid_str 3)), (''project_id'', JStr ''demo''), (''base_commit'', JStr commit_a),
      (''result_commit'', JStr commit_b), (''diff_hash'', JStr ''diff''), (''target_branch'', JStr ''main''),
      (''expected_target_head'', JStr commit_a), (''repository_identity_hash'', JStr ''/repo/.git'')]"

definition demo_approval :: approval where
  "demo_approval =
     \<lparr>appr_id = 8, appr_step_id = 3, appr_action_envelope_hash = envelope_hash demo_platform demo_envelope,
      appr_requested_action = ''apply_result'', appr_normalized_target = ''demo:main'', appr_human_summary = [],
      appr_token_hash = [], appr_status = A_APPROVED, appr_decided_at = Some 0, appr_deciding_user_id = Some 7,
      appr_expires_at = 50, appr_consumed_at = None\<rparr>"

definition demo_worktree :: worktree where
  "demo_worktree = sample_worktree\<lparr>wt_base_commit := commit_a, wt_result_commit := Some commit_b, wt_path := ''/work''\<rparr>"

definition demo_step :: step where
  "demo_step = sample_step\<lparr>step_type := ''apply'', step_status := S_RUNNING, step_lease_owner := Some ''applier'',
     step_lease_generation := 4,
     step_payload := [(''approval_id'', JStr (uuid_str 8)), (''action_envelope'', JObj demo_envelope)]\<rparr>"

definition demo_db :: db where
  "demo_db = sample_db\<lparr>db_steps := [demo_step], db_approvals := [demo_approval], db_worktrees := [demo_worktree],
     db_effects := []\<rparr>"

definition demo_projects :: "project_config list" where
  "demo_projects = [\<lparr>pc_id = ''demo'', pc_repository_path = ''/repo'', pc_default_branch = ''main'', pc_enabled = True,
     pc_allowed_modes = [DM_APPLY], pc_approval_required = [DM_APPLY]\<rparr>]"

definition demo_request :: step_request where
  "demo_request = \<lparr>rq_task_id = 1, rq_run_id = 2, rq_step_id = 3, rq_lease_owner = ''applier'', rq_lease_generation = 4\<rparr>"

definition demo_run :: "(error + step_outcome) \<times> db \<times> mini_git" where
  "demo_run = execute_apply demo_platform demo_projects None mini_program False False demo_request (demo_db, slow_git)"

lemma demo_loads: "load_approved demo_platform demo_db demo_request = Inr (8, demo_envelope, demo_worktree)"
  by code_simp

lemma demo_plain: "jget demo_envelope ''target_branch'' = JStr b \<Longrightarrow> plain_branch b"
proof -
  have "plain_branch ''main''" by code_simp
  then show "jget demo_envelope ''target_branch'' = JStr b \<Longrightarrow> plain_branch b" by (auto simp: demo_envelope_def)
qed

text \<open>The run is evaluated once, for everything that is asked of it below.\<close>

definition demo_holds :: "(error + step_outcome) \<times> db \<times> mini_git \<Rightarrow> bool" where
  "demo_holds run =
     (fst run = Inr (blocked_outcome ''Git operation timed out'') \<and>
      mini_tip (snd (snd run)) ''/repo'' (head_ref ''main'') = Some commit_b \<and>
      fst (read_ref mini_program ''/repo'' ''main'' (snd (snd run))) = Inr (Some commit_b) \<and>
      map_option (\<lambda>e. jget (eff_context e) ''target_branch'') (get_effect (fst (snd run)) (next_uuid demo_db)) =
        Some (JStr ''main'') \<and>
      map_option rd_classification
        (fst (reconcile_one ''restart'' mini_program demo_projects (next_uuid demo_db) (snd run))) = Some OBS_APPLIED)"

lemma demo_evaluates: "demo_holds demo_run"
  by code_simp

lemmas demo_facts = demo_evaluates [unfolded demo_holds_def]

lemma demo_moved: "gv_tip mini_view (snd (snd demo_run)) \<noteq> gv_tip mini_view slow_git"
proof -
  have "mini_tip slow_git ''/repo'' (head_ref ''main'') \<noteq> Some commit_b" by code_simp
  with demo_facts have "mini_tip (snd (snd demo_run)) ''/repo'' (head_ref ''main'') \<noteq> mini_tip slow_git ''/repo'' (head_ref ''main'')"
    by metis
  then show ?thesis by (auto simp: mini_view_def)
qed

lemma demo_split: "execute_apply demo_platform demo_projects None mini_program False False demo_request
    (demo_db, slow_git) = (fst demo_run, (fst (snd demo_run), snd (snd demo_run)))"
  by (simp add: demo_run_def)

section \<open>Theorems\<close>

text \<open>C2. A branch moves only behind a recorded intent. If a run of the handler changed any branch,
  its step held the lease, the approval was given and its envelope verified, the project policy
  allowed the delivery and the goal had a live grant; exactly one branch changed, from absent or
  the expected head to the approved result; and the effect is on record under the operation key of
  this approval, result and branch, however the run ended.\<close>

theorem branch_moves_behind_an_intent:
  assumes "git_contract G V" and "execute_apply pf projects fe G requested cancelled rq (d, g) = (r, (d', g'))"
    and "gv_tip V g' \<noteq> gv_tip V g"
    and "\<And>aid envelope w b. load_approved pf d rq = Inr (aid, envelope, w) \<Longrightarrow>
      jget envelope ''target_branch'' = JStr b \<Longrightarrow> plain_branch b"
  shows "\<exists>aid envelope w project b h c. load_approved pf d rq = Inr (aid, envelope, w) \<and>
    project_get projects (wt_project_id w) = Inr project \<and> check_policy d rq project envelope w = Inr () \<and>
    leased_step d rq \<noteq> None \<and> approved_row d aid \<noteq> None \<and>
    new_effect_blocker d (rq_task_id rq) fe False = None \<and>
    jget envelope ''target_branch'' = JStr b \<and> jget envelope ''expected_target_head'' = JStr h \<and>
    jget envelope ''result_commit'' = JStr c \<and>
    gv_tip V g (pc_repository_path project) (head_ref b) \<in> {None, Some h} \<and>
    gv_tip V g' (pc_repository_path project) (head_ref b) = Some c \<and>
    (\<forall>repo ref. (repo, ref) \<noteq> (pc_repository_path project, head_ref b) \<longrightarrow> gv_tip V g' repo ref = gv_tip V g repo ref) \<and>
    apply_operation_key aid c b \<in> eff_operation_key ` set (db_effects d')"
proof -
  from assms(1-3) obtain aid envelope w project terms eid d1 g1 r' where
    run: "load_approved pf d rq = Inr (aid, envelope, w)" "project_get projects (wt_project_id w) = Inr project"
      "check_policy d rq project envelope w = Inr ()" "delivery_terms envelope = Inr terms" "view_kept V g g1"
      "record_apply_intent d rq fe aid (apply_intent pf rq aid envelope w terms) = Inr (eid, d1)"
      "perform pf projects G rq project aid envelope w terms eid (d1, g1) = (r', (d', g'))"
    by (rule executeE)
  obtain b h c where bhc: "terms = (JStr b, JStr h, JStr c)" and
    swung: "swung V (pc_repository_path project) (head_ref b) {None, Some h} c g1 g'" "\<not> view_kept V g1 g'" and
    keys: "map eff_operation_key (db_effects d') = map eff_operation_key (db_effects d1)"
    by (rule performed [OF assms(1, 3) run(4, 5, 7) assms(4) [OF run(1)]])
  note intent = record_apply_intent_Inr [OF run(6)]
  have "apply_operation_key aid c b \<in> eff_operation_key ` set (db_effects d1)"
    using record_intent_key [of d "apply_intent pf rq aid envelope w terms" eid d1] intent
    by (simp add: bhc apply_intent_key)
  then have "apply_operation_key aid c b \<in> eff_operation_key ` set (db_effects d')"
    using keys by (metis list.set_map)
  moreover have "gv_tip V g1 = gv_tip V g" using run(5) by (simp add: view_kept_def)
  ultimately show ?thesis
    using run(1-3) intent swung_moved [OF swung] delivery_terms_Inr [of envelope "JStr b" "JStr h" "JStr c"] run(4) bhc
    by (intro exI [of _ aid] exI [of _ envelope] exI [of _ w] exI [of _ project] exI [of _ b] exI [of _ h]
        exI [of _ c]) simp
qed

theorem branch_moves_behind_an_intent_witness:
  "approved_row demo_db 8 \<noteq> None \<and> leased_step demo_db demo_request \<noteq> None \<and>
   apply_operation_key 8 commit_b ''main'' \<in> eff_operation_key ` set (db_effects (fst (snd demo_run))) \<and>
   mini_tip (snd (snd demo_run)) ''/repo'' (head_ref ''main'') = Some commit_b"
proof -
  have plain: "plain_branch b" if "load_approved demo_platform demo_db demo_request = Inr (aid, envelope, w)"
    "jget envelope ''target_branch'' = JStr b" for aid envelope w b
    using that demo_plain by (simp add: demo_loads)
  have "project_get demo_projects ''demo'' = Inr (hd demo_projects)" "pc_repository_path (hd demo_projects) = ''/repo''"
    "wt_project_id demo_worktree = ''demo''"
    by (simp_all add: project_get_def demo_projects_def find_row_def demo_worktree_def sample_worktree_def)
  with branch_moves_behind_an_intent [OF mini.git_contract_axioms demo_split demo_moved plain]
  show ?thesis by (auto simp: demo_loads demo_envelope_def mini_view_def)
qed

text \<open>C6. Reconciliation tells the truth and moves nothing. Of an open effect it reports applied only
  when the branch is at the result and the retained worktree holds that result, which is then
  recorded as delivered; not applied only when the branch is still at the expected head, and then
  no business row changes; everything else is recorded as uncertain and changes no business row
  either. Branches are never touched.\<close>

theorem reconciliation_follows_the_branch:
  assumes "git_contract G V" and "reconcile_one owner G projects eid (d, g) = (Some x, (d', g'))"
    and "\<And>e b. get_effect d eid = Some e \<Longrightarrow> jget (eff_context e) ''target_branch'' = JStr b \<Longrightarrow> plain_branch b"
  shows "gv_tip V g' = gv_tip V g \<and> (\<exists>e e'. get_effect d eid = Some e \<and> get_effect d' eid = Some e' \<and>
    eff_operation_key e' = eff_operation_key e \<and>
    (case rd_classification x of
       OBS_APPLIED \<Rightarrow> eff_status e' = STATUS_SETTLED \<and> (\<exists>repo b c w.
         resolve_repository projects (eff_context e) = Some repo \<and> jget (eff_context e) ''target_branch'' = JStr b \<and>
         jget (eff_context e) ''result_commit'' = JStr c \<and> gv_tip V g repo (head_ref b) = Some c \<and>
         effect_worktree d e = Some w \<and> wt_result_commit w = Some c \<and>
         get_worktree d' (wt_id w) = Some (delivered (eff_payload_hash e) (eff_target_reference e) w))
     | OBS_NOT_APPLIED \<Rightarrow> eff_status e' = STATUS_FAILED \<and> eff_reconcile_status e' = RECONCILE_DENIED \<and>
         (\<exists>repo b h. resolve_repository projects (eff_context e) = Some repo \<and>
            jget (eff_context e) ''target_branch'' = JStr b \<and> jget (eff_context e) ''expected_head'' = JStr h \<and>
            jget (eff_context e) ''result_commit'' \<noteq> JStr h \<and> gv_tip V g repo (head_ref b) = Some h) \<and>
         db_worktrees d' = db_worktrees d \<and> db_approvals d' = db_approvals d \<and> db_packages d' = db_packages d
     | OBS_UNCERTAIN \<Rightarrow> eff_status e' = STATUS_UNCERTAIN \<and>
         db_worktrees d' = db_worktrees d \<and> db_approvals d' = db_approvals d \<and> db_packages d' = db_packages d))"
proof -
  from assms(2) obtain e seen ref d1 where e: "get_effect d eid = Some e" "eff_id e = eid" "eff_status e \<in> OPEN_EFFECT"
    and o: "observe_effect G projects e g = ((seen, ref), g')"
    and s: "settle_observation e seen ref d = (rd_classification x, d1)"
    and d': "d' = add_event (reconciliation_event owner e (rd_classification x)) d1"
    by (rule reconcile_oneE)
  note truth = git_contract.observe_effect_true [OF assms(1) o assms(3) [OF e(1)]]
  have get: "get_effect d (eff_id e) = Some e" using e by simp
  obtain e' where e': "get_effect d1 (eff_id e) = Some e'" "eff_operation_key e' = eff_operation_key e"
    "rd_classification x = OBS_APPLIED \<longrightarrow> seen = OBS_APPLIED \<and> eff_status e' = STATUS_SETTLED"
    "rd_classification x = OBS_NOT_APPLIED \<longrightarrow> seen = OBS_NOT_APPLIED \<and> eff_status e' = STATUS_FAILED \<and>
       eff_reconcile_status e' = RECONCILE_DENIED"
    "rd_classification x = OBS_UNCERTAIN \<longrightarrow> eff_status e' = STATUS_UNCERTAIN"
    by (rule settle_observation_effect [OF get s])
  have frame: "get_effect d' eid = Some e'" "get_worktree d' k = get_worktree d1 k"
    "db_worktrees d' = db_worktrees d1" "db_approvals d' = db_approvals d1" "db_packages d' = db_packages d1" for k
    using e'(1) e(2) by (simp_all add: d' add_event_def get_effect_def get_worktree_def)
  have tip: "gv_tip V g' = gv_tip V g" using truth(1) by (simp add: view_kept_def)
  show ?thesis
    using tip e(1) frame e'(2-5) truth(2) settle_observation_rows [OF s]
    by (intro conjI exI [of _ e] exI [of _ e']) (auto split: effect_observation.split)
qed

theorem reconciliation_follows_the_branch_witness:
  "\<exists>e'. get_effect (fst (snd (reconcile_one ''restart'' mini_program demo_projects (next_uuid demo_db) (snd demo_run))))
       (next_uuid demo_db) = Some e' \<and> eff_status e' = STATUS_SETTLED"
proof -
  let ?r = "reconcile_one ''restart'' mini_program demo_projects (next_uuid demo_db) (snd demo_run)"
  have seen: "map_option rd_classification (fst ?r) = Some OBS_APPLIED" using demo_facts by (elim conjE)
  then obtain x where x: "fst ?r = Some x" "rd_classification x = OBS_APPLIED" by auto
  have run: "reconcile_one ''restart'' mini_program demo_projects (next_uuid demo_db)
      (fst (snd demo_run), snd (snd demo_run)) = (Some x, (fst (snd ?r), snd (snd ?r)))"
    using x(1) by (metis prod.collapse)
  have "map_option (\<lambda>e. jget (eff_context e) ''target_branch'') (get_effect (fst (snd demo_run)) (next_uuid demo_db)) =
      Some (JStr ''main'')" using demo_facts by (elim conjE)
  moreover have "plain_branch ''main''" by code_simp
  ultimately have plain: "\<And>e b. get_effect (fst (snd demo_run)) (next_uuid demo_db) = Some e \<Longrightarrow>
      jget (eff_context e) ''target_branch'' = JStr b \<Longrightarrow> plain_branch b"
    by simp
  show ?thesis
    using reconciliation_follows_the_branch [OF mini.git_contract_axioms run] plain x(2) by fastforce
qed

text \<open>C3. A restart completes a delivery that was cut short. When a run that was the first to record its
  effect moved the branch but did not report success, because Git failed or timed out afterwards or
  the lease was lost, and Git can be read again, the reconciler finds the effect open, reports it
  as applied and leaves the rows a successful run leaves: the worktree delivered under the same
  operation hash and branch, the approval consumed, the effect settled.\<close>

theorem restart_completes_the_delivery:
  assumes "git_contract G V" and "execute_apply pf projects fe G requested cancelled rq (d, g) = (r, (d', g'))"
    and "gv_tip V g' \<noteq> gv_tip V g" and "\<And>outcome. r = Inr outcome \<Longrightarrow> so_kind outcome \<noteq> SUCCEEDED"
    and "load_approved pf d rq = Inr (aid, envelope, w)"
    and "\<And>b. jget envelope ''target_branch'' = JStr b \<Longrightarrow> plain_branch b"
    and "\<And>b c. apply_operation_key aid c b \<notin> eff_operation_key ` set (db_effects d)" and "effects_ok d"
    and "distinct (map wt_id (db_worktrees d))" and "wt_id w < 2 ^ 128" and "wt_delivery_state w \<in> APPLICABLE"
    and "\<And>project b. project_get projects (wt_project_id w) = Inr project \<Longrightarrow>
      jget envelope ''target_branch'' = JStr b \<Longrightarrow>
      fst (read_ref G (pc_repository_path project) b g') = Inr (gv_tip V g' (pc_repository_path project) (head_ref b))"
  shows "\<exists>eid x d2 g2 b e a. reconcile_one owner G projects eid (d', g') = (Some x, (d2, g2)) \<and>
    rd_classification x = OBS_APPLIED \<and> jget envelope ''target_branch'' = JStr b \<and>
    get_worktree d2 (wt_id w) = Some (delivered (envelope_hash pf envelope) (head_ref b) w) \<and>
    get_approval d2 aid = Some a \<and> appr_status a = A_CONSUMED \<and>
    get_effect d2 eid = Some e \<and> eff_status e = STATUS_SETTLED"
proof -
  from assms(1-3) obtain aid' envelope' w' project terms eid d1 g1 r' where
    run: "load_approved pf d rq = Inr (aid', envelope', w')" "project_get projects (wt_project_id w') = Inr project"
      "check_policy d rq project envelope' w' = Inr ()" "delivery_terms envelope' = Inr terms" "view_kept V g g1"
      "record_apply_intent d rq fe aid' (apply_intent pf rq aid' envelope' w' terms) = Inr (eid, d1)"
      "perform pf projects G rq project aid' envelope' w' terms eid (d1, g1) = (r', (d', g'))"
      "r = (case r' of Inl e \<Rightarrow> caught e | Inr o' \<Rightarrow> Inr o')"
    by (rule executeE)
  have same: "aid' = aid" "envelope' = envelope" "w' = w" using run(1) assms(5) by simp_all
  note run = run [unfolded same]
  obtain b h c where bhc: "terms = (JStr b, JStr h, JStr c)" and
    swung: "swung V (pc_repository_path project) (head_ref b) {None, Some h} c g1 g'" "\<not> view_kept V g1 g'" and
    ne: "c \<noteq> h" and plain: "plain_branch b"
    by (rule performed [OF assms(1, 3) run(4, 5, 7) assms(6)])
  have d': "d' = d1"
    using run(7)
  proof (cases rule: performE)
    case settled
    with run(8) assms(4) show ?thesis by (simp add: outcome_succeeded_def)
  qed simp_all
  have "fst (read_ref G (pc_repository_path project) b g') = Inr (Some c)"
    using assms(12) [OF run(2)] swung_moved [OF swung] delivery_terms_Inr [OF run(4) [unfolded bhc]] by simp
  from recorded_delivery_recovers [OF assms(5) run(2) run(4) [unfolded bhc] run(6) [unfolded bhc] ne this assms(7-11)]
  show ?thesis unfolding d' by blast
qed

theorem restart_completes_the_delivery_witness:
  "\<exists>eid x d2 g2. reconcile_one ''restart'' mini_program demo_projects eid (snd demo_run) = (Some x, (d2, g2)) \<and>
     rd_classification x = OBS_APPLIED \<and>
     get_worktree d2 5 = Some (delivered (envelope_hash demo_platform demo_envelope) (head_ref ''main'') demo_worktree)"
proof -
  have outcome: "so_kind out \<noteq> SUCCEEDED" if "fst demo_run = Inr out" for out
    using that demo_facts by (auto simp: blocked_outcome_def)
  have read: "fst (read_ref mini_program (pc_repository_path project) b (snd (snd demo_run))) =
      Inr (gv_tip mini_view (snd (snd demo_run)) (pc_repository_path project) (head_ref b))"
    if "project_get demo_projects (wt_project_id demo_worktree) = Inr project"
      "jget demo_envelope ''target_branch'' = JStr b" for project b
  proof -
    have "project = hd demo_projects" "b = ''main''"
      using that by (auto simp: project_get_def demo_projects_def find_row_def demo_worktree_def sample_worktree_def
          demo_envelope_def)
    moreover have "fst (read_ref mini_program ''/repo'' ''main'' (snd (snd demo_run))) =
        Inr (mini_tip (snd (snd demo_run)) ''/repo'' (head_ref ''main''))"
      using demo_facts by (elim conjE) simp
    ultimately show ?thesis by (simp add: demo_projects_def mini_view_def)
  qed
  have rows: "apply_operation_key 8 c b \<notin> eff_operation_key ` set (db_effects demo_db)" "effects_ok demo_db"
    "distinct (map wt_id (db_worktrees demo_db))" "wt_id demo_worktree < 2 ^ 128" "wt_id demo_worktree = 5"
    "wt_delivery_state demo_worktree \<in> APPLICABLE" for b c
    by (simp_all add: demo_db_def effects_ok_def demo_worktree_def sample_worktree_def APPLICABLE_def)
  from restart_completes_the_delivery [OF mini.git_contract_axioms demo_split demo_moved outcome demo_loads demo_plain
      rows(1-4, 6) read, of "''restart''"]
  show ?thesis by (auto simp: demo_envelope_def rows(5))
qed

section \<open>Where the record and the branch part\<close>

text \<open>A timeout after the swap is reported as a result that was not applied, with no unknown effect.\<close>

lemma moved_branch_reported_blocked:
  "fst demo_run = Inr (blocked_outcome ''Git operation timed out'') \<and>
   so_unknown_effects (blocked_outcome ''Git operation timed out'') = False \<and>
   mini_tip (snd (snd demo_run)) ''/repo'' (head_ref ''main'') = Some commit_b"
  using demo_facts by (simp add: blocked_outcome_def)

text \<open>A result equal to its base is accepted while its branch does not exist, but never reconciled.\<close>

lemma no_change_without_branch_stays_uncertain:
  "fst (apply_result mini_program ''/repo'' ''/work'' ''goal'' commit_b commit_b demo_git) = Inr False \<and>
   fst (observe_branch mini_program ''/repo'' ''goal'' commit_b commit_b demo_git) = (OBS_UNCERTAIN, [])"
  by code_simp

text \<open>A branch that cannot be read in time passes for one that does not exist.\<close>

lemma timeout_passes_for_missing_branch:
  "fst (apply_result mini_program ''/repo'' ''/work'' ''main'' commit_b commit_b
     (demo_git\<lparr>mg_slow := (\<lambda>args. args = [''rev-parse'', ''--verify'', head_ref ''main'' @ ''^{commit}''])\<rparr>)) = Inr False \<and>
   mini_tip demo_git ''/repo'' (head_ref ''main'') = Some commit_a"
  by code_simp

end
