(* ===== verification/Delivery_Refinement.thy ===== *)
theory Delivery_Refinement
  imports Delivery_Properties
begin

text \<open>
  The life cycle of a delivery as an abstract machine over operation keys and branch tips, and the
  proof that the apply handler and the reconciler, interleaved with everything else the program
  does to the database, implement it.
\<close>

section \<open>Simulation\<close>

locale simulation =
  fixes step :: "'s \<Rightarrow> 's \<Rightarrow> bool" and spec :: "'a \<Rightarrow> 'a \<Rightarrow> bool" and abs_state :: "'s \<Rightarrow> 'a"
    and sound :: "'s \<Rightarrow> bool"
  assumes simulated: "sound s \<Longrightarrow> step s s' \<Longrightarrow> spec\<^sup>*\<^sup>* (abs_state s) (abs_state s')"
    and kept_sound: "sound s \<Longrightarrow> step s s' \<Longrightarrow> sound s'"
begin

lemma simulates:
  assumes "step\<^sup>*\<^sup>* s s'" and "sound s"
  shows "spec\<^sup>*\<^sup>* (abs_state s) (abs_state s') \<and> sound s'"
  using assms
proof (induction rule: rtranclp_induct)
  case (step y z)
  then show ?case using simulated [of y z] kept_sound [of y z] by (meson rtranclp_trans)
qed simp

lemma invariant_transfers:
  assumes "step\<^sup>*\<^sup>* s s'" and "sound s" and "P (abs_state s)" and "\<And>x y. spec x y \<Longrightarrow> P x \<Longrightarrow> P y"
  shows "P (abs_state s')"
proof -
  have "spec\<^sup>*\<^sup>* (abs_state s) (abs_state s')" using simulates [OF assms(1, 2)] by simp
  then show ?thesis using assms(3) by (induction rule: rtranclp_induct) (use assms(4) in auto)
qed

end

section \<open>The life cycle\<close>

datatype phase = Launched int | Unknown int | Denied int | Confirmed

fun open_lease :: "phase \<Rightarrow> int option" where
  "open_lease (Launched n) = Some n"
| "open_lease (Unknown n) = Some n"
| "open_lease _ = None"

text \<open>The repository, branch, expected head and result an operation is about.\<close>

type_synonym operation_terms = "string option \<times> json \<times> json \<times> json"

type_synonym life_state = "(string \<rightharpoonup> operation_terms \<times> phase) \<times> (string \<Rightarrow> string \<Rightarrow> string option)"

inductive life_step :: "life_state \<Rightarrow> life_state \<Rightarrow> bool" where
  launch: "ops k = None \<Longrightarrow> life_step (ops, tip) (ops(k \<mapsto> (t, Launched n)), tip)"
| relaunch: "ops k = Some (t, Denied m) \<Longrightarrow> m < n \<Longrightarrow> life_step (ops, tip) (ops(k \<mapsto> (t, Launched n)), tip)"
| swing: "ops k = Some ((Some repo, JStr b, JStr h, JStr c), p) \<Longrightarrow> p = Confirmed \<or> p = Launched n \<Longrightarrow> c \<noteq> h \<Longrightarrow>
    tip repo (head_ref b) \<in> {None, Some h} \<Longrightarrow>
    life_step (ops, tip) (ops, tip(repo := (tip repo)(head_ref b := Some c)))"
| confirm: "ops k = Some ((Some repo, JStr b, JStr h, JStr c), p) \<Longrightarrow> open_lease p = Some n \<Longrightarrow>
    tip repo (head_ref b) = Some c \<Longrightarrow>
    life_step (ops, tip) (ops(k \<mapsto> ((Some repo, JStr b, JStr h, JStr c), Confirmed)), tip)"
| keep: "ops k = Some ((repo, b, JStr h, JStr h), Launched n) \<Longrightarrow>
    life_step (ops, tip) (ops(k \<mapsto> ((repo, b, JStr h, JStr h), Confirmed)), tip)"
| deny: "ops k = Some ((Some repo, JStr b, JStr h, JStr c), p) \<Longrightarrow> open_lease p = Some n \<Longrightarrow> c \<noteq> h \<Longrightarrow>
    tip repo (head_ref b) = Some h \<Longrightarrow>
    life_step (ops, tip) (ops(k \<mapsto> ((Some repo, JStr b, JStr h, JStr c), Denied n)), tip)"
| doubt: "ops k = Some (t, p) \<Longrightarrow> open_lease p = Some n \<Longrightarrow>
    life_step (ops, tip) (ops(k \<mapsto> (t, Unknown n)), tip)"

inductive_cases life_stepE: "life_step (ops, tip) (ops', tip')"

text \<open>What the machine promises: a confirmed operation stays confirmed, and no terms ever change.\<close>

lemma confirmed_is_final:
  "life_step S S' \<Longrightarrow> fst S k = Some (t, Confirmed) \<Longrightarrow> fst S' k = Some (t, Confirmed)"
  by (induction rule: life_step.induct) (auto split: if_splits)

lemma terms_are_fixed:
  "life_step S S' \<Longrightarrow> map_option fst (fst S k) = Some t \<Longrightarrow> map_option fst (fst S' k) = Some t"
  by (induction rule: life_step.induct) (auto split: if_splits)

section \<open>The abstraction\<close>

definition effect_terms :: "project_config list \<Rightarrow> effect \<Rightarrow> operation_terms" where
  "effect_terms projects e =
     (resolve_repository projects (eff_context e), jget (eff_context e) ''target_branch'',
      jget (eff_context e) ''expected_head'', jget (eff_context e) ''result_commit'')"

definition effect_phase :: "effect \<Rightarrow> phase" where
  "effect_phase e =
     (if eff_status e = STATUS_SETTLED then Confirmed
      else if eff_status e = STATUS_FAILED then Denied (eff_lease_generation e)
      else if eff_status e = STATUS_UNCERTAIN \<or> eff_reconcile_status e = RECONCILE_UNCERTAIN
      then Unknown (eff_lease_generation e)
      else Launched (eff_lease_generation e))"

definition effect_row :: "project_config list \<Rightarrow> effect \<Rightarrow> operation_terms \<times> phase" where
  "effect_row projects e = (effect_terms projects e, effect_phase e)"

definition operations :: "project_config list \<Rightarrow> db \<Rightarrow> string \<rightharpoonup> operation_terms \<times> phase" where
  "operations projects d k = map_option (effect_row projects) (effect_by_key d k)"

definition delivery_abs :: "project_config list \<Rightarrow> 'g git_view \<Rightarrow> db \<times> 'g \<Rightarrow> life_state" where
  "delivery_abs projects V w = (operations projects (fst w), gv_tip V (snd w))"

definition sound_effect :: "effect \<Rightarrow> bool" where
  "sound_effect e \<longleftrightarrow> (eff_status e = STATUS_FAILED \<longrightarrow> eff_reconcile_status e = RECONCILE_DENIED) \<and>
     (\<forall>b. jget (eff_context e) ''target_branch'' = JStr b \<longrightarrow> plain_branch b)"

definition sound_effects :: "db \<Rightarrow> bool" where
  "sound_effects d \<longleftrightarrow> effects_ok d \<and> (\<forall>e \<in> set (db_effects d). sound_effect e)"

lemma effect_by_key_iff:
  assumes "effects_ok d"
  shows "effect_by_key d k = Some e \<longleftrightarrow> e \<in> set (db_effects d) \<and> eff_operation_key e = k"
proof
  assume e: "e \<in> set (db_effects d) \<and> eff_operation_key e = k"
  then obtain x where x: "effect_by_key d k = Some x" using effect_by_key_None [of d k] by fastforce
  have "x = e"
    using effect_by_key_Some [OF x] e assms unfolding effects_ok_def distinct_map by (metis inj_onD)
  then show "effect_by_key d k = Some e" using x by simp
qed (rule effect_by_key_Some)

lemma operations_upd:
  assumes ok: "effects_ok d" and e: "get_effect d k = Some e"
    and f: "\<And>x. eff_id (f x) = eff_id x" "\<And>x. eff_operation_key (f x) = eff_operation_key x"
  shows "operations projects (upd_effect k f d) =
    (operations projects d)(eff_operation_key e \<mapsto> effect_row projects (f e))"
proof
  fix j
  note mem = effect_store.get_mem [OF e] and key = effect_store.get_key [OF e]
  have ok': "effects_ok (upd_effect k f d)" by (rule upd_effect_ok [OF ok f])
  have only: "x = e" if "x \<in> set (db_effects d)" "eff_id x = k" for x
    using that mem key ok unfolding effects_ok_def distinct_map by (metis inj_onD)
  show "operations projects (upd_effect k f d) j =
    ((operations projects d)(eff_operation_key e \<mapsto> effect_row projects (f e))) j"
  proof (cases "j = eff_operation_key e")
    case True
    have "f e \<in> set (db_effects (upd_effect k f d))" using mem key by (auto simp: effect_store.mem_upd)
    then have "effect_by_key (upd_effect k f d) j = Some (f e)"
      using True by (simp add: effect_by_key_iff [OF ok'] f)
    then show ?thesis using True by (simp add: operations_def)
  next
    case False
    have "effect_by_key (upd_effect k f d) j = Some x \<longleftrightarrow> effect_by_key d j = Some x" for x
      unfolding effect_by_key_iff [OF ok] effect_by_key_iff [OF ok'] effect_store.mem_upd
      using only False f by auto
    then have "effect_by_key (upd_effect k f d) j = effect_by_key d j" by (metis option.exhaust)
    then show ?thesis using False by (simp add: operations_def)
  qed
qed

lemma sound_upd:
  assumes "sound_effects d" and "\<And>x. eff_id (f x) = eff_id x" "\<And>x. eff_operation_key (f x) = eff_operation_key x"
    and "\<And>x. sound_effect x \<Longrightarrow> sound_effect (f x)"
  shows "sound_effects (upd_effect k f d)"
  using assms by (auto simp: sound_effects_def effect_store.mem_upd intro: upd_effect_ok)

lemma effects_frame:
  assumes "db_effects d' = db_effects d"
  shows "operations projects d' = operations projects d"
    and "next_uuid d \<le> next_uuid d' \<Longrightarrow> sound_effects d \<Longrightarrow> sound_effects d'"
  using assms by (auto simp: operations_def fun_eq_iff effect_by_key_def sound_effects_def effects_ok_def)

lemma operations_get:
  assumes "effects_ok d" and "get_effect d k = Some e"
  shows "operations projects d (eff_operation_key e) = Some (effect_row projects e)"
  using effect_store.get_mem [OF assms(2)] effect_by_key_iff [OF assms(1), of "eff_operation_key e" e]
  by (simp add: operations_def)

lemma operations_append:
  assumes "effect_by_key d (eff_operation_key e) = None" and "db_effects d1 = db_effects d @ [e]"
  shows "operations projects d1 = (operations projects d)(eff_operation_key e \<mapsto> effect_row projects e)"
proof
  fix j
  show "operations projects d1 j = ((operations projects d)(eff_operation_key e \<mapsto> effect_row projects e)) j"
  proof (cases "effect_by_key d j")
    case None
    then have "effect_by_key d1 j = (if eff_operation_key e = j then Some e else None)"
      by (simp add: effect_by_key_def assms(2) find_append_None)
    with None show ?thesis by (auto simp: operations_def)
  next
    case (Some x)
    then have "effect_by_key d1 j = Some x" by (simp add: effect_by_key_def assms(2) find_append_Some)
    moreover have "j \<noteq> eff_operation_key e" using Some assms(1) by auto
    ultimately show ?thesis using Some by (simp add: operations_def)
  qed
qed

lemma row_changes [simp]:
  "effect_row projects (settle_applied now r h m e) = (effect_terms projects e, Confirmed)"
  "effect_row projects (mark_denied now e) = (effect_terms projects e, Denied (eff_lease_generation e))"
  "effect_row projects (mark_uncertain now e) = (effect_terms projects e, Unknown (eff_lease_generation e))"
  "effect_row projects (redispatched now i e) = (effect_terms projects e, Launched (ei_lease_generation i))"
  by (simp_all add: effect_row_def effect_terms_def effect_phase_def settle_applied_def mark_denied_def
      mark_uncertain_def redispatched_def effect_status_defs)

lemma sound_changes [simp]:
  "sound_effect x \<Longrightarrow> sound_effect (settle_applied now r h m x)"
  "sound_effect x \<Longrightarrow> sound_effect (mark_denied now x)"
  "sound_effect x \<Longrightarrow> sound_effect (mark_uncertain now x)"
  "sound_effect x \<Longrightarrow> sound_effect (redispatched now i x)"
  "sound_effect x \<Longrightarrow> sound_effect (resumed now x)"
  by (simp_all add: sound_effect_def settle_applied_def mark_denied_def mark_uncertain_def redispatched_def
      resumed_def effect_status_defs)

lemma open_phase:
  assumes "eff_status e \<in> OPEN_EFFECT"
  shows "open_lease (effect_phase e) = Some (eff_lease_generation e)"
  using assms by (auto simp: effect_phase_def OPEN_EFFECT_def effect_status_defs)

section \<open>Recording the intent\<close>

lemma resumed_row:
  assumes "eff_status e \<notin> {STATUS_SETTLED, STATUS_FAILED, STATUS_UNCERTAIN}" "eff_reconcile_status e \<noteq> RECONCILE_UNCERTAIN"
  shows "effect_row projects e = (effect_terms projects e, Launched (eff_lease_generation e))"
    and "effect_row projects (resumed now e) = effect_row projects e"
  using assms by (simp_all add: effect_row_def effect_terms_def effect_phase_def resumed_def effect_status_defs)

lemma new_effect_row:
  "effect_row projects (new_effect d i) = (effect_terms projects (new_effect d i), Launched (ei_lease_generation i))"
  by (simp add: effect_row_def effect_phase_def new_effect_def effect_status_defs)

text \<open>An intent is recorded by at most one step of the machine; the operation is then launched or confirmed.\<close>

lemma intent_simulated:
  assumes intent: "record_intent d i = Inr (eid, d1)" and sound: "sound_effects d" "sound_effect (new_effect d i)"
    and t: "effect_terms projects (new_effect d i) = t"
    and same: "\<And>e. effect_by_key d (ei_operation_key i) = Some e \<Longrightarrow> effect_terms projects e = t"
  obtains e p n where "life_step\<^sup>*\<^sup>* (operations projects d, tip) (operations projects d1, tip)" "sound_effects d1"
    "get_effect d1 eid = Some e" "effect_row projects e = (t, p)" "p = Confirmed \<or> p = Launched n"
proof -
  have ok: "effects_ok d" "effects_ok d1"
    using sound(1) record_intent_ok [OF intent] by (simp_all add: sound_effects_def)
  have row: "get_effect d (eff_id e) = Some e" "operations projects d (ei_operation_key i) = Some (effect_row projects e)"
    "sound_effect e" "eff_operation_key e = ei_operation_key i" if "effect_by_key d (ei_operation_key i) = Some e" for e
    using that effect_by_key_Some [OF that] sound(1) effect_store.mem_get [of d e]
    by (auto simp: operations_def sound_effects_def effects_ok_def)
  from intent show thesis
  proof (cases rule: record_intent_cases)
    case fresh
    have d1: "d1 = d\<lparr>db_effects := db_effects d @ [new_effect d i], next_uuid := Suc (next_uuid d)\<rparr>"
      "get_effect d1 eid = Some (new_effect d i)"
      using fresh_intent [OF intent _ ok(1)] fresh(1) by (simp_all add: effect_by_key_None)
    have "operations projects d1 = (operations projects d)(ei_operation_key i \<mapsto> effect_row projects (new_effect d i))"
      using operations_append [of d "new_effect d i" d1 projects] fresh(1, 3) by simp
    then have "life_step (operations projects d, tip) (operations projects d1, tip)"
      using life_step.launch [of "operations projects d" "ei_operation_key i"] fresh(1)
      by (simp add: new_effect_row operations_def)
    moreover have "sound_effects d1" using sound ok(2) by (auto simp: sound_effects_def d1)
    ultimately show thesis using d1(2) new_effect_row t by (intro that) auto
  next
    case (final e)
    then have "eff_status e = STATUS_SETTLED"
      using row(3) [OF final(1)] by (auto simp: sound_effect_def)
    then have "effect_row projects e = (t, Confirmed)"
      using same [OF final(1)] by (simp add: effect_row_def effect_phase_def)
    then show thesis using that final row(1) [OF final(1)] sound(1) by auto
  next
    case (resume e)
    have d1: "d1 = upd_effect (eff_id e) (resumed (wall_now d)) d"
      using intent resume by (auto simp: record_intent_def effect_status_defs split: if_splits)
    note rows = resumed_row [OF resume(5, 6)]
    have "operations projects d1 = operations projects d"
      unfolding d1 using row [OF resume(1)] rows
      by (subst operations_upd [OF ok(1) row(1) [OF resume(1)]]) (auto simp: fun_upd_idem_iff)
    moreover have "get_effect d1 eid = Some (resumed (wall_now d) e)"
      using row(1) [OF resume(1)] by (simp add: d1 resume(2) effect_store.get_upd)
    moreover have "sound_effects d1" unfolding d1 by (rule sound_upd [OF sound(1)]) simp_all
    ultimately show thesis using that rows same [OF resume(1)] by auto
  next
    case (relaunch e)
    have d1: "d1 = upd_effect (eff_id e) (redispatched (wall_now d) i) (add_event (retry_dispatched_event e i) d)"
      using intent relaunch by (auto simp: record_intent_def effect_status_defs split: if_splits)
    have get: "get_effect (add_event (retry_dispatched_event e i) d) (eff_id e) = Some e"
      using row(1) [OF relaunch(1)] by (simp add: get_effect_def)
    have ok': "effects_ok (add_event (retry_dispatched_event e i) d)" "sound_effects (add_event (retry_dispatched_event e i) d)"
      using sound(1) by (simp_all add: sound_effects_def effects_ok_def)
    have "operations projects d1 = (operations projects d)(ei_operation_key i \<mapsto> (t, Launched (ei_lease_generation i)))"
      unfolding d1 using same [OF relaunch(1)] row(4) [OF relaunch(1)] effects_frame(1) [of "add_event (retry_dispatched_event e i) d" d projects]
      by (subst operations_upd [OF ok'(1) get]) simp_all
    moreover have "operations projects d (ei_operation_key i) = Some (t, Denied (eff_lease_generation e))"
      using row(2) [OF relaunch(1)] relaunch(5) same [OF relaunch(1)]
      by (simp add: effect_row_def effect_phase_def effect_status_defs)
    ultimately have "life_step (operations projects d, tip) (operations projects d1, tip)"
      using life_step.relaunch relaunch(8) by metis
    moreover have "get_effect d1 eid = Some (redispatched (wall_now d) i e)"
      using get by (simp add: d1 relaunch(2) effect_store.get_upd)
    moreover have "sound_effects d1" unfolding d1 by (rule sound_upd [OF ok'(2)]) simp_all
    ultimately show thesis
      using same [OF relaunch(1)] by (intro that [of "redispatched (wall_now d) i e" "Launched (ei_lease_generation i)"]) auto
  qed
qed

section \<open>The handler\<close>

lemma record_package_head_next:
  "record_package_head projects d tid b w = Inr d' \<Longrightarrow> next_uuid d' = next_uuid d \<and> db_effects d' = db_effects d"
  by (auto simp: record_package_head_def Let_def upd_package_def add_call_def res_simps split: option.splits if_splits)

lemma swung_simulated:
  assumes "swung V repo (head_ref b) {None, Some h} c g g'" and "c = h \<longrightarrow> view_kept V g g'"
    and "ops k = Some ((Some repo, JStr b, JStr h, JStr c), p)" and "p = Confirmed \<or> p = Launched n"
  shows "life_step\<^sup>*\<^sup>* (ops, gv_tip V g) (ops, gv_tip V g')"
proof (cases "view_kept V g g'")
  case False
  then have moved: "tip_moved V repo (head_ref b) c g g'" "gv_tip V g repo (head_ref b) \<in> {None, Some h}" "c \<noteq> h"
    using assms(1, 2) by (auto simp: swung_def)
  have "gv_tip V g' = (gv_tip V g)(repo := (gv_tip V g repo)(head_ref b := Some c))"
    using moved(1) by (auto simp: tip_moved_def fun_eq_iff)
  then show ?thesis using life_step.swing [of ops k repo b h c p n "gv_tip V g"] assms(3, 4) moved(2, 3) by auto
qed (simp add: view_kept_def)

text \<open>Recording the success confirms an operation that is still open, and touches no other.\<close>

lemma applied_simulated:
  assumes applied: "record_applied projects d rq aid wid opsh b eid = Inr d'" and sound: "sound_effects d"
    and e: "get_effect d eid = Some e" "effect_row projects e = ((Some repo, JStr b, JStr h, JStr c), p)"
    and p: "p = Confirmed \<or> p = Launched n" and tip: "c \<noteq> h \<longrightarrow> tip repo (head_ref b) = Some c"
  shows "life_step\<^sup>*\<^sup>* (operations projects d, tip) (operations projects d', tip) \<and> sound_effects d'"
proof -
  obtain d1 r where d1: "db_effects d1 = db_effects d" "next_uuid d1 = next_uuid d" "d' = settle_effect eid r d1"
    using applied by (elim record_appliedE) (auto simp: record_package_head_frame(1) upd_worktree_def upd_approval_def
      dest!: record_package_head_next)
  have sound1: "sound_effects d1" and ops1: "operations projects d1 = operations projects d"
    using effects_frame [OF d1(1)] sound d1(2) by simp_all
  have ok: "effects_ok d1" using sound1 by (simp add: sound_effects_def)
  have e1: "get_effect d1 eid = Some e" using e(1) get_effect_frame [OF d1(1)] by simp
  have row: "operations projects d (eff_operation_key e) = Some ((Some repo, JStr b, JStr h, JStr c), p)"
    using operations_get [OF ok e1, of projects] ops1 e(2) by simp
  show ?thesis
  proof (cases "eff_status e \<in> OPEN_EFFECT")
    case False
    then show ?thesis using sound1 ops1 by (simp add: d1(3) settle_effect_def e1)
  next
    case True
    then have "open_lease p = Some (eff_lease_generation e)" using open_phase [of e] e(2) by (auto simp: effect_row_def)
    then have p': "p = Launched n" using p by auto
    define f where "f = settle_applied (wall_now d1) r None METHOD_READ_GIT_REF"
    have d': "d' = upd_effect eid f d1" using True by (simp add: d1(3) settle_effect_def e1 f_def)
    have t: "effect_terms projects e = (Some repo, JStr b, JStr h, JStr c)" using e(2) by (simp add: effect_row_def)
    have ops': "operations projects d' = (operations projects d)(eff_operation_key e \<mapsto>
        ((Some repo, JStr b, JStr h, JStr c), Confirmed))"
      unfolding d' using t ops1 by (subst operations_upd [OF ok e1]) (simp_all add: f_def)
    have "life_step (operations projects d, tip) (operations projects d', tip)"
    proof (cases "c = h")
      case True
      then show ?thesis unfolding ops' using life_step.keep row p' by simp
    next
      case False
      with tip show ?thesis unfolding ops' using life_step.confirm [of _ _ repo b h c p n tip] row p' by simp
    qed
    moreover have "sound_effects d'" unfolding d' f_def by (rule sound_upd [OF sound1]) simp_all
    ultimately show ?thesis by blast
  qed
qed

lemma perform_simulated:
  assumes G: "git_contract G V" and run: "perform pf projects G rq project aid envelope w terms eid (d, g) = (r, (d', g'))"
    and sound: "sound_effects d" and e: "get_effect d eid = Some e"
    and row: "effect_row projects e = ((Some (pc_repository_path project), terms), p)" "p = Confirmed \<or> p = Launched n"
    and plain: "\<And>b. fst terms = JStr b \<Longrightarrow> plain_branch b"
  shows "life_step\<^sup>*\<^sup>* (delivery_abs projects V (d, g)) (delivery_abs projects V (d', g')) \<and> sound_effects d'"
proof -
  have ok: "effects_ok d" using sound by (simp add: sound_effects_def)
  let ?ops = "operations projects d" and ?repo = "pc_repository_path project"
  have post: "delivered_post V g ?repo b h c x g'"
    "life_step\<^sup>*\<^sup>* (?ops, gv_tip V g) (?ops, gv_tip V g')"
    if terms: "terms = (JStr b, JStr h, JStr c)" and x: "apply_result G ?repo (wt_path w) b h c g = (x, g')" for b h c x
  proof -
    show post: "delivered_post V g ?repo b h c x g'"
      using git_tripleD [OF git_contract.apply_triple [OF G plain, of b g ?repo "wt_path w" h c], of g] that by simp
    show "life_step\<^sup>*\<^sup>* (?ops, gv_tip V g) (?ops, gv_tip V g')"
      by (rule swung_simulated [where repo = ?repo and b = b and h = h and c = c and k = "eff_operation_key e" and p = p and n = n])
        (use post operations_get [OF ok e, of projects] row terms in \<open>auto simp: delivered_post_def split: if_splits\<close>)
  qed
  from run show ?thesis
  proof (cases rule: performE)
    case untyped
    then show ?thesis using sound by simp
  next
    case (stopped e' b h c x)
    then show ?thesis using post(2) sound by (simp add: delivery_abs_def)
  next
    case (settled b h c x)
    have "c \<noteq> h \<longrightarrow> gv_tip V g' ?repo (head_ref b) = Some c"
      using post(1) [OF settled(1, 3)] by (auto simp: delivered_post_def)
    with settled row have "life_step\<^sup>*\<^sup>* (?ops, gv_tip V g') (operations projects d', gv_tip V g') \<and> sound_effects d'"
      by (intro applied_simulated [OF settled(4) sound e]) auto
    then show ?thesis using post(2) [OF settled(1, 3)] by (auto simp: delivery_abs_def)
  qed
qed

text \<open>
  What keeps an approval and its operation together: the branch is a plain name, and a row that is
  already there under the operation key was recorded for the same terms. The key holds the approval,
  whose envelope is pinned by its hash.
\<close>

definition terms_stand :: "platform \<Rightarrow> project_config list \<Rightarrow> db \<Rightarrow> step_request \<Rightarrow> bool" where
  "terms_stand pf projects d rq \<longleftrightarrow>
     (\<forall>aid envelope w project b h c. load_approved pf d rq = Inr (aid, envelope, w) \<longrightarrow>
        project_get projects (wt_project_id w) = Inr project \<longrightarrow> delivery_terms envelope = Inr (b, h, c) \<longrightarrow>
        (\<forall>x. b = JStr x \<longrightarrow> plain_branch x) \<and>
        (\<forall>e. effect_by_key d (apply_operation_key aid (py_str c) (py_str b)) = Some e \<longrightarrow>
           effect_terms projects e = (Some (pc_repository_path project), b, h, c)))"

lemma intent_terms:
  assumes "project_get projects (wt_project_id w) = Inr project"
  shows "effect_terms projects (new_effect d (apply_intent pf rq aid envelope w (b, h, c))) =
    (Some (pc_repository_path project), b, h, c)"
    and "ei_operation_key (apply_intent pf rq aid envelope w (b, h, c)) = apply_operation_key aid (py_str c) (py_str b)"
    and "sound_effect (new_effect d (apply_intent pf rq aid envelope w (b, h, c))) \<longleftrightarrow> (\<forall>x. b = JStr x \<longrightarrow> plain_branch x)"
  using assms by (simp_all add: effect_terms_def new_effect_def apply_intent_def Let_def resolve_repository_def
      sound_effect_def effect_status_defs)

lemma accept_report_frame:
  assumes "accept_report pf d rq aid envelope = Inr d'"
  shows "db_effects d' = db_effects d \<and> next_uuid d' = next_uuid d"
  using assms by (auto simp: accept_report_def res_simps upd_approval_def split: option.splits if_splits prod.splits)

lemma deliver_simulated:
  assumes G: "git_contract G V" and run: "deliver pf projects fe G rq project aid envelope w (d, g) = (r, (d', g'))"
    and load: "load_approved pf d rq = Inr (aid, envelope, w)" "project_get projects (wt_project_id w) = Inr project"
    and sound: "sound_effects d" and stand: "terms_stand pf projects d rq"
  shows "life_step\<^sup>*\<^sup>* (delivery_abs projects V (d, g)) (delivery_abs projects V (d', g')) \<and> sound_effects d'"
  using G run
proof (cases rule: deliverE)
  case early
  then show ?thesis using sound by (simp add: delivery_abs_def view_kept_def)
next
  case (recorded terms eid d1 g1)
  obtain b h c where terms: "terms = (b, h, c)" by (cases terms)
  have stands: "\<forall>x. b = JStr x \<longrightarrow> plain_branch x"
    "\<forall>e. effect_by_key d (apply_operation_key aid (py_str c) (py_str b)) = Some e \<longrightarrow>
       effect_terms projects e = (Some (pc_repository_path project), b, h, c)"
    using stand load recorded(2) terms unfolding terms_stand_def by blast+
  note i = intent_terms [OF load(2)]
  have intent: "record_intent d (apply_intent pf rq aid envelope w (b, h, c)) = Inr (eid, d1)"
    using record_apply_intent_Inr [OF recorded(3)] by (simp add: terms)
  obtain e p n where e: "life_step\<^sup>*\<^sup>* (operations projects d, gv_tip V g) (operations projects d1, gv_tip V g)"
    "sound_effects d1" "get_effect d1 eid = Some e"
    "effect_row projects e = ((Some (pc_repository_path project), b, h, c), p)" "p = Confirmed \<or> p = Launched n"
    by (rule intent_simulated [OF intent sound _ i(1)]) (use stands i in auto)
  have "life_step\<^sup>*\<^sup>* (delivery_abs projects V (d1, g1)) (delivery_abs projects V (d', g')) \<and> sound_effects d'"
    by (rule perform_simulated [OF G recorded(4) e(2, 3) _ e(5)]) (use e(4) terms stands in auto)
  then show ?thesis using e(1) recorded(1) by (auto simp: delivery_abs_def view_kept_def)
qed

lemma execute_simulated:
  assumes G: "git_contract G V" and run: "execute_apply pf projects fe G requested cancelled rq (d, g) = (r, (d', g'))"
    and sound: "sound_effects d" and stand: "terms_stand pf projects d rq"
  shows "life_step\<^sup>*\<^sup>* (delivery_abs projects V (d, g)) (delivery_abs projects V (d', g')) \<and> sound_effects d'"
proof (cases requested)
  case True
  then show ?thesis using run sound by (simp add: execute_apply_def)
next
  case False
  then obtain r' where "apply_approved pf projects fe G cancelled rq (d, g) = (r', (d', g'))"
    using run by (auto simp: execute_apply_def split: prod.splits sum.splits)
  with G show ?thesis
  proof (cases rule: apply_approvedE)
    case early
    then show ?thesis using sound by (simp add: delivery_abs_def view_kept_def)
  next
    case (report aid envelope w)
    have "db_effects d' = db_effects d \<and> next_uuid d' = next_uuid d" using report(3) by (rule accept_report_frame)
    then show ?thesis using effects_frame [of d' d] sound report(4) by (simp add: delivery_abs_def)
  next
    case (delivery aid envelope w project g1)
    from deliver_simulated [OF G delivery(6, 1, 2) sound stand] delivery(5)
    show ?thesis by (simp add: delivery_abs_def view_kept_def)
  qed
qed

section \<open>The reconciler\<close>

lemma settlement_next:
  "next_uuid (consume_approval a d) = next_uuid d" "next_uuid (settle_package_head tid r ref d) = next_uuid d"
  "next_uuid (flag_unknown sid d) = next_uuid d" "next_uuid (upd_worktree k f d) = next_uuid d"
  "next_uuid (upd_effect k h d) = next_uuid d"
  by (auto simp: consume_approval_def settle_package_head_def flag_unknown_def upd_worktree_def upd_effect_def
      upd_approval_def upd_package_def upd_step_def split: option.split)

lemma settle_observationE:
  assumes "settle_observation e seen ref d = (o', d')"
  obtains f where "db_effects d' = db_effects (upd_effect (eff_id e) f d)" "next_uuid d' = next_uuid d"
    "(o' = OBS_APPLIED \<and> seen = OBS_APPLIED \<and> (\<exists>now r h m. f = settle_applied now r h m)) \<or>
     (o' = OBS_NOT_APPLIED \<and> seen = OBS_NOT_APPLIED \<and> (\<exists>now. f = mark_denied now)) \<or>
     (o' = OBS_UNCERTAIN \<and> (\<exists>now. f = mark_uncertain now))"
proof (cases seen)
  case OBS_APPLIED
  show thesis
  proof (cases "settle_business_state d e ref")
    case None
    with OBS_APPLIED assms show thesis by (intro that) (auto simp: settle_observation_def settlement_next)
  next
    case (Some d1)
    then have "db_effects d1 = db_effects d" "next_uuid d1 = next_uuid d"
      by (auto simp: settle_business_state_def settlement_frame settlement_next split: option.splits if_splits)
    with Some OBS_APPLIED assms show thesis
      by (intro that [of "settle_applied (wall_now d) (eff_target_reference e @ ''@'' @ ref) None METHOD_READ_GIT_REF"])
        (auto simp: settle_observation_def upd_effect_def)
  qed
qed (use assms in \<open>auto intro!: that simp: settle_observation_def settlement_frame settlement_next\<close>)

lemma reconcile_one_simulated:
  assumes G: "git_contract G V" and run: "reconcile_one owner G projects eid (d, g) = (x, (d', g'))" and sound: "sound_effects d"
  shows "life_step\<^sup>*\<^sup>* (delivery_abs projects V (d, g)) (delivery_abs projects V (d', g')) \<and> sound_effects d'"
proof (cases x)
  case None
  then have "d' = d \<and> g' = g"
    using run by (auto simp: reconcile_one_def Let_def split: option.splits if_splits prod.splits)
  then show ?thesis using sound by simp
next
  case (Some y)
  from run [unfolded Some] show ?thesis
  proof (cases rule: reconcile_oneE)
    case (1 e seen ref d1)
    have ok: "effects_ok d" and e: "get_effect d (eff_id e) = Some e" using sound 1(1, 2) by (simp_all add: sound_effects_def)
    have plain: "plain_branch b" if "jget (eff_context e) ''target_branch'' = JStr b" for b
      using that sound effect_store.get_mem [OF e] by (auto simp: sound_effects_def sound_effect_def)
    note truth = git_contract.observe_effect_true [OF G 1(4) plain]
    obtain f where f: "db_effects d1 = db_effects (upd_effect (eff_id e) f d)" "next_uuid d1 = next_uuid d"
      "(rd_classification y = OBS_APPLIED \<and> seen = OBS_APPLIED \<and> (\<exists>now r h m. f = settle_applied now r h m)) \<or>
       (rd_classification y = OBS_NOT_APPLIED \<and> seen = OBS_NOT_APPLIED \<and> (\<exists>now. f = mark_denied now)) \<or>
       (rd_classification y = OBS_UNCERTAIN \<and> (\<exists>now. f = mark_uncertain now))"
      by (rule settle_observationE [OF 1(5)])
    have keys: "\<And>z. eff_id (f z) = eff_id z" "\<And>z. eff_operation_key (f z) = eff_operation_key z"
      "\<And>z. sound_effect z \<Longrightarrow> sound_effect (f z)"
      using f(3) by auto
    have frame: "db_effects d' = db_effects (upd_effect (eff_id e) f d)" "next_uuid d' = next_uuid (upd_effect (eff_id e) f d)"
      using f(1, 2) by (simp_all add: 1(6) settlement_next)
    have ops: "operations projects d' = (operations projects d)(eff_operation_key e \<mapsto> effect_row projects (f e))"
      using effects_frame(1) [OF frame(1)] operations_upd [OF ok e keys(1, 2)] by simp
    have row: "operations projects d (eff_operation_key e) = Some (effect_terms projects e, effect_phase e)"
      using operations_get [OF ok e] by (simp add: effect_row_def)
    note lease = open_phase [OF 1(3)]
    consider (applied) "seen = OBS_APPLIED" "effect_row projects (f e) = (effect_terms projects e, Confirmed)"
      | (denied) "seen = OBS_NOT_APPLIED" "effect_row projects (f e) = (effect_terms projects e, Denied (eff_lease_generation e))"
      | (unclear) "effect_row projects (f e) = (effect_terms projects e, Unknown (eff_lease_generation e))"
      using f(3) by auto
    then have "life_step (operations projects d, gv_tip V g) (operations projects d', gv_tip V g)"
    proof cases
      case applied
      with truth(2) obtain repo b c h where t: "effect_terms projects e = (Some repo, JStr b, JStr h, JStr c)"
        "gv_tip V g repo (head_ref b) = Some c" by (auto simp: effect_terms_def)
      from row lease t show ?thesis unfolding ops applied(2) t(1) by (intro life_step.confirm)
    next
      case denied
      with truth(2) obtain repo b c h where t: "effect_terms projects e = (Some repo, JStr b, JStr h, JStr c)"
        "gv_tip V g repo (head_ref b) = Some h" "c \<noteq> h" by (auto simp: effect_terms_def)
      from row lease t show ?thesis unfolding ops denied(2) t(1) by (intro life_step.deny)
    next
      case unclear
      from row lease show ?thesis unfolding ops unclear by (rule life_step.doubt)
    qed
    moreover have "sound_effects d'"
      using effects_frame(2) [OF frame(1)] frame(2) sound_upd [OF sound keys] by simp
    moreover have "gv_tip V g' = gv_tip V g" using truth(1) by (simp add: view_kept_def)
    ultimately show ?thesis by (auto simp: delivery_abs_def)
  qed
qed

lemma reconcile_each_simulated:
  assumes G: "git_contract G V"
  shows "reconcile_each owner G projects eids w = (xs, w') \<Longrightarrow> sound_effects (fst w) \<Longrightarrow>
    life_step\<^sup>*\<^sup>* (delivery_abs projects V w) (delivery_abs projects V w') \<and> sound_effects (fst w')"
proof (induction eids arbitrary: w xs w')
  case (Cons eid eids)
  obtain x w1 where one: "reconcile_one owner G projects eid w = (x, w1)" by (rule prod.exhaust)
  obtain ys w2 where rest: "reconcile_each owner G projects eids w1 = (ys, w2)" by (rule prod.exhaust)
  have first: "life_step\<^sup>*\<^sup>* (delivery_abs projects V w) (delivery_abs projects V w1) \<and> sound_effects (fst w1)"
    using reconcile_one_simulated [OF G, of owner projects eid "fst w" "snd w" x "fst w1" "snd w1"] one Cons.prems(2) by simp
  then have "life_step\<^sup>*\<^sup>* (delivery_abs projects V w1) (delivery_abs projects V w2) \<and> sound_effects (fst w2)"
    using Cons.IH [OF rest] by blast
  moreover have "w' = w2" using Cons.prems(1) one rest by simp
  ultimately show ?case using first by (meson rtranclp_trans)
qed simp

section \<open>The system\<close>

text \<open>
  The handler with any request, the reconciler at any time, and every other change of the database
  that leaves the effects alone, in any order.
\<close>

inductive delivery_step ::
  "platform \<Rightarrow> project_config list \<Rightarrow> bool option \<Rightarrow> string \<Rightarrow> 'g git_program \<Rightarrow> db \<times> 'g \<Rightarrow> db \<times> 'g \<Rightarrow> bool"
  for pf projects fe owner G where
  run: "execute_apply pf projects fe G requested cancelled rq (d, g) = (r, w') \<Longrightarrow> terms_stand pf projects d rq \<Longrightarrow>
    delivery_step pf projects fe owner G (d, g) w'"
| restart: "reconcile_startup owner G projects batch_size locked w = (report, w') \<Longrightarrow>
    delivery_step pf projects fe owner G w w'"
| elsewhere: "db_effects d' = db_effects d \<Longrightarrow> next_uuid d \<le> next_uuid d' \<Longrightarrow>
    delivery_step pf projects fe owner G (d, g) (d', g)"

lemma delivery_step_simulated:
  assumes G: "git_contract G V" and "delivery_step pf projects fe owner G w w'" and "sound_effects (fst w)"
  shows "life_step\<^sup>*\<^sup>* (delivery_abs projects V w) (delivery_abs projects V w') \<and> sound_effects (fst w')"
  using assms(2, 3)
proof (cases rule: delivery_step.cases)
  case (run requested cancelled rq d g r)
  then show ?thesis
    using execute_simulated [OF G, of pf projects fe requested cancelled rq d g r "fst w'" "snd w'"] assms(3) by simp
next
  case (restart batch_size locked report)
  then show ?thesis
    using reconcile_each_simulated [OF G, of owner projects _ w _ w'] assms(3)
    by (auto simp: reconcile_startup_def split: if_splits prod.splits)
next
  case (elsewhere d' d g)
  then show ?thesis using effects_frame [OF elsewhere(3)] assms(3) by (simp add: delivery_abs_def)
qed

locale delivery_system = git_contract G V for G :: "'g git_program" and V :: "'g git_view" +
  fixes pf :: platform and projects :: "project_config list" and fe :: "bool option" and owner :: string

sublocale delivery_system \<subseteq> life: simulation "delivery_step pf projects fe owner G" life_step
    "delivery_abs projects V" "\<lambda>w. sound_effects (fst w)"
  by unfold_locales (use delivery_step_simulated [OF git_contract_axioms] in blast)+

context delivery_system
begin

lemma refines:
  assumes "(delivery_step pf projects fe owner G)\<^sup>*\<^sup>* (d, g) (d', g')" and "sound_effects d"
  shows "life_step\<^sup>*\<^sup>* (operations projects d, gv_tip V g) (operations projects d', gv_tip V g')"
  using life.simulates [OF assms(1)] assms(2) by (simp add: delivery_abs_def)

lemma settled_terms_stay:
  assumes "(delivery_step pf projects fe owner G)\<^sup>*\<^sup>* w w'" and "sound_effects (fst w)"
    and "effect_by_key (fst w) k = Some e" and "eff_status e = STATUS_SETTLED"
  shows "\<exists>e'. effect_by_key (fst w') k = Some e' \<and> eff_status e' = STATUS_SETTLED \<and>
    effect_terms projects e' = effect_terms projects e"
proof -
  have "fst (delivery_abs projects V w) k = Some (effect_terms projects e, Confirmed)"
    using assms(3, 4) by (simp add: delivery_abs_def operations_def effect_row_def effect_phase_def)
  then have "fst (delivery_abs projects V w') k = Some (effect_terms projects e, Confirmed)"
    by (rule life.invariant_transfers [OF assms(1, 2)]) (rule confirmed_is_final)
  then show ?thesis
    by (auto simp: delivery_abs_def operations_def effect_row_def effect_phase_def split: if_splits)
qed

end

interpretation mini_system: delivery_system mini_program mini_view demo_platform demo_projects None "''restart''"
  by unfold_locales

lemma demo_terms_stand: "terms_stand demo_platform demo_projects demo_db demo_request"
proof -
  have none: "effect_by_key demo_db k = None" for k by (simp add: effect_by_key_def demo_db_def)
  show ?thesis
    unfolding terms_stand_def
    using demo_loads demo_plain by (auto simp: none dest!: delivery_terms_Inr)
qed

lemma demo_sound: "sound_effects demo_db"
  by (simp add: sound_effects_def effects_ok_def demo_db_def)



end
