(* ===== verification/Worker.thy ===== *)
theory Worker
  imports Commit_Properties Retry_Policy Recovery_Properties Result_Apply
begin

text \<open>
  \<^verbatim>\<open>workflows/worker.py\<close>: one round of a worker. It claims a step, starts it, runs the handler
  while the rest of the program goes on, and commits the outcome under the fence of its lease; each
  of these is a transaction of its own, so what an earlier one has done stays when a later one
  raises. How a step is claimed is an interface with two providers. The handler is an argument that
  says how it ended, whether cancellation was requested by then, and what the database then holds.
  Seconds that Python keeps as floats are rationals.
\<close>

section \<open>Settings and outcomes\<close>

record worker_settings =
  ws_lease_seconds :: int
  ws_retry_min_seconds :: rat
  ws_retry_max_seconds :: rat
  ws_claim_candidate_limit :: int
  ws_control :: int
  ws_light :: int
  ws_heavy :: int
  ws_privileged :: int

definition worker_class_limits :: "worker_settings \<Rightarrow> queue_class \<rightharpoonup> int" where
  "worker_class_limits ws = (\<lambda>c. Some (case c of
     Q_CONTROL \<Rightarrow> ws_control ws | Q_LIGHT \<Rightarrow> ws_light ws | Q_HEAVY \<Rightarrow> ws_heavy ws
   | Q_PRIVILEGED \<Rightarrow> ws_privileged ws))"

text \<open>A step is retried later the more often it was leased, with a jitter of its identifier.\<close>

definition retry_delay :: "worker_settings \<Rightarrow> uuid \<Rightarrow> int \<Rightarrow> rat" where
  "retry_delay ws sid generation =
     (let base = min (ws_retry_max_seconds ws) (ws_retry_min_seconds ws * 2 powi (generation - 1));
          jitter = of_nat (sid mod 1001) / 10000
      in min (ws_retry_max_seconds ws) (base * (1 + jitter)))"

text \<open>\<open>timedelta(seconds=x)\<close> rounds to a microsecond, half to even.\<close>

definition microseconds :: "rat \<Rightarrow> time" where
  "microseconds x =
     (let y = x * 1000000; n = \<lfloor>y\<rfloor>; r = y - of_int n
      in if r < 1 / 2 then n else if 1 / 2 < r then n + 1 else if even n then n else n + 1)"

datatype handler_end =
    Returned step_outcome
  | TimedOut
  | ShutDown
  | Raised string

definition effects_uncertain :: "db \<Rightarrow> uuid \<Rightarrow> bool" where
  "effects_uncertain d sid =
     (case get_step d sid of None \<Rightarrow> True | Some s \<Rightarrow> \<not> repeatable_without_new_mutation s)"

text \<open>Whether the step could be read is an argument; a read that fails counts as uncertain.\<close>

definition interrupted_outcome :: "bool \<Rightarrow> db \<Rightarrow> uuid \<Rightarrow> string \<Rightarrow> string \<Rightarrow> step_outcome" where
  "interrupted_outcome readable d sid category summary =
     (let uncertain = (\<not> readable \<or> effects_uncertain d sid);
          requeue = (category = ''shutdown_cancelled'' \<and> \<not> uncertain)
      in \<lparr>so_kind = (if requeue then TRANSIENT_FAILURE else BLOCKED), so_result = [], so_category = Some category,
          so_summary = Some summary, so_unknown_effects = uncertain\<rparr>)"

fun handler_outcome :: "bool \<Rightarrow> db \<Rightarrow> uuid \<Rightarrow> handler_end \<Rightarrow> step_outcome" where
  "handler_outcome readable d sid (Returned outcome) = outcome"
| "handler_outcome readable d sid TimedOut =
     interrupted_outcome readable d sid ''timeout'' ''handler exceeded its persisted timeout''"
| "handler_outcome readable d sid ShutDown =
     interrupted_outcome readable d sid ''shutdown_cancelled'' ''handler did not drain before shutdown''"
| "handler_outcome readable d sid (Raised name) =
     \<lparr>so_kind = PERMANENT_FAILURE, so_result = [], so_category = Some ''handler_exception'',
      so_summary = Some name, so_unknown_effects = False\<rparr>"

definition complete_handler :: handler_end where
  "complete_handler = Returned (outcome_succeeded [])"

section \<open>One round\<close>

type_synonym handler = "step_request \<Rightarrow> db \<Rightarrow> handler_end \<times> bool \<times> db"

definition begin_step :: "db \<Rightarrow> lease_token \<Rightarrow> error + db" where
  "begin_step d token = bindE (start_step d token) (\<lambda>d1. publish_step_started d1 token)"

definition worker_request :: "db \<Rightarrow> lease_token \<Rightarrow> (step_request \<times> string) option" where
  "worker_request d token =
     (case get_step d (sr_id (tok_step token)) of
        None \<Rightarrow> None
      | Some s \<Rightarrow>
          (case get_run d (step_run_id s) of
             None \<Rightarrow> None
           | Some r \<Rightarrow>
               Some (\<lparr>rq_task_id = run_task_id r, rq_run_id = run_id r, rq_step_id = step_id s,
                      rq_lease_owner = tok_owner token, rq_lease_generation = tok_generation token\<rparr>, step_type s)))"

definition run_handler :: "(string \<rightharpoonup> handler) \<Rightarrow> step_request \<times> string \<Rightarrow> db \<Rightarrow> handler_end \<times> bool \<times> db" where
  "run_handler handlers rq d =
     (case handlers (snd rq) of None \<Rightarrow> (Raised ''KeyError'', False, d) | Some h \<Rightarrow> h (fst rq) d)"

text \<open>
  A handler that gave up after a requested cancellation has abandoned its outcome: only the
  reservations it left behind are charged. A shutdown is committed instead.
\<close>

definition finish_step ::
  "platform \<Rightarrow> worker_settings \<Rightarrow> recovery_policy \<Rightarrow> bool \<Rightarrow> lease_token \<Rightarrow> handler_end \<Rightarrow> bool \<Rightarrow> db \<Rightarrow>
   (error + bool) \<times> db" where
  "finish_step pf ws rp readable token ended requested d =
     (let sid = sr_id (tok_step token) in
      if requested \<and> ended \<noteq> ShutDown
      then (Inr True, snd (close_step_reservations sid ''cancelled'' False ORPHAN_PROVIDER ORPHAN_MODEL None d))
      else
        case commit_step_outcome pf d token (handler_outcome readable d sid ended)
               (microseconds (retry_delay ws sid (sr_lease_generation (tok_step token)))) (Some rp) of
          Inr d' \<Rightarrow> (Inr True, d')
        | Inl (LeaseLost _) \<Rightarrow> (Inr True, d)
        | Inl e \<Rightarrow> (Inl e, d))"

definition worker_process_one ::
  "platform \<Rightarrow> worker_settings \<Rightarrow> recovery_policy \<Rightarrow> (db \<Rightarrow> error + lease_token option \<times> db) \<Rightarrow>
   (string \<rightharpoonup> handler) \<Rightarrow> bool \<Rightarrow> db \<Rightarrow> (error + bool) \<times> db" where
  "worker_process_one pf ws rp claim handlers readable d =
     (case claim d of
        Inl e \<Rightarrow> (Inl e, d)
      | Inr (None, d1) \<Rightarrow> (Inr False, d1)
      | Inr (Some token, d1) \<Rightarrow>
          (case begin_step d1 token of
             Inl e \<Rightarrow> (Inl e, d1)
           | Inr d2 \<Rightarrow>
               (case worker_request d2 token of
                  None \<Rightarrow> (Inl AssertionError, d2)
                | Some rq \<Rightarrow>
                    (case run_handler handlers rq d2 of
                       (ended, requested, d3) \<Rightarrow> finish_step pf ws rp readable token ended requested d3))))"

text \<open>The claim of the plain worker.\<close>

definition worker_claim ::
  "worker_settings \<Rightarrow> string \<Rightarrow> string set \<Rightarrow> queue_class set \<Rightarrow> (string \<rightharpoonup> int) option \<Rightarrow> string set \<Rightarrow>
   disk_settings \<Rightarrow> free_space_probe \<Rightarrow> uuid set \<Rightarrow> db \<Rightarrow> error + lease_token option \<times> db" where
  "worker_claim ws owner capabilities queue_classes profile_limits step_types disk probe locked d =
     Inr (claim_step probe locked
       \<lparr>cr_owner = owner, cr_lease_seconds = ws_lease_seconds ws, cr_capabilities = capabilities,
        cr_queue_classes = queue_classes, cr_class_limits = Some (worker_class_limits ws),
        cr_profile_limits = profile_limits, cr_step_types = Some step_types,
        cr_candidate_limit = ws_claim_candidate_limit ws, cr_settings = Some disk\<rparr> d)"

section \<open>Claiming as an interface\<close>

text \<open>
  What a round relies on of a claim: it hands out a queued step of a running run with an attempt
  left, which is then leased to the token under the next generation, the attempt counted.
\<close>

definition freshly_claimed :: "db \<Rightarrow> lease_token \<Rightarrow> db \<Rightarrow> bool" where
  "freshly_claimed d token d' \<longleftrightarrow>
     (\<exists>s s'. get_step d (sr_id (tok_step token)) = Some s \<and> step_status s = S_QUEUED \<and>
        step_attempt_count s < step_max_attempts s \<and> run_is_running d (step_run_id s) \<and>
        get_step d' (sr_id (tok_step token)) = Some s' \<and> step_status s' = S_LEASED \<and>
        step_lease_owner s' = Some (tok_owner token) \<and> step_lease_generation s' = tok_generation token \<and>
        tok_generation token = step_lease_generation s + 1 \<and> step_attempt_count s' = step_attempt_count s + 1)"

locale claimer =
  fixes claim :: "db \<Rightarrow> error + lease_token option \<times> db"
  assumes claimed: "distinct (map step_id (db_steps d)) \<Longrightarrow> claim d = Inr (Some token, d') \<Longrightarrow> freshly_claimed d token d'"
begin

lemma processE:
  assumes "worker_process_one pf ws rp claim handlers readable d = (r, d')" and "distinct (map step_id (db_steps d))"
  obtains (refused) e where "claim d = Inl e" "r = Inl e" "d' = d"
  | (idle) d1 where "claim d = Inr (None, d1)" "r = Inr False" "d' = d1"
  | (unstarted) token d1 e where "claim d = Inr (Some token, d1)" "freshly_claimed d token d1"
      "begin_step d1 token = Inl e" "r = Inl e" "d' = d1"
  | (unread) token d1 d2 where "claim d = Inr (Some token, d1)" "freshly_claimed d token d1"
      "begin_step d1 token = Inr d2" "worker_request d2 token = None" "r = Inl AssertionError" "d' = d2"
  | (handled) token d1 d2 rq ended requested d3 where "claim d = Inr (Some token, d1)" "freshly_claimed d token d1"
      "begin_step d1 token = Inr d2" "worker_request d2 token = Some rq"
      "run_handler handlers rq d2 = (ended, requested, d3)"
      "finish_step pf ws rp readable token ended requested d3 = (r, d')"
proof (cases "claim d")
  case (Inl e)
  then have "r = Inl e" "d' = d" using assms(1) by (simp_all add: worker_process_one_def)
  with Inl show thesis by (rule refused)
next
  case (Inr p)
  obtain t d1 where p: "p = (t, d1)" by (rule prod.exhaust)
  show thesis
  proof (cases t)
    case None
    then have c: "claim d = Inr (None, d1)" using Inr p by simp
    then have "r = Inr False" "d' = d1" using assms(1) by (simp_all add: worker_process_one_def)
    with c show thesis by (rule idle)
  next
    case (Some token)
    have c: "claim d = Inr (Some token, d1)" using Inr p Some by simp
    note fresh = claimed [OF assms(2) c]
    show thesis
    proof (cases "begin_step d1 token")
      case (Inl e)
      then have "r = Inl e" "d' = d1" using assms(1) c by (simp_all add: worker_process_one_def)
      with c fresh Inl show thesis by (rule unstarted)
    next
      case (Inr d2)
      show thesis
      proof (cases "worker_request d2 token")
        case None
        then have "r = Inl AssertionError" "d' = d2" using assms(1) c Inr by (simp_all add: worker_process_one_def)
        with c fresh Inr None show thesis by (rule unread)
      next
        case (Some rq)
        obtain ended requested d3 where h: "run_handler handlers rq d2 = (ended, requested, d3)" by (metis prod.exhaust)
        then have "finish_step pf ws rp readable token ended requested d3 = (r, d')"
          using assms(1) c Inr Some by (simp add: worker_process_one_def)
        with c fresh Inr Some h show thesis by (rule handled)
      qed
    qed
  qed
qed

end

lemma worker_claim_fresh:
  assumes "distinct (map step_id (db_steps d))"
    and "worker_claim ws owner capabilities queue_classes profile_limits step_types disk probe locked d = Inr (Some token, d')"
  shows "freshly_claimed d token d'"
proof -
  obtain q where "claim_step probe locked q d = (Some token, d')" using assms(2) by (auto simp: worker_claim_def)
  then obtain s where c: "s \<in> set (claim_candidates d locked (cr_capabilities q) (cr_queue_classes q) (cr_step_types q)
       (nat (cr_candidate_limit q)))"
    and tok: "token = \<lparr>tok_step = step_record_of (leased_row (db_now d) (cr_owner q) (cr_lease_seconds q) s),
            tok_owner = cr_owner q, tok_generation = step_lease_generation s + 1\<rparr>"
    and d': "d' = upd_step (step_id s) (leased_row (db_now d) (cr_owner q) (cr_lease_seconds q)) d"
    by (rule claim_step_Some)
  note s = claim_candidatesD [OF c, unfolded claim_candidate_def]
  have "get_step d (step_id s) = Some s" using step_store.mem_get [OF assms(1)] s by blast
  then show ?thesis
    using s unfolding freshly_claimed_def
    by (intro exI [of _ s] exI [of _ "leased_row (db_now d) (cr_owner q) (cr_lease_seconds q) s"])
      (simp add: tok d' step_store.get_upd step_record_of_def)
qed

interpretation plain_worker: claimer
  "worker_claim ws owner capabilities queue_classes profile_limits step_types disk probe locked"
  for ws owner capabilities queue_classes profile_limits step_types disk probe locked
  by unfold_locales (rule worker_claim_fresh)

section \<open>Interrupted work\<close>

lemma finish_stepE:
  assumes "finish_step pf ws rp readable token ended requested d = (r, d')"
  obtains (abandoned) "requested" "ended \<noteq> ShutDown" "r = Inr True" "ledger_only d d'"
  | (kept) "\<not> (requested \<and> ended \<noteq> ShutDown)" "d' = d"
  | (committed) delay where "\<not> (requested \<and> ended \<noteq> ShutDown)" "r = Inr True"
      "commit_step_outcome pf d token (handler_outcome readable d (sr_id (tok_step token)) ended) delay (Some rp) = Inr d'"
proof (cases "requested \<and> ended \<noteq> ShutDown")
  case True
  then have "r = Inr True" "ledger_only d d'"
    using assms ledger_only_close_step [of d] by (auto simp: finish_step_def Let_def)
  with True show thesis by (intro abandoned) simp_all
next
  case False
  define delay where "delay = microseconds (retry_delay ws (sr_id (tok_step token)) (sr_lease_generation (tok_step token)))"
  define c where "c = commit_step_outcome pf d token (handler_outcome readable d (sr_id (tok_step token)) ended) delay (Some rp)"
  have run: "(case c of Inr d' \<Rightarrow> (Inr True, d') | Inl (LeaseLost _) \<Rightarrow> (Inr True, d) | Inl e \<Rightarrow> (Inl e, d)) = (r, d')"
    using assms False unfolding finish_step_def Let_def c_def delay_def by simp
  show thesis
  proof (cases c)
    case (Inl e)
    then have "d' = d" using run by (cases e) simp_all
    with False show thesis by (rule kept)
  next
    case (Inr d1)
    then have "r = Inr True" "c = Inr d'" using run by simp_all
    with False show thesis unfolding c_def by (rule committed)
  qed
qed

lemma interrupted_uncertain:
  assumes "ended \<in> {TimedOut, ShutDown}" and "\<not> readable \<or> effects_uncertain d sid"
  shows "so_kind (handler_outcome readable d sid ended) = BLOCKED"
    and "so_unknown_effects (handler_outcome readable d sid ended)"
  using assms by (auto simp: interrupted_outcome_def Let_def)

context claimer
begin

lemma interrupted_work:
  assumes run: "worker_process_one pf ws rp claim handlers readable d = (r, d')" and ids: "distinct (map step_id (db_steps d))"
    and claim: "claim d = Inr (Some token, d1)" and start: "begin_step d1 token = Inr d2" "worker_request d2 token = Some rq"
    and cut: "run_handler handlers rq d2 = (ended, requested, d3)" "ended \<in> {TimedOut, ShutDown}"
    and uncertain: "\<not> readable \<or> effects_uncertain d3 (sr_id (tok_step token))"
  shows "freshly_claimed d token d1 \<and> (db_steps d' = db_steps d3 \<and> db_runs d' = db_runs d3 \<and> db_tasks d' = db_tasks d3 \<or>
    (\<exists>s r t. get_step d' (sr_id (tok_step token)) = Some s \<and> step_status s = S_BLOCKED \<and> step_unknown_effects s \<and>
       get_run d' (step_run_id s) = Some r \<and> run_status r = R_BLOCKED \<and>
       get_task d' (run_task_id r) = Some t \<and> task_status t = T_BLOCKED))"
proof -
  have fin: "finish_step pf ws rp readable token ended requested d3 = (r, d')"
    using run claim start cut(1) by (simp add: worker_process_one_def)
  note out = interrupted_uncertain [OF cut(2) uncertain]
  from fin show ?thesis
  proof (cases rule: finish_stepE)
    case abandoned
    then show ?thesis using claimed [OF ids claim] ledger_onlyD by metis
  next
    case kept
    then show ?thesis using claimed [OF ids claim] by simp
  next
    case (committed delay)
    from unknown_commit_blocks [OF committed(3) out(2)] out(1) show ?thesis
      using claimed [OF ids claim] by simp
  qed
qed

end


section \<open>A handler that runs out of time\<close>

definition demo_settings :: worker_settings where
  "demo_settings = \<lparr>ws_lease_seconds = 60, ws_retry_min_seconds = 2, ws_retry_max_seconds = 120,
     ws_claim_candidate_limit = 20, ws_control = 1, ws_light = 1, ws_heavy = 1, ws_privileged = 1\<rparr>"

definition demo_claim :: "db \<Rightarrow> error + lease_token option \<times> db" where
  "demo_claim = worker_claim demo_settings ''w'' {''code_edit''} {Q_HEAVY} None {''execute_code''}
     \<lparr>ds_min_free_bytes = 100, ds_paths = [''/var''], ds_worktree_root = ''/w'', ds_artifact_root = ''/a''\<rparr>
     (\<lambda>_. Some 500) {}"

definition demo_handlers :: "string \<rightharpoonup> handler" where
  "demo_handlers = [''execute_code'' \<mapsto> (\<lambda>_ d. (TimedOut, False, d))]"

definition demo_starts :: "error + lease_token option \<times> db \<Rightarrow> bool" where
  "demo_starts c =
     (case c of
        Inr (Some token, d1) \<Rightarrow>
          sr_id (tok_step token) = 3 \<and>
          (case begin_step d1 token of
             Inr d2 \<Rightarrow> map_option snd (worker_request d2 token) = Some ''execute_code'' \<and> effects_uncertain d2 3
           | Inl _ \<Rightarrow> False)
      | _ \<Rightarrow> False)"

lemma demo_started: "demo_starts (demo_claim sample_db)"
  by code_simp


end
