(* ===== verification/Provider_Policy.thy ===== *)
theory Provider_Policy
  imports Compiler Worker
begin

text \<open>
  \<^verbatim>\<open>providers/policy.py\<close> and \<^verbatim>\<open>providers/catalog.py\<close>: which provider profile may take a step, and in
  which order the eligible ones are tried. The policy is pure: it reads the request, the configured
  profiles and their observed states. Its answer is shown to be the best profile that satisfies an
  admission rule stated on its own, and not to depend on the order of the registry.
\<close>

section \<open>Profiles\<close>

datatype provider_role =
    ROLE_INTERPRETER | ROLE_PLANNER | ROLE_EXECUTOR | ROLE_REVIEWER | ROLE_SUMMARIZER
  | ROLE_TRANSCRIBER | ROLE_LEAD

fun provider_role_value :: "provider_role \<Rightarrow> string" where
  "provider_role_value ROLE_INTERPRETER = ''interpreter''"
| "provider_role_value ROLE_PLANNER = ''planner''"
| "provider_role_value ROLE_EXECUTOR = ''executor''"
| "provider_role_value ROLE_REVIEWER = ''reviewer''"
| "provider_role_value ROLE_SUMMARIZER = ''summarizer''"
| "provider_role_value ROLE_TRANSCRIBER = ''transcriber''"
| "provider_role_value ROLE_LEAD = ''lead''"

datatype budget_mode = BM_CHEAP | BM_BALANCED | BM_STRONG

fun budget_mode_value :: "budget_mode \<Rightarrow> string" where
  "budget_mode_value BM_CHEAP = ''cheap''"
| "budget_mode_value BM_BALANCED = ''balanced''"
| "budget_mode_value BM_STRONG = ''strong''"

definition budget_mode_of :: "string \<Rightarrow> error + budget_mode" where
  "budget_mode_of s =
     (if s = ''cheap'' then Inr BM_CHEAP else if s = ''balanced'' then Inr BM_BALANCED
      else if s = ''strong'' then Inr BM_STRONG else Inl (ValueError (py_repr_string s @ '' is not a valid BudgetMode'')))"

datatype cost_class = CC_CHEAP | CC_BALANCED | CC_STRONG

datatype quota_state = QS_AVAILABLE | QS_LIMITED | QS_EXHAUSTED | QS_UNKNOWN

fun quota_state_value :: "quota_state \<Rightarrow> string" where
  "quota_state_value QS_AVAILABLE = ''available''"
| "quota_state_value QS_LIMITED = ''limited''"
| "quota_state_value QS_EXHAUSTED = ''exhausted''"
| "quota_state_value QS_UNKNOWN = ''unknown''"

definition quota_state_of :: "string \<Rightarrow> error + quota_state" where
  "quota_state_of s =
     (case find (\<lambda>q. quota_state_value q = s) [QS_AVAILABLE, QS_LIMITED, QS_EXHAUSTED, QS_UNKNOWN] of
        Some q \<Rightarrow> Inr q
      | None \<Rightarrow> Inl (ValueError (py_repr_string s @ '' is not a valid QuotaState'')))"

record routed_profile = provider_profile +
  rp_reasoning_effort :: "string option"
  rp_capabilities :: "capability set"
  rp_concurrency_limit :: int
  rp_context_limit :: "int option"
  rp_output_limit :: "int option"
  rp_cost_class :: cost_class
  rp_roles :: "provider_role set"
  rp_routing_priority :: int
  rp_supported_task_types :: "string set"
  rp_fallback_profile_ids :: "string list"
  rp_sandbox_required :: bool
  rp_enabled :: bool

definition CLI_ADAPTERS :: "string set" where
  "CLI_ADAPTERS = {''codex'', ''grok'', ''kimi'', ''pi''}"

definition CONVERSATION_TASK_TYPE :: string where
  "CONVERSATION_TASK_TYPE = ''discussion_agent_internal''"

definition supported_profile :: "routed_profile \<Rightarrow> bool" where
  "supported_profile p =
     ((pp_launch_mode p = LM_CLI \<and> pp_provider p \<in> CLI_ADAPTERS) \<or>
      (pp_launch_mode p = LM_API \<and> pp_provider p = ''openai-compatible''))"

definition conversation_compatible :: "routed_profile \<Rightarrow> provider_role \<Rightarrow> bool" where
  "conversation_compatible p role =
     (rp_enabled p \<and> supported_profile p \<and> pp_launch_mode p = LM_CLI \<and> rp_sandbox_required p \<and>
      role \<in> {ROLE_EXECUTOR, ROLE_LEAD} \<and> role \<in> rp_roles p \<and> CAP_REPOSITORY_READ \<in> rp_capabilities p)"

section \<open>Eligibility\<close>

record profile_state =
  eps_healthy :: bool
  eps_quota_state :: quota_state
  eps_unhealthy_until :: "time option"
  eps_rate_limit_until :: "time option"
  eps_active_leases :: int
  eps_queue_depth :: int

definition default_state :: profile_state where
  "default_state = \<lparr>eps_healthy = True, eps_quota_state = QS_UNKNOWN, eps_unhealthy_until = None,
     eps_rate_limit_until = None, eps_active_leases = 0, eps_queue_depth = 0\<rparr>"

datatype exclusion_reason =
    X_DISABLED | X_ROLE | X_TASK_TYPE | X_CAPABILITY | X_PROJECT_POLICY | X_SANDBOX | X_UNHEALTHY
  | X_RATE_LIMITED | X_QUOTA | X_CONTEXT_LIMIT | X_OUTPUT_LIMIT | X_BUDGET | X_CONCURRENCY
  | X_NOT_CONFIGURED_FALLBACK | X_PRIOR_FAILURE | X_PROJECT_PIN | X_LAUNCH_MODE

fun exclusion_reason_value :: "exclusion_reason \<Rightarrow> string" where
  "exclusion_reason_value X_DISABLED = ''disabled''"
| "exclusion_reason_value X_ROLE = ''role''"
| "exclusion_reason_value X_TASK_TYPE = ''task_type''"
| "exclusion_reason_value X_CAPABILITY = ''capability''"
| "exclusion_reason_value X_PROJECT_POLICY = ''project_policy''"
| "exclusion_reason_value X_SANDBOX = ''sandbox''"
| "exclusion_reason_value X_UNHEALTHY = ''unhealthy''"
| "exclusion_reason_value X_RATE_LIMITED = ''rate_limited''"
| "exclusion_reason_value X_QUOTA = ''quota''"
| "exclusion_reason_value X_CONTEXT_LIMIT = ''context_limit''"
| "exclusion_reason_value X_OUTPUT_LIMIT = ''output_limit''"
| "exclusion_reason_value X_BUDGET = ''budget''"
| "exclusion_reason_value X_CONCURRENCY = ''concurrency''"
| "exclusion_reason_value X_NOT_CONFIGURED_FALLBACK = ''not_configured_fallback''"
| "exclusion_reason_value X_PRIOR_FAILURE = ''prior_failure''"
| "exclusion_reason_value X_PROJECT_PIN = ''project_pin''"
| "exclusion_reason_value X_LAUNCH_MODE = ''launch_mode''"

record routing_request =
  rr_role :: provider_role
  rr_task_type :: string
  rr_required_capabilities :: "capability set"
  rr_project_allowed_capabilities :: "capability set option"
  rr_budget_mode :: budget_mode
  rr_estimated_input_tokens :: int
  rr_max_output_tokens :: int
  rr_remaining_cost_units :: money
  rr_estimated_cost_hard :: bool
  rr_trusted_profile_id :: "string option"
  rr_failed_profile_id :: "string option"
  rr_allowed_fallback_ids :: "string list"
  rr_restrict_to_profile_ids :: "string set option"
  rr_requires_sandbox :: bool
  rr_required_launch_mode :: "launch_mode option"

record profile_evaluation =
  pe_profile_id :: string
  pe_eligible :: bool
  pe_reasons :: "exclusion_reason list"

record policy_decision =
  pd_selected_profile_id :: "string option"
  pd_alternatives :: "string list"
  pd_evaluations :: "profile_evaluation list"

definition only_when :: "bool \<Rightarrow> exclusion_reason \<Rightarrow> exclusion_reason list" where
  "only_when b reason = (if b then [reason] else [])"

definition over_limit :: "int \<Rightarrow> int option \<Rightarrow> bool" where
  "over_limit n limit = (case limit of None \<Rightarrow> False | Some m \<Rightarrow> n > m)"

definition still_after :: "time option \<Rightarrow> time \<Rightarrow> bool" where
  "still_after until now = (case until of None \<Rightarrow> False | Some t \<Rightarrow> t > now)"

definition fits_task_type :: "routing_request \<Rightarrow> routed_profile \<Rightarrow> bool" where
  "fits_task_type q p =
     (if rr_task_type q = CONVERSATION_TASK_TYPE
      then conversation_compatible p (rr_role q) \<and> rr_required_capabilities q = {CAP_REPOSITORY_READ} \<and>
           rr_requires_sandbox q \<and> rr_required_launch_mode q = Some LM_CLI \<and>
           rr_trusted_profile_id q = Some (pp_id p) \<and> rr_restrict_to_profile_ids q = Some {pp_id p}
      else rr_task_type q \<in> rp_supported_task_types p)"

definition exclusions :: "routing_request \<Rightarrow> routed_profile \<Rightarrow> profile_state \<Rightarrow> time \<Rightarrow> exclusion_reason list" where
  "exclusions q p st now =
     only_when (rr_failed_profile_id q = Some (pp_id p)) X_PRIOR_FAILURE @
     only_when (\<not> rp_enabled p) X_DISABLED @
     only_when (rr_role q \<notin> rp_roles p) X_ROLE @
     only_when (\<not> fits_task_type q p) X_TASK_TYPE @
     only_when (\<not> rr_required_capabilities q \<subseteq> rp_capabilities p) X_CAPABILITY @
     only_when (case rr_project_allowed_capabilities q of None \<Rightarrow> False | Some cs \<Rightarrow> \<not> rr_required_capabilities q \<subseteq> cs)
       X_PROJECT_POLICY @
     only_when (rr_requires_sandbox q \<and> \<not> rp_sandbox_required p) X_SANDBOX @
     only_when (case rr_required_launch_mode q of None \<Rightarrow> False | Some m \<Rightarrow> pp_launch_mode p \<noteq> m) X_LAUNCH_MODE @
     only_when (\<not> eps_healthy st \<and> (eps_unhealthy_until st = None \<or> still_after (eps_unhealthy_until st) now)) X_UNHEALTHY @
     only_when (still_after (eps_rate_limit_until st) now) X_RATE_LIMITED @
     only_when (eps_quota_state st = QS_EXHAUSTED) X_QUOTA @
     only_when (over_limit (rr_estimated_input_tokens q) (rp_context_limit p)) X_CONTEXT_LIMIT @
     only_when (over_limit (rr_max_output_tokens q) (rp_output_limit p)) X_OUTPUT_LIMIT @
     only_when (rr_estimated_cost_hard q \<and> rr_remaining_cost_units q < pp_minimum_unknown_usage_cost p) X_BUDGET @
     only_when (eps_active_leases st \<ge> rp_concurrency_limit p) X_CONCURRENCY @
     only_when (rr_failed_profile_id q \<noteq> None \<and> Some (pp_id p) \<noteq> rr_trusted_profile_id q \<and>
       pp_id p \<notin> set (rr_allowed_fallback_ids q)) X_NOT_CONFIGURED_FALLBACK @
     only_when (case rr_restrict_to_profile_ids q of None \<Rightarrow> False | Some ids \<Rightarrow> pp_id p \<notin> ids) X_PROJECT_PIN"

fun COST_ORDER :: "budget_mode \<Rightarrow> cost_class \<Rightarrow> int" where
  "COST_ORDER BM_CHEAP CC_CHEAP = 0"
| "COST_ORDER BM_CHEAP CC_BALANCED = 1"
| "COST_ORDER BM_CHEAP CC_STRONG = 2"
| "COST_ORDER BM_BALANCED CC_BALANCED = 0"
| "COST_ORDER BM_BALANCED CC_CHEAP = 1"
| "COST_ORDER BM_BALANCED CC_STRONG = 2"
| "COST_ORDER BM_STRONG CC_STRONG = 0"
| "COST_ORDER BM_STRONG CC_BALANCED = 1"
| "COST_ORDER BM_STRONG CC_CHEAP = 2"

fun index_of :: "'a list \<Rightarrow> 'a \<Rightarrow> nat" where
  "index_of [] x = 0"
| "index_of (y # ys) x = (if x = y then 0 else Suc (index_of ys x))"

definition state_of :: "(string \<rightharpoonup> profile_state) \<Rightarrow> routed_profile \<Rightarrow> profile_state" where
  "state_of states p = (case states (pp_id p) of None \<Rightarrow> default_state | Some st \<Rightarrow> st)"

definition routing_order ::
  "routing_request \<Rightarrow> (string \<rightharpoonup> profile_state) \<Rightarrow> routed_profile \<Rightarrow> int \<times> nat \<times> int \<times> int \<times> int \<times> int \<times> string" where
  "routing_order q states p =
     (if rr_trusted_profile_id q = Some (pp_id p) then 0 else 1,
      if rr_failed_profile_id q \<noteq> None \<and> pp_id p \<in> set (rr_allowed_fallback_ids q)
      then index_of (rr_allowed_fallback_ids q) (pp_id p) else length (rr_allowed_fallback_ids q),
      COST_ORDER (rr_budget_mode q) (rp_cost_class p), rp_routing_priority p,
      eps_active_leases (state_of states p), eps_queue_depth (state_of states p), pp_id p)"

definition profile_eligible :: "routing_request \<Rightarrow> (string \<rightharpoonup> profile_state) \<Rightarrow> time \<Rightarrow> routed_profile \<Rightarrow> bool" where
  "profile_eligible q states now p = (exclusions q p (state_of states p) now = [])"

definition select_profile ::
  "routing_request \<Rightarrow> routed_profile list \<Rightarrow> (string \<rightharpoonup> profile_state) \<Rightarrow> time \<Rightarrow> policy_decision" where
  "select_profile q profiles states now =
     (let by_id = sort_key pp_id profiles;
          ordered = map pp_id (sort_key (routing_order q states) (filter (profile_eligible q states now) by_id))
      in \<lparr>pd_selected_profile_id = (case ordered of [] \<Rightarrow> None | p # _ \<Rightarrow> Some p),
          pd_alternatives = tl ordered,
          pd_evaluations = map (\<lambda>p. let reasons = exclusions q p (state_of states p) now
            in \<lparr>pe_profile_id = pp_id p, pe_eligible = (reasons = []), pe_reasons = reasons\<rparr>) by_id\<rparr>)"

section \<open>What the policy promises\<close>

text \<open>The admission rule, constraint by constraint.\<close>

definition admissible :: "routing_request \<Rightarrow> routed_profile \<Rightarrow> profile_state \<Rightarrow> time \<Rightarrow> bool" where
  "admissible q p st now \<longleftrightarrow>
     rp_enabled p \<and> rr_role q \<in> rp_roles p \<and> fits_task_type q p \<and>
     rr_required_capabilities q \<subseteq> rp_capabilities p \<and>
     (\<forall>cs. rr_project_allowed_capabilities q = Some cs \<longrightarrow> rr_required_capabilities q \<subseteq> cs) \<and>
     (rr_requires_sandbox q \<longrightarrow> rp_sandbox_required p) \<and>
     (\<forall>m. rr_required_launch_mode q = Some m \<longrightarrow> pp_launch_mode p = m) \<and>
     (eps_healthy st \<or> (\<exists>t. eps_unhealthy_until st = Some t \<and> t \<le> now)) \<and>
     (\<forall>t. eps_rate_limit_until st = Some t \<longrightarrow> t \<le> now) \<and>
     eps_quota_state st \<noteq> QS_EXHAUSTED \<and>
     (\<forall>m. rp_context_limit p = Some m \<longrightarrow> rr_estimated_input_tokens q \<le> m) \<and>
     (\<forall>m. rp_output_limit p = Some m \<longrightarrow> rr_max_output_tokens q \<le> m) \<and>
     (rr_estimated_cost_hard q \<longrightarrow> pp_minimum_unknown_usage_cost p \<le> rr_remaining_cost_units q) \<and>
     eps_active_leases st < rp_concurrency_limit p \<and>
     (\<forall>f. rr_failed_profile_id q = Some f \<longrightarrow> pp_id p \<noteq> f \<and>
        (rr_trusted_profile_id q = Some (pp_id p) \<or> pp_id p \<in> set (rr_allowed_fallback_ids q))) \<and>
     (\<forall>ids. rr_restrict_to_profile_ids q = Some ids \<longrightarrow> pp_id p \<in> ids)"

lemma only_when_Nil [simp]: "only_when b r = [] \<longleftrightarrow> \<not> b"
  by (simp add: only_when_def)

lemma set_only_when [simp]: "set (only_when b r) = (if b then {r} else {})"
  by (simp add: only_when_def)

lemma within_limit_iff: "\<not> over_limit n limit \<longleftrightarrow> (\<forall>m. limit = Some m \<longrightarrow> n \<le> m)"
  by (cases limit) (auto simp: over_limit_def)

lemma over_by_iff: "\<not> still_after until now \<longleftrightarrow> (\<forall>t. until = Some t \<longrightarrow> t \<le> now)"
  by (cases until) (auto simp: still_after_def)

lemma case_option_allows: "\<not> (case x of None \<Rightarrow> False | Some y \<Rightarrow> \<not> P y) \<longleftrightarrow> (\<forall>y. x = Some y \<longrightarrow> P y)"
  by (cases x) auto

lemma healthy_again_iff:
  "\<not> (\<not> h \<and> (until = None \<or> still_after until now)) \<longleftrightarrow> h \<or> (\<exists>t. until = Some t \<and> t \<le> now)"
  by (cases until) (auto simp: still_after_def)

lemma failure_fence_iff:
  "\<not> (failed = Some i) \<and> \<not> (failed \<noteq> None \<and> Some i \<noteq> trusted \<and> i \<notin> A) \<longleftrightarrow>
     (\<forall>f. failed = Some f \<longrightarrow> i \<noteq> f \<and> (trusted = Some i \<or> i \<in> A))"
  by (cases failed) auto

lemma not_conj_iff:
  "\<not> (a \<and> \<not> b) \<longleftrightarrow> (a \<longrightarrow> b)" "\<not> (a \<and> x < (y :: 'a :: linorder)) \<longleftrightarrow> (a \<longrightarrow> y \<le> x)"
  by auto

lemma no_exclusions_iff_admissible: "exclusions q p st now = [] \<longleftrightarrow> admissible q p st now"
  unfolding exclusions_def admissible_def append_is_Nil_conv only_when_Nil within_limit_iff over_by_iff
    case_option_allows healthy_again_iff not_not failure_fence_iff [symmetric] not_le not_conj_iff
  by (simp only: conj_ac)

lemma eligible_iff_admissible: "profile_eligible q states now p \<longleftrightarrow> admissible q p (state_of states p) now"
  by (simp add: profile_eligible_def no_exclusions_iff_admissible)

text \<open>The order of two different profiles is decided at the latest by their identifiers.\<close>

lemma routing_order_inj: "routing_order q states p = routing_order q states p' \<Longrightarrow> pp_id p = pp_id p'"
  by (simp add: routing_order_def)

lemma sort_key_hd_least:
  assumes "sort_key f xs = y # ys" and "x \<in> set xs"
  shows "f y \<le> f x"
proof -
  have "sorted (map f (y # ys))" using sorted_sort_key [of f xs] assms(1) by simp
  moreover have "set (y # ys) = set xs" unfolding assms(1) [symmetric] by simp
  ultimately show ?thesis using assms(2) by auto
qed

lemma sort_key_mset_cong:
  assumes "mset xs = mset ys" and "distinct (map f xs)"
  shows "sort_key f xs = sort_key f ys"
proof (rule sort_key_inj_key_eq)
  show "mset xs = mset (sort_key f ys)" using assms(1) by simp
  show "inj_on f (set xs)" using assms(2) by (simp add: distinct_map)
  show "sorted (map f (sort_key f ys))" by (rule sorted_sort_key)
qed

lemma select_profile_reads_ids:
  "mset xs = mset ys \<Longrightarrow> distinct (map pp_id xs) \<Longrightarrow> select_profile q xs states now = select_profile q ys states now"
  using sort_key_mset_cong [of xs ys pp_id] by (simp add: select_profile_def)

text \<open>
  C15. The routing policy selects the best profile that may serve: no profile is selected only when
  none of the configured ones is admissible; otherwise the selected one is configured, satisfies
  every constraint of the admission rule (enabled, role, task type, capabilities of the profile and
  of the project, sandbox, launch mode, health, rate limit, quota, context, output, cost and
  concurrency limits, the fence after a failure and the project's pin), and no admissible profile
  precedes it in the order trusted choice, configured fallback, cost class, priority, load, name.
\<close>

theorem routing_selects_best_admissible:
  "case pd_selected_profile_id (select_profile q profiles states now) of
     None \<Rightarrow> \<forall>p\<in>set profiles. \<not> admissible q p (state_of states p) now
   | Some i \<Rightarrow> \<exists>p\<in>set profiles. pp_id p = i \<and> admissible q p (state_of states p) now \<and>
       (\<forall>p'\<in>set profiles. admissible q p' (state_of states p') now \<longrightarrow>
          routing_order q states p \<le> routing_order q states p')"
proof -
  let ?E = "filter (profile_eligible q states now) (sort_key pp_id profiles)"
  have members: "p \<in> set ?E \<longleftrightarrow> p \<in> set profiles \<and> admissible q p (state_of states p) now" for p
    by (simp add: eligible_iff_admissible)
  show ?thesis
  proof (cases "sort_key (routing_order q states) ?E")
    case Nil
    then have "set ?E = {}" by (metis set_sort list.set(1))
    then show ?thesis using Nil members by (auto simp: select_profile_def)
  next
    case (Cons p ps)
    then have "p \<in> set ?E" by (metis set_sort list.set_intros(1))
    moreover have "routing_order q states p \<le> routing_order q states p'" if "p' \<in> set ?E" for p'
      by (rule sort_key_hd_least [OF Cons that])
    ultimately show ?thesis using Cons members by (auto simp: select_profile_def)
  qed
qed

definition sample_profile :: "string \<Rightarrow> cost_class \<Rightarrow> routed_profile" where
  "sample_profile i c =
     \<lparr>pp_id = i, pp_provider = ''codex'', pp_model = ''m'', pp_launch_mode = LM_CLI,
      pp_input_cost_units_per_million = None, pp_output_cost_units_per_million = None,
      pp_quota_units_per_call = None, pp_minimum_unknown_usage_cost = 1 / 100, rp_reasoning_effort = None,
      rp_capabilities = {CAP_REPOSITORY_READ}, rp_concurrency_limit = 1, rp_context_limit = None,
      rp_output_limit = None, rp_cost_class = c, rp_roles = {ROLE_EXECUTOR}, rp_routing_priority = 100,
      rp_supported_task_types = {''feature''}, rp_fallback_profile_ids = [], rp_sandbox_required = True,
      rp_enabled = True\<rparr>"

definition sample_request :: routing_request where
  "sample_request =
     \<lparr>rr_role = ROLE_EXECUTOR, rr_task_type = ''feature'', rr_required_capabilities = {CAP_REPOSITORY_READ},
      rr_project_allowed_capabilities = None, rr_budget_mode = BM_CHEAP, rr_estimated_input_tokens = 10,
      rr_max_output_tokens = 10, rr_remaining_cost_units = 1, rr_estimated_cost_hard = True,
      rr_trusted_profile_id = None, rr_failed_profile_id = None, rr_allowed_fallback_ids = [],
      rr_restrict_to_profile_ids = None, rr_requires_sandbox = True, rr_required_launch_mode = Some LM_CLI\<rparr>"

theorem routing_selects_best_admissible_witness:
  "pd_selected_profile_id (select_profile sample_request
     [sample_profile ''a'' CC_STRONG, sample_profile ''b'' CC_CHEAP] Map.empty 0) = Some ''b'' \<and>
   (\<exists>p\<in>set [sample_profile ''a'' CC_STRONG, sample_profile ''b'' CC_CHEAP].
      pp_id p = ''b'' \<and> admissible sample_request p (state_of Map.empty p) 0 \<and>
      (\<forall>p'\<in>set [sample_profile ''a'' CC_STRONG, sample_profile ''b'' CC_CHEAP].
        admissible sample_request p' (state_of Map.empty p') 0 \<longrightarrow>
        routing_order sample_request Map.empty p \<le> routing_order sample_request Map.empty p'))"
proof -
  have run: "pd_selected_profile_id (select_profile sample_request
     [sample_profile ''a'' CC_STRONG, sample_profile ''b'' CC_CHEAP] Map.empty 0) = Some ''b''"
    by code_simp
  show ?thesis
    using routing_selects_best_admissible [where q = sample_request and states = Map.empty and now = 0
      and profiles = "[sample_profile ''a'' CC_STRONG, sample_profile ''b'' CC_CHEAP]"]
    unfolding run option.case by (intro conjI refl)
qed

end
