(* ===== verification/Provider_Health.thy ===== *)
theory Provider_Health
  imports Provider_Policy
begin

text \<open>
  \<^verbatim>\<open>providers/health.py\<close>: the snapshots of the configured profiles and the observations of their
  health. Only routing and the provider handlers use these two tables, so they are a state of their
  own. The moments of a call are arguments: \<open>sql_now\<close> is the transaction's \<open>now()\<close>, \<open>clock\<close> the
  application's clock; so are the random identifiers of new rows, because the newest observation is
  found by its time and then by its identifier. The JSON dump of a profile and its content revision
  are arguments too.
\<close>

section \<open>Failures\<close>

datatype provider_error_category =
    PE_AUTHENTICATION | PE_QUOTA_EXHAUSTED | PE_RATE_LIMITED | PE_TIMEOUT | PE_PROVIDER_UNAVAILABLE
  | PE_INVALID_STRUCTURED_OUTPUT | PE_CANCELLED | PE_CONTEXT_TOO_LARGE | PE_UNSUPPORTED_CAPABILITY
  | PE_PERMANENT_REQUEST | PE_UNKNOWN

fun provider_error_category_value :: "provider_error_category \<Rightarrow> string" where
  "provider_error_category_value PE_AUTHENTICATION = ''authentication''"
| "provider_error_category_value PE_QUOTA_EXHAUSTED = ''quota_exhausted''"
| "provider_error_category_value PE_RATE_LIMITED = ''rate_limited''"
| "provider_error_category_value PE_TIMEOUT = ''timeout''"
| "provider_error_category_value PE_PROVIDER_UNAVAILABLE = ''provider_unavailable''"
| "provider_error_category_value PE_INVALID_STRUCTURED_OUTPUT = ''invalid_structured_output''"
| "provider_error_category_value PE_CANCELLED = ''cancelled''"
| "provider_error_category_value PE_CONTEXT_TOO_LARGE = ''context_too_large''"
| "provider_error_category_value PE_UNSUPPORTED_CAPABILITY = ''unsupported_capability''"
| "provider_error_category_value PE_PERMANENT_REQUEST = ''permanent_request''"
| "provider_error_category_value PE_UNKNOWN = ''unknown''"

record provider_failure =
  pf_category :: provider_error_category
  pf_retryable :: bool
  pf_request_sent :: bool
  pf_retry_after_seconds :: "rat option"

section \<open>The two tables\<close>

record profile_snapshot =
  ps_id :: uuid
  ps_stable_id :: string
  ps_configuration_revision :: string
  ps_enabled :: bool
  ps_metadata :: json_obj
  ps_created_at :: time
  ps_updated_at :: time

record health_observation =
  ho_id :: uuid
  ho_profile_id :: uuid
  ho_configuration_revision :: string
  ho_healthy :: bool
  ho_category :: "string option"
  ho_detail :: json_obj
  ho_observed_at :: time
  ho_unhealthy_until :: "time option"
  ho_rate_limit_until :: "time option"
  ho_quota_state :: string
  ho_last_success_at :: "time option"
  ho_last_failure_at :: "time option"

record health_tables =
  ht_profiles :: "profile_snapshot list"
  ht_observations :: "health_observation list"

definition stored_profile :: "health_tables \<Rightarrow> string \<Rightarrow> profile_snapshot option" where
  "stored_profile h i = find (\<lambda>s. ps_stable_id s = i) (ht_profiles h)"

text \<open>One upsert; the identifier is used only when the profile has no row yet.\<close>

definition upsert_profile ::
  "(routed_profile \<Rightarrow> json_obj) \<Rightarrow> (routed_profile \<Rightarrow> string) \<Rightarrow> string \<Rightarrow> time \<Rightarrow> uuid \<times> routed_profile \<Rightarrow>
     profile_snapshot list \<Rightarrow> profile_snapshot list" where
  "upsert_profile dump revision_of revision sql_now = (\<lambda>(new_id, p) rows.
     let meta = jput (dump p) ''profile_revision'' (JStr (revision_of p))
     in if \<exists>s\<in>set rows. ps_stable_id s = pp_id p
        then map (\<lambda>s. if ps_stable_id s = pp_id p
               then s\<lparr>ps_configuration_revision := revision, ps_enabled := rp_enabled p, ps_metadata := meta,
                      ps_updated_at := sql_now\<rparr>
               else s) rows
        else rows @ [\<lparr>ps_id = new_id, ps_stable_id = pp_id p, ps_configuration_revision = revision,
               ps_enabled = rp_enabled p, ps_metadata = meta, ps_created_at = sql_now, ps_updated_at = sql_now\<rparr>])"

definition synchronize_profiles ::
  "(routed_profile \<Rightarrow> json_obj) \<Rightarrow> (routed_profile \<Rightarrow> string) \<Rightarrow> time \<Rightarrow> (uuid \<times> routed_profile) list \<Rightarrow> string \<Rightarrow>
     health_tables \<Rightarrow> health_tables" where
  "synchronize_profiles dump revision_of sql_now profiles revision h =
     h\<lparr>ht_profiles := fold (upsert_profile dump revision_of revision sql_now) profiles (ht_profiles h)\<rparr>"

definition newest_observation :: "health_tables \<Rightarrow> uuid \<Rightarrow> string \<Rightarrow> health_observation option" where
  "newest_observation h pid revision =
     (let found = sort_key (\<lambda>ob. (ho_observed_at ob, ho_id ob))
            (filter (\<lambda>ob. ho_profile_id ob = pid \<and> ho_configuration_revision ob = revision) (ht_observations h))
      in if found = [] then None else Some (last found))"

definition effective_health :: "health_tables \<Rightarrow> routed_profile \<Rightarrow> string \<Rightarrow> time \<Rightarrow> error + profile_state" where
  "effective_health h p revision current =
     (case stored_profile h (pp_id p) of
        None \<Rightarrow> Inr (default_state\<lparr>eps_healthy := False\<rparr>)
      | Some s \<Rightarrow>
          (case newest_observation h (ps_id s) revision of
             None \<Rightarrow> Inr default_state
           | Some ob \<Rightarrow>
               bindE (quota_state_of (ho_quota_state ob)) (\<lambda>quota.
               Inr (default_state\<lparr>eps_healthy := \<not> (\<not> ho_healthy ob \<and>
                      (ho_unhealthy_until ob = None \<or> still_after (ho_unhealthy_until ob) current)),
                    eps_quota_state := quota, eps_unhealthy_until := ho_unhealthy_until ob,
                    eps_rate_limit_until := ho_rate_limit_until ob\<rparr>))))"

section \<open>Recording\<close>

text \<open>Healthy, quota state and the two moments a failure leads to.\<close>

definition failure_effect ::
  "provider_failure \<Rightarrow> time \<Rightarrow> bool \<times> quota_state \<times> time option \<times> time option" where
  "failure_effect f clock =
     (case pf_category f of
        PE_AUTHENTICATION \<Rightarrow> (False, QS_UNKNOWN, None, None)
      | PE_QUOTA_EXHAUSTED \<Rightarrow> (False, QS_EXHAUSTED, None, None)
      | PE_RATE_LIMITED \<Rightarrow>
          (let delay = (case pf_retry_after_seconds f of Some s \<Rightarrow> s | None \<Rightarrow> 60)
           in (True, QS_UNKNOWN, None, Some (clock + microseconds (min delay 3600))))
      | PE_TIMEOUT \<Rightarrow> (False, QS_UNKNOWN, Some (clock + microseconds 30), None)
      | PE_PROVIDER_UNAVAILABLE \<Rightarrow> (False, QS_UNKNOWN, Some (clock + microseconds 30), None)
      | PE_UNKNOWN \<Rightarrow> (False, QS_UNKNOWN, Some (clock + microseconds 30), None)
      | _ \<Rightarrow> (True, QS_UNKNOWN, None, None))"

definition record_failure_observation ::
  "time \<Rightarrow> time \<Rightarrow> uuid \<Rightarrow> routed_profile \<Rightarrow> string \<Rightarrow> provider_failure \<Rightarrow> health_tables \<Rightarrow> error + health_tables" where
  "record_failure_observation sql_now clock new_id p revision f h =
     (case stored_profile h (pp_id p) of
        None \<Rightarrow> Inl (LookupError (''profile snapshot is missing: '' @ pp_id p))
      | Some s \<Rightarrow>
          (case failure_effect f clock of (healthy, quota, unhealthy_until, rate_limit_until) \<Rightarrow>
             Inr (h\<lparr>ht_observations := ht_observations h @
               [\<lparr>ho_id = new_id, ho_profile_id = ps_id s, ho_configuration_revision = revision,
                 ho_healthy = healthy, ho_category = Some (provider_error_category_value (pf_category f)),
                 ho_detail = [(''retryable'', JBool (pf_retryable f))], ho_observed_at = sql_now,
                 ho_unhealthy_until = unhealthy_until, ho_rate_limit_until = rate_limit_until,
                 ho_quota_state = quota_state_value quota, ho_last_success_at = None,
                 ho_last_failure_at = Some sql_now\<rparr>]\<rparr>)))"

definition record_success_observation ::
  "time \<Rightarrow> uuid \<Rightarrow> routed_profile \<Rightarrow> string \<Rightarrow> health_tables \<Rightarrow> error + health_tables" where
  "record_success_observation sql_now new_id p revision h =
     (case stored_profile h (pp_id p) of
        None \<Rightarrow> Inl (LookupError (''profile snapshot is missing: '' @ pp_id p))
      | Some s \<Rightarrow>
          Inr (h\<lparr>ht_observations := ht_observations h @
            [\<lparr>ho_id = new_id, ho_profile_id = ps_id s, ho_configuration_revision = revision, ho_healthy = True,
              ho_category = None, ho_detail = [], ho_observed_at = sql_now, ho_unhealthy_until = None,
              ho_rate_limit_until = None, ho_quota_state = quota_state_value QS_UNKNOWN,
              ho_last_success_at = Some sql_now, ho_last_failure_at = None\<rparr>]\<rparr>))"

section \<open>What an observation does to routing\<close>

lemma insort_key_snoc: "f a \<le> f x \<Longrightarrow> insort_key f a (ys @ [x]) = insort_key f a ys @ [x]"
  by (induction ys) auto

lemma sort_key_snoc_greatest: "\<forall>y\<in>set xs. f y \<le> f x \<Longrightarrow> sort_key f (xs @ [x]) = sort_key f xs @ [x]"
  by (induction xs) (auto simp: insort_key_snoc)

definition observed_before :: "health_tables \<Rightarrow> uuid \<Rightarrow> string \<Rightarrow> time \<Rightarrow> bool" where
  "observed_before h pid revision t \<longleftrightarrow>
     (\<forall>ob\<in>set (ht_observations h).
        ho_profile_id ob = pid \<and> ho_configuration_revision ob = revision \<longrightarrow> ho_observed_at ob < t)"

lemma observed_before_snoc:
  "observed_before (h\<lparr>ht_observations := ht_observations h @ [ob]\<rparr>) pid revision t \<longleftrightarrow>
     observed_before h pid revision t \<and>
     (ho_profile_id ob = pid \<and> ho_configuration_revision ob = revision \<longrightarrow> ho_observed_at ob < t)"
  by (auto simp: observed_before_def)

lemma observed_before_mono: "observed_before h pid revision t \<Longrightarrow> t \<le> t' \<Longrightarrow> observed_before h pid revision t'"
  by (force simp: observed_before_def)

lemma newest_is_appended:
  assumes "observed_before h (ho_profile_id ob) (ho_configuration_revision ob) (ho_observed_at ob)"
  shows "newest_observation (h\<lparr>ht_observations := ht_observations h @ [ob]\<rparr>) (ho_profile_id ob)
           (ho_configuration_revision ob) = Some ob"
proof -
  let ?xs = "filter (\<lambda>x. ho_profile_id x = ho_profile_id ob \<and>
      ho_configuration_revision x = ho_configuration_revision ob) (ht_observations h)"
  have "\<forall>y\<in>set ?xs. (ho_observed_at y, ho_id y) \<le> (ho_observed_at ob, ho_id ob)"
    using assms by (auto simp: observed_before_def)
  from sort_key_snoc_greatest [OF this] show ?thesis
    by (simp add: newest_observation_def Let_def)
qed

lemma stored_profile_keeps [simp]: "stored_profile (h\<lparr>ht_observations := obs\<rparr>) i = stored_profile h i"
  by (simp add: stored_profile_def)

lemma quota_state_roundtrip [simp]: "quota_state_of (quota_state_value s) = Inr s"
  by (cases s) (simp_all add: quota_state_of_def)

lemma health_exclusions:
  "X_UNHEALTHY \<in> set (exclusions q p st t) \<longleftrightarrow>
     \<not> eps_healthy st \<and> (eps_unhealthy_until st = None \<or> still_after (eps_unhealthy_until st) t)"
  "X_RATE_LIMITED \<in> set (exclusions q p st t) \<longleftrightarrow> still_after (eps_rate_limit_until st) t"
  "X_QUOTA \<in> set (exclusions q p st t) \<longleftrightarrow> eps_quota_state st = QS_EXHAUSTED"
  by (simp_all add: exclusions_def)

lemma failure_observed:
  assumes "stored_profile h (pp_id p) = Some s" and "observed_before h (ps_id s) revision sql_now"
    and "record_failure_observation sql_now clock new_id p revision f h = Inr h'"
    and "failure_effect f clock = (healthy, quota, unhealthy_until, rate_limit_until)"
  obtains st where "effective_health h' p revision t = Inr st"
    and "eps_healthy st \<longleftrightarrow> healthy \<or> (\<exists>u. unhealthy_until = Some u \<and> u \<le> t)"
    and "eps_unhealthy_until st = unhealthy_until" and "eps_rate_limit_until st = rate_limit_until"
    and "eps_quota_state st = quota"
proof -
  let ?ob = "\<lparr>ho_id = new_id, ho_profile_id = ps_id s, ho_configuration_revision = revision,
     ho_healthy = healthy, ho_category = Some (provider_error_category_value (pf_category f)),
     ho_detail = [(''retryable'', JBool (pf_retryable f))], ho_observed_at = sql_now,
     ho_unhealthy_until = unhealthy_until, ho_rate_limit_until = rate_limit_until,
     ho_quota_state = quota_state_value quota, ho_last_success_at = None, ho_last_failure_at = Some sql_now\<rparr>"
  have h': "h' = h\<lparr>ht_observations := ht_observations h @ [?ob]\<rparr>"
    using assms(1,3,4) by (simp add: record_failure_observation_def)
  have "newest_observation h' (ps_id s) revision = Some ?ob"
    using newest_is_appended [of h ?ob] assms(2) by (simp add: h')
  then have "effective_health h' p revision t = Inr (default_state\<lparr>eps_healthy :=
      \<not> (\<not> healthy \<and> (unhealthy_until = None \<or> still_after unhealthy_until t)), eps_quota_state := quota,
      eps_unhealthy_until := unhealthy_until, eps_rate_limit_until := rate_limit_until\<rparr>)"
    using assms(1) by (simp add: effective_health_def h')
  then show ?thesis
    by (rule that) (simp_all add: healthy_again_iff del: de_Morgan_conj)
qed

lemma success_observed:
  assumes "stored_profile h (pp_id p) = Some s" and "observed_before h (ps_id s) revision sql_now"
    and "record_success_observation sql_now new_id p revision h = Inr h'"
  shows "effective_health h' p revision t = Inr default_state"
proof -
  let ?ob = "\<lparr>ho_id = new_id, ho_profile_id = ps_id s, ho_configuration_revision = revision, ho_healthy = True,
     ho_category = None, ho_detail = [], ho_observed_at = sql_now, ho_unhealthy_until = None,
     ho_rate_limit_until = None, ho_quota_state = quota_state_value QS_UNKNOWN,
     ho_last_success_at = Some sql_now, ho_last_failure_at = None\<rparr>"
  have h': "h' = h\<lparr>ht_observations := ht_observations h @ [?ob]\<rparr>"
    using assms(1,3) by (simp add: record_success_observation_def)
  have "newest_observation h' (ps_id s) revision = Some ?ob"
    using newest_is_appended [of h ?ob] assms(2) by (simp add: h')
  then show ?thesis
    using assms(1) quota_state_roundtrip [of QS_UNKNOWN]
    by (simp add: effective_health_def h' default_state_def del: quota_state_value.simps)
qed

lemma microseconds_of_int: "microseconds (of_int n) = n * 1000000"
proof -
  have "of_int n * 1000000 = (of_int (n * 1000000) :: rat)" by simp
  then show ?thesis unfolding microseconds_def Let_def by (simp only: floor_of_int) simp
qed

text \<open>
  C38. What a failed call does to routing, and for how long. After the failure is recorded the
  profile is excluded as unhealthy for ever when its credentials were refused or its quota was
  exhausted, and for thirty seconds after a timeout, an unavailable provider or an unknown failure;
  it is excluded as rate limited until the delay the provider asked for (a minute when it asked for
  none, an hour at most) is over; no other failure excludes it. A later success lifts all three.
\<close>

theorem failure_bars_profile_for_its_cooldown:
  assumes "stored_profile h (pp_id p) = Some s" and "observed_before h (ps_id s) revision sql_now"
    and "record_failure_observation sql_now clock new_id p revision f h = Inr h'"
    and "record_success_observation sql_later later_id p revision h' = Inr h''" and "sql_now < sql_later"
  shows "\<exists>st st'. effective_health h' p revision t = Inr st \<and> effective_health h'' p revision t = Inr st' \<and>
    (X_UNHEALTHY \<in> set (exclusions q p st t) \<longleftrightarrow>
       pf_category f \<in> {PE_AUTHENTICATION, PE_QUOTA_EXHAUSTED} \<or>
       pf_category f \<in> {PE_TIMEOUT, PE_PROVIDER_UNAVAILABLE, PE_UNKNOWN} \<and> t < clock + 30000000) \<and>
    (X_RATE_LIMITED \<in> set (exclusions q p st t) \<longleftrightarrow>
       pf_category f = PE_RATE_LIMITED \<and>
       t < clock + microseconds (min (case pf_retry_after_seconds f of Some d \<Rightarrow> d | None \<Rightarrow> 60) 3600)) \<and>
    (X_QUOTA \<in> set (exclusions q p st t) \<longleftrightarrow> pf_category f = PE_QUOTA_EXHAUSTED) \<and>
    {X_UNHEALTHY, X_RATE_LIMITED, X_QUOTA} \<inter> set (exclusions q p st' t) = {}"
proof -
  obtain healthy quota unhealthy rated where eff: "failure_effect f clock = (healthy, quota, unhealthy, rated)"
    by (cases "failure_effect f clock") auto
  obtain st where st: "effective_health h' p revision t = Inr st"
      "eps_healthy st \<longleftrightarrow> healthy \<or> (\<exists>u. unhealthy = Some u \<and> u \<le> t)"
      "eps_unhealthy_until st = unhealthy" "eps_rate_limit_until st = rated" "eps_quota_state st = quota"
    by (rule failure_observed [OF assms(1-3) eff])
  have later: "stored_profile h' (pp_id p) = Some s" "observed_before h' (ps_id s) revision sql_later"
    using assms(1,3,5) eff observed_before_mono [OF assms(2), of sql_later]
    by (auto simp: record_failure_observation_def observed_before_snoc)
  have "effective_health h'' p revision t = Inr default_state"
    by (rule success_observed [OF later assms(4)])
  moreover have "{X_UNHEALTHY, X_RATE_LIMITED, X_QUOTA} \<inter> set (exclusions q p default_state t) = {}"
    by (simp add: health_exclusions default_state_def still_after_def)
  moreover have "(X_UNHEALTHY \<in> set (exclusions q p st t) \<longleftrightarrow>
       pf_category f \<in> {PE_AUTHENTICATION, PE_QUOTA_EXHAUSTED} \<or>
       pf_category f \<in> {PE_TIMEOUT, PE_PROVIDER_UNAVAILABLE, PE_UNKNOWN} \<and> t < clock + 30000000)"
    using eff microseconds_of_int [of 30] unfolding health_exclusions st
    by (cases "pf_category f") (auto simp: failure_effect_def still_after_def Let_def)
  moreover have "X_RATE_LIMITED \<in> set (exclusions q p st t) \<longleftrightarrow> pf_category f = PE_RATE_LIMITED \<and>
       t < clock + microseconds (min (case pf_retry_after_seconds f of Some d \<Rightarrow> d | None \<Rightarrow> 60) 3600)"
    using eff unfolding health_exclusions st
    by (cases "pf_category f") (auto simp: failure_effect_def still_after_def Let_def)
  moreover have "X_QUOTA \<in> set (exclusions q p st t) \<longleftrightarrow> pf_category f = PE_QUOTA_EXHAUSTED"
    using eff unfolding health_exclusions st by (cases "pf_category f") (auto simp: failure_effect_def Let_def)
  ultimately show ?thesis using st(1) by blast
qed

text \<open>
  Nothing but a call of the profile records an observation, and an exhausted quota keeps it from
  being called: within one configuration revision it is never admitted again.
\<close>

lemma exhausted_quota_is_never_renewed:
  assumes "stored_profile h (pp_id p) = Some s" and "observed_before h (ps_id s) revision sql_now"
    and "record_failure_observation sql_now clock new_id p revision f h = Inr h'"
    and "pf_category f = PE_QUOTA_EXHAUSTED" and "effective_health h' p revision t = Inr st"
  shows "\<not> admissible q p st t"
proof -
  have "failure_effect f clock = (False, QS_EXHAUSTED, None, None)"
    using assms(4) by (simp add: failure_effect_def)
  from failure_observed [OF assms(1-3) this, of t] assms(5) have "eps_quota_state st = QS_EXHAUSTED" by auto
  then show ?thesis by (simp add: admissible_def)
qed

text \<open>After the start of a worker every configured profile has one snapshot.\<close>

lemma upsert_profile_ids:
  "map ps_stable_id (upsert_profile dump revision_of revision t (i, p) rows) =
     (if pp_id p \<in> ps_stable_id ` set rows then map ps_stable_id rows else map ps_stable_id rows @ [pp_id p])"
  by (force simp: upsert_profile_def Let_def image_iff)

lemma upsert_profile_stored:
  "ps_stable_id ` set (upsert_profile dump revision_of revision t (i, p) rows) = insert (pp_id p) (ps_stable_id ` set rows)"
proof -
  have "set (map ps_stable_id (upsert_profile dump revision_of revision t (i, p) rows)) =
      insert (pp_id p) (ps_stable_id ` set rows)"
    unfolding upsert_profile_ids by auto
  then show ?thesis by simp
qed

lemma synchronized_snapshots:
  "distinct (map ps_stable_id rows) \<Longrightarrow>
     distinct (map ps_stable_id (fold (upsert_profile dump revision_of revision t) ps rows)) \<and>
     ps_stable_id ` set (fold (upsert_profile dump revision_of revision t) ps rows) =
       ps_stable_id ` set rows \<union> (pp_id \<circ> snd) ` set ps"
proof (induction ps arbitrary: rows)
  case Nil
  then show ?case by simp
next
  case (Cons x ps)
  obtain i p where x: "x = (i, p)" by (cases x)
  have "distinct (map ps_stable_id (upsert_profile dump revision_of revision t (i, p) rows))"
    unfolding upsert_profile_ids using Cons.prems by auto
  from Cons.IH [OF this] show ?case by (auto simp: x upsert_profile_stored)
qed

definition sample_health :: health_tables where
  "sample_health = synchronize_profiles (\<lambda>p. []) pp_model 5 [(40, sample_profile ''b'' CC_CHEAP)] ''c1''
     \<lparr>ht_profiles = [], ht_observations = []\<rparr>"

definition sample_failure :: provider_failure where
  "sample_failure = \<lparr>pf_category = PE_RATE_LIMITED, pf_retryable = True, pf_request_sent = True,
     pf_retry_after_seconds = Some 90\<rparr>"

theorem failure_bars_profile_for_its_cooldown_witness:
  "\<exists>h' h'' st st'. record_failure_observation 10 12 41 (sample_profile ''b'' CC_CHEAP) ''c1'' sample_failure sample_health = Inr h' \<and>
     record_success_observation 20 42 (sample_profile ''b'' CC_CHEAP) ''c1'' h' = Inr h'' \<and>
     effective_health h' (sample_profile ''b'' CC_CHEAP) ''c1'' 15 = Inr st \<and>
     effective_health h'' (sample_profile ''b'' CC_CHEAP) ''c1'' 15 = Inr st' \<and>
     X_RATE_LIMITED \<in> set (exclusions sample_request (sample_profile ''b'' CC_CHEAP) st 15) \<and>
     X_RATE_LIMITED \<notin> set (exclusions sample_request (sample_profile ''b'' CC_CHEAP) st' 15)"
proof -
  let ?p = "sample_profile ''b'' CC_CHEAP"
  have stored: "map_option ps_id (stored_profile sample_health (pp_id ?p)) = Some 40" by code_simp
  have fresh: "observed_before sample_health pid ''c1'' 10" for pid
    by (simp add: observed_before_def sample_health_def synchronize_profiles_def)
  obtain s where s: "stored_profile sample_health (pp_id ?p) = Some s" using stored by blast
  obtain h' where h': "record_failure_observation 10 12 41 ?p ''c1'' sample_failure sample_health = Inr h'"
      and same: "stored_profile h' (pp_id ?p) = Some s"
    using s by (simp add: record_failure_observation_def sample_failure_def failure_effect_def Let_def)
  obtain h'' where h'': "record_success_observation 20 42 ?p ''c1'' h' = Inr h''"
    using same by (simp add: record_success_observation_def)
  have "(15 :: time) < 12 + microseconds (min (case Some 90 of Some d \<Rightarrow> d | None \<Rightarrow> 60) 3600)"
    using microseconds_of_int [of 90] by simp
  then show ?thesis
    using failure_bars_profile_for_its_cooldown [OF s fresh h' h'', of 15 sample_request] h' h''
    by (auto simp: sample_failure_def)
qed

end
