(* ===== verification/Registries.thy ===== *)
theory Registries
  imports Provider_Policy "HOL-Library.Sublist" "HOL-Library.AList"
begin

text \<open>
  \<^verbatim>\<open>config/registries.py\<close>: the validated registries of projects, provider profiles, sandboxes and
  topics, and the check of a run's configuration snapshot against the current bundle. A dictionary
  keyed by the entries' own identifiers is the list of its entries. What the file system says of a
  path is an argument. Nested configuration that is only compared is kept as its JSON value.
\<close>

section \<open>Paths\<close>

record path =
  path_absolute :: bool
  path_parts :: "string list"

record file_system =
  fs_resolve :: "path \<Rightarrow> path"
  fs_is_dir :: "path \<Rightarrow> bool"

definition path_str :: "path \<Rightarrow> string" where
  "path_str p =
     (if path_absolute p then ''/'' @ py_join ''/'' (path_parts p)
      else if path_parts p = [] then ''.'' else py_join ''/'' (path_parts p))"

definition path_join :: "path \<Rightarrow> path \<Rightarrow> path" where
  "path_join base p = (if path_absolute p then p else base\<lparr>path_parts := path_parts base @ path_parts p\<rparr>)"

definition path_within :: "path \<Rightarrow> path \<Rightarrow> bool" where
  "path_within p base \<longleftrightarrow> path_absolute p = path_absolute base \<and> prefix (path_parts base) (path_parts p)"

text \<open>\<open>directory in path.parents\<close>\<close>

definition path_below :: "path \<Rightarrow> path \<Rightarrow> bool" where
  "path_below p base \<longleftrightarrow> path_absolute p = path_absolute base \<and> strict_prefix (path_parts base) (path_parts p)"

section \<open>Configured entries\<close>

record registered_project =
  rj_id :: string
  rj_repository_path :: path
  rj_allowed_capabilities :: "capability set"
  rj_sandbox_profile :: string
  rj_validation_sandbox_profile :: "string option"
  rj_summary_path :: "path option"
  rj_enabled :: bool
  rj_git_delivery :: json
  rj_network :: json
  rj_static_deployment :: json

record account_config =
  acct_id :: string
  acct_service :: string
  acct_provider :: string
  acct_launch_mode :: launch_mode
  acct_auth_method :: string
  acct_auth_owner :: string
  acct_state_directory :: "path option"
  acct_runtime_identity :: "string option"
  acct_credential_reference :: "string option"
  acct_credential_required :: bool
  acct_api_base_url :: "string option"
  acct_runtime_network :: json
  acct_concurrency_limit :: int
  acct_control_reserved_slots :: int
  acct_lifecycle :: string
  acct_quota_collector :: string
  acct_quota_scope_id :: "string option"
  acct_quota_oauth :: json
  acct_subscription_limits_visible :: bool

record profile_config = routed_profile +
  pg_account_id :: "string option"
  pg_account :: "account_config option"
  pg_api_base_url :: "string option"
  pg_credential_reference :: "string option"
  pg_credential_required :: bool
  pg_control_reserved_slots :: int
  pg_runtime_identity :: "string option"
  pg_state_directory :: "path option"
  pg_runtime_network :: json

record sandbox_config =
  sc_id :: string
  sc_enabled :: bool
  sc_policy :: json

datatype topic_kind =
    TK_INBOX | TK_TASK_DASHBOARD | TK_APPROVALS | TK_CHANGELOG | TK_SYSTEM | TK_PROJECT | TK_PERSONAL
  | TK_RESEARCH

fun topic_kind_value :: "topic_kind \<Rightarrow> string" where
  "topic_kind_value TK_INBOX = ''inbox''"
| "topic_kind_value TK_TASK_DASHBOARD = ''task_dashboard''"
| "topic_kind_value TK_APPROVALS = ''approvals''"
| "topic_kind_value TK_CHANGELOG = ''changelog''"
| "topic_kind_value TK_SYSTEM = ''system''"
| "topic_kind_value TK_PROJECT = ''project''"
| "topic_kind_value TK_PERSONAL = ''personal''"
| "topic_kind_value TK_RESEARCH = ''research''"

record topic_config =
  tc_chat_id :: int
  tc_message_thread_id :: int
  tc_kind :: topic_kind
  tc_project_id :: "string option"

section \<open>Lookup by identifier\<close>

definition unique_by_id :: "('a \<Rightarrow> string) \<Rightarrow> string \<Rightarrow> 'a list \<Rightarrow> error + 'a list" where
  "unique_by_id ident kind entries = foldE (\<lambda>result entry.
     if ident entry \<in> ident ` set result then Inl (RegistryError (''duplicate '' @ kind @ '' ID: '' @ ident entry))
     else Inr (result @ [entry])) [] entries"

definition registry_get :: "('a \<Rightarrow> string) \<Rightarrow> string \<Rightarrow> 'a list \<Rightarrow> string \<Rightarrow> error + 'a" where
  "registry_get ident kind entries i =
     (case find (\<lambda>e. ident e = i) entries of
        Some e \<Rightarrow> Inr e
      | None \<Rightarrow> Inl (RegistryError (''unknown '' @ kind @ '' ID: '' @ i)))"

section \<open>Projects\<close>

definition normalize_project :: "file_system \<Rightarrow> path \<Rightarrow> registered_project \<Rightarrow> error + registered_project" where
  "normalize_project fs base project =
     (let given = rj_repository_path project;
          normalized = fs_resolve fs (if path_absolute given then given else path_join base given)
      in if \<not> path_within normalized base
         then Inl (RegistryError (''project '' @ rj_id project @ '' path escapes repository root: '' @ path_str given))
         else if rj_enabled project \<and> \<not> fs_is_dir fs normalized
         then Inl (RegistryError (''enabled project '' @ rj_id project @ '' path does not exist: '' @ path_str normalized))
         else (case rj_summary_path project of
             None \<Rightarrow> Inr (project\<lparr>rj_repository_path := normalized\<rparr>)
           | Some summary \<Rightarrow>
               (let resolved = fs_resolve fs (if path_absolute summary then summary else path_join normalized summary)
                in if \<not> path_within resolved normalized
                   then Inl (RegistryError (''project '' @ rj_id project @ '' summary path escapes repository''))
                   else Inr (project\<lparr>rj_repository_path := normalized, rj_summary_path := Some resolved\<rparr>))))"

definition project_registry :: "file_system \<Rightarrow> path \<Rightarrow> registered_project list \<Rightarrow> error + registered_project list" where
  "project_registry fs repository_root projects =
     bindE (unique_by_id rj_id ''project'' projects) (\<lambda>configured.
     mapE (normalize_project fs (fs_resolve fs repository_root)) configured)"

section \<open>Profiles\<close>

definition account_binding ::
  "file_system \<Rightarrow> profile_config \<Rightarrow>
     string option \<times> string \<times> launch_mode \<times> string option \<times> bool \<times> string option \<times> json \<times> path option \<times>
     string option \<times> int \<times> int \<times> account_config option" where
  "account_binding fs p =
     (pg_account_id p, pp_provider p, pp_launch_mode p, pg_credential_reference p, pg_credential_required p,
      pg_api_base_url p, pg_runtime_network p, map_option (fs_resolve fs) (pg_state_directory p),
      pg_runtime_identity p, rp_concurrency_limit p, pg_control_reserved_slots p,
      map_option (\<lambda>a. a\<lparr>acct_quota_oauth := JNull, acct_quota_scope_id := None, acct_quota_collector := ''none'',
        acct_subscription_limits_visible := True\<rparr>) (pg_account p))"

definition validate_accounts :: "file_system \<Rightarrow> profile_config list \<Rightarrow> error + (string \<rightharpoonup> profile_config)" where
  "validate_accounts fs profiles = foldE (\<lambda>accounts p.
     case pg_account_id p of
       None \<Rightarrow> Inr accounts
     | Some i \<Rightarrow>
         (let owner = (case accounts i of None \<Rightarrow> p | Some o' \<Rightarrow> o')
          in if account_binding fs owner \<noteq> account_binding fs p
             then Inl (RegistryError (''profiles '' @ pp_id owner @ '' and '' @ pp_id p @
               '' have incompatible account bindings''))
             else Inr (accounts(i \<mapsto> owner)))) Map.empty profiles"

text \<open>The first pass over the fallbacks: they exist and overlap in role and task type.\<close>

definition check_fallback :: "profile_config list \<Rightarrow> profile_config \<Rightarrow> string \<Rightarrow> error + unit" where
  "check_fallback profiles p i =
     (case find (\<lambda>f. pp_id f = i) profiles of
        None \<Rightarrow> Inl (RegistryError (''profile '' @ pp_id p @ '' has unknown fallback: '' @ i))
      | Some f \<Rightarrow>
          if rp_roles p \<inter> rp_roles f = {}
          then Inl (RegistryError (''profile '' @ pp_id p @ '' fallback '' @ i @ '' has no overlapping role''))
          else if rp_supported_task_types p \<inter> rp_supported_task_types f = {}
          then Inl (RegistryError (''profile '' @ pp_id p @ '' fallback '' @ i @ '' has no overlapping task type''))
          else Inr ())"

definition check_fallbacks :: "profile_config list \<Rightarrow> error + unit" where
  "check_fallbacks profiles =
     foldE (\<lambda>_ p. foldE (\<lambda>_ i. check_fallback profiles p i) () (rp_fallback_profile_ids p)) () profiles"

definition profile_ids :: "profile_config list \<Rightarrow> string set" where
  "profile_ids profiles = pp_id ` set profiles"

text \<open>
  The depth-first search for a cycle. The set \<open>visiting\<close> is the path from the root of the search, so
  it is passed down and not returned; \<open>visited\<close> grows through the calls.
\<close>

function visit :: "profile_config list \<Rightarrow> string set \<Rightarrow> string set \<Rightarrow> string \<Rightarrow> error + string set"
  and visit_all :: "profile_config list \<Rightarrow> string set \<Rightarrow> string set \<Rightarrow> string list \<Rightarrow> error + string set" where
  "visit profiles visiting visited i =
     (if i \<in> visiting then Inl (RegistryError (''fallback cycle includes profile: '' @ i))
      else if i \<in> visited then Inr visited
      else (case find (\<lambda>p. pp_id p = i) profiles of
          None \<Rightarrow> Inl (KeyError i)
        | Some p \<Rightarrow>
            bindE (visit_all profiles (insert i visiting) visited (rp_fallback_profile_ids p)) (\<lambda>visited'.
            Inr (insert i visited'))))"
| "visit_all profiles visiting visited [] = Inr visited"
| "visit_all profiles visiting visited (i # rest) =
     bindE (visit profiles visiting visited i) (\<lambda>visited'. visit_all profiles visiting visited' rest)"
  by pat_completeness auto
termination
proof (relation "measures
    [\<lambda>x. case x of Inl (ps, visiting, _, _) \<Rightarrow> card (profile_ids ps - visiting)
        | Inr (ps, visiting, _, _) \<Rightarrow> card (profile_ids ps - visiting),
     \<lambda>x. case x of Inl _ \<Rightarrow> 0 | Inr (_, _, _, is) \<Rightarrow> Suc (length is)]", goal_cases)
  case 1
  show ?case by simp
next
  case (2 profiles visiting visited i p)
  then have "i \<in> profile_ids profiles - visiting"
    by (auto simp: profile_ids_def find_Some_iff)
  then have "card (profile_ids profiles - insert i visiting) < card (profile_ids profiles - visiting)"
    by (intro psubset_card_mono) (auto simp: profile_ids_def)
  then show ?case by simp
qed simp_all

definition validate_fallbacks :: "profile_config list \<Rightarrow> error + string set" where
  "validate_fallbacks profiles =
     bindE (check_fallbacks profiles) (\<lambda>_. visit_all profiles {} {} (map pp_id profiles))"

text \<open>Runtime identities and state directories of the enabled command-line profiles.\<close>

record cli_owners =
  co_identities :: "string \<rightharpoonup> profile_config"
  co_directories :: "(path \<times> profile_config) list"

definition same_account :: "profile_config \<Rightarrow> profile_config \<Rightarrow> bool" where
  "same_account p q = (pg_account_id p \<noteq> None \<and> pg_account_id p = pg_account_id q)"

definition paths_overlap :: "path \<Rightarrow> path \<Rightarrow> bool" where
  "paths_overlap a b = (a = b \<or> path_below b a \<or> path_below a b)"

definition claim_directory ::
  "profile_config \<Rightarrow> path \<Rightarrow> (path \<times> profile_config) list \<Rightarrow> error + (path \<times> profile_config) list" where
  "claim_directory p normalized directories =
     bindE (foldE (\<lambda>_ (directory, owner).
       if normalized = directory \<and> same_account p owner then Inr ()
       else if paths_overlap normalized directory
       then Inl (RegistryError (''CLI profiles '' @ pp_id owner @ '' and '' @ pp_id p @
         '' have overlapping state directories''))
       else Inr ()) () directories) (\<lambda>_.
     Inr (AList.update normalized p directories))"

definition cli_profile_step :: "file_system \<Rightarrow> cli_owners \<Rightarrow> profile_config \<Rightarrow> error + cli_owners" where
  "cli_profile_step fs st p =
     (case (pg_runtime_identity p, pg_state_directory p) of
        (Some identity, Some directory) \<Rightarrow>
          bindE (case co_identities st identity of
             Some owner \<Rightarrow>
               if \<not> same_account p owner
               then Inl (RegistryError (''CLI profiles '' @ pp_id owner @ '' and '' @ pp_id p @ '' share runtime identity''))
               else Inr ()
           | None \<Rightarrow> Inr ()) (\<lambda>_.
          bindE (claim_directory p (fs_resolve fs directory) (co_directories st)) (\<lambda>directories.
          Inr \<lparr>co_identities = (co_identities st)(identity \<mapsto> p), co_directories = directories\<rparr>))
      | _ \<Rightarrow> Inl AssertionError)"

definition enabled_cli :: "profile_config \<Rightarrow> bool" where
  "enabled_cli p = (rp_enabled p \<and> pp_launch_mode p = LM_CLI)"

definition validate_cli_isolation :: "file_system \<Rightarrow> profile_config list \<Rightarrow> error + cli_owners" where
  "validate_cli_isolation fs profiles =
     foldE (cli_profile_step fs) \<lparr>co_identities = Map.empty, co_directories = []\<rparr> (filter enabled_cli profiles)"

definition profile_registry :: "file_system \<Rightarrow> profile_config list \<Rightarrow> error + profile_config list" where
  "profile_registry fs entries =
     bindE (unique_by_id pp_id ''profile'' entries) (\<lambda>profiles.
     bindE (validate_fallbacks profiles) (\<lambda>_.
     bindE (validate_accounts fs profiles) (\<lambda>_.
     bindE (validate_cli_isolation fs profiles) (\<lambda>_.
     Inr profiles))))"

definition find_candidates :: "profile_config list \<Rightarrow> capability set \<Rightarrow> profile_config list" where
  "find_candidates profiles required = filter (\<lambda>p. rp_enabled p \<and> required \<subseteq> rp_capabilities p) profiles"

section \<open>Sandboxes and topics\<close>

definition sandbox_registry :: "sandbox_config list \<Rightarrow> error + sandbox_config list" where
  "sandbox_registry = unique_by_id sc_id ''sandbox''"

record topic_registry =
  tr_topics :: "((int \<times> int) \<times> topic_config) list"
  tr_system_topics :: "((int \<times> topic_kind) \<times> topic_config) list"

definition add_topic :: "registered_project list \<Rightarrow> topic_registry \<Rightarrow> topic_config \<Rightarrow> error + topic_registry" where
  "add_topic projects reg topic =
     (let key = (tc_chat_id topic, tc_message_thread_id topic); system_key = (tc_chat_id topic, tc_kind topic)
      in if map_of (tr_topics reg) key \<noteq> None
         then Inl (RegistryError (''duplicate topic mapping: '' @ int_dec (fst key) @ ''/'' @ int_dec (snd key)))
         else bindE (case tc_project_id topic of
             None \<Rightarrow> Inr () | Some i \<Rightarrow> bindE (registry_get rj_id ''project'' projects i) (\<lambda>_. Inr ())) (\<lambda>_.
           let reg' = reg\<lparr>tr_topics := tr_topics reg @ [(key, topic)]\<rparr>
           in if tc_kind topic = TK_PROJECT then Inr reg'
              else if map_of (tr_system_topics reg) system_key \<noteq> None
              then Inl (RegistryError (''duplicate '' @ topic_kind_value (tc_kind topic) @ '' topic for chat: '' @
                int_dec (tc_chat_id topic)))
              else Inr (reg'\<lparr>tr_system_topics := tr_system_topics reg @ [(system_key, topic)]\<rparr>)))"

definition topic_registry_of :: "registered_project list \<Rightarrow> topic_config list \<Rightarrow> error + topic_registry" where
  "topic_registry_of projects topics = foldE (add_topic projects) \<lparr>tr_topics = [], tr_system_topics = []\<rparr> topics"

definition resolve_topic :: "topic_registry \<Rightarrow> int \<Rightarrow> int \<Rightarrow> error + topic_config" where
  "resolve_topic reg chat thread =
     (case map_of (tr_topics reg) (chat, thread) of
        Some topic \<Rightarrow> Inr topic
      | None \<Rightarrow> Inl (RegistryError (''unknown topic mapping: '' @ int_dec chat @ ''/'' @ int_dec thread)))"

definition system_topic :: "topic_registry \<Rightarrow> int \<Rightarrow> topic_kind \<Rightarrow> error + topic_config option" where
  "system_topic reg chat kind =
     (if kind = TK_PROJECT then Inl (RegistryError ''project topics must be resolved by stable thread ID'')
      else Inr (map_of (tr_system_topics reg) (chat, kind)))"

section \<open>The bundle and its snapshots\<close>

record config_bundle =
  bd_projects :: "registered_project list"
  bd_profiles :: "profile_config list"
  bd_topics :: topic_registry
  bd_sandboxes :: "sandbox_config list"
  bd_revision :: string

text \<open>The content revisions that a snapshot also carries are compared nowhere here.\<close>

record run_snapshot =
  rn_bundle_revision :: string
  rn_project :: "registered_project option"
  rn_profile :: "profile_config option"
  rn_sandbox :: "sandbox_config option"

definition bundle_snapshot :: "config_bundle \<Rightarrow> string option \<Rightarrow> string option \<Rightarrow> error + run_snapshot" where
  "bundle_snapshot b project_id profile_id =
     bindE (case project_id of None \<Rightarrow> Inr None
       | Some i \<Rightarrow> bindE (registry_get rj_id ''project'' (bd_projects b) i) (\<lambda>x. Inr (Some x))) (\<lambda>project.
     bindE (case profile_id of None \<Rightarrow> Inr None
       | Some i \<Rightarrow> bindE (registry_get pp_id ''profile'' (bd_profiles b) i) (\<lambda>x. Inr (Some x))) (\<lambda>profile.
     bindE (case project of None \<Rightarrow> Inr None
       | Some x \<Rightarrow> bindE (registry_get sc_id ''sandbox'' (bd_sandboxes b) (rj_sandbox_profile x)) (\<lambda>y. Inr (Some y))) (\<lambda>sandbox.
     Inr \<lparr>rn_bundle_revision = bd_revision b, rn_project = project, rn_profile = profile, rn_sandbox = sandbox\<rparr>)))"

definition ALL_CAPABILITIES :: "capability list" where
  "ALL_CAPABILITIES = [CAP_REPOSITORY_READ, CAP_FILESYSTEM_WRITE, CAP_CODE_EDIT, CAP_GIT, CAP_PROJECT_SHELL, CAP_NETWORK,
     CAP_WEB_RESEARCH, CAP_TRANSCRIPTION, CAP_SECRETS, CAP_HOST_ADMIN, CAP_TELEGRAM_SEND]"

definition ALL_ROLES :: "provider_role list" where
  "ALL_ROLES = [ROLE_INTERPRETER, ROLE_PLANNER, ROLE_EXECUTOR, ROLE_REVIEWER, ROLE_SUMMARIZER, ROLE_TRANSCRIBER, ROLE_LEAD]"

text \<open>How a list of string enumeration members prints; a member's name is its value in capitals.\<close>

definition ascii_upper :: "string \<Rightarrow> string" where
  "ascii_upper s = map (\<lambda>c. let n = of_char c :: nat in if 97 \<le> n \<and> n \<le> 122 then char_of (n - 32) else c) s"

definition enum_list_str :: "string \<Rightarrow> string list \<Rightarrow> string" where
  "enum_list_str cls values =
     ''['' @ py_join '', '' (map (\<lambda>v. ''<'' @ cls @ ''.'' @ ascii_upper v @ '': '' @ py_repr_string v @ ''>'') (sort values)) @ '']''"

definition reason_when :: "bool \<Rightarrow> string \<Rightarrow> string list" where
  "reason_when b reason = (if b then [reason] else [])"

definition project_reasons :: "config_bundle \<Rightarrow> registered_project \<Rightarrow> string list" where
  "project_reasons b old =
     (case find (\<lambda>x. rj_id x = rj_id old) (bd_projects b) of
        None \<Rightarrow> [''project removed: '' @ rj_id old]
      | Some cur \<Rightarrow>
          reason_when (\<not> rj_enabled cur) (''project disabled: '' @ rj_id cur) @
          reason_when (rj_repository_path cur \<noteq> rj_repository_path old) (''project repository changed: '' @ rj_id cur) @
          reason_when (rj_sandbox_profile cur \<noteq> rj_sandbox_profile old) (''project sandbox policy changed: '' @ rj_id cur) @
          reason_when (rj_validation_sandbox_profile cur \<noteq> rj_validation_sandbox_profile old)
            (''project validation sandbox changed: '' @ rj_id cur) @
          reason_when (rj_network cur \<noteq> rj_network old) (''project network policy changed: '' @ rj_id cur) @
          reason_when (rj_git_delivery cur \<noteq> rj_git_delivery old) (''project delivery policy changed: '' @ rj_id cur) @
          reason_when (rj_static_deployment cur \<noteq> rj_static_deployment old) (''project static deployment changed: '' @ rj_id cur) @
          reason_when (\<not> rj_allowed_capabilities old \<subseteq> rj_allowed_capabilities cur)
            (''project capabilities revoked: '' @ enum_list_str ''Capability''
              (map capability_value (filter (\<lambda>c. c \<in> rj_allowed_capabilities old - rj_allowed_capabilities cur) ALL_CAPABILITIES))))"

definition profile_reasons :: "config_bundle \<Rightarrow> (profile_config \<Rightarrow> profile_config \<Rightarrow> bool) \<Rightarrow> profile_config \<Rightarrow> string list" where
  "profile_reasons b same_binding old =
     (case find (\<lambda>x. pp_id x = pp_id old) (bd_profiles b) of
        None \<Rightarrow> [''profile removed: '' @ pp_id old]
      | Some cur \<Rightarrow>
          reason_when (\<not> rp_enabled cur) (''profile disabled: '' @ pp_id cur) @
          reason_when (\<not> rp_capabilities old \<subseteq> rp_capabilities cur)
            (''profile capabilities revoked: '' @ enum_list_str ''Capability''
              (map capability_value (filter (\<lambda>c. c \<in> rp_capabilities old - rp_capabilities cur) ALL_CAPABILITIES))) @
          reason_when (\<not> rp_roles old \<subseteq> rp_roles cur)
            (''profile roles revoked: '' @ enum_list_str ''ProviderRole''
              (map provider_role_value (filter (\<lambda>r. r \<in> rp_roles old - rp_roles cur) ALL_ROLES))) @
          reason_when (pg_credential_reference cur \<noteq> pg_credential_reference old)
            (''profile credential reference changed: '' @ pp_id cur) @
          reason_when (rp_sandbox_required cur \<noteq> rp_sandbox_required old) (''profile sandbox policy changed: '' @ pp_id cur) @
          reason_when (pg_runtime_identity cur \<noteq> pg_runtime_identity old) (''profile runtime identity changed: '' @ pp_id cur) @
          reason_when (pg_state_directory cur \<noteq> pg_state_directory old) (''profile state directory changed: '' @ pp_id cur) @
          reason_when (\<not> same_binding cur old) (''profile account binding changed: '' @ pp_id cur) @
          reason_when (pp_input_cost_units_per_million cur \<noteq> pp_input_cost_units_per_million old \<or>
            pp_output_cost_units_per_million cur \<noteq> pp_output_cost_units_per_million old \<or>
            pp_quota_units_per_call cur \<noteq> pp_quota_units_per_call old \<or>
            pp_minimum_unknown_usage_cost cur \<noteq> pp_minimum_unknown_usage_cost old)
            (''profile accounting policy changed: '' @ pp_id cur))"

definition sandbox_reasons :: "config_bundle \<Rightarrow> sandbox_config \<Rightarrow> string list" where
  "sandbox_reasons b old =
     (case find (\<lambda>x. sc_id x = sc_id old) (bd_sandboxes b) of
        None \<Rightarrow> [''sandbox removed: '' @ sc_id old]
      | Some cur \<Rightarrow>
          reason_when (\<not> sc_enabled cur) (''sandbox disabled: '' @ sc_id cur) @
          reason_when (cur \<noteq> old) (''sandbox policy changed: '' @ sc_id cur))"

definition evaluate_snapshot :: "file_system \<Rightarrow> config_bundle \<Rightarrow> run_snapshot \<Rightarrow> bool \<times> string list" where
  "evaluate_snapshot fs b snap =
     (let reasons =
        (case rn_project snap of None \<Rightarrow> [] | Some x \<Rightarrow> project_reasons b x) @
        (case rn_profile snap of None \<Rightarrow> []
         | Some x \<Rightarrow> profile_reasons b (\<lambda>cur old. account_binding fs cur = account_binding fs old) x) @
        (case rn_sandbox snap of None \<Rightarrow> [] | Some x \<Rightarrow> sandbox_reasons b x)
      in (reasons = [], reasons))"

section \<open>Accepted fallbacks have no cycle\<close>

definition fallback_edges :: "profile_config list \<Rightarrow> (string \<times> string) set" where
  "fallback_edges profiles =
     {(i, j). \<exists>p. find (\<lambda>p. pp_id p = i) profiles = Some p \<and> j \<in> set (rp_fallback_profile_ids p)}"

text \<open>A set of profiles that no fallback leaves and that has no cycle.\<close>

definition settled :: "profile_config list \<Rightarrow> string set \<Rightarrow> bool" where
  "settled profiles V \<longleftrightarrow>
     fallback_edges profiles `` V \<subseteq> V \<and> (\<forall>v\<in>V. (v, v) \<notin> (fallback_edges profiles)\<^sup>+)"

lemma trancl_stays: "(a, b) \<in> r\<^sup>+ \<Longrightarrow> r `` {a} \<subseteq> V \<Longrightarrow> r `` V \<subseteq> V \<Longrightarrow> b \<in> V"
  by (induction rule: trancl_induct) auto

lemma settled_insert:
  assumes "settled profiles V" and "fallback_edges profiles `` {i} \<subseteq> V" and "i \<notin> V"
  shows "settled profiles (insert i V)"
  using assms trancl_stays [of i i "fallback_edges profiles" V] unfolding settled_def by blast

lemma edges_of_found:
  "find (\<lambda>p. pp_id p = i) profiles = Some p \<Longrightarrow> fallback_edges profiles `` {i} = set (rp_fallback_profile_ids p)"
  by (auto simp: fallback_edges_def)

lemma visit_settles:
  "visit profiles visiting visited i = Inr V \<Longrightarrow> settled profiles visited \<Longrightarrow> visited \<inter> visiting = {} \<Longrightarrow>
     settled profiles V \<and> V \<inter> visiting = {} \<and> insert i visited \<subseteq> V"
  "visit_all profiles visiting visited is = Inr V \<Longrightarrow> settled profiles visited \<Longrightarrow> visited \<inter> visiting = {} \<Longrightarrow>
     settled profiles V \<and> V \<inter> visiting = {} \<and> set is \<union> visited \<subseteq> V"
proof (induction profiles visiting visited i and profiles visiting visited "is"
    arbitrary: V and V rule: visit_visit_all.induct)
  case (1 profiles visiting visited i)
  show ?case
  proof (cases "i \<in> visited")
    case True
    then show ?thesis using 1 by (auto split: if_splits)
  next
    case False
    from 1(2) False obtain p V' where p: "find (\<lambda>p. pp_id p = i) profiles = Some p"
        and V': "visit_all profiles (insert i visiting) visited (rp_fallback_profile_ids p) = Inr V'"
        and V: "V = insert i V'" and new: "i \<notin> visiting"
      by (auto simp: res_simps split: if_splits option.splits)
    have "settled profiles V' \<and> V' \<inter> insert i visiting = {} \<and> set (rp_fallback_profile_ids p) \<union> visited \<subseteq> V'"
      using 1(1) [OF new False p V' 1(3)] 1(4) False by blast
    then show ?thesis
      using settled_insert [of profiles V' i] edges_of_found [OF p] new V by auto
  qed
next
  case (3 profiles visiting visited i rest)
  from 3(3) obtain V' where V': "visit profiles visiting visited i = Inr V'"
      and rest: "visit_all profiles visiting V' rest = Inr V"
    by (auto simp: res_simps)
  show ?case using 3(1) [OF V' 3(4,5)] 3(2) [OF rest] by auto
qed simp

lemma visit_raises:
  "visit profiles visiting visited i = Inl e \<Longrightarrow> fallback_edges profiles `` UNIV \<subseteq> profile_ids profiles \<Longrightarrow>
     i \<in> profile_ids profiles \<Longrightarrow> \<forall>v\<in>visiting. (v, i) \<in> (fallback_edges profiles)\<^sup>+ \<Longrightarrow> \<not> acyclic (fallback_edges profiles)"
  "visit_all profiles visiting visited is = Inl e \<Longrightarrow> fallback_edges profiles `` UNIV \<subseteq> profile_ids profiles \<Longrightarrow>
     set is \<subseteq> profile_ids profiles \<Longrightarrow> \<forall>i\<in>set is. \<forall>v\<in>visiting. (v, i) \<in> (fallback_edges profiles)\<^sup>+ \<Longrightarrow>
     \<not> acyclic (fallback_edges profiles)"
proof (induction profiles visiting visited i and profiles visiting visited "is" rule: visit_visit_all.induct)
  case (1 profiles visiting visited i)
  show ?case
  proof (cases "i \<in> visiting")
    case True
    then show ?thesis using 1(5) by (auto simp: acyclic_def)
  next
    case False
    from 1(4) have "find (\<lambda>p. pp_id p = i) profiles \<noteq> None" by (auto simp: profile_ids_def find_None_iff)
    then obtain p where p: "find (\<lambda>p. pp_id p = i) profiles = Some p" by blast
    from 1(2) False p have unvisited: "i \<notin> visited" by auto
    from 1(2) False p unvisited
    have inner: "visit_all profiles (insert i visiting) visited (rp_fallback_profile_ids p) = Inl e"
      by (auto simp: res_simps)
    have edges: "(i, j) \<in> fallback_edges profiles" if "j \<in> set (rp_fallback_profile_ids p)" for j
      using edges_of_found [OF p] that by auto
    have "\<forall>j\<in>set (rp_fallback_profile_ids p). \<forall>v\<in>insert i visiting. (v, j) \<in> (fallback_edges profiles)\<^sup>+"
      using edges 1(5) by (blast intro: trancl_into_trancl)
    moreover have "set (rp_fallback_profile_ids p) \<subseteq> profile_ids profiles" using edges 1(3) by auto
    ultimately show ?thesis using 1(1) [OF False unvisited p inner 1(3)] by blast
  qed
next
  case (3 profiles visiting visited i rest)
  from 3(3) show ?case
  proof (cases "visit profiles visiting visited i")
    case (Inl e')
    then show ?thesis using 3(1,3-6) by simp
  next
    case (Inr V)
    then show ?thesis using 3(2) [of V] 3(3-6) by simp
  qed
qed simp

lemma foldE_unit_iff: "foldE (\<lambda>_ x. f x) () xs = Inr () \<longleftrightarrow> (\<forall>x\<in>set xs. f x = Inr ())"
  by (induction xs) (auto simp: res_simps)

lemma checked_fallbacks_are_registered:
  "check_fallbacks profiles = Inr () \<Longrightarrow> fallback_edges profiles `` UNIV \<subseteq> profile_ids profiles"
  unfolding check_fallbacks_def foldE_unit_iff
  by (fastforce simp: fallback_edges_def find_Some_iff profile_ids_def check_fallback_def
      split: option.splits if_splits dest: nth_mem)

text \<open>
  C17. The search for cycles among fallbacks is exact: once every fallback is known and overlaps in
  role and task type, the registry's depth-first search ends, and it accepts the profiles exactly
  when no profile is, through one or more fallbacks, its own fallback.
\<close>

theorem fallback_search_accepts_iff_acyclic:
  assumes "check_fallbacks profiles = Inr ()"
  shows "(\<exists>visited. validate_fallbacks profiles = Inr visited) \<longleftrightarrow> acyclic (fallback_edges profiles)"
proof
  assume "\<exists>visited. validate_fallbacks profiles = Inr visited"
  then obtain V where "visit_all profiles {} {} (map pp_id profiles) = Inr V"
    using assms by (auto simp: validate_fallbacks_def)
  then have V: "settled profiles V" "profile_ids profiles \<subseteq> V"
    using visit_settles(2) [of profiles "{}" "{}" "map pp_id profiles" V]
    by (auto simp: settled_def profile_ids_def)
  have "(i, i) \<notin> (fallback_edges profiles)\<^sup>+" for i
  proof
    assume cyc: "(i, i) \<in> (fallback_edges profiles)\<^sup>+"
    then obtain j where "(i, j) \<in> fallback_edges profiles" by (meson tranclD)
    then have "i \<in> profile_ids profiles" by (auto simp: fallback_edges_def find_Some_iff profile_ids_def dest: nth_mem)
    then show False using cyc V by (auto simp: settled_def)
  qed
  then show "acyclic (fallback_edges profiles)" by (simp add: acyclic_def)
next
  assume "acyclic (fallback_edges profiles)"
  then show "\<exists>visited. validate_fallbacks profiles = Inr visited"
    using assms visit_raises(2) [of profiles "{}" "{}" "map pp_id profiles"]
      checked_fallbacks_are_registered [OF assms]
    by (cases "visit_all profiles {} {} (map pp_id profiles)") (auto simp: validate_fallbacks_def profile_ids_def)
qed

section \<open>Accepted command-line profiles are isolated\<close>

definition isolated :: "file_system \<Rightarrow> profile_config \<Rightarrow> profile_config \<Rightarrow> bool" where
  "isolated fs p q \<longleftrightarrow>
     (pg_runtime_identity p = pg_runtime_identity q \<longrightarrow> same_account p q) \<and>
     (\<forall>a b. pg_state_directory p = Some a \<and> pg_state_directory q = Some b \<longrightarrow>
        (if fs_resolve fs a = fs_resolve fs b then same_account p q
         else \<not> paths_overlap (fs_resolve fs a) (fs_resolve fs b)))"

lemma same_account_sym: "same_account p q \<longleftrightarrow> same_account q p"
  unfolding same_account_def by metis

lemma same_account_trans: "same_account p q \<Longrightarrow> same_account q r \<Longrightarrow> same_account p r"
  unfolding same_account_def by metis

lemma paths_overlap_sym: "paths_overlap a b \<longleftrightarrow> paths_overlap b a"
  by (auto simp: paths_overlap_def)

lemma isolated_sym: "isolated fs p q \<Longrightarrow> isolated fs q p"
  unfolding isolated_def by (metis same_account_sym paths_overlap_sym)

text \<open>What the loop knows of the profiles it has accepted.\<close>

definition speaks_for :: "profile_config option \<Rightarrow> profile_config \<Rightarrow> bool" where
  "speaks_for owner p \<longleftrightarrow> (\<exists>q. owner = Some q \<and> (q = p \<or> same_account q p))"

definition accounted :: "file_system \<Rightarrow> cli_owners \<Rightarrow> profile_config \<Rightarrow> bool" where
  "accounted fs st p \<longleftrightarrow> (\<exists>i d. pg_runtime_identity p = Some i \<and> pg_state_directory p = Some d \<and>
     speaks_for (co_identities st i) p \<and> speaks_for (map_of (co_directories st) (fs_resolve fs d)) p)"

lemma claim_directory_cases:
  assumes "claim_directory p d ds = Inr ds'"
  shows "ds' = AList.update d p ds" and "map_of ds a = Some q \<Longrightarrow> if a = d then same_account p q else \<not> paths_overlap d a"
proof -
  have "foldE (\<lambda>_ x. (case x of (directory, owner) \<Rightarrow>
       if d = directory \<and> same_account p owner then Inr ()
       else if paths_overlap d directory
       then Inl (RegistryError (''CLI profiles '' @ pp_id owner @ '' and '' @ pp_id p @
         '' have overlapping state directories''))
       else Inr ())) () ds = Inr ()" and upd: "ds' = AList.update d p ds"
    using assms by (auto simp: claim_directory_def res_simps)
  then have *: "d = x \<and> same_account p y \<or> \<not> paths_overlap d x" if "(x, y) \<in> set ds" for x y
    using that unfolding foldE_unit_iff by (fastforce split: if_splits)
  show "ds' = AList.update d p ds" by (rule upd)
  show "if a = d then same_account p q else \<not> paths_overlap d a" if "map_of ds a = Some q"
    using * [OF map_of_SomeD [OF that]] by (auto simp: paths_overlap_def)
qed

lemma speaks_for_newcomer: "speaks_for (Some q) p \<Longrightarrow> same_account r q \<Longrightarrow> same_account r p"
  by (auto simp: speaks_for_def dest: same_account_trans)

lemma cli_step_cases:
  assumes "cli_profile_step fs st p = Inr st'"
  obtains i d where "pg_runtime_identity p = Some i" and "pg_state_directory p = Some d"
    and "\<And>q. co_identities st i = Some q \<Longrightarrow> same_account p q"
    and "\<And>a q. map_of (co_directories st) a = Some q \<Longrightarrow>
           if a = fs_resolve fs d then same_account p q else \<not> paths_overlap (fs_resolve fs d) a"
    and "st' = \<lparr>co_identities = (co_identities st)(i \<mapsto> p),
           co_directories = AList.update (fs_resolve fs d) p (co_directories st)\<rparr>"
proof -
  from assms obtain i d ds where *: "pg_runtime_identity p = Some i" "pg_state_directory p = Some d"
      "claim_directory p (fs_resolve fs d) (co_directories st) = Inr ds"
      "st' = \<lparr>co_identities = (co_identities st)(i \<mapsto> p), co_directories = ds\<rparr>"
    by (auto simp: cli_profile_step_def res_simps split: option.splits)
  have "same_account p q" if "co_identities st i = Some q" for q
    using assms * that by (auto simp: cli_profile_step_def res_simps split: if_splits)
  then show ?thesis
    using * claim_directory_cases [OF *(3)] by (intro that [of i d]) auto
qed

lemma cli_step_accounts:
  assumes "cli_profile_step fs st p = Inr st'" and "\<forall>q\<in>S. accounted fs st q"
  shows "\<forall>q\<in>insert p S. accounted fs st' q" and "\<forall>q\<in>S. isolated fs p q"
proof -
  obtain i d where id: "pg_runtime_identity p = Some i" "pg_state_directory p = Some d"
      and owner: "\<And>q. co_identities st i = Some q \<Longrightarrow> same_account p q"
      and dir: "\<And>a q. map_of (co_directories st) a = Some q \<Longrightarrow>
           if a = fs_resolve fs d then same_account p q else \<not> paths_overlap (fs_resolve fs d) a"
      and st': "st' = \<lparr>co_identities = (co_identities st)(i \<mapsto> p),
           co_directories = AList.update (fs_resolve fs d) p (co_directories st)\<rparr>"
    by (rule cli_step_cases [OF assms(1)]) blast
  have same: "same_account p q" if "speaks_for owner q" "\<And>r. owner = Some r \<Longrightarrow> same_account p r" for owner q
    using that by (auto simp: speaks_for_def dest: same_account_trans)
  have "accounted fs st' q \<and> isolated fs p q" if "q \<in> S" for q
  proof -
    from that assms(2) obtain i' d' where q: "pg_runtime_identity q = Some i'" "pg_state_directory q = Some d'"
        "speaks_for (co_identities st i') q" "speaks_for (map_of (co_directories st) (fs_resolve fs d')) q"
      by (auto simp: accounted_def)
    have "same_account p q" if "i' = i" using same [OF q(3)] owner that by auto
    moreover have "same_account p q" if "fs_resolve fs d' = fs_resolve fs d"
      using same [OF q(4)] dir that by fastforce
    moreover have "\<not> paths_overlap (fs_resolve fs d) (fs_resolve fs d')" if "fs_resolve fs d' \<noteq> fs_resolve fs d"
      using q(4) dir that by (fastforce simp: speaks_for_def)
    ultimately show ?thesis
      using id q by (auto simp: accounted_def isolated_def st' update_conv' speaks_for_def)
  qed
  moreover have "accounted fs st' p" using id by (auto simp: accounted_def st' update_conv' speaks_for_def)
  ultimately show "\<forall>q\<in>insert p S. accounted fs st' q" and "\<forall>q\<in>S. isolated fs p q" by auto
qed

lemma isolation_loop:
  "foldE (cli_profile_step fs) st ps = Inr st' \<Longrightarrow> \<forall>q\<in>S. accounted fs st q \<Longrightarrow> pairwise (isolated fs) S \<Longrightarrow>
     pairwise (isolated fs) (S \<union> set ps)"
proof (induction ps arbitrary: st S)
  case Nil
  then show ?case by simp
next
  case (Cons p ps)
  from Cons.prems(1) obtain st1 where st1: "cli_profile_step fs st p = Inr st1"
      and rest: "foldE (cli_profile_step fs) st1 ps = Inr st'"
    by (auto simp: res_simps)
  note acc = cli_step_accounts [OF st1 Cons.prems(2)]
  have "pairwise (isolated fs) (insert p S)"
    using acc(2) Cons.prems(3) isolated_sym by (auto simp: pairwise_insert)
  from Cons.IH [OF rest acc(1) this] show ?case by simp
qed

text \<open>
  C39. Accepted profiles are isolated from each other: of any two enabled command-line profiles of a
  registry that was built, only profiles of one account share a runtime identity or a state
  directory, and no state directory lies inside another.
\<close>

theorem cli_profiles_are_isolated:
  assumes "profile_registry fs entries = Inr profiles"
  shows "pairwise (isolated fs) {p \<in> set profiles. enabled_cli p}"
proof -
  obtain owners where "validate_cli_isolation fs profiles = Inr owners"
    using assms by (auto simp: profile_registry_def res_simps)
  then show ?thesis
    unfolding validate_cli_isolation_def using isolation_loop [of fs _ _ owners "{}"] by fastforce
qed

definition sample_config :: "string \<Rightarrow> string \<Rightarrow> string list \<Rightarrow> profile_config" where
  "sample_config i account fallbacks =
     routed_profile.extend ((sample_profile i CC_CHEAP)\<lparr>rp_fallback_profile_ids := fallbacks\<rparr>)
       \<lparr>pg_account_id = Some account, pg_account = None, pg_api_base_url = None, pg_credential_reference = None,
        pg_credential_required = False, pg_control_reserved_slots = 0, pg_runtime_identity = Some account,
        pg_state_directory = Some \<lparr>path_absolute = True, path_parts = [''srv'', account]\<rparr>, pg_runtime_network = JNull\<rparr>"

definition sample_fs :: file_system where
  "sample_fs = \<lparr>fs_resolve = \<lambda>p. p, fs_is_dir = \<lambda>p. True\<rparr>"

theorem fallback_search_accepts_iff_acyclic_witness:
  "check_fallbacks [sample_config ''a'' ''x'' [''b''], sample_config ''b'' ''y'' []] = Inr () \<and>
   validate_fallbacks [sample_config ''a'' ''x'' [''b''], sample_config ''b'' ''y'' []] = Inr {''a'', ''b''} \<and>
   acyclic (fallback_edges [sample_config ''a'' ''x'' [''b''], sample_config ''b'' ''y'' []])"
proof -
  have checked: "check_fallbacks [sample_config ''a'' ''x'' [''b''], sample_config ''b'' ''y'' []] = Inr ()" by code_simp
  have run: "validate_fallbacks [sample_config ''a'' ''x'' [''b''], sample_config ''b'' ''y'' []] = Inr {''a'', ''b''}"
    by code_simp
  show ?thesis using checked run fallback_search_accepts_iff_acyclic [OF checked] by blast
qed

theorem cli_profiles_are_isolated_witness:
  "profile_registry sample_fs [sample_config ''a'' ''x'' [''b''], sample_config ''b'' ''x'' [], sample_config ''c'' ''y'' []] =
     Inr [sample_config ''a'' ''x'' [''b''], sample_config ''b'' ''x'' [], sample_config ''c'' ''y'' []] \<and>
   pairwise (isolated sample_fs) {p \<in> set [sample_config ''a'' ''x'' [''b''], sample_config ''b'' ''x'' [],
     sample_config ''c'' ''y'' []]. enabled_cli p}"
proof -
  have built: "profile_registry sample_fs [sample_config ''a'' ''x'' [''b''], sample_config ''b'' ''x'' [], sample_config ''c'' ''y'' []] =
     Inr [sample_config ''a'' ''x'' [''b''], sample_config ''b'' ''x'' [], sample_config ''c'' ''y'' []]"
    by code_simp
  show ?thesis using built cli_profiles_are_isolated [OF built] by blast
qed

section \<open>Projects and snapshots\<close>

lemma mapE_members: "mapE f xs = Inr ys \<Longrightarrow> y \<in> set ys \<Longrightarrow> \<exists>x\<in>set xs. f x = Inr y"
  by (induction xs arbitrary: ys) (auto simp: res_simps)

text \<open>Every registered repository lies under the repository root and holds its summary.\<close>

lemma registered_projects_are_contained:
  assumes "project_registry fs base projects = Inr registered" and "p \<in> set registered"
  shows "path_within (rj_repository_path p) (fs_resolve fs base)"
    and "rj_summary_path p = Some summary \<Longrightarrow> path_within summary (rj_repository_path p)"
proof -
  obtain q where q: "normalize_project fs (fs_resolve fs base) q = Inr p"
    using assms mapE_members by (fastforce simp: project_registry_def res_simps)
  then show "path_within (rj_repository_path p) (fs_resolve fs base)"
    by (auto simp: normalize_project_def Let_def split: if_splits option.splits)
  show "rj_summary_path p = Some summary \<Longrightarrow> path_within summary (rj_repository_path p)"
    using q by (auto simp: normalize_project_def Let_def split: if_splits option.splits)
qed

lemma registry_get_found:
  "registry_get ident kind entries i = Inr e \<Longrightarrow> find (\<lambda>x. ident x = ident e) entries = Some e"
  by (auto simp: registry_get_def find_Some_iff split: option.splits)

lemma reason_when_simps [simp]: "reason_when True r = [r]" "reason_when False r = []"
  by (simp_all add: reason_when_def)

lemma snapshot_parts:
  assumes "bundle_snapshot b project_id profile_id = Inr snap"
  shows "rn_project snap = Some x \<Longrightarrow> find (\<lambda>e. rj_id e = rj_id x) (bd_projects b) = Some x"
    and "rn_profile snap = Some y \<Longrightarrow> find (\<lambda>e. pp_id e = pp_id y) (bd_profiles b) = Some y"
    and "rn_sandbox snap = Some z \<Longrightarrow> find (\<lambda>e. sc_id e = sc_id z) (bd_sandboxes b) = Some z"
  using assms
  by (fastforce simp: bundle_snapshot_def res_simps split: option.splits dest: registry_get_found)+

text \<open>A snapshot taken from the bundle is compatible with it unless one of its parts is disabled.\<close>

lemma fresh_snapshot_is_allowed:
  assumes "bundle_snapshot b project_id profile_id = Inr snap"
  shows "fst (evaluate_snapshot fs b snap) \<longleftrightarrow>
     (\<forall>x. rn_project snap = Some x \<longrightarrow> rj_enabled x) \<and> (\<forall>x. rn_profile snap = Some x \<longrightarrow> rp_enabled x) \<and>
     (\<forall>x. rn_sandbox snap = Some x \<longrightarrow> sc_enabled x)"
proof -
  have p: "project_reasons b x = reason_when (\<not> rj_enabled x) (''project disabled: '' @ rj_id x)"
    if "rn_project snap = Some x" for x
    using snapshot_parts(1) [OF assms that] by (simp add: project_reasons_def)
  have q: "profile_reasons b (\<lambda>cur old. account_binding fs cur = account_binding fs old) x =
      reason_when (\<not> rp_enabled x) (''profile disabled: '' @ pp_id x)" if "rn_profile snap = Some x" for x
    using snapshot_parts(2) [OF assms that] by (simp add: profile_reasons_def)
  have r: "sandbox_reasons b x = reason_when (\<not> sc_enabled x) (''sandbox disabled: '' @ sc_id x)"
    if "rn_sandbox snap = Some x" for x
    using snapshot_parts(3) [OF assms that] by (simp add: sandbox_reasons_def)
  show ?thesis
    using p q r by (cases "rn_project snap"; cases "rn_profile snap"; cases "rn_sandbox snap")
      (simp_all add: evaluate_snapshot_def Let_def reason_when_def)
qed

end
