(* ===== verification/Executor_Preference.thy ===== *)
theory Executor_Preference
  imports Registries Py_Text
begin

text \<open>
  \<^verbatim>\<open>projects/executor_preference.py\<close> and \<^verbatim>\<open>projects/model_matrix.py\<close>: the worker or the models an
  owner chose for a project, how a choice is stored under its revision, and how it is resolved to a
  configured profile when a step is routed. The content and assignment revisions of a profile, which
  are digests of its canonical JSON, are arguments.
\<close>

section \<open>Preferences\<close>

definition DEFAULT_CODEX_MODEL_FAMILY :: string where
  "DEFAULT_CODEX_MODEL_FAMILY = ''gpt-5.6''"

definition DEFAULT_REASONING_EFFORT :: string where
  "DEFAULT_REASONING_EFFORT = ''medium''"

definition REASONING_EFFORTS :: "string list" where
  "REASONING_EFFORTS = [''low'', ''medium'', ''high'', ''xhigh'']"

datatype preference_mode = MODE_AUTO | MODE_PIN

fun preference_mode_value :: "preference_mode \<Rightarrow> string" where
  "preference_mode_value MODE_AUTO = ''auto''"
| "preference_mode_value MODE_PIN = ''pin''"

definition preference_mode_of :: "string \<Rightarrow> error + preference_mode" where
  "preference_mode_of s =
     (if s = ''auto'' then Inr MODE_AUTO else if s = ''pin'' then Inr MODE_PIN
      else Inl (ValueError (py_repr_string s @ '' is not a valid ExecutorPreferenceMode'')))"

datatype worker_key = WK_SOL | WK_TERRA | WK_LUNA | WK_GROK | WK_KIMI

fun worker_key_value :: "worker_key \<Rightarrow> string" where
  "worker_key_value WK_SOL = ''sol''"
| "worker_key_value WK_TERRA = ''terra''"
| "worker_key_value WK_LUNA = ''luna''"
| "worker_key_value WK_GROK = ''grok''"
| "worker_key_value WK_KIMI = ''kimi''"

definition worker_key_of :: "string \<Rightarrow> error + worker_key" where
  "worker_key_of s =
     (case find (\<lambda>k. worker_key_value k = s) [WK_SOL, WK_TERRA, WK_LUNA, WK_GROK, WK_KIMI] of
        Some k \<Rightarrow> Inr k
      | None \<Rightarrow> Inl (ValueError (py_repr_string s @ '' is not a valid ExecutorWorkerKey'')))"

definition CODEX_WORKERS :: "worker_key list" where
  "CODEX_WORKERS = [WK_SOL, WK_TERRA, WK_LUNA]"

record preference_view =
  pv_project_id :: string
  pv_mode :: preference_mode
  pv_worker_key :: "worker_key option"
  pv_reasoning_effort :: "string option"
  pv_revision :: int
  pv_profile_id :: "string option"
  pv_model :: "string option"

definition is_auto :: "preference_view \<Rightarrow> bool" where
  "is_auto v = (pv_mode v = MODE_AUTO)"

record route_pin =
  pin_trusted_profile_id :: string
  pin_model_override :: "string option"
  pin_reasoning_effort :: "string option"
  pin_worker_key :: worker_key
  pin_allow_same_family_fallbacks :: bool

record worker_option =
  wo_key :: worker_key
  wo_label :: string
  wo_supports_reasoning_effort :: bool

definition default_preference :: "string \<Rightarrow> preference_view" where
  "default_preference project = \<lparr>pv_project_id = project, pv_mode = MODE_AUTO, pv_worker_key = None,
     pv_reasoning_effort = None, pv_revision = 1, pv_profile_id = None, pv_model = None\<rparr>"

section \<open>Model assignments\<close>

definition MATRIX_KEY :: string where
  "MATRIX_KEY = ''project_model_assignments''"

definition LEGACY_EXECUTOR_KEY :: string where
  "LEGACY_EXECUTOR_KEY = ''project_executor_preference''"

definition SLOT_ROLES :: "(string \<times> provider_role) list" where
  "SLOT_ROLES =
     [(''think'', ROLE_EXECUTOR), (''lead'', ROLE_LEAD), (''goal_reviewer'', ROLE_REVIEWER),
      (''planner_light'', ROLE_PLANNER), (''planner_strong'', ROLE_PLANNER), (''reviewer_light'', ROLE_REVIEWER),
      (''reviewer_strong'', ROLE_REVIEWER), (''executor'', ROLE_EXECUTOR)]"

record model_assignment =
  ma_profile_id :: string
  ma_model :: string
  ma_reasoning_effort :: "string option"
  ma_content_revision :: string

definition ascii_lower :: "char \<Rightarrow> bool" where
  "ascii_lower c = (let n = of_char c :: nat in 97 \<le> n \<and> n \<le> 122)"

definition ascii_digit :: "char \<Rightarrow> bool" where
  "ascii_digit c = (let n = of_char c :: nat in 48 \<le> n \<and> n \<le> 57)"

definition ascii_alnum :: "char \<Rightarrow> bool" where
  "ascii_alnum c = (let n = of_char c :: nat in ascii_lower c \<or> ascii_digit c \<or> (65 \<le> n \<and> n \<le> 90))"

text \<open>The patterns of the four fields.\<close>

definition profile_id_ok :: "string \<Rightarrow> bool" where
  "profile_id_ok s = (case s of [] \<Rightarrow> False
     | c # cs \<Rightarrow> ascii_lower c \<and> length cs \<le> 99 \<and> list_all (\<lambda>x. ascii_lower x \<or> ascii_digit x \<or> x = CHR ''_'' \<or> x = CHR ''-'') cs)"

definition model_ok :: "string \<Rightarrow> bool" where
  "model_ok s = (s \<noteq> [] \<and> list_all (\<lambda>c. let n = of_char c :: nat in 32 \<le> n \<and> n \<noteq> 127) s)"

definition effort_ok :: "string \<Rightarrow> bool" where
  "effort_ok s = (s \<in> {''low'', ''medium'', ''high'', ''xhigh'', ''max'', ''ultra''})"

definition revision_ok :: "string \<Rightarrow> bool" where
  "revision_ok s = (length s = 64 \<and> list_all lower_hex s)"

definition assignment_ok :: "model_assignment \<Rightarrow> bool" where
  "assignment_ok a =
     (profile_id_ok (ma_profile_id a) \<and> model_ok (ma_model a) \<and>
      (case ma_reasoning_effort a of None \<Rightarrow> True | Some e \<Rightarrow> effort_ok e) \<and> revision_ok (ma_content_revision a))"

definition invalid_assignment :: error where
  "invalid_assignment = ValueError ''validation error for ModelAssignment''"

definition make_assignment :: "string \<Rightarrow> string \<Rightarrow> string option \<Rightarrow> string \<Rightarrow> error + model_assignment" where
  "make_assignment i model effort revision =
     (let a = \<lparr>ma_profile_id = i, ma_model = model, ma_reasoning_effort = effort, ma_content_revision = revision\<rparr>
      in if assignment_ok a then Inr a else Inl invalid_assignment)"

text \<open>\<open>model_validate\<close>: an object with these fields and no other.\<close>

definition validate_assignment :: "json \<Rightarrow> error + model_assignment" where
  "validate_assignment raw =
     (case raw of
        JObj m \<Rightarrow>
          if \<not> set (map fst m) \<subseteq> {''profile_id'', ''model'', ''reasoning_effort'', ''content_revision''}
          then Inl invalid_assignment
          else (case (map_of m ''profile_id'', map_of m ''model'', jget m ''reasoning_effort'', map_of m ''content_revision'') of
              (Some (JStr i), Some (JStr model), JStr effort, Some (JStr revision)) \<Rightarrow> make_assignment i model (Some effort) revision
            | (Some (JStr i), Some (JStr model), JNull, Some (JStr revision)) \<Rightarrow> make_assignment i model None revision
            | _ \<Rightarrow> Inl invalid_assignment)
      | _ \<Rightarrow> Inl invalid_assignment)"

definition dump_assignment :: "model_assignment \<Rightarrow> json" where
  "dump_assignment a = JObj [(''profile_id'', JStr (ma_profile_id a)), (''model'', JStr (ma_model a)),
     (''reasoning_effort'', opt_json (ma_reasoning_effort a)), (''content_revision'', JStr (ma_content_revision a))]"

definition slot_for_role :: "provider_role \<Rightarrow> bool \<Rightarrow> string option" where
  "slot_for_role role strong =
     (if role = ROLE_EXECUTOR then Some ''executor''
      else if role \<in> {ROLE_PLANNER, ROLE_REVIEWER}
      then Some (provider_role_value role @ (if strong then ''_strong'' else ''_light''))
      else None)"

definition slot_profile :: "string \<Rightarrow> provider_role \<Rightarrow> profile_config \<Rightarrow> bool" where
  "slot_profile slot role p =
     (rp_enabled p \<and> supported_profile (routed_profile.truncate p) \<and> role \<in> rp_roles p \<and>
      (role \<noteq> ROLE_EXECUTOR \<or> pp_launch_mode p = LM_CLI) \<and>
      (slot \<noteq> ''think'' \<or> conversation_compatible (routed_profile.truncate p) role))"

definition eligible_profiles :: "config_bundle \<Rightarrow> string \<Rightarrow> error + profile_config list" where
  "eligible_profiles b slot =
     (case map_of SLOT_ROLES slot of
        None \<Rightarrow> Inl (ExecutorPreferenceError ''unknown model role'')
      | Some role \<Rightarrow>
          Inr (sort_key (\<lambda>p. (rp_routing_priority p, pp_id p)) (filter (slot_profile slot role) (bd_profiles b))))"

definition assignment_snapshot :: "json \<Rightarrow> error + json_obj" where
  "assignment_snapshot value =
     (case value of
        JObj m \<Rightarrow>
          if \<exists>slot\<in>set (map fst m). map_of SLOT_ROLES slot = None
          then Inl (ValueError ''invalid project model snapshot'')
          else mapE (\<lambda>(slot, raw). bindE (validate_assignment raw) (\<lambda>a. Inr (slot, dump_assignment a))) m
      | _ \<Rightarrow> Inl (ValueError ''invalid project model snapshot''))"

definition pinned_assignment :: "json_obj \<Rightarrow> string option \<Rightarrow> error + model_assignment option" where
  "pinned_assignment snapshot slot =
     (case slot of
        None \<Rightarrow> Inr None
      | Some sl \<Rightarrow>
          if map_of SLOT_ROLES sl = None then Inl (ValueError ''unknown model role'')
          else bindE (assignment_snapshot (case map_of snapshot MATRIX_KEY of None \<Rightarrow> JObj [] | Some v \<Rightarrow> v)) (\<lambda>assignments.
            case map_of assignments sl of
              None \<Rightarrow> Inr None
            | Some raw \<Rightarrow> bindE (validate_assignment raw) (\<lambda>a. Inr (Some a))))"

record revisions =
  rv_content :: "profile_config \<Rightarrow> string"
  rv_assignment :: "profile_config \<Rightarrow> string"

definition assignment_matches :: "revisions \<Rightarrow> profile_config \<Rightarrow> string option \<Rightarrow> bool" where
  "assignment_matches rv p revision = (revision \<in> {Some (rv_assignment rv p), Some (rv_content rv p)})"

definition assignment_profile ::
  "revisions \<Rightarrow> model_assignment \<Rightarrow> config_bundle \<Rightarrow> string \<Rightarrow> error + profile_config" where
  "assignment_profile rv a b slot =
     bindE (eligible_profiles b slot) (\<lambda>eligible.
     case find (\<lambda>p. pp_id p = ma_profile_id a) eligible of
       None \<Rightarrow> Inl (ExecutorPreferenceError ''selected model profile is unavailable; send /model'')
     | Some p \<Rightarrow>
         if \<not> assignment_matches rv p (Some (ma_content_revision a)) \<or> pp_model p \<noteq> ma_model a \<or>
            rp_reasoning_effort p \<noteq> ma_reasoning_effort a
         then Inl (ExecutorPreferenceError ''selected model profile configuration changed; send /model'')
         else Inr p)"

section \<open>Stored preferences\<close>

definition preference_from_row :: "executor_preference \<Rightarrow> error + preference_view" where
  "preference_from_row row =
     (case map_of (pref_model_assignments row) ''executor'' of
        Some raw \<Rightarrow>
          bindE (validate_assignment raw) (\<lambda>selected.
          Inr \<lparr>pv_project_id = pref_project_id row, pv_mode = MODE_PIN, pv_worker_key = None,
               pv_reasoning_effort = ma_reasoning_effort selected, pv_revision = pref_revision row,
               pv_profile_id = Some (ma_profile_id selected), pv_model = Some (ma_model selected)\<rparr>)
      | None \<Rightarrow>
          bindE (preference_mode_of (pref_mode row)) (\<lambda>mode.
          bindE (case pref_worker_key row of
              None \<Rightarrow> Inr None
            | Some k \<Rightarrow> if k = [] then Inr None else bindE (worker_key_of k) (\<lambda>w. Inr (Some w))) (\<lambda>worker.
          Inr \<lparr>pv_project_id = pref_project_id row, pv_mode = mode, pv_worker_key = worker,
               pv_reasoning_effort = pref_reasoning_effort row, pv_revision = pref_revision row,
               pv_profile_id = pref_profile_id row, pv_model = None\<rparr>)))"

definition get_preference :: "db \<Rightarrow> string \<Rightarrow> executor_preference option" where
  "get_preference d = find_row pref_project_id (db_preferences d)"

definition load_preference :: "db \<Rightarrow> string \<Rightarrow> error + preference_view" where
  "load_preference d project =
     (case get_preference d project of None \<Rightarrow> Inr (default_preference project) | Some row \<Rightarrow> preference_from_row row)"

definition blank_preference :: "string \<Rightarrow> executor_preference" where
  "blank_preference project = \<lparr>pref_project_id = project, pref_mode = ''auto'', pref_worker_key = None,
     pref_profile_id = None, pref_reasoning_effort = None, pref_model_assignments = [], pref_revision = 1,
     pref_updated_by_user_id = None\<rparr>"

text \<open>The row under its lock; a concurrent first writer leaves the same blank row.\<close>

definition ensure_preference_row :: "string \<Rightarrow> db \<Rightarrow> executor_preference \<times> db" where
  "ensure_preference_row project d =
     (case get_preference d project of
        Some row \<Rightarrow> (row, d)
      | None \<Rightarrow> (blank_preference project, d\<lparr>db_preferences := db_preferences d @ [blank_preference project]\<rparr>))"

definition stale_options :: error where
  "stale_options = ExecutorPreferenceError ''model options are stale; send /model again''"

text \<open>The common shape of the three writers: the row, its revision fence, the new values.\<close>

definition write_preference ::
  "string \<Rightarrow> int \<Rightarrow> int \<Rightarrow> (executor_preference \<Rightarrow> error + executor_preference) \<Rightarrow> db \<Rightarrow> error + executor_preference \<times> db" where
  "write_preference project user expected change d =
     (let (row, d1) = ensure_preference_row project d
      in if pref_revision row \<noteq> expected then Inl stale_options
         else bindE (change row) (\<lambda>changed.
           let row' = changed\<lparr>pref_revision := pref_revision row + 1, pref_updated_by_user_id := Some user\<rparr>
           in Inr (row', d1\<lparr>db_preferences := update_row pref_project_id project (\<lambda>_. row') (db_preferences d1)\<rparr>)))"

definition set_auto_preference :: "string \<Rightarrow> int \<Rightarrow> int \<Rightarrow> db \<Rightarrow> error + preference_view \<times> db" where
  "set_auto_preference project user expected d =
     bindE (write_preference project user expected (\<lambda>row. Inr (row\<lparr>pref_mode := ''auto'', pref_worker_key := None,
       pref_profile_id := None, pref_reasoning_effort := None\<rparr>)) d) (\<lambda>(row, d').
     bindE (preference_from_row row) (\<lambda>view. Inr (view, d')))"

section \<open>Workers\<close>

fun worker_label :: "worker_key \<Rightarrow> string" where
  "worker_label WK_SOL = ''Sol''"
| "worker_label WK_TERRA = ''Terra''"
| "worker_label WK_LUNA = ''Luna''"
| "worker_label WK_GROK = ''Grok''"
| "worker_label WK_KIMI = ''Kimi K3 Free''"

definition codex_options :: "worker_option list" where
  "codex_options = map (\<lambda>k. \<lparr>wo_key = k, wo_label = worker_label k, wo_supports_reasoning_effort = True\<rparr>) CODEX_WORKERS"

definition cli_executor :: "profile_config \<Rightarrow> bool" where
  "cli_executor p = (rp_enabled p \<and> pp_launch_mode p = LM_CLI \<and> ROLE_EXECUTOR \<in> rp_roles p)"

definition available_workers :: "config_bundle \<Rightarrow> worker_option list" where
  "available_workers b =
     (let has = (\<lambda>provider. \<exists>p\<in>set (bd_profiles b). cli_executor p \<and> pp_provider p = provider)
      in (if has ''codex'' then codex_options else []) @
         (if has ''grok'' then [\<lparr>wo_key = WK_GROK, wo_label = ''Grok'', wo_supports_reasoning_effort = False\<rparr>] else []) @
         (if has ''kimi'' then [\<lparr>wo_key = WK_KIMI, wo_label = ''Kimi K3 Free'', wo_supports_reasoning_effort = False\<rparr>] else []))"

definition executor_connections :: "config_bundle \<Rightarrow> profile_config list" where
  "executor_connections b =
     sort_key (\<lambda>p. (rp_routing_priority p, pp_id p)) (filter cli_executor (bd_profiles b))"

definition connection_label :: "profile_config \<Rightarrow> string" where
  "connection_label p =
     (let provider = (if pp_provider p = ''codex'' then ''OpenAI'' else if pp_provider p = ''grok'' then ''xAI''
            else if pp_provider p = ''kimi'' then ''TokenRouter'' else pp_provider p);
          suffix = last (py_split_on (CHR ''-'') (pp_id p))
      in provider @ ''-'' @ (if length suffix = 1 then ascii_upper suffix else ''A''))"

definition workers_for_profile :: "profile_config \<Rightarrow> worker_option list" where
  "workers_for_profile p =
     (if pp_provider p = ''codex'' then codex_options
      else if pp_provider p = ''grok'' then [\<lparr>wo_key = WK_GROK, wo_label = ''Grok 4.5'', wo_supports_reasoning_effort = False\<rparr>]
      else if pp_provider p = ''kimi'' then [\<lparr>wo_key = WK_KIMI, wo_label = ''Kimi K3 Free'', wo_supports_reasoning_effort = False\<rparr>]
      else [])"

definition worker_option_for_profile :: "config_bundle \<Rightarrow> string option \<Rightarrow> worker_key \<Rightarrow> worker_option option" where
  "worker_option_for_profile b profile key =
     (case profile of
        None \<Rightarrow> find (\<lambda>o'. wo_key o' = key) (available_workers b)
      | Some i \<Rightarrow>
          (case find (\<lambda>p. pp_id p = i) (bd_profiles b) of
             None \<Rightarrow> None
           | Some p \<Rightarrow> find (\<lambda>o'. wo_key o' = key) (workers_for_profile p)))"

definition set_worker_preference ::
  "config_bundle \<Rightarrow> string \<Rightarrow> int \<Rightarrow> int \<Rightarrow> worker_key \<Rightarrow> string option \<Rightarrow> string option \<Rightarrow> db \<Rightarrow> error + preference_view \<times> db" where
  "set_worker_preference b project user expected key effort profile d =
     (case worker_option_for_profile b profile key of
        None \<Rightarrow> Inl (ExecutorPreferenceError ''that model is not available for this connection'')
      | Some option \<Rightarrow>
          if wo_supports_reasoning_effort option \<and> (case effort of None \<Rightarrow> True | Some e \<Rightarrow> e \<notin> set REASONING_EFFORTS)
          then Inl (ExecutorPreferenceError ''reasoning effort is required for this worker'')
          else if \<not> wo_supports_reasoning_effort option \<and> effort \<noteq> None
          then Inl (ExecutorPreferenceError ''this worker does not support reasoning effort'')
          else bindE (write_preference project user expected (\<lambda>row. Inr (row\<lparr>pref_mode := ''pin'',
              pref_worker_key := Some (worker_key_value key), pref_profile_id := profile,
              pref_reasoning_effort := effort\<rparr>)) d) (\<lambda>(row, d').
            bindE (preference_from_row row) (\<lambda>view. Inr (view, d'))))"

text \<open>
  Pinning a slot. The chosen profile is looked up before the row is read, and the stored assignments
  are validated as a whole.
\<close>

definition assign_slot ::
  "revisions \<Rightarrow> string \<Rightarrow> profile_config option \<Rightarrow> executor_preference \<Rightarrow> error + executor_preference" where
  "assign_slot rv slot chosen row =
     bindE (assignment_snapshot (JObj (pref_model_assignments row))) (\<lambda>assignments.
     bindE (case chosen of
         None \<Rightarrow> Inr (filter (\<lambda>(k, _). k \<noteq> slot) assignments)
       | Some p \<Rightarrow>
           bindE (make_assignment (pp_id p) (pp_model p) (rp_reasoning_effort p) (rv_assignment rv p)) (\<lambda>a.
           Inr (jput assignments slot (dump_assignment a)))) (\<lambda>assignments'.
     Inr (if slot = ''executor''
          then row\<lparr>pref_model_assignments := assignments', pref_mode := ''auto'', pref_worker_key := None,
                   pref_profile_id := None, pref_reasoning_effort := None\<rparr>
          else row\<lparr>pref_model_assignments := assignments'\<rparr>)))"

definition set_assignment ::
  "revisions \<Rightarrow> config_bundle \<Rightarrow> string \<Rightarrow> string \<Rightarrow> string option \<Rightarrow> int \<Rightarrow> int \<Rightarrow> db \<Rightarrow> error + db" where
  "set_assignment rv b project slot profile expected user d =
     bindE (eligible_profiles b slot) (\<lambda>eligible.
     let chosen = find (\<lambda>p. Some (pp_id p) = profile) eligible
     in if profile \<noteq> None \<and> chosen = None
        then Inl (ExecutorPreferenceError ''selected model profile is unavailable; send /model'')
        else bindE (write_preference project user expected (assign_slot rv slot chosen) d) (\<lambda>(_, d'). Inr d'))"

text \<open>The one-off rewriting of pins that carry a full content revision.\<close>

definition upgrade_pin :: "revisions \<Rightarrow> config_bundle \<Rightarrow> model_assignment \<Rightarrow> model_assignment option" where
  "upgrade_pin rv b pin =
     (case find (\<lambda>p. pp_id p = ma_profile_id pin) (bd_profiles b) of
        None \<Rightarrow> None
      | Some p \<Rightarrow>
          if ma_content_revision pin \<noteq> rv_assignment rv p \<and> ma_content_revision pin = rv_content rv p \<and>
             pp_model p = ma_model pin \<and> rp_reasoning_effort p = ma_reasoning_effort pin
          then Some (pin\<lparr>ma_content_revision := rv_assignment rv p\<rparr>) else None)"

definition upgrade_row :: "revisions \<Rightarrow> config_bundle \<Rightarrow> executor_preference \<Rightarrow> error + nat \<times> executor_preference" where
  "upgrade_row rv b row =
     bindE (assignment_snapshot (JObj (pref_model_assignments row))) (\<lambda>assignments.
     bindE (mapE (\<lambda>(slot, raw). bindE (validate_assignment raw) (\<lambda>pin.
       Inr (case upgrade_pin rv b pin of
           None \<Rightarrow> (False, slot, raw) | Some pin' \<Rightarrow> (True, slot, dump_assignment pin')))) assignments) (\<lambda>pins.
     let changed = length (filter fst pins)
     in Inr (changed, if changed = 0 then row else row\<lparr>pref_model_assignments := map snd pins\<rparr>)))"

definition upgrade_assignment_revisions :: "revisions \<Rightarrow> config_bundle \<Rightarrow> db \<Rightarrow> error + nat \<times> db" where
  "upgrade_assignment_revisions rv b d =
     bindE (mapE (upgrade_row rv b) (db_preferences d)) (\<lambda>rows.
     Inr (sum_list (map fst rows), d\<lparr>db_preferences := map snd rows\<rparr>))"

section \<open>From a choice to a profile\<close>

definition gpt_version :: "string \<Rightarrow> bool" where
  "gpt_version s = (py_startswith s ''gpt-'' \<and>
     list_all (\<lambda>part. part \<noteq> [] \<and> list_all ascii_digit part) (py_split_on (CHR ''.'') (drop 4 s)))"

definition family_model :: "worker_key \<Rightarrow> string" where
  "family_model w = DEFAULT_CODEX_MODEL_FAMILY @ ''-'' @ worker_key_value w"

text \<open>The first known worker the slug ends with.\<close>

definition slug_worker :: "string \<Rightarrow> worker_key option" where
  "slug_worker lowered = find (\<lambda>k. py_endswith lowered (''-'' @ worker_key_value k) \<or> lowered = worker_key_value k) CODEX_WORKERS"

definition codex_model_for_worker :: "string \<Rightarrow> worker_key \<Rightarrow> string" where
  "codex_model_for_worker base w =
     (let slug = py_strip base; lowered = py_lower slug
      in if slug = [] \<or> lowered \<in> {''codex'', ''auto''} then family_model w
         else (case slug_worker lowered of
             Some known \<Rightarrow>
               if lowered = worker_key_value known then family_model w
               else take (length slug - (1 + length (worker_key_value known))) slug @ ''-'' @ worker_key_value w
           | None \<Rightarrow> if gpt_version lowered then slug @ ''-'' @ worker_key_value w else family_model w))"

definition expected_provider :: "worker_key \<Rightarrow> string" where
  "expected_provider w = (if w = WK_GROK then ''grok'' else if w = WK_KIMI then ''kimi'' else ''codex'')"

definition first_enabled_executor :: "config_bundle \<Rightarrow> string \<Rightarrow> profile_config option" where
  "first_enabled_executor b provider =
     (case sort_key (\<lambda>p. (rp_routing_priority p, pp_id p))
        (filter (\<lambda>p. cli_executor p \<and> pp_provider p = provider) (bd_profiles b)) of
        [] \<Rightarrow> None | p # _ \<Rightarrow> Some p)"

definition or_default :: "string option \<Rightarrow> string" where
  "or_default effort = (case effort of None \<Rightarrow> DEFAULT_REASONING_EFFORT
     | Some e \<Rightarrow> if e = [] then DEFAULT_REASONING_EFFORT else e)"

definition resolve_route_pin :: "preference_view \<Rightarrow> config_bundle \<Rightarrow> route_pin option" where
  "resolve_route_pin pref b =
     (case (is_auto pref, pv_worker_key pref) of
        (False, Some w) \<Rightarrow>
          (case pv_profile_id pref of
             Some i \<Rightarrow>
               (case find (\<lambda>p. pp_id p = i) (bd_profiles b) of
                  None \<Rightarrow> None
                | Some p \<Rightarrow>
                    if \<not> rp_enabled p \<or> ROLE_EXECUTOR \<notin> rp_roles p \<or> pp_provider p \<noteq> expected_provider w then None
                    else Some \<lparr>pin_trusted_profile_id = pp_id p,
                      pin_model_override = (if pp_provider p = ''codex'' then Some (codex_model_for_worker (pp_model p) w) else None),
                      pin_reasoning_effort = (if pp_provider p = ''codex'' then Some (or_default (pv_reasoning_effort pref)) else None),
                      pin_worker_key = w, pin_allow_same_family_fallbacks = False\<rparr>)
           | None \<Rightarrow>
               (case first_enabled_executor b (expected_provider w) of
                  None \<Rightarrow> None
                | Some p \<Rightarrow> Some \<lparr>pin_trusted_profile_id = pp_id p,
                    pin_model_override = (if w \<in> {WK_GROK, WK_KIMI} then None else Some (codex_model_for_worker (pp_model p) w)),
                    pin_reasoning_effort = (if w \<in> {WK_GROK, WK_KIMI} then None else Some (or_default (pv_reasoning_effort pref))),
                    pin_worker_key = w, pin_allow_same_family_fallbacks = True\<rparr>))
      | _ \<Rightarrow> None)"

definition same_family_fallback_ids :: "config_bundle \<Rightarrow> worker_key \<Rightarrow> string \<Rightarrow> error + string list" where
  "same_family_fallback_ids b w primary_id =
     bindE (registry_get pp_id ''profile'' (bd_profiles b) primary_id) (\<lambda>primary.
     Inr (filter (\<lambda>i. case find (\<lambda>p. pp_id p = i) (bd_profiles b) of
            None \<Rightarrow> False | Some p \<Rightarrow> cli_executor p \<and> pp_provider p = expected_provider w)
          (rp_fallback_profile_ids primary)))"

definition override_ok :: "string \<Rightarrow> bool" where
  "override_ok s = (case s of [] \<Rightarrow> False
     | c # cs \<Rightarrow> ascii_alnum c \<and> length cs \<le> 99 \<and>
         list_all (\<lambda>x. ascii_alnum x \<or> x = CHR ''.'' \<or> x = CHR ''_'' \<or> x = CHR ''-'') cs)"

definition ALLOWED_EFFORT_OVERRIDES :: "string set" where
  "ALLOWED_EFFORT_OVERRIDES = set REASONING_EFFORTS \<union> {''max'', ''ultra''}"

definition apply_profile_overrides :: "profile_config \<Rightarrow> json \<Rightarrow> error + profile_config" where
  "apply_profile_overrides p payload =
     (case payload of
        JObj m \<Rightarrow>
          bindE (case map_of m ''executor_model_override'' of
              None \<Rightarrow> Inr p
            | Some v \<Rightarrow> (let cleaned = (case v of JStr s \<Rightarrow> py_strip s | _ \<Rightarrow> [])
                in if override_ok cleaned then Inr (p\<lparr>pp_model := cleaned\<rparr>)
                   else Inl (ValueError ''executor model override is invalid''))) (\<lambda>p1.
          case map_of m ''executor_reasoning_effort'' of
            None \<Rightarrow> Inr p1
          | Some JNull \<Rightarrow> Inr (p1\<lparr>rp_reasoning_effort := None\<rparr>)
          | Some (JStr e) \<Rightarrow>
              if py_strip e \<in> ALLOWED_EFFORT_OVERRIDES then Inr (p1\<lparr>rp_reasoning_effort := Some (py_strip e)\<rparr>)
              else Inl (ValueError ''executor reasoning effort override is invalid'')
          | Some _ \<Rightarrow> Inl (ValueError ''executor reasoning effort override is invalid''))
      | _ \<Rightarrow> Inr p)"

definition preference_payload :: "route_pin \<Rightarrow> json_obj" where
  "preference_payload pin =
     [(''executor_preference_mode'', JStr ''pin''), (''executor_worker_key'', JStr (worker_key_value (pin_worker_key pin)))] @
     (case pin_model_override pin of None \<Rightarrow> [] | Some m \<Rightarrow> [(''executor_model_override'', JStr m)]) @
     (case pin_reasoning_effort pin of None \<Rightarrow> [] | Some e \<Rightarrow> [(''executor_reasoning_effort'', JStr e)])"

text \<open>The frozen choice of a run; its fields have the types its writer gives them.\<close>

definition legacy_executor_preference :: "json_obj \<Rightarrow> error + preference_view option" where
  "legacy_executor_preference snapshot =
     (case jget snapshot LEGACY_EXECUTOR_KEY of
        JNull \<Rightarrow> Inr None
      | JObj raw \<Rightarrow>
          bindE (jindex raw ''project_id'') (\<lambda>project.
          bindE (jindex raw ''mode'') (\<lambda>mode_raw.
          bindE (case mode_raw of JStr s \<Rightarrow> preference_mode_of s
            | _ \<Rightarrow> Inl (ValueError (py_repr mode_raw @ '' is not a valid ExecutorPreferenceMode''))) (\<lambda>mode.
          bindE (jindex raw ''worker_key'') (\<lambda>worker_raw.
          bindE (if \<not> py_truthy worker_raw then Inr None
            else case worker_raw of JStr s \<Rightarrow> bindE (worker_key_of s) (\<lambda>w. Inr (Some w))
              | _ \<Rightarrow> Inl (ValueError (py_repr worker_raw @ '' is not a valid ExecutorWorkerKey''))) (\<lambda>worker.
          bindE (jindex raw ''reasoning_effort'') (\<lambda>effort.
          bindE (jindex raw ''revision'') (\<lambda>revision.
          Inr (Some \<lparr>pv_project_id = (case project of JStr s \<Rightarrow> s | _ \<Rightarrow> py_repr project), pv_mode = mode, pv_worker_key = worker,
            pv_reasoning_effort = jstr_of effort, pv_revision = (case revision of JInt i \<Rightarrow> i | _ \<Rightarrow> 0),
            pv_profile_id = jstr_of (jget raw ''profile_id''), pv_model = None\<rparr>))))))))
      | _ \<Rightarrow> Inl (ValueError ''invalid executor preference snapshot''))"

definition format_preference_label :: "preference_view \<Rightarrow> string" where
  "format_preference_label v =
     (case pv_model v of
        Some model \<Rightarrow>
          (let label = model @ '' . '' @ (case pv_profile_id v of None \<Rightarrow> ''None'' | Some i \<Rightarrow> i)
           in case pv_reasoning_effort v of Some e \<Rightarrow> if e = [] then label else label @ '' . '' @ e | None \<Rightarrow> label)
      | None \<Rightarrow>
          (case (is_auto v, pv_worker_key v) of
             (False, Some w) \<Rightarrow>
               (let label = (case pv_profile_id v of
                    Some i \<Rightarrow> if i = [] then worker_label w else i @ '' . '' @ worker_label w | None \<Rightarrow> worker_label w)
                in if w \<in> {WK_GROK, WK_KIMI} then label else label @ '' . '' @ or_default (pv_reasoning_effort v))
           | _ \<Rightarrow> ''Routing (automatic)''))"

section \<open>A pinned model keeps its meaning\<close>

definition valid_matrix :: "json_obj \<Rightarrow> bool" where
  "valid_matrix m \<longleftrightarrow> (\<forall>(slot, v)\<in>set m. map_of SLOT_ROLES slot \<noteq> None \<and> (\<exists>a. assignment_ok a \<and> v = dump_assignment a))"

lemma validate_dump [simp]: "assignment_ok a \<Longrightarrow> validate_assignment (dump_assignment a) = Inr a"
  by (cases a; cases "ma_reasoning_effort a")
    (simp_all add: validate_assignment_def dump_assignment_def make_assignment_def jget_def opt_json_def)

lemma make_assignment_ok: "make_assignment i m e r = Inr a \<Longrightarrow> assignment_ok a \<and>
    a = \<lparr>ma_profile_id = i, ma_model = m, ma_reasoning_effort = e, ma_content_revision = r\<rparr>"
  by (auto simp: make_assignment_def Let_def split: if_splits)

lemma validated_assignment_ok: "validate_assignment raw = Inr a \<Longrightarrow> assignment_ok a"
  by (auto simp: validate_assignment_def dest: make_assignment_ok split: json.splits if_splits option.splits)

lemma mapE_in_place: "(\<And>x. x \<in> set xs \<Longrightarrow> f x = Inr x) \<Longrightarrow> mapE f xs = Inr xs"
  by (induction xs) auto

lemma snapshot_is_valid:
  assumes "assignment_snapshot (JObj m) = Inr xs"
  shows "valid_matrix xs"
  unfolding valid_matrix_def
proof (rule ballI, clarify)
  fix slot v
  assume "(slot, v) \<in> set xs"
  with assms have "\<exists>x\<in>set m. (\<lambda>(slot, raw). bindE (validate_assignment raw) (\<lambda>a. Inr (slot, dump_assignment a))) x = Inr (slot, v)"
    by (intro mapE_members [of _ m xs]) (auto simp: assignment_snapshot_def split: if_splits)
  then obtain raw a where "(slot, raw) \<in> set m" "validate_assignment raw = Inr a" "v = dump_assignment a"
    by (auto simp: res_simps)
  moreover have "map_of SLOT_ROLES k \<noteq> None" if "(k, y) \<in> set m" for k y
    using assms that by (force simp: assignment_snapshot_def split: if_splits)
  ultimately show "map_of SLOT_ROLES slot \<noteq> None \<and> (\<exists>a. assignment_ok a \<and> v = dump_assignment a)"
    using validated_assignment_ok by blast
qed

lemma valid_snapshot: "valid_matrix m \<Longrightarrow> assignment_snapshot (JObj m) = Inr m"
  by (force simp: assignment_snapshot_def valid_matrix_def intro!: mapE_in_place)

lemma set_update_subset: "set (AList.update k v m) \<subseteq> insert (k, v) (set m)"
  by (induction m) auto

lemma valid_matrix_jput:
  "valid_matrix m \<Longrightarrow> map_of SLOT_ROLES slot \<noteq> None \<Longrightarrow> assignment_ok a \<Longrightarrow> valid_matrix (jput m slot (dump_assignment a))"
  using set_update_subset [of slot "dump_assignment a" m] by (fastforce simp: valid_matrix_def jput_def)

lemma valid_pin:
  assumes "valid_matrix m" and "map_of m slot = Some (dump_assignment a)" and "assignment_ok a"
  shows "pinned_assignment [(MATRIX_KEY, JObj m)] (Some slot) = Inr (Some a)"
proof -
  have "map_of SLOT_ROLES slot \<noteq> None" using assms(1,2) by (auto simp: valid_matrix_def dest!: map_of_SomeD)
  then show ?thesis using assms by (simp add: pinned_assignment_def valid_snapshot)
qed

lemma get_preference_update:
  "get_preference d project \<noteq> None \<Longrightarrow> pref_project_id row = project \<Longrightarrow>
     get_preference (d\<lparr>db_preferences := update_row pref_project_id project (\<lambda>_. row) (db_preferences d)\<rparr>) project = Some row"
proof -
  assume found: "get_preference d project \<noteq> None" and "pref_project_id row = project"
  have "find (\<lambda>r. pref_project_id r = project) (map (\<lambda>r. if pref_project_id r = project then row else r) rows) =
      (if find (\<lambda>r. pref_project_id r = project) rows = None then None else Some row)" for rows
    using \<open>pref_project_id row = project\<close> by (induction rows) auto
  then show ?thesis using found by (simp add: get_preference_def find_row_def update_row_def)
qed

lemma ensure_row:
  assumes "ensure_preference_row project d = (row, d1)"
  shows "get_preference d1 project = Some row" and "pref_project_id row = project"
  using assms
  by (auto simp: ensure_preference_row_def get_preference_def find_row_def blank_preference_def find_append_None
      split: option.splits dest: find_SomeD)

lemma write_preference_cases:
  assumes "write_preference project user expected change d = Inr (row', d')"
    and "\<And>row row1. change row = Inr row1 \<Longrightarrow> pref_project_id row1 = pref_project_id row"
  obtains row d1 row1 where "ensure_preference_row project d = (row, d1)" and "pref_revision row = expected"
    and "change row = Inr row1" and "row' = row1\<lparr>pref_revision := expected + 1, pref_updated_by_user_id := Some user\<rparr>"
    and "get_preference d' project = Some row'"
proof -
  obtain row d1 where ens: "ensure_preference_row project d = (row, d1)" by (cases "ensure_preference_row project d")
  from assms(1) ens obtain row1 where rest: "pref_revision row = expected" "change row = Inr row1"
      "row' = row1\<lparr>pref_revision := expected + 1, pref_updated_by_user_id := Some user\<rparr>"
      "d' = d1\<lparr>db_preferences := update_row pref_project_id project (\<lambda>_. row') (db_preferences d1)\<rparr>"
    by (auto simp: write_preference_def res_simps Let_def split: if_splits)
  have "get_preference d' project = Some row'"
    unfolding rest(4) using ensure_row [OF ens] assms(2) [OF rest(2)] rest(3)
    by (intro get_preference_update) simp_all
  then show ?thesis by (rule that [OF ens rest(1-3)])
qed

lemma assign_slot_keeps_project: "assign_slot rv slot chosen row = Inr row1 \<Longrightarrow> pref_project_id row1 = pref_project_id row"
  by (auto simp: assign_slot_def res_simps split: option.splits)

lemma slot_role_known: "eligible_profiles b slot = Inr ps \<Longrightarrow> map_of SLOT_ROLES slot \<noteq> None"
  by (auto simp: eligible_profiles_def split: option.splits)

lemma set_assignment_cases:
  assumes "set_assignment rv b project slot (Some i) expected user d = Inr d'"
  obtains eligible p a row where "eligible_profiles b slot = Inr eligible" and "find (\<lambda>p. pp_id p = i) eligible = Some p"
    and "make_assignment (pp_id p) (pp_model p) (rp_reasoning_effort p) (rv_assignment rv p) = Inr a"
    and "get_preference d' project = Some row" and "pref_revision row = expected + 1"
    and "valid_matrix (pref_model_assignments row)" and "map_of (pref_model_assignments row) slot = Some (dump_assignment a)"
proof -
  obtain eligible where el: "eligible_profiles b slot = Inr eligible"
    using assms by (auto simp: set_assignment_def res_simps)
  obtain p row where p: "find (\<lambda>p. pp_id p = i) eligible = Some p"
      and w: "write_preference project user expected (assign_slot rv slot (Some p)) d = Inr (row, d')"
    using assms el by (cases "find (\<lambda>p. pp_id p = i) eligible") (auto simp: set_assignment_def Let_def res_simps)
  obtain row0 d0 row1 where step: "assign_slot rv slot (Some p) row0 = Inr row1"
      "row = row1\<lparr>pref_revision := expected + 1, pref_updated_by_user_id := Some user\<rparr>"
      "get_preference d' project = Some row"
    by (rule write_preference_cases [OF w assign_slot_keeps_project])
  then obtain xs a where snap: "assignment_snapshot (JObj (pref_model_assignments row0)) = Inr xs"
      and a: "make_assignment (pp_id p) (pp_model p) (rp_reasoning_effort p) (rv_assignment rv p) = Inr a"
      and row: "pref_model_assignments row = jput xs slot (dump_assignment a)"
    by (auto simp: assign_slot_def res_simps split: if_splits)
  have "valid_matrix (pref_model_assignments row)"
    unfolding row using valid_matrix_jput [OF snapshot_is_valid [OF snap] slot_role_known [OF el]] make_assignment_ok [OF a] by blast
  moreover have "pref_revision row = expected + 1" using step(2) by simp
  ultimately show ?thesis using row by (intro that [OF el p a step(3)]) simp_all
qed

text \<open>
  C40. A pinned model keeps its meaning. Once an owner has pinned a profile to a slot, the stored
  choice is read back as written and resolves to that profile; under any later configuration it
  resolves to a profile with the same identifier, model and effort whose revision still matches, or
  it is refused. It is never resolved to another model.
\<close>

theorem pinned_model_keeps_its_meaning:
  assumes "set_assignment rv b project slot (Some i) expected user d = Inr d'"
  shows "\<exists>row a p. get_preference d' project = Some row \<and> pref_revision row = expected + 1 \<and> pp_id p = i \<and>
    pinned_assignment [(MATRIX_KEY, JObj (pref_model_assignments row))] (Some slot) = Inr (Some a) \<and>
    assignment_profile rv a b slot = Inr p \<and>
    (\<forall>b' p'. assignment_profile rv a b' slot = Inr p' \<longrightarrow>
       p' \<in> set (bd_profiles b') \<and> pp_id p' = i \<and> pp_model p' = pp_model p \<and>
       rp_reasoning_effort p' = rp_reasoning_effort p \<and>
       rv_assignment rv p \<in> {rv_assignment rv p', rv_content rv p'})"
proof -
  obtain eligible p a row where el: "eligible_profiles b slot = Inr eligible" and p: "find (\<lambda>p. pp_id p = i) eligible = Some p"
      and a: "make_assignment (pp_id p) (pp_model p) (rp_reasoning_effort p) (rv_assignment rv p) = Inr a"
      and row: "get_preference d' project = Some row" "pref_revision row = expected + 1"
        "valid_matrix (pref_model_assignments row)" "map_of (pref_model_assignments row) slot = Some (dump_assignment a)"
    by (rule set_assignment_cases [OF assms])
  have fields: "assignment_ok a" "ma_profile_id a = i" "ma_model a = pp_model p"
      "ma_reasoning_effort a = rp_reasoning_effort p" "ma_content_revision a = rv_assignment rv p"
    using make_assignment_ok [OF a] find_SomeD [OF p] by auto
  have "assignment_profile rv a b slot = Inr p"
    using el p fields by (simp add: assignment_profile_def assignment_matches_def)
  moreover have "p' \<in> set (bd_profiles b') \<and> pp_id p' = i \<and> pp_model p' = pp_model p \<and>
       rp_reasoning_effort p' = rp_reasoning_effort p \<and> rv_assignment rv p \<in> {rv_assignment rv p', rv_content rv p'}"
    if "assignment_profile rv a b' slot = Inr p'" for b' p'
    using that fields
    by (auto simp: assignment_profile_def res_simps eligible_profiles_def assignment_matches_def
        split: option.splits if_splits dest: find_SomeD)
  ultimately show ?thesis
    using row fields valid_pin [OF row(3,4) fields(1)] find_SomeD [OF p] by blast
qed

section \<open>Choices are fenced by their revision\<close>

text \<open>
  What the three writers promise: a choice succeeds only under the revision it was shown, the row
  then has the next one, and the rows of other projects stay.
\<close>

locale fenced_writer =
  fixes revision_of :: "'s \<Rightarrow> int" and store :: "int \<Rightarrow> 's \<Rightarrow> error + 'a \<times> 's"
  assumes write_needs_revision: "store expected s = Inr r \<Longrightarrow> revision_of s = expected"
    and write_advances: "store expected s = Inr (x, s') \<Longrightarrow> revision_of s' = expected + 1"
begin

lemma second_write_refused: "store expected s = Inr (x, s') \<Longrightarrow> \<exists>e. store expected s' = Inl e"
  using write_needs_revision [of expected s'] write_advances [of expected s x s'] by (cases "store expected s'") auto

end

definition preference_revision :: "string \<Rightarrow> db \<Rightarrow> int" where
  "preference_revision project d = (case get_preference d project of None \<Rightarrow> 1 | Some row \<Rightarrow> pref_revision row)"

lemma ensured_revision: "ensure_preference_row project d = (row, d1) \<Longrightarrow> pref_revision row = preference_revision project d"
  by (auto simp: ensure_preference_row_def preference_revision_def blank_preference_def split: option.splits)

lemma write_preference_fenced:
  assumes "write_preference project user expected change d = Inr (row', d')"
    and "\<And>row row1. change row = Inr row1 \<Longrightarrow> pref_project_id row1 = pref_project_id row"
  shows "preference_revision project d = expected" and "preference_revision project d' = expected + 1"
proof -
  obtain row d1 row1 where w: "ensure_preference_row project d = (row, d1)" "pref_revision row = expected"
      "row' = row1\<lparr>pref_revision := expected + 1, pref_updated_by_user_id := Some user\<rparr>"
      "get_preference d' project = Some row'"
    using write_preference_cases [OF assms] by blast
  then show "preference_revision project d = expected" and "preference_revision project d' = expected + 1"
    using ensured_revision [OF w(1)] by (simp_all add: preference_revision_def)
qed

text \<open>The choices an owner can make, and the operation each of them calls.\<close>

datatype owner_choice =
    ChooseAuto
  | ChooseWorker worker_key "string option" "string option"
  | ChooseModel string "string option"

fun apply_choice ::
  "revisions \<Rightarrow> config_bundle \<Rightarrow> string \<Rightarrow> int \<Rightarrow> owner_choice \<Rightarrow> int \<Rightarrow> db \<Rightarrow> error + preference_view option \<times> db" where
  "apply_choice rv b project user ChooseAuto expected d =
     bindE (set_auto_preference project user expected d) (\<lambda>(v, d'). Inr (Some v, d'))"
| "apply_choice rv b project user (ChooseWorker key effort profile) expected d =
     bindE (set_worker_preference b project user expected key effort profile d) (\<lambda>(v, d'). Inr (Some v, d'))"
| "apply_choice rv b project user (ChooseModel slot profile) expected d =
     bindE (set_assignment rv b project slot profile expected user d) (\<lambda>d'. Inr (None, d'))"

lemma apply_choice_writes:
  assumes "apply_choice rv b project user choice expected d = Inr (v, d')"
  obtains change row where "write_preference project user expected change d = Inr (row, d')"
    and "\<And>row row1. change row = Inr row1 \<Longrightarrow> pref_project_id row1 = pref_project_id row"
proof (cases choice)
  case ChooseAuto
  with assms show ?thesis by (auto simp: set_auto_preference_def res_simps intro: that)
next
  case (ChooseWorker key effort profile)
  with assms show ?thesis
    by (auto simp: set_worker_preference_def res_simps split: option.splits if_splits intro: that)
next
  case (ChooseModel slot profile)
  with assms obtain chosen row where "write_preference project user expected (assign_slot rv slot chosen) d = Inr (row, d')"
    by (auto simp: set_assignment_def Let_def res_simps split: if_splits)
  then show ?thesis by (rule that [OF _ assign_slot_keeps_project])
qed

interpretation owner: fenced_writer "preference_revision project" "apply_choice rv b project user choice"
  for rv b project user choice
proof
  fix expected d r
  assume "apply_choice rv b project user choice expected d = Inr r"
  then obtain v d' where "apply_choice rv b project user choice expected d = Inr (v, d')" by (cases r) auto
  then show "preference_revision project d = expected"
    by (rule apply_choice_writes) (rule write_preference_fenced(1))
next
  fix expected d v d'
  assume "apply_choice rv b project user choice expected d = Inr (v, d')"
  then show "preference_revision project d' = expected + 1"
    by (rule apply_choice_writes) (rule write_preference_fenced(2))
qed

text \<open>Two choices made on the same options: the second is refused, whoever made it.\<close>

lemma second_choice_is_refused:
  assumes "apply_choice rv b project user choice expected d = Inr (v, d')"
  shows "\<exists>e. apply_choice rv' b' project user' choice' expected d' = Inl e"
proof -
  have "preference_revision project d' = expected + 1" by (rule owner.write_advances [OF assms])
  then have "apply_choice rv' b' project user' choice' expected d' \<noteq> Inr r" for r
    using owner.write_needs_revision [of rv' b' project user' choice' expected d' r] by auto
  then show ?thesis by (cases "apply_choice rv' b' project user' choice' expected d'") auto
qed

text \<open>
  A model pinned for the executor outlives a later choice of automatic routing, and its view names
  no worker, so that a run without its own snapshot finds it unresolvable.
\<close>

lemma pinned_view:
  assumes "map_of (pref_model_assignments row) ''executor'' \<noteq> None" and "preference_from_row row = Inr v"
  shows "\<not> is_auto v" and "resolve_route_pin v b = None"
  using assms by (auto simp: preference_from_row_def is_auto_def resolve_route_pin_def res_simps)

lemma auto_choice_keeps_the_pinned_model:
  assumes "get_preference d project = Some row" and "map_of (pref_model_assignments row) ''executor'' \<noteq> None"
    and "set_auto_preference project user expected d = Inr (v, d')"
  shows "\<not> is_auto v"
proof -
  from assms(1,3) have "preference_from_row (row\<lparr>pref_mode := ''auto'', pref_worker_key := None, pref_profile_id := None,
      pref_reasoning_effort := None, pref_revision := pref_revision row + 1, pref_updated_by_user_id := Some user\<rparr>) = Inr v"
    by (auto simp: set_auto_preference_def write_preference_def ensure_preference_row_def res_simps Let_def split: if_splits)
  then show ?thesis by (rule pinned_view(1) [rotated]) (use assms(2) in simp)
qed

definition sample_bundle :: config_bundle where
  "sample_bundle = \<lparr>bd_projects = [], bd_profiles = [sample_config ''a'' ''x'' []],
     bd_topics = \<lparr>tr_topics = [], tr_system_topics = []\<rparr>, bd_sandboxes = [], bd_revision = ''r''\<rparr>"

definition sample_revisions :: revisions where
  "sample_revisions = \<lparr>rv_content = \<lambda>p. replicate 64 CHR ''c'', rv_assignment = \<lambda>p. replicate 64 CHR ''a''\<rparr>"

definition chosen_model_reads_back :: "error + db \<Rightarrow> bool" where
  "chosen_model_reads_back r =
     (case r of Inl _ \<Rightarrow> False
      | Inr d \<Rightarrow> (case get_preference d ''demo'' of None \<Rightarrow> False | Some row \<Rightarrow> pref_revision row = 2))"

theorem pinned_model_keeps_its_meaning_witness:
  "\<exists>d' row a p. set_assignment sample_revisions sample_bundle ''demo'' ''executor'' (Some ''a'') 1 7 sample_db = Inr d' \<and>
     get_preference d' ''demo'' = Some row \<and> pref_revision row = 2 \<and> pp_id p = ''a'' \<and>
     pinned_assignment [(MATRIX_KEY, JObj (pref_model_assignments row))] (Some ''executor'') = Inr (Some a) \<and>
     assignment_profile sample_revisions a sample_bundle ''executor'' = Inr p"
proof -
  have "chosen_model_reads_back (set_assignment sample_revisions sample_bundle ''demo'' ''executor'' (Some ''a'') 1 7 sample_db)"
    by code_simp
  then obtain d' where run: "set_assignment sample_revisions sample_bundle ''demo'' ''executor'' (Some ''a'') 1 7 sample_db = Inr d'"
    by (auto simp: chosen_model_reads_back_def split: sum.splits)
  from pinned_model_keeps_its_meaning [OF run] run show ?thesis by auto
qed

end
