(* ===== verification/Provider_Routing.thy ===== *)
theory Provider_Routing
  imports Executor_Preference Provider_Health Worker Controls
begin

text \<open>
  \<^verbatim>\<open>providers/routing.py\<close>: the claim of a step that calls a provider. A pass over the queued steps
  plans each route (attempts, context, pins and fallbacks), asks the policy, reserves budget for the
  first profile that has some, and records the decision; the step is then leased or its run blocked.
  The pass is one transaction: an exception that is not caught undoes all of it, while a refused
  reservation is caught within it and leaves the notes of soft limits it has written. The size of
  the texts of a request, the stored discussion context and the execution constraints come from
  other parts of the program and are arguments; texts shown to the owner are transliterated.
\<close>

section \<open>Settings and plans\<close>

record routing_settings =
  rg_limits :: hard_limits
  rg_provider_attempts :: int
  rg_disk :: disk_settings
  rg_default_executor :: "string option"

record route_env =
  env_settings :: routing_settings
  env_bundle :: config_bundle
  env_revisions :: revisions
  env_health :: health_tables
  env_probe :: free_space_probe
  env_text_chars :: "uuid \<Rightarrow> int"
  env_work_context :: "db \<Rightarrow> uuid \<Rightarrow> json \<Rightarrow> error + nat list"
  env_constraint_chars :: "string option \<Rightarrow> nat option"

definition PROVIDER_STEP_ROLES :: "(string \<times> provider_role) list" where
  "PROVIDER_STEP_ROLES =
     [(''research_execute'', ROLE_EXECUTOR), (''synthesize'', ROLE_SUMMARIZER), (''review'', ROLE_REVIEWER),
      (''execute_code'', ROLE_EXECUTOR), (''execute_agent'', ROLE_EXECUTOR)]"

definition SANDBOX_STEPS :: "string set" where
  "SANDBOX_STEPS = {''execute_code'', ''execute_agent''}"

definition CHAT_TASK :: string where
  "CHAT_TASK = ''discussion_agent_internal''"

text \<open>A route that ends in a blocked run, with the decision recorded before it when there is one.\<close>

datatype blocked = Blocked string bool "string option" "(routing_request \<times> json_obj) option"

definition bindR :: "error + (blocked + 'a) \<Rightarrow> ('a \<Rightarrow> error + (blocked + 'b)) \<Rightarrow> error + (blocked + 'b)" where
  "bindR m f = bindE m (\<lambda>x. case x of Inl b \<Rightarrow> Inr (Inl b) | Inr a \<Rightarrow> f a)"

definition block :: "string \<Rightarrow> bool \<Rightarrow> string option \<Rightarrow> error + (blocked + 'a)" where
  "block category quota summary = Inr (Inl (Blocked category quota summary None))"

definition go :: "'a \<Rightarrow> error + (blocked + 'a)" where
  "go x = Inr (Inr x)"

record route_plan =
  pl_role :: provider_role
  pl_task_type :: string
  pl_required :: "capability set"
  pl_project_caps :: "capability set option"
  pl_input :: int
  pl_output :: int
  pl_failed :: "string option"
  pl_fallbacks :: "string list"
  pl_chat :: "string option"
  pl_family :: "string set option"
  pl_preference_revision :: "int option"
  pl_worker :: "string option"
  pl_pin :: "route_pin option"
  pl_slot :: "string option"
  pl_matrix :: "model_assignment option"
  pl_matrix_profile :: "profile_config option"
  pl_trusted :: "string option"
  pl_default :: "string option"

section \<open>Counting and estimating\<close>

definition decision_count :: "db \<Rightarrow> uuid \<Rightarrow> int" where
  "decision_count d sid = int (length (filter (\<lambda>x. rd_step_id x = Some sid) (db_decisions d)))"

text \<open>Selected decisions joined with their reservations; one without a reservation counts for epoch 0.\<close>

definition provider_call_count :: "db \<Rightarrow> uuid \<Rightarrow> int \<Rightarrow> int" where
  "provider_call_count d sid epoch =
     int (sum_list (map (\<lambda>x.
       let matching = filter (\<lambda>r. br_step_id r = rd_step_id x \<and> br_provider_attempt r = rd_provider_attempt x) (db_reservations d)
       in if matching = [] then (if epoch = 0 then 1 else 0)
          else length (filter (\<lambda>r. br_budget_epoch r = epoch) matching))
       (filter (\<lambda>x. rd_step_id x = Some sid \<and> rd_selected_profile_id x \<noteq> None) (db_decisions d))))"

definition capability_of :: "string \<Rightarrow> error + capability" where
  "capability_of s =
     (case find (\<lambda>c. capability_value c = s) ALL_CAPABILITIES of
        Some c \<Rightarrow> Inr c
      | None \<Rightarrow> Inl (ValueError (py_repr_string s @ '' is not a valid Capability'')))"

definition profile_states :: "route_env \<Rightarrow> string \<Rightarrow> db \<Rightarrow> error + (string \<rightharpoonup> profile_state)" where
  "profile_states env revision d =
     foldE (\<lambda>m p.
       bindE (effective_health (env_health env) (routed_profile.truncate p) revision (wall_now d)) (\<lambda>st.
       Inr (m(pp_id p \<mapsto> st\<lparr>
         eps_active_leases := int (active_count d (\<lambda>s. step_executor_profile_id s = Some (pp_id p))),
         eps_queue_depth := int (length (filter (\<lambda>s. step_executor_profile_id s = Some (pp_id p) \<and>
            step_status s = S_QUEUED) (db_steps d)))\<rparr>))))
     Map.empty (bd_profiles (env_bundle env))"

definition estimated_input_tokens :: "route_env \<Rightarrow> step \<Rightarrow> run \<Rightarrow> int" where
  "estimated_input_tokens env s r =
     (let context = (case jget (step_payload s) ''context_estimate_tokens'' of
            JInt n \<Rightarrow> if n > 0 then n * 4 else 0 | _ \<Rightarrow> 0);
          characters = env_text_chars env (step_id s) + context + int (length (run_policy_revision r)) +
            int (length (case run_prompt_revision r of None \<Rightarrow> [] | Some x \<Rightarrow> x))
      in max 1 ((characters + 3) div 4))"

definition ceil4 :: "nat \<Rightarrow> int" where
  "ceil4 n = int ((n + 3) div 4)"

section \<open>Planning a route\<close>

text \<open>The profile whose failure led here, and the fallbacks it is configured with.\<close>

definition failure_fence :: "route_env \<Rightarrow> step \<Rightarrow> int \<Rightarrow> error + (blocked + string option \<times> string list)" where
  "failure_fence env s attempt =
     (let retry = jget (step_payload s) ''retry_failed_profile_id'';
          failed = (if attempt > 1 \<and> (is_JStr retry \<or> should_fallback_provider (step_failure_category s))
            then (case retry of JStr i \<Rightarrow> Some i | _ \<Rightarrow> step_executor_profile_id s) else None)
      in case failed of
           None \<Rightarrow> go (None, [])
         | Some i \<Rightarrow>
             (case find (\<lambda>p. pp_id p = i) (bd_profiles (env_bundle env)) of
                None \<Rightarrow> block ''project_pin_unresolved'' False (Some ''Previously selected provider profile is unavailable.'')
              | Some p \<Rightarrow>
                  if rp_fallback_profile_ids p = [] then go (None, [])
                  else go (Some i, rp_fallback_profile_ids p)))"

fun is_value_error :: "error \<Rightarrow> bool" where
  "is_value_error (ValueError _) = True"
| "is_value_error (RegistryError _) = True"
| "is_value_error _ = False"

text \<open>The size of the request, its output allowance, and the plan everything else refines.\<close>

definition sized_plan ::
  "route_env \<Rightarrow> db \<Rightarrow> step \<Rightarrow> run \<Rightarrow> task \<Rightarrow> int \<Rightarrow> provider_role \<Rightarrow> capability list \<Rightarrow> capability set option \<Rightarrow>
     error + (blocked + route_plan)" where
  "sized_plan env d s r t attempt role required project_caps =
     (let limits = rg_limits (env_settings env);
          expected = (let own = jget (step_payload s) ''chat_work_spec_revision''
            in if py_truthy own then own else jget (run_selected_route r) ''chat_work_spec_revision'')
      in case env_work_context env d (task_id t) expected of
           Inl e \<Rightarrow> if is_value_error e then block ''chat_work_context_invalid'' False None else Inl e
         | Inr context \<Rightarrow>
             let facts = (if step_type s = ''execute_code''
                   then env_constraint_chars env (case task_project_id t of Some i \<Rightarrow> if i = [] then None else Some i | None \<Rightarrow> None)
                   else None);
                 estimated = estimated_input_tokens env s r + ceil4 (sum_list context) +
                   (case facts of None \<Rightarrow> 0 | Some n \<Rightarrow> ceil4 n)
             in if context \<noteq> [] \<and> estimated > hl_provider_call_input_tokens limits
                then block ''chat_work_context_budget_exceeded'' False
                  (Some ''Full discussion context exceeds the provider input budget.'')
                else
                  let requested = remaining_output_allowance d (task_id t) (step_id s) (task_budget_epoch t)
                        (hl_provider_call_output_tokens limits) limits
                  in if requested = 0 then block ''budget_exhausted'' True None
                     else bindR (failure_fence env s attempt) (\<lambda>(failed, fallbacks).
                       go \<lparr>pl_role = role,
                         pl_task_type = (if task_type t = CHAT_TASK then ''architecture'' else task_type t),
                         pl_required = set required, pl_project_caps = project_caps, pl_input = estimated,
                         pl_output = requested, pl_failed = failed, pl_fallbacks = fallbacks, pl_chat = None,
                         pl_family = None, pl_preference_revision = None, pl_worker = None, pl_pin = None,
                         pl_slot = None, pl_matrix = None, pl_matrix_profile = None, pl_trusted = None,
                         pl_default = None\<rparr>))"

definition project_capabilities :: "route_env \<Rightarrow> task \<Rightarrow> error + capability set option" where
  "project_capabilities env t =
     (case task_project_id t of
        None \<Rightarrow> Inr None
      | Some i \<Rightarrow> bindE (registry_get rj_id ''project'' (bd_projects (env_bundle env)) i)
          (\<lambda>p. Inr (Some (rj_allowed_capabilities p))))"

definition open_plan ::
  "route_env \<Rightarrow> db \<Rightarrow> step \<Rightarrow> run \<Rightarrow> task \<Rightarrow> int \<Rightarrow> error + (blocked + route_plan \<times> (string \<rightharpoonup> profile_state))" where
  "open_plan env d s r t attempt =
     (if provider_call_count d (step_id s) (task_budget_epoch t) \<ge> rg_provider_attempts (env_settings env)
      then block ''provider_attempts_exhausted'' False None
      else
        bindE (mapE capability_of (step_required_capabilities s)) (\<lambda>required.
        bindE (project_capabilities env t) (\<lambda>project_caps.
        bindE (profile_states env (run_configuration_revision r) d) (\<lambda>states.
        bindE (case map_of PROVIDER_STEP_ROLES (step_type s) of None \<Rightarrow> Inl (KeyError (step_type s)) | Some x \<Rightarrow> Inr x) (\<lambda>role.
        bindR (sized_plan env d s r t attempt role required project_caps) (\<lambda>plan. go (plan, states)))))))"

text \<open>A conversation has one exact responder, under an internal purpose, and no fallback.\<close>

definition conversation_provider_role :: "json_obj \<Rightarrow> error + provider_role" where
  "conversation_provider_role route =
     (let mode = jget_default route ''conversation_mode'' (JStr ''think'') in
      bindE (py_in_strings mode {''think'', ''lead''}) (\<lambda>known.
      if \<not> known then Inl (ValueError ''invalid conversation mode'')
      else Inr (if mode = JStr ''lead'' then ROLE_LEAD else ROLE_EXECUTOR)))"

definition chat_plan :: "route_env \<Rightarrow> step \<Rightarrow> run \<Rightarrow> task \<Rightarrow> route_plan \<Rightarrow> error + (blocked + route_plan)" where
  "chat_plan env s r t plan =
     (if jget (run_selected_route r) ''schema_version'' \<noteq> JStr ''discussion-chat-route.v1'' then go plan
      else
        case jget (run_selected_route r) ''trusted_profile_id'' of
          JStr i \<Rightarrow>
            if task_type t \<noteq> CHAT_TASK \<or> run_workflow_type r \<noteq> ''discussion_agent'' \<or> step_type s \<noteq> ''execute_agent'' \<or>
               pl_required plan \<noteq> {CAP_REPOSITORY_READ} \<or> i = []
            then block ''chat_route_invalid'' False None
            else (case conversation_provider_role (run_selected_route r) of
                Inl e \<Rightarrow> if is_value_error e then block ''chat_route_invalid'' False None else Inl e
              | Inr role \<Rightarrow>
                  (case find (\<lambda>p. pp_id p = i) (bd_profiles (env_bundle env)) of
                     None \<Rightarrow> block ''chat_profile_changed'' False None
                   | Some p \<Rightarrow>
                       bindE (py_in_strings (jget (run_selected_route r) ''profile_revision'')
                         {rv_assignment (env_revisions env) p, rv_content (env_revisions env) p}) (\<lambda>matches.
                       if \<not> matches then block ''chat_profile_changed'' False None
                       else go (plan\<lparr>pl_role := role, pl_chat := Some i, pl_family := Some {i},
                         pl_task_type := CONVERSATION_TASK_TYPE, pl_failed := None, pl_fallbacks := []\<rparr>))))
        | _ \<Rightarrow> block ''chat_route_invalid'' False None)"

text \<open>The exceptions the resolution of a pinned model is guarded against.\<close>

fun is_choice_error :: "error \<Rightarrow> bool" where
  "is_choice_error (KeyError _) = True"
| "is_choice_error (ExecutorPreferenceError _) = True"
| "is_choice_error e = is_value_error e"

definition pin_eligible :: "step \<Rightarrow> route_plan \<Rightarrow> bool" where
  "pin_eligible s plan = (step_type s \<in> SANDBOX_STEPS \<and> pl_chat plan = None)"

definition matrix_slot :: "step \<Rightarrow> run \<Rightarrow> route_plan \<Rightarrow> string option" where
  "matrix_slot s r plan =
     (if pl_chat plan \<noteq> None \<or> (pl_role plan = ROLE_EXECUTOR \<and> \<not> pin_eligible s plan) then None
      else slot_for_role (pl_role plan) (run_budget_mode r = ''strong''))"

definition stored_choice ::
  "route_env \<Rightarrow> db \<Rightarrow> step \<Rightarrow> run \<Rightarrow> task \<Rightarrow> route_plan \<Rightarrow>
     error + model_assignment option \<times> profile_config option \<times> preference_view option" where
  "stored_choice env d s r t plan =
     bindE (pinned_assignment (run_selected_route r) (matrix_slot s r plan)) (\<lambda>choice.
     bindE (case (choice, matrix_slot s r plan) of
         (Some a, Some slot) \<Rightarrow> bindE (assignment_profile (env_revisions env) a (env_bundle env) slot) (\<lambda>p. Inr (Some p))
       | _ \<Rightarrow> Inr None) (\<lambda>profile.
     bindE (if jhas (run_selected_route r) MATRIX_KEY then legacy_executor_preference (run_selected_route r)
         else (case task_project_id t of
             Some i \<Rightarrow> if pin_eligible s plan then bindE (load_preference d i) (\<lambda>v. Inr (Some v)) else Inr None
           | None \<Rightarrow> Inr None)) (\<lambda>preference.
     Inr (choice, profile, preference))))"

definition plain_request :: "route_env \<Rightarrow> run \<Rightarrow> route_plan \<Rightarrow> error + routing_request" where
  "plain_request env r plan =
     bindE (budget_mode_of (run_budget_mode r)) (\<lambda>mode.
     Inr \<lparr>rr_role = pl_role plan, rr_task_type = pl_task_type plan, rr_required_capabilities = pl_required plan,
       rr_project_allowed_capabilities = pl_project_caps plan, rr_budget_mode = mode,
       rr_estimated_input_tokens = pl_input plan, rr_max_output_tokens = pl_output plan,
       rr_remaining_cost_units = hl_task_cost_units (rg_limits (env_settings env)),
       rr_estimated_cost_hard = hl_estimated_cost_hard (rg_limits (env_settings env)),
       rr_trusted_profile_id = None, rr_failed_profile_id = None, rr_allowed_fallback_ids = [],
       rr_restrict_to_profile_ids = None, rr_requires_sandbox = False, rr_required_launch_mode = None\<rparr>)"

definition worker_json :: "preference_view \<Rightarrow> json" where
  "worker_json v = opt_json (map_option worker_key_value (pv_worker_key v))"

text \<open>A worker the owner pinned: only its profile and the fallbacks of its family, on every attempt.\<close>

definition worker_pin_plan ::
  "route_env \<Rightarrow> run \<Rightarrow> preference_view \<Rightarrow> route_plan \<Rightarrow> error + (blocked + route_plan)" where
  "worker_pin_plan env r v plan =
     (let plan1 = plan\<lparr>pl_preference_revision := Some (pv_revision v)\<rparr> in
      if is_auto v then go plan1
      else
        let plan2 = plan1\<lparr>pl_worker := map_option worker_key_value (pv_worker_key v)\<rparr>
        in case resolve_route_pin v (env_bundle env) of
             None \<Rightarrow>
               bindE (plain_request env r plan2) (\<lambda>q.
               Inr (Inl (Blocked ''project_pin_unresolved'' False
                 (Some ''Project /model pin cannot be resolved to an enabled executor profile.'')
                 (Some (q, [(''project_pin_mode'', JStr (preference_mode_value (pv_mode v))), (''project_pin_worker'', worker_json v),
                   (''preference_revision'', JInt (pv_revision v)), (''project_pin_unresolved'', JBool True)])))))
           | Some pin \<Rightarrow>
               bindE (if pin_allow_same_family_fallbacks pin
                   then same_family_fallback_ids (env_bundle env) (pin_worker_key pin) (pin_trusted_profile_id pin)
                   else Inr []) (\<lambda>same_family.
               let family = insert (pin_trusted_profile_id pin) (set same_family);
                   kept = filter (\<lambda>i. i \<in> family) (pl_fallbacks plan2)
               in go (plan2\<lparr>pl_pin := Some pin, pl_family := Some family,
                    pl_failed := (if pl_failed plan2 \<noteq> None \<and> kept \<noteq> [] then pl_failed plan2 else None),
                    pl_fallbacks := (if pl_failed plan2 \<noteq> None then kept else same_family)\<rparr>)))"

definition choice_plan :: "route_env \<Rightarrow> db \<Rightarrow> step \<Rightarrow> run \<Rightarrow> task \<Rightarrow> route_plan \<Rightarrow> error + (blocked + route_plan)" where
  "choice_plan env d s r t plan =
     (case stored_choice env d s r t plan of
        Inl e \<Rightarrow>
          if is_choice_error e
          then block ''project_pin_unresolved'' False
            (Some ''Pinned project model is unavailable or its configuration changed.'')
          else Inl e
      | Inr (Some a, profile, _) \<Rightarrow>
          go (plan\<lparr>pl_slot := matrix_slot s r plan, pl_matrix := Some a, pl_matrix_profile := profile,
            pl_family := Some {ma_profile_id a}, pl_failed := None, pl_fallbacks := []\<rparr>)
      | Inr (None, _, preference) \<Rightarrow>
          (case preference of
             Some v \<Rightarrow> if pin_eligible s plan then worker_pin_plan env r v plan else go plan
           | None \<Rightarrow> go plan))"

text \<open>The configured default executor, when nothing else was chosen for a sandboxed step.\<close>

definition default_plan :: "route_env \<Rightarrow> step \<Rightarrow> route_plan \<Rightarrow> error + (blocked + route_plan)" where
  "default_plan env s plan =
     (let trusted = (case pl_chat plan of Some i \<Rightarrow> Some i
            | None \<Rightarrow> (case pl_matrix plan of Some a \<Rightarrow> Some (ma_profile_id a)
                | None \<Rightarrow> map_option pin_trusted_profile_id (pl_pin plan)))
      in case (trusted, rg_default_executor (env_settings env)) of
           (None, Some i) \<Rightarrow>
             if \<not> pin_eligible s plan then go (plan\<lparr>pl_trusted := None\<rparr>)
             else (case find (\<lambda>p. pp_id p = i) (bd_profiles (env_bundle env)) of
                 None \<Rightarrow> block ''default_executor_unavailable'' False (Some ''Configured default CLI executor is unavailable.'')
               | Some primary \<Rightarrow>
                   let family = insert (pp_id primary) (set (map pp_id (filter (\<lambda>c.
                         pp_id c \<in> set (rp_fallback_profile_ids primary) \<and> pp_provider c = pp_provider primary \<and>
                         pp_launch_mode c = LM_CLI \<and> ROLE_EXECUTOR \<in> rp_roles c) (bd_profiles (env_bundle env)))))
                   in go (plan\<lparr>pl_family := Some family, pl_trusted := Some (pp_id primary), pl_default := Some i,
                        pl_fallbacks := filter (\<lambda>x. x \<in> family) (pl_fallbacks plan)\<rparr>))
         | _ \<Rightarrow> go (plan\<lparr>pl_trusted := trusted\<rparr>))"

definition plan_route ::
  "route_env \<Rightarrow> db \<Rightarrow> step \<Rightarrow> run \<Rightarrow> task \<Rightarrow> int \<Rightarrow> error + (blocked + route_plan \<times> (string \<rightharpoonup> profile_state))" where
  "plan_route env d s r t attempt =
     bindR (open_plan env d s r t attempt) (\<lambda>(plan0, states).
     bindR (chat_plan env s r t plan0) (\<lambda>plan1.
     bindR (choice_plan env d s r t plan1) (\<lambda>plan2.
     bindR (default_plan env s plan2) (\<lambda>plan3.
     go (plan3, states)))))"

definition route_request :: "route_env \<Rightarrow> step \<Rightarrow> run \<Rightarrow> route_plan \<Rightarrow> error + routing_request" where
  "route_request env s r plan =
     bindE (plain_request env r plan) (\<lambda>q.
     Inr (q\<lparr>rr_trusted_profile_id := pl_trusted plan, rr_failed_profile_id := pl_failed plan,
       rr_allowed_fallback_ids := pl_fallbacks plan, rr_restrict_to_profile_ids := pl_family plan,
       rr_requires_sandbox := (step_type s \<in> SANDBOX_STEPS \<or>
         (case pl_matrix_profile plan of None \<Rightarrow> False | Some p \<Rightarrow> pp_launch_mode p = LM_CLI)),
       rr_required_launch_mode := Some (case pl_matrix_profile plan of Some p \<Rightarrow> pp_launch_mode p
         | None \<Rightarrow> if step_type s \<in> SANDBOX_STEPS then LM_CLI else LM_API)\<rparr>))"

section \<open>Recording a decision\<close>

definition evaluation_json :: "profile_evaluation \<Rightarrow> json" where
  "evaluation_json e = JObj [(''profile_id'', JStr (pe_profile_id e)), (''eligible'', JBool (pe_eligible e)),
     (''reasons'', JList (map (JStr \<circ> exclusion_reason_value) (pe_reasons e)))]"

definition capability_values :: "capability set \<Rightarrow> string list" where
  "capability_values cs = sort (map capability_value (filter (\<lambda>c. c \<in> cs) ALL_CAPABILITIES))"

definition persist_decision ::
  "run \<Rightarrow> step \<Rightarrow> provider_role \<Rightarrow> int \<Rightarrow> string option \<Rightarrow> policy_decision \<Rightarrow> routing_request \<Rightarrow> json_obj \<Rightarrow> db \<Rightarrow> error + db" where
  "persist_decision r s role attempt selected decision q pin_inputs d =
     (if \<exists>x\<in>set (db_decisions d). rd_step_id x = Some (step_id s) \<and> rd_provider_attempt x = attempt
      then Inl (IntegrityError ''uq_routing_decisions_step_attempt'')
      else
        let inputs = fold (\<lambda>(k, v) m. jput m k v) pin_inputs
              [(''task_type'', JStr (rr_task_type q)),
               (''required_capabilities'', JList (map JStr (capability_values (rr_required_capabilities q)))),
               (''budget_mode'', JStr (budget_mode_value (rr_budget_mode q))),
               (''evaluations'', JList (map evaluation_json (pd_evaluations decision)))]
        in Inr (d\<lparr>db_decisions := db_decisions d @ [\<lparr>rd_id = next_uuid d, rd_run_id = run_id r, rd_step_id = Some (step_id s),
               rd_provider_attempt = attempt,
               rd_decision_kind = (if rr_failed_profile_id q \<noteq> None then ''fallback'' else ''initial''),
               rd_role = provider_role_value role, rd_selected_profile_id = selected,
               rd_alternatives = map (\<lambda>(rank, i). JObj [(''profile_id'', JStr i), (''rank'', JInt (int rank))])
                 (enumerate 1 (pd_alternatives decision)),
               rd_inputs = inputs, rd_policy_revision = run_policy_revision r, rd_created_at = db_now d\<rparr>],
             next_uuid := Suc (next_uuid d)\<rparr>))"

definition pin_decision_inputs :: "route_plan \<Rightarrow> json_obj" where
  "pin_decision_inputs plan =
     (if pl_pin plan = None \<and> pl_family plan = None \<and> pl_preference_revision plan = None then []
      else
        (case pl_preference_revision plan of None \<Rightarrow> [] | Some n \<Rightarrow> [(''preference_revision'', JInt n)]) @
        (case pl_worker plan of None \<Rightarrow> [] | Some w \<Rightarrow> [(''project_pin_worker'', JStr w)]) @
        (case pl_pin plan of None \<Rightarrow> []
         | Some pin \<Rightarrow> [(''project_pin_mode'', JStr ''pin''), (''trusted_profile_id'', JStr (pin_trusted_profile_id pin))] @
             (case pin_model_override pin of None \<Rightarrow> [] | Some m \<Rightarrow> [(''model_override'', JStr m)]) @
             (case pin_reasoning_effort pin of None \<Rightarrow> [] | Some e \<Rightarrow> [(''reasoning_effort'', JStr e)])) @
        (case pl_family plan of None \<Rightarrow> []
         | Some ids \<Rightarrow> [(''restrict_to_profile_ids'', JList (map JStr (sorted_list_of_set ids)))]))"

definition decision_inputs :: "run \<Rightarrow> route_plan \<Rightarrow> json_obj" where
  "decision_inputs r plan =
     pin_decision_inputs plan @
     (case pl_matrix plan of None \<Rightarrow> []
      | Some a \<Rightarrow> [(''project_model_slot'', opt_json (pl_slot plan)), (''project_model_assignment'', dump_assignment a)]) @
     (case pl_chat plan of None \<Rightarrow> []
      | Some i \<Rightarrow> [(''chat_profile_id'', JStr i), (''chat_profile_revision'', jget (run_selected_route r) ''profile_revision'')]) @
     (case pl_default plan of None \<Rightarrow> [] | Some i \<Rightarrow> [(''default_executor_profile_id'', JStr i)])"

definition only_reasons :: "exclusion_reason set \<Rightarrow> policy_decision \<Rightarrow> bool" where
  "only_reasons rs decision = (\<exists>e\<in>set (pd_evaluations decision). pe_reasons e \<noteq> [] \<and> set (pe_reasons e) \<subseteq> rs)"

definition temporarily_unavailable :: "policy_decision \<Rightarrow> bool" where
  "temporarily_unavailable = only_reasons {X_CONCURRENCY, X_RATE_LIMITED}"

definition quota_exhausted :: "policy_decision \<Rightarrow> bool" where
  "quota_exhausted = only_reasons {X_QUOTA, X_BUDGET}"

section \<open>Blocking a run\<close>

definition route_summary :: "string \<Rightarrow> bool \<Rightarrow> string" where
  "route_summary category quota =
     (if category = ''budget_exhausted''
      then ''Vnutrennij byudzhet etapa ischerpan. Sohranyonnyj rezultat i rashody ne poteryany; '' @
           ''bezopasnyj ruchnoj povtor dostupen cherez aktualnuyu kartochku zadachi.''
      else if quota then ''Dostupnyj limit provajdera ischerpan; zadacha ozhidaet vozobnovleniya kvoty.''
      else ''Marshrutizator ne nashyol bezopasnogo dostupnogo ispolnitelya dlya etogo etapa.'')"

definition block_route :: "uuid \<Rightarrow> uuid \<Rightarrow> uuid \<Rightarrow> string \<Rightarrow> bool \<Rightarrow> string option \<Rightarrow> db \<Rightarrow> error + db" where
  "block_route sid rid tid category quota summary d =
     (let told = (case summary of None \<Rightarrow> route_summary category quota | Some x \<Rightarrow> x);
          payload = [(''category'', JStr category)];
          target = (if quota then T_QUOTA_EXHAUSTED else T_BLOCKED)
      in
      bindE (transition_step d sid S_BLOCKED ''routing_policy'' None payload) (\<lambda>d1.
      bindE (transition_run (upd_step sid (\<lambda>x. x\<lparr>step_failure_category := Some category, step_failure_summary := Some told\<rparr>) d1)
        rid R_BLOCKED ''routing_policy'' None payload) (\<lambda>d2.
      let d3 = upd_run rid (\<lambda>x. x\<lparr>run_failure_category := Some category, run_failure_summary := Some told\<rparr>) d2
      in case get_task d3 tid of
           None \<Rightarrow> Inl AssertionError
         | Some t \<Rightarrow>
             bindE (if task_status t \<noteq> target then transition_task d3 tid target ''routing_policy'' None payload else Inr d3) (\<lambda>d4.
             case get_task d4 tid of
               None \<Rightarrow> Inl AssertionError
             | Some t' \<Rightarrow> Inr (add_call (TerminalProjections (task_id t') (task_version t') rid) d4)))))"

section \<open>Reserving budget\<close>

text \<open>
  A refused reservation is caught inside the transaction, so the notes of the soft limits that were
  passed before the refusal stay.
\<close>

fun notes_until :: "uuid \<Rightarrow> (bool \<times> bool \<times> string \<times> string) list \<Rightarrow> db \<Rightarrow> db" where
  "notes_until tid [] d = d"
| "notes_until tid ((exceeded, hard, dimension, detail) # checks) d =
     (if \<not> exceeded then notes_until tid checks d
      else if hard then d
      else notes_until tid checks (note_budget_event tid ''budget.soft_overrun'' dimension detail d))"

definition sum_cap_checks ::
  "totals \<Rightarrow> totals \<Rightarrow> reservation_estimate \<Rightarrow> hard_limits \<Rightarrow> (bool \<times> bool \<times> string \<times> string) list" where
  "sum_cap_checks task_total step_total estimate limits =
     (let (task_in, task_out, task_cost, _) = task_total;
          (step_in, step_out, step_cost, _) = step_total;
          usage_hard = hl_usage_total_hard limits;
          cost_hard = hl_estimated_cost_hard limits
      in [(step_in + re_input_tokens estimate > hl_step_input_tokens limits, usage_hard, ''step_input_tokens'',
             ''step input-token limit exceeded''),
          (step_out + re_output_tokens estimate > hl_step_output_tokens limits, usage_hard, ''step_output_tokens'',
             ''step output-token limit exceeded''),
          (task_in + re_input_tokens estimate > hl_task_input_tokens limits, usage_hard, ''task_input_tokens'',
             ''task input-token limit exceeded''),
          (task_out + re_output_tokens estimate > hl_task_output_tokens limits, usage_hard, ''task_output_tokens'',
             ''task output-token limit exceeded''),
          (step_cost + re_cost_units estimate > hl_step_cost_units limits, cost_hard, ''step_cost_units'',
             ''step cost limit exceeded''),
          (task_cost + re_cost_units estimate > hl_task_cost_units limits, cost_hard, ''task_cost_units'',
             ''task cost limit exceeded'')])"

definition reserve_notes :: "task \<Rightarrow> uuid \<Rightarrow> reservation_estimate \<Rightarrow> hard_limits \<Rightarrow> db \<Rightarrow> db" where
  "reserve_notes t sid estimate limits d =
     (case enforce_call_caps estimate limits of
        Inl _ \<Rightarrow> d
      | Inr _ \<Rightarrow>
          let epoch = task_budget_epoch t
          in notes_until (task_id t)
               (sum_cap_checks
                 (add_totals (usage_totals d (Some (task_id t)) None (Some epoch)) (reserved_totals d (Some (task_id t)) None (Some epoch)))
                 (add_totals (usage_totals d None (Some sid) (Some epoch)) (reserved_totals d None (Some sid) (Some epoch)))
                 estimate limits) d)"

record refusals =
  rf_money_cap :: bool
  rf_unknown_cost :: bool
  rf_consent :: bool
  rf_goal :: bool

definition no_refusals :: refusals where
  "no_refusals = \<lparr>rf_money_cap = False, rf_unknown_cost = False, rf_consent = False, rf_goal = False\<rparr>"

definition refusal_of :: "string \<Rightarrow> refusals \<Rightarrow> refusals" where
  "refusal_of message f =
     (if py_startswith message ''explicit money cap cannot cover'' then f\<lparr>rf_consent := True\<rparr>
      else if py_startswith message ''explicit money cap cannot be certified'' then f\<lparr>rf_unknown_cost := True\<rparr>
      else if py_startswith message ''explicit money cap'' then f\<lparr>rf_money_cap := True\<rparr>
      else f)"

definition accounting_for_profile :: "revisions \<Rightarrow> profile_config \<Rightarrow> string \<Rightarrow> string \<Rightarrow> uuid option \<Rightarrow> accounting_context" where
  "accounting_for_profile rv p purpose kind horizon =
     \<lparr>ac_purpose = purpose, ac_attempt_kind = kind, ac_pricing_revision = Some (rv_content rv p),
      ac_currency = DEFAULT_ACCOUNTING_CURRENCY, ac_horizon_id = horizon\<rparr>"

definition profile_estimate :: "route_env \<Rightarrow> route_plan \<Rightarrow> profile_config \<Rightarrow> reservation_estimate" where
  "profile_estimate env plan p =
     estimate_reservation (provider_profile.truncate p)
       (min (pl_input plan) (hl_provider_call_input_tokens (rg_limits (env_settings env))))
       (min (pl_output plan) (case rp_output_limit p of Some m \<Rightarrow> if m = 0 then pl_output plan else m | None \<Rightarrow> pl_output plan))"

definition reserve_profile ::
  "route_env \<Rightarrow> step \<Rightarrow> run \<Rightarrow> task \<Rightarrow> int \<Rightarrow> route_plan \<Rightarrow> profile_config \<Rightarrow> db \<Rightarrow> error + budget_reservation \<times> db" where
  "reserve_profile env s r t attempt plan p d =
     reserve_budget (Some (task_id t)) (Some (run_id r)) (Some (step_id s)) (pp_id p) attempt (profile_estimate env plan p)
       (rg_limits (env_settings env)) False
       (Some (accounting_for_profile (env_revisions env) p (purpose_for_step_type (step_type s)) (attempt_kind_for_step s)
          (resolve_horizon_scope d (Some (task_id t)) None))) None
       (ceiling_is_admission_only (provider_profile.truncate p)) d"

definition note_ceiling :: "route_env \<Rightarrow> task \<Rightarrow> profile_config \<Rightarrow> db \<Rightarrow> db" where
  "note_ceiling env t p d =
     (if hl_explicit_money_cap_units (rg_limits (env_settings env)) \<noteq> None \<and>
         ceiling_is_admission_only (provider_profile.truncate p)
      then note_admission_only_ceiling (task_id t) (pp_id p) d else d)"

fun try_profiles ::
  "route_env \<Rightarrow> step \<Rightarrow> run \<Rightarrow> task \<Rightarrow> int \<Rightarrow> route_plan \<Rightarrow> string list \<Rightarrow> refusals \<Rightarrow> db \<Rightarrow>
     error + (profile_config \<times> budget_reservation) option \<times> refusals \<times> db" where
  "try_profiles env s r t attempt plan [] f d = Inr (None, f, d)"
| "try_profiles env s r t attempt plan (i # rest) f d =
     bindE (registry_get pp_id ''profile'' (bd_profiles (env_bundle env)) i) (\<lambda>p.
     let noted = reserve_notes t (step_id s) (profile_estimate env plan p) (rg_limits (env_settings env)) d
     in case reserve_profile env s r t attempt plan p d of
          Inr (res, d') \<Rightarrow> Inr (Some (p, res), f, note_ceiling env t p d')
        | Inl (GoalBudgetExceeded _) \<Rightarrow> Inr (None, f\<lparr>rf_goal := True\<rparr>, noted)
        | Inl (BudgetExceeded message) \<Rightarrow> try_profiles env s r t attempt plan rest (refusal_of message f) noted
        | Inl e \<Rightarrow> Inl e)"

section \<open>Leasing the step\<close>

definition drop_overrides :: "json_obj \<Rightarrow> json_obj" where
  "drop_overrides = filter (\<lambda>(k, _). k \<notin> {''executor_model_override'', ''executor_reasoning_effort''})"

definition jupdate :: "json_obj \<Rightarrow> json_obj \<Rightarrow> json_obj" where
  "jupdate m entries = fold (\<lambda>(k, v) x. jput x k v) entries m"

definition chat_payload :: "run \<Rightarrow> route_plan \<Rightarrow> profile_config \<Rightarrow> json_obj \<Rightarrow> error + json_obj" where
  "chat_payload r plan p m =
     (case pl_chat plan of
        None \<Rightarrow> Inr m
      | Some _ \<Rightarrow>
          bindE (case jget (run_selected_route r) ''profile_revision'' of
              JStr revision \<Rightarrow> make_assignment (pp_id p) (pp_model p) (rp_reasoning_effort p) revision
            | _ \<Rightarrow> Inl invalid_assignment) (\<lambda>a.
          Inr (jupdate (drop_overrides m)
            [(''project_model_slot'', jget_default (run_selected_route r) ''conversation_mode'' (JStr ''think'')),
             (''project_model_assignment'', dump_assignment a)])))"

definition matrix_payload :: "route_plan \<Rightarrow> json_obj \<Rightarrow> json_obj" where
  "matrix_payload plan m =
     (case pl_matrix plan of
        None \<Rightarrow> m
      | Some a \<Rightarrow> jupdate (drop_overrides m)
          [(''project_model_slot'', opt_json (pl_slot plan)), (''project_model_assignment'', dump_assignment a)])"

definition pin_payload :: "route_plan \<Rightarrow> profile_config \<Rightarrow> json_obj \<Rightarrow> json_obj" where
  "pin_payload plan p m =
     (case (pl_pin plan, pl_family plan) of
        (Some pin, Some family) \<Rightarrow>
          if pp_id p \<notin> family then m
          else let m' = jupdate m (preference_payload pin)
            in if pp_id p \<noteq> pin_trusted_profile_id pin
               then jupdate m' [(''executor_fallback_profile_id'', JStr (pp_id p)),
                      (''executor_pin_profile_id'', JStr (pin_trusted_profile_id pin))]
               else m'
      | _ \<Rightarrow> m)"

definition lease_payload :: "run \<Rightarrow> step \<Rightarrow> int \<Rightarrow> route_plan \<Rightarrow> profile_config \<Rightarrow> budget_reservation \<Rightarrow> error + json_obj" where
  "lease_payload r s attempt plan p res =
     bindE (chat_payload r plan p (jupdate (step_payload s)
       [(''provider_attempt'', JInt attempt), (''budget_reservation_id'', JStr (uuid_str (br_id res)))])) (\<lambda>m.
     Inr (pin_payload plan p (matrix_payload plan m)))"

definition dashboard_call :: "task \<Rightarrow> db \<Rightarrow> db" where
  "dashboard_call t d =
     (case task_source_chat_id t of
        Some chat \<Rightarrow> if chat \<noteq> 0 \<and> task_type t \<noteq> CHAT_TASK then add_call (ProjectStatusDashboard chat) d else d
      | None \<Rightarrow> d)"

definition routed_row :: "time \<Rightarrow> string \<Rightarrow> int \<Rightarrow> string \<Rightarrow> json_obj \<Rightarrow> step \<Rightarrow> step" where
  "routed_row now owner secs profile payload x =
     (leased_row now owner secs x)\<lparr>step_executor_profile_id := Some profile, step_payload := payload\<rparr>"

definition lease_routed ::
  "string \<Rightarrow> int \<Rightarrow> step \<Rightarrow> task \<Rightarrow> string \<Rightarrow> json_obj \<Rightarrow> db \<Rightarrow> lease_token \<times> db" where
  "lease_routed owner secs s t profile payload d =
     (let f = routed_row (db_now d) owner secs profile payload; s' = f s
      in (\<lparr>tok_step = step_record_of s', tok_owner = owner, tok_generation = step_lease_generation s'\<rparr>,
          dashboard_call t (upd_step (step_id s) f d)))"

definition EXPLICIT_MONEY_CAP_EXCEEDED_SUMMARY :: string where
  "EXPLICIT_MONEY_CAP_EXCEEDED_SUMMARY =
     ''Yavnyj denezhnyj potolok ischerpan. Sdelannaya rabota sohranena. '' @
     ''Uvelichenie potolka prodolzhaet ostatok i ne stiraet istoriyu.''"

definition EXPLICIT_MONEY_CAP_UNKNOWN_SUMMARY :: string where
  "EXPLICIT_MONEY_CAP_UNKNOWN_SUMMARY =
     ''Yavnyj denezhnyj potolok nelzya podtverdit: est neizvestnyj rashod. '' @
     ''Sdelannaya rabota sohranena. Uvelichenie potolka samo po sebe ne prodolzhit zadachu. '' @
     ''Nuzhna sverka s pozdnej kvitanciej ili otdelnoe reshenie vladelca, '' @
     ''chto eta neopredelyonnost dopustima. Neizvestnyj rashod ne obnulyaetsya.''"

text \<open>What a refused route says: the goal's budget, a missing consent, an unknown cost, the cap, or the rest.\<close>

definition refused_block :: "refusals \<Rightarrow> bool \<Rightarrow> string \<times> bool \<times> string option" where
  "refused_block f exhausted =
     (if rf_goal f then (''goal_budget_exhausted'', False,
        Some (''Byudzhet celi ischerpan. Rashody i rezultat sohraneny. '' @
          ''Uvelichte limit cherez /lead limits cost ili zakrojte cel.''))
      else if rf_consent f then (''admission_only_consent_required'', False, Some ADMISSION_ONLY_CONSENT_SUMMARY)
      else if rf_unknown_cost f then (''money_cap_uncertified'', False, Some EXPLICIT_MONEY_CAP_UNKNOWN_SUMMARY)
      else if rf_money_cap f then (''money_cap_reached'', False, Some EXPLICIT_MONEY_CAP_EXCEEDED_SUMMARY)
      else (if exhausted then ''budget_exhausted'' else ''no_compatible_profile'', exhausted, None))"

definition block_row :: "step \<Rightarrow> run \<Rightarrow> task \<Rightarrow> string \<times> bool \<times> string option \<Rightarrow> db \<Rightarrow> error + lease_token option \<times> db" where
  "block_row s r t = (\<lambda>(category, quota, summary) d.
     bindE (block_route (step_id s) (run_id r) (task_id t) category quota summary d) (\<lambda>d'. Inr (None, d')))"

definition decide_route ::
  "route_env \<Rightarrow> string \<Rightarrow> int \<Rightarrow> step \<Rightarrow> run \<Rightarrow> task \<Rightarrow> int \<Rightarrow> route_plan \<Rightarrow> (string \<rightharpoonup> profile_state) \<Rightarrow> db \<Rightarrow>
     error + lease_token option \<times> db" where
  "decide_route env owner secs s r t attempt plan states d =
     bindE (route_request env s r plan) (\<lambda>q.
     let decision = select_profile q (map routed_profile.truncate (bd_profiles (env_bundle env))) states (wall_now d);
         ordered = filter (\<lambda>i. case pl_family plan of None \<Rightarrow> True | Some ids \<Rightarrow> i \<in> ids)
           ((case pd_selected_profile_id decision of None \<Rightarrow> [] | Some i \<Rightarrow> [i]) @ pd_alternatives decision)
     in if ordered = [] \<and> temporarily_unavailable decision then Inr (None, d)
        else bindE (try_profiles env s r t attempt plan ordered no_refusals d) (\<lambda>(found, f, d1).
          case found of
            None \<Rightarrow>
              bindE (persist_decision r s (pl_role plan) attempt None decision q (decision_inputs r plan) d1)
                (block_row s r t (refused_block f (ordered \<noteq> [] \<or> quota_exhausted decision)))
          | Some (p, res) \<Rightarrow>
              bindE (persist_decision r s (pl_role plan) attempt (Some (pp_id p)) decision q (decision_inputs r plan) d1) (\<lambda>d2.
              bindE (lease_payload r s attempt plan p res) (\<lambda>payload.
              case lease_routed owner secs s t (pp_id p) payload d2 of (token, d3) \<Rightarrow> Inr (Some token, d3)))))"

definition route_one ::
  "route_env \<Rightarrow> string \<Rightarrow> int \<Rightarrow> step \<Rightarrow> run \<Rightarrow> task \<Rightarrow> db \<Rightarrow> error + lease_token option \<times> db" where
  "route_one env owner secs s r t d =
     (let attempt = decision_count d (step_id s) + 1 in
      bindE (plan_route env d s r t attempt) (\<lambda>planned.
      case planned of
        Inl (Blocked category quota summary pending) \<Rightarrow>
          bindE (case pending of
              None \<Rightarrow> Inr d
            | Some (q, inputs) \<Rightarrow> persist_decision r s (rr_role q) attempt None
                \<lparr>pd_selected_profile_id = None, pd_alternatives = [], pd_evaluations = []\<rparr> q inputs d)
            (block_row s r t (category, quota, summary))
      | Inr (plan, states) \<Rightarrow> decide_route env owner secs s r t attempt plan states d))"

text \<open>The pass: the candidates are read once, their rows are the session's current ones.\<close>

fun route_pass ::
  "route_env \<Rightarrow> string \<Rightarrow> int \<Rightarrow> (queue_class \<rightharpoonup> int) option \<Rightarrow> uuid list \<Rightarrow> db \<Rightarrow> error + lease_token option \<times> db" where
  "route_pass env owner secs class_limits [] d = Inr (None, d)"
| "route_pass env owner secs class_limits (sid # rest) d =
     (case get_step d sid of
        None \<Rightarrow> Inl AssertionError
      | Some s \<Rightarrow>
          if step_queue_class s = Q_HEAVY \<and> da_blocked (assess_heavy_claim_gate (Some (rg_disk (env_settings env))) (env_probe env)) \<or>
             \<not> within_class_limit d class_limits s
          then route_pass env owner secs class_limits rest d
          else (case get_run d (step_run_id s) of
              None \<Rightarrow> Inl AssertionError
            | Some r \<Rightarrow>
                (case get_task d (run_task_id r) of
                   None \<Rightarrow> Inl AssertionError
                 | Some t \<Rightarrow>
                     bindE (route_one env owner secs s r t d) (\<lambda>(token, d').
                     case token of
                       Some tok \<Rightarrow> Inr (Some tok, d')
                     | None \<Rightarrow> route_pass env owner secs class_limits rest d'))))"

definition claim_routed_step ::
  "route_env \<Rightarrow> uuid set \<Rightarrow> string \<Rightarrow> int \<Rightarrow> int \<Rightarrow> (queue_class \<rightharpoonup> int) option \<Rightarrow> string set \<Rightarrow> db \<Rightarrow>
     error + lease_token option \<times> db" where
  "claim_routed_step env locked owner secs candidate_limit class_limits step_types d =
     (if candidate_limit < 1 \<or> step_types = {} then Inr (None, d)
      else route_pass env owner secs class_limits
        (map step_id (claim_candidates d locked UNIV UNIV (Some step_types) (nat candidate_limit))) d)"

text \<open>The claim of a routed worker.\<close>

definition routed_claim :: "route_env \<Rightarrow> uuid set \<Rightarrow> worker_settings \<Rightarrow> string \<Rightarrow> string set \<Rightarrow> db \<Rightarrow> error + lease_token option \<times> db" where
  "routed_claim env locked ws owner handled d =
     claim_routed_step env locked owner (ws_lease_seconds ws) (ws_claim_candidate_limit ws)
       (Some (worker_class_limits ws)) handled d"

end
