(* ===== verification/Routing_Properties.thy ===== *)
theory Routing_Properties
  imports Provider_Routing
begin

text \<open>
  What a routed claim guarantees: the step it leases was queued and becomes leased under the next
  generation, a decision and a reservation of the same attempt are on record, the profile satisfies
  the constraints of the step, and a run whose model was pinned gets exactly that model. The claim
  is a second provider of the worker's interface.
\<close>

section \<open>What a pass leaves alone\<close>

definition budget_only :: "db \<Rightarrow> db \<Rightarrow> bool" where
  "budget_only d d' \<longleftrightarrow> db_steps d' = db_steps d \<and> db_runs d' = db_runs d \<and> db_tasks d' = db_tasks d \<and>
     db_decisions d' = db_decisions d \<and> db_now d' = db_now d"

lemma budget_only_refl [simp]: "budget_only d d"
  by (simp add: budget_only_def)

lemma budget_only_trans: "budget_only a b \<Longrightarrow> budget_only b c \<Longrightarrow> budget_only a c"
  by (simp add: budget_only_def)

lemma budget_only_events: "events_only d d' \<Longrightarrow> budget_only d d'"
  by (auto simp: events_only_def budget_only_def)

lemma note_event_events: "events_only d (note_budget_event tid ty dimension detail d)"
  by (simp add: note_budget_event_def)

lemma notes_until_events: "events_only d (notes_until tid checks d)"
  by (induction tid checks d rule: notes_until.induct) (auto intro: events_only_trans note_event_events)

lemma reserve_notes_events: "events_only d (reserve_notes t sid estimate limits d)"
  by (simp add: reserve_notes_def Let_def notes_until_events split: sum.splits)

text \<open>The notes left behind by a refused reservation are those an admitted one would have written.\<close>

lemma notes_until_step:
  "enforce_or_note (Some tid) exceeded hard dimension detail d = Inr d1 \<Longrightarrow>
     notes_until tid ((exceeded, hard, dimension, detail) # checks) d = notes_until tid checks d1"
  by (auto simp: enforce_or_note_def split: if_splits)

lemma admitted_notes:
  assumes "enforce_sum_caps tid tt st (0, 0, 0) estimate limits d = Inr d'"
  shows "d' = notes_until tid (sum_cap_checks tt st estimate limits) d"
proof -
  obtain a1 a2 a3 a4 where tt: "tt = (a1, a2, a3, a4)" by (cases tt)
  obtain b1 b2 b3 b4 where st: "st = (b1, b2, b3, b4)" by (cases st)
  show ?thesis
    using assms unfolding tt st enforce_sum_caps_def sum_cap_checks_def Let_def prod.case diff_zero res_simps
    by (elim exE conjE) (simp only: notes_until_step notes_until.simps(1))
qed

lemma admitted_budget_only: "admitted d tid estimate limits r d' \<Longrightarrow> budget_only d d' \<and> r \<in> set (db_reservations d')"
  by (auto simp: admitted_def add_reservation_def budget_only_def events_only_def)

lemma reserve_budget_only:
  assumes "reserve_budget task run (Some sid) pid att est limits review acc ivk adm d = Inr (res, d')"
  shows "budget_only d d'" and "res \<in> set (db_reservations d')" and "br_step_id res = Some sid"
    and "br_provider_attempt res = att"
proof -
  from assms have "budget_only d d' \<and> res \<in> set (db_reservations d') \<and> br_step_id res = Some sid \<and> br_provider_attempt res = att"
  proof (cases rule: reserve_budgetE)
    case existing
    then show ?thesis
      by (auto simp: existing_reservation_def by_step_attempt_def dest!: find_SomeD split: option.splits)
  next
    case fresh
    then show ?thesis using admitted_budget_only by blast
  qed
  then show "budget_only d d'" "res \<in> set (db_reservations d')" "br_step_id res = Some sid" "br_provider_attempt res = att"
    by auto
qed

lemma reserve_profile_only:
  assumes "reserve_profile env s r t attempt plan p d = Inr (res, d')"
  shows "budget_only d d' \<and> res \<in> set (db_reservations d') \<and> br_step_id res = Some (step_id s) \<and> br_provider_attempt res = attempt"
  using reserve_budget_only [OF assms [unfolded reserve_profile_def]] by simp

lemma note_ceiling_events: "events_only d (note_ceiling env t p d)"
  by (simp add: note_ceiling_def note_admission_only_ceiling_def note_event_events)

text \<open>One profile of the list: it is reserved for, the goal's budget ends the search, or the next is tried.\<close>

lemma try_profiles_ConsE:
  assumes "try_profiles env s r t attempt plan (i # rest) f d = Inr (found, f', d')"
  obtains (reserved) p res d1 where "registry_get pp_id ''profile'' (bd_profiles (env_bundle env)) i = Inr p"
      "reserve_profile env s r t attempt plan p d = Inr (res, d1)" "found = Some (p, res)" "d' = note_ceiling env t p d1"
  | (ended) "found = None" "events_only d d'"
  | (refused) g d1 where "events_only d d1" "try_profiles env s r t attempt plan rest g d1 = Inr (found, f', d')"
proof -
  from assms obtain p where p: "registry_get pp_id ''profile'' (bd_profiles (env_bundle env)) i = Inr p"
    by (auto simp: res_simps)
  note run = assms [unfolded try_profiles.simps p bindE.simps Let_def]
  note noted = reserve_notes_events [of d t "step_id s" "profile_estimate env plan p" "rg_limits (env_settings env)"]
  show thesis
  proof (cases "reserve_profile env s r t attempt plan p d")
    case (Inr x)
    then show thesis using run p by (cases x) (auto intro: reserved)
  next
    case (Inl e)
    then show thesis using run noted by (cases e) (auto intro: ended refused)
  qed
qed

lemma try_profiles_frame:
  "try_profiles env s r t attempt plan ids f d = Inr (found, f', d') \<Longrightarrow> budget_only d d' \<and>
     (\<forall>p res. found = Some (p, res) \<longrightarrow>
        (\<exists>i\<in>set ids. registry_get pp_id ''profile'' (bd_profiles (env_bundle env)) i = Inr p) \<and>
        res \<in> set (db_reservations d') \<and> br_step_id res = Some (step_id s) \<and> br_provider_attempt res = attempt)"
proof (induction ids arbitrary: f d)
  case Nil
  then show ?case by simp
next
  case (Cons i rest)
  from Cons.prems show ?case
  proof (cases rule: try_profiles_ConsE)
    case (reserved p res d1)
    note res = reserve_profile_only [OF reserved(2)] and note_ev = note_ceiling_events [of d1 env t p]
    have "budget_only d d'" using res budget_only_trans budget_only_events [OF note_ev] reserved(4) by blast
    moreover have "db_reservations d' = db_reservations d1" using events_onlyD(1) [OF note_ev] reserved(4) by simp
    ultimately show ?thesis using res reserved by auto
  next
    case ended
    then show ?thesis using budget_only_events by blast
  next
    case (refused g d1)
    then show ?thesis using Cons.IH [OF refused(2)] budget_only_trans [OF budget_only_events [OF refused(1)]] by auto
  qed
qed

section \<open>Rows kept by a blocked route\<close>

definition run_core :: "run \<Rightarrow> uuid \<times> uuid \<times> json_obj \<times> string" where
  "run_core r = (run_id r, run_task_id r, run_selected_route r, run_budget_mode r)"

definition task_core :: "task \<Rightarrow> uuid \<times> string option \<times> string" where
  "task_core t = (task_id t, task_project_id t, task_type t)"

text \<open>Only the routed step's row changes, and runs and tasks keep what a route is planned from.\<close>

definition rows_kept :: "uuid \<Rightarrow> db \<Rightarrow> db \<Rightarrow> bool" where
  "rows_kept sid d d' \<longleftrightarrow>
     (\<forall>k. k \<noteq> sid \<longrightarrow> get_step d' k = get_step d k) \<and>
     (\<forall>k. map_option run_core (get_run d' k) = map_option run_core (get_run d k)) \<and>
     (\<forall>k. map_option task_core (get_task d' k) = map_option task_core (get_task d k))"

lemma rows_kept_refl [simp]: "rows_kept sid d d"
  by (simp add: rows_kept_def)

lemma rows_kept_trans [trans]: "rows_kept sid a b \<Longrightarrow> rows_kept sid b c \<Longrightarrow> rows_kept sid a c"
  by (simp add: rows_kept_def)

lemma rows_kept_budget: "budget_only d d' \<Longrightarrow> rows_kept sid d d'"
  by (simp add: rows_kept_def budget_only_def get_step_def get_run_def get_task_def)

lemma persist_decision_cases:
  assumes "persist_decision r s role attempt selected decision q inputs d = Inr d'"
  obtains x where "d' = d\<lparr>db_decisions := db_decisions d @ [x], next_uuid := Suc (next_uuid d)\<rparr>"
    and "rd_step_id x = Some (step_id s)" and "rd_provider_attempt x = attempt" and "rd_selected_profile_id x = selected"
  using assms by (auto simp: persist_decision_def Let_def split: if_splits)

lemma rows_kept_persist:
  "persist_decision r s role attempt selected decision q inputs d = Inr d' \<Longrightarrow> rows_kept sid d d'"
  by (erule persist_decision_cases) (simp add: rows_kept_def get_step_def get_run_def get_task_def)

lemma task_core_moved [simp]: "task_core (moved_task now target t) = task_core t"
  by (simp add: task_core_def moved_task_def)

lemma rows_kept_transition_step: "transition_step d sid target actor aid payload = Inr d' \<Longrightarrow> rows_kept sid d d'"
  using transition_step_get_step [of d sid target actor aid payload d'] transition_step_frame [of d sid target actor aid payload d']
  by (simp add: rows_kept_def get_run_def get_task_def)

lemma rows_kept_upd_step: "(\<And>x. step_id (f x) = step_id x) \<Longrightarrow> rows_kept sid d (upd_step sid f d)"
  by (simp add: rows_kept_def step_store.get_upd upd_step_def get_run_def get_task_def) (simp add: step_store.get_upd flip: upd_step_def)

lemma run_core_moved [simp]: "run_core (x\<lparr>run_status := st, run_version := v\<rparr>) = run_core x"
  by (simp add: run_core_def)

lemma rows_kept_transition_run: "transition_run d rid target actor aid payload = Inr d' \<Longrightarrow> rows_kept sid d d'"
  using transition_run_get_run [of d rid target actor aid payload d'] transition_run_frame [of d rid target actor aid payload d']
  by (auto simp: rows_kept_def get_step_def get_task_def option.map_comp comp_def)

lemma rows_kept_upd_run:
  assumes "\<And>x. run_core (f x) = run_core x"
  shows "rows_kept sid d (upd_run rid f d)"
proof -
  have "run_id (f x) = run_id x" for x using assms [of x] by (simp add: run_core_def)
  then have "map_option run_core (get_run (upd_run rid f d) k) = map_option run_core (get_run d k)" for k
    using assms by (simp add: run_store.get_upd option.map_comp comp_def)
  then show ?thesis by (simp add: rows_kept_def)
qed

lemma rows_kept_transition_task: "transition_task d tid target actor aid payload = Inr d' \<Longrightarrow> rows_kept sid d d'"
  using transition_task_get_task [of d tid target actor aid payload d'] transition_task_frame [of d tid target actor aid payload d']
  by (auto simp: rows_kept_def get_step_def get_run_def option.map_comp comp_def)

lemma rows_kept_block: 
  assumes "block_route sid rid tid category quota summary d = Inr d'"
  shows "rows_kept sid d d'"
proof -
  define told where "told = (case summary of None \<Rightarrow> route_summary category quota | Some x \<Rightarrow> x)"
  define target where "target = (if quota then T_QUOTA_EXHAUSTED else T_BLOCKED)"
  note run = assms [unfolded block_route_def Let_def told_def [symmetric] target_def [symmetric]]
  obtain d1 where d1: "transition_step d sid S_BLOCKED ''routing_policy'' None [(''category'', JStr category)] = Inr d1"
    using run by (cases "transition_step d sid S_BLOCKED ''routing_policy'' None [(''category'', JStr category)]") simp_all
  note run1 = run [unfolded d1 bindE.simps]
  obtain d2 where d2: "transition_run (upd_step sid (\<lambda>x. x\<lparr>step_failure_category := Some category, step_failure_summary := Some told\<rparr>) d1)
        rid R_BLOCKED ''routing_policy'' None [(''category'', JStr category)] = Inr d2"
    using run1 by (cases "transition_run (upd_step sid (\<lambda>x. x\<lparr>step_failure_category := Some category,
        step_failure_summary := Some told\<rparr>) d1) rid R_BLOCKED ''routing_policy'' None [(''category'', JStr category)]") simp_all
  define d3 where d3: "d3 = upd_run rid (\<lambda>x. x\<lparr>run_failure_category := Some category, run_failure_summary := Some told\<rparr>) d2"
  note run2 = run1 [unfolded d2 bindE.simps d3 [symmetric]]
  obtain t where t: "get_task d3 tid = Some t" using run2 by (cases "get_task d3 tid") simp_all
  note run3 = run2 [unfolded t option.case]
  obtain d4 where d4: "(if task_status t \<noteq> target then transition_task d3 tid target ''routing_policy'' None [(''category'', JStr category)]
      else Inr d3) = Inr d4"
    using run3 by (cases "if task_status t \<noteq> target then transition_task d3 tid target ''routing_policy'' None [(''category'', JStr category)]
      else Inr d3") simp_all
  note run4 = run3 [unfolded d4 bindE.simps]
  obtain c where d': "d' = add_call c d4"
    using run4 by (cases "get_task d4 tid") auto
  have "rows_kept sid d d1" by (rule rows_kept_transition_step [OF d1])
  also have "rows_kept sid d1 (upd_step sid (\<lambda>x. x\<lparr>step_failure_category := Some category, step_failure_summary := Some told\<rparr>) d1)"
    by (rule rows_kept_upd_step) simp
  also have "rows_kept sid (upd_step sid (\<lambda>x. x\<lparr>step_failure_category := Some category, step_failure_summary := Some told\<rparr>) d1) d2"
    by (rule rows_kept_transition_run [OF d2])
  also have "rows_kept sid d2 d3" unfolding d3 by (rule rows_kept_upd_run) (simp add: run_core_def)
  also have "rows_kept sid d3 d4" using d4 rows_kept_transition_task by (auto split: if_splits)
  also have "rows_kept sid d4 d'" unfolding d' by (simp add: rows_kept_def add_call_def get_step_def get_run_def get_task_def)
  finally show ?thesis .
qed

lemma rows_kept_block_row: "block_row s r t b d = Inr (token, d') \<Longrightarrow> rows_kept (step_id s) d d' \<and> token = None"
  by (cases b) (auto simp: block_row_def res_simps dest: rows_kept_block)

section \<open>One route\<close>

lemma decide_route_cases:
  assumes "decide_route env owner secs s r t attempt plan states d = Inr (token, d')"
  obtains (left) "token = None" "rows_kept (step_id s) d d'"
  | (leased) q p res d1 d2 payload tok decision f where "route_request env s r plan = Inr q"
      "decision = select_profile q (map routed_profile.truncate (bd_profiles (env_bundle env))) states (wall_now d)"
      "try_profiles env s r t attempt plan (filter (\<lambda>i. case pl_family plan of None \<Rightarrow> True | Some ids \<Rightarrow> i \<in> ids)
         ((case pd_selected_profile_id decision of None \<Rightarrow> [] | Some i \<Rightarrow> [i]) @ pd_alternatives decision)) no_refusals d =
         Inr (Some (p, res), f, d1)"
      "persist_decision r s (pl_role plan) attempt (Some (pp_id p)) decision q (decision_inputs r plan) d1 = Inr d2"
      "lease_payload r s attempt plan p res = Inr payload"
      "lease_routed owner secs s t (pp_id p) payload d2 = (tok, d')" "token = Some tok"
proof -
  obtain q where q: "route_request env s r plan = Inr q" using assms by (auto simp: decide_route_def res_simps)
  define decision where dec: "decision = select_profile q (map routed_profile.truncate (bd_profiles (env_bundle env))) states (wall_now d)"
  define ordered where ord: "ordered = filter (\<lambda>i. case pl_family plan of None \<Rightarrow> True | Some ids \<Rightarrow> i \<in> ids)
         ((case pd_selected_profile_id decision of None \<Rightarrow> [] | Some i \<Rightarrow> [i]) @ pd_alternatives decision)"
  note run = assms [unfolded decide_route_def q bindE.simps Let_def dec [symmetric] ord [symmetric]]
  show thesis
  proof (cases "ordered = [] \<and> temporarily_unavailable decision")
    case True
    then show thesis using run by (intro left) auto
  next
    case False
    note run1 = run [unfolded if_not_P [OF False]]
    obtain found f d1 where tried: "try_profiles env s r t attempt plan ordered no_refusals d = Inr (found, f, d1)"
      using run1 by (cases "try_profiles env s r t attempt plan ordered no_refusals d") auto
    note kept = rows_kept_budget [OF conjunct1 [OF try_profiles_frame [OF tried]]]
    note run2 = run1 [unfolded tried bindE.simps prod.case]
    show thesis
    proof (cases found)
      case None
      then obtain d2 where "persist_decision r s (pl_role plan) attempt None decision q (decision_inputs r plan) d1 = Inr d2"
          "block_row s r t (refused_block f (ordered \<noteq> [] \<or> quota_exhausted decision)) d2 = Inr (token, d')"
        using run2 by (auto simp: res_simps)
      then have "rows_kept (step_id s) d1 d2" "rows_kept (step_id s) d2 d'" "token = None"
        using rows_kept_persist rows_kept_block_row by blast+
      then show thesis using left kept rows_kept_trans by blast
    next
      case (Some x)
      then obtain p res where x: "found = Some (p, res)" by (cases x) simp
      note run3 = run2 [unfolded x option.case prod.case]
      obtain d2 where d2: "persist_decision r s (pl_role plan) attempt (Some (pp_id p)) decision q (decision_inputs r plan) d1 = Inr d2"
        using run3 by (cases "persist_decision r s (pl_role plan) attempt (Some (pp_id p)) decision q (decision_inputs r plan) d1") auto
      note run4 = run3 [unfolded d2 bindE.simps]
      obtain payload where pay: "lease_payload r s attempt plan p res = Inr payload"
        using run4 by (cases "lease_payload r s attempt plan p res") auto
      obtain tok d3 where l: "lease_routed owner secs s t (pp_id p) payload d2 = (tok, d3)" by (metis prod.exhaust)
      have "token = Some tok" "d' = d3" using run4 [unfolded pay bindE.simps l prod.case] by simp_all
      then show thesis
        using leased [OF q dec tried [unfolded ord x] d2 pay] l by simp
    qed
  qed
qed

lemma route_one_cases:
  assumes "route_one env owner secs s r t d = Inr (token, d')"
  obtains (left) "token = None" "rows_kept (step_id s) d d'"
  | (leased) plan states attempt q p res d1 d2 payload tok decision f where
      "plan_route env d s r t attempt = Inr (Inr (plan, states))" "route_request env s r plan = Inr q"
      "decision = select_profile q (map routed_profile.truncate (bd_profiles (env_bundle env))) states (wall_now d)"
      "try_profiles env s r t attempt plan (filter (\<lambda>i. case pl_family plan of None \<Rightarrow> True | Some ids \<Rightarrow> i \<in> ids)
         ((case pd_selected_profile_id decision of None \<Rightarrow> [] | Some i \<Rightarrow> [i]) @ pd_alternatives decision)) no_refusals d =
         Inr (Some (p, res), f, d1)"
      "persist_decision r s (pl_role plan) attempt (Some (pp_id p)) decision q (decision_inputs r plan) d1 = Inr d2"
      "lease_payload r s attempt plan p res = Inr payload"
      "lease_routed owner secs s t (pp_id p) payload d2 = (tok, d')" "token = Some tok"
proof -
  define attempt where "attempt = decision_count d (step_id s) + 1"
  note run = assms [unfolded route_one_def Let_def attempt_def [symmetric]]
  obtain planned where planned: "plan_route env d s r t attempt = Inr planned"
    using run by (cases "plan_route env d s r t attempt") auto
  note run1 = run [unfolded planned bindE.simps]
  show thesis
  proof (cases planned)
    case (Inl b)
    obtain category quota summary pending where b: "b = Blocked category quota summary pending" by (cases b)
    obtain d1 where d1: "(case pending of None \<Rightarrow> Inr d | Some (q, inputs) \<Rightarrow> persist_decision r s (rr_role q) attempt None
                \<lparr>pd_selected_profile_id = None, pd_alternatives = [], pd_evaluations = []\<rparr> q inputs d) = Inr d1"
        and d2: "block_row s r t (category, quota, summary) d1 = Inr (token, d')"
      using run1 Inl b by (auto simp: res_simps)
    have "rows_kept (step_id s) d d1" using d1 rows_kept_persist by (auto split: option.splits)
    then show thesis using left rows_kept_block_row [OF d2] rows_kept_trans by blast
  next
    case (Inr x)
    obtain plan states where x: "x = (plan, states)" by (cases x)
    have dr: "decide_route env owner secs s r t attempt plan states d = Inr (token, d')" using run1 Inr x by simp
    from dr show thesis
    proof (cases rule: decide_route_cases)
      case left
      then show thesis by (rule that(1))
    next
      case (leased q p res d1 d2 payload tok decision f)
      then show thesis by (rule that(2) [OF planned [unfolded Inr x]])
    qed
  qed
qed

section \<open>The pass\<close>

text \<open>A lease handed out by a pass is one route, on rows the pass has not touched before.\<close>

definition routed_on ::
  "route_env \<Rightarrow> string \<Rightarrow> int \<Rightarrow> (queue_class \<rightharpoonup> int) option \<Rightarrow> db \<Rightarrow> db \<Rightarrow> step \<Rightarrow> run \<Rightarrow> task \<Rightarrow> lease_token \<Rightarrow> db \<Rightarrow> bool" where
  "routed_on env owner secs class_limits d d0 s r t tok d' \<longleftrightarrow>
     get_step d (step_id s) = Some s \<and> get_step d0 (step_id s) = Some s \<and> within_class_limit d0 class_limits s \<and>
     get_run d0 (step_run_id s) = Some r \<and> map_option run_core (get_run d (step_run_id s)) = Some (run_core r) \<and>
     get_task d0 (run_task_id r) = Some t \<and> map_option task_core (get_task d (run_task_id r)) = Some (task_core t) \<and>
     route_one env owner secs s r t d0 = Inr (Some tok, d')"

lemma routed_on_earlier:
  assumes "routed_on env owner secs class_limits d1 d0 s r t tok d'" and "rows_kept sid d d1" and "step_id s \<noteq> sid"
  shows "routed_on env owner secs class_limits d d0 s r t tok d'"
  using assms unfolding routed_on_def rows_kept_def by metis

lemma route_pass_leases:
  "route_pass env owner secs class_limits ids d = Inr (Some tok, d') \<Longrightarrow> distinct ids \<Longrightarrow>
     \<exists>d0 s r t. step_id s \<in> set ids \<and> routed_on env owner secs class_limits d d0 s r t tok d'"
proof (induction ids arbitrary: d)
  case Nil
  then show ?case by simp
next
  case (Cons sid rest)
  obtain s where s: "get_step d sid = Some s" using Cons.prems(1) by (cases "get_step d sid") simp_all
  note sid = step_store.get_key [OF s]
  note run = Cons.prems(1) [unfolded route_pass.simps s option.case]
  have later: ?case if "route_pass env owner secs class_limits rest d1 = Inr (Some tok, d')" "rows_kept sid d d1" for d1
  proof -
    from Cons.IH [OF that(1)] Cons.prems(2) obtain d0 s' r' t' where *: "step_id s' \<in> set rest"
        "routed_on env owner secs class_limits d1 d0 s' r' t' tok d'"
      by auto
    moreover have "step_id s' \<noteq> sid" using * Cons.prems(2) by auto
    ultimately show ?thesis using routed_on_earlier [OF *(2) that(2)] by (meson list.set_intros(2))
  qed
  show ?case
  proof (cases "step_queue_class s = Q_HEAVY \<and> da_blocked (assess_heavy_claim_gate (Some (rg_disk (env_settings env))) (env_probe env)) \<or>
             \<not> within_class_limit d class_limits s")
    case True
    show ?thesis by (rule later [OF run [unfolded if_P [OF True]]]) simp
  next
    case False
    note run1 = run [unfolded if_not_P [OF False]]
    obtain r where r: "get_run d (step_run_id s) = Some r" using run1 by (cases "get_run d (step_run_id s)") simp_all
    obtain t where t: "get_task d (run_task_id r) = Some t"
      using run1 r by (cases "get_task d (run_task_id r)") simp_all
    obtain token d1 where one: "route_one env owner secs s r t d = Inr (token, d1)"
      using run1 r t by (cases "route_one env owner secs s r t d") auto
    show ?thesis
    proof (cases token)
      case (Some tok')
      then have "route_one env owner secs s r t d = Inr (Some tok, d')" using run1 r t one by simp
      then have "routed_on env owner secs class_limits d d s r t tok d'" using s sid r t False by (simp add: routed_on_def)
      then show ?thesis using sid by (meson list.set_intros(1))
    next
      case None
      then have "rows_kept sid d d1" using one [unfolded None] sid by (auto elim: route_one_cases)
      moreover have "route_pass env owner secs class_limits rest d1 = Inr (Some tok, d')" using run1 r t one None by simp
      ultimately show ?thesis by (intro later)
    qed
  qed
qed

lemma claim_candidates_distinct:
  "distinct (map step_id (db_steps d)) \<Longrightarrow> distinct (map step_id (claim_candidates d locked caps qs types n))"
  unfolding claim_candidates_def take_map [symmetric]
  by (intro distinct_take) (simp add: distinct_map inj_on_def)

lemma claim_routed_cases:
  assumes "claim_routed_step env locked owner secs limit class_limits types d = Inr (Some tok, d')"
    and "distinct (map step_id (db_steps d))"
  obtains d0 s r t where "s \<in> set (db_steps d)" and "claim_candidate d UNIV UNIV (Some types) s"
    and "routed_on env owner secs class_limits d d0 s r t tok d'"
proof -
  have "route_pass env owner secs class_limits (map step_id (claim_candidates d locked UNIV UNIV (Some types) (nat limit))) d =
      Inr (Some tok, d')"
    using assms(1) by (simp add: claim_routed_step_def split: if_splits)
  from route_pass_leases [OF this claim_candidates_distinct [OF assms(2)]]
  obtain d0 s r t c where c: "c \<in> set (claim_candidates d locked UNIV UNIV (Some types) (nat limit))" "step_id c = step_id s"
      and on: "routed_on env owner secs class_limits d d0 s r t tok d'"
    unfolding set_map image_iff by metis
  note cand = claim_candidatesD [OF c(1)]
  have "s = c" using step_store.mem_get [OF assms(2), of c] cand on c(2) by (simp add: routed_on_def)
  then show ?thesis using that on cand by blast
qed

lemma dashboard_reads [simp]:
  "get_step (dashboard_call t d) = get_step d" "db_decisions (dashboard_call t d) = db_decisions d"
  "db_reservations (dashboard_call t d) = db_reservations d"
  by (simp_all add: dashboard_call_def add_call_def get_step_def split: option.splits)

lemma lease_routed_row:
  assumes "lease_routed owner secs s t profile payload d = (tok, d')" and "get_step d (step_id s) = Some s"
  shows "get_step d' (step_id s) = Some (routed_row (db_now d) owner secs profile payload s)"
    and "sr_id (tok_step tok) = step_id s" and "tok_owner tok = owner" and "tok_generation tok = step_lease_generation s + 1"
    and "db_decisions d' = db_decisions d" and "db_reservations d' = db_reservations d"
proof -
  have eqs: "tok = \<lparr>tok_step = step_record_of (routed_row (db_now d) owner secs profile payload s), tok_owner = owner,
      tok_generation = step_lease_generation (routed_row (db_now d) owner secs profile payload s)\<rparr>"
      "d' = dashboard_call t (upd_step (step_id s) (routed_row (db_now d) owner secs profile payload) d)"
    using assms(1) by (auto simp: lease_routed_def Let_def)
  have "step_id (routed_row (db_now d) owner secs profile payload x) = step_id x" for x by (simp add: routed_row_def)
  then show "get_step d' (step_id s) = Some (routed_row (db_now d) owner secs profile payload s)"
    using assms(2) by (simp add: eqs step_store.get_upd)
  show "sr_id (tok_step tok) = step_id s" "tok_owner tok = owner" "tok_generation tok = step_lease_generation s + 1"
    by (simp_all add: eqs step_record_of_def routed_row_def)
  show "db_decisions d' = db_decisions d" "db_reservations d' = db_reservations d"
    by (simp_all add: eqs upd_step_def)
qed

text \<open>What stands in the database once a route has leased its step.\<close>

lemma route_one_leases:
  assumes "route_one env owner secs s r t d = Inr (Some tok, d')" and "get_step d (step_id s) = Some s"
  obtains plan states attempt q p res payload i where
      "plan_route env d s r t attempt = Inr (Inr (plan, states))" and "route_request env s r plan = Inr q"
    and "i \<in> set ((case pd_selected_profile_id (select_profile q (map routed_profile.truncate (bd_profiles (env_bundle env))) states (wall_now d)) of
          None \<Rightarrow> [] | Some i \<Rightarrow> [i]) @ pd_alternatives (select_profile q (map routed_profile.truncate (bd_profiles (env_bundle env))) states (wall_now d)))"
    and "case pl_family plan of None \<Rightarrow> True | Some ids \<Rightarrow> i \<in> ids"
    and "registry_get pp_id ''profile'' (bd_profiles (env_bundle env)) i = Inr p"
    and "lease_payload r s attempt plan p res = Inr payload"
    and "get_step d' (step_id s) = Some (routed_row (db_now d) owner secs (pp_id p) payload s)"
    and "sr_id (tok_step tok) = step_id s" and "tok_owner tok = owner" and "tok_generation tok = step_lease_generation s + 1"
    and "res \<in> set (db_reservations d')" and "br_step_id res = Some (step_id s)" and "br_provider_attempt res = attempt"
    and "\<exists>x\<in>set (db_decisions d'). rd_step_id x = Some (step_id s) \<and> rd_provider_attempt x = attempt \<and>
           rd_selected_profile_id x = Some (pp_id p)"
  using assms(1)
proof (cases rule: route_one_cases)
  case left
  then show ?thesis by simp
next
  case (leased plan states attempt q p res d1 d2 payload tok' decision f)
  note frame = try_profiles_frame [OF leased(4)]
  obtain i where i: "i \<in> set (filter (\<lambda>i. case pl_family plan of None \<Rightarrow> True | Some ids \<Rightarrow> i \<in> ids)
         ((case pd_selected_profile_id decision of None \<Rightarrow> [] | Some i \<Rightarrow> [i]) @ pd_alternatives decision))"
      and found: "registry_get pp_id ''profile'' (bd_profiles (env_bundle env)) i = Inr p"
    using frame by blast
  obtain x where d2: "d2 = d1\<lparr>db_decisions := db_decisions d1 @ [x], next_uuid := Suc (next_uuid d1)\<rparr>"
      and x: "rd_step_id x = Some (step_id s)" "rd_provider_attempt x = attempt" "rd_selected_profile_id x = Some (pp_id p)"
    by (rule persist_decision_cases [OF leased(5)])
  have now: "get_step d2 (step_id s) = Some s" "db_now d2 = db_now d"
    using frame assms(2) by (simp_all add: d2 budget_only_def get_step_def)
  have tok: "lease_routed owner secs s t (pp_id p) payload d2 = (tok, d')" using leased(7,8) by simp
  note row = lease_routed_row [OF tok now(1)]
  show ?thesis
  proof (rule that [OF leased(1,2) _ _ found leased(6) row(1) [unfolded now(2)] row(2-4)])
    show "res \<in> set (db_reservations d')" "br_step_id res = Some (step_id s)" "br_provider_attempt res = attempt"
      using frame row(6) by (simp_all add: d2)
    show "\<exists>x\<in>set (db_decisions d'). rd_step_id x = Some (step_id s) \<and> rd_provider_attempt x = attempt \<and>
           rd_selected_profile_id x = Some (pp_id p)"
      using x row(5) by (simp add: d2)
  qed (use i leased(3) in auto)
qed

lemma routed_claim_fresh:
  assumes "distinct (map step_id (db_steps d))"
    and "claim_routed_step env locked owner secs limit class_limits types d = Inr (Some tok, d')"
  shows "freshly_claimed d tok d'"
proof -
  obtain d0 s r t where s: "s \<in> set (db_steps d)" "claim_candidate d UNIV UNIV (Some types) s"
      and on: "routed_on env owner secs class_limits d d0 s r t tok d'"
    by (rule claim_routed_cases [OF assms(2,1)])
  obtain p payload where row: "get_step d' (step_id s) = Some (routed_row (db_now d0) owner secs p payload s)"
      "sr_id (tok_step tok) = step_id s" "tok_owner tok = owner" "tok_generation tok = step_lease_generation s + 1"
    using on route_one_leases [of env owner secs s r t d0 tok d'] unfolding routed_on_def by blast
  show ?thesis
    unfolding freshly_claimed_def
    using s on row by (intro exI [of _ s] exI [of _ "routed_row (db_now d0) owner secs p payload s"])
      (simp add: claim_candidate_def routed_on_def routed_row_def)
qed

interpretation routed_worker: claimer "routed_claim env locked ws owner handled"
  for env locked ws owner handled
  by unfold_locales (simp add: routed_claim_def routed_claim_fresh)

section \<open>What a plan fixes\<close>

lemma bindR_goE:
  assumes "bindR m f = Inr (Inr y)"
  obtains x where "m = Inr (Inr x)" and "f x = Inr (Inr y)"
proof (cases m)
  case (Inr v)
  then show thesis using assms that by (cases v) (simp_all add: bindR_def)
qed (use assms in \<open>simp add: bindR_def\<close>)

lemma go_iff [simp]: "go x = Inr (Inr y) \<longleftrightarrow> x = y"
  by (simp add: go_def)

lemma block_not_go [simp]: "block category quota summary \<noteq> Inr (Inr y)"
  by (simp add: block_def)

text \<open>The parts of a plan that no later stage touches.\<close>

definition plan_core :: "route_plan \<Rightarrow> capability set \<times> capability set option" where
  "plan_core plan = (pl_required plan, pl_project_caps plan)"

lemma sized_plan_fixes:
  assumes "sized_plan env d s r t attempt role required caps = Inr (Inr plan)"
  shows "plan_core plan = (set required, caps)" and "pl_role plan = role" and "pl_chat plan = None"
proof -
  define expected where "expected = (let own = jget (step_payload s) ''chat_work_spec_revision''
            in if py_truthy own then own else jget (run_selected_route r) ''chat_work_spec_revision'')"
  note run = assms [unfolded sized_plan_def Let_def expected_def [unfolded Let_def, symmetric]]
  obtain parts where ctx: "env_work_context env d (task_id t) expected = Inr parts"
    using run by (cases "env_work_context env d (task_id t) expected") (simp_all split: if_splits)
  from run [unfolded ctx sum.case]
  have "plan_core plan = (set required, caps) \<and> pl_role plan = role \<and> pl_chat plan = None"
    by (auto simp: plan_core_def elim!: bindR_goE split: if_splits)
  then show "plan_core plan = (set required, caps)" "pl_role plan = role" "pl_chat plan = None"
    by simp_all
qed

lemma open_plan_fixes:
  assumes "open_plan env d s r t attempt = Inr (Inr (plan, states))"
  obtains required caps where "mapE capability_of (step_required_capabilities s) = Inr required"
    and "project_capabilities env t = Inr caps" and "plan_core plan = (set required, caps)"
    and "map_of PROVIDER_STEP_ROLES (step_type s) = Some (pl_role plan)" and "pl_chat plan = None"
proof -
  note run = assms [unfolded open_plan_def]
  have "\<not> provider_call_count d (step_id s) (task_budget_epoch t) \<ge> rg_provider_attempts (env_settings env)"
    using run by (auto split: if_splits)
  note run1 = run [unfolded if_not_P [OF this]]
  obtain required where req: "mapE capability_of (step_required_capabilities s) = Inr required"
    using run1 by (cases "mapE capability_of (step_required_capabilities s)") simp_all
  note run2 = run1 [unfolded req bindE.simps]
  obtain caps where caps: "project_capabilities env t = Inr caps"
    using run2 by (cases "project_capabilities env t") simp_all
  note run3 = run2 [unfolded caps bindE.simps]
  obtain st where st: "profile_states env (run_configuration_revision r) d = Inr st"
    using run3 by (cases "profile_states env (run_configuration_revision r) d") simp_all
  note run4 = run3 [unfolded st bindE.simps]
  obtain role where role: "map_of PROVIDER_STEP_ROLES (step_type s) = Some role"
    using run4 by (cases "map_of PROVIDER_STEP_ROLES (step_type s)") simp_all
  note run5 = run4 [unfolded role option.case bindE.simps]
  have sized: "sized_plan env d s r t attempt role required caps = Inr (Inr plan)"
    using run5 by (elim bindR_goE) simp
  show thesis
    using that [OF req caps sized_plan_fixes(1) [OF sized]] role sized_plan_fixes(2,3) [OF sized] by simp
qed

lemma chat_plan_fixes:
  assumes "chat_plan env s r t plan = Inr (Inr plan')"
  shows "plan_core plan' = plan_core plan" and "pl_chat plan' = None \<Longrightarrow> plan' = plan"
proof -
  have "plan' = plan \<or> (\<exists>role i. plan' = plan\<lparr>pl_role := role, pl_chat := Some i, pl_family := Some {i},
                         pl_task_type := CONVERSATION_TASK_TYPE, pl_failed := None, pl_fallbacks := []\<rparr>)"
  proof (cases "jget (run_selected_route r) ''schema_version'' \<noteq> JStr ''discussion-chat-route.v1''")
    case True
    then show ?thesis using assms by (simp add: chat_plan_def)
  next
    case False
    note run = assms [unfolded chat_plan_def if_not_P [OF False]]
    obtain i where i: "jget (run_selected_route r) ''trusted_profile_id'' = JStr i"
      using run by (cases "jget (run_selected_route r) ''trusted_profile_id''") simp_all
    note run1 = run [unfolded i json.case]
    obtain role where role: "conversation_provider_role (run_selected_route r) = Inr role"
      using run1 by (cases "conversation_provider_role (run_selected_route r)") (simp_all split: if_splits)
    note run2 = run1 [unfolded role sum.case]
    obtain p where p: "find (\<lambda>p. pp_id p = i) (bd_profiles (env_bundle env)) = Some p"
      using run2 by (cases "find (\<lambda>p. pp_id p = i) (bd_profiles (env_bundle env))") (simp_all split: if_splits)
    show ?thesis using run2 [unfolded p option.case] by (auto simp: res_simps split: if_splits)
  qed
  then show "plan_core plan' = plan_core plan" "pl_chat plan' = None \<Longrightarrow> plan' = plan"
    by (auto simp: plan_core_def)
qed

lemma worker_pin_plan_fixes:
  assumes "worker_pin_plan env r v plan = Inr (Inr plan')"
  shows "plan_core plan' = plan_core plan" and "pl_role plan' = pl_role plan" and "pl_chat plan' = pl_chat plan"
proof -
  have "\<exists>rev w pin fam failed fb. plan' = plan\<lparr>pl_preference_revision := rev\<rparr> \<or>
      plan' = plan\<lparr>pl_preference_revision := rev, pl_worker := w, pl_pin := pin, pl_family := fam, pl_failed := failed, pl_fallbacks := fb\<rparr>"
  proof (cases "is_auto v")
    case True
    then show ?thesis using assms by (auto simp: worker_pin_plan_def Let_def)
  next
    case False
    note run = assms [unfolded worker_pin_plan_def Let_def if_not_P [OF False]]
    obtain pin where pin: "resolve_route_pin v (env_bundle env) = Some pin"
      using run by (cases "resolve_route_pin v (env_bundle env)") (simp_all add: res_simps)
    note run1 = run [unfolded pin option.case]
    obtain fam where fam: "(if pin_allow_same_family_fallbacks pin
                   then same_family_fallback_ids (env_bundle env) (pin_worker_key pin) (pin_trusted_profile_id pin)
                   else Inr []) = Inr fam"
      using run1 by (cases "if pin_allow_same_family_fallbacks pin
                   then same_family_fallback_ids (env_bundle env) (pin_worker_key pin) (pin_trusted_profile_id pin)
                   else Inr []") simp_all
    show ?thesis using run1 [unfolded fam bindE.simps go_iff] by (intro exI disjI2) (rule sym, assumption)
  qed
  then show "plan_core plan' = plan_core plan" "pl_role plan' = pl_role plan" "pl_chat plan' = pl_chat plan"
    by (auto simp: plan_core_def)
qed

lemma choice_plan_cases:
  assumes "choice_plan env d s r t plan = Inr (Inr plan')"
  obtains (pinned) a profile pref where "stored_choice env d s r t plan = Inr (Some a, profile, pref)"
      "plan' = plan\<lparr>pl_slot := matrix_slot s r plan, pl_matrix := Some a, pl_matrix_profile := profile,
            pl_family := Some {ma_profile_id a}, pl_failed := None, pl_fallbacks := []\<rparr>"
  | (worker) v profile where "stored_choice env d s r t plan = Inr (None, profile, Some v)"
      "worker_pin_plan env r v plan = Inr (Inr plan')"
  | (none) profile pref where "stored_choice env d s r t plan = Inr (None, profile, pref)" "plan' = plan"
proof (cases "stored_choice env d s r t plan")
  case (Inl e)
  then show thesis using assms by (simp add: choice_plan_def split: if_splits)
next
  case (Inr x)
  obtain choice profile pref where x: "x = (choice, profile, pref)" by (cases x)
  note run = assms [unfolded choice_plan_def Inr x sum.case prod.case]
  show thesis
  proof (cases choice)
    case (Some a)
    then show thesis using pinned [OF Inr [unfolded x Some]] run by simp
  next
    case None
    note found = Inr [unfolded x None]
    show thesis
    proof (cases pref)
      case pref: None
      then show thesis using none [OF found] run None by simp
    next
      case (Some v)
      then show thesis using worker [OF found [unfolded Some]] none [OF found] run None by (simp split: if_splits)
    qed
  qed
qed

lemma choice_plan_fixes:
  assumes "choice_plan env d s r t plan = Inr (Inr plan')"
  shows "plan_core plan' = plan_core plan \<and> pl_role plan' = pl_role plan \<and> pl_chat plan' = pl_chat plan"
  using assms
proof (cases rule: choice_plan_cases)
  case (worker v profile)
  then show ?thesis using worker_pin_plan_fixes by simp
qed (simp_all add: plan_core_def)

lemma default_plan_fixes:
  assumes "default_plan env s plan = Inr (Inr plan')"
  shows "plan_core plan' = plan_core plan \<and> pl_role plan' = pl_role plan \<and> pl_chat plan' = pl_chat plan"
    and "pl_matrix plan = Some a \<Longrightarrow> pl_family plan' = pl_family plan \<and> pl_matrix plan' = Some a \<and> pl_pin plan' = pl_pin plan"
  using assms by (auto simp: default_plan_def Let_def plan_core_def split: if_splits option.splits)

lemma plan_route_stages:
  assumes "plan_route env d s r t attempt = Inr (Inr (plan, states))"
  obtains plan0 plan1 plan2 where "open_plan env d s r t attempt = Inr (Inr (plan0, states))"
    and "chat_plan env s r t plan0 = Inr (Inr plan1)" and "choice_plan env d s r t plan1 = Inr (Inr plan2)"
    and "default_plan env s plan2 = Inr (Inr plan)"
  using assms unfolding plan_route_def by (elim bindR_goE) (auto elim!: bindR_goE)

lemma plan_route_core:
  assumes "plan_route env d s r t attempt = Inr (Inr (plan, states))"
  obtains required caps where "mapE capability_of (step_required_capabilities s) = Inr required"
    and "project_capabilities env t = Inr caps" and "plan_core plan = (set required, caps)"
proof -
  obtain plan0 plan1 plan2 where st: "open_plan env d s r t attempt = Inr (Inr (plan0, states))"
      "chat_plan env s r t plan0 = Inr (Inr plan1)" "choice_plan env d s r t plan1 = Inr (Inr plan2)"
      "default_plan env s plan2 = Inr (Inr plan)"
    by (rule plan_route_stages [OF assms])
  obtain required caps where o: "mapE capability_of (step_required_capabilities s) = Inr required"
      "project_capabilities env t = Inr caps" "plan_core plan0 = (set required, caps)"
    by (rule open_plan_fixes [OF st(1)])
  show thesis
    using that [OF o(1,2)] o(3) chat_plan_fixes(1) [OF st(2)] choice_plan_fixes [OF st(3)] default_plan_fixes(1) [OF st(4)]
    by simp
qed

lemma route_request_fixes:
  assumes "route_request env s r plan = Inr q"
  shows "rr_required_capabilities q = fst (plan_core plan)" and "rr_project_allowed_capabilities q = snd (plan_core plan)"
    and "step_type s \<in> SANDBOX_STEPS \<Longrightarrow> rr_requires_sandbox q"
  using assms by (auto simp: route_request_def plain_request_def plan_core_def res_simps)

text \<open>Every identifier the policy offers belongs to an admissible profile.\<close>

lemma offered_is_admissible:
  assumes "i \<in> set ((case pd_selected_profile_id (select_profile q ps states now) of None \<Rightarrow> [] | Some i \<Rightarrow> [i]) @
      pd_alternatives (select_profile q ps states now))"
  shows "\<exists>p\<in>set ps. pp_id p = i \<and> admissible q p (state_of states p) now"
proof -
  define ordered where "ordered = map pp_id (sort_key (routing_order q states) (filter (profile_eligible q states now) (sort_key pp_id ps)))"
  have "i \<in> set ordered"
    using assms unfolding select_profile_def Let_def ordered_def [symmetric] by (cases ordered) auto
  then show ?thesis by (auto simp: ordered_def eligible_iff_admissible)
qed

lemma registry_getD: "registry_get ident kind entries i = Inr e \<Longrightarrow> e \<in> set entries \<and> ident e = i"
  by (auto simp: registry_get_def dest: find_SomeD split: option.splits)

lemma capability_of_value: "capability_of v = Inr c \<Longrightarrow> capability_value c = v"
  by (auto simp: capability_of_def dest: find_SomeD split: option.splits)

lemma capabilities_named: "mapE capability_of vs = Inr cs \<Longrightarrow> set vs = capability_value ` set cs"
  by (induction vs arbitrary: cs) (auto simp: res_simps dest: capability_of_value)

lemma project_capabilities_named:
  assumes "project_capabilities env t = Inr caps" and "task_project_id t = Some i"
  obtains proj where "proj \<in> set (bd_projects (env_bundle env))" and "rj_id proj = i" and "caps = Some (rj_allowed_capabilities proj)"
  using assms by (auto simp: project_capabilities_def res_simps dest: registry_getD)

text \<open>The payload keeps the attempt and the reservation, whatever the plan adds to it.\<close>

lemma jget_jupdate: "k \<notin> fst ` set entries \<Longrightarrow> jget (jupdate m entries) k = jget m k"
  unfolding jupdate_def by (induction entries arbitrary: m) auto

lemma jget_drop_overrides:
  "k \<notin> {''executor_model_override'', ''executor_reasoning_effort''} \<Longrightarrow> jget (drop_overrides m) k = jget m k"
  by (induction m) (auto simp: drop_overrides_def jget_def)

lemma preference_payload_keys:
  "fst ` set (preference_payload pin) \<subseteq>
     {''executor_preference_mode'', ''executor_worker_key'', ''executor_model_override'', ''executor_reasoning_effort''}"
  by (auto simp: preference_payload_def split: option.splits)

definition lease_keys :: "string set" where
  "lease_keys = {''provider_attempt'', ''budget_reservation_id''}"

lemma pin_payload_keeps:
  assumes "k \<in> lease_keys \<union> {''project_model_assignment''}"
  shows "jget (pin_payload plan p m) k = jget m k"
proof -
  have "k \<notin> fst ` set (preference_payload pin)" for pin
    using assms preference_payload_keys [of pin] by (auto simp: lease_keys_def)
  then have "jget (jupdate m (preference_payload pin)) k = jget m k" for pin by (rule jget_jupdate)
  then show ?thesis
    using assms by (auto simp: pin_payload_def Let_def lease_keys_def jupdate_def split: option.splits)
qed

lemma matrix_payload_keeps: "k \<in> lease_keys \<Longrightarrow> jget (matrix_payload plan m) k = jget m k"
  by (auto simp: matrix_payload_def lease_keys_def jget_jupdate jget_drop_overrides split: option.splits)

lemma chat_payload_keeps: "chat_payload r plan p m = Inr m' \<Longrightarrow> k \<in> lease_keys \<Longrightarrow> jget m' k = jget m k"
  by (auto simp: chat_payload_def lease_keys_def res_simps jget_jupdate jget_drop_overrides split: option.splits)

lemma lease_payload_names:
  assumes "lease_payload r s attempt plan p res = Inr m"
  shows "jget m ''provider_attempt'' = JInt attempt" and "jget m ''budget_reservation_id'' = JStr (uuid_str (br_id res))"
    and "pl_matrix plan = Some a \<Longrightarrow> jget m ''project_model_assignment'' = dump_assignment a"
proof -
  obtain m1 where m1: "chat_payload r plan p (jupdate (step_payload s)
       [(''provider_attempt'', JInt attempt), (''budget_reservation_id'', JStr (uuid_str (br_id res)))]) = Inr m1"
      and m: "m = pin_payload plan p (matrix_payload plan m1)"
    using assms by (auto simp: lease_payload_def res_simps)
  show "jget m ''provider_attempt'' = JInt attempt" "jget m ''budget_reservation_id'' = JStr (uuid_str (br_id res))"
    unfolding m using chat_payload_keeps [OF m1]
    by (simp_all add: pin_payload_keeps matrix_payload_keeps lease_keys_def jupdate_def)
  show "jget m ''project_model_assignment'' = dump_assignment a" if "pl_matrix plan = Some a"
    unfolding m using that by (simp add: pin_payload_keeps matrix_payload_def jupdate_def)
qed

section \<open>The routed lease\<close>

lemma truncated_profile [simp]:
  "pp_id (routed_profile.truncate p) = pp_id p" "rp_enabled (routed_profile.truncate p) = rp_enabled p"
  "rp_capabilities (routed_profile.truncate p) = rp_capabilities p"
  "rp_sandbox_required (routed_profile.truncate p) = rp_sandbox_required p"
  by (simp_all add: routed_profile.truncate_def)

lemma unique_profile: "distinct (map pp_id ps) \<Longrightarrow> p \<in> set ps \<Longrightarrow> p' \<in> set ps \<Longrightarrow> pp_id p = pp_id p' \<Longrightarrow> p = p'"
  by (metis distinct_map inj_onD)

text \<open>One lease, from its plan to the rows it leaves.\<close>

lemma routed_lease_cases:
  assumes "claim_routed_step env locked owner secs limit class_limits types d = Inr (Some tok, d')"
    and "distinct (map step_id (db_steps d))" and "distinct (map pp_id (bd_profiles (env_bundle env)))"
  obtains d0 s s' r t plan states attempt q p res x where
      "routed_on env owner secs class_limits d d0 s r t tok d'"
    and "plan_route env d0 s r t attempt = Inr (Inr (plan, states))" and "route_request env s r plan = Inr q"
    and "p \<in> set (bd_profiles (env_bundle env))"
    and "admissible q (routed_profile.truncate p) (state_of states (routed_profile.truncate p)) (wall_now d0)"
    and "case pl_family plan of None \<Rightarrow> True | Some ids \<Rightarrow> pp_id p \<in> ids"
    and "lease_payload r s attempt plan p res = Inr (step_payload s')"
    and "sr_id (tok_step tok) = step_id s" and "get_step d (step_id s) = Some s" and "get_step d' (step_id s) = Some s'"
    and "step_executor_profile_id s' = Some (pp_id p)"
    and "res \<in> set (db_reservations d')" and "br_step_id res = Some (step_id s)" and "br_provider_attempt res = attempt"
    and "x \<in> set (db_decisions d')" and "rd_step_id x = Some (step_id s)" and "rd_provider_attempt x = attempt"
    and "rd_selected_profile_id x = Some (pp_id p)"
proof -
  obtain d0 s r t where on: "routed_on env owner secs class_limits d d0 s r t tok d'"
    by (rule claim_routed_cases [OF assms(1,2)])
  have one: "route_one env owner secs s r t d0 = Inr (Some tok, d')" "get_step d0 (step_id s) = Some s"
      "get_step d (step_id s) = Some s"
    using on by (simp_all add: routed_on_def)
  from one(1,2) show thesis
  proof (rule route_one_leases)
    fix plan states attempt q p res payload i
    assume *: "plan_route env d0 s r t attempt = Inr (Inr (plan, states))" "route_request env s r plan = Inr q"
      "i \<in> set ((case pd_selected_profile_id (select_profile q (map routed_profile.truncate (bd_profiles (env_bundle env))) states (wall_now d0)) of
          None \<Rightarrow> [] | Some i \<Rightarrow> [i]) @ pd_alternatives (select_profile q (map routed_profile.truncate (bd_profiles (env_bundle env))) states (wall_now d0)))"
      "case pl_family plan of None \<Rightarrow> True | Some ids \<Rightarrow> i \<in> ids"
      "registry_get pp_id ''profile'' (bd_profiles (env_bundle env)) i = Inr p"
      "lease_payload r s attempt plan p res = Inr payload"
      "get_step d' (step_id s) = Some (routed_row (db_now d0) owner secs (pp_id p) payload s)"
      "sr_id (tok_step tok) = step_id s"
      "res \<in> set (db_reservations d')" "br_step_id res = Some (step_id s)" "br_provider_attempt res = attempt"
      "\<exists>x\<in>set (db_decisions d'). rd_step_id x = Some (step_id s) \<and> rd_provider_attempt x = attempt \<and>
           rd_selected_profile_id x = Some (pp_id p)"
    note p = registry_getD [OF *(5)]
    obtain p' where p': "p' \<in> set (bd_profiles (env_bundle env))" "pp_id p' = i"
        "admissible q (routed_profile.truncate p') (state_of states (routed_profile.truncate p')) (wall_now d0)"
      using offered_is_admissible [OF *(3)] by auto
    have same: "p' = p" using unique_profile [OF assms(3) p'(1), of p] p p'(2) by simp
    obtain x where x: "x \<in> set (db_decisions d')" "rd_step_id x = Some (step_id s)" "rd_provider_attempt x = attempt"
        "rd_selected_profile_id x = Some (pp_id p)"
      using *(12) by blast
    have fields: "lease_payload r s attempt plan p res = Inr (step_payload (routed_row (db_now d0) owner secs (pp_id p) payload s))"
        "step_executor_profile_id (routed_row (db_now d0) owner secs (pp_id p) payload s) = Some (pp_id p)"
      using *(6) by (simp_all add: routed_row_def)
    show thesis
      by (rule that [OF on *(1,2) p'(1,3) [unfolded same] _ fields(1) *(8) one(3) *(7) fields(2) *(9-11) x])
        (use *(4) p in \<open>auto split: option.splits\<close>)
  qed
qed

text \<open>The rows a lease was planned from are those of the beginning of the pass.\<close>

lemma routed_on_rows:
  assumes "routed_on env owner secs class_limits d d0 s r t tok d'"
    and "get_run d (step_run_id s) = Some r'"
  shows "run_core r' = run_core r" and "get_task d (run_task_id r') = Some t' \<Longrightarrow> task_core t' = task_core t"
proof -
  show core: "run_core r' = run_core r" using assms by (simp add: routed_on_def)
  then have "run_task_id r' = run_task_id r" by (simp add: run_core_def)
  then show "get_task d (run_task_id r') = Some t' \<Longrightarrow> task_core t' = task_core t"
    using assms(1) by (simp add: routed_on_def)
qed

text \<open>
  C14. A lease handed out by the router is admitted. The step was queued, is now leased under the next
  generation and names one registered, enabled profile that has every capability the step requires
  and is sandboxed when the step runs in a sandbox; the project of the task is registered and allows
  those capabilities; a decision for this profile and a budget reservation of the same attempt are
  on record, and the payload names both.
\<close>

theorem routed_lease_is_admitted:
  assumes "claim_routed_step env locked owner secs limit class_limits types d = Inr (Some tok, d')"
    and "distinct (map step_id (db_steps d))" and "distinct (map pp_id (bd_profiles (env_bundle env)))"
  shows "freshly_claimed d tok d' \<and>
    (\<exists>s s' p res x. get_step d (sr_id (tok_step tok)) = Some s \<and> get_step d' (sr_id (tok_step tok)) = Some s' \<and>
       p \<in> set (bd_profiles (env_bundle env)) \<and> step_executor_profile_id s' = Some (pp_id p) \<and> rp_enabled p \<and>
       set (step_required_capabilities s) \<subseteq> capability_value ` rp_capabilities p \<and>
       (step_type s \<in> SANDBOX_STEPS \<longrightarrow> rp_sandbox_required p) \<and>
       (\<forall>r t i. get_run d (step_run_id s) = Some r \<longrightarrow> get_task d (run_task_id r) = Some t \<longrightarrow> task_project_id t = Some i \<longrightarrow>
          (\<exists>proj\<in>set (bd_projects (env_bundle env)). rj_id proj = i \<and>
             set (step_required_capabilities s) \<subseteq> capability_value ` rj_allowed_capabilities proj)) \<and>
       res \<in> set (db_reservations d') \<and> br_step_id res = Some (step_id s) \<and>
       x \<in> set (db_decisions d') \<and> rd_step_id x = Some (step_id s) \<and> rd_selected_profile_id x = Some (pp_id p) \<and>
       rd_provider_attempt x = br_provider_attempt res \<and>
       jget (step_payload s') ''provider_attempt'' = JInt (br_provider_attempt res) \<and>
       jget (step_payload s') ''budget_reservation_id'' = JStr (uuid_str (br_id res)))"
  using assms
proof (rule routed_lease_cases)
  fix d0 s s' r t plan states attempt q p res x
  assume on: "routed_on env owner secs class_limits d d0 s r t tok d'"
    and plan: "plan_route env d0 s r t attempt = Inr (Inr (plan, states))" and q: "route_request env s r plan = Inr q"
    and p: "p \<in> set (bd_profiles (env_bundle env))"
    and adm: "admissible q (routed_profile.truncate p) (state_of states (routed_profile.truncate p)) (wall_now d0)"
    and pay: "lease_payload r s attempt plan p res = Inr (step_payload s')"
    and rows: "sr_id (tok_step tok) = step_id s" "get_step d (step_id s) = Some s" "get_step d' (step_id s) = Some s'"
      "step_executor_profile_id s' = Some (pp_id p)"
    and res: "res \<in> set (db_reservations d')" "br_step_id res = Some (step_id s)" "br_provider_attempt res = attempt"
    and x: "x \<in> set (db_decisions d')" "rd_step_id x = Some (step_id s)" "rd_provider_attempt x = attempt"
      "rd_selected_profile_id x = Some (pp_id p)"
  obtain required caps where core: "mapE capability_of (step_required_capabilities s) = Inr required"
      "project_capabilities env t = Inr caps" "plan_core plan = (set required, caps)"
    by (rule plan_route_core [OF plan])
  note required = capabilities_named [OF core(1)] and request = route_request_fixes [OF q, unfolded core(3) fst_conv snd_conv]
  have ok: "rp_enabled p" "set required \<subseteq> rp_capabilities p" "rr_requires_sandbox q \<Longrightarrow> rp_sandbox_required p"
      "\<And>cs. caps = Some cs \<Longrightarrow> set required \<subseteq> cs"
    using adm unfolding admissible_def truncated_profile request(1,2) by blast+
  have project: "\<forall>r' t' i. get_run d (step_run_id s) = Some r' \<longrightarrow> get_task d (run_task_id r') = Some t' \<longrightarrow> task_project_id t' = Some i \<longrightarrow>
      (\<exists>proj\<in>set (bd_projects (env_bundle env)). rj_id proj = i \<and>
             set (step_required_capabilities s) \<subseteq> capability_value ` rj_allowed_capabilities proj)"
  proof (intro allI impI)
    fix r' t' i
    assume "get_run d (step_run_id s) = Some r'" "get_task d (run_task_id r') = Some t'" "task_project_id t' = Some i"
    then have "task_project_id t = Some i" using routed_on_rows(2) [OF on] by (fastforce simp: task_core_def)
    from project_capabilities_named [OF core(2) this] obtain proj where "proj \<in> set (bd_projects (env_bundle env))"
        "rj_id proj = i" "caps = Some (rj_allowed_capabilities proj)" .
    then show "\<exists>proj\<in>set (bd_projects (env_bundle env)). rj_id proj = i \<and>
             set (step_required_capabilities s) \<subseteq> capability_value ` rj_allowed_capabilities proj"
      using ok(4) required by (intro bexI [of _ proj]) auto
  qed
  have caps: "set (step_required_capabilities s) \<subseteq> capability_value ` rp_capabilities p" using ok(2) required by auto
  have sandbox: "step_type s \<in> SANDBOX_STEPS \<longrightarrow> rp_sandbox_required p" using ok(3) request(3) by blast
  show ?thesis
    unfolding rows(1)
    by (intro conjI exI [of _ s] exI [of _ s'] exI [of _ p] exI [of _ res] exI [of _ x] project caps sandbox
        routed_claim_fresh [OF assms(2,1)] rows p ok(1) res(1,2) x(1,2,4))
      (use x(3) res(3) lease_payload_names(1,2) [OF pay] in simp_all)
qed

section \<open>Pinned models\<close>

lemma assignment_profileD:
  assumes "assignment_profile rv a b slot = Inr p"
  shows "p \<in> set (bd_profiles b) \<and> pp_id p = ma_profile_id a \<and> pp_model p = ma_model a \<and> rp_reasoning_effort p = ma_reasoning_effort a"
  using assms by (auto simp: assignment_profile_def res_simps eligible_profiles_def split: option.splits if_splits dest: find_SomeD)

lemma stored_choice_pinned:
  assumes "stored_choice env d s r t plan = Inr (choice, profile, pref)"
    and "matrix_slot s r plan = Some slot" and "pinned_assignment (run_selected_route r) (Some slot) = Inr (Some a)"
  shows "choice = Some a" and "\<exists>p. assignment_profile (env_revisions env) a (env_bundle env) slot = Inr p"
proof -
  note run = assms(1) [unfolded stored_choice_def assms(2,3) bindE.simps option.case prod.case]
  obtain p where p: "assignment_profile (env_revisions env) a (env_bundle env) slot = Inr p"
    using run by (cases "assignment_profile (env_revisions env) a (env_bundle env) slot") simp_all
  then show "\<exists>p. assignment_profile (env_revisions env) a (env_bundle env) slot = Inr p" ..
  show "choice = Some a" using run [unfolded p bindE.simps] unfolding res_simps by blast
qed

lemma sandboxed_slot:
  assumes "step_type s \<in> SANDBOX_STEPS" and "pl_chat plan = None"
    and "map_of PROVIDER_STEP_ROLES (step_type s) = Some (pl_role plan)"
  shows "matrix_slot s r plan = Some ''executor''"
  using assms by (auto simp: SANDBOX_STEPS_def PROVIDER_STEP_ROLES_def matrix_slot_def pin_eligible_def slot_for_role_def)

lemma plan_route_pinned:
  assumes "plan_route env d s r t attempt = Inr (Inr (plan, states))" and "step_type s \<in> SANDBOX_STEPS"
    and "jget (run_selected_route r) ''schema_version'' \<noteq> JStr ''discussion-chat-route.v1''"
    and "pinned_assignment (run_selected_route r) (Some ''executor'') = Inr (Some a)"
  shows "pl_family plan = Some {ma_profile_id a}" and "pl_matrix plan = Some a"
    and "\<exists>p. assignment_profile (env_revisions env) a (env_bundle env) ''executor'' = Inr p"
proof -
  obtain plan0 plan1 plan2 where st: "open_plan env d s r t attempt = Inr (Inr (plan0, states))"
      "chat_plan env s r t plan0 = Inr (Inr plan1)" "choice_plan env d s r t plan1 = Inr (Inr plan2)"
      "default_plan env s plan2 = Inr (Inr plan)"
    by (rule plan_route_stages [OF assms(1)])
  have role: "map_of PROVIDER_STEP_ROLES (step_type s) = Some (pl_role plan0)" "pl_chat plan0 = None"
    by (rule open_plan_fixes [OF st(1)], assumption)+
  have "plan1 = plan0" using st(2) assms(3) by (simp add: chat_plan_def)
  then have slot: "matrix_slot s r plan1 = Some ''executor''" using sandboxed_slot [OF assms(2) role(2,1)] by simp
  from st(3) have pinned: "pl_matrix plan2 = Some a \<and> pl_family plan2 = Some {ma_profile_id a} \<and>
      (\<exists>p. assignment_profile (env_revisions env) a (env_bundle env) ''executor'' = Inr p)"
  proof (cases rule: choice_plan_cases)
    case (pinned a' profile pref)
    note found = stored_choice_pinned [OF pinned(1) slot assms(4)]
    then show ?thesis using pinned(2) by simp
  next
    case (worker v profile)
    then show ?thesis using stored_choice_pinned(1) [OF worker(1) slot assms(4)] by simp
  next
    case (none profile pref)
    then show ?thesis using stored_choice_pinned(1) [OF none(1) slot assms(4)] by simp
  qed
  then show "pl_family plan = Some {ma_profile_id a}" "pl_matrix plan = Some a"
      "\<exists>p. assignment_profile (env_revisions env) a (env_bundle env) ''executor'' = Inr p"
    using default_plan_fixes(2) [OF st(4)] by simp_all
qed


section \<open>A route that cannot fail\<close>

text \<open>Once a profile is reserved for, the first decision of the attempt is recorded and the step leased.\<close>

lemma decide_route_succeeds:
  assumes "route_request env s r plan = Inr q"
    and "filter (\<lambda>i. case pl_family plan of None \<Rightarrow> True | Some ids \<Rightarrow> i \<in> ids)
      ((case pd_selected_profile_id (select_profile q (map routed_profile.truncate (bd_profiles (env_bundle env))) states (wall_now d)) of
          None \<Rightarrow> [] | Some i \<Rightarrow> [i]) @
        pd_alternatives (select_profile q (map routed_profile.truncate (bd_profiles (env_bundle env))) states (wall_now d))) = i # ids"
    and "try_profiles env s r t attempt plan (i # ids) no_refusals d = Inr (Some (p, res), f, d1)"
    and "pl_chat plan = None"
    and "\<forall>x\<in>set (db_decisions d). rd_step_id x = Some (step_id s) \<longrightarrow> rd_provider_attempt x \<noteq> attempt"
  shows "\<exists>tok d'. decide_route env owner secs s r t attempt plan states d = Inr (Some tok, d') \<and> sr_id (tok_step tok) = step_id s"
proof -
  have "db_decisions d1 = db_decisions d" using try_profiles_frame [OF assms(3)] by (simp add: budget_only_def)
  then obtain d2 where d2: "persist_decision r s (pl_role plan) attempt (Some (pp_id p)) (select_profile q
      (map routed_profile.truncate (bd_profiles (env_bundle env))) states (wall_now d)) q (decision_inputs r plan) d1 = Inr d2"
    using assms(5) unfolding persist_decision_def by (metis (no_types, lifting))
  obtain payload where pay: "lease_payload r s attempt plan p res = Inr payload"
    using assms(4) by (simp add: lease_payload_def chat_payload_def)
  obtain tok d3 where l: "lease_routed owner secs s t (pp_id p) payload d2 = (tok, d3)" by (metis prod.exhaust)
  have "sr_id (tok_step tok) = step_id s"
    using l by (auto simp: lease_routed_def Let_def step_record_of_def routed_row_def)
  moreover have "decide_route env owner secs s r t attempt plan states d = Inr (Some tok, d3)"
    unfolding decide_route_def assms(1) bindE.simps Let_def assms(2,3) using d2 pay l by simp
  ultimately show ?thesis by blast
qed

section \<open>A sample pass\<close>

definition routing_limits :: hard_limits where
  "routing_limits =
     \<lparr>hl_task_cost_units = 5, hl_task_input_tokens = 1000, hl_task_output_tokens = 1000,
      hl_step_cost_units = 5, hl_step_input_tokens = 1000, hl_step_output_tokens = 1000,
      hl_provider_call_input_tokens = 500, hl_provider_call_output_tokens = 500,
      hl_daily_cost_units = 4, hl_daily_quota_units = 10, hl_usage_total_hard = True,
      hl_estimated_cost_hard = True, hl_explicit_money_cap_units = None, hl_max_work_attempts = 5,
      hl_max_provider_calls = 5, hl_max_replans = 2, hl_review_allowance_input_tokens = 10,
      hl_review_allowance_output_tokens = 10, hl_review_allowance_cost_units = 1\<rparr>"

definition routing_project :: registered_project where
  "routing_project = \<lparr>rj_id = ''demo'', rj_repository_path = \<lparr>path_absolute = True, path_parts = [''srv'', ''demo'']\<rparr>,
     rj_allowed_capabilities = {CAP_REPOSITORY_READ}, rj_sandbox_profile = ''default'', rj_validation_sandbox_profile = None,
     rj_summary_path = None, rj_enabled = True, rj_git_delivery = JNull, rj_network = JNull, rj_static_deployment = JNull\<rparr>"

definition routing_env :: route_env where
  "routing_env =
     \<lparr>env_settings = \<lparr>rg_limits = routing_limits, rg_provider_attempts = 3,
        rg_disk = \<lparr>ds_min_free_bytes = 100, ds_paths = [''/var''], ds_worktree_root = ''/w'', ds_artifact_root = ''/a''\<rparr>,
        rg_default_executor = Some ''a''\<rparr>,
      env_bundle = sample_bundle\<lparr>bd_projects := [routing_project],
        bd_profiles := [sample_config ''a'' ''x'' [''b''], sample_config ''b'' ''x'' []]\<rparr>,
      env_revisions = sample_revisions, env_health = sample_health, env_probe = (\<lambda>_. Some 500),
      env_text_chars = (\<lambda>_. 100), env_work_context = (\<lambda>_ _ _. Inr []), env_constraint_chars = (\<lambda>_. None)\<rparr>"

definition pinned_choice :: model_assignment where
  "pinned_choice = \<lparr>ma_profile_id = ''b'', ma_model = ''m'', ma_reasoning_effort = None, ma_content_revision = replicate 64 CHR ''a''\<rparr>"

definition routing_step :: step where
  "routing_step = sample_step\<lparr>step_required_capabilities := [''repository_read'']\<rparr>"

definition routing_run :: run where
  "routing_run = sample_run\<lparr>run_selected_route := [(MATRIX_KEY, JObj [(''executor'', dump_assignment pinned_choice)])]\<rparr>"

definition routing_task :: task where
  "routing_task = sample_task\<lparr>task_type := ''feature''\<rparr>"

definition routing_db :: db where
  "routing_db = sample_db\<lparr>db_tasks := [routing_task], db_runs := [routing_run], db_steps := [routing_step]\<rparr>"

definition planned :: "error + (blocked + 'a) \<Rightarrow> 'a option" where
  "planned x = (case x of Inr (Inr y) \<Rightarrow> Some y | _ \<Rightarrow> None)"

lemma planned_the: "planned x \<noteq> None \<Longrightarrow> x = Inr (Inr (the (planned x)))"
  by (auto simp: planned_def split: sum.splits)

definition routing_plan :: "route_plan \<times> (string \<rightharpoonup> profile_state)" where
  "routing_plan = the (planned (plan_route routing_env routing_db routing_step routing_run routing_task 1))"

lemma routing_planned: "plan_route routing_env routing_db routing_step routing_run routing_task 1 = Inr (Inr routing_plan)"
  unfolding routing_plan_def by (rule planned_the) code_simp

definition routing_request :: routing_request where
  "routing_request = result_or sample_request (route_request routing_env routing_step routing_run (fst routing_plan))"

lemma routing_requested: "route_request routing_env routing_step routing_run (fst routing_plan) = Inr routing_request"
  unfolding routing_request_def by (rule result_or_Inr) code_simp

lemma routing_offered:
  "filter (\<lambda>i. case pl_family (fst routing_plan) of None \<Rightarrow> True | Some ids \<Rightarrow> i \<in> ids)
      ((case pd_selected_profile_id (select_profile routing_request (map routed_profile.truncate (bd_profiles (env_bundle routing_env)))
            (snd routing_plan) (wall_now routing_db)) of None \<Rightarrow> [] | Some i \<Rightarrow> [i]) @
        pd_alternatives (select_profile routing_request (map routed_profile.truncate (bd_profiles (env_bundle routing_env)))
            (snd routing_plan) (wall_now routing_db))) = [''b'']"
  by code_simp

definition reserves :: "error + (profile_config \<times> budget_reservation) option \<times> refusals \<times> db \<Rightarrow> bool" where
  "reserves r = (case r of Inr (Some _, _, _) \<Rightarrow> True | _ \<Rightarrow> False)"

lemma routing_reserves: "reserves (try_profiles routing_env routing_step routing_run routing_task 1 (fst routing_plan) [''b''] no_refusals routing_db)"
  by code_simp

lemma routing_rows:
  "distinct (map step_id (db_steps routing_db))" "distinct (map pp_id (bd_profiles (env_bundle routing_env)))"
  "get_step routing_db 3 = Some routing_step" "step_type routing_step \<in> SANDBOX_STEPS"
  "get_run routing_db (step_run_id routing_step) = Some routing_run"
  "jget (run_selected_route routing_run) ''schema_version'' \<noteq> JStr ''discussion-chat-route.v1''"
  "pinned_assignment (run_selected_route routing_run) (Some ''executor'') = Inr (Some pinned_choice)"
  by code_simp+

lemma routing_gate:
  "step_queue_class routing_step = Q_HEAVY \<and>
     da_blocked (assess_heavy_claim_gate (Some (rg_disk (env_settings routing_env))) (env_probe routing_env)) \<or>
     \<not> within_class_limit routing_db None routing_step \<longleftrightarrow> False"
  "get_task routing_db (run_task_id routing_run) = Some routing_task" "decision_count routing_db (step_id routing_step) + 1 = 1"
  "map step_id (claim_candidates routing_db {} UNIV UNIV (Some {''execute_code''}) (nat 20)) = [3]"
  "pl_chat (fst routing_plan) = None" "db_decisions routing_db = []" "step_id routing_step = 3"
  by code_simp+

lemma routing_leases:
  obtains tok d' where "claim_routed_step routing_env {} ''w'' 60 20 None {''execute_code''} routing_db = Inr (Some tok, d')"
    and "sr_id (tok_step tok) = 3"
proof -
  obtain p res f d1 where found: "try_profiles routing_env routing_step routing_run routing_task 1 (fst routing_plan) [''b'']
      no_refusals routing_db = Inr (Some (p, res), f, d1)"
    using routing_reserves unfolding reserves_def by (auto split: sum.splits option.splits)
  obtain tok d' where decided: "decide_route routing_env ''w'' 60 routing_step routing_run routing_task 1 (fst routing_plan)
      (snd routing_plan) routing_db = Inr (Some tok, d')" "sr_id (tok_step tok) = 3"
    using decide_route_succeeds [OF routing_requested routing_offered found routing_gate(5), of "''w''" 60] routing_gate(6,7) by auto
  have "route_one routing_env ''w'' 60 routing_step routing_run routing_task routing_db = Inr (Some tok, d')"
    unfolding route_one_def Let_def routing_gate(3) routing_planned bindE.simps
    using decided(1) by (simp add: case_prod_unfold)
  then have "claim_routed_step routing_env {} ''w'' 60 20 None {''execute_code''} routing_db = Inr (Some tok, d')"
    unfolding claim_routed_step_def routing_gate(4) route_pass.simps routing_rows(3,5) option.case routing_gate(1,2) if_False by simp
  then show thesis using that decided(2) by blast
qed

theorem routed_lease_is_admitted_witness:
  "\<exists>tok d'. claim_routed_step routing_env {} ''w'' 60 20 None {''execute_code''} routing_db = Inr (Some tok, d') \<and>
     sr_id (tok_step tok) = 3 \<and> freshly_claimed routing_db tok d' \<and>
     (\<exists>s' p. get_step d' 3 = Some s' \<and> p \<in> set (bd_profiles (env_bundle routing_env)) \<and>
        step_executor_profile_id s' = Some (pp_id p) \<and> rp_sandbox_required p)"
proof -
  obtain tok d' where run: "claim_routed_step routing_env {} ''w'' 60 20 None {''execute_code''} routing_db = Inr (Some tok, d')"
      and tok: "sr_id (tok_step tok) = 3"
    by (rule routing_leases)
  from routed_lease_is_admitted [OF run routing_rows(1,2)] show ?thesis
    unfolding tok routing_rows(3) using run tok routing_rows(4) by auto
qed


end
