(* ===== verification/Spec2Isabelle.thy ===== *)
theory Spec2Isabelle
  imports Retry_Policy Commit_Properties Activation Recovery_Properties Control_Properties
    Scaffold_Gate Review_Properties Message_Splitter Message_Safety Egress Delivery_Refinement
    Provider_Health Registries Routing_Properties
begin

text \<open>
  Vuzol is a self-hosted agent: it takes a task from a chat, compiles it into a workflow of steps,
  leases the steps to workers that call model providers or run sandboxed processes, commits their
  outcomes under a lease fence, and delivers an approved result by moving a Git branch. Its state is
  a PostgreSQL database; every operation is one transaction over it. This development models the
  transactional core under \<^verbatim>\<open>src/src/vuzol\<close> and proves what keeps it correct: no work is committed
  twice or repeated after an unknown effect, no money is charged twice or beyond a cap, no branch
  moves without an approved and recorded intent, and no step goes to a provider that may not take it.

  \<^bold>\<open>Parts and theories\<close>

  \<^descr> \<open>Foundations.\<close> \<open>Vuzol_Prelude\<close> (results, JSON values, identifiers, tables as lists of rows and the
    locale \<open>row_store\<close> with the laws of reading after updating), \<open>Py_Json\<close> and \<open>Py_Text\<close> (the parts of
    the Python library the sources use), \<open>Storage_Types\<close> and \<open>Storage_Models\<close> (\<^verbatim>\<open>storage/types.py\<close>,
    \<^verbatim>\<open>storage/models.py\<close>: the enumerations and one record per table), \<open>Sample_Rows\<close> and
    \<open>Workflow_Samples\<close> (the concrete rows on which the statements are evaluated).
  \<^descr> \<open>State machines and leases.\<close> \<open>Transitions\<close> (\<^verbatim>\<open>workflows/transitions.py\<close>), \<open>Lead_Events\<close>
    (\<^verbatim>\<open>workflows/lead_events.py\<close>), \<open>Disk_Pressure\<close> (\<^verbatim>\<open>ops/disk_pressure.py\<close>), \<open>Leasing\<close>
    (\<^verbatim>\<open>storage/leasing.py\<close>: claims, heartbeats, fences of steps and of the outbox).
  \<^descr> \<open>The workflow service.\<close> \<open>Compiler\<close> (\<^verbatim>\<open>workflows/domain.py\<close>, \<^verbatim>\<open>workflows/compiler.py\<close>), \<open>Evidence\<close> and
    \<open>Result_Approval\<close> (\<^verbatim>\<open>workflows/result_approval.py\<close>), \<open>Effects\<close> (\<^verbatim>\<open>execution/effect.py\<close>),
    \<open>Recovery_Policy\<close> and \<open>Retry_Policy\<close>, \<open>Workflow_Steps\<close> and \<open>Workflow_Service\<close>
    (\<^verbatim>\<open>workflows/service.py\<close>); \<open>Workflow_Frame\<close> and \<open>Workflow_Commit\<close> carry the frame and the case
    analysis that \<open>Commit_Properties\<close> and \<open>Activation\<close> rest on.
  \<^descr> \<open>The worker.\<close> \<open>Worker\<close> (\<^verbatim>\<open>workflows/worker.py\<close>): one round of claim, start, handler and commit, and
    the conservative closing of an interrupted one, over the locale \<open>claimer\<close> that both the plain and
    the routed claim interpret. \<open>Lease_Recovery\<close> and \<open>Recovery_Properties\<close>
    (\<^verbatim>\<open>workflows/recovery.py\<close>): what happens to a lease that expired.
  \<^descr> \<open>Owner controls.\<close> \<open>Controls\<close>, \<open>Control_Recovery\<close>, \<open>Application\<close>, \<open>Control_Properties\<close>
    (\<^verbatim>\<open>workflows/controls.py\<close>, \<^verbatim>\<open>workflows/application.py\<close>).
  \<^descr> \<open>Money.\<close> \<open>Budget_Ledger\<close>, \<open>Budgets\<close>, \<open>Settlement\<close>, \<open>Budget_Properties\<close> (\<^verbatim>\<open>providers/budgets.py\<close> and the
    accounting it calls): admission, reservation, settlement and late receipts.
  \<^descr> \<open>Providers.\<close> \<open>Provider_Policy\<close> (\<^verbatim>\<open>providers/policy.py\<close>), \<open>Provider_Health\<close> (\<^verbatim>\<open>providers/health.py\<close>),
    \<open>Registries\<close> (\<^verbatim>\<open>config/registries.py\<close>), \<open>Executor_Preference\<close> (\<^verbatim>\<open>projects/executor_preference.py\<close>,
    \<^verbatim>\<open>projects/model_matrix.py\<close>), \<open>Provider_Routing\<close> and \<open>Routing_Properties\<close>
    (\<^verbatim>\<open>providers/routing.py\<close>): which profile takes a step, and the claim that puts it there.
  \<^descr> \<open>Delivery.\<close> \<open>Git_Local\<close> (\<^verbatim>\<open>execution/git.py\<close>), \<open>Git_Contract\<close>, \<open>Result_Apply\<close>
    (\<^verbatim>\<open>execution/result_apply.py\<close>), \<open>Effect_Reconciliation\<close>
    (\<^verbatim>\<open>execution/effect_reconciliation.py\<close>), \<open>Delivery_Properties\<close>, \<open>Delivery_Refinement\<close>.
  \<^descr> \<open>Checks on results.\<close> \<open>Scaffold_Gate\<close> (\<^verbatim>\<open>execution/scaffold.py\<close>), \<open>Review_Policy\<close>,
    \<open>Review_Partitions\<close>, \<open>Review_Properties\<close> (\<^verbatim>\<open>review/policy.py\<close>, \<^verbatim>\<open>review/partitions.py\<close>).
  \<^descr> \<open>Boundaries.\<close> \<open>Message_Format\<close>, \<open>Message_Splitter\<close>, \<open>Message_Safety\<close> (\<^verbatim>\<open>telegram/formatting.py\<close>) and
    \<open>Egress\<close> (\<^verbatim>\<open>execution/egress.py\<close>).

  \<^bold>\<open>How the code is represented\<close>

  The database is the record \<open>db\<close>: one list per table, the clock readings \<open>db_now\<close> (of the
  transaction) and \<open>wall_now\<close> (of the process), the source \<open>next_uuid\<close> of fresh identifiers, and
  \<open>db_calls\<close>, the calls into projections and captures that are not modelled, in the order they are made.
  An operation takes the database and returns \<open>Inl\<close> with the exception it raises or \<open>Inr\<close> with its result
  and the new database: an exception that leaves the transaction undoes it. Where the source catches an
  exception inside a transaction, what was written before stays, as with the notes of soft limits
  after a refused reservation in \<open>Provider_Routing\<close>. Rows are written through: an object of the session
  and its row are the same. The rows other transactions hold are an argument wherever the source
  says SKIP LOCKED. Interleaving of transactions is stated over sequences of operations and, in
  \<open>Worker\<close> and \<open>Delivery_Refinement\<close>, over arbitrary steps of the rest of the program in between.

  Python integers are \<open>int\<close>; decimals and seconds are rationals, so that sums are exact as in the source;
  days are those of UTC. JSON values hold integers and no other numbers. Texts shown to a user are
  transliterated to ASCII. Case folding, white space and paths in \<open>Py_Text\<close> are those of ASCII and of
  bytes, while \<open>Message_Format\<close> works on code points. What the program gets from outside is an
  argument of the definitions that use it: the platform (digests, file probes), free disk space,
  the resolution of paths, the handlers of a worker and the moments at which it is cancelled, the
  revision digests of a profile, the health tables, the stored discussion context and the size of the
  texts of a request. The Git commands are a parameter too; \<open>git_contract\<close> states as a locale what is
  relied on of them, and a small repository model shows that the contract can be met.

  \<^bold>\<open>What is proved\<close>

  \<^item> Commits and leases: a lease commits at most once and a stale one changes nothing; class limits hold;
    an unknown outcome stops the run; a run completes only when all its steps are done and no effect is
    unsettled; the status of a task follows its run; settled entities stay settled and the event
    trail replays to the current status; a step is activated only after its predecessors.
  \<^item> Recovery and controls: an interrupted or expired step is repeated only when that is safe, its
    reservations are closed, a pause revokes leases for good, an approval is decided once, and a control
    based on an old version is refused.
  \<^item> Delivery: a branch moves only behind a recorded intent of an approved result, by compare and swap;
    after a restart the reconciler completes the delivery and the record follows the branch. The
    handler and the reconciler refine an abstract life cycle of deliveries (locale \<open>simulation\<close>).
  \<^item> Money: daily caps and the explicit cap hold after every admission, admission is idempotent, and over
    any sequence of ledger operations nothing is charged twice.
  \<^item> Providers: the policy selects the best admissible profile; a failure bars a profile for its cooldown;
    the search over fallbacks accepts exactly the acyclic registries; command-line profiles are
    isolated; a routed lease is admitted, decided and reserved for; a pinned model keeps its meaning
    from the choice to the lease.
  \<^item> Boundaries: diff slices and message parts are lossless, partitions cover a change, rendered
    markup is safe, the egress allow list is canonical, approval envelopes round-trip.

  Locales state the interfaces: \<open>row_store\<close>, \<open>lifecycle\<close>, \<open>fenced_lease\<close>, \<open>workflow_frame\<close>, \<open>versioned\<close>,
  \<open>fenced_writer\<close>, \<open>claimer\<close>, \<open>git_contract\<close>, \<open>delivery_system\<close> and \<open>simulation\<close>; each is interpreted in the
  theory that provides it.

  \<^bold>\<open>Bounds\<close>

  Loops are structural recursion or functions with a termination proof: the depth-first search of
  \<open>Registries\<close> ends because the path of the search grows within the registered profiles. The loop of the
  message splitter may not end for a limit below two code units; it is a partial function into an
  option, and is shown to return for every limit of at least two that holds each character
  reference of the message. The climb from a task to the root of its
  family, and the way back down, take at most 20 levels because the source bounds them so. No other
  fuel is used.

  \<^bold>\<open>Not modelled\<close>

  Provider adapters and transports, sandbox and container processes, worktree files and Git's own
  object store, the Telegram client, ingress and card projections, the HTTP application, command-line
  entry points, migrations and the database engine: these are input and output, or glue over
  libraries. The lead agent, interpretation, research, chat memory and the inbox assemble prompts and
  store what a model answers; of them only the rows, rules and limits the core reads are modelled.
  Retention, deployment and project provisioning move files and processes. Within modelled parts the
  heartbeat loop of a worker is an argument, and logging and metrics are left out.
\<close>

end
